(* ===== verification/Prelude.thy ===== *)
theory Prelude
  imports Complex_Main "HOL-Library.Sublist"
begin

text \<open>
  The vocabulary every component shares: the JavaScript idioms the source leans on
  (truthiness, \<open>String(x)\<close>, \<open>split\<close>, the unanchored regular expressions of the Zod
  schemas), and the effect monad \<open>io\<close> in which each \<open>async\<close> function of the source is
  written. A computation maps the world to a result or a thrown error and the new world;
  the world of a failed computation keeps every write made before the throw, because the
  source never opens a transaction.
\<close>

section \<open>Collections of facts\<close>

named_theorems js_simps \<open>evaluation of JavaScript idioms\<close>
named_theorems io_simps \<open>evaluation of the effect monad\<close>
named_theorems hist_intros \<open>history rules: one per way of building a computation\<close>

section \<open>JavaScript values\<close>

text \<open>A nullable string is truthy when it is present and not empty.\<close>

fun truthy :: "string option \<Rightarrow> bool" where
  "truthy None = False"
| "truthy (Some s) = (s \<noteq> [])"

text \<open>A nullable row id is truthy when it is present and not zero.\<close>

fun truthy_id :: "nat option \<Rightarrow> bool" where
  "truthy_id None = False"
| "truthy_id (Some n) = (n \<noteq> 0)"

text \<open>\<open>x || undefined\<close> on a nullable id.\<close>

definition id_or_undefined :: "nat option \<Rightarrow> nat option" where
  "id_or_undefined x = (if truthy_id x then x else None)"

text \<open>\<open>a || b\<close> on nullable strings.\<close>

definition str_or :: "string option \<Rightarrow> string option \<Rightarrow> string option" where
  "str_or a b = (if truthy a then a else b)"

text \<open>\<open>String(x)\<close> of a nullable database string.\<close>

fun js_String :: "string option \<Rightarrow> string" where
  "js_String None = ''null''"
| "js_String (Some s) = s"

text \<open>\<open>Math.trunc\<close>: rounds towards zero.\<close>

definition js_trunc :: "rat \<Rightarrow> int" where
  "js_trunc x = (if 0 \<le> x then \<lfloor>x\<rfloor> else \<lceil>x\<rceil>)"

text \<open>\<open>s.split(c)\<close> for a one-character separator; the result is never empty.\<close>

fun split_on :: "char \<Rightarrow> string \<Rightarrow> string list" where
  "split_on c [] = [[]]"
| "split_on c (x # xs) =
     (if x = c then [] # split_on c xs
      else (case split_on c xs of [] \<Rightarrow> [[x]] | p # ps \<Rightarrow> (x # p) # ps))"

text \<open>\<open>s.join\<close>, the inverse of \<open>split_on\<close>.\<close>

fun join_with :: "char \<Rightarrow> string list \<Rightarrow> string" where
  "join_with c [] = []"
| "join_with c [p] = p"
| "join_with c (p # q # ps) = p @ c # join_with c (q # ps)"

text \<open>
  The idiom \<open>if (a.match(':')) a = a.split(':')[1]\<close>, which drops a URI scheme such as
  \<open>bitcoincash:\<close> from an address.
\<close>

definition strip_scheme :: "string \<Rightarrow> string" where
  "strip_scheme a = (if CHR '':'' \<in> set a then split_on (CHR '':'') a ! 1 else a)"

text \<open>
  Regular expressions of the source are literal text in which \<open>.\<close> stands for any
  character but a line end, searched for anywhere in the subject: \<open>/invoice.paid/\<close>.
\<close>

fun re_here :: "string \<Rightarrow> string \<Rightarrow> bool" where
  "re_here [] s = True"
| "re_here (p # ps) [] = False"
| "re_here (p # ps) (c # cs) =
     ((if p = CHR ''.'' then c \<noteq> CHR 0x0A \<and> c \<noteq> CHR 0x0D else p = c) \<and> re_here ps cs)"

fun re_search :: "string \<Rightarrow> string \<Rightarrow> bool" where
  "re_search p [] = re_here p []"
| "re_search p (c # cs) = (re_here p (c # cs) \<or> re_search p cs)"

fun to_lower_char :: "char \<Rightarrow> char" where
  "to_lower_char c =
     (if 65 \<le> (of_char c :: nat) \<and> (of_char c :: nat) \<le> 90
      then char_of ((of_char c :: nat) + 32) else c)"

definition to_lower :: "string \<Rightarrow> string" where
  "to_lower s = map to_lower_char s"

lemma split_on_nonempty [simp]: "split_on c s \<noteq> []"
  by (induction s) (auto split: list.splits)

lemma split_on_no_sep [js_simps]: "c \<notin> set s \<Longrightarrow> split_on c s = [s]"
  by (induction s) auto

lemma length_split_on: "length (split_on c s) = Suc (count_list s c)"
  by (induction s) (auto split: list.splits)

lemma split_on_parts: "p \<in> set (split_on c s) \<Longrightarrow> c \<notin> set p"
proof (induction s arbitrary: p)
  case Nil
  then show ?case by simp
next
  case (Cons x xs)
  then show ?case by (cases "split_on c xs") (auto split: if_splits)
qed

lemma join_split: "join_with c (split_on c s) = s"
proof (induction s)
  case Nil
  then show ?case by simp
next
  case (Cons x xs)
  then obtain p ps where "split_on c xs = p # ps"
    by (cases "split_on c xs") auto
  with Cons show ?case by (cases ps) auto
qed

lemma strip_scheme_no_colon: "CHR '':'' \<notin> set (strip_scheme a)"
proof (cases "CHR '':'' \<in> set a")
  case True
  then have "1 < length (split_on (CHR '':'') a)"
    by (metis count_list_0_iff gr0I length_split_on One_nat_def Suc_less_eq)
  then have "split_on (CHR '':'') a ! 1 \<in> set (split_on (CHR '':'') a)"
    by (rule nth_mem)
  with True show ?thesis by (simp add: strip_scheme_def split_on_parts)
qed (simp add: strip_scheme_def)

lemma strip_scheme_idem [simp]: "strip_scheme (strip_scheme a) = strip_scheme a"
  using strip_scheme_no_colon [of a] by (simp add: strip_scheme_def)

lemma re_here_prefix:
  "CHR ''.'' \<notin> set p \<Longrightarrow> re_here p s \<longleftrightarrow> prefix p s"
  by (induction p s rule: re_here.induct) auto

lemma re_search_sublist:
  "CHR ''.'' \<notin> set p \<Longrightarrow> re_search p s \<longleftrightarrow> sublist p s"
proof (induction s)
  case Nil
  then show ?case by (simp add: re_here_prefix)
next
  case (Cons c cs)
  then show ?case by (simp add: re_here_prefix sublist_Cons_right)
qed

lemma id_or_undefined_Some [simp]: "id_or_undefined x = Some n \<longleftrightarrow> x = Some n \<and> n \<noteq> 0"
  by (cases x) (auto simp: id_or_undefined_def)

lemma js_trunc_of_int [simp]: "js_trunc (of_int n) = n"
  by (simp add: js_trunc_def)

lemma js_trunc_bounds: "\<bar>of_int (js_trunc x)\<bar> \<le> \<bar>x\<bar>" "\<bar>x - of_int (js_trunc x)\<bar> < 1"
  unfolding js_trunc_def by (simp_all split: if_splits) linarith+

section \<open>Errors\<close>

text \<open>
  What a function of the source throws: an error of the database client, a rejected
  schema, a \<open>TypeError\<close> of the runtime, or an \<open>Error\<close> with its message. \<open>NeverSettles\<close> is
  not thrown: it marks a promise that is never resolved, where the function stops for good.
\<close>

datatype prisma_error = RecordNotFound | UniqueViolation | InvalidValue

datatype js_error =
  PrismaError prisma_error
| ZodError
| JoiError
| JsTypeError
| NeverSettles
| JsError string

section \<open>The effect monad\<close>

type_synonym ('w, 'a) io = "'w \<Rightarrow> (js_error + 'a) \<times> 'w"

definition ret :: "'a \<Rightarrow> ('w, 'a) io" where
  "ret a = (\<lambda>w. (Inr a, w))"

definition throw :: "js_error \<Rightarrow> ('w, 'a) io" where
  "throw e = (\<lambda>w. (Inl e, w))"

definition bnd :: "('w, 'a) io \<Rightarrow> ('a \<Rightarrow> ('w, 'b) io) \<Rightarrow> ('w, 'b) io" where
  "bnd m k = (\<lambda>w. case m w of (Inl e, w') \<Rightarrow> (Inl e, w') | (Inr a, w') \<Rightarrow> k a w')"

text \<open>
  \<open>try { m } catch (e) { h(e) }\<close>: the writes of \<open>m\<close> stay. A promise that never settles is
  not caught.
\<close>

definition catch :: "('w, 'a) io \<Rightarrow> (js_error \<Rightarrow> ('w, 'a) io) \<Rightarrow> ('w, 'a) io" where
  "catch m h = (\<lambda>w. case m w of
       (Inl e, w') \<Rightarrow> if e = NeverSettles then (Inl e, w') else h e w'
     | (Inr a, w') \<Rightarrow> (Inr a, w'))"

definition reads :: "('w \<Rightarrow> 'a) \<Rightarrow> ('w, 'a) io" where
  "reads f = (\<lambda>w. (Inr (f w), w))"

definition writes :: "('w \<Rightarrow> 'w) \<Rightarrow> ('w, unit) io" where
  "writes f = (\<lambda>w. (Inr (), f w))"

definition lift_result :: "js_error + 'a \<Rightarrow> ('w, 'a) io" where
  "lift_result r = (\<lambda>w. (r, w))"

definition guard_io :: "bool \<Rightarrow> js_error \<Rightarrow> ('w, unit) io" where
  "guard_io b e = (if b then ret () else throw e)"

text \<open>\<open>for (let x of xs) { await f(x) }\<close>\<close>

primrec for_each :: "('a \<Rightarrow> ('w, unit) io) \<Rightarrow> 'a list \<Rightarrow> ('w, unit) io" where
  "for_each f [] = ret ()"
| "for_each f (x # xs) = bnd (f x) (\<lambda>_. for_each f xs)"

text \<open>\<open>await Promise.all(xs.map(async x => f(x)))\<close>, the elements run in list order.\<close>

primrec map_io :: "('a \<Rightarrow> ('w, 'b) io) \<Rightarrow> 'a list \<Rightarrow> ('w, 'b list) io" where
  "map_io f [] = ret []"
| "map_io f (x # xs) = bnd (f x) (\<lambda>y. bnd (map_io f xs) (\<lambda>ys. ret (y # ys)))"

lemma ret_run [io_simps]: "ret a w = (Inr a, w)"
  by (simp add: ret_def)

lemma throw_run [io_simps]: "throw e w = (Inl e, w)"
  by (simp add: throw_def)

lemma reads_run [io_simps]: "reads f w = (Inr (f w), w)"
  by (simp add: reads_def)

lemma writes_run [io_simps]: "writes f w = (Inr (), f w)"
  by (simp add: writes_def)

lemma lift_result_run [io_simps]: "lift_result r w = (r, w)"
  by (simp add: lift_result_def)

lemma bnd_run [io_simps]:
  "bnd m k w = (case m w of (Inl e, w') \<Rightarrow> (Inl e, w') | (Inr a, w') \<Rightarrow> k a w')"
  by (simp add: bnd_def)

lemma catch_run [io_simps]:
  "catch m h w = (case m w of
       (Inl e, w') \<Rightarrow> if e = NeverSettles then (Inl e, w') else h e w'
     | (Inr a, w') \<Rightarrow> (Inr a, w'))"
  by (simp add: catch_def)

lemma guard_io_run [io_simps]: "guard_io b e w = (if b then (Inr (), w) else (Inl e, w))"
  by (simp add: guard_io_def io_simps)

lemma bnd_ret [simp]: "bnd (ret a) k = k a"
  by (simp add: bnd_def ret_def)

lemma bnd_throw [simp]: "bnd (throw e) k = throw e"
  by (simp add: bnd_def throw_def)

lemma bnd_assoc: "bnd (bnd m k) l = bnd m (\<lambda>a. bnd (k a) l)"
  by (rule ext) (simp add: bnd_def split: prod.splits sum.splits)

section \<open>Histories\<close>

text \<open>
  A computation follows a history relation when, from any world, the world it leaves
  (returning or throwing) is related to the one it started in. The relation is
  reflexive and transitive, so the rules compose: proving that an operation keeps an
  invariant, or never removes a row, is one application of the rules per statement of
  the source.
\<close>

definition follows :: "('w \<Rightarrow> 'w \<Rightarrow> bool) \<Rightarrow> ('w, 'a) io \<Rightarrow> bool" where
  "follows R m \<longleftrightarrow> (\<forall>w. R w (snd (m w)))"

locale history =
  fixes R :: "'w \<Rightarrow> 'w \<Rightarrow> bool"
  assumes R_refl: "R w w"
    and R_trans: "R u v \<Longrightarrow> R v w \<Longrightarrow> R u w"
begin

lemma follows_ret: "follows R (ret a)"
  by (simp add: follows_def io_simps R_refl)

lemma follows_throw: "follows R (throw e)"
  by (simp add: follows_def io_simps R_refl)

lemma follows_reads: "follows R (reads f)"
  by (simp add: follows_def io_simps R_refl)

lemma follows_lift: "follows R (lift_result r)"
  by (simp add: follows_def io_simps R_refl)

lemma follows_guard: "follows R (guard_io b e)"
  by (simp add: follows_def io_simps R_refl)

lemma follows_writes: "(\<And>w. R w (f w)) \<Longrightarrow> follows R (writes f)"
  by (simp add: follows_def io_simps)

lemma follows_bnd:
  assumes "follows R m" and "\<And>a. follows R (k a)"
  shows "follows R (bnd m k)"
  unfolding follows_def
proof
  fix w
  obtain r w' where m: "m w = (r, w')" by (cases "m w")
  with assms(1) have "R w w'" by (metis follows_def snd_conv)
  with m assms(2) show "R w (snd (bnd m k w))"
    by (cases r) (auto simp: bnd_run follows_def intro: R_trans)
qed

lemma follows_catch:
  assumes "follows R m" and "\<And>e. follows R (h e)"
  shows "follows R (catch m h)"
  unfolding follows_def
proof
  fix w
  obtain r w' where m: "m w = (r, w')" by (cases "m w")
  with assms(1) have "R w w'" by (metis follows_def snd_conv)
  with m assms(2) show "R w (snd (catch m h w))"
    by (cases r) (auto simp: catch_run follows_def intro: R_trans)
qed

lemma follows_if: "follows R a \<Longrightarrow> follows R b \<Longrightarrow> follows R (if c then a else b)"
  by simp

lemma follows_option:
  "follows R a \<Longrightarrow> (\<And>x. follows R (f x)) \<Longrightarrow> follows R (case z of None \<Rightarrow> a | Some x \<Rightarrow> f x)"
  by (cases z) simp_all

lemma follows_list:
  "follows R a \<Longrightarrow> (\<And>x xs. follows R (f x xs)) \<Longrightarrow>
   follows R (case z of [] \<Rightarrow> a | x # xs \<Rightarrow> f x xs)"
  by (cases z) simp_all

lemma follows_sum:
  "(\<And>x. follows R (f x)) \<Longrightarrow> (\<And>y. follows R (g y)) \<Longrightarrow>
   follows R (case z of Inl x \<Rightarrow> f x | Inr y \<Rightarrow> g y)"
  by (cases z) simp_all

lemma follows_prod: "(\<And>x y. follows R (f x y)) \<Longrightarrow> follows R (case z of (x, y) \<Rightarrow> f x y)"
  by (cases z) simp

lemma follows_Let: "(\<And>x. follows R (f x)) \<Longrightarrow> follows R (Let z f)"
  by (simp add: Let_def)

lemma follows_for_each: "(\<And>x. follows R (f x)) \<Longrightarrow> follows R (for_each f xs)"
  by (induction xs) (auto intro: follows_ret follows_bnd)

lemma follows_map_io: "(\<And>x. follows R (f x)) \<Longrightarrow> follows R (map_io f xs)"
  by (induction xs) (auto intro: follows_ret follows_bnd)

lemmas follows_rules = follows_ret follows_throw follows_reads follows_lift follows_guard
  follows_bnd follows_catch follows_if follows_option follows_list follows_sum follows_prod
  follows_Let follows_for_each follows_map_io

end

text \<open>Keeping an invariant is following a history.\<close>

definition keeping :: "('w \<Rightarrow> bool) \<Rightarrow> 'w \<Rightarrow> 'w \<Rightarrow> bool" where
  "keeping I w w' \<longleftrightarrow> (I w \<longrightarrow> I w')"

interpretation keep: history "keeping I" for I
  by unfold_locales (auto simp: keeping_def)

lemma keepingD: "follows (keeping I) m \<Longrightarrow> I w \<Longrightarrow> I (snd (m w))"
  by (simp add: follows_def keeping_def)

end
