(* ===== verification/Store.thy ===== *)
theory Store
  imports Prelude "HOL-Library.Multiset"
begin

text \<open>
  The database as the program sees it. A table is the list of its rows by id, from id 1,
  with holes where rows were deleted: the id of a new row is one more than the length of
  the list, as the \<open>autoincrement()\<close> default of \<open>prisma/schema.prisma\<close> never reuses one. The Prisma client is
  not part of the repository: its five calls are a parameter, a record of functions, and
  what the source relies on is the locale \<open>table_client\<close>. Which of several matching rows
  \<open>findFirst\<close> returns, and in which order \<open>findMany\<close> lists them, is left open by the laws,
  as the client's documentation leaves it open when there is no \<open>orderBy\<close>.
\<close>

section \<open>Tables\<close>

type_synonym 'r table = "'r option list"

definition row :: "'r table \<Rightarrow> nat \<Rightarrow> 'r option" where
  "row t i = (if 0 < i \<and> i \<le> length t then t ! (i - 1) else None)"

definition put :: "'r table \<Rightarrow> nat \<Rightarrow> 'r option \<Rightarrow> 'r table" where
  "put t i x = (if 0 < i then t[i - 1 := x] else t)"

definition next_id :: "'r table \<Rightarrow> nat" where
  "next_id t = Suc (length t)"

fun rows :: "'r table \<Rightarrow> 'r list" where
  "rows [] = []"
| "rows (None # t) = rows t"
| "rows (Some r # t) = r # rows t"

text \<open>Every row carries the id it is stored under.\<close>

definition ids_ok :: "('r \<Rightarrow> nat) \<Rightarrow> 'r table \<Rightarrow> bool" where
  "ids_ok rid t \<longleftrightarrow> (\<forall>i r. row t i = Some r \<longrightarrow> rid r = i)"

lemma rows_append [simp]: "rows (s @ t) = rows s @ rows t"
  by (induction s rule: rows.induct) auto

lemma in_rows_iff: "r \<in> set (rows t) \<longleftrightarrow> Some r \<in> set t"
  by (induction t rule: rows.induct) auto

lemma in_rows: "r \<in> set (rows t) \<longleftrightarrow> (\<exists>i. row t i = Some r)"
proof
  assume "r \<in> set (rows t)"
  then have "Some r \<in> set t" by (simp only: in_rows_iff)
  then obtain n where "n < length t" and "t ! n = Some r"
    by (metis in_set_conv_nth)
  then have "row t (Suc n) = Some r" by (simp add: row_def)
  then show "\<exists>i. row t i = Some r" ..
next
  assume "\<exists>i. row t i = Some r"
  then obtain i where "row t i = Some r" ..
  then have "i - 1 < length t" and "t ! (i - 1) = Some r"
    by (auto simp: row_def split: if_splits)
  then have "Some r \<in> set t" by (metis nth_mem)
  then show "r \<in> set (rows t)" by (simp only: in_rows_iff)
qed

lemma row_in_rows: "row t i = Some r \<Longrightarrow> r \<in> set (rows t)"
  using in_rows by metis

lemma row_Nil [simp]: "row [] i = None"
  by (auto simp: row_def)

lemma row_0 [simp]: "row t 0 = None"
  by (simp add: row_def)

lemma row_append: "row (t @ [x]) i = (if i = next_id t then x else row t i)"
  by (auto simp: row_def nth_append next_id_def)

lemma row_put: "row (put t i x) j = (if j = i \<and> 0 < i \<and> i \<le> length t then x else row t j)"
  by (auto simp: row_def put_def nth_list_update)

lemma length_put [simp]: "length (put t i x) = length t"
  by (simp add: put_def)

lemma row_next [simp]: "row t (next_id t) = None"
  by (simp add: row_def next_id_def)

lemma next_id_pos [simp]: "0 < next_id t"
  by (simp add: next_id_def)

lemma row_Some_bounds: "row t i = Some r \<Longrightarrow> 0 < i \<and> i \<le> length t"
  by (simp add: row_def split: if_splits)

lemma row_append_next [simp]: "row (t @ [x]) (next_id t) = x"
  by (simp add: row_append)

lemma put_append_next [simp]: "put (t @ [x]) (next_id t) y = t @ [y]"
  by (simp add: put_def next_id_def)

lemma put_put [simp]: "put (put t i x) i y = put t i y"
  by (simp add: put_def)

lemma row_put_same: "row t i = Some r \<Longrightarrow> row (put t i x) i = x"
  by (simp add: row_put row_Some_bounds)

lemma rows_put_iff:
  "row t i = Some r \<Longrightarrow> x \<in> set (rows (put t i (Some y))) \<longleftrightarrow>
     x = y \<or> (\<exists>j. j \<noteq> i \<and> row t j = Some x)"
  by (auto simp: in_rows row_put dest: row_Some_bounds)

lemma rows_split:
  assumes "row t i = Some r"
  obtains a b where "rows t = a @ r # b" "\<And>x. rows (put t i (Some x)) = a @ x # b"
    "rows (put t i None) = a @ b"
proof -
  from assms have i: "0 < i" "i - 1 < length t" "t ! (i - 1) = Some r"
    by (auto simp: row_def split: if_splits)
  let ?a = "take (i - 1) t" and ?b = "drop (Suc (i - 1)) t"
  have t: "t = ?a @ Some r # ?b" using i by (metis id_take_nth_drop)
  have p: "put t i x = ?a @ x # ?b" for x
    using i by (simp add: put_def upd_conv_take_nth_drop)
  have app: "rows (?a @ x # ?b) = rows ?a @ rows (x # ?b)" for x
    by simp
  show ?thesis
    by (rule that [of "rows ?a" "rows ?b"]) (subst t, simp, simp_all add: p)
qed

lemma ids_okD: "ids_ok rid t \<Longrightarrow> row t i = Some r \<Longrightarrow> rid r = i"
  by (simp add: ids_ok_def)

lemma ids_ok_row: "ids_ok rid t \<Longrightarrow> r \<in> set (rows t) \<Longrightarrow> row t (rid r) = Some r"
  by (auto simp: ids_ok_def in_rows)

lemma ids_ok_Nil [simp]: "ids_ok rid []"
  by (simp add: ids_ok_def)

lemma ids_ok_append: "ids_ok rid t \<Longrightarrow> rid r = next_id t \<Longrightarrow> ids_ok rid (t @ [Some r])"
  by (auto simp: ids_ok_def row_append split: if_splits)

lemma ids_ok_put: "ids_ok rid t \<Longrightarrow> rid r = i \<Longrightarrow> ids_ok rid (put t i (Some r))"
  by (auto simp: ids_ok_def row_put split: if_splits)

lemma ids_ok_hole: "ids_ok rid t \<Longrightarrow> ids_ok rid (put t i None)"
  by (auto simp: ids_ok_def row_put split: if_splits)

text \<open>The one row of a table with a property, and where it is.\<close>

definition only_row :: "('r \<Rightarrow> bool) \<Rightarrow> 'r table \<Rightarrow> nat \<Rightarrow> 'r \<Rightarrow> bool" where
  "only_row p t i r \<longleftrightarrow> row t i = Some r \<and> p r \<and> (\<forall>j x. row t j = Some x \<longrightarrow> p x \<longrightarrow> j = i)"

lemma only_rowD: "only_row p t i r \<Longrightarrow> row t i = Some r" "only_row p t i r \<Longrightarrow> p r"
  by (simp_all add: only_row_def)

lemma only_row_put: "only_row p t i r \<Longrightarrow> p y \<Longrightarrow> only_row p (put t i (Some y)) i y"
  unfolding only_row_def by (auto simp: row_put dest: row_Some_bounds split: if_splits)

lemma only_row_other: "only_row p t i r \<Longrightarrow> j \<noteq> i \<Longrightarrow> \<not> p y \<Longrightarrow> only_row p (put t j (Some y)) i r"
  unfolding only_row_def by (auto simp: row_put split: if_splits)

lemma only_row_append: "only_row p t i r \<Longrightarrow> \<not> p y \<Longrightarrow> only_row p (t @ [Some y]) i r"
  unfolding only_row_def by (auto simp: row_append split: if_splits)

lemma only_row_fresh:
  "p y \<Longrightarrow> (\<And>j x. row t j = Some x \<Longrightarrow> \<not> p x) \<Longrightarrow> only_row p (t @ [Some y]) (next_id t) y"
  unfolding only_row_def by (auto simp: row_append split: if_splits)

section \<open>The client's calls\<close>

record 'r table_api =
  api_first :: "('r \<Rightarrow> bool) \<Rightarrow> 'r table \<Rightarrow> 'r option"
  api_many :: "('r \<Rightarrow> bool) \<Rightarrow> 'r table \<Rightarrow> 'r list"
  api_sorted :: "('r \<Rightarrow> int) \<Rightarrow> ('r \<Rightarrow> bool) \<Rightarrow> 'r table \<Rightarrow> 'r list"
  api_create :: "(nat \<Rightarrow> 'r) \<Rightarrow> 'r table \<Rightarrow> prisma_error + 'r \<times> 'r table"
  api_update :: "nat \<Rightarrow> ('r \<Rightarrow> 'r) \<Rightarrow> 'r table \<Rightarrow> prisma_error + 'r \<times> 'r table"
  api_delete :: "nat \<Rightarrow> 'r table \<Rightarrow> prisma_error + 'r \<times> 'r table"

text \<open>
  The laws. \<open>uq\<close> is the table's unique constraint: a write that would break it is refused
  and leaves the table as it was (P2002); an update or delete of a missing row is refused
  (P2025).
\<close>

locale table_client =
  fixes A :: "'r table_api" and uq :: "'r table \<Rightarrow> bool"
  assumes first_sound: "api_first A p t = Some r \<Longrightarrow> r \<in> set (rows t) \<and> p r"
    and first_complete: "r \<in> set (rows t) \<Longrightarrow> p r \<Longrightarrow> api_first A p t \<noteq> None"
    and many_mset: "mset (api_many A p t) = mset (filter p (rows t))"
    and sorted_mset: "mset (api_sorted A k p t) = mset (filter p (rows t))"
    and sorted_order: "sorted (map k (api_sorted A k p t))"
    and create_law: "api_create A f t =
      (if uq (t @ [Some (f (next_id t))])
       then Inr (f (next_id t), t @ [Some (f (next_id t))]) else Inl UniqueViolation)"
    and update_law: "api_update A i g t =
      (case row t i of None \<Rightarrow> Inl RecordNotFound
       | Some r \<Rightarrow> if uq (put t i (Some (g r))) then Inr (g r, put t i (Some (g r)))
                  else Inl UniqueViolation)"
    and delete_law: "api_delete A i t =
      (case row t i of None \<Rightarrow> Inl RecordNotFound | Some r \<Rightarrow> Inr (r, put t i None))"
begin

lemma first_None_iff: "api_first A p t = None \<longleftrightarrow> (\<forall>r \<in> set (rows t). \<not> p r)"
  using first_sound first_complete by (metis not_Some_eq)

lemma first_unique:
  assumes "r \<in> set (rows t)" and "p r" and "\<And>r'. r' \<in> set (rows t) \<Longrightarrow> p r' \<Longrightarrow> r' = r"
  shows "api_first A p t = Some r"
  using assms first_sound first_complete by (metis not_Some_eq)

lemma first_only: "only_row p t i r \<Longrightarrow> api_first A p t = Some r"
  by (rule first_unique) (auto simp: only_row_def in_rows)

lemma first_absent: "(\<And>j x. row t j = Some x \<Longrightarrow> \<not> p x) \<Longrightarrow> api_first A p t = None"
  by (auto simp: first_None_iff in_rows)

lemma first_by_id:
  assumes "ids_ok rid t" and "row t i = Some r"
  shows "api_first A (\<lambda>x. rid x = i) t = Some r"
proof (rule first_unique)
  show "r \<in> set (rows t)" using assms(2) by (rule row_in_rows)
  show "rid r = i" using assms by (rule ids_okD)
next
  fix r' assume "r' \<in> set (rows t)" and "rid r' = i"
  with assms show "r' = r" using ids_ok_row [of rid t r'] by simp
qed

lemma first_row:
  assumes "ids_ok rid t" and "api_first A p t = Some r"
  shows "row t (rid r) = Some r" and "p r" and "0 < rid r"
proof -
  from first_sound [OF assms(2)] have "r \<in> set (rows t)" and "p r" by auto
  then show "row t (rid r) = Some r" and "p r"
    using ids_ok_row [OF assms(1)] by auto
  then show "0 < rid r" by (blast dest: row_Some_bounds)
qed

lemma set_many: "set (api_many A p t) = {r \<in> set (rows t). p r}"
  by (metis many_mset set_filter set_mset_mset)

lemma set_sorted: "set (api_sorted A k p t) = {r \<in> set (rows t). p r}"
  by (metis sorted_mset set_filter set_mset_mset)

lemma many_Nil_iff: "api_many A p t = [] \<longleftrightarrow> (\<forall>r \<in> set (rows t). \<not> p r)"
  using set_many [of p t] by (cases "api_many A p t") auto

lemma length_many: "length (api_many A p t) = length (filter p (rows t))"
  by (metis many_mset size_mset)

end

text \<open>
  The semantics the laws describe, computed: rows are found and listed in id order. It is
  the instance on which the witnesses evaluate.
\<close>

definition pg_api :: "('r table \<Rightarrow> bool) \<Rightarrow> 'r table_api" where
  "pg_api uq = \<lparr>
     api_first = (\<lambda>p t. find p (rows t)),
     api_many = (\<lambda>p t. filter p (rows t)),
     api_sorted = (\<lambda>k p t. sort_key k (filter p (rows t))),
     api_create = (\<lambda>f t. if uq (t @ [Some (f (next_id t))])
        then Inr (f (next_id t), t @ [Some (f (next_id t))]) else Inl UniqueViolation),
     api_update = (\<lambda>i g t. case row t i of None \<Rightarrow> Inl RecordNotFound
       | Some r \<Rightarrow> if uq (put t i (Some (g r))) then Inr (g r, put t i (Some (g r)))
                  else Inl UniqueViolation),
     api_delete = (\<lambda>i t. case row t i of None \<Rightarrow> Inl RecordNotFound
       | Some r \<Rightarrow> Inr (r, put t i None))\<rparr>"

interpretation pg: table_client "pg_api uq" uq for uq
  by unfold_locales
    (auto simp: pg_api_def find_Some_iff find_None_iff in_set_conv_nth split: option.splits)

section \<open>The calls as computations\<close>

text \<open>
  \<open>prisma.invoices\<close> is a handle: where the table lives in the world, and the client's
  functions for it.
\<close>

record ('w, 'r) handle =
  h_get :: "'w \<Rightarrow> 'r table"
  h_set :: "('r table \<Rightarrow> 'r table) \<Rightarrow> 'w \<Rightarrow> 'w"
  h_api :: "'r table_api"

definition find_first :: "('w, 'r) handle \<Rightarrow> ('r \<Rightarrow> bool) \<Rightarrow> ('w, 'r option) io" where
  "find_first h p = reads (\<lambda>w. api_first (h_api h) p (h_get h w))"

definition find_first_or_throw :: "('w, 'r) handle \<Rightarrow> ('r \<Rightarrow> bool) \<Rightarrow> ('w, 'r) io" where
  "find_first_or_throw h p = bnd (find_first h p)
     (\<lambda>x. case x of None \<Rightarrow> throw (PrismaError RecordNotFound) | Some r \<Rightarrow> ret r)"

definition find_many :: "('w, 'r) handle \<Rightarrow> ('r \<Rightarrow> bool) \<Rightarrow> ('w, 'r list) io" where
  "find_many h p = reads (\<lambda>w. api_many (h_api h) p (h_get h w))"

definition find_sorted ::
  "('w, 'r) handle \<Rightarrow> ('r \<Rightarrow> int) \<Rightarrow> ('r \<Rightarrow> bool) \<Rightarrow> ('w, 'r list) io" where
  "find_sorted h k p = reads (\<lambda>w. api_sorted (h_api h) k p (h_get h w))"

definition stored :: "('w, 'r) handle \<Rightarrow> ('r table \<Rightarrow> prisma_error + 'r \<times> 'r table) \<Rightarrow> ('w, 'r) io"
where
  "stored h op = (\<lambda>w. case op (h_get h w) of
       Inl e \<Rightarrow> (Inl (PrismaError e), w)
     | Inr (r, t) \<Rightarrow> (Inr r, h_set h (\<lambda>_. t) w))"

definition create_row :: "('w, 'r) handle \<Rightarrow> (nat \<Rightarrow> 'r) \<Rightarrow> ('w, 'r) io" where
  "create_row h f = stored h (api_create (h_api h) f)"

definition update_row :: "('w, 'r) handle \<Rightarrow> nat \<Rightarrow> ('r \<Rightarrow> 'r) \<Rightarrow> ('w, 'r) io" where
  "update_row h i g = stored h (api_update (h_api h) i g)"

definition delete_row :: "('w, 'r) handle \<Rightarrow> nat \<Rightarrow> ('w, 'r) io" where
  "delete_row h i = stored h (api_delete (h_api h) i)"

lemma find_first_run [io_simps]:
  "find_first h p w = (Inr (api_first (h_api h) p (h_get h w)), w)"
  by (simp add: find_first_def io_simps)

lemma find_first_or_throw_run [io_simps]:
  "find_first_or_throw h p w =
     (case api_first (h_api h) p (h_get h w) of
        None \<Rightarrow> (Inl (PrismaError RecordNotFound), w) | Some r \<Rightarrow> (Inr r, w))"
  by (simp add: find_first_or_throw_def io_simps split: option.splits)

lemma find_many_run [io_simps]:
  "find_many h p w = (Inr (api_many (h_api h) p (h_get h w)), w)"
  by (simp add: find_many_def io_simps)

lemma find_sorted_run [io_simps]:
  "find_sorted h k p w = (Inr (api_sorted (h_api h) k p (h_get h w)), w)"
  by (simp add: find_sorted_def io_simps)

lemma stored_run:
  "stored h op w = (case op (h_get h w) of
       Inl e \<Rightarrow> (Inl (PrismaError e), w)
     | Inr (r, t) \<Rightarrow> (Inr r, h_set h (\<lambda>_. t) w))"
  by (simp add: stored_def)

text \<open>Reads leave the world alone; a write is one application of a table function.\<close>

context history
begin

lemma follows_find_first: "follows R (find_first h p)"
  by (simp add: find_first_def follows_rules)

lemma follows_find_first_or_throw: "follows R (find_first_or_throw h p)"
  unfolding find_first_or_throw_def by (intro follows_rules follows_find_first)

lemma follows_find_many: "follows R (find_many h p)"
  by (simp add: find_many_def follows_rules)

lemma follows_find_sorted: "follows R (find_sorted h k p)"
  by (simp add: find_sorted_def follows_rules)

lemma follows_stored:
  assumes "\<And>w r t. op (h_get h w) = Inr (r, t) \<Longrightarrow> R w (h_set h (\<lambda>_. t) w)"
  shows "follows R (stored h op)"
  using assms by (auto simp: follows_def stored_run R_refl split: sum.splits)

lemmas follows_reads_db = follows_find_first follows_find_first_or_throw follows_find_many
  follows_find_sorted

end

context table_client
begin

text \<open>Writes through a handle whose client obeys the laws.\<close>

lemma create_run:
  "h_api h = A \<Longrightarrow> create_row h f w =
     (let t = h_get h w; r = f (next_id t) in
      if uq (t @ [Some r]) then (Inr r, h_set h (\<lambda>_. t @ [Some r]) w)
      else (Inl (PrismaError UniqueViolation), w))"
  by (simp add: create_row_def stored_run create_law Let_def)

lemma update_run:
  "h_api h = A \<Longrightarrow> update_row h i g w =
     (case row (h_get h w) i of
        None \<Rightarrow> (Inl (PrismaError RecordNotFound), w)
      | Some r \<Rightarrow> if uq (put (h_get h w) i (Some (g r)))
          then (Inr (g r), h_set h (\<lambda>_. put (h_get h w) i (Some (g r))) w)
          else (Inl (PrismaError UniqueViolation), w))"
  by (simp add: update_row_def stored_run update_law split: option.splits)

lemma delete_run:
  "h_api h = A \<Longrightarrow> delete_row h i w =
     (case row (h_get h w) i of
        None \<Rightarrow> (Inl (PrismaError RecordNotFound), w)
      | Some r \<Rightarrow> (Inr r, h_set h (\<lambda>_. put (h_get h w) i None) w))"
  by (simp add: delete_row_def stored_run delete_law split: option.splits)

end

end
