(* ===== verification/Model.thy ===== *)
theory Model
  imports Store
begin

text \<open>
  The data of the program: one record per table of \<open>prisma/schema.prisma\<close> (the columns the
  modelled code reads or writes), the messages it publishes, the external services it
  calls, and the world, which is the database together with the module-level state and the
  traffic sent out. Timestamps are milliseconds; JSON columns that the code only passes on
  are strings.
\<close>

section \<open>Rows\<close>

type_synonym time = int
type_synonym num = rat

record pay_output =
  out_address :: "string option"
  out_amount :: num
  out_script :: "string option"

record template_output =
  to_currency :: string
  to_amount :: num
  to_address :: "string option"

record template_option =
  tpl_currency :: string
  tpl_chain :: "string option"
  tpl_to :: "template_output list"

record invoice =
  inv_id :: nat
  inv_uid :: string
  inv_amount :: "num option"
  inv_currency :: "string option"
  inv_status :: string
  inv_account_id :: "nat option"
  inv_app_id :: "nat option"
  inv_hash :: "string option"
  inv_address :: "string option"
  inv_complete :: bool
  inv_completed_at :: "time option"
  inv_paidAt :: "time option"
  inv_cancelled :: bool
  inv_expiry :: "time option"
  inv_uri :: "string option"
  inv_webhook_url :: "string option"
  inv_redirect_url :: "string option"
  inv_memo :: "string option"
  inv_secret :: "string option"
  inv_metadata :: "string option"
  inv_fee_rate_level :: "string option"
  inv_external_id :: "string option"
  inv_business_id :: "string option"
  inv_location_id :: "string option"
  inv_register_id :: "string option"
  inv_wordpress_site_url :: "string option"
  inv_is_public_request :: "bool option"
  inv_headers :: "(string \<times> string) list option"
  inv_createdAt :: time
  inv_updatedAt :: time

record payment =
  pay_id :: nat
  pay_txid :: string
  pay_txhex :: "string option"
  pay_tx_key :: "string option"
  pay_currency :: string
  pay_chain :: "string option"
  pay_invoice_uid :: string
  pay_payment_option_id :: "nat option"
  pay_account_id :: "nat option"
  pay_status :: "string option"
  pay_wallet :: "string option"
  pay_confirmation_hash :: "string option"
  pay_confirmation_height :: "nat option"
  pay_confirmation_date :: "time option"
  pay_total_input :: "num option"
  pay_total_output :: "num option"
  pay_network_fee :: "num option"
  pay_createdAt :: time
  pay_updatedAt :: time

record payment_option =
  po_id :: nat
  po_invoice_uid :: string
  po_currency :: string
  po_chain :: string
  po_amount :: "num option"
  po_address :: "string option"
  po_outputs :: "pay_output list option"
  po_uri :: "string option"
  po_currency_name :: "string option"
  po_currency_logo_url :: "string option"
  po_createdAt :: time
  po_updatedAt :: time

record payment_request =
  pr_id :: nat
  pr_app_id :: nat
  pr_template :: "template_option list"
  pr_status :: "string option"
  pr_invoice_uid :: "string option"
  pr_uri :: "string option"
  pr_webpage_url :: "string option"
  pr_createdAt :: time
  pr_updatedAt :: time

record account =
  acc_id :: nat
  acc_email :: "string option"
  acc_denomination :: "string option"
  acc_webhook_url :: "string option"
  acc_password_hash :: "string option"
  acc_business_name :: "string option"
  acc_image_url :: "string option"
  acc_physical_address :: "string option"
  acc_stub :: "string option"
  acc_latitude :: "string option"
  acc_longitude :: "string option"
  acc_registration_ip_address :: "string option"
  acc_registration_geolocation :: "string option"

record address =
  adr_id :: nat
  adr_account_id :: "nat option"
  adr_currency :: string
  adr_chain :: string
  adr_value :: "string option"
  adr_view_key :: "string option"
  adr_paymail :: "string option"
  adr_note :: "string option"
  adr_locked :: bool

record coin =
  coin_id :: nat
  coin_code :: string
  coin_name :: string
  coin_currency :: "string option"
  coin_chain :: "string option"
  coin_logo_url :: "string option"
  coin_supported :: "bool option"
  coin_unavailable :: "bool option"
  coin_precision :: "nat option"

record price =
  prc_id :: nat
  prc_currency :: string
  prc_base_currency :: string
  prc_value :: num
  prc_source :: "string option"
  prc_change_24hr :: "num option"
  prc_updatedAt :: time

record app =
  app_row_id :: nat
  app_name :: string
  app_account_id :: nat
  app_public_key :: string
  app_private_key :: string

record access_token =
  tok_id :: nat
  tok_uid :: "string option"
  tok_account_id :: nat
  tok_app_id :: "nat option"
  tok_createdAt :: time

record refund =
  rf_id :: nat
  rf_original_invoice_uid :: string
  rf_refund_invoice_uid :: string
  rf_address :: string
  rf_status :: string
  rf_txid :: "string option"

record linked_account =
  ln_id :: nat
  ln_source :: nat
  ln_target :: nat

record app_webhook =
  awh_id :: nat
  awh_app_id :: string
  awh_url :: string
  awh_topics :: "string list"

record account_webhook =
  acw_id :: nat
  acw_account_id :: string
  acw_url :: string

record account_setting =
  stg_id :: nat
  stg_account_id :: "nat option"
  stg_key :: "string option"
  stg_value :: "bool option"

record account_tag =
  tag_id :: nat
  tag_account_id :: "nat option"
  tag_tag :: "string option"

record invoice_note =
  nt_id :: nat
  nt_invoice_uid :: string
  nt_content :: string
  nt_created_at :: time

record payment_submission =
  psub_id :: nat
  psub_invoice_uid :: "string option"
  psub_txhex :: "string option"
  psub_currency :: "string option"
  psub_wallet :: "string option"
  psub_protocol :: "string option"

record kraken_deposit =
  kd_id :: nat
  kd_account_id :: nat
  kd_txid :: string
  kd_amount :: string

record kraken_account =
  ka_id :: nat
  ka_account_id :: "nat option"
  ka_api_key :: "string option"
  ka_api_secret :: "string option"

text \<open>The key of a password reset is its uid; the row number stands for nothing.\<close>

record password_reset =
  rst_uid :: string
  rst_claimed :: "bool option"
  rst_email :: "string option"

record firebase_token =
  fbt_id :: nat
  fbt_account_id :: "nat option"
  fbt_token :: "string option"

record login =
  lgn_id :: nat
  lgn_account_id :: "nat option"
  lgn_ip_address :: "string option"
  lgn_user_agent :: "string option"
  lgn_geolocation :: "string option"

record wallet_bot =
  wb_id :: nat
  wb_name :: "string option"
  wb_account_id :: "nat option"
  wb_app_id :: "nat option"

record balance_update =
  abu_id :: nat
  abu_chain :: "string option"
  abu_currency :: "string option"
  abu_address :: "string option"
  abu_balance :: "num option"
  abu_wallet_bot_id :: "nat option"
  abu_createdAt :: time

section \<open>Messages\<close>

text \<open>The events of \<open>src/webhooks/schemas\<close>, one record for the six topics.\<close>

record event_payment =
  ep_chain :: string
  ep_currency :: string
  ep_txid :: string
  ep_status :: string

record event =
  ev_topic :: string
  ev_account_id :: "nat option"
  ev_app_id :: "nat option"
  ev_invoice_uid :: string
  ev_invoice_status :: string
  ev_quote :: "(num \<times> string) option"
  ev_payment :: "event_payment option"
  ev_confirmation :: "(string \<times> nat) option"

text \<open>
  A JSON column: \<open>EmptyJson\<close> is the default \<open>{}\<close> of a webhook's payload, \<open>AccountJson\<close> the
  email and id of a new account.
\<close>

datatype json = EmptyJson | InvoiceJson invoice | EventJson event | AccountJson string nat | ErrorJson string

record webhook =
  wh_id :: nat
  wh_type :: "string option"
  wh_url :: "string option"
  wh_status :: "string option"
  wh_invoice_uid :: "string option"
  wh_account_id :: "nat option"
  wh_app_id :: "nat option"
  wh_payload :: json
  wh_response_code :: "nat option"
  wh_response_body :: "string option"
  wh_error :: "string option"
  wh_ended_at :: "time option"

record webhook_attempt =
  wa_id :: nat
  wa_webhook_id :: nat
  wa_started_at :: time
  wa_ended_at :: "time option"
  wa_response_code :: "nat option"
  wa_response_body :: "string option"
  wa_error :: "string option"

text \<open>
  Calls the source starts without awaiting them, and which touch the database; the last two
  are what an EVM broadcast leaves running: the poll for a receipt, and the receipt itself.
\<close>

datatype job =
  JSendWebhook webhook
| JSendWebhookForInvoice string string
| JCreateWebhookForInvoice invoice
| JCreateAndSendWebhook string event
| JPollReceipt string string
| JReceipt string bool string "string option" nat

text \<open>A row of the event log.\<close>

record event_row =
  evt_id :: nat
  evt_type :: string
  evt_payload :: json
  evt_account_id :: "nat option"
  evt_app_id :: "nat option"
  evt_invoice_uid :: "string option"
  evt_namespace :: "string option"
  evt_error :: "bool option"
  evt_createdAt :: time

datatype message =
  EventMsg event
| PaymentMsg payment
| RevertedMsg payment invoice
| PriceMsg price
| EventRowMsg event_row
| Bip70Msg "string list"
| BlockMsg string
| InvoiceMsg invoice
| TextMsg string

record evm_receipt =
  evr_id :: nat
  evr_txid :: string

section \<open>The world\<close>

record world =
  db_invoices :: "invoice table"
  db_payments :: "payment table"
  db_payment_options :: "payment_option table"
  db_payment_requests :: "payment_request table"
  db_accounts :: "account table"
  db_addresses :: "address table"
  db_coins :: "coin table"
  db_prices :: "price table"
  db_price_records :: "price table"
  db_apps :: "app table"
  db_access_tokens :: "access_token table"
  db_refunds :: "refund table"
  db_linked_accounts :: "linked_account table"
  db_webhooks :: "webhook table"
  db_webhook_attempts :: "webhook_attempt table"
  db_app_webhooks :: "app_webhook table"
  db_account_webhooks :: "account_webhook table"
  db_events :: "event_row table"
  db_evm_receipts :: "evm_receipt table"
  db_account_settings :: "account_setting table"
  db_account_tags :: "account_tag table"
  db_invoice_notes :: "invoice_note table"
  db_payment_submissions :: "payment_submission table"
  db_kraken_deposits :: "kraken_deposit table"
  db_kraken_accounts :: "kraken_account table"
  db_password_resets :: "password_reset table"
  db_firebase_tokens :: "firebase_token table"
  db_logins :: "login table"
  db_wallet_bots :: "wallet_bot table"
  db_balance_updates :: "balance_update table"
  published :: "(string \<times> message) list"
  posted :: "(string \<times> json) list"
  broadcasts :: "(string \<times> string) list"
  jobs :: "job list"
  rejections :: "js_error list"
  coins_cache :: "coin list"
  fees_cache :: "string \<Rightarrow> num option"
  now :: time
  ticks :: nat

type_synonym 'a prog = "(world, 'a) io"

definition empty_world :: world where
  "empty_world = \<lparr>db_invoices = [], db_payments = [], db_payment_options = [],
     db_payment_requests = [], db_accounts = [], db_addresses = [], db_coins = [],
     db_prices = [], db_price_records = [], db_apps = [], db_access_tokens = [],
     db_refunds = [], db_linked_accounts = [], db_webhooks = [], db_webhook_attempts = [],
     db_app_webhooks = [], db_account_webhooks = [], db_events = [], db_evm_receipts = [],
     db_account_settings = [], db_account_tags = [], db_invoice_notes = [],
     db_payment_submissions = [], db_kraken_deposits = [], db_kraken_accounts = [], db_password_resets = [], db_firebase_tokens = [], db_logins = [],
     db_wallet_bots = [], db_balance_updates = [],
     published = [], posted = [],
     broadcasts = [], jobs = [], rejections = [], coins_cache = [],
     fees_cache = (\<lambda>_. None), now = 0, ticks = 0\<rparr>"

text \<open>
  A call to an external service: the answer may differ from call to call, so it is a
  function of the number of calls made so far.
\<close>

definition ask :: "(nat \<Rightarrow> js_error + 'a) \<Rightarrow> 'a prog" where
  "ask f = (\<lambda>w. (f (ticks w), w\<lparr>ticks := Suc (ticks w)\<rparr>))"

definition publish_raw :: "string \<Rightarrow> message \<Rightarrow> unit prog" where
  "publish_raw key m = writes (\<lambda>w. w\<lparr>published := published w @ [(key, m)]\<rparr>)"

definition start_job :: "job \<Rightarrow> unit prog" where
  "start_job j = writes (\<lambda>w. w\<lparr>jobs := jobs w @ [j]\<rparr>)"

text \<open>
  A promise that is not awaited and does no database work: it runs here, an error it throws
  is an unhandled rejection and not an error of the caller, and one that never settles
  stops nobody.
\<close>

definition not_awaited :: "unit prog \<Rightarrow> unit prog" where
  "not_awaited m = (\<lambda>w. case m w of
       (Inl e, w') \<Rightarrow> (Inr (), if e = NeverSettles then w' else w'\<lparr>rejections := rejections w' @ [e]\<rparr>)
     | (Inr _, w') \<Rightarrow> (Inr (), w'))"

section \<open>The database client\<close>

record prisma =
  api_invoices :: "invoice table_api"
  api_payments :: "payment table_api"
  api_payment_options :: "payment_option table_api"
  api_payment_requests :: "payment_request table_api"
  api_accounts :: "account table_api"
  api_addresses :: "address table_api"
  api_coins :: "coin table_api"
  api_prices :: "price table_api"
  api_price_records :: "price table_api"
  api_apps :: "app table_api"
  api_access_tokens :: "access_token table_api"
  api_refunds :: "refund table_api"
  api_linked_accounts :: "linked_account table_api"
  api_webhooks :: "webhook table_api"
  api_webhook_attempts :: "webhook_attempt table_api"
  api_app_webhooks :: "app_webhook table_api"
  api_account_webhooks :: "account_webhook table_api"
  api_events :: "event_row table_api"
  api_evm_receipts :: "evm_receipt table_api"
  api_account_settings :: "account_setting table_api"
  api_account_tags :: "account_tag table_api"
  api_invoice_notes :: "invoice_note table_api"
  api_payment_submissions :: "payment_submission table_api"
  api_kraken_deposits :: "kraken_deposit table_api"
  api_kraken_accounts :: "kraken_account table_api"
  api_password_resets :: "password_reset table_api"
  api_firebase_tokens :: "firebase_token table_api"
  api_logins :: "login table_api"
  api_wallet_bots :: "wallet_bot table_api"
  api_balance_updates :: "balance_update table_api"

definition prisma_invoices :: "prisma \<Rightarrow> (world, invoice) handle" where
  "prisma_invoices P = \<lparr>h_get = db_invoices, h_set = db_invoices_update, h_api = api_invoices P\<rparr>"

definition prisma_payments :: "prisma \<Rightarrow> (world, payment) handle" where
  "prisma_payments P = \<lparr>h_get = db_payments, h_set = db_payments_update, h_api = api_payments P\<rparr>"

definition prisma_payment_options :: "prisma \<Rightarrow> (world, payment_option) handle" where
  "prisma_payment_options P = \<lparr>h_get = db_payment_options, h_set = db_payment_options_update,
     h_api = api_payment_options P\<rparr>"

definition prisma_payment_requests :: "prisma \<Rightarrow> (world, payment_request) handle" where
  "prisma_payment_requests P = \<lparr>h_get = db_payment_requests,
     h_set = db_payment_requests_update, h_api = api_payment_requests P\<rparr>"

definition prisma_accounts :: "prisma \<Rightarrow> (world, account) handle" where
  "prisma_accounts P = \<lparr>h_get = db_accounts, h_set = db_accounts_update, h_api = api_accounts P\<rparr>"

definition prisma_addresses :: "prisma \<Rightarrow> (world, address) handle" where
  "prisma_addresses P = \<lparr>h_get = db_addresses, h_set = db_addresses_update,
     h_api = api_addresses P\<rparr>"

definition prisma_coins :: "prisma \<Rightarrow> (world, coin) handle" where
  "prisma_coins P = \<lparr>h_get = db_coins, h_set = db_coins_update, h_api = api_coins P\<rparr>"

definition prisma_prices :: "prisma \<Rightarrow> (world, price) handle" where
  "prisma_prices P = \<lparr>h_get = db_prices, h_set = db_prices_update, h_api = api_prices P\<rparr>"

definition prisma_price_records :: "prisma \<Rightarrow> (world, price) handle" where
  "prisma_price_records P = \<lparr>h_get = db_price_records, h_set = db_price_records_update,
     h_api = api_price_records P\<rparr>"

definition prisma_apps :: "prisma \<Rightarrow> (world, app) handle" where
  "prisma_apps P = \<lparr>h_get = db_apps, h_set = db_apps_update, h_api = api_apps P\<rparr>"

definition prisma_access_tokens :: "prisma \<Rightarrow> (world, access_token) handle" where
  "prisma_access_tokens P = \<lparr>h_get = db_access_tokens, h_set = db_access_tokens_update,
     h_api = api_access_tokens P\<rparr>"

definition prisma_refunds :: "prisma \<Rightarrow> (world, refund) handle" where
  "prisma_refunds P = \<lparr>h_get = db_refunds, h_set = db_refunds_update, h_api = api_refunds P\<rparr>"

definition prisma_linked_accounts :: "prisma \<Rightarrow> (world, linked_account) handle" where
  "prisma_linked_accounts P = \<lparr>h_get = db_linked_accounts, h_set = db_linked_accounts_update,
     h_api = api_linked_accounts P\<rparr>"

definition prisma_webhooks :: "prisma \<Rightarrow> (world, webhook) handle" where
  "prisma_webhooks P = \<lparr>h_get = db_webhooks, h_set = db_webhooks_update, h_api = api_webhooks P\<rparr>"

definition prisma_webhook_attempts :: "prisma \<Rightarrow> (world, webhook_attempt) handle" where
  "prisma_webhook_attempts P = \<lparr>h_get = db_webhook_attempts,
     h_set = db_webhook_attempts_update, h_api = api_webhook_attempts P\<rparr>"

definition prisma_app_webhooks :: "prisma \<Rightarrow> (world, app_webhook) handle" where
  "prisma_app_webhooks P = \<lparr>h_get = db_app_webhooks, h_set = db_app_webhooks_update,
     h_api = api_app_webhooks P\<rparr>"

definition prisma_account_webhooks :: "prisma \<Rightarrow> (world, account_webhook) handle" where
  "prisma_account_webhooks P = \<lparr>h_get = db_account_webhooks, h_set = db_account_webhooks_update,
     h_api = api_account_webhooks P\<rparr>"

definition prisma_events :: "prisma \<Rightarrow> (world, event_row) handle" where
  "prisma_events P = \<lparr>h_get = db_events, h_set = db_events_update, h_api = api_events P\<rparr>"

definition prisma_evm_receipts :: "prisma \<Rightarrow> (world, evm_receipt) handle" where
  "prisma_evm_receipts P = \<lparr>h_get = db_evm_receipts, h_set = db_evm_receipts_update,
     h_api = api_evm_receipts P\<rparr>"

definition prisma_account_settings :: "prisma \<Rightarrow> (world, account_setting) handle" where
  "prisma_account_settings P = \<lparr>h_get = db_account_settings, h_set = db_account_settings_update,
     h_api = api_account_settings P\<rparr>"

definition prisma_account_tags :: "prisma \<Rightarrow> (world, account_tag) handle" where
  "prisma_account_tags P = \<lparr>h_get = db_account_tags, h_set = db_account_tags_update,
     h_api = api_account_tags P\<rparr>"

definition prisma_invoice_notes :: "prisma \<Rightarrow> (world, invoice_note) handle" where
  "prisma_invoice_notes P = \<lparr>h_get = db_invoice_notes, h_set = db_invoice_notes_update,
     h_api = api_invoice_notes P\<rparr>"

definition prisma_payment_submissions :: "prisma \<Rightarrow> (world, payment_submission) handle" where
  "prisma_payment_submissions P = \<lparr>h_get = db_payment_submissions, h_set = db_payment_submissions_update,
     h_api = api_payment_submissions P\<rparr>"

definition prisma_kraken_deposits :: "prisma \<Rightarrow> (world, kraken_deposit) handle" where
  "prisma_kraken_deposits P = \<lparr>h_get = db_kraken_deposits, h_set = db_kraken_deposits_update,
     h_api = api_kraken_deposits P\<rparr>"

definition prisma_kraken_accounts :: "prisma \<Rightarrow> (world, kraken_account) handle" where
  "prisma_kraken_accounts P = \<lparr>h_get = db_kraken_accounts, h_set = db_kraken_accounts_update,
     h_api = api_kraken_accounts P\<rparr>"

definition prisma_password_resets :: "prisma \<Rightarrow> (world, password_reset) handle" where
  "prisma_password_resets P = \<lparr>h_get = db_password_resets, h_set = db_password_resets_update,
     h_api = api_password_resets P\<rparr>"

definition prisma_firebase_tokens :: "prisma \<Rightarrow> (world, firebase_token) handle" where
  "prisma_firebase_tokens P = \<lparr>h_get = db_firebase_tokens, h_set = db_firebase_tokens_update,
     h_api = api_firebase_tokens P\<rparr>"

definition prisma_logins :: "prisma \<Rightarrow> (world, login) handle" where
  "prisma_logins P = \<lparr>h_get = db_logins, h_set = db_logins_update,
     h_api = api_logins P\<rparr>"

definition prisma_wallet_bots :: "prisma \<Rightarrow> (world, wallet_bot) handle" where
  "prisma_wallet_bots P = \<lparr>h_get = db_wallet_bots, h_set = db_wallet_bots_update,
     h_api = api_wallet_bots P\<rparr>"

definition prisma_balance_updates :: "prisma \<Rightarrow> (world, balance_update) handle" where
  "prisma_balance_updates P = \<lparr>h_get = db_balance_updates, h_set = db_balance_updates_update,
     h_api = api_balance_updates P\<rparr>"

lemmas handle_defs = prisma_invoices_def prisma_payments_def prisma_payment_options_def
  prisma_payment_requests_def prisma_accounts_def prisma_addresses_def prisma_coins_def
  prisma_prices_def prisma_price_records_def prisma_apps_def prisma_access_tokens_def
  prisma_refunds_def prisma_linked_accounts_def prisma_webhooks_def
  prisma_webhook_attempts_def prisma_app_webhooks_def prisma_account_webhooks_def prisma_events_def
  prisma_evm_receipts_def prisma_account_settings_def prisma_account_tags_def prisma_invoice_notes_def
  prisma_payment_submissions_def prisma_kraken_deposits_def prisma_kraken_accounts_def
  prisma_password_resets_def prisma_firebase_tokens_def prisma_logins_def
  prisma_wallet_bots_def prisma_balance_updates_def

text \<open>
  The two unique columns of the modelled tables: \<open>invoices.hash\<close> and \<open>accounts.email\<close>. As
  in SQL, missing values do not collide.
\<close>

definition unique_on :: "('r \<Rightarrow> 'k option) \<Rightarrow> 'r table \<Rightarrow> bool" where
  "unique_on f t \<longleftrightarrow> distinct (List.map_filter f (rows t))"

definition unique_hash :: "invoice table \<Rightarrow> bool" where
  "unique_hash = unique_on inv_hash"

definition unique_email :: "account table \<Rightarrow> bool" where
  "unique_email = unique_on acc_email"

definition no_constraint :: "'r table \<Rightarrow> bool" where
  "no_constraint t = True"

locale prisma_client =
  ti: table_client "api_invoices P" unique_hash +
  tp: table_client "api_payments P" no_constraint +
  tpo: table_client "api_payment_options P" no_constraint +
  tpr: table_client "api_payment_requests P" no_constraint +
  tac: table_client "api_accounts P" unique_email +
  tad: table_client "api_addresses P" no_constraint +
  tco: table_client "api_coins P" no_constraint +
  tpc: table_client "api_prices P" no_constraint +
  tpcr: table_client "api_price_records P" no_constraint +
  tap: table_client "api_apps P" no_constraint +
  ttk: table_client "api_access_tokens P" no_constraint +
  trf: table_client "api_refunds P" no_constraint +
  tln: table_client "api_linked_accounts P" no_constraint +
  twh: table_client "api_webhooks P" no_constraint +
  twa: table_client "api_webhook_attempts P" no_constraint +
  taw: table_client "api_app_webhooks P" no_constraint +
  tcw: table_client "api_account_webhooks P" no_constraint +
  tev: table_client "api_events P" no_constraint +
  ter: table_client "api_evm_receipts P" no_constraint +
  tst: table_client "api_account_settings P" no_constraint +
  ttg: table_client "api_account_tags P" no_constraint +
  tnt: table_client "api_invoice_notes P" no_constraint +
  tps: table_client "api_payment_submissions P" no_constraint +
  tkd: table_client "api_kraken_deposits P" no_constraint +
  tka: table_client "api_kraken_accounts P" no_constraint +
  tpw: table_client "api_password_resets P" no_constraint +
  tfb: table_client "api_firebase_tokens P" no_constraint +
  tlg: table_client "api_logins P" no_constraint +
  twb: table_client "api_wallet_bots P" no_constraint +
  tbu: table_client "api_balance_updates P" no_constraint
  for P :: prisma

definition pg :: prisma where
  "pg = \<lparr>api_invoices = pg_api unique_hash, api_payments = pg_api no_constraint,
     api_payment_options = pg_api no_constraint, api_payment_requests = pg_api no_constraint,
     api_accounts = pg_api unique_email, api_addresses = pg_api no_constraint,
     api_coins = pg_api no_constraint, api_prices = pg_api no_constraint,
     api_price_records = pg_api no_constraint, api_apps = pg_api no_constraint,
     api_access_tokens = pg_api no_constraint, api_refunds = pg_api no_constraint,
     api_linked_accounts = pg_api no_constraint, api_webhooks = pg_api no_constraint,
     api_webhook_attempts = pg_api no_constraint, api_app_webhooks = pg_api no_constraint,
     api_account_webhooks = pg_api no_constraint, api_events = pg_api no_constraint,
     api_evm_receipts = pg_api no_constraint, api_account_settings = pg_api no_constraint,
     api_account_tags = pg_api no_constraint,
     api_invoice_notes = pg_api no_constraint,
     api_payment_submissions = pg_api no_constraint,
     api_kraken_deposits = pg_api no_constraint,
     api_kraken_accounts = pg_api no_constraint,
     api_password_resets = pg_api no_constraint,
     api_firebase_tokens = pg_api no_constraint,
     api_logins = pg_api no_constraint,
     api_wallet_bots = pg_api no_constraint,
     api_balance_updates = pg_api no_constraint\<rparr>"

lemma prisma_client_pg: "prisma_client pg"
  unfolding prisma_client_def by (simp add: pg_def pg.table_client_axioms)

interpretation pg_client: prisma_client pg
  by (rule prisma_client_pg)

lemma no_constraint [simp]: "no_constraint t"
  by (simp add: no_constraint_def)

lemma ask_run [io_simps]: "ask f w = (f (ticks w), w\<lparr>ticks := Suc (ticks w)\<rparr>)"
  by (simp add: ask_def)

lemma publish_raw_run [io_simps]:
  "publish_raw k m w = (Inr (), w\<lparr>published := published w @ [(k, m)]\<rparr>)"
  by (simp add: publish_raw_def io_simps)

lemma start_job_run [io_simps]: "start_job j w = (Inr (), w\<lparr>jobs := jobs w @ [j]\<rparr>)"
  by (simp add: start_job_def io_simps)

text \<open>
  The calls on each table, run: a creation appends a row, an update replaces one. Only
  invoices and accounts have a constraint that can refuse a write.
\<close>

context prisma_client
begin

lemma create_invoices [io_simps]:
  "create_row (prisma_invoices P) f w =
     (let r = f (next_id (db_invoices w)) in
      if unique_hash (db_invoices w @ [Some r])
      then (Inr r, w\<lparr>db_invoices := db_invoices w @ [Some r]\<rparr>)
      else (Inl (PrismaError UniqueViolation), w))"
  by (simp add: ti.create_run prisma_invoices_def Let_def)

lemma update_invoices [io_simps]:
  "update_row (prisma_invoices P) i g w =
     (case row (db_invoices w) i of
        None \<Rightarrow> (Inl (PrismaError RecordNotFound), w)
      | Some r \<Rightarrow> if unique_hash (put (db_invoices w) i (Some (g r)))
          then (Inr (g r), w\<lparr>db_invoices := put (db_invoices w) i (Some (g r))\<rparr>)
          else (Inl (PrismaError UniqueViolation), w))"
  by (simp add: ti.update_run prisma_invoices_def split: option.splits)

lemma create_accounts [io_simps]:
  "create_row (prisma_accounts P) f w =
     (let r = f (next_id (db_accounts w)) in
      if unique_email (db_accounts w @ [Some r])
      then (Inr r, w\<lparr>db_accounts := db_accounts w @ [Some r]\<rparr>)
      else (Inl (PrismaError UniqueViolation), w))"
  by (simp add: tac.create_run prisma_accounts_def Let_def)

lemma update_accounts [io_simps]:
  "update_row (prisma_accounts P) i g w =
     (case row (db_accounts w) i of
        None \<Rightarrow> (Inl (PrismaError RecordNotFound), w)
      | Some r \<Rightarrow> if unique_email (put (db_accounts w) i (Some (g r)))
          then (Inr (g r), w\<lparr>db_accounts := put (db_accounts w) i (Some (g r))\<rparr>)
          else (Inl (PrismaError UniqueViolation), w))"
  by (simp add: tac.update_run prisma_accounts_def split: option.splits)

lemma create_payments [io_simps]:
  "create_row (prisma_payments P) f w =
     (Inr (f (next_id (db_payments w))), w\<lparr>db_payments := db_payments w @ [Some (f (next_id (db_payments w)))]\<rparr>)"
  by (simp add: tp.create_run prisma_payments_def Let_def)

lemma update_payments [io_simps]:
  "update_row (prisma_payments P) i g w =
     (case row (db_payments w) i of
        None \<Rightarrow> (Inl (PrismaError RecordNotFound), w)
      | Some r \<Rightarrow> (Inr (g r), w\<lparr>db_payments := put (db_payments w) i (Some (g r))\<rparr>))"
  by (simp add: tp.update_run prisma_payments_def split: option.splits)

lemma create_payment_options [io_simps]:
  "create_row (prisma_payment_options P) f w =
     (Inr (f (next_id (db_payment_options w))), w\<lparr>db_payment_options := db_payment_options w @ [Some (f (next_id (db_payment_options w)))]\<rparr>)"
  by (simp add: tpo.create_run prisma_payment_options_def Let_def)

lemma update_payment_options [io_simps]:
  "update_row (prisma_payment_options P) i g w =
     (case row (db_payment_options w) i of
        None \<Rightarrow> (Inl (PrismaError RecordNotFound), w)
      | Some r \<Rightarrow> (Inr (g r), w\<lparr>db_payment_options := put (db_payment_options w) i (Some (g r))\<rparr>))"
  by (simp add: tpo.update_run prisma_payment_options_def split: option.splits)

lemma create_payment_requests [io_simps]:
  "create_row (prisma_payment_requests P) f w =
     (Inr (f (next_id (db_payment_requests w))), w\<lparr>db_payment_requests := db_payment_requests w @ [Some (f (next_id (db_payment_requests w)))]\<rparr>)"
  by (simp add: tpr.create_run prisma_payment_requests_def Let_def)

lemma update_payment_requests [io_simps]:
  "update_row (prisma_payment_requests P) i g w =
     (case row (db_payment_requests w) i of
        None \<Rightarrow> (Inl (PrismaError RecordNotFound), w)
      | Some r \<Rightarrow> (Inr (g r), w\<lparr>db_payment_requests := put (db_payment_requests w) i (Some (g r))\<rparr>))"
  by (simp add: tpr.update_run prisma_payment_requests_def split: option.splits)

lemma create_addresses [io_simps]:
  "create_row (prisma_addresses P) f w =
     (Inr (f (next_id (db_addresses w))), w\<lparr>db_addresses := db_addresses w @ [Some (f (next_id (db_addresses w)))]\<rparr>)"
  by (simp add: tad.create_run prisma_addresses_def Let_def)

lemma update_addresses [io_simps]:
  "update_row (prisma_addresses P) i g w =
     (case row (db_addresses w) i of
        None \<Rightarrow> (Inl (PrismaError RecordNotFound), w)
      | Some r \<Rightarrow> (Inr (g r), w\<lparr>db_addresses := put (db_addresses w) i (Some (g r))\<rparr>))"
  by (simp add: tad.update_run prisma_addresses_def split: option.splits)

lemma create_coins [io_simps]:
  "create_row (prisma_coins P) f w =
     (Inr (f (next_id (db_coins w))), w\<lparr>db_coins := db_coins w @ [Some (f (next_id (db_coins w)))]\<rparr>)"
  by (simp add: tco.create_run prisma_coins_def Let_def)

lemma update_coins [io_simps]:
  "update_row (prisma_coins P) i g w =
     (case row (db_coins w) i of
        None \<Rightarrow> (Inl (PrismaError RecordNotFound), w)
      | Some r \<Rightarrow> (Inr (g r), w\<lparr>db_coins := put (db_coins w) i (Some (g r))\<rparr>))"
  by (simp add: tco.update_run prisma_coins_def split: option.splits)

lemma create_prices [io_simps]:
  "create_row (prisma_prices P) f w =
     (Inr (f (next_id (db_prices w))), w\<lparr>db_prices := db_prices w @ [Some (f (next_id (db_prices w)))]\<rparr>)"
  by (simp add: tpc.create_run prisma_prices_def Let_def)

lemma update_prices [io_simps]:
  "update_row (prisma_prices P) i g w =
     (case row (db_prices w) i of
        None \<Rightarrow> (Inl (PrismaError RecordNotFound), w)
      | Some r \<Rightarrow> (Inr (g r), w\<lparr>db_prices := put (db_prices w) i (Some (g r))\<rparr>))"
  by (simp add: tpc.update_run prisma_prices_def split: option.splits)

lemma create_price_records [io_simps]:
  "create_row (prisma_price_records P) f w =
     (Inr (f (next_id (db_price_records w))), w\<lparr>db_price_records := db_price_records w @ [Some (f (next_id (db_price_records w)))]\<rparr>)"
  by (simp add: tpcr.create_run prisma_price_records_def Let_def)

lemma update_price_records [io_simps]:
  "update_row (prisma_price_records P) i g w =
     (case row (db_price_records w) i of
        None \<Rightarrow> (Inl (PrismaError RecordNotFound), w)
      | Some r \<Rightarrow> (Inr (g r), w\<lparr>db_price_records := put (db_price_records w) i (Some (g r))\<rparr>))"
  by (simp add: tpcr.update_run prisma_price_records_def split: option.splits)

lemma create_apps [io_simps]:
  "create_row (prisma_apps P) f w =
     (Inr (f (next_id (db_apps w))), w\<lparr>db_apps := db_apps w @ [Some (f (next_id (db_apps w)))]\<rparr>)"
  by (simp add: tap.create_run prisma_apps_def Let_def)

lemma update_apps [io_simps]:
  "update_row (prisma_apps P) i g w =
     (case row (db_apps w) i of
        None \<Rightarrow> (Inl (PrismaError RecordNotFound), w)
      | Some r \<Rightarrow> (Inr (g r), w\<lparr>db_apps := put (db_apps w) i (Some (g r))\<rparr>))"
  by (simp add: tap.update_run prisma_apps_def split: option.splits)

lemma create_access_tokens [io_simps]:
  "create_row (prisma_access_tokens P) f w =
     (Inr (f (next_id (db_access_tokens w))), w\<lparr>db_access_tokens := db_access_tokens w @ [Some (f (next_id (db_access_tokens w)))]\<rparr>)"
  by (simp add: ttk.create_run prisma_access_tokens_def Let_def)

lemma update_access_tokens [io_simps]:
  "update_row (prisma_access_tokens P) i g w =
     (case row (db_access_tokens w) i of
        None \<Rightarrow> (Inl (PrismaError RecordNotFound), w)
      | Some r \<Rightarrow> (Inr (g r), w\<lparr>db_access_tokens := put (db_access_tokens w) i (Some (g r))\<rparr>))"
  by (simp add: ttk.update_run prisma_access_tokens_def split: option.splits)

lemma create_refunds [io_simps]:
  "create_row (prisma_refunds P) f w =
     (Inr (f (next_id (db_refunds w))), w\<lparr>db_refunds := db_refunds w @ [Some (f (next_id (db_refunds w)))]\<rparr>)"
  by (simp add: trf.create_run prisma_refunds_def Let_def)

lemma update_refunds [io_simps]:
  "update_row (prisma_refunds P) i g w =
     (case row (db_refunds w) i of
        None \<Rightarrow> (Inl (PrismaError RecordNotFound), w)
      | Some r \<Rightarrow> (Inr (g r), w\<lparr>db_refunds := put (db_refunds w) i (Some (g r))\<rparr>))"
  by (simp add: trf.update_run prisma_refunds_def split: option.splits)

lemma create_linked_accounts [io_simps]:
  "create_row (prisma_linked_accounts P) f w =
     (Inr (f (next_id (db_linked_accounts w))), w\<lparr>db_linked_accounts := db_linked_accounts w @ [Some (f (next_id (db_linked_accounts w)))]\<rparr>)"
  by (simp add: tln.create_run prisma_linked_accounts_def Let_def)

lemma update_linked_accounts [io_simps]:
  "update_row (prisma_linked_accounts P) i g w =
     (case row (db_linked_accounts w) i of
        None \<Rightarrow> (Inl (PrismaError RecordNotFound), w)
      | Some r \<Rightarrow> (Inr (g r), w\<lparr>db_linked_accounts := put (db_linked_accounts w) i (Some (g r))\<rparr>))"
  by (simp add: tln.update_run prisma_linked_accounts_def split: option.splits)

lemma create_webhooks [io_simps]:
  "create_row (prisma_webhooks P) f w =
     (Inr (f (next_id (db_webhooks w))), w\<lparr>db_webhooks := db_webhooks w @ [Some (f (next_id (db_webhooks w)))]\<rparr>)"
  by (simp add: twh.create_run prisma_webhooks_def Let_def)

lemma update_webhooks [io_simps]:
  "update_row (prisma_webhooks P) i g w =
     (case row (db_webhooks w) i of
        None \<Rightarrow> (Inl (PrismaError RecordNotFound), w)
      | Some r \<Rightarrow> (Inr (g r), w\<lparr>db_webhooks := put (db_webhooks w) i (Some (g r))\<rparr>))"
  by (simp add: twh.update_run prisma_webhooks_def split: option.splits)

lemma create_webhook_attempts [io_simps]:
  "create_row (prisma_webhook_attempts P) f w =
     (Inr (f (next_id (db_webhook_attempts w))), w\<lparr>db_webhook_attempts := db_webhook_attempts w @ [Some (f (next_id (db_webhook_attempts w)))]\<rparr>)"
  by (simp add: twa.create_run prisma_webhook_attempts_def Let_def)

lemma update_webhook_attempts [io_simps]:
  "update_row (prisma_webhook_attempts P) i g w =
     (case row (db_webhook_attempts w) i of
        None \<Rightarrow> (Inl (PrismaError RecordNotFound), w)
      | Some r \<Rightarrow> (Inr (g r), w\<lparr>db_webhook_attempts := put (db_webhook_attempts w) i (Some (g r))\<rparr>))"
  by (simp add: twa.update_run prisma_webhook_attempts_def split: option.splits)

lemma create_events [io_simps]:
  "create_row (prisma_events P) f w =
     (Inr (f (next_id (db_events w))), w\<lparr>db_events := db_events w @ [Some (f (next_id (db_events w)))]\<rparr>)"
  by (simp add: tev.create_run prisma_events_def Let_def)

lemma update_events [io_simps]:
  "update_row (prisma_events P) i g w =
     (case row (db_events w) i of
        None \<Rightarrow> (Inl (PrismaError RecordNotFound), w)
      | Some r \<Rightarrow> (Inr (g r), w\<lparr>db_events := put (db_events w) i (Some (g r))\<rparr>))"
  by (simp add: tev.update_run prisma_events_def split: option.splits)

lemma create_evm_receipts [io_simps]:
  "create_row (prisma_evm_receipts P) f w =
     (Inr (f (next_id (db_evm_receipts w))), w\<lparr>db_evm_receipts := db_evm_receipts w @ [Some (f (next_id (db_evm_receipts w)))]\<rparr>)"
  by (simp add: ter.create_run prisma_evm_receipts_def Let_def)

lemma update_evm_receipts [io_simps]:
  "update_row (prisma_evm_receipts P) i g w =
     (case row (db_evm_receipts w) i of
        None \<Rightarrow> (Inl (PrismaError RecordNotFound), w)
      | Some r \<Rightarrow> (Inr (g r), w\<lparr>db_evm_receipts := put (db_evm_receipts w) i (Some (g r))\<rparr>))"
  by (simp add: ter.update_run prisma_evm_receipts_def split: option.splits)

lemma create_account_settings [io_simps]:
  "create_row (prisma_account_settings P) f w =
     (Inr (f (next_id (db_account_settings w))), w\<lparr>db_account_settings := db_account_settings w @ [Some (f (next_id (db_account_settings w)))]\<rparr>)"
  by (simp add: tst.create_run prisma_account_settings_def Let_def)

lemma update_account_settings [io_simps]:
  "update_row (prisma_account_settings P) i g w =
     (case row (db_account_settings w) i of
        None \<Rightarrow> (Inl (PrismaError RecordNotFound), w)
      | Some r \<Rightarrow> (Inr (g r), w\<lparr>db_account_settings := put (db_account_settings w) i (Some (g r))\<rparr>))"
  by (simp add: tst.update_run prisma_account_settings_def split: option.splits)

lemma create_account_tags [io_simps]:
  "create_row (prisma_account_tags P) f w =
     (Inr (f (next_id (db_account_tags w))), w\<lparr>db_account_tags := db_account_tags w @ [Some (f (next_id (db_account_tags w)))]\<rparr>)"
  by (simp add: ttg.create_run prisma_account_tags_def Let_def)

lemma update_account_tags [io_simps]:
  "update_row (prisma_account_tags P) i g w =
     (case row (db_account_tags w) i of
        None \<Rightarrow> (Inl (PrismaError RecordNotFound), w)
      | Some r \<Rightarrow> (Inr (g r), w\<lparr>db_account_tags := put (db_account_tags w) i (Some (g r))\<rparr>))"
  by (simp add: ttg.update_run prisma_account_tags_def split: option.splits)

lemma create_invoice_notes [io_simps]:
  "create_row (prisma_invoice_notes P) f w =
     (Inr (f (next_id (db_invoice_notes w))), w\<lparr>db_invoice_notes := db_invoice_notes w @ [Some (f (next_id (db_invoice_notes w)))]\<rparr>)"
  by (simp add: tnt.create_run prisma_invoice_notes_def Let_def)

lemma update_invoice_notes [io_simps]:
  "update_row (prisma_invoice_notes P) i g w =
     (case row (db_invoice_notes w) i of
        None \<Rightarrow> (Inl (PrismaError RecordNotFound), w)
      | Some r \<Rightarrow> (Inr (g r), w\<lparr>db_invoice_notes := put (db_invoice_notes w) i (Some (g r))\<rparr>))"
  by (simp add: tnt.update_run prisma_invoice_notes_def split: option.splits)

lemma create_payment_submissions [io_simps]:
  "create_row (prisma_payment_submissions P) f w =
     (Inr (f (next_id (db_payment_submissions w))), w\<lparr>db_payment_submissions := db_payment_submissions w @ [Some (f (next_id (db_payment_submissions w)))]\<rparr>)"
  by (simp add: tps.create_run prisma_payment_submissions_def Let_def)

lemma update_payment_submissions [io_simps]:
  "update_row (prisma_payment_submissions P) i g w =
     (case row (db_payment_submissions w) i of
        None \<Rightarrow> (Inl (PrismaError RecordNotFound), w)
      | Some r \<Rightarrow> (Inr (g r), w\<lparr>db_payment_submissions := put (db_payment_submissions w) i (Some (g r))\<rparr>))"
  by (simp add: tps.update_run prisma_payment_submissions_def split: option.splits)

lemma create_kraken_deposits [io_simps]:
  "create_row (prisma_kraken_deposits P) f w =
     (Inr (f (next_id (db_kraken_deposits w))), w\<lparr>db_kraken_deposits := db_kraken_deposits w @ [Some (f (next_id (db_kraken_deposits w)))]\<rparr>)"
  by (simp add: tkd.create_run prisma_kraken_deposits_def Let_def)

lemma update_kraken_deposits [io_simps]:
  "update_row (prisma_kraken_deposits P) i g w =
     (case row (db_kraken_deposits w) i of
        None \<Rightarrow> (Inl (PrismaError RecordNotFound), w)
      | Some r \<Rightarrow> (Inr (g r), w\<lparr>db_kraken_deposits := put (db_kraken_deposits w) i (Some (g r))\<rparr>))"
  by (simp add: tkd.update_run prisma_kraken_deposits_def split: option.splits)

lemma create_kraken_accounts [io_simps]:
  "create_row (prisma_kraken_accounts P) f w =
     (Inr (f (next_id (db_kraken_accounts w))), w\<lparr>db_kraken_accounts := db_kraken_accounts w @ [Some (f (next_id (db_kraken_accounts w)))]\<rparr>)"
  by (simp add: tka.create_run prisma_kraken_accounts_def Let_def)

lemma update_kraken_accounts [io_simps]:
  "update_row (prisma_kraken_accounts P) i g w =
     (case row (db_kraken_accounts w) i of
        None \<Rightarrow> (Inl (PrismaError RecordNotFound), w)
      | Some r \<Rightarrow> (Inr (g r), w\<lparr>db_kraken_accounts := put (db_kraken_accounts w) i (Some (g r))\<rparr>))"
  by (simp add: tka.update_run prisma_kraken_accounts_def split: option.splits)

lemma create_password_resets [io_simps]:
  "create_row (prisma_password_resets P) f w =
     (Inr (f (next_id (db_password_resets w))), w\<lparr>db_password_resets := db_password_resets w @ [Some (f (next_id (db_password_resets w)))]\<rparr>)"
  by (simp add: tpw.create_run prisma_password_resets_def Let_def)

lemma update_password_resets [io_simps]:
  "update_row (prisma_password_resets P) i g w =
     (case row (db_password_resets w) i of
        None \<Rightarrow> (Inl (PrismaError RecordNotFound), w)
      | Some r \<Rightarrow> (Inr (g r), w\<lparr>db_password_resets := put (db_password_resets w) i (Some (g r))\<rparr>))"
  by (simp add: tpw.update_run prisma_password_resets_def split: option.splits)

lemma create_firebase_tokens [io_simps]:
  "create_row (prisma_firebase_tokens P) f w =
     (Inr (f (next_id (db_firebase_tokens w))), w\<lparr>db_firebase_tokens := db_firebase_tokens w @ [Some (f (next_id (db_firebase_tokens w)))]\<rparr>)"
  by (simp add: tfb.create_run prisma_firebase_tokens_def Let_def)

lemma update_firebase_tokens [io_simps]:
  "update_row (prisma_firebase_tokens P) i g w =
     (case row (db_firebase_tokens w) i of
        None \<Rightarrow> (Inl (PrismaError RecordNotFound), w)
      | Some r \<Rightarrow> (Inr (g r), w\<lparr>db_firebase_tokens := put (db_firebase_tokens w) i (Some (g r))\<rparr>))"
  by (simp add: tfb.update_run prisma_firebase_tokens_def split: option.splits)

lemma create_wallet_bots [io_simps]:
  "create_row (prisma_wallet_bots P) f w =
     (Inr (f (next_id (db_wallet_bots w))), w\<lparr>db_wallet_bots := db_wallet_bots w @ [Some (f (next_id (db_wallet_bots w)))]\<rparr>)"
  by (simp add: twb.create_run prisma_wallet_bots_def Let_def)

lemma create_balance_updates [io_simps]:
  "create_row (prisma_balance_updates P) f w =
     (Inr (f (next_id (db_balance_updates w))), w\<lparr>db_balance_updates := db_balance_updates w @ [Some (f (next_id (db_balance_updates w)))]\<rparr>)"
  by (simp add: tbu.create_run prisma_balance_updates_def Let_def)

lemma create_logins [io_simps]:
  "create_row (prisma_logins P) f w =
     (Inr (f (next_id (db_logins w))), w\<lparr>db_logins := db_logins w @ [Some (f (next_id (db_logins w)))]\<rparr>)"
  by (simp add: tlg.create_run prisma_logins_def Let_def)

lemma update_logins [io_simps]:
  "update_row (prisma_logins P) i g w =
     (case row (db_logins w) i of
        None \<Rightarrow> (Inl (PrismaError RecordNotFound), w)
      | Some r \<Rightarrow> (Inr (g r), w\<lparr>db_logins := put (db_logins w) i (Some (g r))\<rparr>))"
  by (simp add: tlg.update_run prisma_logins_def split: option.splits)

end

text \<open>The same outside the locale, for \<open>note db = client_runs [OF \<dots>]\<close>.\<close>

lemmas client_runs =
  prisma_client.create_invoices prisma_client.update_invoices prisma_client.create_accounts
  prisma_client.update_accounts prisma_client.create_payments prisma_client.update_payments
  prisma_client.create_payment_options prisma_client.update_payment_options
  prisma_client.create_payment_requests prisma_client.update_payment_requests
  prisma_client.create_addresses prisma_client.update_addresses prisma_client.create_coins
  prisma_client.update_coins prisma_client.create_prices prisma_client.update_prices
  prisma_client.create_price_records prisma_client.update_price_records
  prisma_client.create_apps prisma_client.update_apps prisma_client.create_access_tokens
  prisma_client.update_access_tokens prisma_client.create_refunds prisma_client.update_refunds
  prisma_client.create_linked_accounts prisma_client.update_linked_accounts
  prisma_client.create_webhooks prisma_client.update_webhooks
  prisma_client.create_webhook_attempts prisma_client.update_webhook_attempts
  prisma_client.create_events prisma_client.update_events prisma_client.create_evm_receipts
  prisma_client.update_evm_receipts prisma_client.create_account_settings prisma_client.update_account_settings
  prisma_client.create_account_tags prisma_client.update_account_tags
  prisma_client.create_invoice_notes prisma_client.update_invoice_notes
  prisma_client.create_payment_submissions prisma_client.update_payment_submissions
  prisma_client.create_kraken_deposits prisma_client.update_kraken_deposits
  prisma_client.create_kraken_accounts prisma_client.update_kraken_accounts
  prisma_client.create_password_resets prisma_client.update_password_resets
  prisma_client.create_firebase_tokens prisma_client.update_firebase_tokens
  prisma_client.create_logins prisma_client.update_logins

section \<open>Unique columns\<close>

lemma unique_on_snoc:
  "unique_on f (t @ [x]) \<longleftrightarrow> unique_on f t \<and>
     (\<forall>r k. x = Some r \<longrightarrow> f r = Some k \<longrightarrow> (\<forall>s \<in> set (rows t). f s \<noteq> Some k))"
  by (cases x) (force simp: unique_on_def List.map_filter_def split: option.splits)+

lemma unique_on_iff:
  "unique_on f t \<longleftrightarrow>
     (\<forall>i j r s k. row t i = Some r \<longrightarrow> row t j = Some s \<longrightarrow> f r = Some k \<longrightarrow> f s = Some k \<longrightarrow> i = j)"
proof (induction t rule: rev_induct)
  case Nil
  then show ?case by (simp add: unique_on_def List.map_filter_def)
next
  case (snoc x t)
  have new: "(\<forall>s \<in> set (rows t). f s \<noteq> Some k) \<longleftrightarrow> (\<forall>j s. row t j = Some s \<longrightarrow> f s \<noteq> Some k)" for k
    by (auto simp: in_rows)
  have none: "row t (next_id t) = Some s \<longleftrightarrow> False" for s by simp
  show ?case unfolding unique_on_snoc snoc new row_append
    by (smt (verit, ccfv_SIG) none)
qed

text \<open>A hash that another invoice carries cannot be written again.\<close>

lemma unique_hash_taken:
  assumes "row (db_invoices w) j = Some other" and "j \<noteq> i" and "inv_hash other = Some hash"
    and "row (db_invoices w) i = Some invoice" and "inv_hash r = Some hash"
  shows "\<not> unique_hash (put (db_invoices w) i (Some r))"
proof -
  have "row (put (db_invoices w) i (Some r)) i = Some r"
    by (rule row_put_same [OF assms(4)])
  moreover have "row (put (db_invoices w) i (Some r)) j = Some other"
    using assms(1,2) by (simp add: row_put)
  ultimately show ?thesis
    using assms(2,3,5) unfolding unique_hash_def unique_on_iff by blast
qed

lemma unique_hash_fresh:
  assumes "unique_hash t" and "\<And>j x. row t j = Some x \<Longrightarrow> j \<noteq> i \<Longrightarrow> inv_hash r \<noteq> None \<Longrightarrow> inv_hash x \<noteq> inv_hash r"
  shows "unique_hash (put t i (Some r))"
  using assms unfolding unique_hash_def unique_on_iff
  by (auto simp: row_put split: if_splits)

lemma unique_hash_kept:
  assumes "unique_hash t" and "row t i = Some r" and "inv_hash r' = inv_hash r \<or> inv_hash r' = None"
  shows "unique_hash (put t i (Some r'))"
proof (rule unique_hash_fresh [OF assms(1)])
  fix j x assume x: "row t j = Some x" "j \<noteq> i" "inv_hash r' \<noteq> None"
  show "inv_hash x \<noteq> inv_hash r'"
  proof
    assume "inv_hash x = inv_hash r'"
    with x(3) assms(3) obtain k where "inv_hash x = Some k" and "inv_hash r = Some k" by auto
    with assms(1,2) x(1,2) show False unfolding unique_hash_def unique_on_iff by blast
  qed
qed

abbreviation invoice_at :: "string \<Rightarrow> world \<Rightarrow> nat \<Rightarrow> invoice \<Rightarrow> bool" where
  "invoice_at uid w \<equiv> only_row (\<lambda>r. inv_uid r = uid) (db_invoices w)"

end
