(* ===== verification/Runtime.thy ===== *)
theory Runtime
  imports Model
begin

text \<open>
  What the source gets from outside the repository. JavaScript's own arithmetic is defined
  (\<open>Number\<close> as IEEE doubles on integers, \<open>parseInt\<close>, \<open>toFixed(0)\<close>); the packages and network
  services are parameters, gathered in the record \<open>ext\<close>, and what the code relies on of two
  of them, \<open>bignumber.js\<close> and \<open>promise-one-success\<close>, is stated as locales.
\<close>

section \<open>JavaScript numbers\<close>

text \<open>
  Integers beyond 53 bits are rounded to a multiple of a power of two, ties to even.
\<close>

fun bitlen :: "nat \<Rightarrow> nat" where
  "bitlen n = (if n = 0 then 0 else Suc (bitlen (n div 2)))"

declare bitlen.simps [simp del]

definition double_of_nat :: "nat \<Rightarrow> nat" where
  "double_of_nat n =
     (if n < 2 ^ 53 then n
      else let e = bitlen n - 53; q = n div 2 ^ e; r = n mod 2 ^ e;
               up = 2 * r > 2 ^ e \<or> 2 * r = 2 ^ e \<and> odd q
           in (if up then q + 1 else q) * 2 ^ e)"

text \<open>
  \<open>parseInt\<close> of a number reads its decimal rendering, which switches to an exponent at
  \<open>1e21\<close>: from there on only the leading digit is read.
\<close>

fun leading_digit :: "nat \<Rightarrow> nat" where
  "leading_digit n = (if n < 10 then n else leading_digit (n div 10))"

declare leading_digit.simps [simp del]

definition js_parseInt :: "nat \<Rightarrow> nat" where
  "js_parseInt n = (if n < 10 ^ 21 then n else leading_digit n)"

text \<open>\<open>parseInt(x.toFixed(0))\<close>: the nearest integer, ties away from zero.\<close>

definition js_round_half_away :: "rat \<Rightarrow> int" where
  "js_round_half_away x = (if 0 \<le> x then \<lfloor>x + 1/2\<rfloor> else - \<lfloor>1/2 - x\<rfloor>)"

definition js_parseInt_toFixed0 :: "rat \<Rightarrow> int" where
  "js_parseInt_toFixed0 x =
     (let n = js_round_half_away x in
      if \<bar>x\<bar> < 10 ^ 21 then n
      else if 0 \<le> x then int (leading_digit (nat n)) else - int (leading_digit (nat (- n))))"

lemma bitlen_pow: "2 ^ m \<le> n \<Longrightarrow> m < bitlen n"
proof (induction m arbitrary: n)
  case 0
  then show ?case by (simp add: bitlen.simps [of n])
next
  case (Suc m)
  then have "2 ^ m \<le> n div 2" by auto
  with Suc.IH have "m < bitlen (n div 2)" by blast
  moreover have "n \<noteq> 0" using Suc.prems by (metis le_zero_eq power_not_zero zero_neq_numeral)
  ultimately show ?case by (simp add: bitlen.simps [of n])
qed

lemma double_exact [simp]: "n < 2 ^ 53 \<Longrightarrow> double_of_nat n = n"
  by (simp add: double_of_nat_def)

text \<open>The rounding error is at most half a unit in the last place.\<close>

lemma double_error:
  assumes "2 ^ 53 \<le> n"
  shows "2 * \<bar>int (double_of_nat n) - int n\<bar> \<le> 2 ^ (bitlen n - 53)"
proof -
  define e where "e = bitlen n - 53"
  define q where "q = n div 2 ^ e"
  define r where "r = n mod 2 ^ e"
  have "n = q * 2 ^ e + r" by (simp only: q_def r_def div_mult_mod_eq)
  then have n: "int n = int q * 2 ^ e + int r" by simp
  have d: "double_of_nat n = (if 2 * r > 2 ^ e \<or> 2 * r = 2 ^ e \<and> odd q then q + 1 else q) * 2 ^ e"
    using assms by (simp add: double_of_nat_def Let_def e_def q_def r_def)
  show ?thesis
  proof (cases "2 * r > 2 ^ e \<or> 2 * r = 2 ^ e \<and> odd q")
    case True
    then have "2 ^ e \<le> 2 * r" by auto
    then have "int (2 ^ e) \<le> int (2 * r)" by (simp only: of_nat_le_iff)
    then have "(2::int) ^ e \<le> 2 * int r" by simp
    moreover have "r < 2 ^ e" by (simp add: r_def)
    then have "int r < int (2 ^ e)" by (simp only: of_nat_less_iff)
    ultimately show ?thesis
      using True d n unfolding e_def [symmetric] by (simp add: algebra_simps)
  next
    case False
    then have "2 * r \<le> 2 ^ e" by auto
    then have "int (2 * r) \<le> int (2 ^ e)" by (simp only: of_nat_le_iff)
    then have "2 * int r \<le> (2::int) ^ e" by simp
    moreover have "double_of_nat n = q * 2 ^ e" using False d by auto
    ultimately show ?thesis using n unfolding e_def [symmetric] by simp
  qed
qed

lemma bitlen_lower: "0 < n \<Longrightarrow> 2 ^ (bitlen n - 1) \<le> n"
proof (induction n rule: bitlen.induct)
  case (1 n)
  show ?case
  proof (cases "n div 2 = 0")
    case True
    with 1 show ?thesis by (simp add: bitlen.simps [of n] bitlen.simps [of 0])
  next
    case False
    with 1 have "2 ^ (bitlen (n div 2) - 1) \<le> n div 2" by simp
    then have "2 * 2 ^ (bitlen (n div 2) - 1) \<le> n" by linarith
    moreover have "0 < bitlen (n div 2)" using False by (simp add: bitlen.simps [of "n div 2"])
    ultimately show ?thesis using 1(2)
      by (simp add: bitlen.simps [of n]) (metis Suc_pred power_Suc)
  qed
qed

text \<open>Rounding never goes below the leading power of two.\<close>

lemma double_lower:
  assumes "2 ^ 53 \<le> n"
  shows "2 ^ (bitlen n - 1) \<le> double_of_nat n"
proof -
  define e where "e = bitlen n - 53"
  have "53 < bitlen n" using assms by (rule bitlen_pow)
  then have b: "bitlen n - 1 = 52 + e" by (simp add: e_def)
  have "0 < n" using assms by (metis gr0I le_zero_eq power_not_zero zero_neq_numeral)
  then have "2 ^ (52 + e) \<le> n" using bitlen_lower b by metis
  then have "2 ^ 52 * 2 ^ e \<le> n" by (simp only: power_add)
  then have "2 ^ 52 \<le> n div 2 ^ e" by (simp add: less_eq_div_iff_mult_less_eq)
  then have "2 ^ 52 * 2 ^ e \<le> n div 2 ^ e * 2 ^ e" by (rule mult_le_mono1)
  moreover have "n div 2 ^ e * 2 ^ e \<le> double_of_nat n"
    using assms by (simp add: double_of_nat_def Let_def e_def)
  ultimately have "2 ^ 52 * 2 ^ e \<le> double_of_nat n" by (rule le_trans)
  then show ?thesis by (simp only: b power_add)
qed

lemma leading_digit_le: "leading_digit n \<le> 9"
  by (induction n rule: leading_digit.induct) (subst leading_digit.simps, auto)

text \<open>
  What a number read back by \<open>parseInt\<close> can exceed the original integer by: below
  \<open>1e21\<close> a unit in the last place is at most \<open>2 ^ 17\<close>.
\<close>

lemma parse_double_le: "js_parseInt (double_of_nat n) \<le> n + 65536"
proof (cases "double_of_nat n < 10 ^ 21 \<and> 2 ^ 53 \<le> n")
  case True
  have "bitlen n \<le> 70"
  proof (rule ccontr)
    assume "\<not> bitlen n \<le> 70"
    then have "(2::nat) ^ 70 \<le> 2 ^ (bitlen n - 1)" by (intro power_increasing) auto
    also have "\<dots> \<le> double_of_nat n" using True by (blast intro: double_lower)
    finally show False using True by simp
  qed
  then have "(2::int) ^ (bitlen n - 53) \<le> 2 ^ 17" by (intro power_increasing) auto
  with double_error [of n] True have "2 * \<bar>int (double_of_nat n) - int n\<bar> \<le> 131072" by simp
  then have "int (double_of_nat n) \<le> int n + 65536" by arith
  then have "double_of_nat n \<le> n + 65536" by linarith
  with True show ?thesis by (simp add: js_parseInt_def)
next
  case False
  then show ?thesis
    using leading_digit_le [of "double_of_nat n"] by (auto simp: js_parseInt_def)
qed

lemma js_parseInt_small [simp]: "n < 10 ^ 21 \<Longrightarrow> js_parseInt n = n"
  by (simp add: js_parseInt_def)

lemma round_half_away_error: "\<bar>of_int (js_round_half_away x) - x\<bar> \<le> 1/2"
proof (cases "0 \<le> x")
  case True
  then show ?thesis unfolding js_round_half_away_def abs_le_iff by simp linarith
next
  case False
  then show ?thesis unfolding js_round_half_away_def abs_le_iff by simp linarith
qed

lemma round_half_away_int [simp]: "js_round_half_away (of_int n) = n"
  unfolding js_round_half_away_def by (auto simp: floor_eq_iff)

section \<open>bignumber.js\<close>

text \<open>
  The package works on decimal numbers, here rationals. \<open>dp\<close> rounds to a number of decimal
  places, \<open>dividedBy\<close> to twenty (the package's default), both to a nearest multiple;
  \<open>toNumber\<close> gives the nearest double, which is monotone, exact on safe integers, and
  prints back as the same decimal when that has at most 15 digits.
\<close>

record bignum =
  bn_times :: "rat \<Rightarrow> rat \<Rightarrow> rat"
  bn_plus :: "rat \<Rightarrow> rat \<Rightarrow> rat"
  bn_dividedBy :: "rat \<Rightarrow> rat \<Rightarrow> rat"
  bn_dp :: "rat \<Rightarrow> nat \<Rightarrow> rat"
  bn_toNumber :: "rat \<Rightarrow> rat"

lemma grid_nearest_exact:
  fixes y :: rat
  assumes y: "y = of_int k / 10 ^ n" and e: "\<bar>y - of_int j / 10 ^ n\<bar> \<le> 1/2 / 10 ^ n"
  shows "y = of_int j / 10 ^ n"
proof -
  have "y - of_int j / 10 ^ n = of_int (k - j) / 10 ^ n"
    using y by (simp add: diff_divide_distrib)
  then have "\<bar>of_int (k - j) :: rat\<bar> / 10 ^ n \<le> 1/2 / 10 ^ n"
    using e by (simp only: abs_divide) simp
  then have "\<bar>of_int (k - j) :: rat\<bar> \<le> 1/2"
    by (simp only: divide_le_cancel) simp
  then have "k = j" by linarith
  with y show ?thesis by simp
qed

locale bignumber =
  fixes B :: bignum
  assumes times_exact: "bn_times B a b = a * b"
    and plus_exact: "bn_plus B a b = a + b"
    and dividedBy_grid: "b \<noteq> 0 \<Longrightarrow> \<exists>k. bn_dividedBy B a b = of_int k / 10 ^ 20"
    and dividedBy_error: "b \<noteq> 0 \<Longrightarrow> \<bar>bn_dividedBy B a b - a / b\<bar> \<le> 1/2 / 10 ^ 20"
    and dp_grid: "\<exists>k. bn_dp B x n = of_int k / 10 ^ n"
    and dp_error: "\<bar>bn_dp B x n - x\<bar> \<le> 1/2 / 10 ^ n"
    and toNumber_int: "\<bar>k\<bar> < 2 ^ 53 \<Longrightarrow> bn_toNumber B (of_int k) = of_int k"
    and toNumber_mono: "x \<le> y \<Longrightarrow> bn_toNumber B x \<le> bn_toNumber B y"
    and toNumber_short: "\<bar>k\<bar> \<le> 10 ^ 15 \<Longrightarrow> n \<le> 20 \<Longrightarrow>
      bn_toNumber B (of_int k / 10 ^ n) = of_int k / 10 ^ n"
begin

lemma toNumber_0 [simp]: "bn_toNumber B 0 = 0"
  using toNumber_int [of 0] by simp

lemma toNumber_nonneg: "0 \<le> x \<Longrightarrow> 0 \<le> bn_toNumber B x"
  using toNumber_mono [of 0 x] by simp

lemma toNumber_between:
  assumes "\<bar>x\<bar> \<le> 2 ^ 53 - 2"
  shows "of_int \<lfloor>x\<rfloor> \<le> bn_toNumber B x" and "bn_toNumber B x \<le> of_int \<lceil>x\<rceil>"
proof -
  have x: "- (2 ^ 53 - 2) \<le> x" "x \<le> 2 ^ 53 - 2" using assms by (simp_all add: abs_le_iff)
  have "of_int (- (2 ^ 53 - 2)) \<le> x" and "x \<le> of_int (2 ^ 53 - 2)" using x by simp_all
  then have "- (2 ^ 53 - 2) \<le> \<lfloor>x\<rfloor>" and "\<lceil>x\<rceil> \<le> 2 ^ 53 - 2"
    by (simp_all only: le_floor_iff ceiling_le_iff)
  moreover have "\<lfloor>x\<rfloor> \<le> \<lceil>x\<rceil>" by (rule floor_le_ceiling)
  ultimately have "-(2 ^ 53) < \<lfloor>x\<rfloor> \<and> \<lfloor>x\<rfloor> < 2 ^ 53 \<and> -(2 ^ 53) < \<lceil>x\<rceil> \<and> \<lceil>x\<rceil> < 2 ^ 53"
    by linarith
  then have lo: "\<bar>\<lfloor>x\<rfloor>\<bar> < 2 ^ 53" and hi: "\<bar>\<lceil>x\<rceil>\<bar> < 2 ^ 53"
    unfolding abs_less_iff by linarith+
  show "of_int \<lfloor>x\<rfloor> \<le> bn_toNumber B x"
    using toNumber_mono [of "of_int \<lfloor>x\<rfloor>" x] toNumber_int [OF lo] by simp
  show "bn_toNumber B x \<le> of_int \<lceil>x\<rceil>"
    using toNumber_mono [of x "of_int \<lceil>x\<rceil>"] toNumber_int [OF hi] by simp
qed

lemma dp_exact: "bn_dp B (of_int j / 10 ^ n) n = of_int j / 10 ^ n"
  using dp_grid [of "of_int j / 10 ^ n" n] dp_error [of "of_int j / 10 ^ n" n]
  by (blast intro: grid_nearest_exact)

lemma dp_idem: "bn_dp B (bn_dp B x n) n = bn_dp B x n"
  using dp_grid [of x n] dp_exact by (metis (no_types))

lemma dividedBy_exact:
  "b \<noteq> 0 \<Longrightarrow> a / b = of_int j / 10 ^ 20 \<Longrightarrow> bn_dividedBy B a b = a / b"
  using dividedBy_grid [of b a] dividedBy_error [of b a] by (metis grid_nearest_exact)

end

definition decimal_grid :: "nat \<Rightarrow> rat \<Rightarrow> rat" where
  "decimal_grid n x = of_int (js_round_half_away (x * 10 ^ n)) / 10 ^ n"

lemma decimal_grid_error: "\<bar>decimal_grid n x - x\<bar> \<le> 1/2 / 10 ^ n"
proof -
  have "decimal_grid n x - x = (of_int (js_round_half_away (x * 10 ^ n)) - x * 10 ^ n) / 10 ^ n"
    by (simp add: decimal_grid_def field_simps)
  then have "\<bar>decimal_grid n x - x\<bar> = \<bar>of_int (js_round_half_away (x * 10 ^ n)) - x * 10 ^ n\<bar> / 10 ^ n"
    by simp
  also have "\<dots> \<le> 1/2 / 10 ^ n"
    by (intro divide_right_mono round_half_away_error) simp
  finally show ?thesis .
qed

definition exact_bn :: bignum where
  "exact_bn = \<lparr>bn_times = (*), bn_plus = (+), bn_dividedBy = (\<lambda>a b. decimal_grid 20 (a / b)),
     bn_dp = (\<lambda>x n. decimal_grid n x), bn_toNumber = (\<lambda>x. x)\<rparr>"

lemma decimal_grid_grid: "\<exists>k. decimal_grid n x = of_int k / 10 ^ n"
  unfolding decimal_grid_def by blast

interpretation bn_exact: bignumber exact_bn
  by unfold_locales
    (simp_all only: exact_bn_def bignum.simps decimal_grid_error decimal_grid_grid)

section \<open>Transactions and the libraries that read them\<close>

text \<open>A transaction as a client submits it (\<open>Transaction\<close> of \<open>src/lib/plugin.ts\<close>).\<close>

record transaction =
  tx_hex :: string
  tx_id :: "string option"
  tx_key :: "string option"

text \<open>
  Decoded transactions: \<open>bitcore\<close> and \<open>bitcoinjs\<close> give outputs as script and value,
  \<open>ethers\<close> and \<open>web3\<close> the call, \<open>xrpl\<close> the fields, where an amount that is not a number
  (an issued currency) is \<open>None\<close>.
\<close>

record utxo_tx =
  utx_hash :: string
  utx_outputs :: "(string \<times> num) list"
  utx_inputs :: "nat list"

record evm_tx =
  etx_to :: "string option"
  etx_value :: nat
  etx_data :: string
  etx_hash :: "string option"

record xrp_tx =
  xtx_type :: string
  xtx_amount :: "num option"
  xtx_destination :: string
  xtx_signature :: string

record bitcore =
  bc_tx :: "string \<Rightarrow> js_error + utxo_tx"
  bc_address :: "string \<Rightarrow> js_error + string"
  bc_script :: "string \<Rightarrow> js_error + string"
  bc_p2pkh :: "string option \<Rightarrow> js_error + string"
  bc_p2sh :: "string \<Rightarrow> js_error + string"

text \<open>
  Answers of the network: a transaction's place in the chain, as each service reports it.
  \<open>Confirmation\<close> is the interface of \<open>src/lib/confirmations.ts\<close>; a field the service did
  not report is \<open>undefined\<close>, and a date computed from one is invalid, both \<open>None\<close>.
\<close>

record confirmation =
  cf_hash :: "string option"
  cf_height :: "nat option"
  cf_date :: "time option"
  cf_confirmations :: "int option"

record mempool_status =
  ms_confirmed :: bool
  ms_block_hash :: string
  ms_block_height :: nat
  ms_block_time :: int

record raw_transaction =
  rt_blockhash :: "string option"
  rt_blockheight :: "nat option"
  rt_blocktime :: "int option"
  rt_confirmations :: "int option"

record receipt =
  rc_status :: bool
  rc_transactionHash :: string
  rc_blockHash :: "string option"
  rc_blockNumber :: nat

record ledger =
  ldg_hash :: string
  ldg_index :: nat
  ldg_close_time :: int

record xmr_send_result =
  xsr_sanity_check_failed :: bool
  xsr_double_spend :: bool
  xsr_too_big :: bool
  xsr_status :: string
  xsr_reason :: string

record broadcast_result =
  br_txid :: string
  br_success :: bool

record error_response =
  er_statusCode :: "nat option"
  er_body :: "string option"
  er_text :: "string option"
  er_text_json :: "string option"

record http_failure =
  hf_message :: string
  hf_response :: "error_response option"

record http_success =
  hs_status :: nat
  hs_body :: string

record price_quote =
  pq_base_currency :: string
  pq_currency :: string
  pq_value :: num
  pq_source :: "string option"
  pq_change_24hr :: "num option"

section \<open>The parameters\<close>

text \<open>
  A function whose first argument is a number is an oracle: it is called through \<open>ask\<close>,
  which passes the number of calls made before, so the same question may get another
  answer later.
\<close>

record ext =
  bn :: bignum
  cfg :: "string \<Rightarrow> string option"
  shortid :: "nat \<Rightarrow> js_error + string"
  http_post :: "nat \<Rightarrow> string \<Rightarrow> json \<Rightarrow> http_failure + http_success"
  bitcore_lib :: "string \<Rightarrow> bitcore"
  btcjs_tx :: "string \<Rightarrow> js_error + utxo_tx"
  btcjs_address :: "string \<Rightarrow> js_error + string"
  tap_decode :: "string \<Rightarrow> js_error + string list"
  tap_p2tr :: "string \<Rightarrow> js_error + string option"
  tap_address :: "string \<Rightarrow> js_error + string option"
  ethers_tx :: "string \<Rightarrow> js_error + evm_tx"
  hex_to_dec :: "string \<Rightarrow> nat option"
  xrpl_decode :: "string \<Rightarrow> js_error + xrp_tx"
  solana_tx :: "string \<Rightarrow> js_error + unit"
  address_valid :: "string \<Rightarrow> string \<Rightarrow> bool"
  one_success :: "(js_error + broadcast_result) list \<Rightarrow> js_error + broadcast_result"
  provider :: "nat \<Rightarrow> string \<Rightarrow> string \<Rightarrow> string \<Rightarrow> js_error + broadcast_result"
  mempool_tx :: "nat \<Rightarrow> string \<Rightarrow> js_error + mempool_status"
  mempool_fee :: "nat \<Rightarrow> string \<Rightarrow> js_error + num"
  tx_source :: "nat \<Rightarrow> string \<Rightarrow> string \<Rightarrow> js_error + string"
  rpc_tx :: "nat \<Rightarrow> string \<Rightarrow> string \<Rightarrow> js_error + raw_transaction"
  rpc_block :: "nat \<Rightarrow> string \<Rightarrow> string \<Rightarrow> js_error + nat"
  whatsonchain_tx :: "nat \<Rightarrow> string \<Rightarrow> js_error + raw_transaction"
  xrp_tx_ledger :: "nat \<Rightarrow> string \<Rightarrow> js_error + nat"
  xrp_ledger :: "nat \<Rightarrow> nat option \<Rightarrow> js_error + ledger"
  web3_tx :: "nat \<Rightarrow> string \<Rightarrow> string \<Rightarrow> js_error + evm_tx option"
  web3_receipt :: "nat \<Rightarrow> string \<Rightarrow> string \<Rightarrow> js_error + receipt option"
  web3_block :: "nat \<Rightarrow> string \<Rightarrow> string \<Rightarrow> js_error + nat \<times> int"
  solana_status :: "nat \<Rightarrow> string \<Rightarrow> js_error + nat option \<times> nat"
  solana_block :: "nat \<Rightarrow> nat \<Rightarrow> js_error + (string \<times> int) option"
  xmr_tx :: "nat \<Rightarrow> string \<Rightarrow> js_error + nat option \<times> int"
  xmr_block :: "nat \<Rightarrow> nat \<Rightarrow> js_error + string option"
  xmr_block_count :: "nat \<Rightarrow> js_error + nat"
  xmr_send :: "nat \<Rightarrow> string \<Rightarrow> js_error + xmr_send_result"
  polynym :: "nat \<Rightarrow> string \<Rightarrow> js_error + string"
  price_feed :: "nat \<Rightarrow> string \<Rightarrow> string \<Rightarrow> js_error + price_quote"
  fiat_feed :: "nat \<Rightarrow> string \<Rightarrow> js_error + price_quote list"
  uuid :: "nat \<Rightarrow> js_error + string"
  new_key :: "nat \<Rightarrow> js_error + string \<times> string"
  bcrypt_hash :: "nat \<Rightarrow> string \<Rightarrow> js_error + string"
  bcrypt_compare :: "string \<Rightarrow> string \<Rightarrow> js_error + bool"
  template_valid :: "template_option list \<Rightarrow> bool"
  jwt_verify :: "time \<Rightarrow> string \<Rightarrow> js_error + nat option"
  jwt_sign :: "nat \<Rightarrow> string \<Rightarrow> string"
  joi_number :: "string \<Rightarrow> num option"
  geo_lookup :: "string \<Rightarrow> (string \<times> string) list option"
  decoded_tx :: "nat \<Rightarrow> string \<Rightarrow> string \<Rightarrow> js_error + (string \<times> nat) list \<times> string list list"

text \<open>\<open>String(config.get(key))\<close>: an unset key is the text \<open>undefined\<close>.\<close>

definition cfg_string :: "ext \<Rightarrow> string \<Rightarrow> string" where
  "cfg_string E key = (case cfg E key of None \<Rightarrow> ''undefined'' | Some v \<Rightarrow> v)"

definition string_or_undefined :: "string option \<Rightarrow> string" where
  "string_or_undefined x = (case x of None \<Rightarrow> ''undefined'' | Some s \<Rightarrow> s)"

text \<open>
  \<open>promise-one-success\<close>: the first fulfilled promise wins, and the call is rejected when
  every promise is.
\<close>

locale one_success_lib =
  fixes os :: "(js_error + 'a) list \<Rightarrow> js_error + 'a"
  assumes success_member: "os rs = Inr r \<Longrightarrow> Inr r \<in> set rs"
    and success_exists: "Inr r \<in> set rs \<Longrightarrow> \<exists>r'. os rs = Inr r'"
begin

lemma single: "os [Inr r] = Inr r"
  using success_exists [of r "[Inr r]"] success_member [of "[Inr r]"] by force

lemma all_fail: "\<forall>x \<in> set rs. \<exists>e. x = Inl e \<Longrightarrow> \<exists>e. os rs = Inl e"
  using success_member [of rs] by (cases "os rs") auto

end

fun first_success :: "(js_error + 'a) list \<Rightarrow> js_error + 'a" where
  "first_success [] = Inl (JsError ''no success'')"
| "first_success [r] = r"
| "first_success (r # s # rs) = (case r of Inr a \<Rightarrow> Inr a | Inl e \<Rightarrow> first_success (s # rs))"

interpretation first_success: one_success_lib first_success
proof
  show "first_success rs = Inr r \<Longrightarrow> Inr r \<in> set rs" for rs :: "(js_error + 'a) list" and r
    by (induction rs rule: first_success.induct) (auto split: sum.splits)
  show "Inr r \<in> set rs \<Longrightarrow> \<exists>r'. first_success rs = Inr r'" for rs :: "(js_error + 'a) list" and r
    by (induction rs rule: first_success.induct) (auto split: sum.splits)
qed

text \<open>
  What the properties assume of the parameters, and an environment that satisfies it, with
  answers a witness can override.
\<close>

definition good_ext :: "ext \<Rightarrow> bool" where
  "good_ext E \<longleftrightarrow> bignumber (bn E) \<and> one_success_lib (one_success E)"

definition no_answer :: js_error where
  "no_answer = JsError ''timeout''"

definition demo_ext :: ext where
  "demo_ext = \<lparr>bn = exact_bn, cfg = (\<lambda>_. None), shortid = (\<lambda>n. Inr (''inv'' @ [char_of (48 + n mod 10)])),
     http_post = (\<lambda>_ _ _. Inr \<lparr>hs_status = 200, hs_body = ''ok''\<rparr>),
     bitcore_lib = (\<lambda>_. \<lparr>bc_tx = (\<lambda>h. Inr \<lparr>utx_hash = h, utx_outputs = [(''qaddr'', 5000)], utx_inputs = [0]\<rparr>),
       bc_address = (\<lambda>s. Inr s), bc_script = (\<lambda>s. Inr s),
       bc_p2pkh = (\<lambda>s. case s of None \<Rightarrow> Inl JsTypeError | Some a \<Rightarrow> Inr a), bc_p2sh = (\<lambda>s. Inr s)\<rparr>),
     btcjs_tx = (\<lambda>h. Inr \<lparr>utx_hash = h, utx_outputs = [(''qaddr'', 5000)], utx_inputs = [0]\<rparr>),
     btcjs_address = (\<lambda>s. Inr s), tap_decode = (\<lambda>s. Inr [s]),
     tap_p2tr = (\<lambda>s. Inr (Some s)), tap_address = (\<lambda>s. Inr (Some s)),
     ethers_tx = (\<lambda>h. Inr \<lparr>etx_to = Some ''qaddr'', etx_value = 5000, etx_data = [], etx_hash = Some h\<rparr>),
     hex_to_dec = (\<lambda>_. None), xrpl_decode = (\<lambda>_. Inl no_answer),
     solana_tx = (\<lambda>_. Inr ()), address_valid = (\<lambda>_ a. a \<noteq> []), one_success = first_success,
     provider = (\<lambda>_ _ _ h. Inr \<lparr>br_txid = h, br_success = True\<rparr>),
     mempool_tx = (\<lambda>_ _. Inl no_answer), mempool_fee = (\<lambda>_ _. Inr 1),
     tx_source = (\<lambda>_ _ _. Inl no_answer), rpc_tx = (\<lambda>_ _ _. Inl no_answer), rpc_block = (\<lambda>_ _ _. Inl no_answer),
     whatsonchain_tx = (\<lambda>_ _. Inl no_answer), xrp_tx_ledger = (\<lambda>_ _. Inl no_answer),
     xrp_ledger = (\<lambda>_ _. Inl no_answer), web3_tx = (\<lambda>_ _ _. Inr None),
     web3_receipt = (\<lambda>_ _ _. Inr None), web3_block = (\<lambda>_ _ _. Inl no_answer),
     solana_status = (\<lambda>_ _. Inl no_answer), solana_block = (\<lambda>_ _. Inr None),
     xmr_tx = (\<lambda>_ _. Inl no_answer), xmr_block = (\<lambda>_ _. Inr None),
     xmr_block_count = (\<lambda>_. Inl no_answer), xmr_send = (\<lambda>_ _. Inl no_answer),
     polynym = (\<lambda>_ a. Inr a), price_feed = (\<lambda>_ _ _. Inl no_answer),
     fiat_feed = (\<lambda>_ _. Inl no_answer), uuid = (\<lambda>n. Inr (''uuid'' @ [char_of (48 + n mod 10)])),
     new_key = (\<lambda>n. Inr (''pub'' @ [char_of (48 + n mod 10)], ''prv'' @ [char_of (48 + n mod 10)])),
     bcrypt_hash = (\<lambda>_ p. Inr (''#'' @ p)), bcrypt_compare = (\<lambda>p h. Inr (h = ''#'' @ p)),
     template_valid = (\<lambda>_. True), jwt_verify = (\<lambda>_ _. Inl no_answer), jwt_sign = (\<lambda>_ uid. uid),
     joi_number = (\<lambda>_. None), geo_lookup = (\<lambda>_. None), decoded_tx = (\<lambda>_ _ _. Inl no_answer)\<rparr>"

lemma good_demo_ext: "good_ext demo_ext"
  by (simp add: good_ext_def demo_ext_def bn_exact.bignumber_axioms first_success.one_success_lib_axioms)

end
