(* ===== verification/Fixtures.thy ===== *)
theory Fixtures
  imports Runtime
begin

text \<open>
  Concrete rows, a concrete world and the evaluation rules for them: the inputs at which the
  witnesses apply the properties. The client is \<open>pg\<close> and the environment \<open>demo_ext\<close>.
\<close>

definition demo_invoice :: invoice where
  "demo_invoice = \<lparr>inv_id = 1, inv_uid = ''abc'', inv_amount = Some 10, inv_currency = Some ''USD'',
     inv_status = ''unpaid'', inv_account_id = Some 1, inv_app_id = None, inv_hash = None,
     inv_address = None, inv_complete = False, inv_completed_at = None, inv_paidAt = None,
     inv_cancelled = False, inv_expiry = None, inv_uri = None, inv_webhook_url = None,
     inv_redirect_url = None, inv_memo = None, inv_secret = None, inv_metadata = None,
     inv_fee_rate_level = None, inv_external_id = None, inv_business_id = None,
     inv_location_id = None, inv_register_id = None, inv_wordpress_site_url = None,
     inv_is_public_request = None, inv_headers = None,
     inv_createdAt = 0, inv_updatedAt = 0\<rparr>"

definition demo_payment :: payment where
  "demo_payment = \<lparr>pay_id = 1, pay_txid = ''tx1'', pay_txhex = Some ''hex1'', pay_tx_key = None,
     pay_currency = ''BCH'', pay_chain = Some ''BCH'', pay_invoice_uid = ''abc'',
     pay_payment_option_id = Some 1, pay_account_id = Some 1, pay_status = Some ''confirming'',
     pay_wallet = None, pay_confirmation_hash = None, pay_confirmation_height = None,
     pay_confirmation_date = None, pay_total_input = None, pay_total_output = None,
      pay_network_fee = None, pay_createdAt = 0, pay_updatedAt = 0\<rparr>"

definition demo_option :: payment_option where
  "demo_option = \<lparr>po_id = 1, po_invoice_uid = ''abc'', po_currency = ''BCH'', po_chain = ''BCH'',
     po_amount = Some 5000, po_address = Some ''qaddr'',
     po_outputs = Some [\<lparr>out_address = Some ''qaddr'', out_amount = 5000, out_script = None\<rparr>],
     po_uri = None, po_currency_name = None, po_currency_logo_url = None,
     po_createdAt = 0, po_updatedAt = 0\<rparr>"

definition demo_tx :: transaction where
  "demo_tx = \<lparr>tx_hex = ''hex1'', tx_id = None, tx_key = None\<rparr>"

definition demo_account :: account where
  "demo_account = \<lparr>acc_id = 1, acc_email = Some ''a@b.c'', acc_denomination = Some ''USD'',
     acc_webhook_url = None, acc_password_hash = None, acc_business_name = None,
     acc_image_url = None, acc_physical_address = None, acc_stub = None, acc_latitude = None,
     acc_longitude = None, acc_registration_ip_address = None, acc_registration_geolocation = None\<rparr>"

definition demo_world :: world where
  "demo_world = empty_world\<lparr>db_invoices := [Some demo_invoice],
     db_payment_options := [Some demo_option], db_accounts := [Some demo_account]\<rparr>"

text \<open>The world after the invoice was paid and its payment is waiting for a block.\<close>

definition paid_world :: world where
  "paid_world = demo_world\<lparr>
     db_invoices := [Some (demo_invoice\<lparr>inv_status := ''paid'', inv_hash := Some ''tx1''\<rparr>)],
     db_payments := [Some demo_payment]\<rparr>"

lemmas demo_rows = demo_invoice_def demo_payment_def demo_option_def demo_tx_def demo_account_def

lemmas demo_worlds = demo_world_def paid_world_def empty_world_def

lemmas pg_eval = pg_def pg_api_def handle_defs row_def put_def next_id_def ids_ok_def

end
