(* ===== verification/Outputs.thy ===== *)
theory Outputs
  imports Fixtures
begin

text \<open>
  The outputs a payment must have: \<open>buildOutputs\<close> of \<open>src/lib/pay/json_v2/index.ts\<close> and
  \<open>verifyOutput\<close> of \<open>src/lib/pay/index.ts\<close>, with the loop that every verifier runs over
  them. Interpolated values are left out of error messages.
\<close>

section \<open>Expected outputs\<close>

definition jsonV2_buildOutputs :: "ext \<Rightarrow> payment_option \<Rightarrow> js_error + pay_output list" where
  "jsonV2_buildOutputs E paymentOption =
     (case po_outputs paymentOption of
        Some outputs \<Rightarrow> Inr outputs
      | None \<Rightarrow>
          (case po_address paymentOption of
             None \<Rightarrow> Inl (JsError ''address is required if outputs are not explicitly provided'')
           | Some address \<Rightarrow>
               if address = [] then Inl (JsError ''address is required if outputs are not explicitly provided'')
               else Inr [\<lparr>out_address = Some (strip_scheme address),
                 out_amount = bn_toNumber (bn E) (bn_times (bn E)
                   (case po_amount paymentOption of None \<Rightarrow> 0 | Some a \<Rightarrow> a) 100000000),
                 out_script = None\<rparr>]))"

section \<open>Decoded outputs\<close>

text \<open>
  The address and value of each output the library can give an address to; the others are
  dropped (\<open>catch { return null }\<close> and the filter).
\<close>

fun decode_outputs :: "(string \<Rightarrow> js_error + string) \<Rightarrow> (string \<times> num) list \<Rightarrow> (string \<times> num) list" where
  "decode_outputs addr [] = []"
| "decode_outputs addr ((script, value) # os) =
     (case addr script of Inl _ \<Rightarrow> decode_outputs addr os
      | Inr a \<Rightarrow> (a, value) # decode_outputs addr os)"

definition stripped :: "(string \<Rightarrow> js_error + string) \<Rightarrow> string \<Rightarrow> js_error + string" where
  "stripped addr s = (case addr s of Inl e \<Rightarrow> Inl e | Inr a \<Rightarrow> Inr (strip_scheme a))"

section \<open>Verification\<close>

text \<open>\<open>output.address.split(':')[1]\<close>, \<open>undefined\<close> when there is no colon.\<close>

definition after_colon :: "string \<Rightarrow> string option" where
  "after_colon a = (case split_on (CHR '':'') a of _ # b # _ \<Rightarrow> Some b | _ \<Rightarrow> None)"

text \<open>
  The address an expected output asks for: of its script when it has one, of the output
  itself otherwise. \<open>address.match\<close> fails on a missing address.
\<close>

definition target_address :: "(string \<Rightarrow> js_error + string) \<Rightarrow> pay_output \<Rightarrow> js_error + string option" where
  "target_address addr output =
     (case (if truthy (out_script output) then (case addr (the (out_script output)) of Inl e \<Rightarrow> Inl e | Inr a \<Rightarrow> Inr (Some a))
            else Inr (out_address output)) of
        Inl e \<Rightarrow> Inl e
      | Inr None \<Rightarrow> Inl JsTypeError
      | Inr (Some a) \<Rightarrow>
          if CHR '':'' \<in> set a
          then Inr (case out_address output of None \<Rightarrow> None | Some b \<Rightarrow> if b = [] then None else after_colon b)
          else Inr (Some a))"

definition verifyOutput :: "(string \<times> num) list \<Rightarrow> string option \<Rightarrow> num \<Rightarrow> js_error + unit" where
  "verifyOutput outputs targetAddress targetAmount =
     (if filter (\<lambda>(a, v). Some a = targetAddress \<and> v = targetAmount) outputs = []
      then Inl (JsError ''Missing required output'') else Inr ())"

fun verify_outputs ::
  "(pay_output \<Rightarrow> js_error + string option) \<Rightarrow> (string \<times> num) list \<Rightarrow> pay_output list \<Rightarrow> js_error + bool"
where
  "verify_outputs target txOutputs [] = Inr True"
| "verify_outputs target txOutputs (output # os) =
     (case target output of
        Inl e \<Rightarrow> Inl e
      | Inr address \<Rightarrow>
          (case verifyOutput txOutputs address (out_amount output) of
             Inl e \<Rightarrow> Inl e
           | Inr _ \<Rightarrow> verify_outputs target txOutputs os))"

lemma decode_outputs_iff:
  "(a, v) \<in> set (decode_outputs addr os) \<longleftrightarrow> (\<exists>s. (s, v) \<in> set os \<and> addr s = Inr a)"
  by (induction addr os rule: decode_outputs.induct) (auto split: sum.splits)

lemma verifyOutput_iff: "verifyOutput outs target v = Inr () \<longleftrightarrow> (\<exists>a. target = Some a \<and> (a, v) \<in> set outs)"
  by (auto simp: verifyOutput_def filter_empty_conv)

text \<open>The loop accepts exactly when every expected output is among the decoded ones.\<close>

lemma verify_outputs_iff:
  "verify_outputs target txo outs = Inr b \<longleftrightarrow>
     b \<and> (\<forall>o' \<in> set outs. \<exists>a. target o' = Inr (Some a) \<and> (a, out_amount o') \<in> set txo)"
proof (induction outs)
  case Nil
  then show ?case by auto
next
  case (Cons o' os)
  show ?case
  proof (cases "\<exists>a. target o' = Inr (Some a) \<and> (a, out_amount o') \<in> set txo")
    case True
    then obtain a where a: "target o' = Inr (Some a)" "(a, out_amount o') \<in> set txo" by blast
    then have "verifyOutput txo (Some a) (out_amount o') = Inr ()" by (simp add: verifyOutput_iff)
    with a show ?thesis by (simp add: Cons.IH)
  next
    case False
    then have "\<And>t. target o' = Inr t \<Longrightarrow> verifyOutput txo t (out_amount o') \<noteq> Inr ()"
      by (auto simp: verifyOutput_iff)
    with False show ?thesis by (auto split: sum.splits)
  qed
qed

lemma verify_outputs_True: "verify_outputs target txo outs = Inr b \<Longrightarrow> b"
  by (simp add: verify_outputs_iff)

end
