(* ===== verification/Events.thy ===== *)
theory Events
  imports Fixtures
begin

text \<open>
  Events: the Zod schemas of \<open>src/webhooks/schemas\<close> with their builders, the schema registry
  and the publishing functions of \<open>src/lib/amqp.ts\<close>, the event log of \<open>src/lib/events.ts\<close>,
  and \<open>validate\<close> of \<open>src/lib/webhooks.ts\<close>.
\<close>

section \<open>Decimal numerals in keys\<close>

text \<open>A number inside a template literal, \<open>`apps.${id}.events`\<close>.\<close>

fun decimal :: "nat \<Rightarrow> string" where
  "decimal n = (if n < 10 then [char_of (48 + n)] else decimal (n div 10) @ [char_of (48 + n mod 10)])"

declare decimal.simps [simp del]

fun undecimal :: "nat \<Rightarrow> string \<Rightarrow> nat" where
  "undecimal acc [] = acc"
| "undecimal acc (c # cs) = undecimal (10 * acc + (of_char c - 48)) cs"

lemma undecimal_append: "undecimal acc (s @ t) = undecimal (undecimal acc s) t"
  by (induction s arbitrary: acc) auto

lemma undecimal_decimal: "undecimal 0 (decimal n) = n"
proof (induction n rule: decimal.induct)
  case (1 n)
  show ?case
  proof (cases "n < 10")
    case True
    then show ?thesis by (simp add: decimal.simps [of n])
  next
    case False
    with 1 show ?thesis by (simp add: decimal.simps [of n] undecimal_append)
  qed
qed

lemma decimal_inject [simp]: "decimal m = decimal n \<longleftrightarrow> m = n"
  by (metis undecimal_decimal)

section \<open>Schemas\<close>

text \<open>
  A schema accepts or rejects an event and, as \<open>z.object\<close> does, drops the keys it does not
  declare. An optional key may be absent; \<open>quote\<close>, \<open>payment\<close> and \<open>confirmation\<close> must be
  present where they are declared.
\<close>

record schema =
  sch_accepts :: "event \<Rightarrow> bool"
  sch_strip :: "event \<Rightarrow> event"

definition schema_parse :: "schema \<Rightarrow> event \<Rightarrow> js_error + event" where
  "schema_parse s e = (if sch_accepts s e then Inr (sch_strip s e) else Inl ZodError)"

definition payment_status_matches :: "string \<Rightarrow> event \<Rightarrow> bool" where
  "payment_status_matches re e =
     (case ev_payment e of None \<Rightarrow> False | Some p \<Rightarrow> re_search re (ep_status p))"

definition InvoiceCreatedEvent :: schema where
  "InvoiceCreatedEvent = \<lparr>
     sch_accepts = (\<lambda>e. re_search ''invoice.created'' (ev_topic e) \<and>
       re_search ''unpaid'' (ev_invoice_status e) \<and> ev_quote e \<noteq> None),
     sch_strip = (\<lambda>e. e\<lparr>ev_payment := None, ev_confirmation := None\<rparr>)\<rparr>"

definition InvoiceCancelledEvent :: schema where
  "InvoiceCancelledEvent = \<lparr>
     sch_accepts = (\<lambda>e. re_search ''invoice.cancelled'' (ev_topic e) \<and>
       re_search ''cancelled'' (ev_invoice_status e)),
     sch_strip = (\<lambda>e. e\<lparr>ev_quote := None, ev_payment := None, ev_confirmation := None\<rparr>)\<rparr>"

definition InvoicePaidEvent :: schema where
  "InvoicePaidEvent = \<lparr>
     sch_accepts = (\<lambda>e. re_search ''invoice.paid'' (ev_topic e) \<and>
       re_search ''paid'' (ev_invoice_status e) \<and> ev_payment e \<noteq> None),
     sch_strip = (\<lambda>e. e\<lparr>ev_quote := None, ev_confirmation := None\<rparr>)\<rparr>"

definition PaymentConfirmingEvent :: schema where
  "PaymentConfirmingEvent = \<lparr>
     sch_accepts = (\<lambda>e. re_search ''payment.confirming'' (ev_topic e) \<and>
       re_search ''confirming'' (ev_invoice_status e) \<and> payment_status_matches ''confirming'' e),
     sch_strip = (\<lambda>e. e\<lparr>ev_quote := None, ev_confirmation := None\<rparr>)\<rparr>"

definition PaymentConfirmedEvent :: schema where
  "PaymentConfirmedEvent = \<lparr>
     sch_accepts = (\<lambda>e. re_search ''payment.confirmed'' (ev_topic e) \<and>
       re_search ''paid'' (ev_invoice_status e) \<and> payment_status_matches ''confirmed'' e \<and>
       ev_confirmation e \<noteq> None),
     sch_strip = (\<lambda>e. e\<lparr>ev_quote := None\<rparr>)\<rparr>"

definition PaymentFailedEvent :: schema where
  "PaymentFailedEvent = \<lparr>
     sch_accepts = (\<lambda>e. re_search ''payment.failed'' (ev_topic e) \<and>
       re_search ''unpaid'' (ev_invoice_status e) \<and> payment_status_matches ''failed'' e),
     sch_strip = (\<lambda>e. e\<lparr>ev_quote := None, ev_confirmation := None\<rparr>)\<rparr>"

lemmas schema_defs = InvoiceCreatedEvent_def InvoiceCancelledEvent_def InvoicePaidEvent_def
  PaymentConfirmingEvent_def PaymentConfirmedEvent_def PaymentFailedEvent_def

definition webhookSchemas :: "string \<Rightarrow> schema option" where
  "webhookSchemas = map_of [
     (''invoice.created'', InvoiceCreatedEvent),
     (''invoice.cancelled'', InvoiceCancelledEvent),
     (''invoice.paid'', InvoicePaidEvent),
     (''payment.confirming'', PaymentConfirmingEvent),
     (''payment.confirmed'', PaymentConfirmedEvent),
     (''payment.failed'', PaymentFailedEvent)]"

text \<open>\<open>validate\<close> puts the topic it is given into the event it checks.\<close>

definition validate :: "string \<Rightarrow> event \<Rightarrow> bool" where
  "validate topic payload =
     (case webhookSchemas topic of
        None \<Rightarrow> False
      | Some schema \<Rightarrow>
          (case schema_parse schema (payload\<lparr>ev_topic := topic\<rparr>) of Inl _ \<Rightarrow> False | Inr _ \<Rightarrow> True))"

section \<open>The registry\<close>

type_synonym registry = "(string \<times> schema) list"

definition registerSchema :: "string \<Rightarrow> schema \<Rightarrow> registry \<Rightarrow> js_error + registry" where
  "registerSchema name schema reg =
     (if map_of reg name \<noteq> None
      then Inl (JsError (''Schema with name '' @ name @ '' already exists''))
      else Inr (reg @ [(name, schema)]))"

fun register_all :: "(string \<times> schema) list \<Rightarrow> registry \<Rightarrow> js_error + registry" where
  "register_all [] reg = Inr reg"
| "register_all ((n, s) # rs) reg =
     (case registerSchema n s reg of Inl e \<Rightarrow> Inl e | Inr reg' \<Rightarrow> register_all rs reg')"

text \<open>
  The registrations made while the server's modules load: \<open>src/lib/pay/index.ts\<close>,
  \<open>src/lib/confirmations.ts\<close>, \<open>src/lib/blockcypher.ts\<close> and \<open>src/lib/invoices.ts\<close>.
\<close>

definition registrations :: "(string \<times> schema) list" where
  "registrations = [
     (''payment.confirming'', PaymentConfirmingEvent),
     (''payment.failed'', PaymentFailedEvent),
     (''invoice.paid'', InvoicePaidEvent),
     (''invoice.created'', InvoiceCreatedEvent),
     (''invoice.cancelled'', InvoiceCancelledEvent)]"

definition getSchema :: "string \<Rightarrow> schema option" where
  "getSchema name = (case register_all registrations [] of Inl _ \<Rightarrow> None | Inr reg \<Rightarrow> map_of reg name)"

section \<open>Publishing\<close>

text \<open>
  \<open>publish\<close> rejects what the topic's schema rejects; it sends the event as given, not the
  parsed copy. Messages that are not events (prices, rows) have no registered schema.
\<close>

definition publish :: "string \<Rightarrow> event \<Rightarrow> unit prog" where
  "publish key e =
     (case getSchema key of
        None \<Rightarrow> publish_raw key (EventMsg e)
      | Some schema \<Rightarrow>
          (case schema_parse schema e of
             Inl _ \<Rightarrow> throw (JsError ''Validation error'')
           | Inr _ \<Rightarrow> publish_raw key (EventMsg e)))"

definition app_key :: "nat \<Rightarrow> string" where
  "app_key n = ''apps.'' @ decimal n @ ''.events''"

definition account_key :: "nat \<Rightarrow> string" where
  "account_key n = ''accounts.'' @ decimal n @ ''.events''"

text \<open>The two keys of a subscriber: all its events, and those of one topic.\<close>

definition publish_to :: "string \<Rightarrow> event \<Rightarrow> unit prog" where
  "publish_to key e =
     bnd (not_awaited (publish key e)) (\<lambda>_. not_awaited (publish (key @ ''.'' @ ev_topic e) e))"

definition publishEvent :: "string \<Rightarrow> event \<Rightarrow> unit prog" where
  "publishEvent key e =
     bnd (case getSchema key of
            None \<Rightarrow> ret ()
          | Some schema \<Rightarrow> bnd (lift_result (schema_parse schema e)) (\<lambda>_. ret ())) (\<lambda>_.
     bnd (not_awaited (publish key e)) (\<lambda>_.
     bnd (case id_or_undefined (ev_app_id e) of None \<Rightarrow> ret () | Some n \<Rightarrow> publish_to (app_key n) e) (\<lambda>_.
     (case id_or_undefined (ev_account_id e) of None \<Rightarrow> ret () | Some n \<Rightarrow> publish_to (account_key n) e))))"

text \<open>\<open>publish\<close> of \<open>src/lib/webhooks.ts\<close>: the event, not awaited.\<close>

definition publish_webhook :: "string \<Rightarrow> event \<Rightarrow> unit prog" where
  "publish_webhook topic payload = not_awaited (publish topic (payload\<lparr>ev_topic := topic\<rparr>))"

section \<open>Builders\<close>

text \<open>
  Each topic's \<open>build\<close> reads the invoice and, where the schema asks for one, the payment,
  and refuses when their state does not fit the topic.
\<close>

definition blank_event :: "string \<Rightarrow> string \<Rightarrow> string \<Rightarrow> event" where
  "blank_event topic uid status =
     \<lparr>ev_topic = topic, ev_account_id = None, ev_app_id = None, ev_invoice_uid = uid,
      ev_invoice_status = status, ev_quote = None, ev_payment = None, ev_confirmation = None\<rparr>"

text \<open>\<open>if (invoice.account_id) \<dots>; if (invoice.app_id) \<dots>\<close>\<close>

definition with_owner :: "nat option \<Rightarrow> nat option \<Rightarrow> event \<Rightarrow> event" where
  "with_owner account app e =
     e\<lparr>ev_account_id := id_or_undefined account, ev_app_id := id_or_undefined app\<rparr>"

definition invoice_by_uid :: "prisma \<Rightarrow> string \<Rightarrow> invoice prog" where
  "invoice_by_uid P uid = find_first_or_throw (prisma_invoices P) (\<lambda>i. inv_uid i = uid)"

definition payment_by_invoice :: "prisma \<Rightarrow> string \<Rightarrow> payment prog" where
  "payment_by_invoice P uid = find_first_or_throw (prisma_payments P) (\<lambda>p. pay_invoice_uid p = uid)"

definition js_Number :: "num option \<Rightarrow> num" where
  "js_Number x = (case x of None \<Rightarrow> 0 | Some v \<Rightarrow> v)"

definition buildInvoiceCreated :: "prisma \<Rightarrow> string \<Rightarrow> event prog" where
  "buildInvoiceCreated P invoice_uid =
     bnd (invoice_by_uid P invoice_uid) (\<lambda>invoice.
     bnd (guard_io (inv_uid invoice = invoice_uid) (JsError ''Invoice not found'')) (\<lambda>_.
     ret (with_owner (inv_account_id invoice) (inv_app_id invoice)
       ((blank_event ''invoice.created'' invoice_uid ''unpaid'')
         \<lparr>ev_quote := Some (js_Number (inv_amount invoice), js_String (inv_currency invoice))\<rparr>))))"

definition buildInvoiceCancelled :: "prisma \<Rightarrow> string \<Rightarrow> event prog" where
  "buildInvoiceCancelled P invoice_uid =
     bnd (invoice_by_uid P invoice_uid) (\<lambda>invoice.
     bnd (guard_io (inv_status invoice = ''cancelled'') (JsError ''invoice is not cancelled'')) (\<lambda>_.
     ret (with_owner (inv_account_id invoice) (inv_app_id invoice)
       (blank_event ''invoice.cancelled'' invoice_uid ''cancelled''))))"

definition buildInvoicePaid :: "prisma \<Rightarrow> string \<Rightarrow> event prog" where
  "buildInvoicePaid P invoice_uid =
     bnd (invoice_by_uid P invoice_uid) (\<lambda>invoice.
     bnd (guard_io (inv_status invoice = ''paid'') (JsError ''Invoice is not paid'')) (\<lambda>_.
     bnd (payment_by_invoice P (inv_uid invoice)) (\<lambda>payment.
     ret (with_owner (inv_account_id invoice) (inv_app_id invoice)
       ((blank_event ''invoice.paid'' invoice_uid (inv_status invoice))
         \<lparr>ev_payment := Some \<lparr>ep_chain = js_String (pay_chain payment),
            ep_currency = pay_currency payment, ep_txid = pay_txid payment,
            ep_status = js_String (pay_status payment)\<rparr>\<rparr>)))))"

definition buildPaymentConfirming :: "prisma \<Rightarrow> string \<Rightarrow> event prog" where
  "buildPaymentConfirming P invoice_uid =
     bnd (payment_by_invoice P invoice_uid) (\<lambda>payment.
     bnd (invoice_by_uid P invoice_uid) (\<lambda>invoice.
     bnd (guard_io (pay_status payment = Some ''confirming'') (JsError ''Payment is not confirming'')) (\<lambda>_.
     ret (with_owner (pay_account_id payment) (inv_app_id invoice)
       ((blank_event ''payment.confirming'' invoice_uid (inv_status invoice))
         \<lparr>ev_payment := Some \<lparr>ep_chain = js_String (pay_chain payment),
            ep_currency = pay_currency payment, ep_txid = pay_txid payment,
            ep_status = ''confirming''\<rparr>\<rparr>)))))"

definition buildPaymentConfirmed :: "prisma \<Rightarrow> string \<Rightarrow> event prog" where
  "buildPaymentConfirmed P invoice_uid =
     bnd (payment_by_invoice P invoice_uid) (\<lambda>payment.
     bnd (invoice_by_uid P invoice_uid) (\<lambda>invoice.
     bnd (guard_io (inv_uid invoice = invoice_uid) (JsError ''Invoice not found'')) (\<lambda>_.
     bnd (guard_io (pay_invoice_uid payment = invoice_uid) (JsError ''Payment not found'')) (\<lambda>_.
     ret (with_owner (inv_account_id invoice) (inv_app_id invoice)
       ((blank_event ''payment.confirmed'' (inv_uid invoice) ''paid'')
         \<lparr>ev_payment := Some \<lparr>ep_chain = js_String (pay_chain payment),
            ep_currency = pay_currency payment, ep_txid = pay_txid payment,
            ep_status = ''confirmed''\<rparr>,
          ev_confirmation := Some (js_String (pay_confirmation_hash payment),
            (case pay_confirmation_height payment of None \<Rightarrow> 0 | Some h \<Rightarrow> h))\<rparr>))))))"

definition buildPaymentFailed :: "prisma \<Rightarrow> string \<Rightarrow> event prog" where
  "buildPaymentFailed P invoice_uid =
     bnd (payment_by_invoice P invoice_uid) (\<lambda>payment.
     bnd (invoice_by_uid P invoice_uid) (\<lambda>invoice.
     bnd (guard_io (inv_uid invoice = invoice_uid) (JsError ''Invoice not found'')) (\<lambda>_.
     bnd (guard_io (pay_status payment = Some ''failed'') (JsError ''Payment is not failed'')) (\<lambda>_.
     ret (with_owner (inv_account_id invoice) (inv_app_id invoice)
       ((blank_event ''payment.failed'' invoice_uid (inv_status invoice))
         \<lparr>ev_payment := Some \<lparr>ep_chain = js_String (pay_chain payment),
            ep_currency = pay_currency payment, ep_txid = pay_txid payment,
            ep_status = ''failed''\<rparr>\<rparr>))))))"

definition builderFunctions :: "prisma \<Rightarrow> string \<Rightarrow> (string \<Rightarrow> event prog) option" where
  "builderFunctions P = map_of [
     (''invoice.created'', buildInvoiceCreated P),
     (''invoice.paid'', buildInvoicePaid P),
     (''invoice.cancelled'', buildInvoiceCancelled P),
     (''payment.confirming'', buildPaymentConfirming P),
     (''payment.confirmed'', buildPaymentConfirmed P),
     (''payment.failed'', buildPaymentFailed P)]"

text \<open>\<open>WebhookBuilder\<close> of \<open>src/webhooks/builder.ts\<close>.\<close>

definition buildPayload :: "prisma \<Rightarrow> string \<Rightarrow> string \<Rightarrow> event prog" where
  "buildPayload P topic invoice_uid =
     (case builderFunctions P topic of
        None \<Rightarrow> throw (JsError (''No builder function for topic: '' @ topic))
      | Some build \<Rightarrow> build invoice_uid)"

definition post :: "ext \<Rightarrow> string \<Rightarrow> json \<Rightarrow> (http_failure + http_success) prog" where
  "post E url body =
     bnd (ask (\<lambda>n. Inr (http_post E n url body))) (\<lambda>r.
     bnd (writes (\<lambda>w. w\<lparr>posted := posted w @ [(url, body)]\<rparr>)) (\<lambda>_. ret r))"

definition builder_sendWebhook :: "ext \<Rightarrow> prisma \<Rightarrow> string \<Rightarrow> string \<Rightarrow> string \<Rightarrow> unit prog" where
  "builder_sendWebhook E P topic invoice_uid url =
     bnd (buildPayload P topic invoice_uid) (\<lambda>payload.
     bnd (post E url (EventJson payload)) (\<lambda>r.
     (case r of
        Inl failure \<Rightarrow> throw (JsError (''Failed to send webhook: '' @ hf_message failure))
      | Inr result \<Rightarrow>
          if hs_status result \<noteq> 200
          then throw (JsError (''Failed to send webhook: Unexpected status code: '' @ decimal (hs_status result)))
          else ret ())))"

text \<open>
  The consumer of one topic in \<open>src/webhooks/server.ts\<close>: it builds the payload again from
  the database, posts it to the invoice's own URL, and logs any error.
\<close>

definition on_topic :: "ext \<Rightarrow> prisma \<Rightarrow> event \<Rightarrow> unit prog" where
  "on_topic E P json =
     catch
       (bnd (guard_io (ev_invoice_uid json \<noteq> []) (JsError ''no invoice_uid'')) (\<lambda>_.
        bnd (invoice_by_uid P (ev_invoice_uid json)) (\<lambda>invoice.
        bnd (buildPayload P (ev_topic json) (ev_invoice_uid json)) (\<lambda>webhookPayload.
        (case inv_webhook_url invoice of
           None \<Rightarrow> ret ()
         | Some url \<Rightarrow> if url = [] then ret ()
             else builder_sendWebhook E P (ev_topic json) (ev_invoice_uid json) url)))))
       (\<lambda>_. ret ())"

section \<open>The event log\<close>

definition record_event_row ::
  "prisma \<Rightarrow> string \<Rightarrow> json \<Rightarrow> nat option \<Rightarrow> nat option \<Rightarrow> event_row prog" where
  "record_event_row P type payload account app =
     (\<lambda>w. create_row (prisma_events P) (\<lambda>i. \<lparr>evt_id = i, evt_type = type, evt_payload = payload,
        evt_account_id = account, evt_app_id = app, evt_invoice_uid = None,
        evt_namespace = None, evt_error = None, evt_createdAt = now w\<rparr>) w)"

text \<open>\<open>record\<close>: \<open>account_id: 1\<close> comes after the spread of the caller's data.\<close>

definition record_data :: "prisma \<Rightarrow> string \<Rightarrow> json \<Rightarrow> nat option \<Rightarrow> nat option \<Rightarrow> event_row prog" where
  "record_data P type payload account app = record_event_row P type payload (Some 1) app"

definition recordEvent :: "prisma \<Rightarrow> json \<Rightarrow> string \<Rightarrow> event_row prog" where
  "recordEvent P payload type = record_event_row P type payload None None"

definition listEvents :: "prisma \<Rightarrow> string \<Rightarrow> json \<Rightarrow> event_row list prog" where
  "listEvents P type payload =
     find_many (prisma_events P) (\<lambda>r. evt_type r = type \<and> evt_payload r = payload)"

definition listInvoiceEvents :: "prisma \<Rightarrow> invoice \<Rightarrow> string option \<Rightarrow> event_row list prog" where
  "listInvoiceEvents P invoice type =
     find_sorted (prisma_events P) (\<lambda>r. - evt_createdAt r)
       (\<lambda>r. evt_invoice_uid r = Some (inv_uid invoice) \<and> (truthy type \<longrightarrow> Some (evt_type r) = type))"

record event_log_options =
  elo_type :: "string option"
  elo_ascending :: bool
  elo_limit :: "nat option"
  elo_offset :: "nat option"

definition or_default :: "nat option \<Rightarrow> nat \<Rightarrow> nat" where
  "or_default x d = (case id_or_undefined x of None \<Rightarrow> d | Some n \<Rightarrow> n)"

definition listAccountEvents :: "prisma \<Rightarrow> account \<Rightarrow> event_log_options \<Rightarrow> event_row list prog" where
  "listAccountEvents P account opts =
     bnd (find_sorted (prisma_events P)
            (\<lambda>r. if elo_ascending opts then evt_createdAt r else - evt_createdAt r)
            (\<lambda>r. evt_account_id r = Some (acc_id account) \<and>
                 (truthy (elo_type opts) \<longrightarrow> Some (evt_type r) = elo_type opts)))
       (\<lambda>rs. ret (take (or_default (elo_limit opts) 100) (drop (or_default (elo_offset opts) 0) rs)))"

definition invoice_key :: "string \<Rightarrow> string" where
  "invoice_key uid = ''invoices.'' @ uid @ ''.events''"

definition republishEventToRoutingKeys :: "event_row \<Rightarrow> unit prog" where
  "republishEventToRoutingKeys r =
     bnd (case id_or_undefined (evt_account_id r) of None \<Rightarrow> ret ()
          | Some n \<Rightarrow> publish_raw (account_key n) (EventRowMsg r)) (\<lambda>_.
     bnd (case id_or_undefined (evt_app_id r) of None \<Rightarrow> ret ()
          | Some n \<Rightarrow> publish_raw (app_key n) (EventRowMsg r)) (\<lambda>_.
     (case evt_invoice_uid r of None \<Rightarrow> ret ()
      | Some u \<Rightarrow> if u = [] then ret () else publish_raw (invoice_key u) (EventRowMsg r))))"

section \<open>Facts about schemas and publishing\<close>

lemma register_all_ok:
  "distinct (map fst reg @ map fst rs) \<Longrightarrow> register_all rs reg = Inr (reg @ rs)"
proof (induction rs reg rule: register_all.induct)
  case (2 n s rs reg)
  then have "map_of reg n = None" by (auto simp: map_of_eq_None_iff)
  with 2 show ?case by (simp add: registerSchema_def)
qed simp

lemma getSchema_map_of: "getSchema = map_of registrations"
proof -
  have "register_all registrations [] = Inr registrations"
    using register_all_ok [of "[]" registrations] by (simp add: registrations_def)
  then show ?thesis by (simp add: getSchema_def fun_eq_iff)
qed

lemma getSchema_simps [simp]:
  "getSchema ''payment.confirming'' = Some PaymentConfirmingEvent"
  "getSchema ''payment.failed'' = Some PaymentFailedEvent"
  "getSchema ''invoice.paid'' = Some InvoicePaidEvent"
  "getSchema ''invoice.created'' = Some InvoiceCreatedEvent"
  "getSchema ''invoice.cancelled'' = Some InvoiceCancelledEvent"
  by (simp_all add: getSchema_map_of registrations_def)

lemma getSchema_routes [simp]:
  "getSchema (app_key n) = None" "getSchema (account_key n) = None"
  "getSchema (app_key n @ s) = None" "getSchema (account_key n @ s) = None"
  by (simp_all add: getSchema_map_of registrations_def app_key_def account_key_def)

lemma webhookSchemas_simps [simp]:
  "webhookSchemas ''invoice.created'' = Some InvoiceCreatedEvent"
  "webhookSchemas ''invoice.cancelled'' = Some InvoiceCancelledEvent"
  "webhookSchemas ''invoice.paid'' = Some InvoicePaidEvent"
  "webhookSchemas ''payment.confirming'' = Some PaymentConfirmingEvent"
  "webhookSchemas ''payment.confirmed'' = Some PaymentConfirmedEvent"
  "webhookSchemas ''payment.failed'' = Some PaymentFailedEvent"
  by (simp_all add: webhookSchemas_def)

lemma not_awaited_run [io_simps]:
  "not_awaited m w = (case m w of
       (Inl e, w') \<Rightarrow> (Inr (), if e = NeverSettles then w' else w'\<lparr>rejections := rejections w' @ [e]\<rparr>)
     | (Inr a, w') \<Rightarrow> (Inr (), w'))"
  by (simp add: not_awaited_def)

text \<open>The keys an event goes to, in order.\<close>

definition owner_routes :: "string \<Rightarrow> string \<Rightarrow> string list" where
  "owner_routes key topic = [key, key @ ''.'' @ topic]"

definition routes :: "string \<Rightarrow> event \<Rightarrow> string list" where
  "routes key e = key #
     (case id_or_undefined (ev_app_id e) of None \<Rightarrow> [] | Some n \<Rightarrow> owner_routes (app_key n) (ev_topic e)) @
     (case id_or_undefined (ev_account_id e) of None \<Rightarrow> [] | Some n \<Rightarrow> owner_routes (account_key n) (ev_topic e))"

definition accepted_on :: "string \<Rightarrow> event \<Rightarrow> bool" where
  "accepted_on key e \<longleftrightarrow> (case getSchema key of None \<Rightarrow> True | Some s \<Rightarrow> sch_accepts s e)"

lemma publish_run [io_simps]:
  "publish key e w =
     (if accepted_on key e then (Inr (), w\<lparr>published := published w @ [(key, EventMsg e)]\<rparr>)
      else (Inl (JsError ''Validation error''), w))"
  by (simp add: publish_def accepted_on_def schema_parse_def io_simps split: option.splits)

lemma accepted_on_routes [simp]:
  "accepted_on (app_key n) e" "accepted_on (account_key n) e"
  "accepted_on (app_key n @ s) e" "accepted_on (account_key n @ s) e"
  by (simp_all add: accepted_on_def)

lemma publishEvent_run [io_simps]:
  "publishEvent key e w =
     (if accepted_on key e
      then (Inr (), w\<lparr>published := published w @ map (\<lambda>k. (k, EventMsg e)) (routes key e)\<rparr>)
      else (Inl ZodError, w))"
proof (cases "accepted_on key e")
  case True
  then have "(case getSchema key of None \<Rightarrow> ret ()
      | Some schema \<Rightarrow> bnd (lift_result (schema_parse schema e)) (\<lambda>_. ret ())) = (ret () :: unit prog)"
    by (auto simp: accepted_on_def schema_parse_def fun_eq_iff io_simps split: option.splits)
  with True show ?thesis
    by (simp add: publishEvent_def publish_to_def routes_def owner_routes_def io_simps
        split: option.splits)
next
  case False
  then show ?thesis
    by (auto simp: publishEvent_def accepted_on_def schema_parse_def io_simps split: option.splits)
qed

lemma validate_iff:
  "validate topic e \<longleftrightarrow> (\<exists>s. webhookSchemas topic = Some s \<and> sch_accepts s (e\<lparr>ev_topic := topic\<rparr>))"
  by (auto simp: validate_def schema_parse_def split: option.splits)

context prisma_client
begin

lemma invoice_by_uid_run:
  "invoice_at uid w i invoice \<Longrightarrow> invoice_by_uid P uid w = (Inr invoice, w)"
  by (simp add: invoice_by_uid_def io_simps prisma_invoices_def ti.first_only)

end

text \<open>Running a computation backwards, for facts about what it returned.\<close>

lemma bnd_Inr_E:
  assumes "bnd m k w = (Inr b, w')"
  obtains a v where "m w = (Inr a, v)" "k a v = (Inr b, w')"
  using assms by (auto simp: bnd_run split: prod.splits sum.splits)

lemma guard_Inr_E:
  assumes "guard_io c e w = (Inr u, w')"
  obtains "c" "w' = w"
  using assms by (auto simp: guard_io_run split: if_splits)

lemma ret_Inr_E:
  assumes "ret a w = (Inr b, w')"
  obtains "b = a" "w' = w"
  using assms by (auto simp: ret_run)

lemma find_first_or_throw_Inr_E:
  assumes "find_first_or_throw h p w = (Inr r, w')"
  obtains "api_first (h_api h) p (h_get h w) = Some r" "w' = w"
  using assms by (auto simp: find_first_or_throw_run split: option.splits)

lemmas run_elims = bnd_Inr_E guard_Inr_E ret_Inr_E find_first_or_throw_Inr_E

lemmas builder_defs = buildInvoiceCreated_def buildInvoiceCancelled_def buildInvoicePaid_def
  buildPaymentConfirming_def buildPaymentConfirmed_def buildPaymentFailed_def

lemma buildPayload_cases:
  assumes "buildPayload P topic uid w = (Inr e, w')"
  obtains (created) "topic = ''invoice.created''" "buildInvoiceCreated P uid w = (Inr e, w')"
    | (paid) "topic = ''invoice.paid''" "buildInvoicePaid P uid w = (Inr e, w')"
    | (cancelled) "topic = ''invoice.cancelled''" "buildInvoiceCancelled P uid w = (Inr e, w')"
    | (confirming) "topic = ''payment.confirming''" "buildPaymentConfirming P uid w = (Inr e, w')"
    | (confirmed) "topic = ''payment.confirmed''" "buildPaymentConfirmed P uid w = (Inr e, w')"
    | (failed) "topic = ''payment.failed''" "buildPaymentFailed P uid w = (Inr e, w')"
  using assms
  by (auto simp: buildPayload_def builderFunctions_def throw_run split: option.splits if_splits)

lemma re_search_topics [simp]:
  "re_search ''invoice.created'' ''invoice.created''" "re_search ''invoice.cancelled'' ''invoice.cancelled''"
  "re_search ''invoice.paid'' ''invoice.paid''" "re_search ''payment.confirming'' ''payment.confirming''"
  "re_search ''payment.confirmed'' ''payment.confirmed''" "re_search ''payment.failed'' ''payment.failed''"
  by simp_all

lemma re_search_words:
  "re_search ''paid'' s = sublist ''paid'' s" "re_search ''unpaid'' s = sublist ''unpaid'' s"
  "re_search ''cancelled'' s = sublist ''cancelled'' s" "re_search ''confirming'' s = sublist ''confirming'' s"
  "re_search ''confirmed'' s = sublist ''confirmed'' s" "re_search ''failed'' s = sublist ''failed'' s"
  by (simp_all add: re_search_sublist)

lemmas builder_simps = validate_iff schema_defs payment_status_matches_def with_owner_def
  blank_event_def re_search_words

section \<open>Properties\<close>

text \<open>
  \<open>publishEvent\<close> (src/src/lib/amqp.ts) delivers an event its topic's schema accepts to
  the topic and, when it carries an app or an account, to that owner's two keys, each once
  and in that order, and does nothing else; an event the registered schema rejects is
  thrown back before anything is sent.
\<close>

theorem publishEvent_delivers:
  "publishEvent key e w =
     (if case getSchema key of None \<Rightarrow> True | Some s \<Rightarrow> sch_accepts s e
      then (Inr (), w\<lparr>published := published w @ map (\<lambda>k. (k, EventMsg e))
        (key #
         (case id_or_undefined (ev_app_id e) of None \<Rightarrow> []
          | Some n \<Rightarrow> [app_key n, app_key n @ ''.'' @ ev_topic e]) @
         (case id_or_undefined (ev_account_id e) of None \<Rightarrow> []
          | Some n \<Rightarrow> [account_key n, account_key n @ ''.'' @ ev_topic e]))\<rparr>)
      else (Inl ZodError, w))"
  unfolding publishEvent_run accepted_on_def routes_def owner_routes_def by (rule refl)

text \<open>
  What \<open>validate\<close> (src/src/lib/webhooks.ts) accepts, for each of the six topics. The
  status patterns are not anchored, so a status only has to contain the word: an event
  about an \<open>unpaid\<close> invoice passes as \<open>invoice.paid\<close>. Any other topic is refused.
\<close>

theorem validate_characterised:
  "validate topic e \<longleftrightarrow>
     (topic = ''invoice.created'' \<and> sublist ''unpaid'' (ev_invoice_status e) \<and> ev_quote e \<noteq> None) \<or>
     (topic = ''invoice.cancelled'' \<and> sublist ''cancelled'' (ev_invoice_status e)) \<or>
     (topic = ''invoice.paid'' \<and> sublist ''paid'' (ev_invoice_status e) \<and> ev_payment e \<noteq> None) \<or>
     (topic = ''payment.confirming'' \<and> sublist ''confirming'' (ev_invoice_status e) \<and>
        (\<exists>p. ev_payment e = Some p \<and> sublist ''confirming'' (ep_status p))) \<or>
     (topic = ''payment.confirmed'' \<and> sublist ''paid'' (ev_invoice_status e) \<and>
        (\<exists>p. ev_payment e = Some p \<and> sublist ''confirmed'' (ep_status p)) \<and> ev_confirmation e \<noteq> None) \<or>
     (topic = ''payment.failed'' \<and> sublist ''unpaid'' (ev_invoice_status e) \<and>
        (\<exists>p. ev_payment e = Some p \<and> sublist ''failed'' (ep_status p)))"
proof (cases "topic \<in> {''invoice.created'', ''invoice.cancelled'', ''invoice.paid'',
    ''payment.confirming'', ''payment.confirmed'', ''payment.failed''}")
  case True
  then show ?thesis
    unfolding validate_iff insert_iff empty_iff
    by (elim disjE)
      (simp_all del: re_search.simps
        add: schema_defs payment_status_matches_def re_search_words split: option.splits)
next
  case False
  then show ?thesis by (simp add: validate_iff webhookSchemas_def)
qed

text \<open>
  C19. Every payload a builder of src/src/webhooks/builder.ts returns is about the invoice it
  was asked for and passes the schema of its own topic, with two exceptions: the builders
  of \<open>payment.confirming\<close> and \<open>payment.failed\<close> copy the invoice's status, so their payload
  passes exactly when the invoice itself is confirming, or unpaid. Building changes nothing.
\<close>

theorem builders_fit_their_schema:
  assumes "buildPayload P topic uid w = (Inr e, w')"
  shows "ev_topic e = topic \<and> ev_invoice_uid e = uid \<and> w' = w \<and>
    (validate topic e \<longleftrightarrow>
      (topic = ''payment.confirming'' \<longrightarrow> sublist ''confirming'' (ev_invoice_status e)) \<and>
      (topic = ''payment.failed'' \<longrightarrow> sublist ''unpaid'' (ev_invoice_status e)))"
  using assms
proof (cases rule: buildPayload_cases)
  case created
  from created(2) show ?thesis
    unfolding created(1) builder_defs invoice_by_uid_def payment_by_invoice_def
    by (elim run_elims) (simp del: re_search.simps add: builder_simps)
next
  case paid
  from paid(2) show ?thesis
    unfolding paid(1) builder_defs invoice_by_uid_def payment_by_invoice_def
    by (elim run_elims) (simp del: re_search.simps add: builder_simps)
next
  case cancelled
  from cancelled(2) show ?thesis
    unfolding cancelled(1) builder_defs invoice_by_uid_def payment_by_invoice_def
    by (elim run_elims) (simp del: re_search.simps add: builder_simps)
next
  case confirming
  from confirming(2) show ?thesis
    unfolding confirming(1) builder_defs invoice_by_uid_def payment_by_invoice_def
    by (elim run_elims) (simp del: re_search.simps add: builder_simps)
next
  case confirmed
  from confirmed(2) show ?thesis
    unfolding confirmed(1) builder_defs invoice_by_uid_def payment_by_invoice_def
    by (elim run_elims) (simp del: re_search.simps add: builder_simps)
next
  case failed
  from failed(2) show ?thesis
    unfolding failed(1) builder_defs invoice_by_uid_def payment_by_invoice_def
    by (elim run_elims) (simp del: re_search.simps add: builder_simps)
qed

theorem builders_fit_their_schema_witness:
  "\<exists>e. buildPayload pg ''invoice.paid'' ''abc'' paid_world = (Inr e, paid_world) \<and>
     validate ''invoice.paid'' e"
proof -
  let ?w = "paid_world"
  obtain e where e: "buildPayload pg ''invoice.paid'' ''abc'' ?w = (Inr e, ?w)"
    by (simp add: buildPayload_def builderFunctions_def buildInvoicePaid_def invoice_by_uid_def
        payment_by_invoice_def io_simps pg_eval demo_worlds demo_rows)
  show ?thesis using builders_fit_their_schema [OF e] e by simp
qed

end
