(* ===== verification/PluginBase.thy ===== *)
theory PluginBase
  imports Outputs Events
begin

text \<open>
  The plugin interface and the abstract classes: \<open>Plugin\<close> of \<open>src/lib/plugin.ts\<close> and
  \<open>UTXOPlugin\<close> of \<open>src/lib/plugins/utxo.ts\<close>. A plugin object is the record of its methods;
  a class is a function that builds the record, and a subclass updates fields of the
  record of its parent. A method that calls another one through \<open>this\<close> takes it as an
  argument, so that an override is seen where the source would see it.
\<close>

section \<open>The interface\<close>

text \<open>\<open>Payment\<close> of \<open>src/lib/plugin.ts\<close>; an amount that is \<open>NaN\<close> is \<open>None\<close>.\<close>

record parsed_payment =
  pp_chain :: string
  pp_currency :: string
  pp_address :: string
  pp_amount :: "num option"
  pp_txid :: string

record plugin =
  plg_currency :: string
  plg_chain :: string
  plg_decimals :: nat
  plg_token :: "string option"
  plg_bitcore :: bitcore
  plg_toSatoshis :: "num \<Rightarrow> num"
  plg_fromSatoshis :: "num \<Rightarrow> num"
  plg_getNewAddress :: "address \<Rightarrow> string option"
  plg_transformAddress :: "string \<Rightarrow> string prog"
  plg_validateAddress :: "string \<Rightarrow> bool prog"
  plg_validateUnsignedTx :: "payment_option \<Rightarrow> transaction list \<Rightarrow> bool prog"
  plg_verifyPayment :: "payment_option \<Rightarrow> transaction \<Rightarrow> bool prog"
  plg_parsePayments :: "transaction \<Rightarrow> parsed_payment list prog"
  plg_getPayments :: "string \<Rightarrow> parsed_payment list prog"
  plg_getTransaction :: "string \<Rightarrow> transaction prog"
  plg_broadcastTx :: "transaction \<Rightarrow> broadcast_result prog"
  plg_getConfirmation :: "string \<Rightarrow> confirmation option prog"
  plg_getPrice :: "price_quote prog"

section \<open>The abstract class Plugin\<close>

text \<open>The default \<open>bitcore\<close> is an empty object: constructing anything from it fails.\<close>

definition no_bitcore :: bitcore where
  "no_bitcore = \<lparr>bc_tx = (\<lambda>_. Inl JsTypeError), bc_address = (\<lambda>_. Inl JsTypeError),
     bc_script = (\<lambda>_. Inl JsTypeError), bc_p2pkh = (\<lambda>_. Inl JsTypeError),
     bc_p2sh = (\<lambda>_. Inl JsTypeError)\<rparr>"

definition not_implemented :: "'a prog" where
  "not_implemented = throw (JsError ''not implemented'')"

text \<open>\<open>throw new Error()\<close>\<close>

definition throw_error :: "'a prog" where
  "throw_error = throw (JsError [])"

text \<open>An abstract method nobody overrides: calling \<open>undefined\<close>.\<close>

definition no_method :: "'a prog" where
  "no_method = throw JsTypeError"

definition Plugin_toSatoshis :: "ext \<Rightarrow> nat \<Rightarrow> num \<Rightarrow> num" where
  "Plugin_toSatoshis E decimals dec =
     of_int (js_trunc (bn_toNumber (bn E) (bn_times (bn E) dec (10 ^ decimals))))"

definition Plugin_fromSatoshis :: "ext \<Rightarrow> nat \<Rightarrow> num \<Rightarrow> num" where
  "Plugin_fromSatoshis E decimals integer =
     bn_toNumber (bn E) (bn_dividedBy (bn E) integer (10 ^ decimals))"

definition Plugin_getNewAddress :: "address \<Rightarrow> string option" where
  "Plugin_getNewAddress a = adr_value a"

definition Plugin_transformAddress :: "string \<Rightarrow> string prog" where
  "Plugin_transformAddress a = ret (strip_scheme a)"

definition Plugin_validateUnsignedTx ::
  "ext \<Rightarrow> bitcore \<Rightarrow> payment_option \<Rightarrow> transaction list \<Rightarrow> bool prog" where
  "Plugin_validateUnsignedTx E bitcore paymentOption transactions =
     (case transactions of
        [] \<Rightarrow> throw JsTypeError
      | transaction # _ \<Rightarrow>
          bnd (lift_result (bc_tx bitcore (tx_hex transaction))) (\<lambda>tx.
          let txOutputs = decode_outputs (stripped (bc_address bitcore)) (utx_outputs tx) in
          bnd (lift_result (jsonV2_buildOutputs E paymentOption)) (\<lambda>outputs.
          lift_result (verify_outputs (target_address (bc_address bitcore)) txOutputs outputs))))"

text \<open>\<open>validateUnsignedTx\<close> is \<open>this.validateUnsignedTx\<close>, an argument.\<close>

definition Plugin_verifyPayment ::
  "(payment_option \<Rightarrow> transaction list \<Rightarrow> bool prog) \<Rightarrow> payment_option \<Rightarrow> transaction \<Rightarrow> bool prog" where
  "Plugin_verifyPayment this_validateUnsignedTx paymentOption transaction =
     this_validateUnsignedTx paymentOption [transaction]"

definition parsed_of :: "string \<Rightarrow> string \<Rightarrow> string \<Rightarrow> (string \<times> num) list \<Rightarrow> parsed_payment list" where
  "parsed_of currency chain hash os =
     map (\<lambda>(a, v). \<lparr>pp_chain = chain, pp_currency = currency, pp_address = a, pp_amount = Some v,
       pp_txid = hash\<rparr>) os"

definition Plugin_parsePayments ::
  "bitcore \<Rightarrow> string \<Rightarrow> string \<Rightarrow> transaction \<Rightarrow> parsed_payment list prog" where
  "Plugin_parsePayments bitcore currency chain transaction =
     bnd (lift_result (bc_tx bitcore (tx_hex transaction))) (\<lambda>tx.
     ret (parsed_of currency chain (utx_hash tx)
       (decode_outputs (stripped (bc_address bitcore)) (utx_outputs tx))))"

definition kraken_getPrice :: "ext \<Rightarrow> string \<Rightarrow> price_quote prog" where
  "kraken_getPrice E currency = ask (\<lambda>n. price_feed E n ''kraken'' currency)"

definition Plugin :: "ext \<Rightarrow> string \<Rightarrow> string \<Rightarrow> nat \<Rightarrow> bitcore \<Rightarrow> plugin" where
  "Plugin E currency chain decimals bitcore = \<lparr>
     plg_currency = currency, plg_chain = chain, plg_decimals = decimals, plg_token = None,
     plg_bitcore = bitcore,
     plg_toSatoshis = Plugin_toSatoshis E decimals,
     plg_fromSatoshis = Plugin_fromSatoshis E decimals,
     plg_getNewAddress = Plugin_getNewAddress,
     plg_transformAddress = Plugin_transformAddress,
     plg_validateAddress = (\<lambda>_. no_method),
     plg_validateUnsignedTx = Plugin_validateUnsignedTx E bitcore,
     plg_verifyPayment = Plugin_verifyPayment (Plugin_validateUnsignedTx E bitcore),
     plg_parsePayments = Plugin_parsePayments bitcore currency chain,
     plg_getPayments = (\<lambda>_. not_implemented),
     plg_getTransaction = (\<lambda>_. no_method),
     plg_broadcastTx = (\<lambda>_. no_method),
     plg_getConfirmation = (\<lambda>_. no_method),
     plg_getPrice = kraken_getPrice E currency\<rparr>"

section \<open>Confirmations from a node\<close>

definition date_of_unix :: "int option \<Rightarrow> time option" where
  "date_of_unix t = (case t of None \<Rightarrow> None | Some s \<Rightarrow> Some (s * 1000))"

text \<open>
  \<open>UTXOPlugin.getConfirmation\<close>, which BCH and DASH repeat: no block hash, no confirmation.
\<close>

definition node_getConfirmation :: "ext \<Rightarrow> string \<Rightarrow> string \<Rightarrow> confirmation option prog" where
  "node_getConfirmation E url txid =
     bnd (ask (\<lambda>n. rpc_tx E n url txid)) (\<lambda>transaction.
     if \<not> truthy (rt_blockhash transaction) then ret None
     else
       bnd (ask (\<lambda>n. rpc_block E n url (the (rt_blockhash transaction)))) (\<lambda>height.
       ret (Some \<lparr>cf_hash = rt_blockhash transaction, cf_height = Some height,
         cf_date = date_of_unix (rt_blocktime transaction),
         cf_confirmations = rt_confirmations transaction\<rparr>)))"

text \<open>\<open>if (!this.providerURL) throw\<close> comes first in both calls.\<close>

definition UTXO_getConfirmation :: "ext \<Rightarrow> string option \<Rightarrow> string \<Rightarrow> confirmation option prog" where
  "UTXO_getConfirmation E providerURL txid =
     (if \<not> truthy providerURL then throw (JsError ''providerURL is not set'')
      else node_getConfirmation E (the providerURL) txid)"

definition UTXO_Plugin :: "ext \<Rightarrow> string \<Rightarrow> string \<Rightarrow> nat \<Rightarrow> bitcore \<Rightarrow> string option \<Rightarrow> plugin" where
  "UTXO_Plugin E currency chain decimals bitcore providerURL =
     (Plugin E currency chain decimals bitcore)\<lparr>plg_getConfirmation := UTXO_getConfirmation E providerURL\<rparr>"

section \<open>Broadcasting\<close>

text \<open>
  Every provider is asked at once; \<open>oneSuccess\<close> picks the answer. That the transaction left
  the server is recorded as soon as one provider was asked.
\<close>

definition broadcast_to :: "ext \<Rightarrow> string \<Rightarrow> string list \<Rightarrow> string \<Rightarrow> broadcast_result prog" where
  "broadcast_to E chain providers hex =
     bnd (map_io (\<lambda>name. ask (\<lambda>n. Inr (provider E n name chain hex))) providers) (\<lambda>answers.
     bnd (writes (\<lambda>w. if providers = [] then w else w\<lparr>broadcasts := broadcasts w @ [(chain, hex)]\<rparr>)) (\<lambda>_.
     lift_result (one_success E answers)))"

section \<open>Facts about verification\<close>

text \<open>
  The check every UTXO plugin makes, in terms of the transaction: each expected output is
  one of the outputs the library can read.
\<close>

lemma Plugin_validateUnsignedTx_run:
  "Plugin_validateUnsignedTx E bc po (t # ts) w =
     (case bc_tx bc (tx_hex t) of Inl e \<Rightarrow> Inl e | Inr tx \<Rightarrow>
        (case jsonV2_buildOutputs E po of Inl e \<Rightarrow> Inl e | Inr outs \<Rightarrow>
           verify_outputs (target_address (bc_address bc))
             (decode_outputs (stripped (bc_address bc)) (utx_outputs tx)) outs), w)"
  by (simp add: Plugin_validateUnsignedTx_def io_simps Let_def split: sum.splits)

lemma broadcast_to_world:
  "\<exists>r. snd (broadcast_to E chain ps hex w) =
     w\<lparr>ticks := r, broadcasts := broadcasts w @ (if ps = [] then [] else [(chain, hex)])\<rparr>"
proof -
  define f where "f = (\<lambda>name. ask (\<lambda>n. Inr (provider E n name chain hex)))"
  have f: "f p w = (Inr (provider E (ticks w) p chain hex), w\<lparr>ticks := Suc (ticks w)\<rparr>)" for p w
    by (simp add: f_def ask_run)
  have m: "\<exists>r xs. map_io f ps w = (Inr xs, w\<lparr>ticks := r\<rparr>)" for w :: world
  proof (induction ps arbitrary: w)
    case Nil
    then show ?case by (auto simp: io_simps intro: exI [of _ "ticks w"])
  next
    case (Cons p ps)
    obtain r xs where "map_io f ps (w\<lparr>ticks := Suc (ticks w)\<rparr>) =
        (Inr xs, w\<lparr>ticks := Suc (ticks w)\<rparr>\<lparr>ticks := r\<rparr>)" using Cons.IH by blast
    then show ?case by (auto simp: bnd_run ret_run f [of p w])
  qed
  obtain r xs where "map_io f ps w = (Inr xs, w\<lparr>ticks := r\<rparr>)" using m by blast
  then have "snd (broadcast_to E chain ps hex w) =
     w\<lparr>ticks := r, broadcasts := broadcasts w @ (if ps = [] then [] else [(chain, hex)])\<rparr>"
    by (simp add: broadcast_to_def f_def [symmetric] bnd_run writes_run lift_result_run)
  then show ?thesis ..
qed

end
