(* ===== verification/UtxoPlugins.thy ===== *)
theory UtxoPlugins
  imports PluginBase
begin

text \<open>
  The plugins of the chains with unspent outputs: \<open>src/plugins/{btc,fb,bch,bsv,dash,ltc,doge}\<close>.
\<close>

section \<open>Reading outputs with bitcoinjs and tapscript\<close>

text \<open>\<open>getTaprootAddressFromOutput\<close>, the same in \<open>BTC\<close> and \<open>FB\<close>; any error gives \<open>null\<close>.\<close>

definition getTaprootAddressFromOutput :: "ext \<Rightarrow> string \<Rightarrow> string option" where
  "getTaprootAddressFromOutput E outputScript =
     (case tap_decode E outputScript of
        Inl _ \<Rightarrow> None
      | Inr script \<Rightarrow>
          (case script of
             [op] \<Rightarrow> if op = ''OP_1'' then None
                     else (case tap_address E outputScript of Inl _ \<Rightarrow> None | Inr a \<Rightarrow> a)
           | op # scriptPubKey # _ \<Rightarrow>
               if op = ''OP_1''
               then (case tap_p2tr E scriptPubKey of Inl _ \<Rightarrow> None | Inr a \<Rightarrow> a)
               else (case tap_address E outputScript of Inl _ \<Rightarrow> None | Inr a \<Rightarrow> a)
           | [] \<Rightarrow> (case tap_address E outputScript of Inl _ \<Rightarrow> None | Inr a \<Rightarrow> a)))"

definition output_address :: "ext \<Rightarrow> string \<Rightarrow> js_error + string" where
  "output_address E script =
     (let taproot = getTaprootAddressFromOutput E script in
      if truthy taproot then Inr (the taproot) else btcjs_address E script)"

definition BTC_parsePayments :: "ext \<Rightarrow> string \<Rightarrow> string \<Rightarrow> transaction \<Rightarrow> parsed_payment list prog" where
  "BTC_parsePayments E currency chain transaction =
     bnd (lift_result (btcjs_tx E (tx_hex transaction))) (\<lambda>tx.
     ret (parsed_of currency chain (utx_hash tx)
       (decode_outputs (output_address E) (utx_outputs tx))))"

text \<open>
  \<open>output.script ? fromOutputScript(\<dots>) : output.address\<close>; there is no colon treatment, and
  a missing address matches nothing.
\<close>

definition BTC_target :: "ext \<Rightarrow> pay_output \<Rightarrow> js_error + string option" where
  "BTC_target E output =
     (if truthy (out_script output)
      then (case btcjs_address E (the (out_script output)) of Inl e \<Rightarrow> Inl e | Inr a \<Rightarrow> Inr (Some a))
      else Inr (out_address output))"

definition address_amounts :: "parsed_payment list \<Rightarrow> (string \<times> num) list" where
  "address_amounts ps = map (\<lambda>p. (pp_address p, the (pp_amount p))) (filter (\<lambda>p. pp_amount p \<noteq> None) ps)"

definition BTC_validateUnsignedTx ::
  "ext \<Rightarrow> string \<Rightarrow> string \<Rightarrow> payment_option \<Rightarrow> transaction list \<Rightarrow> bool prog" where
  "BTC_validateUnsignedTx E currency chain paymentOption transactions =
     (case transactions of
        [] \<Rightarrow> throw JsTypeError
      | transaction # _ \<Rightarrow>
          bnd (BTC_parsePayments E currency chain
                 \<lparr>tx_hex = tx_hex transaction, tx_id = None, tx_key = None\<rparr>) (\<lambda>payments.
          bnd (lift_result (jsonV2_buildOutputs E paymentOption)) (\<lambda>expectedOutputs.
          lift_result (verify_outputs (BTC_target E) (address_amounts payments) expectedOutputs))))"

text \<open>
  \<open>getConfirmation\<close> of \<open>BTC\<close>, which \<open>FB\<close> repeats word for word, the Bitcoin service
  included. Any error means no confirmation.
\<close>

definition BTC_getConfirmation :: "ext \<Rightarrow> string \<Rightarrow> confirmation option prog" where
  "BTC_getConfirmation E hash =
     catch
       (bnd (ask (\<lambda>n. mempool_tx E n hash)) (\<lambda>status.
        if \<not> ms_confirmed status then ret None
        else ret (Some \<lparr>cf_hash = Some (ms_block_hash status), cf_height = Some (ms_block_height status),
          cf_date = Some (ms_block_time status * 1000), cf_confirmations = Some 1\<rparr>)))
       (\<lambda>_. ret None)"

definition BTC_broadcastTx :: "ext \<Rightarrow> transaction \<Rightarrow> broadcast_result prog" where
  "BTC_broadcastTx E transaction =
     broadcast_to E ''BTC''
       ((if truthy (cfg E ''BLOCKCHAIR_BROADCAST_PROVIDER_BTC_ENABLED'') then [''blockchair''] else []) @
        (if truthy (cfg E ''CHAIN_SO_BROADCAST_PROVIDER_ENABLED'') then [''chain_so''] else []) @
        (if truthy (cfg E ''BITCOIND_RPC_HOST'') then [''bitcoind_rpc''] else []) @
        (if truthy (cfg E ''NOWNODES_ENABLED'') then [''nownodes''] else []))
       (tx_hex transaction)"

definition BTC_validateAddress :: "ext \<Rightarrow> string \<Rightarrow> bool prog" where
  "BTC_validateAddress E a = ret (address_valid E ''bitcoinjs'' a)"

text \<open>\<open>return { txhex: '' } //TODO\<close>\<close>

definition empty_transaction :: "string \<Rightarrow> transaction prog" where
  "empty_transaction hash = ret \<lparr>tx_hex = [], tx_id = None, tx_key = None\<rparr>"

definition BTC :: "ext \<Rightarrow> plugin" where
  "BTC E = (UTXO_Plugin E ''BTC'' ''BTC'' 8 (bitcore_lib E ''bitcore-lib'')
       (Some (cfg_string E ''GETBLOCK_BTC_URL'')))\<lparr>
     plg_getPayments := (\<lambda>_. throw_error),
     plg_parsePayments := BTC_parsePayments E ''BTC'' ''BTC'',
     plg_broadcastTx := BTC_broadcastTx E,
     plg_validateAddress := BTC_validateAddress E,
     plg_getTransaction := empty_transaction,
     plg_validateUnsignedTx := BTC_validateUnsignedTx E ''BTC'' ''BTC'',
     plg_verifyPayment := Plugin_verifyPayment (BTC_validateUnsignedTx E ''BTC'' ''BTC''),
     plg_getConfirmation := BTC_getConfirmation E\<rparr>"

section \<open>Fractal Bitcoin\<close>

text \<open>
  The one provider's failure is caught inside the promise, which then resolves to a result
  with \<open>success: false\<close>.
\<close>

definition FB_provider :: "ext \<Rightarrow> nat \<Rightarrow> string \<Rightarrow> js_error + broadcast_result" where
  "FB_provider E n hex =
     (case provider E n ''mempool.fractalbitcoin.io'' ''FB'' hex of
        Inl _ \<Rightarrow> Inr \<lparr>br_txid = [], br_success = False\<rparr>
      | Inr result \<Rightarrow> Inr result)"

definition FB_broadcastTx :: "ext \<Rightarrow> transaction \<Rightarrow> broadcast_result prog" where
  "FB_broadcastTx E transaction =
     bnd (ask (\<lambda>n. Inr (FB_provider E n (tx_hex transaction)))) (\<lambda>answer.
     bnd (writes (\<lambda>w. w\<lparr>broadcasts := broadcasts w @ [(''FB'', tx_hex transaction)]\<rparr>)) (\<lambda>_.
     lift_result (one_success E [answer])))"

text \<open>\<open>getPrice\<close>: on any error a quote of zero.\<close>

definition FB_getPrice :: "ext \<Rightarrow> price_quote prog" where
  "FB_getPrice E = catch (ask (\<lambda>n. price_feed E n ''mexc'' ''FB''))
     (\<lambda>_. ret \<lparr>pq_base_currency = ''USD'', pq_currency = ''FB'', pq_value = 0,
        pq_source = Some ''mexc_fallback'', pq_change_24hr = None\<rparr>)"

definition FB :: "ext \<Rightarrow> plugin" where
  "FB E = (UTXO_Plugin E ''FB'' ''FB'' 8 (bitcore_lib E ''bitcore-lib'')
       (Some ''https://mempool.fractalbitcoin.io/api/v1''))\<lparr>
     plg_getPayments := (\<lambda>_. throw_error),
     plg_getPrice := FB_getPrice E,
     plg_parsePayments := BTC_parsePayments E ''FB'' ''FB'',
     plg_broadcastTx := FB_broadcastTx E,
     plg_validateAddress := BTC_validateAddress E,
     plg_getTransaction := empty_transaction,
     plg_validateUnsignedTx := BTC_validateUnsignedTx E ''FB'' ''FB'',
     plg_verifyPayment := Plugin_verifyPayment (BTC_validateUnsignedTx E ''FB'' ''FB''),
     plg_getConfirmation := BTC_getConfirmation E\<rparr>"

section \<open>Bitcoin Cash, Dash\<close>

text \<open>
  \<open>BCH.validateUnsignedTx\<close> repeats the base method with an object of its own; it reads the
  same fields. Both plugins ask their node for confirmations.
\<close>

definition BCH_validateUnsignedTx ::
  "ext \<Rightarrow> bitcore \<Rightarrow> payment_option \<Rightarrow> transaction list \<Rightarrow> bool prog" where
  "BCH_validateUnsignedTx E bitcore paymentOption transactions =
     (case transactions of
        [] \<Rightarrow> throw JsTypeError
      | transaction # _ \<Rightarrow>
          bnd (lift_result (bc_tx bitcore (tx_hex transaction))) (\<lambda>tx.
          let txOutputs = decode_outputs (stripped (bc_address bitcore)) (utx_outputs tx) in
          bnd (lift_result (jsonV2_buildOutputs E paymentOption)) (\<lambda>outputs.
          lift_result (verify_outputs (target_address (bc_address bitcore)) txOutputs outputs))))"

definition BCH_validateAddress :: "ext \<Rightarrow> string \<Rightarrow> bool prog" where
  "BCH_validateAddress E a =
     ret (address_valid E ''bch.HDPublicKey'' a \<or> address_valid E ''bchaddr.isCashAddress'' a)"

definition BCH :: "ext \<Rightarrow> plugin" where
  "BCH E = (Plugin E ''BCH'' ''BCH'' 8 (bitcore_lib E ''bitcore-lib-cash''))\<lparr>
     plg_getPayments := (\<lambda>_. throw_error),
     plg_getConfirmation := node_getConfirmation E (cfg_string E ''GETBLOCK_BCH_URL''),
     plg_validateUnsignedTx := BCH_validateUnsignedTx E (bitcore_lib E ''bitcore-lib-cash''),
     plg_broadcastTx := (\<lambda>t. broadcast_to E ''BCH'' [''blockchair''] (tx_hex t)),
     plg_validateAddress := BCH_validateAddress E,
     plg_getTransaction := empty_transaction,
     plg_verifyPayment := Plugin_verifyPayment
       (BCH_validateUnsignedTx E (bitcore_lib E ''bitcore-lib-cash''))\<rparr>"

definition DASH :: "ext \<Rightarrow> plugin" where
  "DASH E = (Plugin E ''DASH'' ''DASH'' 8 (bitcore_lib E ''dashcore-lib''))\<lparr>
     plg_getPayments := (\<lambda>_. throw_error),
     plg_getConfirmation := node_getConfirmation E (cfg_string E ''GETBLOCK_DASH_URL''),
     plg_broadcastTx := (\<lambda>t. broadcast_to E ''DASH'' [''blockchair'', ''blockcypher'', ''insight''] (tx_hex t)),
     plg_validateAddress := (\<lambda>a. ret (address_valid E ''dashcore-lib'' a)),
     plg_getTransaction := (\<lambda>_. throw (JsError ''plugin.dash.getTansaction(txid: string) not implemented''))\<rparr>"

section \<open>Bitcoin SV\<close>

text \<open>There is no test for a missing block hash here: an unmined transaction is confirmed.\<close>

definition BSV_getConfirmation :: "ext \<Rightarrow> string \<Rightarrow> confirmation option prog" where
  "BSV_getConfirmation E hash =
     bnd (ask (\<lambda>n. whatsonchain_tx E n hash)) (\<lambda>transaction.
     ret (Some \<lparr>cf_hash = rt_blockhash transaction, cf_height = rt_blockheight transaction,
       cf_date = date_of_unix (rt_blocktime transaction),
       cf_confirmations = rt_confirmations transaction\<rparr>))"

definition BSV_transformAddress :: "ext \<Rightarrow> string \<Rightarrow> string prog" where
  "BSV_transformAddress E alias =
     catch (ask (\<lambda>n. polynym E n (hd (split_on (CHR ''?'') (strip_scheme alias)))))
       (\<lambda>_. throw (JsError ''invalid BSV address''))"

definition BSV_getTransaction :: "ext \<Rightarrow> string \<Rightarrow> transaction prog" where
  "BSV_getTransaction E hash =
     bnd (ask (\<lambda>n. tx_source E n ''whatsonchain'' hash)) (\<lambda>hex.
     ret \<lparr>tx_hex = hex, tx_id = None, tx_key = None\<rparr>)"

definition BSV :: "ext \<Rightarrow> plugin" where
  "BSV E = (UTXO_Plugin E ''BSV'' ''BSV'' 8 (bitcore_lib E ''scrypt-ts'')
       (Some (cfg_string E ''GETBLOCK_BSV_URL'')))\<lparr>
     plg_getConfirmation := BSV_getConfirmation E,
     plg_broadcastTx := (\<lambda>t. broadcast_to E ''BSV'' [''taal'', ''blockchair'', ''whatsonchain''] (tx_hex t)),
     plg_getTransaction := BSV_getTransaction E,
     plg_validateAddress := (\<lambda>a. ret (address_valid E ''scrypt-ts'' a)),
     plg_transformAddress := BSV_transformAddress E,
     plg_getPrice := ask (\<lambda>n. price_feed E n ''gate.io'' ''BSV'')\<rparr>"

section \<open>Litecoin, Dogecoin\<close>

definition LTC :: "ext \<Rightarrow> plugin" where
  "LTC E = (UTXO_Plugin E ''LTC'' ''LTC'' 8 (bitcore_lib E ''litecore-lib'')
       (Some (cfg_string E ''GETBLOCK_LTC_URL'')))\<lparr>
     plg_getPayments := (\<lambda>_. throw_error),
     plg_broadcastTx := (\<lambda>t. broadcast_to E ''LTC'' [''blockchair''] (tx_hex t)),
     plg_validateAddress := (\<lambda>a. ret (address_valid E ''litecoin'' a)),
     plg_getTransaction := empty_transaction\<rparr>"

definition DOGE :: "ext \<Rightarrow> plugin" where
  "DOGE E = (UTXO_Plugin E ''DOGE'' ''DOGE'' 8 (bitcore_lib E ''bitcore-doge-lib'')
       (Some (cfg_string E ''GETBLOCK_DOGE_URL'')))\<lparr>
     plg_broadcastTx := (\<lambda>t. broadcast_to E ''DOGE'' [''blockchair''] (tx_hex t)),
     plg_validateAddress := (\<lambda>a. ret (address_valid E ''bitcore-doge-lib'' a)),
     plg_getTransaction := empty_transaction\<rparr>"

end
