(* ===== verification/EvmPlugins.thy ===== *)
theory EvmPlugins
  imports PluginBase
begin

text \<open>
  The plugins of the chains with an Ethereum machine: the classes \<open>EVM\<close> and \<open>ERC20\<close> of
  \<open>src/lib/plugins\<close> and the nine plugins built from them. Amounts pass through doubles.
\<close>

section \<open>EVM\<close>

definition js_slice :: "nat \<Rightarrow> nat \<Rightarrow> string \<Rightarrow> string" where
  "js_slice i j s = drop i (take j s)"

text \<open>\<open>String(to?.toLowerCase())\<close>, \<open>String(hash)\<close>\<close>

definition lower_or_undefined :: "string option \<Rightarrow> string" where
  "lower_or_undefined x = (case x of None \<Rightarrow> ''undefined'' | Some s \<Rightarrow> to_lower s)"

definition EVM_getPayments :: "ext \<Rightarrow> string \<Rightarrow> string \<Rightarrow> string \<Rightarrow> string \<Rightarrow> parsed_payment list prog" where
  "EVM_getPayments E url currency chain hash =
     bnd (ask (\<lambda>n. web3_tx E n url hash)) (\<lambda>found.
     (case found of
        None \<Rightarrow> throw JsTypeError
      | Some transaction \<Rightarrow>
          (case etx_to transaction of
             None \<Rightarrow> throw JsTypeError
           | Some a \<Rightarrow> ret [\<lparr>pp_chain = chain, pp_currency = currency, pp_address = to_lower a,
               pp_amount = Some (of_nat (double_of_nat (etx_value transaction))), pp_txid = hash\<rparr>])))"

definition EVM_parsePayments :: "ext \<Rightarrow> string \<Rightarrow> string \<Rightarrow> transaction \<Rightarrow> parsed_payment list prog" where
  "EVM_parsePayments E currency chain t =
     bnd (lift_result (ethers_tx E (tx_hex t))) (\<lambda>transaction.
     ret [\<lparr>pp_chain = chain, pp_currency = currency,
       pp_address = lower_or_undefined (etx_to transaction),
       pp_amount = Some (of_nat (double_of_nat (etx_value transaction))),
       pp_txid = string_or_undefined (etx_hash transaction)\<rparr>])"

text \<open>
  The lookup in \<open>evmTransactionReceipts\<close> that opens the method has no effect on its result
  and is left out.
\<close>

definition EVM_getConfirmation :: "ext \<Rightarrow> string \<Rightarrow> string \<Rightarrow> confirmation option prog" where
  "EVM_getConfirmation E url hash =
     bnd (ask (\<lambda>n. web3_receipt E n url hash)) (\<lambda>found.
     (case found of
        None \<Rightarrow> ret None
      | Some receipt \<Rightarrow>
          if \<not> truthy (rc_blockHash receipt) then ret None
          else
            bnd (ask (\<lambda>n. web3_block E n url (the (rc_blockHash receipt)))) (\<lambda>(_, timestamp).
            bnd (ask (\<lambda>n. web3_block E n url ''latest'')) (\<lambda>(latest, _).
            ret (Some \<lparr>cf_hash = rc_blockHash receipt, cf_height = Some (rc_blockNumber receipt),
              cf_date = Some (timestamp * 1000),
              cf_confirmations = Some (int latest - int (rc_blockNumber receipt) + 1)\<rparr>)))))"

text \<open>
  \<open>broadcastTx\<close>: 66 characters are taken for the id of a transaction already sent, and only
  its receipt is looked for. Otherwise the promise resolves at the \<open>transactionHash\<close> event;
  nothing resolves or rejects it when sending fails. The receipt event comes later
  (\<open>job_receipt\<close>).
\<close>

definition EVM_broadcastTx :: "ext \<Rightarrow> string \<Rightarrow> string \<Rightarrow> transaction \<Rightarrow> broadcast_result prog" where
  "EVM_broadcastTx E url chain t =
     (if length (tx_hex t) = 66
      then bnd (start_job (JPollReceipt url (tx_hex t))) (\<lambda>_.
           ret \<lparr>br_txid = tx_hex t, br_success = True\<rparr>)
      else
        bnd (writes (\<lambda>w. w\<lparr>broadcasts := broadcasts w @ [(chain, tx_hex t)]\<rparr>)) (\<lambda>_.
        bnd (ask (\<lambda>n. Inr (provider E n ''web3'' url (tx_hex t)))) (\<lambda>answer.
        (case answer of
           Inl _ \<Rightarrow> throw NeverSettles
         | Inr result \<Rightarrow> ret \<lparr>br_txid = br_txid result, br_success = True\<rparr>))))"

definition first_output :: "payment_option \<Rightarrow> js_error + pay_output option" where
  "first_output po = (case po_outputs po of None \<Rightarrow> Inl JsTypeError
     | Some [] \<Rightarrow> Inr None | Some (o1 # _) \<Rightarrow> Inr (Some o1))"

text \<open>
  \<open>parseInt\<close> of a number that is already an integer, as a comparison with the expected one.
\<close>

definition int_matches :: "num \<Rightarrow> num option \<Rightarrow> bool" where
  "int_matches expected actual =
     (case actual of None \<Rightarrow> False
      | Some v \<Rightarrow> expected = of_nat (js_parseInt (nat \<lfloor>v\<rfloor>)))"

text \<open>The inherited \<open>parsePayments\<close> gives one payment and no symbol.\<close>

definition EVM_verifyPayment ::
  "(transaction \<Rightarrow> parsed_payment list prog) \<Rightarrow> payment_option \<Rightarrow> transaction \<Rightarrow> bool prog" where
  "EVM_verifyPayment this_parsePayments paymentOption t =
     bnd (lift_result (first_output paymentOption)) (\<lambda>expectedOutput.
     bnd (this_parsePayments \<lparr>tx_hex = tx_hex t, tx_id = None, tx_key = None\<rparr>) (\<lambda>payments.
     (case (payments, expectedOutput) of
        (p # _, Some expected) \<Rightarrow>
          (case out_address expected of
             None \<Rightarrow> throw JsTypeError
           | Some a \<Rightarrow>
               ret (int_matches (out_amount expected) (pp_amount p) \<and>
                    to_lower (pp_address p) = to_lower a))
      | _ \<Rightarrow> throw JsTypeError)))"

definition EVM :: "ext \<Rightarrow> string \<Rightarrow> string \<Rightarrow> nat \<Rightarrow> string \<Rightarrow> plugin" where
  "EVM E currency chain decimals url = (Plugin E currency chain decimals no_bitcore)\<lparr>
     plg_getPayments := EVM_getPayments E url currency chain,
     plg_parsePayments := EVM_parsePayments E currency chain,
     plg_getConfirmation := EVM_getConfirmation E url,
     plg_broadcastTx := EVM_broadcastTx E url chain,
     plg_validateAddress := (\<lambda>a. ret (address_valid E ''ethers'' a)),
     plg_getTransaction := (\<lambda>_. throw_error),
     plg_verifyPayment := EVM_verifyPayment (EVM_parsePayments E currency chain)\<rparr>"

definition AVAX :: "ext \<Rightarrow> plugin" where
  "AVAX E = EVM E ''AVAX'' ''AVAX'' 18 (cfg_string E ''INFURA_AVALANCHE_URL'')"

definition ETH :: "ext \<Rightarrow> plugin" where
  "ETH E = EVM E ''ETH'' ''ETH'' 18 (cfg_string E ''INFURA_ETHEREUM_URL'')"

definition MATIC :: "ext \<Rightarrow> plugin" where
  "MATIC E = EVM E ''MATIC'' ''MATIC'' 18 (cfg_string E ''INFURA_POLYGON_URL'')"

section \<open>ERC20\<close>

text \<open>A call \<open>transfer(address,uint256)\<close>: 4 bytes of selector and two words, in hex after \<open>0x\<close>.\<close>

definition is_transfer :: "string \<Rightarrow> bool" where
  "is_transfer input \<longleftrightarrow> length input = 138 \<and> js_slice 2 10 input = ''a9059cbb''"

definition transfer_address :: "string \<Rightarrow> string" where
  "transfer_address input = ''0x'' @ js_slice 34 74 input"

text \<open>\<open>parseInt(String(hexToDec(\<dots>)))\<close>: the digits read as a double, \<open>NaN\<close> for \<open>null\<close>.\<close>

definition transfer_amount :: "ext \<Rightarrow> string \<Rightarrow> num option" where
  "transfer_amount E input =
     map_option (\<lambda>n. of_nat (double_of_nat n)) (hex_to_dec E (drop 74 input))"

definition scaled :: "ext \<Rightarrow> nat \<Rightarrow> num option \<Rightarrow> num option" where
  "scaled E decimals = map_option (\<lambda>v. bn_toNumber (bn E) (bn_times (bn E) v (1 / 10 ^ decimals)))"

definition ERC20_getPayments ::
  "ext \<Rightarrow> string \<Rightarrow> string \<Rightarrow> string \<Rightarrow> nat \<Rightarrow> string \<Rightarrow> string \<Rightarrow> parsed_payment list prog" where
  "ERC20_getPayments E url currency chain decimals token hash =
     bnd (ask (\<lambda>n. web3_tx E n url hash)) (\<lambda>found.
     (case found of
        None \<Rightarrow> throw JsTypeError
      | Some result \<Rightarrow>
          (case etx_to result of
             None \<Rightarrow> throw JsTypeError
           | Some contract \<Rightarrow>
               if to_lower contract \<noteq> token then ret []
               else if \<not> is_transfer (etx_data result) then throw (JsError ''NO ERC20 TRANSFER'')
               else ret [\<lparr>pp_chain = chain, pp_currency = currency,
                 pp_address = transfer_address (etx_data result),
                 pp_amount = scaled E decimals (transfer_amount E (etx_data result)), pp_txid = hash\<rparr>])))"

definition ERC20_parsePayments ::
  "ext \<Rightarrow> string \<Rightarrow> string \<Rightarrow> nat \<Rightarrow> string \<Rightarrow> transaction \<Rightarrow> parsed_payment list prog" where
  "ERC20_parsePayments E currency chain decimals token t =
     bnd (lift_result (ethers_tx E (tx_hex t))) (\<lambda>transaction.
     if map_option to_lower (etx_to transaction) \<noteq> Some token then ret []
     else if \<not> is_transfer (etx_data transaction) then ret []
     else ret [\<lparr>pp_chain = chain, pp_currency = currency,
       pp_address = to_lower (transfer_address (etx_data transaction)),
       pp_amount = scaled E decimals (transfer_amount E (etx_data transaction)),
       pp_txid = string_or_undefined (etx_hash transaction)\<rparr>])"

text \<open>
  \<open>parseERC20Transfer\<close>: address, amount and contract. \<open>Number(null)\<close> is zero, so here an
  unreadable amount is zero.
\<close>

definition parseERC20Transfer :: "ext \<Rightarrow> evm_tx \<Rightarrow> js_error + string \<times> num \<times> string" where
  "parseERC20Transfer E transaction =
     (if \<not> is_transfer (etx_data transaction) then Inl (JsError ''NO ERC20 TRANSFER'')
      else Inr (transfer_address (etx_data transaction),
        (case transfer_amount E (etx_data transaction) of None \<Rightarrow> 0 | Some v \<Rightarrow> v),
        string_or_undefined (etx_to transaction)))"

text \<open>Whatever the plugin's chain, the transaction is fetched from the Polygon node.\<close>

definition fetchERC20Transfer :: "ext \<Rightarrow> string \<Rightarrow> (string \<times> num option \<times> string) prog" where
  "fetchERC20Transfer E hash =
     bnd (ask (\<lambda>n. web3_tx E n (cfg_string E ''INFURA_POLYGON_URL'') hash)) (\<lambda>found.
     (case found of
        None \<Rightarrow> throw JsTypeError
      | Some result \<Rightarrow>
          if \<not> is_transfer (etx_data result) then throw (JsError ''NO ERC20 TRANSFER'')
          else (case etx_to result of
             None \<Rightarrow> throw JsTypeError
           | Some contract \<Rightarrow> ret (transfer_address (etx_data result),
               transfer_amount E (etx_data result), to_lower contract))))"

definition expected_address :: "pay_output option \<Rightarrow> js_error + string" where
  "expected_address expectedOutput =
     (case expectedOutput of None \<Rightarrow> Inl JsTypeError
      | Some e \<Rightarrow> (case out_address e of None \<Rightarrow> Inl JsTypeError | Some a \<Rightarrow> Inr (to_lower a)))"

text \<open>The signed transaction is decoded first; the network is asked when that fails.\<close>

definition ERC20_verify_decoded ::
  "ext \<Rightarrow> string \<Rightarrow> pay_output option \<Rightarrow> transaction \<Rightarrow> js_error + bool" where
  "ERC20_verify_decoded E token expectedOutput t =
     (case ethers_tx E (tx_hex t) of Inl e \<Rightarrow> Inl e
      | Inr transaction \<Rightarrow>
          (case parseERC20Transfer E transaction of Inl e \<Rightarrow> Inl e
           | Inr (a, amount, symbol) \<Rightarrow>
               (case expected_address expectedOutput of Inl e \<Rightarrow> Inl e
                | Inr expected \<Rightarrow>
                    Inr (to_lower symbol = to_lower token \<and>
                      int_matches (out_amount (the expectedOutput)) (Some amount) \<and>
                      to_lower a = expected))))"

definition ERC20_verify_fetched ::
  "ext \<Rightarrow> string \<Rightarrow> pay_output option \<Rightarrow> transaction \<Rightarrow> bool prog" where
  "ERC20_verify_fetched E token expectedOutput t =
     bnd (fetchERC20Transfer E (if truthy (tx_id t) then the (tx_id t) else tx_hex t)) (\<lambda>(a, amount, contract).
     bnd (guard_io (contract = token) (JsError ''Not Transfer'')) (\<lambda>_.
     bnd (lift_result (expected_address expectedOutput)) (\<lambda>expected.
     ret (Some (out_amount (the expectedOutput)) = amount \<and> to_lower a = expected))))"

definition ERC20_verifyPayment ::
  "ext \<Rightarrow> string \<Rightarrow> payment_option \<Rightarrow> transaction \<Rightarrow> bool prog" where
  "ERC20_verifyPayment E token paymentOption t =
     bnd (lift_result (first_output paymentOption)) (\<lambda>expectedOutput.
     (case ERC20_verify_decoded E token expectedOutput t of
        Inr verified \<Rightarrow> ret verified
      | Inl _ \<Rightarrow> catch (ERC20_verify_fetched E token expectedOutput t) (\<lambda>_. ret False)))"

definition ERC20 :: "ext \<Rightarrow> string \<Rightarrow> string \<Rightarrow> nat \<Rightarrow> string \<Rightarrow> string \<Rightarrow> plugin" where
  "ERC20 E currency chain decimals token url = (EVM E currency chain decimals url)\<lparr>
     plg_token := Some token,
     plg_getPayments := ERC20_getPayments E url currency chain decimals token,
     plg_parsePayments := ERC20_parsePayments E currency chain decimals token,
     plg_verifyPayment := ERC20_verifyPayment E token\<rparr>"

definition USDC_AVAX :: "ext \<Rightarrow> plugin" where
  "USDC_AVAX E = ERC20 E ''USDC'' ''AVAX'' 6 ''0xb97ef9ef8734c71904d8002f8b6bc66dd9c48a6e''
     (cfg_string E ''INFURA_AVALANCHE_URL'')"

definition USDC_MATIC :: "ext \<Rightarrow> plugin" where
  "USDC_MATIC E = ERC20 E ''USDC'' ''MATIC'' 6 ''0x2791bca1f2de4661ed88a30c99a7a9449aa84174''
     (cfg_string E ''INFURA_POLYGON_URL'')"

definition USDC_ETH :: "ext \<Rightarrow> plugin" where
  "USDC_ETH E = ERC20 E ''USDC'' ''ETH'' 6 ''0xa0b86991c6218b36c1d19d4a2e9eb0ce3606eb48''
     (cfg_string E ''INFURA_ETHEREUM_URL'')"

definition USDT_AVAX :: "ext \<Rightarrow> plugin" where
  "USDT_AVAX E = ERC20 E ''USDT'' ''AVAX'' 6 ''0x9702230a8ea53601f5cd2dc00fdbc13d4df4a8c7''
     (cfg_string E ''INFURA_AVALANCHE_URL'')"

definition USDT_MATIC :: "ext \<Rightarrow> plugin" where
  "USDT_MATIC E = ERC20 E ''USDT'' ''MATIC'' 6 ''0xc2132d05d31c914a87c6611c10748aeb04b58e8f''
     (cfg_string E ''INFURA_POLYGON_URL'')"

definition USDT_ETH :: "ext \<Rightarrow> plugin" where
  "USDT_ETH E = ERC20 E ''USDT'' ''ETH'' 6 ''0xdac17f958d2ee523a2206206994597c13d831ec7''
     (cfg_string E ''INFURA_ETHEREUM_URL'')"

end
