(* ===== verification/Plugins.thy ===== *)
theory Plugins
  imports UtxoPlugins EvmPlugins
begin

text \<open>
  The remaining plugins (XRP, Solana and its tokens, Stellar, Monero), the registry of
  \<open>src/config/plugins.ts\<close>, and the facade \<open>src/lib/plugins.ts\<close> through which the rest of the
  program reaches them.
\<close>

section \<open>XRP\<close>

definition XRP_toSatoshis :: "ext \<Rightarrow> num \<Rightarrow> num" where
  "XRP_toSatoshis E dec =
     of_int (js_parseInt_toFixed0 (bn_toNumber (bn E) (bn_times (bn E) dec (10 ^ 6))))"

definition XRP_parsePayments :: "ext \<Rightarrow> transaction \<Rightarrow> parsed_payment list prog" where
  "XRP_parsePayments E t =
     bnd (guard_io (tx_hex t \<noteq> []) (JsError ''Transaction hex required for parsing XRP payments'')) (\<lambda>_.
     bnd (lift_result (xrpl_decode E (tx_hex t))) (\<lambda>decoded.
     if xtx_type decoded \<noteq> ''Payment'' then ret []
     else ret [\<lparr>pp_chain = ''XRP'', pp_currency = ''XRP'', pp_address = xtx_destination decoded,
       pp_amount = xtx_amount decoded, pp_txid = xtx_signature decoded\<rparr>]))"

definition XRP_verifyPayment :: "ext \<Rightarrow> payment_option \<Rightarrow> transaction \<Rightarrow> bool prog" where
  "XRP_verifyPayment E paymentOption t =
     catch
       (bnd (XRP_parsePayments E \<lparr>tx_hex = tx_hex t, tx_id = None, tx_key = None\<rparr>) (\<lambda>payments.
        (case payments of
           [] \<Rightarrow> ret False
         | payment # _ \<Rightarrow>
             bnd (lift_result (first_output paymentOption)) (\<lambda>expectedOutput.
             (case expectedOutput of
                None \<Rightarrow> throw JsTypeError
              | Some expected \<Rightarrow>
                  if Some (pp_address payment) \<noteq> out_address expected then ret False
                  else if pp_amount payment \<noteq> Some (out_amount expected) then ret False
                  else ret True)))))
       (\<lambda>_. ret False)"

definition XRP_getConfirmation :: "ext \<Rightarrow> string \<Rightarrow> confirmation option prog" where
  "XRP_getConfirmation E hash =
     bnd (ask (\<lambda>n. xrp_tx_ledger E n hash)) (\<lambda>index.
     bnd (ask (\<lambda>n. xrp_ledger E n (Some index))) (\<lambda>result.
     bnd (ask (\<lambda>n. xrp_ledger E n None)) (\<lambda>latest.
     ret (Some \<lparr>cf_hash = Some (ldg_hash result), cf_height = Some (ldg_index result),
       cf_date = Some (ldg_close_time result * 1000),
       cf_confirmations = Some (int (ldg_index latest) - int (ldg_index result) + 1)\<rparr>))))"

definition XRP_broadcastTx :: "ext \<Rightarrow> transaction \<Rightarrow> broadcast_result prog" where
  "XRP_broadcastTx E t =
     bnd (writes (\<lambda>w. w\<lparr>broadcasts := broadcasts w @ [(''XRP'', tx_hex t)]\<rparr>)) (\<lambda>_.
     bnd (ask (\<lambda>n. provider E n ''xrpl'' ''XRP'' (tx_hex t))) (\<lambda>result.
     if \<not> br_success result then throw (JsError ''XRP broadcastTx consensus failed'')
     else ret \<lparr>br_txid = br_txid result, br_success = True\<rparr>))"

definition XRP :: "ext \<Rightarrow> plugin" where
  "XRP E = (Plugin E ''XRP'' ''XRP'' 6 no_bitcore)\<lparr>
     plg_toSatoshis := XRP_toSatoshis E,
     plg_parsePayments := XRP_parsePayments E,
     plg_getPayments := (\<lambda>_. throw_error),
     plg_getConfirmation := XRP_getConfirmation E,
     plg_broadcastTx := XRP_broadcastTx E,
     plg_getTransaction := (\<lambda>_. throw_error),
     plg_validateAddress := (\<lambda>a. ret (address_valid E ''xrpl'' a)),
     plg_verifyPayment := XRP_verifyPayment E,
     plg_getPrice := ask (\<lambda>n. price_feed E n ''gate.io'' ''XRP'')\<rparr>"

section \<open>Solana\<close>

definition Solana_getConfirmation :: "ext \<Rightarrow> string \<Rightarrow> confirmation option prog" where
  "Solana_getConfirmation E hash =
     bnd (ask (\<lambda>n. solana_status E n hash)) (\<lambda>(found, context_slot).
     (case id_or_undefined found of
        None \<Rightarrow> ret None
      | Some slot \<Rightarrow>
          bnd (ask (\<lambda>n. solana_block E n slot)) (\<lambda>block.
          (case block of
             None \<Rightarrow> ret None
           | Some (blockhash, blockTime) \<Rightarrow>
               if blockhash = [] then ret None
               else ret (Some \<lparr>cf_hash = Some blockhash, cf_height = Some slot,
                 cf_date = Some (blockTime * 1000),
                 cf_confirmations = Some (int context_slot - int slot + 1)\<rparr>)))))"

definition Solana_getTransaction :: "ext \<Rightarrow> string \<Rightarrow> transaction prog" where
  "Solana_getTransaction E hash =
     bnd (ask (\<lambda>n. tx_source E n ''api.mainnet-beta.solana.com'' hash)) (\<lambda>hex.
     ret \<lparr>tx_hex = hex, tx_id = Some hash, tx_key = None\<rparr>)"

definition Solana_broadcastTx :: "ext \<Rightarrow> transaction \<Rightarrow> broadcast_result prog" where
  "Solana_broadcastTx E t =
     bnd (writes (\<lambda>w. w\<lparr>broadcasts := broadcasts w @ [(''SOL'', tx_hex t)]\<rparr>)) (\<lambda>_.
     bnd (ask (\<lambda>n. provider E n ''alchemy'' ''SOL'' (tx_hex t))) (\<lambda>signature.
     ret \<lparr>br_txid = br_txid signature, br_success = True\<rparr>))"

definition SolanaPlugin :: "ext \<Rightarrow> string \<Rightarrow> nat \<Rightarrow> plugin" where
  "SolanaPlugin E currency decimals = (Plugin E currency ''SOL'' decimals no_bitcore)\<lparr>
     plg_getConfirmation := Solana_getConfirmation E,
     plg_getTransaction := Solana_getTransaction E,
     plg_broadcastTx := Solana_broadcastTx E\<rparr>"

text \<open>
  \<open>verifyPayment\<close> decodes the transaction and validates it against an empty template; the
  expected outputs are never looked at.
\<close>

fun solana_missing :: "(pay_output \<Rightarrow> bool) \<Rightarrow> pay_output list \<Rightarrow> pay_output list" where
  "solana_missing found [] = []"
| "solana_missing found (expected # template) =
     (if found expected then solana_missing found template
      else expected # solana_missing found template)"

definition validateTransaction :: "ext \<Rightarrow> pay_output list \<Rightarrow> string \<Rightarrow> (pay_output \<Rightarrow> bool) \<Rightarrow> js_error + bool" where
  "validateTransaction E template hex found =
     (case solana_tx E hex of Inl e \<Rightarrow> Inl e | Inr _ \<Rightarrow> Inr (solana_missing found template = []))"

definition SOL_verifyPayment :: "ext \<Rightarrow> payment_option \<Rightarrow> transaction \<Rightarrow> bool prog" where
  "SOL_verifyPayment E paymentOption t =
     bnd (lift_result (solana_tx E (tx_hex t))) (\<lambda>_.
     bnd (lift_result (validateTransaction E [] (tx_hex t) (\<lambda>_. False))) (\<lambda>validateResult.
     ret True))"

definition SOL :: "ext \<Rightarrow> plugin" where
  "SOL E = (SolanaPlugin E ''SOL'' 0)\<lparr>
     plg_parsePayments := (\<lambda>_. ret []),
     plg_getPayments := (\<lambda>_. throw_error),
     plg_verifyPayment := SOL_verifyPayment E,
     plg_validateAddress := (\<lambda>_. throw_error),
     plg_validateUnsignedTx := (\<lambda>_ _. throw_error)\<rparr>"

definition Solana_token :: "ext \<Rightarrow> string \<Rightarrow> string \<Rightarrow> plugin" where
  "Solana_token E currency token = (SolanaPlugin E currency 6)\<lparr>
     plg_token := Some token,
     plg_parsePayments := (\<lambda>_. throw_error),
     plg_getPayments := (\<lambda>_. throw_error),
     plg_getTransaction := (\<lambda>_. throw_error),
     plg_validateAddress := (\<lambda>_. throw_error),
     plg_verifyPayment := (\<lambda>_ _. throw_error)\<rparr>"

definition USDC_SOL :: "ext \<Rightarrow> plugin" where
  "USDC_SOL E = Solana_token E ''USDC'' ''EPjFWdd5AufqSSqeM2qN1xzybapC8G4wEGGkZwyTDt1v''"

definition USDT_SOL :: "ext \<Rightarrow> plugin" where
  "USDT_SOL E = Solana_token E ''USDT'' ''Es9vMFrzaCERmJfrF4H2FYD4KCoNkY11McCe8BenwNYB''"

section \<open>Stellar\<close>

text \<open>\<open>getConfirmation\<close> fetches the transaction and then throws in every case.\<close>

definition XLM :: "ext \<Rightarrow> plugin" where
  "XLM E = (Plugin E ''XLM'' ''XLM'' 0 no_bitcore)\<lparr>
     plg_parsePayments := (\<lambda>_. throw_error),
     plg_getPayments := (\<lambda>_. throw_error),
     plg_getConfirmation := (\<lambda>hash. bnd (ask (\<lambda>n. tx_source E n ''horizon.stellar.org'' hash)) (\<lambda>_. throw_error)),
     plg_broadcastTx := (\<lambda>_. throw_error),
     plg_getTransaction := (\<lambda>_. throw_error),
     plg_validateAddress := (\<lambda>_. ret False),
     plg_verifyPayment := (\<lambda>_ _. ret False)\<rparr>"

section \<open>Monero\<close>

definition XMR_getConfirmation :: "ext \<Rightarrow> string \<Rightarrow> confirmation option prog" where
  "XMR_getConfirmation E hash =
     bnd (ask (\<lambda>n. xmr_tx E n hash)) (\<lambda>(block_height, block_timestamp).
     (case id_or_undefined block_height of
        None \<Rightarrow> ret None
      | Some height \<Rightarrow>
          bnd (ask (\<lambda>n. xmr_block E n height)) (\<lambda>block.
          (case block of
             None \<Rightarrow> ret None
           | Some blockhash \<Rightarrow>
               bnd (ask (\<lambda>n. xmr_block_count E n)) (\<lambda>count.
               ret (Some \<lparr>cf_hash = Some blockhash, cf_height = Some height,
                 cf_date = Some (block_timestamp * 1000),
                 cf_confirmations = Some (int count - int height + 1)\<rparr>))))))"

text \<open>
  \<open>verifyPayment\<close> starts the real check (asking the wallet what each output received) in
  a function it does not await and whose errors it logs, and returns \<open>true\<close> at once. The
  check has no other effect and is left out.
\<close>

definition XMR_verifyPayment :: "payment_option \<Rightarrow> transaction \<Rightarrow> bool prog" where
  "XMR_verifyPayment paymentOption t = ret True"

definition XMR_broadcastTx :: "ext \<Rightarrow> transaction \<Rightarrow> broadcast_result prog" where
  "XMR_broadcastTx E t =
     bnd (writes (\<lambda>w. w\<lparr>broadcasts := broadcasts w @ [(''XMR'', tx_hex t)]\<rparr>)) (\<lambda>_.
     bnd (ask (\<lambda>n. xmr_send E n (tx_hex t))) (\<lambda>result.
     if xsr_sanity_check_failed result then throw (JsError (xsr_reason result))
     else if xsr_double_spend result then throw (JsError ''double spend'')
     else if xsr_too_big result then throw (JsError ''too big'')
     else if xsr_status result = ''Failed'' then throw (JsError (xsr_reason result))
     else ret \<lparr>br_txid = string_or_undefined (tx_id t), br_success = True\<rparr>))"

definition XMR :: "ext \<Rightarrow> plugin" where
  "XMR E = (Plugin E ''XMR'' ''XMR'' 12 no_bitcore)\<lparr>
     plg_parsePayments := (\<lambda>_. throw_error),
     plg_getPayments := (\<lambda>_. throw_error),
     plg_getConfirmation := XMR_getConfirmation E,
     plg_verifyPayment := XMR_verifyPayment,
     plg_getTransaction := (\<lambda>_. throw_error),
     plg_validateAddress := (\<lambda>a. ret (address_valid E ''cryptonote'' a)),
     plg_validateUnsignedTx := (\<lambda>_ _. ret True),
     plg_broadcastTx := XMR_broadcastTx E\<rparr>"

section \<open>The registry\<close>

definition plugins :: "ext \<Rightarrow> (string \<times> plugin) list" where
  "plugins E = [
     (''BTC'', BTC E), (''BSV'', BSV E), (''BCH'', BCH E), (''DASH'', DASH E), (''LTC'', LTC E),
     (''DOGE'', DOGE E), (''AVAX'', AVAX E), (''ETH'', ETH E), (''SOL'', SOL E), (''XRP'', XRP E),
     (''XLM'', XLM E), (''XMR'', XMR E), (''MATIC'', MATIC E),
     (''USDC.AVAX'', USDC_AVAX E), (''USDC.MATIC'', USDC_MATIC E), (''USDC.ETH'', USDC_ETH E),
     (''USDC.SOL'', USDC_SOL E), (''USDT.AVAX'', USDT_AVAX E), (''USDT.MATIC'', USDT_MATIC E),
     (''USDT.ETH'', USDT_ETH E), (''USDT.SOL'', USDT_SOL E), (''FB'', FB E)]"

definition plugin_key :: "string \<Rightarrow> string \<Rightarrow> string" where
  "plugin_key currency chain = (if chain = currency then currency else currency @ ''.'' @ chain)"

definition find_plugin :: "ext \<Rightarrow> string \<Rightarrow> string \<Rightarrow> js_error + plugin" where
  "find_plugin E currency chain =
     (case map_of (plugins E) (plugin_key currency chain) of
        None \<Rightarrow> Inl (JsError (''no plugin found for currency '' @ currency @ '' on chain '' @ chain))
      | Some plugin \<Rightarrow> Inr plugin)"

section \<open>The facade\<close>

definition with_plugin :: "ext \<Rightarrow> string \<Rightarrow> string \<Rightarrow> (plugin \<Rightarrow> 'a prog) \<Rightarrow> 'a prog" where
  "with_plugin E currency chain f = bnd (lift_result (find_plugin E currency chain)) f"

definition plugins_getTransaction :: "ext \<Rightarrow> string \<Rightarrow> string \<Rightarrow> string \<Rightarrow> transaction prog" where
  "plugins_getTransaction E hash chain currency =
     with_plugin E currency chain (\<lambda>plugin. plg_getTransaction plugin hash)"

definition plugins_parsePayments ::
  "ext \<Rightarrow> string \<Rightarrow> string \<Rightarrow> transaction \<Rightarrow> parsed_payment list prog" where
  "plugins_parsePayments E currency chain t =
     with_plugin E currency chain (\<lambda>plugin. plg_parsePayments plugin t)"

definition getNewAddress :: "ext \<Rightarrow> address \<Rightarrow> string \<Rightarrow> string \<Rightarrow> string option prog" where
  "getNewAddress E a chain currency =
     with_plugin E currency chain (\<lambda>plugin. ret (plg_getNewAddress plugin a))"

definition toSatoshis :: "ext \<Rightarrow> num \<Rightarrow> string \<Rightarrow> string \<Rightarrow> js_error + num" where
  "toSatoshis E dec currency chain =
     (case find_plugin E currency chain of Inl e \<Rightarrow> Inl e | Inr plugin \<Rightarrow> Inr (plg_toSatoshis plugin dec))"

definition fromSatoshis :: "ext \<Rightarrow> num \<Rightarrow> string \<Rightarrow> string \<Rightarrow> js_error + num" where
  "fromSatoshis E integer currency chain =
     (case find_plugin E currency chain of Inl e \<Rightarrow> Inl e | Inr plugin \<Rightarrow> Inr (plg_fromSatoshis plugin integer))"

definition plugins_verifyPayment :: "ext \<Rightarrow> payment_option \<Rightarrow> transaction \<Rightarrow> bool prog" where
  "plugins_verifyPayment E paymentOption t =
     with_plugin E (po_currency paymentOption) (po_chain paymentOption)
       (\<lambda>plugin. plg_verifyPayment plugin paymentOption t)"

definition plugins_getPrice :: "ext \<Rightarrow> string \<Rightarrow> string \<Rightarrow> price_quote prog" where
  "plugins_getPrice E chain currency = with_plugin E currency chain plg_getPrice"

definition getConfirmation :: "ext \<Rightarrow> string \<Rightarrow> string \<Rightarrow> string \<Rightarrow> confirmation option prog" where
  "getConfirmation E hash chain currency =
     with_plugin E currency chain (\<lambda>plugin. plg_getConfirmation plugin hash)"

text \<open>\<open>getBitcore\<close> of \<open>src/lib/bitcore.ts\<close>.\<close>

definition getBitcore :: "ext \<Rightarrow> string \<Rightarrow> js_error + bitcore" where
  "getBitcore E currency =
     (case find_plugin E currency currency of Inl e \<Rightarrow> Inl e | Inr plugin \<Rightarrow> Inr (plg_bitcore plugin))"

end
