(* ===== verification/PayLib.thy ===== *)
theory PayLib
  imports Plugins
begin

text \<open>
  What a wallet is told to pay: \<open>src/lib/pay/currencies.ts\<close>, \<open>environment.ts\<close>,
  \<open>required_fee_rate.ts\<close>, \<open>json_v2/index.ts\<close>, \<open>bip_270.ts\<close>, the currency detection of
  \<open>bip70.ts\<close> and of \<open>pay/index.ts\<close>, and \<open>src/lib/uri.ts\<close>. A look-up in an object literal is
  a look-up in its own keys. A number that is \<open>NaN\<close> or \<open>undefined\<close> is \<open>None\<close>.
\<close>

section \<open>Currencies and URIs\<close>

definition currency_list :: "(string \<times> string) list" where
  "currency_list = [(''bitcoin'', ''BTC''), (''dash'', ''DASH''), (''bitcoincash'', ''BCH''),
     (''bitcoinsv'', ''BSV'')]"

definition codeFromName :: "string \<Rightarrow> string option" where
  "codeFromName name = map_of currency_list name"

text \<open>The table of names is filled from the third element of pairs, so it holds \<open>undefined\<close>.\<close>

definition nameFromCode :: "string \<Rightarrow> string option" where
  "nameFromCode code = None"

definition getBaseURL :: "ext \<Rightarrow> string" where
  "getBaseURL E = cfg_string E ''API_BASE''"

definition protocols :: "string \<Rightarrow> string option" where
  "protocols = map_of [(''DASH'', ''dash''), (''ZEC'', ''zcash''), (''BTC'', ''bitcoin''),
     (''LTC'', ''litecoin''), (''ETH'', ''ethereum''), (''XMR'', ''monero''), (''DOGE'', ''dogecoin''),
     (''BCH'', ''bitcoincash''), (''XRP'', ''ripple''), (''ZEN'', ''horizen''), (''SMART'', ''smartcash''),
     (''RVN'', ''ravencoin''), (''BSV'', ''pay'')]"

definition computeInvoiceURI :: "ext \<Rightarrow> string \<Rightarrow> string \<Rightarrow> string" where
  "computeInvoiceURI E currency uid =
     (case protocols currency of None \<Rightarrow> ''pay'' | Some p \<Rightarrow> p) @ '':?r='' @ getBaseURL E @ ''/r/'' @ uid"

section \<open>The fee rate a wallet must use\<close>

text \<open>\<open>parseInt\<close> of a text: blanks, a sign, then decimal digits, or hexadecimal ones after \<open>0x\<close>.\<close>

definition js_blank :: "char \<Rightarrow> bool" where
  "js_blank c \<longleftrightarrow> c = CHR '' '' \<or> (9 \<le> (of_char c :: nat) \<and> (of_char c :: nat) \<le> 13)"

definition digit_value :: "char \<Rightarrow> nat option" where
  "digit_value c = (let n = (of_char c :: nat) in
     if 48 \<le> n \<and> n \<le> 57 then Some (n - 48)
     else if 65 \<le> n \<and> n \<le> 70 then Some (n - 55)
     else if 97 \<le> n \<and> n \<le> 102 then Some (n - 87) else None)"

fun digits_value :: "nat \<Rightarrow> nat option \<Rightarrow> string \<Rightarrow> nat option" where
  "digits_value base acc [] = acc"
| "digits_value base acc (c # cs) =
     (case digit_value c of
        Some d \<Rightarrow> if d < base then digits_value base (Some (base * (case acc of None \<Rightarrow> 0 | Some a \<Rightarrow> a) + d)) cs else acc
      | None \<Rightarrow> acc)"

fun unsigned_parseInt :: "string \<Rightarrow> nat option" where
  "unsigned_parseInt (a # b # cs) =
     (if a = CHR ''0'' \<and> (b = CHR ''x'' \<or> b = CHR ''X'') then digits_value 16 None cs
      else digits_value 10 None (a # b # cs))"
| "unsigned_parseInt s = digits_value 10 None s"

definition string_parseInt :: "string \<Rightarrow> num option" where
  "string_parseInt s =
     (case dropWhile js_blank s of
        [] \<Rightarrow> None
      | c # cs \<Rightarrow>
          if c = CHR ''-'' then map_option (\<lambda>n. - of_nat n) (unsigned_parseInt cs)
          else if c = CHR ''+'' then map_option of_nat (unsigned_parseInt cs)
          else map_option of_nat (unsigned_parseInt (c # cs)))"

definition FeeLevels :: "string list" where
  "FeeLevels = [''fastestFee'', ''halfHourFee'', ''hourFee'', ''economyFee'', ''minimumFee'']"

text \<open>
  \<open>getFeeRate\<close> of \<open>src/lib/mempool.space.ts\<close>: the table a timer refreshes from the service;
  a level the service did not report is \<open>undefined\<close>.
\<close>

definition getFeeRate :: "ext \<Rightarrow> string \<Rightarrow> num option prog" where
  "getFeeRate E level =
     ask (\<lambda>n. Inr (case mempool_fee E n level of Inl _ \<Rightarrow> None | Inr v \<Rightarrow> Some v))"

text \<open>The second argument is \<open>invoice?.fee_rate_level\<close>.\<close>

definition getRequiredFeeRate :: "ext \<Rightarrow> string option \<Rightarrow> string \<Rightarrow> num option prog" where
  "getRequiredFeeRate E fee_rate_level chain =
     (let feeFromEnv = cfg E (''REQUIRED_FEE_RATE_'' @ chain);
          requiredFeeRate = (if truthy feeFromEnv then string_parseInt (the feeFromEnv) else Some 1) in
      if chain = ''BTC'' \<and> truthy (cfg E ''MEMPOOL_SPACE_FEES_ENABLED'') \<and> truthy fee_rate_level
      then getFeeRate E (if the fee_rate_level \<in> set FeeLevels then the fee_rate_level else ''fastestFee'')
      else ret requiredFeeRate)"

section \<open>Headers\<close>

type_synonym headers = "string \<Rightarrow> string option"

definition detectWallet :: "headers \<Rightarrow> string option" where
  "detectWallet headers =
     (if headers ''x-requested-with'' = Some ''co.edgesecure.app'' then Some ''edge''
      else if headers ''x-requested-with'' = Some ''cash.simply.wallet'' then Some ''simply.cash''
      else None)"

record currency_info =
  cur_name :: "string option"
  cur_code :: string

definition jsonV2_getCurrency :: "headers \<Rightarrow> js_error + currency_info" where
  "jsonV2_getCurrency headers =
     (case headers ''x-currency'' of
        Some code \<Rightarrow> if code = []
          then Inl (JsError ''x-currency header must be provided with value such as BCH,DASH,BSV,BTC,LTC'')
          else Inr \<lparr>cur_name = nameFromCode code, cur_code = code\<rparr>
      | None \<Rightarrow> Inl (JsError ''x-currency header must be provided with value such as BCH,DASH,BSV,BTC,LTC''))"

definition bip270_getCurrency :: "js_error + currency_info" where
  "bip270_getCurrency = Inr \<lparr>cur_name = Some ''bitcoinsv'', cur_code = ''BSV''\<rparr>"

text \<open>\<open>h.split('/')[1].split('-')[0]\<close>, which fails when there is no slash.\<close>

definition media_name :: "string \<Rightarrow> js_error + string" where
  "media_name h = (case split_on (CHR ''/'') h of
      _ # b # _ \<Rightarrow> Inr (hd (split_on (CHR ''-'') b)) | _ \<Rightarrow> Inl JsTypeError)"

definition header_ends :: "headers \<Rightarrow> string \<Rightarrow> string \<Rightarrow> bool" where
  "header_ends headers key s = (case headers key of None \<Rightarrow> False | Some h \<Rightarrow> suffix s h)"

definition bip70_getCurrency :: "headers \<Rightarrow> js_error + currency_info" where
  "bip70_getCurrency headers =
     (let name =
        (if header_ends headers ''accept'' ''paymentrequest'' then map_sum id Some (media_name (the (headers ''accept'')))
         else if header_ends headers ''content-type'' ''payment'' then map_sum id Some (media_name (the (headers ''content-type'')))
         else if header_ends headers ''accept'' ''paymentack'' then map_sum id Some (media_name (the (headers ''accept'')))
         else if header_ends headers ''x-accept'' ''paymentack'' then map_sum id Some (media_name (the (headers ''x-accept'')))
         else Inr None)
      in case name of
           Inl e \<Rightarrow> Inl e
         | Inr None \<Rightarrow> Inl (JsError ''currency not supported'')
         | Inr (Some n) \<Rightarrow> (case codeFromName n of
             None \<Rightarrow> Inl (JsError ''currency not supported'')
           | Some code \<Rightarrow> Inr \<lparr>cur_name = Some n, cur_code = code\<rparr>))"

definition getCurrency :: "string \<Rightarrow> headers \<Rightarrow> js_error + currency_info" where
  "getCurrency protocol headers =
     (if protocol = ''BIP70'' then bip70_getCurrency headers
      else if protocol = ''BIP270'' then bip270_getCurrency
      else if protocol = ''JSONV2'' then jsonV2_getCurrency headers
      else Inl (JsError (''protocol '' @ protocol @ '' not supported'')))"

section \<open>Payment requests\<close>

record jsonv2_request =
  jr_network :: string
  jr_currency :: string
  jr_requiredFeeRate :: "num option"
  jr_outputs :: "pay_output list"
  jr_time :: time
  jr_expires :: time
  jr_memo :: string
  jr_paymentUrl :: string
  jr_paymentId :: string

definition fifteen_minutes :: time where
  "fifteen_minutes = 15 * 60 * 1000"

text \<open>An option without \<open>createdAt\<close> is dated now.\<close>

definition jsonV2_buildPaymentRequest ::
  "ext \<Rightarrow> payment_option \<Rightarrow> time option \<Rightarrow> string \<Rightarrow> jsonv2_request prog" where
  "jsonV2_buildPaymentRequest E paymentOption createdAt memo =
     bnd (case po_outputs paymentOption of
            Some outputs \<Rightarrow> ret outputs
          | None \<Rightarrow> lift_result (jsonV2_buildOutputs E paymentOption)) (\<lambda>outputs.
     bnd (getRequiredFeeRate E None (po_currency paymentOption)) (\<lambda>requiredFeeRate.
     bnd (reads now) (\<lambda>t.
     let time = (case createdAt of None \<Rightarrow> t | Some c \<Rightarrow> c) in
     ret \<lparr>jr_network = ''main'', jr_currency = po_currency paymentOption,
       jr_requiredFeeRate = requiredFeeRate, jr_outputs = outputs, jr_time = time,
       jr_expires = time + fifteen_minutes, jr_memo = memo,
       jr_paymentUrl = getBaseURL E @ ''/r/'' @ po_invoice_uid paymentOption @ ''/pay/'' @
         po_currency paymentOption @ ''/jsonv2'',
       jr_paymentId = po_invoice_uid paymentOption\<rparr>)))"

definition bip270_output :: "bitcore \<Rightarrow> pay_output \<Rightarrow> js_error + (string \<times> num)" where
  "bip270_output bitcore out =
     (case bc_address bitcore (string_or_undefined (out_address out)) of
        Inl e \<Rightarrow> Inl e
      | Inr a \<Rightarrow> (case bc_script bitcore a of Inl e \<Rightarrow> Inl e | Inr s \<Rightarrow> Inr (s, out_amount out)))"

definition bip270_buildOutputs :: "ext \<Rightarrow> payment_option \<Rightarrow> (string \<times> num) list prog" where
  "bip270_buildOutputs E paymentOption =
     bnd (lift_result (getBitcore E (po_currency paymentOption))) (\<lambda>bitcore.
     (case po_outputs paymentOption of
        None \<Rightarrow> ret []
      | Some outputs \<Rightarrow> map_io (\<lambda>out. lift_result (bip270_output bitcore out)) outputs))"

text \<open>The object that \<open>getMerchantData\<close> writes out as JSON.\<close>

datatype merchant_data =
  MerchantUid string
| MerchantMetadata string string
| MerchantAccount string "string option" "string option"

definition getMerchantData :: "prisma \<Rightarrow> string \<Rightarrow> nat option \<Rightarrow> merchant_data prog" where
  "getMerchantData P invoiceUid account_id =
     (if \<not> truthy_id account_id then ret (MerchantUid invoiceUid)
      else
        bnd (invoice_by_uid P invoiceUid) (\<lambda>invoice.
        bnd (find_first_or_throw (prisma_accounts P) (\<lambda>a. Some (acc_id a) = account_id)) (\<lambda>account.
        if truthy (inv_metadata invoice) then ret (MerchantMetadata invoiceUid (the (inv_metadata invoice)))
        else ret (MerchantAccount invoiceUid (acc_business_name account) (acc_image_url account)))))"

record bip270_request =
  b27_network :: string
  b27_outputs :: "(string \<times> num) list"
  b27_creationTimestamp :: int
  b27_expirationTimestamp :: "int option"
  b27_memo :: string
  b27_paymentUrl :: string
  b27_merchantData :: merchant_data
  b27_redirectUrl :: "string option"

text \<open>
  \<open>moment(t).unix()\<close> is whole seconds, and \<open>NaN\<close> for a missing expiry. The default memo of
  the source ends in a trade mark sign, left out here.
\<close>

definition unix_of :: "time \<Rightarrow> int" where
  "unix_of t = t div 1000"

definition bip270_buildPaymentRequest :: "ext \<Rightarrow> prisma \<Rightarrow> payment_option \<Rightarrow> bip270_request prog" where
  "bip270_buildPaymentRequest E P paymentOption =
     bnd (invoice_by_uid P (po_invoice_uid paymentOption)) (\<lambda>invoice.
     bnd (getMerchantData P (inv_uid invoice) (inv_account_id invoice)) (\<lambda>merchantData.
     bnd (bip270_buildOutputs E paymentOption) (\<lambda>outputs.
     ret \<lparr>b27_network = ''bitcoin-sv'', b27_outputs = outputs,
       b27_creationTimestamp = unix_of (inv_createdAt invoice),
       b27_expirationTimestamp = map_option unix_of (inv_expiry invoice),
       b27_memo = (if truthy (inv_memo invoice) then the (inv_memo invoice) else ''Anypay''),
       b27_paymentUrl = cfg_string E ''API_BASE'' @ ''/r/'' @ inv_uid invoice @ ''/pay/BSV/bip270'',
       b27_merchantData = merchantData,
       b27_redirectUrl = (if truthy (inv_redirect_url invoice) then inv_redirect_url invoice else None)\<rparr>)))"

end
