(* ===== verification/Webhooks.thy ===== *)
theory Webhooks
  imports Events
begin

text \<open>
  Webhooks: \<open>src/lib/webhooks.ts\<close>. A call the source does not await and that touches the
  database is appended to \<open>jobs\<close>; running it later is \<open>run_job\<close> of the root theory.
\<close>

section \<open>Prisma conventions\<close>

text \<open>A condition that is \<open>undefined\<close> is dropped from a \<open>where\<close>.\<close>

definition where_is :: "'k option \<Rightarrow> 'k \<Rightarrow> bool" where
  "where_is x v = (case x of None \<Rightarrow> True | Some k \<Rightarrow> v = k)"

text \<open>A column whose new value is \<open>undefined\<close> keeps its value in an update.\<close>

definition set_if :: "'a option \<Rightarrow> 'a option \<Rightarrow> 'a option" where
  "set_if new old = (case new of None \<Rightarrow> old | Some v \<Rightarrow> Some v)"

text \<open>
  \<open>Number(s)\<close> for the ids stored as text; the client refuses the \<open>NaN\<close> of any other text.
\<close>

definition is_digit :: "char \<Rightarrow> bool" where
  "is_digit c \<longleftrightarrow> 48 \<le> (of_char c :: nat) \<and> (of_char c :: nat) \<le> 57"

definition js_Number_string :: "string \<Rightarrow> js_error + nat" where
  "js_Number_string s = (if list_all is_digit s then Inr (undecimal 0 s) else Inl (PrismaError InvalidValue))"

definition js_message :: "js_error \<Rightarrow> string" where
  "js_message e = (case e of JsError m \<Rightarrow> m | _ \<Rightarrow> ''error'')"

section \<open>Creating and sending\<close>

text \<open>A new row, with the columns no creation sets.\<close>

definition new_webhook :: "nat \<Rightarrow> webhook" where
  "new_webhook i = \<lparr>wh_id = i, wh_type = None, wh_url = None, wh_status = Some ''pending'',
     wh_invoice_uid = None, wh_account_id = None, wh_app_id = None, wh_payload = EmptyJson,
     wh_response_code = None, wh_response_body = None, wh_error = None, wh_ended_at = None\<rparr>"

text \<open>
  \<open>validated.app_id\<close> and \<open>validated.account_id\<close>: the parsed event has the keys \<open>topic\<close> and
  \<open>payload\<close> only, the ids are inside the payload, so both are \<open>undefined\<close>.
\<close>

definition top_level_app_id :: "event \<Rightarrow> string option" where
  "top_level_app_id validated = None"

definition top_level_account_id :: "event \<Rightarrow> string option" where
  "top_level_account_id validated = None"

definition create_app_webhook :: "prisma \<Rightarrow> string \<Rightarrow> event \<Rightarrow> app_webhook \<Rightarrow> unit prog" where
  "create_app_webhook P topic validated appWebhook =
     bnd (lift_result (js_Number_string (awh_app_id appWebhook))) (\<lambda>app.
     bnd (create_row (prisma_webhooks P) (\<lambda>i. (new_webhook i)\<lparr>wh_app_id := Some app,
            wh_url := Some (awh_url appWebhook), wh_type := Some topic, wh_payload := EventJson validated\<rparr>)) (\<lambda>webhook.
     start_job (JSendWebhook webhook)))"

definition create_account_webhook :: "prisma \<Rightarrow> string \<Rightarrow> event \<Rightarrow> account_webhook \<Rightarrow> unit prog" where
  "create_account_webhook P topic validated accountWebhook =
     bnd (lift_result (js_Number_string (acw_account_id accountWebhook))) (\<lambda>account.
     bnd (create_row (prisma_webhooks P) (\<lambda>i. (new_webhook i)\<lparr>wh_account_id := Some account,
            wh_url := Some (acw_url accountWebhook), wh_type := Some topic, wh_payload := EventJson validated\<rparr>)) (\<lambda>webhook.
     start_job (JSendWebhook webhook)))"

definition createAndSendWebhook :: "prisma \<Rightarrow> string \<Rightarrow> event \<Rightarrow> unit prog" where
  "createAndSendWebhook P topic payload =
     (case webhookSchemas topic of
        None \<Rightarrow> throw (JsError ''invalid webhook type'')
      | Some schema \<Rightarrow>
          bnd (lift_result (schema_parse schema payload)) (\<lambda>validated.
          bnd (find_many (prisma_app_webhooks P)
                 (\<lambda>h. where_is (top_level_app_id validated) (awh_app_id h) \<and> topic \<in> set (awh_topics h))) (\<lambda>appWebhooks.
          bnd (find_many (prisma_account_webhooks P)
                 (\<lambda>h. where_is (top_level_account_id validated) (acw_account_id h))) (\<lambda>accountWebhooks.
          bnd (for_each (create_app_webhook P topic validated) appWebhooks) (\<lambda>_.
          for_each (create_account_webhook P topic validated) accountWebhooks)))))"

definition DEFAULT_WEBHOOK_URL :: "ext \<Rightarrow> string" where
  "DEFAULT_WEBHOOK_URL E = cfg_string E ''API_BASE'' @ ''/v1/api/test/webhooks''"

definition webhook_succeeded :: "prisma \<Rightarrow> webhook \<Rightarrow> http_success \<Rightarrow> webhook prog" where
  "webhook_succeeded P webhook resp =
     bnd (reads now) (\<lambda>t.
     update_row (prisma_webhooks P) (wh_id webhook) (\<lambda>r. r\<lparr>wh_response_body := Some (hs_body resp),
       wh_status := Some ''success'', wh_ended_at := Some t, wh_response_code := Some (hs_status resp)\<rparr>))"

definition webhook_failed :: "prisma \<Rightarrow> webhook \<Rightarrow> http_failure \<Rightarrow> webhook prog" where
  "webhook_failed P webhook e =
     bnd (reads now) (\<lambda>t.
     update_row (prisma_webhooks P) (wh_id webhook) (\<lambda>r. r\<lparr>wh_status := Some ''failed'',
       wh_error := Some (hf_message e), wh_ended_at := Some t,
       wh_response_body := set_if (case hf_response e of None \<Rightarrow> None
          | Some resp \<Rightarrow> (case er_body resp of Some b \<Rightarrow> Some b | None \<Rightarrow> er_text_json resp)) (wh_response_body r),
       wh_response_code := set_if (case hf_response e of None \<Rightarrow> None | Some resp \<Rightarrow> er_statusCode resp)
         (wh_response_code r)\<rparr>))"

definition failure_of :: "js_error \<Rightarrow> http_failure" where
  "failure_of e = \<lparr>hf_message = js_message e, hf_response = None\<rparr>"

text \<open>The result is the webhook it was given, or \<open>undefined\<close> when there is no URL.\<close>

definition sendWebhook :: "ext \<Rightarrow> prisma \<Rightarrow> webhook \<Rightarrow> webhook option prog" where
  "sendWebhook E P webhook =
     (if \<not> truthy (wh_url webhook) then ret None
      else
        bnd (post E (the (wh_url webhook)) (wh_payload webhook)) (\<lambda>r.
        bnd (case r of
               Inr resp \<Rightarrow> catch (webhook_succeeded P webhook resp) (\<lambda>e. webhook_failed P webhook (failure_of e))
             | Inl failure \<Rightarrow> webhook_failed P webhook failure) (\<lambda>_.
        ret (Some webhook))))"

definition sendWebhookForInvoice :: "ext \<Rightarrow> prisma \<Rightarrow> string \<Rightarrow> string \<Rightarrow> webhook option prog" where
  "sendWebhookForInvoice E P invoiceUid type =
     bnd (invoice_by_uid P invoiceUid) (\<lambda>invoice.
     bnd (find_first (prisma_webhooks P) (\<lambda>h. wh_invoice_uid h = Some (inv_uid invoice))) (\<lambda>found.
     bnd (case found of
            Some webhook \<Rightarrow> ret webhook
          | None \<Rightarrow> create_row (prisma_webhooks P) (\<lambda>i. (new_webhook i)\<lparr>wh_account_id := inv_account_id invoice,
              wh_invoice_uid := Some (inv_uid invoice), wh_url := inv_webhook_url invoice,
              wh_type := Some type, wh_payload := InvoiceJson invoice\<rparr>)) (\<lambda>webhook.
     bnd (if wh_payload webhook = EmptyJson
          then update_row (prisma_webhooks P) (wh_id webhook) (\<lambda>r. r\<lparr>wh_payload := InvoiceJson invoice\<rparr>)
          else ret webhook) (\<lambda>webhook.
     sendWebhook E P webhook))))"

definition webhookForInvoice :: "prisma \<Rightarrow> invoice \<Rightarrow> webhook prog" where
  "webhookForInvoice P invoice =
     find_first_or_throw (prisma_webhooks P) (\<lambda>h. wh_invoice_uid h = Some (inv_uid invoice))"

definition findWebhook :: "prisma \<Rightarrow> string \<Rightarrow> webhook prog" where
  "findWebhook P invoice_uid =
     find_first_or_throw (prisma_webhooks P) (\<lambda>h. wh_invoice_uid h = Some invoice_uid)"

text \<open>No code sets a webhook's status to \<open>paid\<close>.\<close>

definition getPaidWebhookForInvoice :: "prisma \<Rightarrow> invoice \<Rightarrow> webhook prog" where
  "getPaidWebhookForInvoice P invoice =
     find_first_or_throw (prisma_webhooks P)
       (\<lambda>h. wh_invoice_uid h = Some (inv_uid invoice) \<and> wh_status h = Some ''paid'')"

definition createWebhookForInvoice :: "ext \<Rightarrow> prisma \<Rightarrow> invoice \<Rightarrow> webhook prog" where
  "createWebhookForInvoice E P invoice =
     bnd (find_first (prisma_webhooks P) (\<lambda>h. wh_invoice_uid h = Some (inv_uid invoice))) (\<lambda>found.
     (case found of
        Some webhook \<Rightarrow> ret webhook
      | None \<Rightarrow> create_row (prisma_webhooks P) (\<lambda>i. (new_webhook i)\<lparr>wh_invoice_uid := Some (inv_uid invoice),
          wh_url := str_or (inv_webhook_url invoice) (Some (DEFAULT_WEBHOOK_URL E)),
          wh_account_id := inv_account_id invoice\<rparr>)))"

section \<open>Attempts\<close>

definition attempt_failed :: "prisma \<Rightarrow> nat \<Rightarrow> http_failure \<Rightarrow> webhook_attempt prog" where
  "attempt_failed P i e =
     bnd (reads now) (\<lambda>t.
     update_row (prisma_webhook_attempts P) i (\<lambda>r. r\<lparr>wa_error := Some (hf_message e), wa_ended_at := Some t,
       wa_response_body := set_if (case hf_response e of None \<Rightarrow> None | Some resp \<Rightarrow> er_text resp) (wa_response_body r),
       wa_response_code := set_if (case hf_response e of None \<Rightarrow> None | Some resp \<Rightarrow> er_statusCode resp)
         (wa_response_code r)\<rparr>))"

definition attempt_succeeded :: "prisma \<Rightarrow> webhook \<Rightarrow> webhook_attempt \<Rightarrow> http_success \<Rightarrow> webhook_attempt prog" where
  "attempt_succeeded P webhook attempt resp =
     bnd (reads now) (\<lambda>t.
     bnd (catch
            (bnd (update_row (prisma_webhook_attempts P) (wa_id attempt)
               (\<lambda>r. r\<lparr>wa_response_code := Some (hs_status resp), wa_response_body := Some (hs_body resp),
                  wa_ended_at := Some t\<rparr>)) (\<lambda>a. ret (Inr a)))
            (\<lambda>e. ret (Inl e))) (\<lambda>updated.
     (case updated of
        Inl e \<Rightarrow> bnd (attempt_failed P (wa_id attempt) (failure_of e)) (\<lambda>_. ret attempt)
      | Inr a \<Rightarrow>
          catch
            (bnd (update_row (prisma_webhooks P) (wh_id webhook)
               (\<lambda>r. r\<lparr>wh_status := Some ''success'', wh_ended_at := Some t\<rparr>)) (\<lambda>_. ret a))
            (\<lambda>e. bnd (attempt_failed P (wa_id attempt) (failure_of e)) (\<lambda>_. ret a)))))"

definition attemptWebhook :: "ext \<Rightarrow> prisma \<Rightarrow> webhook \<Rightarrow> webhook_attempt prog" where
  "attemptWebhook E P webhook =
     bnd (guard_io (wh_status webhook \<noteq> Some ''success'') (JsError ''webhook already sent for this invoice'')) (\<lambda>_.
     bnd (reads now) (\<lambda>t.
     bnd (create_row (prisma_webhook_attempts P) (\<lambda>i. \<lparr>wa_id = i, wa_webhook_id = wh_id webhook,
            wa_started_at = t, wa_ended_at = None, wa_response_code = None, wa_response_body = None,
            wa_error = None\<rparr>)) (\<lambda>attempt.
     bnd (invoice_by_uid P (js_String (wh_invoice_uid webhook))) (\<lambda>invoice.
     bnd (post E (js_String (wh_url webhook)) (InvoiceJson invoice)) (\<lambda>r.
     (case r of
        Inr resp \<Rightarrow> attempt_succeeded P webhook attempt resp
      | Inl failure \<Rightarrow> bnd (attempt_failed P (wa_id attempt) failure) (\<lambda>_. ret attempt)))))))"

definition page :: "nat option \<Rightarrow> nat option \<Rightarrow> 'a list \<Rightarrow> 'a list" where
  "page limit offset xs =
     (let ys = (case offset of None \<Rightarrow> xs | Some k \<Rightarrow> drop k xs)
      in case limit of None \<Rightarrow> ys | Some n \<Rightarrow> take n ys)"

definition listForAccount :: "prisma \<Rightarrow> account \<Rightarrow> nat option \<Rightarrow> nat option \<Rightarrow> webhook list prog" where
  "listForAccount P account limit offset =
     bnd (find_many (prisma_webhooks P) (\<lambda>h. wh_account_id h = Some (acc_id account)))
       (\<lambda>webhooks. ret (page limit offset webhooks))"

section \<open>Facts\<close>

text \<open>The rows the two loops of \<open>createAndSendWebhook\<close> create, from the first free id.\<close>

definition app_hook_row :: "string \<Rightarrow> event \<Rightarrow> app_webhook \<Rightarrow> nat \<Rightarrow> webhook" where
  "app_hook_row topic validated h i = (new_webhook i)\<lparr>wh_app_id := Some (undecimal 0 (awh_app_id h)),
     wh_url := Some (awh_url h), wh_type := Some topic, wh_payload := EventJson validated\<rparr>"

definition account_hook_row :: "string \<Rightarrow> event \<Rightarrow> account_webhook \<Rightarrow> nat \<Rightarrow> webhook" where
  "account_hook_row topic validated h i = (new_webhook i)\<lparr>wh_account_id := Some (undecimal 0 (acw_account_id h)),
     wh_url := Some (acw_url h), wh_type := Some topic, wh_payload := EventJson validated\<rparr>"

fun numbered :: "('h \<Rightarrow> nat \<Rightarrow> webhook) \<Rightarrow> 'h list \<Rightarrow> nat \<Rightarrow> webhook list" where
  "numbered f [] i = []"
| "numbered f (h # hs) i = f h i # numbered f hs (Suc i)"

lemma map_numbered: "(\<And>h i. g (f h i) = k h) \<Longrightarrow> map g (numbered f hs i) = map k hs"
  by (induction f hs i rule: numbered.induct) auto

lemma in_numbered: "r \<in> set (numbered f hs i) \<Longrightarrow> \<exists>h \<in> set hs. \<exists>j. r = f h j"
  by (induction f hs i rule: numbered.induct) auto

lemma length_numbered [simp]: "length (numbered f hs i) = length hs"
  by (induction f hs i rule: numbered.induct) auto

text \<open>The world after some webhook rows were created and their sending started.\<close>

definition with_hooks :: "webhook list \<Rightarrow> world \<Rightarrow> world" where
  "with_hooks new w = w\<lparr>db_webhooks := db_webhooks w @ map Some new, jobs := jobs w @ map JSendWebhook new\<rparr>"

lemma with_hooks_Nil [simp]: "with_hooks [] w = w"
  by (simp add: with_hooks_def)

lemma with_hooks_append: "with_hooks b (with_hooks a w) = with_hooks (a @ b) w"
  by (simp add: with_hooks_def)

lemma next_id_with_hooks: "next_id (db_webhooks (with_hooks new w)) = next_id (db_webhooks w) + length new"
  by (simp add: with_hooks_def next_id_def)

lemma for_each_hooks:
  assumes "\<And>h w. h \<in> set hs \<Longrightarrow> f h w = (Inr (), with_hooks [g h (next_id (db_webhooks w))] w)"
  shows "for_each f hs w = (Inr (), with_hooks (numbered g hs (next_id (db_webhooks w))) w)"
  using assms
proof (induction hs arbitrary: w)
  case (Cons h hs)
  then show ?case by (simp add: bnd_run next_id_with_hooks with_hooks_append)
qed (simp add: ret_run)

context prisma_client
begin

lemma create_app_webhook_run:
  "list_all is_digit (awh_app_id h) \<Longrightarrow>
   create_app_webhook P topic v h w = (Inr (), with_hooks [app_hook_row topic v h (next_id (db_webhooks w))] w)"
  by (simp add: create_app_webhook_def js_Number_string_def app_hook_row_def with_hooks_def io_simps)

lemma create_account_webhook_run:
  "list_all is_digit (acw_account_id h) \<Longrightarrow>
   create_account_webhook P topic v h w = (Inr (), with_hooks [account_hook_row topic v h (next_id (db_webhooks w))] w)"
  by (simp add: create_account_webhook_def js_Number_string_def account_hook_row_def with_hooks_def io_simps)

lemma createAndSendWebhook_run:
  assumes "webhookSchemas topic = Some schema" and "sch_accepts schema e"
    and "\<forall>h \<in> set (rows (db_app_webhooks w)). list_all is_digit (awh_app_id h)"
    and "\<forall>h \<in> set (rows (db_account_webhooks w)). list_all is_digit (acw_account_id h)"
  shows "createAndSendWebhook P topic e w =
    (let v = sch_strip schema e;
         apps = api_many (api_app_webhooks P) (\<lambda>h. topic \<in> set (awh_topics h)) (db_app_webhooks w);
         accounts = api_many (api_account_webhooks P) (\<lambda>h. True) (db_account_webhooks w);
         new = numbered (app_hook_row topic v) apps (next_id (db_webhooks w));
         new' = numbered (account_hook_row topic v) accounts (next_id (db_webhooks w) + length apps)
     in (Inr (), with_hooks (new @ new') w))"
proof -
  define v where "v = sch_strip schema e"
  define apps where "apps = api_many (api_app_webhooks P) (\<lambda>h. topic \<in> set (awh_topics h)) (db_app_webhooks w)"
  define accounts where "accounts = api_many (api_account_webhooks P) (\<lambda>h. True) (db_account_webhooks w)"
  have apps: "for_each (create_app_webhook P topic v) apps w =
      (Inr (), with_hooks (numbered (app_hook_row topic v) apps (next_id (db_webhooks w))) w)"
    using assms(3) taw.set_many unfolding apps_def
    by (intro for_each_hooks create_app_webhook_run) auto
  have accounts: "for_each (create_account_webhook P topic v) accounts w' =
      (Inr (), with_hooks (numbered (account_hook_row topic v) accounts (next_id (db_webhooks w'))) w')" for w'
    using assms(4) tcw.set_many unfolding accounts_def
    by (intro for_each_hooks create_account_webhook_run) auto
  have "createAndSendWebhook P topic e w =
      bnd (for_each (create_app_webhook P topic v) apps)
        (\<lambda>_. for_each (create_account_webhook P topic v) accounts) w"
    using assms(1,2)
    by (simp add: createAndSendWebhook_def schema_parse_def where_is_def top_level_app_id_def
        top_level_account_id_def bnd_run lift_result_run find_many_run v_def apps_def accounts_def
        prisma_app_webhooks_def prisma_account_webhooks_def)
  also have "\<dots> = (Inr (), with_hooks (numbered (app_hook_row topic v) apps (next_id (db_webhooks w)) @
      numbered (account_hook_row topic v) accounts (next_id (db_webhooks w) + length apps)) w)"
    by (simp add: bnd_run apps accounts next_id_with_hooks with_hooks_append)
  finally show ?thesis by (simp add: v_def apps_def accounts_def Let_def)
qed

end

lemma app_webhooks_many:
  "prisma_client P \<Longrightarrow> mset (api_many (api_app_webhooks P) p t) = mset (filter p (rows t))"
  unfolding prisma_client_def by (blast intro: table_client.many_mset)

lemma account_webhooks_many:
  "prisma_client P \<Longrightarrow> mset (api_many (api_account_webhooks P) p t) = mset (filter p (rows t))"
  unfolding prisma_client_def by (blast intro: table_client.many_mset)

section \<open>Properties\<close>

text \<open>
  C24. \<open>createAndSendWebhook\<close> (src/src/lib/webhooks.ts) on an event its schema accepts creates
  and starts sending one pending webhook for every app webhook subscribed to the topic and
  for every account webhook there is. The app and the account the event belongs to play no
  part, so every subscriber receives every merchant's event: the ids it filters by are read
  from the wrong level of the parsed event and are undefined.
\<close>

theorem webhooks_fan_out_to_everyone:
  assumes "prisma_client P" and "webhookSchemas topic = Some schema" and "sch_accepts schema e"
    and "\<forall>h \<in> set (rows (db_app_webhooks w)). list_all is_digit (awh_app_id h)"
    and "\<forall>h \<in> set (rows (db_account_webhooks w)). list_all is_digit (acw_account_id h)"
  shows "\<exists>new. createAndSendWebhook P topic e w =
      (Inr (), w\<lparr>db_webhooks := db_webhooks w @ map Some new, jobs := jobs w @ map JSendWebhook new\<rparr>) \<and>
    mset (map (\<lambda>h. (wh_url h, wh_app_id h, wh_account_id h)) new) =
      mset (map (\<lambda>a. (Some (awh_url a), Some (undecimal 0 (awh_app_id a)), None))
        (filter (\<lambda>a. topic \<in> set (awh_topics a)) (rows (db_app_webhooks w)))) +
      mset (map (\<lambda>a. (Some (acw_url a), None, Some (undecimal 0 (acw_account_id a))))
        (rows (db_account_webhooks w))) \<and>
    (\<forall>h \<in> set new. wh_type h = Some topic \<and> wh_status h = Some ''pending'' \<and>
       wh_payload h = EventJson (sch_strip schema e))"
proof -
  let ?v = "sch_strip schema e"
  let ?apps = "api_many (api_app_webhooks P) (\<lambda>h. topic \<in> set (awh_topics h)) (db_app_webhooks w)"
  let ?accounts = "api_many (api_account_webhooks P) (\<lambda>h. True) (db_account_webhooks w)"
  let ?new = "numbered (app_hook_row topic ?v) ?apps (next_id (db_webhooks w)) @
     numbered (account_hook_row topic ?v) ?accounts (next_id (db_webhooks w) + length ?apps)"
  let ?key = "\<lambda>h. (wh_url h, wh_app_id h, wh_account_id h)"
  have run: "createAndSendWebhook P topic e w = (Inr (), with_hooks ?new w)"
    using prisma_client.createAndSendWebhook_run [OF assms] by (simp add: Let_def)
  have "mset ?apps = mset (filter (\<lambda>a. topic \<in> set (awh_topics a)) (rows (db_app_webhooks w)))"
    and "mset ?accounts = mset (rows (db_account_webhooks w))"
    using app_webhooks_many [OF assms(1)] account_webhooks_many [OF assms(1)] by simp_all
  moreover have "map ?key ?new =
      map (\<lambda>a. (Some (awh_url a), Some (undecimal 0 (awh_app_id a)), None)) ?apps @
      map (\<lambda>a. (Some (acw_url a), None, Some (undecimal 0 (acw_account_id a)))) ?accounts"
    unfolding map_append
    by (intro arg_cong2 [of _ _ _ _ append] map_numbered)
      (simp_all add: app_hook_row_def account_hook_row_def new_webhook_def)
  ultimately have "mset (map ?key ?new) =
      mset (map (\<lambda>a. (Some (awh_url a), Some (undecimal 0 (awh_app_id a)), None))
        (filter (\<lambda>a. topic \<in> set (awh_topics a)) (rows (db_app_webhooks w)))) +
      mset (map (\<lambda>a. (Some (acw_url a), None, Some (undecimal 0 (acw_account_id a))))
        (rows (db_account_webhooks w)))"
    by (simp only: mset_append mset_map)
  moreover have "\<forall>h \<in> set ?new. wh_type h = Some topic \<and> wh_status h = Some ''pending'' \<and>
       wh_payload h = EventJson ?v"
    by (auto dest!: in_numbered simp: app_hook_row_def account_hook_row_def new_webhook_def)
  ultimately show ?thesis
    by (intro exI [of _ ?new] conjI) (simp_all only: run with_hooks_def)
qed


definition demo_event :: event where
  "demo_event = \<lparr>ev_topic = ''payment.confirming'', ev_account_id = Some 1, ev_app_id = None,
     ev_invoice_uid = ''abc'', ev_invoice_status = ''confirming'', ev_quote = None,
     ev_payment = Some \<lparr>ep_chain = ''BTC'', ep_currency = ''BTC'', ep_txid = ''tx1'', ep_status = ''confirming''\<rparr>,
     ev_confirmation = None\<rparr>"

text \<open>A subscriber of another app receives the event of account 1.\<close>

definition other_app_world :: world where
  "other_app_world = empty_world\<lparr>db_app_webhooks := [Some \<lparr>awh_id = 1, awh_app_id = ''7'',
     awh_url = ''https://other'', awh_topics = [''payment.confirming'']\<rparr>]\<rparr>"

theorem webhooks_fan_out_to_everyone_witness:
  "\<exists>z. createAndSendWebhook pg ''payment.confirming'' demo_event other_app_world =
      (Inr (), other_app_world\<lparr>db_webhooks := [Some z], jobs := [JSendWebhook z]\<rparr>) \<and>
    wh_url z = Some ''https://other'' \<and> wh_app_id z = Some 7"
proof -
  let ?w = other_app_world
  have "\<exists>new. createAndSendWebhook pg ''payment.confirming'' demo_event ?w =
      (Inr (), ?w\<lparr>db_webhooks := db_webhooks ?w @ map Some new, jobs := jobs ?w @ map JSendWebhook new\<rparr>) \<and>
    mset (map (\<lambda>h. (wh_url h, wh_app_id h, wh_account_id h)) new) =
      mset (map (\<lambda>a. (Some (awh_url a), Some (undecimal 0 (awh_app_id a)), None))
        (filter (\<lambda>a. ''payment.confirming'' \<in> set (awh_topics a)) (rows (db_app_webhooks ?w)))) +
      mset (map (\<lambda>a. (Some (acw_url a), None, Some (undecimal 0 (acw_account_id a))))
        (rows (db_account_webhooks ?w))) \<and>
    (\<forall>h \<in> set new. wh_type h = Some ''payment.confirming'' \<and> wh_status h = Some ''pending'' \<and>
       wh_payload h = EventJson (sch_strip PaymentConfirmingEvent demo_event))"
    by (rule webhooks_fan_out_to_everyone [OF prisma_client_pg])
      (simp_all add: PaymentConfirmingEvent_def payment_status_matches_def demo_event_def other_app_world_def
        empty_world_def is_digit_def)
  then obtain new where
    run: "createAndSendWebhook pg ''payment.confirming'' demo_event ?w =
      (Inr (), ?w\<lparr>db_webhooks := db_webhooks ?w @ map Some new, jobs := jobs ?w @ map JSendWebhook new\<rparr>)"
    and m: "mset (map (\<lambda>h. (wh_url h, wh_app_id h, wh_account_id h)) new) =
      mset (map (\<lambda>a. (Some (awh_url a), Some (undecimal 0 (awh_app_id a)), None))
        (filter (\<lambda>a. ''payment.confirming'' \<in> set (awh_topics a)) (rows (db_app_webhooks ?w)))) +
      mset (map (\<lambda>a. (Some (acw_url a), None, Some (undecimal 0 (acw_account_id a))))
        (rows (db_account_webhooks ?w)))" by blast
  from m have "mset (map (\<lambda>h. (wh_url h, wh_app_id h, wh_account_id h)) new) = {#(Some ''https://other'', Some 7, None)#}"
    by (simp add: other_app_world_def empty_world_def del: mset_map)
  then have "map (\<lambda>h. (wh_url h, wh_app_id h, wh_account_id h)) new = [(Some ''https://other'', Some 7, None)]"
    by (simp only: mset_single_iff)
  then obtain z where "new = [z]" "wh_url z = Some ''https://other''" "wh_app_id z = Some 7" by auto
  with run show ?thesis by (simp add: other_app_world_def empty_world_def)
qed

definition demo_webhook :: webhook where
  "demo_webhook = (new_webhook 1)\<lparr>wh_invoice_uid := Some ''abc'', wh_url := Some ''https://shop''\<rparr>"


end
