(* ===== verification/Payments.thy ===== *)
theory Payments
  imports Plugins Webhooks
begin

text \<open>
  Recording a payment: \<open>handleUnconfirmedPayment\<close> and \<open>completePayment\<close> of
  \<open>src/lib/pay/index.ts\<close>, the fallback \<open>verifyPayment\<close> of the same file, and
  \<open>src/lib/payments.ts\<close>.
\<close>

section \<open>Verification without a plugin method\<close>

definition pay_verifyPayment :: "ext \<Rightarrow> payment_option \<Rightarrow> transaction \<Rightarrow> bool prog" where
  "pay_verifyPayment E payment_option t =
     bnd (lift_result (getBitcore E (if po_chain payment_option = [] then po_currency payment_option
            else po_chain payment_option))) (\<lambda>bitcore.
     bnd (lift_result (bc_tx bitcore (tx_hex t))) (\<lambda>tx.
     let txOutputs = decode_outputs (stripped (bc_address bitcore)) (utx_outputs tx) in
     bnd (lift_result (jsonV2_buildOutputs E payment_option)) (\<lambda>outputs.
     lift_result (verify_outputs (target_address (bc_address bitcore)) txOutputs outputs))))"

section \<open>Recording\<close>

text \<open>A new row of \<open>payments\<close>; the column \<open>status\<close> has the default \<open>confirming\<close>.\<close>

definition new_payment :: "string \<Rightarrow> string \<Rightarrow> payment_option \<Rightarrow> transaction \<Rightarrow> invoice \<Rightarrow> time \<Rightarrow> nat \<Rightarrow> payment" where
  "new_payment hash chain paymentOption t invoice time i =
     \<lparr>pay_id = i, pay_txid = hash, pay_txhex = Some (tx_hex t), pay_tx_key = tx_key t,
      pay_currency = po_currency paymentOption, pay_chain = Some chain,
      pay_invoice_uid = po_invoice_uid paymentOption, pay_payment_option_id = Some (po_id paymentOption),
      pay_account_id = inv_account_id invoice, pay_status = Some ''confirming'', pay_wallet = None,
      pay_confirmation_hash = None, pay_confirmation_height = None, pay_confirmation_date = None, pay_total_input = None, pay_total_output = None,
      pay_network_fee = None,
      pay_createdAt = time, pay_updatedAt = time\<rparr>"

definition settle_invoice :: "payment_option \<Rightarrow> string \<Rightarrow> string \<Rightarrow> time \<Rightarrow> invoice \<Rightarrow> invoice" where
  "settle_invoice paymentOption hash status time r =
     r\<lparr>inv_address := po_address paymentOption, inv_hash := Some hash, inv_status := status,
       inv_paidAt := Some time, inv_complete := True, inv_completed_at := Some time\<rparr>"

text \<open>
  \<open>handleUnconfirmedPayment\<close> also writes the payment's currency over the invoice's, and
  keeps the amount.
\<close>

definition handleUnconfirmedPayment :: "ext \<Rightarrow> prisma \<Rightarrow> payment_option \<Rightarrow> transaction \<Rightarrow> payment prog" where
  "handleUnconfirmedPayment E P paymentOption t =
     bnd (lift_result (getBitcore E (po_chain paymentOption))) (\<lambda>bitcore.
     bnd (lift_result (bc_tx bitcore (tx_hex t))) (\<lambda>tx.
     bnd (invoice_by_uid P (po_invoice_uid paymentOption)) (\<lambda>invoice.
     let hash = (if truthy (tx_id t) then the (tx_id t) else utx_hash tx) in
     bnd (reads now) (\<lambda>time.
     bnd (create_row (prisma_payments P) (new_payment hash
            (if po_chain paymentOption = [] then po_currency paymentOption else po_chain paymentOption)
            paymentOption t invoice time)) (\<lambda>paymentRecord.
     bnd (update_row (prisma_invoices P) (inv_id invoice) (\<lambda>r.
            (settle_invoice paymentOption hash ''confirming'' time r)\<lparr>
               inv_currency := Some (po_currency paymentOption), inv_amount := inv_amount invoice\<rparr>)) (\<lambda>_.
     bnd (publish_raw ''payment.confirming'' (PaymentMsg paymentRecord)) (\<lambda>_.
     ret paymentRecord)))))))"

definition payment_txid :: "ext \<Rightarrow> string \<Rightarrow> string \<Rightarrow> transaction \<Rightarrow> string prog" where
  "payment_txid E currency chain t =
     (if truthy (tx_id t) then ret (the (tx_id t))
      else if length (tx_hex t) = 66 then ret (tx_hex t)
      else bnd (plugins_parsePayments E currency chain t)
        (\<lambda>payments. case payments of [] \<Rightarrow> throw JsTypeError | p # _ \<Rightarrow> ret (pp_txid p)))"

definition invoice_paid_event :: "invoice \<Rightarrow> string \<Rightarrow> string \<Rightarrow> string \<Rightarrow> event" where
  "invoice_paid_event invoice chain currency hash =
     (with_owner (inv_account_id invoice) (inv_app_id invoice)
       ((blank_event ''invoice.paid'' (inv_uid invoice) (inv_status invoice))
         \<lparr>ev_payment := Some \<lparr>ep_chain = chain, ep_currency = currency, ep_txid = hash, ep_status = ''paid''\<rparr>\<rparr>))"

definition completePayment :: "ext \<Rightarrow> prisma \<Rightarrow> payment_option \<Rightarrow> transaction \<Rightarrow> bool \<Rightarrow> payment prog" where
  "completePayment E P paymentOption t confirming =
     (let currency = po_currency paymentOption;
          chain = (if po_chain paymentOption = [] then currency else po_chain paymentOption) in
      bnd (payment_txid E currency chain t) (\<lambda>hash.
      bnd (invoice_by_uid P (po_invoice_uid paymentOption)) (\<lambda>invoice.
      bnd (reads now) (\<lambda>time.
      bnd (create_row (prisma_payments P) (new_payment hash chain paymentOption t invoice time)) (\<lambda>paymentRecord.
      bnd (update_row (prisma_invoices P) (inv_id invoice)
             (settle_invoice paymentOption hash (if confirming then ''confirming'' else ''paid'') time)) (\<lambda>_.
      bnd (invoice_by_uid P (po_invoice_uid paymentOption)) (\<lambda>invoice.
      bnd (not_awaited (publishEvent ''invoice.paid'' (invoice_paid_event invoice chain currency hash))) (\<lambda>_.
      bnd (start_job (JSendWebhookForInvoice (inv_uid invoice) ''api_on_complete_payment'')) (\<lambda>_.
      ret paymentRecord)))))))))"

section \<open>payments.ts\<close>

definition getPayment :: "prisma \<Rightarrow> invoice \<Rightarrow> payment option prog" where
  "getPayment P invoice = find_first (prisma_payments P) (\<lambda>p. pay_invoice_uid p = inv_uid invoice)"

record payment_details =
  pd_txid :: string
  pd_currency :: string
  pd_txhex :: string

definition recordPayment :: "prisma \<Rightarrow> invoice \<Rightarrow> payment_details \<Rightarrow> payment prog" where
  "recordPayment P invoice details =
     bnd (getPayment P invoice) (\<lambda>payment.
     bnd (guard_io (payment = None) (JsError ''Multiple payments for invoice not allowed'')) (\<lambda>_.
     bnd (find_first_or_throw (prisma_payment_options P)
            (\<lambda>option. po_invoice_uid option = inv_uid invoice \<and> po_currency option = pd_currency details)) (\<lambda>option.
     bnd (reads now) (\<lambda>time.
     create_row (prisma_payments P) (\<lambda>i. \<lparr>pay_id = i, pay_txid = pd_txid details,
       pay_txhex = Some (pd_txhex details), pay_tx_key = None, pay_currency = po_currency option,
       pay_chain = Some (if po_chain option = [] then po_currency option else po_chain option),
       pay_invoice_uid = inv_uid invoice, pay_payment_option_id = Some (po_id option),
       pay_account_id = inv_account_id invoice, pay_status = Some ''confirming'', pay_wallet = None,
       pay_confirmation_hash = None, pay_confirmation_height = None, pay_confirmation_date = None, pay_total_input = None, pay_total_output = None,
      pay_network_fee = None,
       pay_createdAt = time, pay_updatedAt = time\<rparr>)))))"

definition listPayments :: "prisma \<Rightarrow> nat \<Rightarrow> nat \<Rightarrow> nat \<Rightarrow> payment list prog" where
  "listPayments P account_id limit offset =
     bnd (find_sorted (prisma_payments P) (\<lambda>p. - pay_createdAt p) (\<lambda>p. pay_account_id p = Some account_id))
       (\<lambda>ps. ret (page (Some limit) (Some offset) ps))"

section \<open>Facts about recording\<close>

lemma settle_invoice_fields [simp]:
  "inv_uid (settle_invoice opt h s n r) = inv_uid r" "inv_id (settle_invoice opt h s n r) = inv_id r"
  "inv_status (settle_invoice opt h s n r) = s" "inv_hash (settle_invoice opt h s n r) = Some h"
  "inv_account_id (settle_invoice opt h s n r) = inv_account_id r"
  "inv_app_id (settle_invoice opt h s n r) = inv_app_id r"
  by (simp_all add: settle_invoice_def)

lemma new_payment_fields [simp]:
  "pay_id (new_payment h c opt t v n i) = i" "pay_txid (new_payment h c opt t v n i) = h"
  "pay_invoice_uid (new_payment h c opt t v n i) = po_invoice_uid opt"
  "pay_status (new_payment h c opt t v n i) = Some ''confirming''"
  "pay_confirmation_hash (new_payment h c opt t v n i) = None"
  by (simp_all add: new_payment_def)

lemma paid_event_accepted:
  "inv_status v \<in> {''paid'', ''confirming''} \<Longrightarrow>
   accepted_on ''invoice.paid'' (invoice_paid_event v c cur h) \<longleftrightarrow> inv_status v = ''paid''"
  by (auto simp: accepted_on_def invoice_paid_event_def with_owner_def blank_event_def schema_defs)

abbreviation payment_chain :: "payment_option \<Rightarrow> string" where
  "payment_chain opt \<equiv> (if po_chain opt = [] then po_currency opt else po_chain opt)"

context prisma_client
begin

lemma completePayment_run:
  fixes confirming opt t hash v w invoice
  defines "paymentRow \<equiv> new_payment hash (payment_chain opt) opt t invoice (now v) (next_id (db_payments v))"
    and "settled \<equiv> settle_invoice opt hash (if confirming then ''confirming'' else ''paid'') (now v) invoice"
  assumes txid: "payment_txid E (po_currency opt) (payment_chain opt) t w = (Inr hash, v)"
    and at: "invoice_at (po_invoice_uid opt) v i invoice" and id: "inv_id invoice = i"
  shows "completePayment E P opt t confirming w =
    (if unique_hash (put (db_invoices v) i (Some settled))
     then (Inr paymentRow, v\<lparr>
       db_payments := db_payments v @ [Some paymentRow],
       db_invoices := put (db_invoices v) i (Some settled),
       published := published v @ (if confirming then [] else
         map (\<lambda>k. (k, EventMsg (invoice_paid_event settled (payment_chain opt) (po_currency opt) hash)))
           (routes ''invoice.paid'' (invoice_paid_event settled (payment_chain opt) (po_currency opt) hash))),
       rejections := rejections v @ (if confirming then [ZodError] else []),
       jobs := jobs v @ [JSendWebhookForInvoice (po_invoice_uid opt) ''api_on_complete_payment'']\<rparr>)
     else (Inl (PrismaError UniqueViolation), v\<lparr>db_payments := db_payments v @ [Some paymentRow]\<rparr>))"
proof -
  have uid: "inv_uid invoice = po_invoice_uid opt" using at by (simp add: only_row_def)
  have row: "row (db_invoices v) i = Some invoice" using at by (simp add: only_row_def)
  have after: "invoice_at (po_invoice_uid opt)
      (v\<lparr>db_payments := db_payments v @ [Some paymentRow],
         db_invoices := put (db_invoices v) i (Some settled)\<rparr>) i settled"
    using only_row_put [OF at] uid by (simp add: settled_def)
  note mid = invoice_by_uid_run [OF after]
  show ?thesis
    using uid id mid
    by (simp add: completePayment_def Let_def bnd_run txid invoice_by_uid_run [OF at] reads_run
        create_payments update_invoices row not_awaited_run publishEvent_run paid_event_accepted
        start_job_run ret_run paymentRow_def settled_def id)
qed

end

section \<open>Properties\<close>

text \<open>
  C8. \<open>completePayment\<close> (src/src/lib/pay/index.ts) for a transaction id no other invoice
  carries: one payment row is added, with status confirming; the invoice becomes paid (or
  confirming), complete, and carries the id and the time; no other row changes; one webhook
  job is started. The event \<open>invoice.paid\<close> goes out exactly when the invoice is paid: for a
  confirming invoice the event does not pass its own schema and ends as an unhandled
  rejection.
\<close>

theorem completePayment_settles:
  assumes "prisma_client P"
    and "payment_txid E (po_currency opt) (payment_chain opt) t w = (Inr hash, v)"
    and "invoice_at (po_invoice_uid opt) v i invoice" and "inv_id invoice = i"
    and "unique_hash (db_invoices v)"
    and "\<And>j other. row (db_invoices v) j = Some other \<Longrightarrow> j \<noteq> i \<Longrightarrow> inv_hash other \<noteq> Some hash"
  shows "let paymentRow = new_payment hash (payment_chain opt) opt t invoice (now v) (next_id (db_payments v));
      settled = invoice\<lparr>inv_address := po_address opt, inv_hash := Some hash,
        inv_status := (if confirming then ''confirming'' else ''paid''),
        inv_paidAt := Some (now v), inv_complete := True, inv_completed_at := Some (now v)\<rparr>;
      paid = invoice_paid_event settled (payment_chain opt) (po_currency opt) hash in
    completePayment E P opt t confirming w = (Inr paymentRow, v\<lparr>
      db_payments := db_payments v @ [Some paymentRow],
      db_invoices := put (db_invoices v) i (Some settled),
      published := published v @
        (if confirming then [] else map (\<lambda>k. (k, EventMsg paid)) (routes ''invoice.paid'' paid)),
      rejections := rejections v @ (if confirming then [ZodError] else []),
      jobs := jobs v @ [JSendWebhookForInvoice (po_invoice_uid opt) ''api_on_complete_payment'']\<rparr>)"
proof -
  have "unique_hash (put (db_invoices v) i
      (Some (settle_invoice opt hash (if confirming then ''confirming'' else ''paid'') (now v) invoice)))"
    using assms(5,6) by (intro unique_hash_fresh) auto
  then show ?thesis
    unfolding Let_def
    using prisma_client.completePayment_run [OF assms(1-4), of confirming]
    by (simp add: settle_invoice_def)
qed

lemma demo_invoice_at:
  "invoice_at ''abc'' demo_world 1 demo_invoice" "invoice_at ''abc'' (demo_world\<lparr>db_payments := x\<rparr>) 1 demo_invoice"
  by (auto simp: only_row_def demo_world_def row_def demo_invoice_def split: if_splits)

lemma demo_unique: "unique_hash [Some demo_invoice]"
  by (simp add: unique_hash_def unique_on_def List.map_filter_def demo_invoice_def)

lemma demo_row_1: "row (db_invoices demo_world) j = Some x \<longleftrightarrow> j = 1 \<and> x = demo_invoice"
  by (auto simp: demo_world_def row_def split: if_splits)

theorem completePayment_settles_witness:
  "inv_status (the (row (db_invoices (snd (completePayment demo_ext pg demo_option
      (demo_tx\<lparr>tx_id := Some ''tx1''\<rparr>) False demo_world))) 1)) = ''paid''"
proof -
  have txid: "payment_txid demo_ext (po_currency demo_option) (payment_chain demo_option)
      (demo_tx\<lparr>tx_id := Some ''tx1''\<rparr>) demo_world = (Inr ''tx1'', demo_world)"
    by (simp add: payment_txid_def ret_run)
  have "invoice_at (po_invoice_uid demo_option) demo_world 1 demo_invoice"
    using demo_invoice_at(1) by (simp add: demo_option_def)
  moreover have "inv_id demo_invoice = 1" "unique_hash (db_invoices demo_world)"
    using demo_unique by (simp_all add: demo_invoice_def demo_world_def)
  ultimately show ?thesis
    using completePayment_settles [OF prisma_client_pg txid, of 1 demo_invoice False]
    by (simp add: Let_def demo_row_1) (simp add: demo_world_def row_put)
qed

text \<open>
  A transaction id pays one invoice only: when another invoice already carries the id,
  \<open>completePayment\<close> (src/src/lib/pay/index.ts) fails on the unique column and the invoice
  stays as it was, with no event and no webhook. The payment row created first is not
  rolled back: it stays, as confirming, for an invoice that is not paid.
\<close>

theorem replayed_txid_refused:
  assumes "prisma_client P"
    and "payment_txid E (po_currency opt) (payment_chain opt) t w = (Inr hash, v)"
    and "invoice_at (po_invoice_uid opt) v i invoice" and "inv_id invoice = i"
    and "row (db_invoices v) j = Some other" and "j \<noteq> i" and "inv_hash other = Some hash"
  shows "completePayment E P opt t confirming w =
    (Inl (PrismaError UniqueViolation), v\<lparr>db_payments := db_payments v @
       [Some (new_payment hash (payment_chain opt) opt t invoice (now v) (next_id (db_payments v)))]\<rparr>)"
proof -
  have "row (db_invoices v) i = Some invoice" using assms(3) by (rule only_rowD)
  then have "\<not> unique_hash (put (db_invoices v) i
      (Some (settle_invoice opt hash (if confirming then ''confirming'' else ''paid'') (now v) invoice)))"
    by (intro unique_hash_taken [OF assms(5-7)]) simp_all
  then show ?thesis
    by (simp add: prisma_client.completePayment_run [OF assms(1-4)])
qed

definition replay_world :: world where
  "replay_world = demo_world\<lparr>db_invoices :=
     [Some demo_invoice, Some (demo_invoice\<lparr>inv_id := 2, inv_uid := ''old'', inv_hash := Some ''tx1''\<rparr>)]\<rparr>"

theorem replayed_txid_refused_witness:
  "fst (completePayment demo_ext pg demo_option (demo_tx\<lparr>tx_id := Some ''tx1''\<rparr>) True replay_world) =
     Inl (PrismaError UniqueViolation)"
proof -
  have txid: "payment_txid demo_ext (po_currency demo_option) (payment_chain demo_option)
      (demo_tx\<lparr>tx_id := Some ''tx1''\<rparr>) replay_world = (Inr ''tx1'', replay_world)"
    by (simp add: payment_txid_def ret_run)
  have at: "invoice_at (po_invoice_uid demo_option) replay_world 1 demo_invoice"
    by (auto simp: only_row_def replay_world_def demo_option_def demo_invoice_def row_def nth_Cons'
        split: if_splits)
  have "row (db_invoices replay_world) 2 =
      Some (demo_invoice\<lparr>inv_id := 2, inv_uid := ''old'', inv_hash := Some ''tx1''\<rparr>)"
    by (simp add: replay_world_def row_def)
  then show ?thesis
    using replayed_txid_refused [OF prisma_client_pg txid at, of 2 _ True]
    by (simp add: demo_invoice_def)
qed

end
