(* ===== verification/Confirmations.thy ===== *)
theory Confirmations
  imports Plugins Webhooks
begin

text \<open>
  Confirming and reverting payments: \<open>src/lib/confirmations.ts\<close>, and the receipts of
  \<open>src/lib/plugins/evm.ts\<close>, which end in the same two operations.
\<close>

section \<open>Confirming\<close>

definition confirmed_payment :: "confirmation \<Rightarrow> payment \<Rightarrow> payment" where
  "confirmed_payment c r =
     r\<lparr>pay_confirmation_hash := set_if (cf_hash c) (pay_confirmation_hash r),
       pay_confirmation_height := set_if (cf_height c) (pay_confirmation_height r),
       pay_confirmation_date := cf_date c, pay_status := Some ''confirmed''\<rparr>"

text \<open>The event built from the invoice as it was read, before its status was written.\<close>

definition payment_confirmed_event :: "payment \<Rightarrow> invoice \<Rightarrow> confirmation \<Rightarrow> event" where
  "payment_confirmed_event payment invoice c =
     (with_owner (inv_account_id invoice) (inv_app_id invoice)
       ((blank_event ''payment.confirmed'' (inv_uid invoice) (inv_status invoice))
         \<lparr>ev_payment := Some \<lparr>ep_chain = js_String (pay_chain payment),
            ep_currency = pay_currency payment, ep_txid = pay_txid payment,
            ep_status = js_String (pay_status payment)\<rparr>,
          ev_confirmation := (case (cf_hash c, cf_height c) of
             (Some h, Some n) \<Rightarrow> Some (h, n) | _ \<Rightarrow> None)\<rparr>))"

definition confirmPayment :: "prisma \<Rightarrow> payment \<Rightarrow> confirmation \<Rightarrow> payment prog" where
  "confirmPayment P payment confirmation =
     (if truthy (pay_confirmation_hash payment) then ret payment
      else
        bnd (guard_io (cf_date confirmation \<noteq> None) (PrismaError InvalidValue)) (\<lambda>_.
        bnd (update_row (prisma_payments P) (pay_id payment) (confirmed_payment confirmation)) (\<lambda>_.
        bnd (find_first_or_throw (prisma_payments P) (\<lambda>p. pay_id p = pay_id payment)) (\<lambda>payment.
        bnd (invoice_by_uid P (pay_invoice_uid payment)) (\<lambda>invoice.
        bnd (update_row (prisma_invoices P) (inv_id invoice) (\<lambda>r. r\<lparr>inv_status := ''paid''\<rparr>)) (\<lambda>_.
        bnd (publish_raw ''payment.confirmed'' (PaymentMsg payment)) (\<lambda>_.
        bnd (createAndSendWebhook P ''payment.confirmed''
               (payment_confirmed_event payment invoice confirmation)) (\<lambda>_.
        ret payment))))))))"

definition payment_by_txid :: "prisma \<Rightarrow> string \<Rightarrow> payment prog" where
  "payment_by_txid P hash = find_first_or_throw (prisma_payments P) (\<lambda>p. pay_txid p = hash)"

definition getConfirmationForTxid :: "ext \<Rightarrow> prisma \<Rightarrow> string \<Rightarrow> payment option prog" where
  "getConfirmationForTxid E P hash =
     bnd (find_first (prisma_payments P) (\<lambda>p. pay_txid p = hash)) (\<lambda>found.
     (case found of
        None \<Rightarrow> ret None
      | Some payment \<Rightarrow>
          bnd (getConfirmation E hash (js_String (pay_chain payment)) (pay_currency payment)) (\<lambda>confirmation.
          (case confirmation of
             None \<Rightarrow> ret None
           | Some c \<Rightarrow> bnd (confirmPayment P payment c) (\<lambda>p. ret (Some p))))))"

definition confirmPaymentByTxid :: "prisma \<Rightarrow> string \<Rightarrow> confirmation \<Rightarrow> payment prog" where
  "confirmPaymentByTxid P hash confirmation =
     bnd (payment_by_txid P hash) (\<lambda>payment. confirmPayment P payment confirmation)"

section \<open>Reverting\<close>

definition reverted_invoice :: "invoice \<Rightarrow> invoice" where
  "reverted_invoice r = r\<lparr>inv_status := ''unpaid'', inv_hash := None\<rparr>"

definition revertPayment :: "prisma \<Rightarrow> string \<Rightarrow> (invoice \<times> payment) prog" where
  "revertPayment P hash =
     bnd (find_first_or_throw (prisma_invoices P) (\<lambda>i. inv_hash i = Some hash)) (\<lambda>invoice.
     bnd (payment_by_txid P hash) (\<lambda>payment.
     bnd (update_row (prisma_invoices P) (inv_id invoice) reverted_invoice) (\<lambda>_.
     bnd (update_row (prisma_payments P) (pay_id payment) (\<lambda>r. r\<lparr>pay_status := Some ''failed''\<rparr>)) (\<lambda>_.
     bnd (find_first_or_throw (prisma_payments P) (\<lambda>p. pay_id p = pay_id payment)) (\<lambda>payment.
     bnd (publish_raw ''payment.reverted'' (RevertedMsg payment invoice)) (\<lambda>_.
     ret (invoice, payment)))))))"

section \<open>Watching the chains\<close>

definition listUnconfirmedPayments :: "prisma \<Rightarrow> string \<Rightarrow> string \<Rightarrow> payment list prog" where
  "listUnconfirmedPayments P chain currency =
     find_many (prisma_payments P)
       (\<lambda>p. pay_confirmation_hash p = None \<and> pay_chain p = Some chain \<and> pay_currency p = currency)"

definition confirm_one :: "ext \<Rightarrow> prisma \<Rightarrow> payment \<Rightarrow> unit prog" where
  "confirm_one E P payment =
     catch
       (bnd (getConfirmation E (pay_txid payment) (js_String (pay_chain payment)) (pay_currency payment)) (\<lambda>confirmation.
        (case confirmation of
           None \<Rightarrow> ret ()
         | Some c \<Rightarrow> bnd (confirmPayment P payment c) (\<lambda>_. ret ()))))
       (\<lambda>_. ret ())"

definition seven_days :: time where
  "seven_days = 7 * 24 * 60 * 60 * 1000"

text \<open>The body of the interval timer of \<open>startConfirmingTransactions\<close>.\<close>

definition confirming_tick :: "ext \<Rightarrow> prisma \<Rightarrow> unit prog" where
  "confirming_tick E P =
     catch
       (bnd (reads now) (\<lambda>time.
        bnd (find_sorted (prisma_payments P) (\<lambda>p. - pay_createdAt p)
               (\<lambda>p. pay_status p = Some ''confirming'' \<and> time - seven_days \<le> pay_createdAt p)) (\<lambda>unconfirmed.
        for_each (confirm_one E P) unconfirmed)))
       (\<lambda>_. ret ())"

definition stored_confirmation :: "payment \<Rightarrow> confirmation" where
  "stored_confirmation p = \<lparr>cf_hash = pay_confirmation_hash p, cf_height = pay_confirmation_height p,
     cf_date = pay_confirmation_date p, cf_confirmations = Some 1\<rparr>"

definition confirmInvoice ::
  "ext \<Rightarrow> prisma \<Rightarrow> string \<Rightarrow> (payment option \<times> confirmation option) prog" where
  "confirmInvoice E P uid =
     catch
       (bnd (invoice_by_uid P uid) (\<lambda>invoice.
        bnd (find_first (prisma_payments P) (\<lambda>p. pay_invoice_uid p = uid)) (\<lambda>found.
        (case found of
           None \<Rightarrow> ret (None, None)
         | Some payment \<Rightarrow>
             if truthy (pay_confirmation_hash payment) \<and> truthy_id (pay_confirmation_height payment) \<and>
                pay_confirmation_date payment \<noteq> None
             then ret (Some payment, Some (stored_confirmation payment))
             else if inv_status invoice \<noteq> ''confirming'' \<or> \<not> truthy (inv_hash invoice)
             then ret (None, None)
             else
               let hash = the (inv_hash invoice) in
               bnd (getConfirmation E hash (js_String (pay_chain payment)) (pay_currency payment)) (\<lambda>confirmation.
               (case confirmation of
                  None \<Rightarrow> ret (Some payment, None)
                | Some c \<Rightarrow>
                    bnd (confirmPaymentByTxid P hash c) (\<lambda>confirmedPayment.
                    ret (Some confirmedPayment, Some c))))))))
       (\<lambda>_. ret (None, None))"

section \<open>EVM receipts\<close>

definition save_receipt :: "prisma \<Rightarrow> string \<Rightarrow> unit prog" where
  "save_receipt P hash =
     bnd (find_first (prisma_evm_receipts P) (\<lambda>r. evr_txid r = hash)) (\<lambda>found.
     (case found of
        Some _ \<Rightarrow> ret ()
      | None \<Rightarrow> bnd (create_row (prisma_evm_receipts P) (\<lambda>i. \<lparr>evr_id = i, evr_txid = hash\<rparr>)) (\<lambda>_. ret ())))"

definition revert_unawaited :: "prisma \<Rightarrow> string \<Rightarrow> unit prog" where
  "revert_unawaited P hash = not_awaited (bnd (revertPayment P hash) (\<lambda>_. ret ()))"

definition handleTransactionReceipt :: "ext \<Rightarrow> prisma \<Rightarrow> string \<Rightarrow> receipt \<Rightarrow> unit prog" where
  "handleTransactionReceipt E P url receipt =
     (if \<not> rc_status receipt then revert_unawaited P (rc_transactionHash receipt)
      else
        bnd (ask (\<lambda>n. web3_block E n url (string_or_undefined (rc_blockHash receipt)))) (\<lambda>(_, timestamp).
        bnd (confirmPaymentByTxid P (rc_transactionHash receipt)
               \<lparr>cf_hash = Some (string_or_undefined (rc_blockHash receipt)),
                cf_height = Some (rc_blockNumber receipt), cf_date = Some (timestamp * 1000),
                cf_confirmations = None\<rparr>) (\<lambda>_.
        save_receipt P (rc_transactionHash receipt))))"

text \<open>What a broadcast leaves running: the lookup of a receipt, and the receipt event.\<close>

definition job_poll_receipt :: "ext \<Rightarrow> prisma \<Rightarrow> string \<Rightarrow> string \<Rightarrow> unit prog" where
  "job_poll_receipt E P url hash =
     bnd (ask (\<lambda>n. web3_receipt E n url hash)) (\<lambda>found.
     (case found of None \<Rightarrow> ret () | Some receipt \<Rightarrow> handleTransactionReceipt E P url receipt))"

definition job_receipt :: "ext \<Rightarrow> prisma \<Rightarrow> string \<Rightarrow> receipt \<Rightarrow> unit prog" where
  "job_receipt E P url receipt =
     (if rc_status receipt then handleTransactionReceipt E P url receipt
      else revert_unawaited P (rc_transactionHash receipt))"

section \<open>Facts\<close>

abbreviation payment_with :: "string \<Rightarrow> world \<Rightarrow> nat \<Rightarrow> payment \<Rightarrow> bool" where
  "payment_with hash w \<equiv> only_row (\<lambda>p. pay_txid p = hash) (db_payments w)"

text \<open>The writes of a confirmation: the payment row, the invoice row, one message.\<close>

definition confirmation_writes :: "nat \<Rightarrow> nat \<Rightarrow> payment \<Rightarrow> invoice \<Rightarrow> world \<Rightarrow> world" where
  "confirmation_writes k i paymentRow invoice w = w\<lparr>
     db_payments := put (db_payments w) k (Some paymentRow),
     db_invoices := put (db_invoices w) i (Some (invoice\<lparr>inv_status := ''paid''\<rparr>)),
     published := published w @ [(''payment.confirmed'', PaymentMsg paymentRow)]\<rparr>"

lemma confirmed_payment_fields [simp]:
  "pay_id (confirmed_payment c r) = pay_id r" "pay_txid (confirmed_payment c r) = pay_txid r"
  "pay_invoice_uid (confirmed_payment c r) = pay_invoice_uid r"
  "pay_status (confirmed_payment c r) = Some ''confirmed''"
  "cf_hash c = Some h \<Longrightarrow> pay_confirmation_hash (confirmed_payment c r) = Some h"
  by (simp_all add: confirmed_payment_def set_if_def)

lemma payment_confirmed_accepted:
  assumes "pay_status p = Some ''confirmed''" and "cf_hash c = Some h" and "cf_height c = Some n"
  shows "sch_accepts PaymentConfirmedEvent (payment_confirmed_event p v c) \<longleftrightarrow> sublist ''paid'' (inv_status v)"
  using assms
  by (simp del: re_search.simps add: schema_defs payment_confirmed_event_def builder_simps
      payment_status_matches_def)

context prisma_client
begin

lemma payment_by_txid_run: "payment_with hash w k r \<Longrightarrow> payment_by_txid P hash w = (Inr r, w)"
  by (simp add: payment_by_txid_def io_simps prisma_payments_def tp.first_only)

lemma payment_by_id_run:
  "ids_ok pay_id (db_payments w) \<Longrightarrow> row (db_payments w) k = Some r \<Longrightarrow>
   find_first_or_throw (prisma_payments P) (\<lambda>p. pay_id p = k) w = (Inr r, w)"
  by (simp add: io_simps prisma_payments_def tp.first_by_id)

lemma confirmPayment_run:
  fixes r c i invoice w k
  defines "v \<equiv> confirmation_writes k i (confirmed_payment c r) invoice w"
  assumes new: "\<not> truthy (pay_confirmation_hash payment)" and date: "cf_date c \<noteq> None"
    and k: "pay_id payment = k" "row (db_payments w) k = Some r" and ids: "ids_ok pay_id (db_payments w)"
    and at: "invoice_at (pay_invoice_uid r) w i invoice" and id: "inv_id invoice = i"
    and uq: "unique_hash (db_invoices w)"
  shows "confirmPayment P payment c w =
    (case createAndSendWebhook P ''payment.confirmed''
            (payment_confirmed_event (confirmed_payment c r) invoice c) v of
       (Inl e, v') \<Rightarrow> (Inl e, v') | (Inr _, v') \<Rightarrow> (Inr (confirmed_payment c r), v'))"
proof -
  let ?w = "w\<lparr>db_payments := put (db_payments w) k (Some (confirmed_payment c r))\<rparr>"
  have inv: "row (db_invoices w) i = Some invoice" using at by (rule only_rowD)
  have uq': "unique_hash (put (db_invoices w) i (Some (invoice\<lparr>inv_status := ''paid''\<rparr>)))"
    by (rule unique_hash_kept [OF uq inv]) simp
  have pid: "pay_id r = k" by (rule ids_okD [OF ids k(2)])
  have "find_first_or_throw (prisma_payments P) (\<lambda>p. pay_id p = k) ?w = (Inr (confirmed_payment c r), ?w)"
    by (rule payment_by_id_run) (simp_all add: ids_ok_put [OF ids] pid row_put_same [OF k(2)])
  moreover have "invoice_by_uid P (pay_invoice_uid (confirmed_payment c r)) ?w = (Inr invoice, ?w)"
    using at by (intro invoice_by_uid_run) simp
  ultimately show ?thesis
    using new date
    by (simp add: confirmPayment_def bnd_run guard_io_run update_payments k inv id update_invoices uq'
        publish_raw_run ret_run v_def confirmation_writes_def split: prod.splits sum.splits)
qed

lemma createAndSendWebhook_rejected:
  "webhookSchemas topic = Some schema \<Longrightarrow> \<not> sch_accepts schema e \<Longrightarrow>
   createAndSendWebhook P topic e w = (Inl ZodError, w)"
  by (simp add: createAndSendWebhook_def schema_parse_def bnd_run lift_result_run)

lemma revertPayment_run:
  assumes inv: "only_row (\<lambda>v. inv_hash v = Some hash) (db_invoices w) i invoice" "inv_id invoice = i"
    and pay: "payment_with hash w k r" and ids: "ids_ok pay_id (db_payments w)"
    and uq: "unique_hash (db_invoices w)"
  shows "revertPayment P hash w = (Inr (invoice, r\<lparr>pay_status := Some ''failed''\<rparr>), w\<lparr>
     db_invoices := put (db_invoices w) i (Some (reverted_invoice invoice)),
     db_payments := put (db_payments w) k (Some (r\<lparr>pay_status := Some ''failed''\<rparr>)),
     published := published w @
       [(''payment.reverted'', RevertedMsg (r\<lparr>pay_status := Some ''failed''\<rparr>) invoice)]\<rparr>)"
proof -
  let ?v = "w\<lparr>db_invoices := put (db_invoices w) i (Some (reverted_invoice invoice))\<rparr>"
  let ?u = "?v\<lparr>db_payments := put (db_payments w) k (Some (r\<lparr>pay_status := Some ''failed''\<rparr>))\<rparr>"
  have row_i: "row (db_invoices w) i = Some invoice" and row_k: "row (db_payments w) k = Some r"
    using inv(1) pay by (simp_all add: only_row_def)
  have pid: "pay_id r = k" by (rule ids_okD [OF ids row_k])
  have uq': "unique_hash (put (db_invoices w) i (Some (reverted_invoice invoice)))"
    by (rule unique_hash_kept [OF uq row_i]) (simp add: reverted_invoice_def)
  have "find_first_or_throw (prisma_invoices P) (\<lambda>v. inv_hash v = Some hash) w = (Inr invoice, w)"
    using inv by (simp add: io_simps prisma_invoices_def ti.first_only)
  moreover have "find_first_or_throw (prisma_payments P) (\<lambda>p. pay_id p = k) ?u =
      (Inr (r\<lparr>pay_status := Some ''failed''\<rparr>), ?u)"
    by (rule payment_by_id_run) (simp_all add: ids_ok_put [OF ids] pid row_put_same [OF row_k])
  ultimately show ?thesis
    using payment_by_txid_run [OF pay]
    by (simp add: revertPayment_def bnd_run update_invoices update_payments row_i row_k inv(2) uq' pid
        publish_raw_run ret_run)
qed

end

lemma confirmPayment_outcome:
  assumes "prisma_client P" and "\<not> truthy (pay_confirmation_hash payment)"
    and c: "cf_hash c = Some h" "cf_height c = Some n" "cf_date c = Some d"
    and "row (db_payments w) (pay_id payment) = Some r" and "ids_ok pay_id (db_payments w)"
    and "invoice_at (pay_invoice_uid r) w i invoice" and "inv_id invoice = i" and "unique_hash (db_invoices w)"
    and "\<forall>x \<in> set (rows (db_app_webhooks w)). list_all is_digit (awh_app_id x)"
    and "\<forall>x \<in> set (rows (db_account_webhooks w)). list_all is_digit (acw_account_id x)"
  shows "if sublist ''paid'' (inv_status invoice)
    then \<exists>new. confirmPayment P payment c w =
      (Inr (confirmed_payment c r),
       with_hooks new (confirmation_writes (pay_id payment) i (confirmed_payment c r) invoice w))
    else confirmPayment P payment c w =
      (Inl ZodError, confirmation_writes (pay_id payment) i (confirmed_payment c r) invoice w)"
proof -
  let ?row = "confirmed_payment c r"
  let ?v = "confirmation_writes (pay_id payment) i ?row invoice w"
  have date: "cf_date c \<noteq> None" by (simp add: c)
  note run = prisma_client.confirmPayment_run
    [OF assms(1,2) date refl assms(6-10)]
  have acc: "sch_accepts PaymentConfirmedEvent (payment_confirmed_event ?row invoice c) \<longleftrightarrow>
      sublist ''paid'' (inv_status invoice)"
    by (rule payment_confirmed_accepted [OF _ c(1,2)]) simp
  show ?thesis
  proof (cases "sublist ''paid'' (inv_status invoice)")
    case True
    have "\<exists>new. createAndSendWebhook P ''payment.confirmed''
        (payment_confirmed_event ?row invoice c) ?v = (Inr (), with_hooks new ?v)"
      using prisma_client.createAndSendWebhook_run
        [OF assms(1) webhookSchemas_simps(5) iffD2 [OF acc True], of ?v] assms(11,12)
      by (auto simp: confirmation_writes_def Let_def)
    with True show ?thesis by (auto simp: run)
  next
    case False
    with acc show ?thesis
      by (simp add: run prisma_client.createAndSendWebhook_rejected [OF assms(1) webhookSchemas_simps(5)])
  qed
qed

section \<open>Properties\<close>

text \<open>
  C9. \<open>confirmPayment\<close> (src/src/lib/confirmations.ts) of a stored payment that carries no
  confirmation yet: the payment row gets the block and the status confirmed, its invoice
  becomes paid, \<open>payment.confirmed\<close> is published. Whether the call then returns depends on
  the status the invoice had before, which is the one put in the webhook's payload: if it
  contains \<open>paid\<close> the webhooks are created and the payment is returned; otherwise, as for
  an invoice that was confirming, the payload fails its schema and the call throws, with
  all of those writes kept and no webhook.
\<close>

theorem confirmPayment_effect:
  assumes "prisma_client P" and "\<not> truthy (pay_confirmation_hash payment)"
    and c: "cf_hash c = Some h" "cf_height c = Some n" "cf_date c = Some d"
    and "row (db_payments w) (pay_id payment) = Some r" and "ids_ok pay_id (db_payments w)"
    and "invoice_at (pay_invoice_uid r) w i invoice" and "inv_id invoice = i" and "unique_hash (db_invoices w)"
    and "\<forall>x \<in> set (rows (db_app_webhooks w)). list_all is_digit (awh_app_id x)"
    and "\<forall>x \<in> set (rows (db_account_webhooks w)). list_all is_digit (acw_account_id x)"
  shows "let row' = r\<lparr>pay_confirmation_hash := Some h, pay_confirmation_height := Some n,
        pay_confirmation_date := Some d, pay_status := Some ''confirmed''\<rparr>;
      v = w\<lparr>db_payments := put (db_payments w) (pay_id payment) (Some row'),
        db_invoices := put (db_invoices w) i (Some (invoice\<lparr>inv_status := ''paid''\<rparr>)),
        published := published w @ [(''payment.confirmed'', PaymentMsg row')]\<rparr> in
    if sublist ''paid'' (inv_status invoice)
    then \<exists>new. confirmPayment P payment c w = (Inr row', with_hooks new v)
    else confirmPayment P payment c w = (Inl ZodError, v)"
proof -
  have "confirmed_payment c r = r\<lparr>pay_confirmation_hash := Some h, pay_confirmation_height := Some n,
      pay_confirmation_date := Some d, pay_status := Some ''confirmed''\<rparr>"
    by (simp add: confirmed_payment_def c set_if_def)
  with confirmPayment_outcome [OF assms] show ?thesis
    by (simp only: Let_def confirmation_writes_def)
qed

text \<open>
  A payment is confirmed once: after \<open>confirmPaymentByTxid\<close>
  (src/src/lib/confirmations.ts) has run for the id of a stored payment, whether it returned
  or threw, a second run with any other confirmation returns the payment with the first
  block and changes nothing.
\<close>

theorem confirmed_once:
  assumes "prisma_client P" and "payment_with hash w k r" and "pay_id r = k"
    and "\<not> truthy (pay_confirmation_hash r)" and "h \<noteq> []"
    and c: "cf_hash c = Some h" "cf_height c = Some n" "cf_date c = Some d"
    and "ids_ok pay_id (db_payments w)"
    and "invoice_at (pay_invoice_uid r) w i invoice" and "inv_id invoice = i" and "unique_hash (db_invoices w)"
    and "\<forall>x \<in> set (rows (db_app_webhooks w)). list_all is_digit (awh_app_id x)"
    and "\<forall>x \<in> set (rows (db_account_webhooks w)). list_all is_digit (acw_account_id x)"
  shows "let w' = snd (confirmPaymentByTxid P hash c w) in
    confirmPaymentByTxid P hash c' w' = (Inr (r\<lparr>pay_confirmation_hash := Some h,
      pay_confirmation_height := Some n, pay_confirmation_date := Some d,
      pay_status := Some ''confirmed''\<rparr>), w')"
proof -
  let ?row = "confirmed_payment c r"
  let ?v = "confirmation_writes k i ?row invoice w"
  have row: "?row = r\<lparr>pay_confirmation_hash := Some h, pay_confirmation_height := Some n,
      pay_confirmation_date := Some d, pay_status := Some ''confirmed''\<rparr>"
    by (simp add: confirmed_payment_def c set_if_def)
  have k: "row (db_payments w) (pay_id r) = Some r" using assms(2,3) by (simp add: only_row_def)
  obtain new where w': "snd (confirmPayment P r c w) = with_hooks new ?v"
    using confirmPayment_outcome [OF assms(1,4) c k assms(9-14)] assms(3)
    by (cases "sublist ''paid'' (inv_status invoice)") (auto, metis with_hooks_Nil)
  have found: "payment_with hash (with_hooks new ?v) k ?row"
    using only_row_put [OF assms(2), of ?row] only_rowD(2) [OF assms(2)]
    by (simp add: with_hooks_def confirmation_writes_def)
  have "confirmPaymentByTxid P hash c w = confirmPayment P r c w"
    by (simp add: confirmPaymentByTxid_def bnd_run prisma_client.payment_by_txid_run [OF assms(1,2)])
  moreover have "confirmPaymentByTxid P hash c' (with_hooks new ?v) = (Inr ?row, with_hooks new ?v)"
    using assms(5) c
    by (simp add: confirmPaymentByTxid_def bnd_run prisma_client.payment_by_txid_run [OF assms(1) found]
        confirmPayment_def ret_run)
  ultimately show ?thesis by (simp add: Let_def w' row)
qed

text \<open>
  \<open>revertPayment\<close> (src/src/lib/confirmations.ts) of a transaction id: the invoice that
  carries the id becomes unpaid and gives the id up, so that it can be paid again, the
  payment with that id becomes failed, one message goes out. The invoice keeps every other
  column: it stays complete, with the time it was paid at.
\<close>

theorem revertPayment_effect:
  assumes "prisma_client P"
    and "only_row (\<lambda>v. inv_hash v = Some hash) (db_invoices w) i invoice" and "inv_id invoice = i"
    and "payment_with hash w k r" and "ids_ok pay_id (db_payments w)" and "unique_hash (db_invoices w)"
  shows "revertPayment P hash w = (Inr (invoice, r\<lparr>pay_status := Some ''failed''\<rparr>), w\<lparr>
     db_invoices := put (db_invoices w) i (Some (invoice\<lparr>inv_status := ''unpaid'', inv_hash := None\<rparr>)),
     db_payments := put (db_payments w) k (Some (r\<lparr>pay_status := Some ''failed''\<rparr>)),
     published := published w @
       [(''payment.reverted'', RevertedMsg (r\<lparr>pay_status := Some ''failed''\<rparr>) invoice)]\<rparr>)"
  using prisma_client.revertPayment_run [OF assms] by (simp only: reverted_invoice_def)

section \<open>Witnesses\<close>

definition confirming_world :: world where
  "confirming_world = demo_world\<lparr>
     db_invoices := [Some (demo_invoice\<lparr>inv_status := ''confirming'', inv_hash := Some ''tx1''\<rparr>)],
     db_payments := [Some demo_payment]\<rparr>"

definition demo_confirmation :: confirmation where
  "demo_confirmation = \<lparr>cf_hash = Some ''block'', cf_height = Some 7, cf_date = Some 1000, cf_confirmations = None\<rparr>"

lemma only_row_single: "only_row p [Some r] 1 r \<longleftrightarrow> p r"
  by (auto simp: only_row_def row_def)

lemma confirming_facts:
  "row (db_payments confirming_world) (pay_id demo_payment) = Some demo_payment"
  "ids_ok pay_id (db_payments confirming_world)"
  "invoice_at (pay_invoice_uid demo_payment) confirming_world 1
     (demo_invoice\<lparr>inv_status := ''confirming'', inv_hash := Some ''tx1''\<rparr>)"
  "inv_id (demo_invoice\<lparr>inv_status := ''confirming'', inv_hash := Some ''tx1''\<rparr>) = 1"
  "unique_hash (db_invoices confirming_world)"
  "\<forall>x \<in> set (rows (db_app_webhooks confirming_world)). list_all is_digit (awh_app_id x)"
  "\<forall>x \<in> set (rows (db_account_webhooks confirming_world)). list_all is_digit (acw_account_id x)"
  "payment_with ''tx1'' confirming_world 1 demo_payment" "pay_id demo_payment = 1"
  "\<not> truthy (pay_confirmation_hash demo_payment)"
  by (simp_all add: confirming_world_def demo_worlds demo_rows row_def ids_ok_def only_row_single
      unique_hash_def unique_on_def List.map_filter_def del: One_nat_def)

lemma demo_confirmation_fields [simp]:
  "cf_hash demo_confirmation = Some ''block''" "cf_height demo_confirmation = Some 7"
  "cf_date demo_confirmation = Some 1000"
  by (simp_all add: demo_confirmation_def)

theorem confirmPayment_effect_witness:
  "fst (confirmPayment pg demo_payment demo_confirmation confirming_world) = Inl ZodError"
  using confirmPayment_effect [OF prisma_client_pg confirming_facts(10) demo_confirmation_fields confirming_facts(1-7)]
  by (simp add: Let_def sublist_code)

theorem confirmed_once_witness:
  "let w' = snd (confirmPaymentByTxid pg ''tx1'' demo_confirmation confirming_world) in
     pay_confirmation_hash (projr (fst (confirmPaymentByTxid pg ''tx1''
       (demo_confirmation\<lparr>cf_hash := Some ''fork''\<rparr>) w'))) = Some ''block''"
  using confirmed_once [OF prisma_client_pg confirming_facts(8-10) _ demo_confirmation_fields confirming_facts(2-7),
      of "demo_confirmation\<lparr>cf_hash := Some ''fork''\<rparr>"]
  by (simp add: Let_def)

theorem revertPayment_effect_witness:
  "fst (revertPayment pg ''tx1'' confirming_world) =
     Inr (demo_invoice\<lparr>inv_status := ''confirming'', inv_hash := Some ''tx1''\<rparr>,
          demo_payment\<lparr>pay_status := Some ''failed''\<rparr>)"
proof -
  have "only_row (\<lambda>v. inv_hash v = Some ''tx1'') (db_invoices confirming_world) 1
      (demo_invoice\<lparr>inv_status := ''confirming'', inv_hash := Some ''tx1''\<rparr>)"
    by (simp add: confirming_world_def only_row_single del: One_nat_def)
  then show ?thesis
    by (simp add: revertPayment_effect [OF prisma_client_pg _ confirming_facts(4,8,2,5)])
qed

end
