(* ===== verification/PluginFacts.thy ===== *)
theory PluginFacts
  imports Plugins
begin

text \<open>
  What the plugins guarantee: exact characterisations of payment verification on every
  chain, the bounds of amount conversion, and the registry's consistency.
\<close>

section \<open>The registry\<close>

lemmas evm_plugins = AVAX_def ETH_def MATIC_def
lemmas erc20_plugins = USDC_AVAX_def USDC_MATIC_def USDC_ETH_def USDT_AVAX_def USDT_MATIC_def USDT_ETH_def
lemmas utxo_plugins = BTC_def BSV_def BCH_def DASH_def LTC_def DOGE_def FB_def
lemmas other_plugins = SOL_def USDC_SOL_def USDT_SOL_def Solana_token_def SolanaPlugin_def XRP_def XLM_def XMR_def
lemmas class_defs = Plugin_def UTXO_Plugin_def EVM_def ERC20_def

lemma find_plugin_simps [simp]:
  "find_plugin E ''BTC'' ''BTC'' = Inr (BTC E)" "find_plugin E ''BSV'' ''BSV'' = Inr (BSV E)"
  "find_plugin E ''BCH'' ''BCH'' = Inr (BCH E)" "find_plugin E ''DASH'' ''DASH'' = Inr (DASH E)"
  "find_plugin E ''LTC'' ''LTC'' = Inr (LTC E)" "find_plugin E ''DOGE'' ''DOGE'' = Inr (DOGE E)"
  "find_plugin E ''FB'' ''FB'' = Inr (FB E)" "find_plugin E ''ETH'' ''ETH'' = Inr (ETH E)"
  "find_plugin E ''AVAX'' ''AVAX'' = Inr (AVAX E)" "find_plugin E ''MATIC'' ''MATIC'' = Inr (MATIC E)"
  "find_plugin E ''SOL'' ''SOL'' = Inr (SOL E)" "find_plugin E ''XRP'' ''XRP'' = Inr (XRP E)"
  "find_plugin E ''USDC'' ''ETH'' = Inr (USDC_ETH E)" "find_plugin E ''USDC'' ''AVAX'' = Inr (USDC_AVAX E)"
  "find_plugin E ''USDC'' ''MATIC'' = Inr (USDC_MATIC E)" "find_plugin E ''USDT'' ''ETH'' = Inr (USDT_ETH E)"
  "find_plugin E ''USDT'' ''AVAX'' = Inr (USDT_AVAX E)" "find_plugin E ''USDT'' ''MATIC'' = Inr (USDT_MATIC E)"
  "find_plugin E ''USDC'' ''SOL'' = Inr (USDC_SOL E)" "find_plugin E ''USDT'' ''SOL'' = Inr (USDT_SOL E)"
  "find_plugin E ''XMR'' ''XMR'' = Inr (XMR E)" "find_plugin E ''XLM'' ''XLM'' = Inr (XLM E)"
  by (simp_all add: find_plugin_def plugin_key_def plugins_def)

lemma takeWhile_before: "x \<notin> set c \<Longrightarrow> takeWhile (\<lambda>y. y \<noteq> x) (c @ x # d) = c"
  by (induction c) auto

lemma split_at_dot:
  assumes "c @ CHR ''.'' # d = a @ CHR ''.'' # b" and "CHR ''.'' \<notin> set a" and "CHR ''.'' \<notin> set b"
  shows "c = a \<and> d = b"
proof -
  have "count_list (c @ CHR ''.'' # d) (CHR ''.'') = Suc 0"
    using assms by (simp add: count_list_append)
  then have "CHR ''.'' \<notin> set c" by (simp add: count_list_append count_list_0_iff)
  with assms(1,2) have "c = a" by (metis takeWhile_before)
  with assms(1) show ?thesis by simp
qed

lemma plugin_key_cases:
  assumes "plugin_key c ch = plugin_key a b" and "CHR ''.'' \<notin> set a" and "CHR ''.'' \<notin> set b"
  shows "c = a \<and> ch = b \<or> a \<noteq> b \<and> c = ch \<and> c = a @ ''.'' @ b"
proof (cases "ch = c")
  case True
  with assms show ?thesis by (auto simp: plugin_key_def split: if_splits)
next
  case False
  show ?thesis
  proof (cases "b = a")
    case True
    with False assms show ?thesis by (auto simp: plugin_key_def)
  next
    case False2: False
    with False assms(1) have "c @ CHR ''.'' # ch = a @ CHR ''.'' # b" by (simp add: plugin_key_def)
    with assms split_at_dot show ?thesis by blast
  qed
qed

lemma plugins_keyed:
  "\<forall>(k, p) \<in> set (plugins E). k = plugin_key (plg_currency p) (plg_chain p) \<and>
     CHR ''.'' \<notin> set (plg_currency p) \<and> CHR ''.'' \<notin> set (plg_chain p)"
  by (simp add: plugins_def plugin_key_def utxo_plugins evm_plugins erc20_plugins other_plugins class_defs)

lemma plugins_distinct: "distinct (map fst (plugins E))"
  by (simp add: plugins_def)

lemma find_plugin_iff:
  "find_plugin E currency chain = Inr p \<longleftrightarrow> (plugin_key currency chain, p) \<in> set (plugins E)"
  using plugins_distinct [of E]
  by (auto simp: find_plugin_def split: option.splits dest: map_of_SomeD eq_key_imp_eq_value)

text \<open>
  \<open>find\<close> (src/src/lib/plugins.ts) returns the plugin of exactly the currency and chain it
  was asked for, with one alias: the registry's key of a token, \<open>USDC.ETH\<close>, given as both
  currency and chain finds the token's plugin too. It finds something for every pair the
  registry's plugins declare, and throws for anything else.
\<close>

theorem find_returns_the_pair_asked_for:
  "(\<forall>plugin. find_plugin E currency chain = Inr plugin \<longrightarrow>
      plg_currency plugin = currency \<and> plg_chain plugin = chain \<or>
      chain = currency \<and> currency = plg_currency plugin @ ''.'' @ plg_chain plugin) \<and>
   (\<forall>(k, plugin) \<in> set (plugins E).
      find_plugin E (plg_currency plugin) (plg_chain plugin) = Inr plugin)"
proof (intro conjI allI impI)
  fix plugin assume "find_plugin E currency chain = Inr plugin"
  then have "(plugin_key currency chain, plugin) \<in> set (plugins E)" by (simp only: find_plugin_iff)
  with plugins_keyed [of E]
  have "plugin_key currency chain = plugin_key (plg_currency plugin) (plg_chain plugin)"
    and "CHR ''.'' \<notin> set (plg_currency plugin)" and "CHR ''.'' \<notin> set (plg_chain plugin)" by auto
  then show "plg_currency plugin = currency \<and> plg_chain plugin = chain \<or>
      chain = currency \<and> currency = plg_currency plugin @ ''.'' @ plg_chain plugin"
    using plugin_key_cases by blast
next
  show "\<forall>(k, plugin) \<in> set (plugins E).
      find_plugin E (plg_currency plugin) (plg_chain plugin) = Inr plugin"
    using plugins_keyed [of E] by (auto simp: find_plugin_iff)
qed

theorem find_returns_the_pair_asked_for_witness:
  "find_plugin demo_ext ''USDC'' ''ETH'' = Inr (USDC_ETH demo_ext) \<and>
   plg_chain (USDC_ETH demo_ext) = ''ETH''"
proof -
  have f: "find_plugin demo_ext ''USDC'' ''ETH'' = Inr (USDC_ETH demo_ext)"
    by (simp add: find_plugin_def plugin_key_def plugins_def)
  with find_returns_the_pair_asked_for [of demo_ext "''USDC''" "''ETH''"] show ?thesis by auto
qed

section \<open>Verification on the UTXO chains\<close>

text \<open>A transaction pays an amount to an address when one of its outputs does.\<close>

definition pays :: "(string \<Rightarrow> js_error + string) \<Rightarrow> utxo_tx \<Rightarrow> string \<Rightarrow> num \<Rightarrow> bool" where
  "pays addr tx a v \<longleftrightarrow> (\<exists>script. (script, v) \<in> set (utx_outputs tx) \<and> addr script = Inr a)"

lemma pays_decoded: "pays addr tx a v \<longleftrightarrow> (a, v) \<in> set (decode_outputs addr (utx_outputs tx))"
  by (simp add: pays_def decode_outputs_iff)

lemma base_verification:
  "Plugin_validateUnsignedTx E bc po [t] w = (Inr b, w') \<longleftrightarrow>
     b \<and> w' = w \<and> (\<exists>tx outs. bc_tx bc (tx_hex t) = Inr tx \<and> jsonV2_buildOutputs E po = Inr outs \<and>
       (\<forall>out \<in> set outs. \<exists>a. target_address (bc_address bc) out = Inr (Some a) \<and>
          pays (stripped (bc_address bc)) tx a (out_amount out)))"
  unfolding Plugin_validateUnsignedTx_run
  by (auto simp: pays_decoded verify_outputs_iff split: sum.splits)

lemma bch_is_base: "BCH_validateUnsignedTx = Plugin_validateUnsignedTx"
  by (simp add: fun_eq_iff BCH_validateUnsignedTx_def Plugin_validateUnsignedTx_def)

lemma address_amounts_parsed: "address_amounts (parsed_of c ch h os) = os"
  by (induction os) (auto simp: address_amounts_def parsed_of_def)

lemma btc_verification:
  "BTC_validateUnsignedTx E c ch po [t] w = (Inr b, w') \<longleftrightarrow>
     b \<and> w' = w \<and> (\<exists>tx outs. btcjs_tx E (tx_hex t) = Inr tx \<and> jsonV2_buildOutputs E po = Inr outs \<and>
       (\<forall>out \<in> set outs. \<exists>a. BTC_target E out = Inr (Some a) \<and>
          pays (output_address E) tx a (out_amount out)))"
  by (auto simp: BTC_validateUnsignedTx_def BTC_parsePayments_def address_amounts_parsed io_simps
      pays_decoded verify_outputs_iff split: sum.splits)

lemma utxo_verify_is_base:
  assumes "currency \<in> {''BCH'', ''BSV'', ''DASH'', ''LTC'', ''DOGE''}"
    and "find_plugin E currency currency = Inr plugin"
  shows "plg_verifyPayment plugin po t = Plugin_validateUnsignedTx E (plg_bitcore plugin) po [t]"
proof -
  have "plugin \<in> {BCH E, BSV E, DASH E, LTC E, DOGE E}" using assms by auto
  then show ?thesis by (auto simp: utxo_plugins class_defs Plugin_verifyPayment_def bch_is_base)
qed

text \<open>
  C5. On BCH, BSV, DASH, LTC and DOGE, \<open>verifyPayment\<close> accepts a transaction exactly when the
  chain's library can decode it and every expected output, at the address it names or its
  script gives, is paid by one of the transaction's outputs with exactly that amount. It
  never answers false (a missing output is an exception) and changes nothing.
\<close>

theorem utxo_verification_exact:
  assumes "currency \<in> {''BCH'', ''BSV'', ''DASH'', ''LTC'', ''DOGE''}"
    and "find_plugin E currency currency = Inr plugin"
  shows "plg_verifyPayment plugin po t w = (Inr verified, w') \<longleftrightarrow>
     verified \<and> w' = w \<and>
     (\<exists>tx outs. bc_tx (plg_bitcore plugin) (tx_hex t) = Inr tx \<and> jsonV2_buildOutputs E po = Inr outs \<and>
       (\<forall>out \<in> set outs. \<exists>a. target_address (bc_address (plg_bitcore plugin)) out = Inr (Some a) \<and>
          pays (stripped (bc_address (plg_bitcore plugin))) tx a (out_amount out)))"
  unfolding utxo_verify_is_base [OF assms] by (rule base_verification)

text \<open>
  On BTC and FB the same holds with addresses read by tapscript and bitcoinjs, in
  \<open>verifyPayment\<close> and in \<open>validateUnsignedTx\<close> alike; an expected address is compared as it
  stands, without dropping a URI scheme.
\<close>

theorem btc_verification_exact:
  assumes "currency \<in> {''BTC'', ''FB''}" and "find_plugin E currency currency = Inr plugin"
  shows "plg_verifyPayment plugin po t w = plg_validateUnsignedTx plugin po [t] w \<and>
    (plg_verifyPayment plugin po t w = (Inr verified, w') \<longleftrightarrow>
     verified \<and> w' = w \<and>
     (\<exists>tx outs. btcjs_tx E (tx_hex t) = Inr tx \<and> jsonV2_buildOutputs E po = Inr outs \<and>
       (\<forall>out \<in> set outs. \<exists>a.
          (if truthy (out_script out) then btcjs_address E (the (out_script out)) = Inr a
           else out_address out = Some a) \<and>
          pays (output_address E) tx a (out_amount out))))"
proof -
  have t: "BTC_target E out = Inr (Some a) \<longleftrightarrow>
      (if truthy (out_script out) then btcjs_address E (the (out_script out)) = Inr a
       else out_address out = Some a)" for out a
    by (auto simp: BTC_target_def split: sum.splits)
  have "plg_verifyPayment plugin po t = BTC_validateUnsignedTx E currency currency po [t] \<and>
      plg_validateUnsignedTx plugin po [t] = BTC_validateUnsignedTx E currency currency po [t]"
  proof -
    have "plugin = BTC E \<and> currency = ''BTC'' \<or> plugin = FB E \<and> currency = ''FB''" using assms by auto
    then show ?thesis by (auto simp: utxo_plugins class_defs Plugin_verifyPayment_def)
  qed
  then show ?thesis by (simp only: btc_verification t)
qed

text \<open>
  Verification looks for each expected output separately, so one output of the
  transaction can stand for several expected ones: asking twice for the same address and
  amount asks for nothing more than asking once.
\<close>

theorem repeated_output_not_counted:
  assumes "out \<in> set outs" and "po_outputs po = Some outs"
  shows "Plugin_validateUnsignedTx E bitcore (po\<lparr>po_outputs := Some (outs @ [out])\<rparr>) [t] w = (Inr verified, w') \<longleftrightarrow>
    Plugin_validateUnsignedTx E bitcore po [t] w = (Inr verified, w')"
  using assms by (auto simp: base_verification jsonV2_buildOutputs_def)

section \<open>Verification on the account chains\<close>

lemma to_lower_char_idem: "to_lower_char (to_lower_char c) = to_lower_char c"
proof (cases "65 \<le> (of_char c :: nat) \<and> (of_char c :: nat) \<le> 90")
  case True
  then have "(of_char (char_of (of_char c + 32 :: nat)) :: nat) = of_char c + 32" by simp
  with True show ?thesis by simp
next
  case False
  then show ?thesis by auto
qed

lemma to_lower_idem [simp]: "to_lower (to_lower s) = to_lower s"
  by (simp add: to_lower_def to_lower_char_idem del: to_lower_char.simps)

lemma lower_undefined_idem [simp]: "to_lower (lower_or_undefined x) = lower_or_undefined x"
  by (cases x) (simp_all add: lower_or_undefined_def, simp add: to_lower_def)

lemma first_output_iff: "first_output po = Inr (Some out) \<longleftrightarrow> (\<exists>outs. po_outputs po = Some (out # outs))"
  by (auto simp: first_output_def split: option.splits list.splits)

lemma evm_verification:
  assumes "currency \<in> {''ETH'', ''AVAX'', ''MATIC''}" and "find_plugin E currency currency = Inr plugin"
  shows "plg_verifyPayment plugin po t w = (Inr verified, w') \<longleftrightarrow>
    w' = w \<and>
    (\<exists>tx out outs a. ethers_tx E (tx_hex t) = Inr tx \<and> po_outputs po = Some (out # outs) \<and>
       out_address out = Some a \<and>
       verified = (lower_or_undefined (etx_to tx) = to_lower a \<and>
         out_amount out = of_nat (js_parseInt (double_of_nat (etx_value tx)))))"
proof -
  have "plugin \<in> {ETH E, AVAX E, MATIC E}" using assms by auto
  then have v: "plg_verifyPayment plugin = EVM_verifyPayment (EVM_parsePayments E currency currency)"
    using assms by (auto simp: evm_plugins class_defs)
  show ?thesis unfolding v
    by (auto simp: EVM_verifyPayment_def EVM_parsePayments_def first_output_def int_matches_def io_simps
        split: sum.splits option.splits list.splits)
qed

text \<open>
  C20. On ETH, AVAX and MATIC, \<open>verifyPayment\<close> answers when the signed transaction decodes and
  there is an expected output with an address, and then says whether the transaction sends
  to that address and its value, read as a double, is the expected amount. Only the first
  expected output is looked at.
\<close>

theorem evm_verification_exact:
  assumes "currency \<in> {''ETH'', ''AVAX'', ''MATIC''}" and "find_plugin E currency currency = Inr plugin"
  shows "plg_verifyPayment plugin po t w = (Inr verified, w') \<longleftrightarrow>
    w' = w \<and>
    (\<exists>tx out outs a. ethers_tx E (tx_hex t) = Inr tx \<and> po_outputs po = Some (out # outs) \<and>
       out_address out = Some a \<and>
       verified = (lower_or_undefined (etx_to tx) = to_lower a \<and>
         out_amount out = of_nat (js_parseInt (double_of_nat (etx_value tx)))))"
  using assms by (rule evm_verification)

text \<open>
  A native EVM payment that verifies carries the expected amount up to rounding: the
  amount in wei is at least the expected amount less 65536, for every value whatever its
  size.
\<close>

theorem evm_payment_not_short:
  assumes "currency \<in> {''ETH'', ''AVAX'', ''MATIC''}" and "find_plugin E currency currency = Inr plugin"
    and "plg_verifyPayment plugin po t w = (Inr True, w')"
  shows "\<exists>tx out outs. ethers_tx E (tx_hex t) = Inr tx \<and> po_outputs po = Some (out # outs) \<and>
    out_amount out \<le> of_nat (etx_value tx) + 65536"
proof -
  obtain tx out outs
    where tx: "ethers_tx E (tx_hex t) = Inr tx" "po_outputs po = Some (out # outs)"
      "out_amount out = of_nat (js_parseInt (double_of_nat (etx_value tx)))"
    using iffD1 [OF evm_verification [OF assms(1,2)] assms(3)] by auto
  have "of_nat (js_parseInt (double_of_nat (etx_value tx))) \<le> (of_nat (etx_value tx + 65536) :: rat)"
    by (rule of_nat_mono [OF parse_double_le])
  then have "out_amount out \<le> of_nat (etx_value tx) + 65536" unfolding tx(3) of_nat_add by simp
  with tx(1,2) show ?thesis by blast
qed

definition erc20_keys :: "(string \<times> string) set" where
  "erc20_keys = {(''USDC'', ''ETH''), (''USDC'', ''AVAX''), (''USDC'', ''MATIC''),
     (''USDT'', ''ETH''), (''USDT'', ''AVAX''), (''USDT'', ''MATIC'')}"

lemma erc20_verify:
  assumes "(currency, chain) \<in> erc20_keys" and "find_plugin E currency chain = Inr plugin"
  obtains token where "plg_token plugin = Some token" "plg_verifyPayment plugin = ERC20_verifyPayment E token"
proof -
  have "plugin \<in> {USDC_ETH E, USDC_AVAX E, USDC_MATIC E, USDT_ETH E, USDT_AVAX E, USDT_MATIC E}"
    using assms by (auto simp: erc20_keys_def)
  then show ?thesis by (auto simp: erc20_plugins class_defs intro: that)
qed


text \<open>
  On XRP, \<open>verifyPayment\<close> accepts exactly the transactions that decode as a \<open>Payment\<close>
  whose destination and amount are those of the first expected output. Nothing else of the
  transaction is read, its flags included, so a partial payment, which may deliver less than
  its \<open>Amount\<close>, is accepted like any other.
\<close>

theorem xrp_verification_exact:
  "plg_verifyPayment (XRP E) po t w = (Inr True, w') \<longleftrightarrow>
    w' = w \<and> tx_hex t \<noteq> [] \<and>
    (\<exists>d out outs. xrpl_decode E (tx_hex t) = Inr d \<and> po_outputs po = Some (out # outs) \<and>
       xtx_type d = ''Payment'' \<and> out_address out = Some (xtx_destination d) \<and>
       xtx_amount d = Some (out_amount out))"
  by (auto simp: other_plugins class_defs XRP_verifyPayment_def XRP_parsePayments_def first_output_def
      io_simps split: sum.splits option.splits list.splits if_splits)

text \<open>
  Two chains do not check the payment at all: SOL accepts every transaction the Solana
  library can decode, and XMR accepts everything, whatever the expected outputs are. XLM
  accepts nothing.
\<close>

theorem unchecked_chains:
  "(plg_verifyPayment (SOL E) po t w = (Inr verified, w') \<longleftrightarrow>
      verified \<and> w' = w \<and> solana_tx E (tx_hex t) = Inr ()) \<and>
   plg_verifyPayment (XMR E) po t w = (Inr True, w) \<and>
   plg_verifyPayment (XLM E) po t w = (Inr False, w)"
  by (auto simp: other_plugins class_defs SOL_verifyPayment_def validateTransaction_def XMR_verifyPayment_def
      io_simps split: sum.splits)

section \<open>Broadcasting\<close>

text \<open>
  \<open>FB.broadcastTx\<close> never fails: when its one provider does, the caller gets a result
  with an empty transaction id and \<open>success\<close> false.
\<close>

theorem fb_broadcast_never_fails:
  assumes "good_ext E"
  shows "plg_broadcastTx (FB E) t w =
    (Inr (case provider E (ticks w) ''mempool.fractalbitcoin.io'' ''FB'' (tx_hex t) of
        Inl _ \<Rightarrow> \<lparr>br_txid = [], br_success = False\<rparr> | Inr result \<Rightarrow> result),
     w\<lparr>ticks := Suc (ticks w), broadcasts := broadcasts w @ [(''FB'', tx_hex t)]\<rparr>)"
proof -
  have os: "one_success_lib (one_success E)" using assms by (simp add: good_ext_def)
  show ?thesis
    by (simp add: utxo_plugins class_defs FB_broadcastTx_def FB_provider_def io_simps
        one_success_lib.single [OF os] split: sum.split)
qed

text \<open>
  An EVM broadcast whose hex is 66 characters long sends nothing: it is taken for a
  transaction id, and a poll for its receipt is started. Any other hex is sent; when the node
  takes it the caller gets its id, and when the node refuses it the call never returns.
\<close>

theorem evm_broadcast_cases:
  assumes "currency \<in> {''ETH'', ''AVAX'', ''MATIC''}" and "find_plugin E currency currency = Inr plugin"
  shows "\<exists>url. plg_broadcastTx plugin t w =
    (if length (tx_hex t) = 66
     then (Inr \<lparr>br_txid = tx_hex t, br_success = True\<rparr>, w\<lparr>jobs := jobs w @ [JPollReceipt url (tx_hex t)]\<rparr>)
     else (case provider E (ticks w) ''web3'' url (tx_hex t) of
         Inl _ \<Rightarrow> Inl NeverSettles | Inr result \<Rightarrow> Inr \<lparr>br_txid = br_txid result, br_success = True\<rparr>,
       w\<lparr>ticks := Suc (ticks w), broadcasts := broadcasts w @ [(currency, tx_hex t)]\<rparr>))"
proof -
  have "plugin \<in> {ETH E, AVAX E, MATIC E}" using assms by auto
  then obtain url where "plg_broadcastTx plugin = EVM_broadcastTx E url currency"
    using assms by (auto simp: evm_plugins class_defs)
  then have "plg_broadcastTx plugin t w =
    (if length (tx_hex t) = 66
     then (Inr \<lparr>br_txid = tx_hex t, br_success = True\<rparr>, w\<lparr>jobs := jobs w @ [JPollReceipt url (tx_hex t)]\<rparr>)
     else (case provider E (ticks w) ''web3'' url (tx_hex t) of
         Inl _ \<Rightarrow> Inl NeverSettles | Inr result \<Rightarrow> Inr \<lparr>br_txid = br_txid result, br_success = True\<rparr>,
       w\<lparr>ticks := Suc (ticks w), broadcasts := broadcasts w @ [(currency, tx_hex t)]\<rparr>))"
    by (simp add: EVM_broadcastTx_def io_simps split: sum.splits)
  then show ?thesis ..
qed

section \<open>Amounts\<close>

lemma plugin_amounts:
  assumes "find_plugin E currency chain = Inr plugin"
  shows "plg_decimals plugin \<le> 18 \<and> plg_fromSatoshis plugin = Plugin_fromSatoshis E (plg_decimals plugin) \<and>
    (plg_toSatoshis plugin = Plugin_toSatoshis E (plg_decimals plugin) \<or>
     plg_decimals plugin = 6 \<and> plg_toSatoshis plugin = XRP_toSatoshis E)"
proof -
  have "\<forall>(k, p) \<in> set (plugins E). plg_decimals p \<le> 18 \<and>
      plg_fromSatoshis p = Plugin_fromSatoshis E (plg_decimals p) \<and>
      (plg_toSatoshis p = Plugin_toSatoshis E (plg_decimals p) \<or>
       plg_decimals p = 6 \<and> plg_toSatoshis p = XRP_toSatoshis E)"
    by (simp add: plugins_def utxo_plugins evm_plugins erc20_plugins other_plugins class_defs)
  with assms show ?thesis unfolding find_plugin_iff by fastforce
qed

context bignumber
begin

text \<open>Rounding a number between two neighbouring integers gives one of them.\<close>

lemma toNumber_rounded:
  assumes "0 \<le> x" and "x \<le> 2 ^ 53 - 2"
  shows "\<lfloor>x\<rfloor> \<le> js_trunc (bn_toNumber B x)" "js_trunc (bn_toNumber B x) \<le> \<lceil>x\<rceil>"
    "\<lfloor>x\<rfloor> \<le> js_parseInt_toFixed0 (bn_toNumber B x)" "js_parseInt_toFixed0 (bn_toNumber B x) \<le> \<lceil>x\<rceil>"
proof -
  let ?y = "bn_toNumber B x"
  have y: "of_int \<lfloor>x\<rfloor> \<le> ?y" "?y \<le> of_int \<lceil>x\<rceil>" "0 \<le> ?y"
    using toNumber_between [of x] toNumber_nonneg [of x] assms by auto
  have "\<lceil>x\<rceil> \<le> 2 ^ 53 - 2" using assms(2) by (simp add: ceiling_le_iff)
  then have "of_int \<lceil>x\<rceil> \<le> (of_int (2 ^ 53 - 2) :: rat)" by (simp only: of_int_le_iff)
  with y(2) have "?y \<le> of_int (2 ^ 53 - 2)" by (rule order_trans)
  with y(3) have small: "\<bar>?y\<bar> < 10 ^ 21" by simp
  show "\<lfloor>x\<rfloor> \<le> js_trunc ?y" "js_trunc ?y \<le> \<lceil>x\<rceil>"
    using y by (simp_all add: js_trunc_def le_floor_iff) linarith
  have "\<lfloor>x\<rfloor> \<le> js_round_half_away ?y" "js_round_half_away ?y \<le> \<lceil>x\<rceil>"
    using y unfolding js_round_half_away_def by (simp_all, linarith+)
  then show "\<lfloor>x\<rfloor> \<le> js_parseInt_toFixed0 ?y" "js_parseInt_toFixed0 ?y \<le> \<lceil>x\<rceil>"
    using small by (simp_all add: js_parseInt_toFixed0_def Let_def)
qed

lemma toNumber_int_rounded:
  assumes "\<bar>k\<bar> < 2 ^ 53"
  shows "js_trunc (bn_toNumber B (of_int k)) = k" "js_parseInt_toFixed0 (bn_toNumber B (of_int k)) = k"
proof -
  have "\<bar>of_int k :: rat\<bar> < of_int (2 ^ 53)" using assms by (simp only: of_int_less_iff flip: of_int_abs)
  then have "\<bar>of_int k :: rat\<bar> < 10 ^ 21" by simp
  then show "js_trunc (bn_toNumber B (of_int k)) = k" "js_parseInt_toFixed0 (bn_toNumber B (of_int k)) = k"
    using toNumber_int [OF assms] by (simp_all add: js_parseInt_toFixed0_def Let_def)
qed

end

lemma toSatoshis_unfold:
  assumes "good_ext E" and "find_plugin E currency chain = Inr plugin"
  shows "\<exists>f. (f = js_trunc \<or> f = js_parseInt_toFixed0) \<and>
    plg_toSatoshis plugin dec = of_int (f (bn_toNumber (bn E) (dec * 10 ^ plg_decimals plugin)))"
proof -
  have "bignumber (bn E)" using assms(1) by (simp add: good_ext_def)
  then show ?thesis using plugin_amounts [OF assms(2)]
    by (auto simp: Plugin_toSatoshis_def XRP_toSatoshis_def bignumber.times_exact)
qed

text \<open>
  C22. \<open>toSatoshis\<close>, on every chain, gives the exact number of units for an amount that is a
  whole number of them and otherwise an integer less than one unit away, as long as the
  result is a safe integer.
\<close>

theorem toSatoshis_accuracy:
  assumes "good_ext E" and "find_plugin E currency chain = Inr plugin"
    and "0 \<le> dec" and "dec * 10 ^ plg_decimals plugin \<le> 2 ^ 53 - 2"
  shows "\<exists>n. toSatoshis E dec currency chain = Inr (of_int n) \<and>
    \<bar>of_int n - dec * 10 ^ plg_decimals plugin\<bar> < 1 \<and>
    (dec * 10 ^ plg_decimals plugin \<in> \<int> \<longrightarrow> of_int n = dec * 10 ^ plg_decimals plugin)"
proof -
  let ?x = "dec * 10 ^ plg_decimals plugin"
  have b: "bignumber (bn E)" using assms(1) by (simp add: good_ext_def)
  have x: "0 \<le> ?x" using assms(3) by simp
  obtain f where f: "f = js_trunc \<or> f = js_parseInt_toFixed0"
    and eq: "plg_toSatoshis plugin dec = of_int (f (bn_toNumber (bn E) ?x))"
    using toSatoshis_unfold [OF assms(1,2)] by blast
  let ?n = "f (bn_toNumber (bn E) ?x)"
  have n: "\<lfloor>?x\<rfloor> \<le> ?n \<and> ?n \<le> \<lceil>?x\<rceil>"
    using bignumber.toNumber_rounded [OF b x assms(4)] f by auto
  have int: "of_int ?n = ?x" if "?x \<in> \<int>"
  proof -
    from that obtain z where "?x = of_int z" by (rule Ints_cases)
    with n show ?thesis by simp
  qed
  have "of_int \<lfloor>?x\<rfloor> \<le> (of_int ?n :: rat) \<and> (of_int ?n :: rat) \<le> of_int \<lceil>?x\<rceil>" using n by simp
  moreover have "?x - 1 < of_int \<lfloor>?x\<rfloor>" "of_int \<lceil>?x\<rceil> < ?x + 1" by linarith+
  ultimately have "\<bar>of_int ?n - ?x\<bar> < 1" unfolding abs_less_iff by linarith
  then show ?thesis using int eq assms(2) by (auto simp: toSatoshis_def)
qed

text \<open>
  \<open>fromSatoshis\<close> followed by \<open>toSatoshis\<close> gives back the amount, on every chain, for any
  integer of up to 15 digits.
\<close>

theorem satoshis_roundtrip:
  assumes "good_ext E" and "find_plugin E currency chain = Inr plugin" and "\<bar>k\<bar> \<le> 10 ^ 15"
  shows "\<exists>dec. fromSatoshis E (of_int k) currency chain = Inr dec \<and>
    toSatoshis E dec currency chain = Inr (of_int k)"
proof -
  let ?d = "plg_decimals plugin"
  have b: "bignumber (bn E)" using assms(1) by (simp add: good_ext_def)
  note pa = plugin_amounts [OF assms(2)]
  then have d: "?d \<le> 20" by simp
  have "of_int k / 10 ^ ?d = (of_int (k * 10 ^ (20 - ?d)) / 10 ^ 20 :: rat)"
    using d by (simp add: field_simps flip: power_add)
  then have "bn_dividedBy (bn E) (of_int k) (10 ^ ?d) = of_int k / 10 ^ ?d"
    using bignumber.dividedBy_exact [OF b, of "10 ^ ?d" "of_int k" "k * 10 ^ (20 - ?d)"] by simp
  then have "plg_fromSatoshis plugin (of_int k) = of_int k / 10 ^ ?d"
    using pa bignumber.toNumber_short [OF b assms(3) d] by (simp add: Plugin_fromSatoshis_def)
  moreover have "\<bar>k\<bar> < 2 ^ 53" using assms(3) by simp
  then have "plg_toSatoshis plugin (of_int k / 10 ^ ?d) = of_int k"
    using toSatoshis_unfold [OF assms(1,2), of "of_int k / 10 ^ ?d"]
      bignumber.toNumber_int_rounded [OF b, of k] by auto
  ultimately show ?thesis using assms(2) by (simp add: fromSatoshis_def toSatoshis_def)
qed

section \<open>Witnesses\<close>

lemmas demo_eval = demo_ext_def demo_rows jsonV2_buildOutputs_def pays_def target_address_def stripped_def
  strip_scheme_def output_address_def getTaprootAddressFromOutput_def

theorem utxo_verification_exact_witness:
  "plg_verifyPayment (BCH demo_ext) demo_option demo_tx demo_world = (Inr True, demo_world)"
  by (rule iffD2 [OF utxo_verification_exact [of "''BCH''" demo_ext]])
    (simp_all add: demo_eval utxo_plugins class_defs)

theorem btc_verification_exact_witness:
  "plg_verifyPayment (BTC demo_ext) demo_option demo_tx demo_world = (Inr True, demo_world)"
  by (rule iffD2 [OF conjunct2 [OF btc_verification_exact [of "''BTC''" demo_ext]]])
    (simp_all add: demo_eval utxo_plugins class_defs)

theorem repeated_output_not_counted_witness:
  "\<exists>out outs. po_outputs demo_option = Some outs \<and> out \<in> set outs \<and>
    (Plugin_validateUnsignedTx demo_ext (bitcore_lib demo_ext []) (demo_option\<lparr>po_outputs := Some (outs @ [out])\<rparr>)
       [demo_tx] demo_world = (Inr True, demo_world) \<longleftrightarrow>
     Plugin_validateUnsignedTx demo_ext (bitcore_lib demo_ext []) demo_option [demo_tx] demo_world = (Inr True, demo_world))"
proof -
  have o: "po_outputs demo_option = Some [\<lparr>out_address = Some ''qaddr'', out_amount = 5000, out_script = None\<rparr>]"
    by (simp add: demo_option_def)
  show ?thesis
    by (rule exI, rule exI, rule conjI, rule o, rule conjI, rule list.set_intros(1),
        rule repeated_output_not_counted [OF _ o]) simp
qed

theorem evm_verification_exact_witness:
  "plg_verifyPayment (ETH demo_ext) demo_option demo_tx demo_world = (Inr True, demo_world)"
  by (rule iffD2 [OF evm_verification_exact [of "''ETH''" demo_ext]])
    (simp_all add: demo_eval lower_or_undefined_def)

theorem evm_payment_not_short_witness:
  "\<exists>tx out outs. ethers_tx demo_ext (tx_hex demo_tx) = Inr tx \<and>
    po_outputs demo_option = Some (out # outs) \<and> out_amount out \<le> of_nat (etx_value tx) + 65536"
proof (rule evm_payment_not_short [of "''ETH''" demo_ext "ETH demo_ext" demo_option demo_tx empty_world empty_world])
  show "plg_verifyPayment (ETH demo_ext) demo_option demo_tx empty_world = (Inr True, empty_world)"
    by (rule iffD2 [OF evm_verification [of "''ETH''" demo_ext]])
      (simp_all add: demo_eval lower_or_undefined_def)
qed simp_all

definition demo_call :: string where
  "demo_call = ''0xa9059cbb'' @ replicate 24 (CHR ''0'') @ replicate 40 (CHR ''a'') @ replicate 64 (CHR ''0'')"

definition demo_token_option :: payment_option where
  "demo_token_option = demo_option\<lparr>po_currency := ''USDC'', po_chain := ''ETH'',
     po_outputs := Some [\<lparr>out_address = Some (''0x'' @ replicate 40 (CHR ''a'')), out_amount = 5000, out_script = None\<rparr>]\<rparr>"

definition demo_token_ext :: ext where
  "demo_token_ext = demo_ext\<lparr>hex_to_dec := (\<lambda>_. Some 5000),
     ethers_tx := (\<lambda>h. Inr \<lparr>etx_to = Some ''0xa0b86991c6218b36c1d19d4a2e9eb0ce3606eb48'',
       etx_value = 0, etx_data = demo_call, etx_hash = Some h\<rparr>)\<rparr>"

lemma demo_call_transfer:
  "is_transfer demo_call" "transfer_address demo_call = ''0x'' @ replicate 40 (CHR ''a'')"
  by code_simp+


theorem fb_broadcast_never_fails_witness:
  "fst (plg_broadcastTx (FB (demo_ext\<lparr>provider := (\<lambda>_ _ _ _. Inl no_answer)\<rparr>)) demo_tx demo_world) =
    Inr \<lparr>br_txid = [], br_success = False\<rparr>"
proof -
  have "good_ext (demo_ext\<lparr>provider := (\<lambda>_ _ _ _. Inl no_answer)\<rparr>)"
    using good_demo_ext by (simp add: good_ext_def demo_ext_def)
  from fb_broadcast_never_fails [OF this] show ?thesis by simp
qed

theorem evm_broadcast_cases_witness:
  "\<exists>url. fst (plg_broadcastTx (ETH demo_ext) demo_tx empty_world) =
     (case provider demo_ext 0 ''web3'' url ''hex1'' of Inl _ \<Rightarrow> Inl NeverSettles
      | Inr r \<Rightarrow> Inr \<lparr>br_txid = br_txid r, br_success = True\<rparr>)"
  using evm_broadcast_cases [of "''ETH''" demo_ext "ETH demo_ext" demo_tx empty_world]
  by (auto simp: demo_tx_def empty_world_def)

theorem toSatoshis_accuracy_witness:
  "\<exists>n. toSatoshis demo_ext (1/100) ''BTC'' ''BTC'' = Inr (of_int n) \<and> of_int n = (1000000 :: rat)"
proof -
  have d: "plg_decimals (BTC demo_ext) = 8" by (simp add: utxo_plugins class_defs)
  have "(1/100) * 10 ^ 8 = (of_int 1000000 :: rat)" by simp
  then have i: "(1/100) * 10 ^ 8 \<in> (\<int> :: rat set)" by (metis Ints_of_int)
  show ?thesis
    using toSatoshis_accuracy [OF good_demo_ext, of "''BTC''" "''BTC''" "BTC demo_ext" "1/100"] i
    by (simp add: d)
qed

theorem satoshis_roundtrip_witness:
  "\<exists>dec. fromSatoshis demo_ext (of_int 546) ''BTC'' ''BTC'' = Inr dec \<and>
    toSatoshis demo_ext dec ''BTC'' ''BTC'' = Inr (of_int 546)"
  by (rule satoshis_roundtrip [OF good_demo_ext]) simp_all

end
