(* ===== verification/Quiet.thy ===== *)
theory Quiet
  imports PluginFacts
begin

text \<open>
  What a call into a plugin can change. A verification or a parse only asks services
  (\<open>silent\<close>); a broadcast also sends, and may leave a job (\<open>network\<close>); neither touches a
  table, a message or an error of the program.
\<close>

definition silent :: "world \<Rightarrow> world \<Rightarrow> bool" where
  "silent w w' \<longleftrightarrow> (\<exists>n. w' = w\<lparr>ticks := n\<rparr>)"

definition network :: "world \<Rightarrow> world \<Rightarrow> bool" where
  "network w w' \<longleftrightarrow> (\<exists>n b j. w' = w\<lparr>ticks := n, broadcasts := broadcasts w @ b, jobs := jobs w @ j\<rparr>)"

lemma networkI:
  "w' = w\<lparr>ticks := n, broadcasts := broadcasts w @ b, jobs := jobs w @ j\<rparr> \<Longrightarrow> network w w'"
  by (auto simp: network_def)

lemma networkE:
  assumes "network w w'"
  obtains n b j where "w' = w\<lparr>ticks := n, broadcasts := broadcasts w @ b, jobs := jobs w @ j\<rparr>"
  using assms by (auto simp: network_def)

interpretation silent: history silent
proof
  show "silent w w" for w by (auto simp: silent_def intro: exI [of _ "ticks w"])
  show "silent u v \<Longrightarrow> silent v w \<Longrightarrow> silent u w" for u v w by (auto simp: silent_def)
qed

lemma network_trans:
  assumes "network u v" and "network v w"
  shows "network u w"
proof -
  obtain n b j where v: "v = u\<lparr>ticks := n, broadcasts := broadcasts u @ b, jobs := jobs u @ j\<rparr>"
    using assms(1) by (rule networkE)
  obtain n' b' j' where "w = v\<lparr>ticks := n', broadcasts := broadcasts v @ b', jobs := jobs v @ j'\<rparr>"
    using assms(2) by (rule networkE)
  then show ?thesis
    by (intro networkI [where n = n' and b = "b @ b'" and j = "j @ j'"]) (simp add: v)
qed

interpretation network: history network
proof
  show "network w w" for w
    by (rule networkI [where n = "ticks w" and b = "[]" and j = "[]"]) simp
qed (rule network_trans)

lemma silent_network:
  assumes "silent w w'"
  shows "network w w'"
proof -
  obtain n where "w' = w\<lparr>ticks := n\<rparr>" using assms by (auto simp: silent_def)
  then show ?thesis by (intro networkI [where n = n and b = "[]" and j = "[]"]) simp
qed

lemma silent_ask: "follows silent (ask f)"
  by (auto simp: follows_def silent_def ask_run)

lemma silent_is_network: "follows silent m \<Longrightarrow> follows network m"
  by (simp add: follows_def silent_network)

lemma network_ask: "follows network (ask f)"
  by (rule silent_is_network [OF silent_ask])

lemma network_broadcast: "follows network (writes (\<lambda>w. w\<lparr>broadcasts := broadcasts w @ b\<rparr>))"
  by (rule network.follows_writes) (rule_tac n = "ticks w" and b = b and j = "[]" in networkI, simp)

lemma network_start_job: "follows network (start_job x)"
  unfolding start_job_def
  by (rule network.follows_writes) (rule_tac n = "ticks w" and b = "[]" and j = "[x]" in networkI, simp)

lemma network_broadcast_to: "follows network (broadcast_to E chain ps hex)"
  unfolding follows_def
proof
  fix w
  obtain r where "snd (broadcast_to E chain ps hex w) =
      w\<lparr>ticks := r, broadcasts := broadcasts w @ (if ps = [] then [] else [(chain, hex)])\<rparr>"
    using broadcast_to_world by blast
  then show "network w (snd (broadcast_to E chain ps hex w))"
    by (intro networkI [where n = r and b = "if ps = [] then [] else [(chain, hex)]" and j = "[]"]) simp
qed

section \<open>The methods\<close>

lemmas throws = no_method_def not_implemented_def throw_error_def

lemma silent_verify_base: "follows silent (Plugin_validateUnsignedTx E bc po ts)"
  unfolding Plugin_validateUnsignedTx_def by (intro silent.follows_rules)

lemma silent_verify_btc: "follows silent (BTC_validateUnsignedTx E c ch po ts)"
  unfolding BTC_validateUnsignedTx_def BTC_parsePayments_def by (intro silent.follows_rules)

lemma silent_verify_erc20: "follows silent (ERC20_verifyPayment E token po t)"
  unfolding ERC20_verifyPayment_def ERC20_verify_fetched_def fetchERC20Transfer_def
  by (intro silent.follows_rules silent_ask)

lemma silent_verify_evm:
  "(\<And>t. follows silent (parse t)) \<Longrightarrow> follows silent (EVM_verifyPayment parse po t)"
  unfolding EVM_verifyPayment_def by (intro silent.follows_rules) simp_all

lemma silent_parse_evm: "follows silent (EVM_parsePayments E c ch t)"
  unfolding EVM_parsePayments_def by (intro silent.follows_rules)

lemma silent_parse_erc20: "follows silent (ERC20_parsePayments E c ch d token t)"
  unfolding ERC20_parsePayments_def by (intro silent.follows_rules)

lemma silent_parse_btc: "follows silent (BTC_parsePayments E c ch t)"
  unfolding BTC_parsePayments_def by (intro silent.follows_rules)

lemma silent_parse_base: "follows silent (Plugin_parsePayments bc c ch t)"
  unfolding Plugin_parsePayments_def by (intro silent.follows_rules)

lemma silent_parse_xrp: "follows silent (XRP_parsePayments E t)"
  unfolding XRP_parsePayments_def by (intro silent.follows_rules)

lemma silent_verify_xrp: "follows silent (XRP_verifyPayment E po t)"
  unfolding XRP_verifyPayment_def by (intro silent.follows_rules silent_parse_xrp)

lemma silent_verify_sol: "follows silent (SOL_verifyPayment E po t)"
  unfolding SOL_verifyPayment_def by (intro silent.follows_rules)

lemma silent_verify_xmr: "follows silent (XMR_verifyPayment po t)"
  unfolding XMR_verifyPayment_def by (intro silent.follows_rules)

lemmas silent_methods = silent_verify_base silent_verify_btc silent_verify_erc20 silent_verify_evm
  silent_parse_evm silent_parse_erc20 silent_parse_btc silent_parse_base silent_parse_xrp
  silent_verify_xrp silent_verify_sol silent_verify_xmr silent.follows_throw silent.follows_ret

lemma network_broadcast_btc: "follows network (BTC_broadcastTx E t)"
  unfolding BTC_broadcastTx_def by (rule network_broadcast_to)

lemma network_broadcast_fb: "follows network (FB_broadcastTx E t)"
  unfolding FB_broadcastTx_def by (intro network.follows_rules network_ask network_broadcast)

lemma network_broadcast_evm: "follows network (EVM_broadcastTx E url ch t)"
  unfolding EVM_broadcastTx_def
  by (intro network.follows_rules network_ask network_broadcast network_start_job)

lemma network_broadcast_xrp: "follows network (XRP_broadcastTx E t)"
  unfolding XRP_broadcastTx_def by (intro network.follows_rules network_ask network_broadcast)

lemma network_broadcast_sol: "follows network (Solana_broadcastTx E t)"
  unfolding Solana_broadcastTx_def by (intro network.follows_rules network_ask network_broadcast)

lemma network_broadcast_xmr: "follows network (XMR_broadcastTx E t)"
  unfolding XMR_broadcastTx_def by (intro network.follows_rules network_ask network_broadcast)

lemmas network_methods = network_broadcast_to network_broadcast_btc network_broadcast_fb
  network_broadcast_evm network_broadcast_xrp network_broadcast_sol network_broadcast_xmr
  network.follows_throw

section \<open>Every plugin\<close>

lemma plugins_quiet:
  "\<forall>p \<in> snd ` set (plugins E). (\<forall>po t. follows silent (plg_verifyPayment p po t)) \<and>
     (\<forall>t. follows silent (plg_parsePayments p t)) \<and> (\<forall>t. follows network (plg_broadcastTx p t))"
  by (simp add: plugins_def utxo_plugins evm_plugins erc20_plugins other_plugins class_defs
      Plugin_verifyPayment_def bch_is_base throws silent_methods network_methods)

lemma found_plugin_quiet:
  assumes "find_plugin E currency chain = Inr p"
  shows "follows silent (plg_verifyPayment p po t)" and "follows silent (plg_parsePayments p t)"
    and "follows network (plg_broadcastTx p t)"
proof -
  have "p \<in> snd ` set (plugins E)" using assms by (force simp: find_plugin_iff)
  with plugins_quiet show "follows silent (plg_verifyPayment p po t)"
    and "follows silent (plg_parsePayments p t)" and "follows network (plg_broadcastTx p t)"
    by blast+
qed

lemma silent_parsePayments: "follows silent (plugins_parsePayments E currency chain t)"
proof (cases "find_plugin E currency chain")
  case (Inl e)
  then show ?thesis
    by (simp add: plugins_parsePayments_def with_plugin_def follows_def bnd_run lift_result_run silent.R_refl)
next
  case (Inr p)
  with found_plugin_quiet(2) [OF Inr] show ?thesis
    by (simp add: plugins_parsePayments_def with_plugin_def follows_def bnd_run lift_result_run)
qed

end
