(* ===== verification/Protocol.thy ===== *)
theory Protocol
  imports PayLib Payments Confirmations Quiet
begin

text \<open>
  The JSON payment protocol, \<open>src/lib/pay/json_v2/protocol.ts\<close>: submitting a payment, checking
  an unsigned one, and what a wallet is told.
\<close>

section \<open>Submitting a payment\<close>

record submit_request =
  sub_invoice_uid :: string
  sub_currency :: string
  sub_chain :: "string option"
  sub_transactions :: "transaction list"
  sub_wallet :: "string option"

definition sub_chain_or_currency :: "submit_request \<Rightarrow> string" where
  "sub_chain_or_currency payment =
     (if truthy (sub_chain payment) then the (sub_chain payment) else sub_currency payment)"

definition failed_message :: "submit_request \<Rightarrow> string" where
  "failed_message payment = ''pay.jsonv2.'' @ to_lower (sub_currency payment) @ ''.verifyPayment.failed''"

definition set_invoice_hash :: "prisma \<Rightarrow> invoice \<Rightarrow> string \<Rightarrow> invoice prog" where
  "set_invoice_hash P invoice hash =
     bnd (reads now) (\<lambda>time.
     update_row (prisma_invoices P) (inv_id invoice)
       (\<lambda>r. r\<lparr>inv_hash := Some hash, inv_updatedAt := time\<rparr>))"

text \<open>
  The broadcast, with what SOL and XRP write before the payment is recorded: \<open>String\<close> of the
  response object, and the id of the response, which also goes into the transaction.
\<close>

definition broadcast_transaction ::
  "prisma \<Rightarrow> plugin \<Rightarrow> payment_option \<Rightarrow> invoice \<Rightarrow> transaction \<Rightarrow> transaction prog" where
  "broadcast_transaction P plugin paymentOption invoice t =
     bnd (plg_broadcastTx plugin t) (\<lambda>response.
     if po_chain paymentOption = ''SOL''
     then bnd (set_invoice_hash P invoice ''[object Object]'') (\<lambda>_. ret t)
     else if po_chain paymentOption = ''XRP''
     then bnd (set_invoice_hash P invoice (br_txid response)) (\<lambda>_. ret (t\<lparr>tx_id := Some (br_txid response)\<rparr>))
     else ret t)"

definition payment_confirming_event :: "invoice \<Rightarrow> payment \<Rightarrow> event" where
  "payment_confirming_event invoice paymentRecord =
     (with_owner (inv_account_id invoice) (inv_app_id invoice)
       ((blank_event ''payment.confirming'' (inv_uid invoice) ''confirming'')
         \<lparr>ev_payment := Some \<lparr>ep_chain = js_String (pay_chain paymentRecord),
            ep_currency = pay_currency paymentRecord, ep_txid = pay_txid paymentRecord,
            ep_status = ''confirming''\<rparr>\<rparr>))"

definition slow_chains :: "string list" where
  "slow_chains = [''ETH'', ''MATIC'', ''AVAX'', ''SOL'', ''XLM'']"

definition record_transaction ::
  "ext \<Rightarrow> prisma \<Rightarrow> payment_option \<Rightarrow> invoice \<Rightarrow> transaction \<Rightarrow> payment prog" where
  "record_transaction E P paymentOption invoice t =
     (if po_currency paymentOption = ''BTC'' \<and> truthy (cfg E ''REQUIRE_BTC_CONFIRMATIONS'')
      then
        bnd (handleUnconfirmedPayment E P paymentOption t) (\<lambda>paymentRecord.
        bnd (start_job (JCreateAndSendWebhook ''payment.confirming''
               (payment_confirming_event invoice paymentRecord))) (\<lambda>_.
        ret paymentRecord))
      else completePayment E P paymentOption t (po_chain paymentOption \<in> set slow_chains))"

definition note_wallet :: "prisma \<Rightarrow> submit_request \<Rightarrow> payment \<Rightarrow> unit prog" where
  "note_wallet P payment paymentRecord =
     (if truthy (sub_wallet payment)
      then bnd (update_row (prisma_payments P) (pay_id paymentRecord)
             (\<lambda>r. r\<lparr>pay_wallet := sub_wallet payment\<rparr>)) (\<lambda>_. ret ())
      else ret ())"

text \<open>The body of the loop over the transactions.\<close>

definition submit_transaction ::
  "ext \<Rightarrow> prisma \<Rightarrow> submit_request \<Rightarrow> invoice \<Rightarrow> payment_option \<Rightarrow> plugin \<Rightarrow> transaction \<Rightarrow> unit prog" where
  "submit_transaction E P payment invoice paymentOption plugin t =
     bnd (plg_verifyPayment plugin paymentOption t) (\<lambda>verified.
     bnd (guard_io verified (JsError (failed_message payment))) (\<lambda>_.
     bnd (broadcast_transaction P plugin paymentOption invoice t) (\<lambda>t.
     bnd (record_transaction E P paymentOption invoice t) (\<lambda>paymentRecord.
     note_wallet P payment paymentRecord))))"

text \<open>The result is the list of submitted transactions, with \<open>success: true\<close>.\<close>

definition submitPayment :: "ext \<Rightarrow> prisma \<Rightarrow> submit_request \<Rightarrow> string list prog" where
  "submitPayment E P payment =
     (let chain = sub_chain_or_currency payment in
      bnd (invoice_by_uid P (sub_invoice_uid payment)) (\<lambda>invoice.
      bnd (guard_io (inv_status invoice = ''unpaid'')
             (JsError (''Invoice With Status '' @ inv_status invoice @ '' Cannot Be Paid''))) (\<lambda>_.
      bnd (find_first (prisma_payment_options P) (\<lambda>po. po_invoice_uid po = sub_invoice_uid payment \<and>
             po_currency po = sub_currency payment \<and> po_chain po = chain)) (\<lambda>found.
      (case found of
         None \<Rightarrow> throw (JsError ''Unsupported Currency or Chain for Payment Option'')
       | Some paymentOption \<Rightarrow>
           bnd (lift_result (find_plugin E (sub_currency payment) chain)) (\<lambda>plugin.
           bnd (for_each (submit_transaction E P payment invoice paymentOption plugin)
                  (sub_transactions payment)) (\<lambda>_.
           ret (map tx_hex (sub_transactions payment)))))))))"

section \<open>Checking an unsigned payment\<close>

text \<open>Every plugin has \<open>validateUnsignedTx\<close>, so the loop after it in the source is not reached.\<close>

definition verifyUnsigned :: "ext \<Rightarrow> prisma \<Rightarrow> submit_request \<Rightarrow> string list prog" where
  "verifyUnsigned E P payment =
     (let chain = string_or_undefined (sub_chain payment) in
      bnd (invoice_by_uid P (sub_invoice_uid payment)) (\<lambda>invoice.
      bnd (guard_io (\<not> inv_cancelled invoice) (JsError ''payment.error.invoice.cancelled'')) (\<lambda>_.
      bnd (find_first_or_throw (prisma_payment_options P) (\<lambda>po. po_invoice_uid po = inv_uid invoice \<and>
             po_currency po = sub_currency payment \<and> po_chain po = chain)) (\<lambda>paymentOption.
      bnd (lift_result (find_plugin E (sub_currency payment) chain)) (\<lambda>plugin.
      bnd (plg_validateUnsignedTx plugin paymentOption (sub_transactions payment)) (\<lambda>valid.
      bnd (guard_io valid (JsError ''Invalid unsigned transaction'')) (\<lambda>_.
      ret (map tx_hex (sub_transactions payment)))))))))"

record verification_request =
  vr_chain :: "string option"
  vr_currency :: "string option"
  vr_transactions :: "transaction list"

text \<open>Joi takes no empty string for a required one.\<close>

definition verifyUnsignedPayment ::
  "ext \<Rightarrow> prisma \<Rightarrow> invoice \<Rightarrow> verification_request \<Rightarrow> verification_request prog" where
  "verifyUnsignedPayment E P invoice params =
     (let params = (if \<not> truthy (vr_chain params) \<and> truthy (vr_currency params)
            then params\<lparr>vr_chain := vr_currency params\<rparr> else params);
          params = (if \<not> truthy (vr_currency params) \<and> truthy (vr_chain params)
            then params\<lparr>vr_currency := vr_chain params\<rparr> else params) in
      bnd (guard_io (truthy (vr_chain params) \<and> truthy (vr_currency params) \<and>
             list_all (\<lambda>t. tx_hex t \<noteq> []) (vr_transactions params)) JoiError) (\<lambda>_.
      bnd (verifyUnsigned E P \<lparr>sub_invoice_uid = inv_uid invoice,
             sub_currency = the (vr_currency params), sub_chain = vr_chain params,
             sub_transactions = vr_transactions params, sub_wallet = None\<rparr>) (\<lambda>_.
      ret params)))"

definition sendSignedPayment ::
  "ext \<Rightarrow> prisma \<Rightarrow> invoice \<Rightarrow> string \<Rightarrow> string option \<Rightarrow> transaction list \<Rightarrow> string prog" where
  "sendSignedPayment E P invoice currency chain transactions =
     bnd (submitPayment E P \<lparr>sub_invoice_uid = inv_uid invoice, sub_currency = currency,
            sub_chain = chain, sub_transactions = transactions, sub_wallet = None\<rparr>) (\<lambda>_.
     ret ''Transactions accepted and broadcast to the network'')"

section \<open>What the wallet is told\<close>

record option_offer =
  oo_currency :: string
  oo_chain :: string
  oo_estimatedAmount :: num
  oo_requiredFeeRate :: "num option"

record offers =
  of_time :: time
  of_expires :: time
  of_memo :: string
  of_paymentUrl :: string
  of_paymentId :: string
  of_paymentOptions :: "option_offer list"

definition offer_of :: "ext \<Rightarrow> invoice \<Rightarrow> payment_option \<Rightarrow> option_offer prog" where
  "offer_of E invoice paymentOption =
     bnd (getRequiredFeeRate E (inv_fee_rate_level invoice) (po_currency paymentOption)) (\<lambda>requiredFeeRate.
     ret \<lparr>oo_currency = po_currency paymentOption, oo_chain = po_chain paymentOption,
       oo_estimatedAmount = (case po_outputs paymentOption of None \<Rightarrow> 0
          | Some outputs \<Rightarrow> sum_list (map out_amount outputs)),
       oo_requiredFeeRate = requiredFeeRate\<rparr>)"

definition expires_of :: "invoice \<Rightarrow> time \<Rightarrow> time" where
  "expires_of invoice t = (case inv_expiry invoice of None \<Rightarrow> t + fifteen_minutes | Some e \<Rightarrow> e)"

definition listPaymentOptions :: "ext \<Rightarrow> prisma \<Rightarrow> invoice \<Rightarrow> offers prog" where
  "listPaymentOptions E P invoice =
     bnd (find_many (prisma_payment_options P) (\<lambda>po. po_invoice_uid po = inv_uid invoice)) (\<lambda>found.
     bnd (map_io (offer_of E invoice) found) (\<lambda>paymentOptions.
     bnd (reads now) (\<lambda>t.
     ret \<lparr>of_time = inv_createdAt invoice, of_expires = expires_of invoice t,
       of_memo = js_String (inv_memo invoice),
       of_paymentUrl = cfg_string E ''API_BASE'' @ ''/r/'' @ inv_uid invoice,
       of_paymentId = inv_uid invoice, of_paymentOptions = paymentOptions\<rparr>)))"

record instruction =
  ins_requiredFeeRate :: "num option"
  ins_outputs :: "(num \<times> string option) list"

record payment_instructions =
  pi_time :: time
  pi_expires :: time
  pi_memo :: string
  pi_paymentUrl :: string
  pi_paymentId :: string
  pi_chain :: string
  pi_currency :: string
  pi_instructions :: "instruction list"

definition getPaymentRequest :: "ext \<Rightarrow> prisma \<Rightarrow> invoice \<Rightarrow> string option \<Rightarrow> string option \<Rightarrow> payment_instructions prog" where
  "getPaymentRequest E P invoice chain currency =
     bnd (guard_io (truthy chain \<and> truthy currency) JoiError) (\<lambda>_.
     bnd (find_first_or_throw (prisma_payment_options P) (\<lambda>po. po_invoice_uid po = inv_uid invoice \<and>
            Some (po_currency po) = currency \<and> Some (po_chain po) = chain)) (\<lambda>paymentOption.
     bnd (getRequiredFeeRate E (inv_fee_rate_level invoice) (the currency)) (\<lambda>requiredFeeRate.
     bnd (reads now) (\<lambda>t.
     (case po_outputs paymentOption of
        None \<Rightarrow> throw JsTypeError
      | Some outputs \<Rightarrow>
          ret \<lparr>pi_time = inv_createdAt invoice, pi_expires = expires_of invoice t,
            pi_memo = js_String (inv_memo invoice),
            pi_paymentUrl = cfg_string E ''API_BASE'' @ ''/r/'' @ inv_uid invoice,
            pi_paymentId = inv_uid invoice, pi_chain = the chain, pi_currency = the currency,
            pi_instructions = [\<lparr>ins_requiredFeeRate = requiredFeeRate,
              ins_outputs = map (\<lambda>out. (out_amount out, out_address out)) outputs\<rparr>]\<rparr>)))))"

section \<open>Facts\<close>

text \<open>The request finds its invoice and its option, and the plugin of its coin.\<close>

definition option_for :: "submit_request \<Rightarrow> payment_option \<Rightarrow> bool" where
  "option_for r po \<longleftrightarrow> po_invoice_uid po = sub_invoice_uid r \<and> po_currency po = sub_currency r \<and>
     po_chain po = sub_chain_or_currency r"

abbreviation option_at :: "submit_request \<Rightarrow> world \<Rightarrow> nat \<Rightarrow> payment_option \<Rightarrow> bool" where
  "option_at r w \<equiv> only_row (option_for r) (db_payment_options w)"

lemma for_each_single [simp]: "for_each f [x] = bnd (f x) (\<lambda>_. ret ())"
  by simp

lemma silent_payment_txid: "follows silent (payment_txid E currency chain t)"
  unfolding payment_txid_def by (intro silent.follows_rules silent_parsePayments)

text \<open>The invoice with a \<open>uid\<close> is in row \<open>i\<close>; and it no longer waits for a payment.\<close>

definition stored_in :: "string \<Rightarrow> nat \<Rightarrow> invoice table \<Rightarrow> bool" where
  "stored_in uid i t \<longleftrightarrow> (\<exists>s. only_row (\<lambda>r. inv_uid r = uid) t i s \<and> inv_id s = i)"

definition settled_in :: "string \<Rightarrow> nat \<Rightarrow> invoice table \<Rightarrow> bool" where
  "settled_in uid i t \<longleftrightarrow> (\<exists>s. only_row (\<lambda>r. inv_uid r = uid) t i s \<and> inv_id s = i \<and>
     inv_status s \<in> {''paid'', ''confirming''})"

lemma settled_stored: "settled_in uid i t \<Longrightarrow> stored_in uid i t"
  by (auto simp: settled_in_def stored_in_def)

lemma stored_in_put:
  "only_row (\<lambda>r. inv_uid r = uid) t i x \<Longrightarrow> inv_uid s = uid \<Longrightarrow> inv_id s = i \<Longrightarrow>
   stored_in uid i (put t i (Some s))"
  unfolding stored_in_def by (intro exI [of _ s]) (simp add: only_row_put)

lemma settled_in_put:
  "only_row (\<lambda>r. inv_uid r = uid) t i x \<Longrightarrow> inv_uid s = uid \<Longrightarrow> inv_id s = i \<Longrightarrow>
   inv_status s \<in> {''paid'', ''confirming''} \<Longrightarrow> settled_in uid i (put t i (Some s))"
  unfolding settled_in_def by (intro exI [of _ s]) (simp add: only_row_put)

context prisma_client
begin

lemma submitPayment_run:
  assumes "invoice_at (sub_invoice_uid r) w i invoice" and "inv_status invoice = ''unpaid''"
    and "option_at r w k po" and "find_plugin E (sub_currency r) (sub_chain_or_currency r) = Inr plugin"
  shows "submitPayment E P r w =
    (case for_each (submit_transaction E P r invoice po plugin) (sub_transactions r) w of
       (Inl e, v) \<Rightarrow> (Inl e, v) | (Inr _, v) \<Rightarrow> (Inr (map tx_hex (sub_transactions r)), v))"
proof -
  have "api_first (api_payment_options P) (\<lambda>x. po_invoice_uid x = sub_invoice_uid r \<and>
      po_currency x = sub_currency r \<and> po_chain x = sub_chain_or_currency r) (db_payment_options w) = Some po"
    using tpo.first_only [OF assms(3)] by (simp add: option_for_def [abs_def])
  then show ?thesis
    by (simp add: submitPayment_def Let_def bnd_run invoice_by_uid_run [OF assms(1)] guard_io_run
        assms(2,4) find_first_run prisma_payment_options_def lift_result_run ret_run
        split: prod.splits sum.splits)
qed

lemma submitPayment_not_unpaid:
  assumes "invoice_at (sub_invoice_uid r) w i invoice" and "inv_status invoice \<noteq> ''unpaid''"
  shows "submitPayment E P r w =
    (Inl (JsError (''Invoice With Status '' @ inv_status invoice @ '' Cannot Be Paid'')), w)"
  by (simp add: submitPayment_def Let_def bnd_run invoice_by_uid_run [OF assms(1)] guard_io_run assms(2))

lemma handleUnconfirmedPayment_settles:
  assumes "handleUnconfirmedPayment E P po t w = (Inr p, v)"
    and "stored_in (po_invoice_uid po) i (db_invoices w)"
  shows "settled_in (po_invoice_uid po) i (db_invoices v)"
proof -
  obtain invoice where at: "invoice_at (po_invoice_uid po) w i invoice" and id: "inv_id invoice = i"
    using assms(2) by (auto simp: stored_in_def)
  have row: "row (db_invoices w) i = Some invoice" and uid: "inv_uid invoice = po_invoice_uid po"
    using at by (simp_all add: only_row_def)
  from assms(1) show ?thesis
    unfolding handleUnconfirmedPayment_def Let_def
    by (elim bnd_Inr_E)
      (auto simp: lift_result_run invoice_by_uid_run [OF at] reads_run create_payments
        update_invoices row id uid publish_raw_run ret_run settle_invoice_def
        intro!: settled_in_put [OF at] split: if_splits)
qed

lemma completePayment_settles_in:
  assumes "completePayment E P po t confirming w = (Inr p, v)"
    and "stored_in (po_invoice_uid po) i (db_invoices w)"
  shows "settled_in (po_invoice_uid po) i (db_invoices v)"
proof -
  obtain h u where txid: "payment_txid E (po_currency po) (payment_chain po) t w = (Inr h, u)"
    using assms(1) unfolding completePayment_def Let_def by (elim bnd_Inr_E)
  have "silent w u" using silent_payment_txid [of E _ _ t] txid by (metis follows_def snd_conv)
  then have u: "db_invoices u = db_invoices w" by (auto simp: silent_def)
  obtain invoice where at: "invoice_at (po_invoice_uid po) u i invoice" and id: "inv_id invoice = i"
    using assms(2) by (auto simp: stored_in_def u)
  have uid: "inv_uid invoice = po_invoice_uid po" using at by (rule only_rowD)
  from assms(1) show ?thesis
    unfolding completePayment_run [OF txid at id]
    by (auto simp: uid id intro!: settled_in_put [OF at] split: if_splits)
qed

lemma record_transaction_settles:
  assumes "record_transaction E P po invoice t w = (Inr p, v)"
    and "stored_in (po_invoice_uid po) i (db_invoices w)"
  shows "settled_in (po_invoice_uid po) i (db_invoices v)"
  using assms(1) handleUnconfirmedPayment_settles [OF _ assms(2)] completePayment_settles_in [OF _ assms(2)]
  unfolding record_transaction_def
  by (auto simp: start_job_run ret_run split: if_splits elim!: bnd_Inr_E)

lemma broadcast_keeps_stored:
  assumes "broadcast_transaction P plugin po invoice t w = (Inr t', v)"
    and "follows network (plg_broadcastTx plugin t)" and "inv_id invoice = i"
    and "stored_in uid i (db_invoices w)"
  shows "stored_in uid i (db_invoices v)"
proof -
  obtain res u where b: "plg_broadcastTx plugin t w = (Inr res, u)"
    using assms(1) unfolding broadcast_transaction_def by (elim bnd_Inr_E)
  then have "network w u" using assms(2) by (metis follows_def snd_conv)
  then have u: "stored_in uid i (db_invoices u)" using assms(4) by (auto simp: network_def)
  then obtain s where at: "invoice_at uid u i s" and id: "inv_id s = i" by (auto simp: stored_in_def)
  have row: "row (db_invoices u) i = Some s" and uid: "inv_uid s = uid"
    using at by (simp_all add: only_row_def)
  from assms(1) u show ?thesis
    by (auto simp: broadcast_transaction_def bnd_run b set_invoice_hash_def reads_run update_invoices
        assms(3) row ret_run id uid intro!: stored_in_put [OF at] split: if_splits)
qed

lemma submit_transaction_settles:
  assumes "submit_transaction E P r invoice po plugin t w = (Inr x, v)"
    and "find_plugin E currency chain = Inr plugin" and "inv_id invoice = i"
    and "stored_in (po_invoice_uid po) i (db_invoices w)"
  shows "settled_in (po_invoice_uid po) i (db_invoices v)"
proof -
  from assms(1) obtain b a t' c p d where
    verify: "plg_verifyPayment plugin po t w = (Inr b, a)" and
    send: "broadcast_transaction P plugin po invoice t a = (Inr t', c)" and
    rec: "record_transaction E P po invoice t' c = (Inr p, d)" and
    wallet: "note_wallet P r p d = (Inr x, v)"
    unfolding submit_transaction_def by (elim bnd_Inr_E guard_Inr_E) blast
  have "silent w a" using found_plugin_quiet(1) [OF assms(2), of po t] verify by (metis follows_def snd_conv)
  then have "stored_in (po_invoice_uid po) i (db_invoices a)" using assms(4) by (auto simp: silent_def)
  from broadcast_keeps_stored [OF send found_plugin_quiet(3) [OF assms(2)] assms(3) this]
  have "stored_in (po_invoice_uid po) i (db_invoices c)" .
  from record_transaction_settles [OF rec this]
  have "settled_in (po_invoice_uid po) i (db_invoices d)" .
  moreover have "db_invoices v = db_invoices d"
    using wallet by (auto simp: note_wallet_def bnd_run ret_run update_payments split: if_splits option.splits)
  ultimately show ?thesis by simp
qed

lemma submit_loop_settles:
  assumes "for_each (submit_transaction E P r invoice po plugin) ts w = (Inr x, v)" and "ts \<noteq> []"
    and "find_plugin E currency chain = Inr plugin" and "inv_id invoice = i"
    and "stored_in (po_invoice_uid po) i (db_invoices w)"
  shows "settled_in (po_invoice_uid po) i (db_invoices v)"
  using assms(1,2,5)
proof (induction ts arbitrary: w)
  case Nil
  then show ?case by simp
next
  case (Cons t ts)
  from Cons.prems(1) obtain y u where one: "submit_transaction E P r invoice po plugin t w = (Inr y, u)"
    and rest: "for_each (submit_transaction E P r invoice po plugin) ts u = (Inr x, v)"
    by (auto elim!: bnd_Inr_E)
  have u: "settled_in (po_invoice_uid po) i (db_invoices u)"
    by (rule submit_transaction_settles [OF one assms(3,4) Cons.prems(3)])
  show ?case
  proof (cases "ts = []")
    case True
    with rest u show ?thesis by (simp add: ret_run)
  next
    case False
    from Cons.IH [OF rest False settled_stored [OF u]] show ?thesis .
  qed
qed

end

section \<open>Properties\<close>



text \<open>
  A submission without transactions is accepted: for an unpaid invoice with an option in
  the requested coin, \<open>submitPayment\<close> (src/src/lib/pay/json_v2/protocol.ts) answers success
  and pays nothing.
\<close>

theorem empty_submission_succeeds:
  assumes "prisma_client P" and "invoice_at (sub_invoice_uid r) w i invoice" and "inv_status invoice = ''unpaid''"
    and "option_at r w k po" and "find_plugin E (sub_currency r) (sub_chain_or_currency r) = Inr plugin"
    and "sub_transactions r = []"
  shows "submitPayment E P r w = (Inr [], w)"
  by (simp add: prisma_client.submitPayment_run [OF assms(1-5)] assms(6) ret_run)

end
