(* ===== verification/ProtocolFacts.thy ===== *)
theory ProtocolFacts
  imports Protocol
begin

text \<open>
  Submissions from end to end: what \<open>submitPayment\<close> of
  \<open>src/lib/pay/json_v2/protocol.ts\<close> leaves behind on the chains with outputs, on Solana and
  on Fractal Bitcoin, and the inputs at which the properties of the protocol are applied.
\<close>

section \<open>Facts\<close>

lemma utxo_parse_is_base:
  assumes "currency \<in> {''BCH'', ''BSV'', ''DASH'', ''LTC'', ''DOGE''}"
    and "find_plugin E currency currency = Inr plugin"
  shows "plg_parsePayments plugin = Plugin_parsePayments (plg_bitcore plugin) currency currency"
  using assms(1) unfolding insert_iff empty_iff
proof (elim disjE FalseE)
  assume "currency = ''BCH''" with assms(2) show ?thesis by (auto simp: BCH_def class_defs)
next
  assume "currency = ''BSV''" with assms(2) show ?thesis by (auto simp: BSV_def class_defs)
next
  assume "currency = ''DASH''" with assms(2) show ?thesis by (auto simp: DASH_def class_defs)
next
  assume "currency = ''LTC''" with assms(2) show ?thesis by (auto simp: LTC_def class_defs)
next
  assume "currency = ''DOGE''" with assms(2) show ?thesis by (auto simp: DOGE_def class_defs)
qed

text \<open>The id a payment gets: the wallet's, the text itself when it has an id's length, or the hash.\<close>

definition txid_of :: "transaction \<Rightarrow> utxo_tx \<Rightarrow> string" where
  "txid_of t tx = (if truthy (tx_id t) then the (tx_id t)
     else if length (tx_hex t) = 66 then tx_hex t else utx_hash tx)"

lemma payment_txid_base:
  assumes "find_plugin E currency chain = Inr plugin"
    and "plg_parsePayments plugin = Plugin_parsePayments bc c ch"
    and "bc_tx bc (tx_hex t) = Inr tx" and "decode_outputs (stripped (bc_address bc)) (utx_outputs tx) \<noteq> []"
  shows "payment_txid E currency chain t w = (Inr (txid_of t tx), w)"
proof -
  have "parsed_of c ch (utx_hash tx) (decode_outputs (stripped (bc_address bc)) (utx_outputs tx)) \<noteq> []
      \<and> (\<forall>p \<in> set (parsed_of c ch (utx_hash tx) (decode_outputs (stripped (bc_address bc)) (utx_outputs tx))).
           pp_txid p = utx_hash tx)"
    using assms(4) by (auto simp: parsed_of_def)
  then show ?thesis
    by (auto simp: payment_txid_def txid_of_def plugins_parsePayments_def with_plugin_def assms(1-3)
        Plugin_parsePayments_def bnd_run lift_result_run ret_run split: list.splits)
qed

lemma payment_txid_BTC:
  assumes "plg_parsePayments plugin = BTC_parsePayments E c ch" and "find_plugin E currency chain = Inr plugin"
    and "btcjs_tx E (tx_hex t) = Inr tx" and "decode_outputs (output_address E) (utx_outputs tx) \<noteq> []"
  shows "payment_txid E currency chain t w = (Inr (txid_of t tx), w)"
proof -
  have "parsed_of c ch (utx_hash tx) (decode_outputs (output_address E) (utx_outputs tx)) \<noteq> []
      \<and> (\<forall>p \<in> set (parsed_of c ch (utx_hash tx) (decode_outputs (output_address E) (utx_outputs tx))).
           pp_txid p = utx_hash tx)"
    using assms(4) by (auto simp: parsed_of_def)
  then show ?thesis
    by (auto simp: payment_txid_def txid_of_def plugins_parsePayments_def with_plugin_def assms(1-3)
        BTC_parsePayments_def bnd_run lift_result_run ret_run split: list.splits)
qed

text \<open>The world after a payment was recorded, on a chain where one is final at once.\<close>

definition recorded :: "payment_option \<Rightarrow> transaction \<Rightarrow> string \<Rightarrow> nat \<Rightarrow> invoice \<Rightarrow> world \<Rightarrow> world" where
  "recorded po t hash i invoice v =
     (let settled = settle_invoice po hash ''paid'' (now v) invoice;
          paid = invoice_paid_event settled (payment_chain po) (po_currency po) hash in
      v\<lparr>db_payments := db_payments v @
          [Some (new_payment hash (payment_chain po) po t invoice (now v) (next_id (db_payments v)))],
        db_invoices := put (db_invoices v) i (Some settled),
        published := published v @ map (\<lambda>k. (k, EventMsg paid)) (routes ''invoice.paid'' paid),
        jobs := jobs v @ [JSendWebhookForInvoice (po_invoice_uid po) ''api_on_complete_payment'']\<rparr>)"

definition hash_free :: "string \<Rightarrow> nat \<Rightarrow> world \<Rightarrow> bool" where
  "hash_free hash i w \<longleftrightarrow> unique_hash (db_invoices w) \<and>
     (\<forall>j x. row (db_invoices w) j = Some x \<longrightarrow> j \<noteq> i \<longrightarrow> inv_hash x \<noteq> Some hash)"

lemma hash_free_unique:
  "hash_free hash i w \<Longrightarrow> inv_hash s = Some hash \<Longrightarrow> unique_hash (put (db_invoices w) i (Some s))"
  unfolding hash_free_def by (rule unique_hash_fresh) auto

context prisma_client
begin

text \<open>One verified transaction on a chain without steps of its own.\<close>

lemma single_submission_recorded:
  assumes inv: "invoice_at (sub_invoice_uid r) w i invoice" "inv_id invoice = i" "inv_status invoice = ''unpaid''"
    and po: "option_at r w k po" and pl: "find_plugin E (sub_currency r) (sub_chain_or_currency r) = Inr plugin"
    and t: "sub_transactions r = [t]" "sub_wallet r = None"
    and chain: "po_chain po \<notin> set slow_chains \<union> {''SOL'', ''XRP''}"
      "po_currency po \<noteq> ''BTC'' \<or> \<not> truthy (cfg E ''REQUIRE_BTC_CONFIRMATIONS'')"
    and ok: "plg_verifyPayment plugin po t w = (Inr True, w)" "plg_broadcastTx plugin t w = (Inr res, v)"
    and id: "payment_txid E (po_currency po) (payment_chain po) t v = (Inr hash, v)" and fresh: "hash_free hash i w"
  shows "submitPayment E P r w = (Inr [tx_hex t], recorded po t hash i invoice v)"
proof -
  have "network w v" using found_plugin_quiet(3) [OF pl, of t] ok(2) by (metis follows_def snd_conv)
  then have v: "db_invoices v = db_invoices w" by (auto simp: network_def)
  have po_uid: "po_invoice_uid po = sub_invoice_uid r" using po by (simp add: only_row_def option_for_def)
  have at: "invoice_at (po_invoice_uid po) v i invoice" using inv(1) by (simp add: v po_uid)
  have uq: "unique_hash (put (db_invoices v) i (Some (settle_invoice po hash ''paid'' (now v) invoice)))"
    using hash_free_unique [OF fresh, of "settle_invoice po hash ''paid'' (now v) invoice"] by (simp add: v)
  have "record_transaction E P po invoice t v =
      completePayment E P po t False v"
    using chain by (auto simp: record_transaction_def)
  also have "\<dots> = (Inr (new_payment hash (payment_chain po) po t invoice (now v) (next_id (db_payments v))),
      recorded po t hash i invoice v)"
    using completePayment_run [OF id at inv(2), of False] uq by (simp add: recorded_def Let_def)
  finally show ?thesis
    using chain(1)
    by (simp add: submitPayment_run [OF inv(1,3) po pl] t submit_transaction_def bnd_run ok guard_io_run
        broadcast_transaction_def ret_run note_wallet_def)
qed

end

lemma utxo_accepted:
  assumes "prisma_client P"
    and "invoice_at (sub_invoice_uid r) w i invoice" and "inv_id invoice = i" and "inv_status invoice = ''unpaid''"
    and "option_at r w k po" and "sub_chain_or_currency r = sub_currency r"
    and "sub_transactions r = [t]" and "sub_wallet r = None"
    and cur: "sub_currency r \<in> {''BCH'', ''BSV'', ''DASH'', ''LTC'', ''DOGE''}"
    and pl: "find_plugin E (sub_currency r) (sub_currency r) = Inr plugin"
    and tx: "bc_tx (plg_bitcore plugin) (tx_hex t) = Inr tx"
    and outs: "jsonV2_buildOutputs E po = Inr outs" and "outs \<noteq> []"
    and paid: "\<forall>out \<in> set outs. \<exists>a. target_address (bc_address (plg_bitcore plugin)) out = Inr (Some a) \<and>
          pays (stripped (bc_address (plg_bitcore plugin))) tx a (out_amount out)"
    and send: "plg_broadcastTx plugin t w = (Inr res, v)"
    and "hash_free (txid_of t tx) i w"
  shows "submitPayment E P r w = (Inr [tx_hex t], recorded po t (txid_of t tx) i invoice v)"
proof -
  have po: "po_currency po = sub_currency r" "po_chain po = sub_currency r"
    using assms(5,6) by (simp_all add: only_row_def option_for_def)
  have verified: "plg_verifyPayment plugin po t w = (Inr True, w)"
    unfolding utxo_verify_is_base [OF cur pl] base_verification using tx outs paid by simp
  obtain out a where "out \<in> set outs"
    and "pays (stripped (bc_address (plg_bitcore plugin))) tx a (out_amount out)"
    using assms(13) paid by (cases outs) auto
  then have "decode_outputs (stripped (bc_address (plg_bitcore plugin))) (utx_outputs tx) \<noteq> []"
    by (auto simp: pays_decoded)
  from payment_txid_base [OF pl utxo_parse_is_base [OF cur pl] tx this]
  have txid: "payment_txid E (po_currency po) (payment_chain po) t v = (Inr (txid_of t tx), v)"
    using cur by (auto simp: po)
  have chain: "po_chain po \<notin> set slow_chains \<union> {''SOL'', ''XRP''}"
    "po_currency po \<noteq> ''BTC'' \<or> \<not> truthy (cfg E ''REQUIRE_BTC_CONFIRMATIONS'')"
    using cur by (auto simp: po slow_chains_def)
  have pl': "find_plugin E (sub_currency r) (sub_chain_or_currency r) = Inr plugin"
    using pl by (simp add: assms(6))
  show ?thesis
    by (rule prisma_client.single_submission_recorded
        [OF assms(1-5) pl' assms(7,8) chain verified send txid assms(16)])
qed

section \<open>Properties\<close>

text \<open>
  C6. A correct payment is accepted on BCH, BSV, DASH, LTC and DOGE: for an unpaid invoice
  with one option in that coin, a transaction the chain's library decodes and whose outputs
  pay every expected one, sent through at least one provider, \<open>submitPayment\<close>
  (src/src/lib/pay/json_v2/protocol.ts) answers success; the payment row, the paid invoice
  with the transaction's id, the \<open>invoice.paid\<close> event to the topic and the owners, and the
  webhook job are all there, and nothing else.
\<close>

theorem utxo_payment_accepted:
  assumes "prisma_client P"
    and "invoice_at (sub_invoice_uid r) w i invoice" and "inv_id invoice = i" and "inv_status invoice = ''unpaid''"
    and "option_at r w k po" and "sub_chain_or_currency r = sub_currency r"
    and "sub_transactions r = [t]" and "sub_wallet r = None"
    and cur: "sub_currency r \<in> {''BCH'', ''BSV'', ''DASH'', ''LTC'', ''DOGE''}"
    and pl: "find_plugin E (sub_currency r) (sub_currency r) = Inr plugin"
    and tx: "bc_tx (plg_bitcore plugin) (tx_hex t) = Inr tx"
    and outs: "jsonV2_buildOutputs E po = Inr outs" and "outs \<noteq> []"
    and paid: "\<forall>out \<in> set outs. \<exists>a. target_address (bc_address (plg_bitcore plugin)) out = Inr (Some a) \<and>
          pays (stripped (bc_address (plg_bitcore plugin))) tx a (out_amount out)"
    and send: "plg_broadcastTx plugin t w = (Inr res, v)"
    and "hash_free (txid_of t tx) i w"
  shows "submitPayment E P r w = (Inr [tx_hex t], recorded po t (txid_of t tx) i invoice v)"
  by (rule utxo_accepted [OF assms])

text \<open>
  On Solana a wallet that sends the signed transaction without its id pays an invoice
  that stays unpaid: \<open>submitPayment\<close> (src/src/lib/pay/json_v2/protocol.ts) broadcasts,
  writes the text of an object as the invoice's hash, and then fails to find an id, because
  the plugin parses no payments. The money is sent, no payment row exists, the invoice is
  still unpaid, and its hash is one that no second invoice can have.
\<close>

theorem sol_payment_lost:
  assumes "prisma_client P"
    and "invoice_at (sub_invoice_uid r) w i invoice" and "inv_id invoice = i" and "inv_status invoice = ''unpaid''"
    and "option_at r w k po" and cur: "sub_currency r = ''SOL''" "sub_chain_or_currency r = ''SOL''"
    and t: "sub_transactions r = [t]" "\<not> truthy (tx_id t)" "length (tx_hex t) \<noteq> 66"
    and "solana_tx E (tx_hex t) = Inr ()" and "provider E (ticks w) ''alchemy'' ''SOL'' (tx_hex t) = Inr res"
    and "hash_free ''[object Object]'' i w"
  shows "submitPayment E P r w = (Inl JsTypeError, w\<lparr>
     broadcasts := broadcasts w @ [(''SOL'', tx_hex t)], ticks := Suc (ticks w),
     db_invoices := put (db_invoices w) i (Some (invoice\<lparr>inv_hash := Some ''[object Object]'', inv_updatedAt := now w\<rparr>))\<rparr>)"
proof -
  have pl: "find_plugin E (sub_currency r) (sub_chain_or_currency r) = Inr (SOL E)" by (simp add: cur)
  have po: "po_currency po = ''SOL''" "po_chain po = ''SOL''"
    using assms(5) by (simp_all add: only_row_def option_for_def cur)
  have row: "row (db_invoices w) i = Some invoice" using assms(2) by (rule only_rowD)
  have uq: "unique_hash (put (db_invoices w) i
      (Some (invoice\<lparr>inv_hash := Some ''[object Object]'', inv_updatedAt := now w\<rparr>)))"
    by (rule hash_free_unique [OF assms(13)]) simp
  have "payment_txid E ''SOL'' ''SOL'' t v = (Inl JsTypeError, v)" for v
    by (simp add: payment_txid_def t plugins_parsePayments_def with_plugin_def SOL_def io_simps)
  then have rec: "record_transaction E P po invoice t v = (Inl JsTypeError, v)" for v
    by (simp add: record_transaction_def po slow_chains_def completePayment_def Let_def bnd_run)
  have verified: "plg_verifyPayment (SOL E) po t w = (Inr True, w)"
    by (simp add: SOL_def SOL_verifyPayment_def validateTransaction_def assms(11) io_simps)
  have send: "plg_broadcastTx (SOL E) t w = (Inr \<lparr>br_txid = br_txid res, br_success = True\<rparr>,
      w\<lparr>broadcasts := broadcasts w @ [(''SOL'', tx_hex t)], ticks := Suc (ticks w)\<rparr>)"
    by (simp add: SOL_def SolanaPlugin_def Solana_broadcastTx_def assms(12) io_simps)
  show ?thesis
    by (simp add: prisma_client.submitPayment_run [OF assms(1,2,4,5) pl] t submit_transaction_def
        bnd_run verified send rec guard_io_run broadcast_transaction_def po set_invoice_hash_def
        reads_run ret_run prisma_client.update_invoices [OF assms(1)] assms(3) row uq)
qed

text \<open>
  On Fractal Bitcoin a failed broadcast still pays the invoice: for a transaction whose
  outputs pay what is expected, \<open>submitPayment\<close> (src/src/lib/pay/json_v2/protocol.ts) answers
  success and records the payment as paid although the only provider refused the
  transaction, because the plugin's result with \<open>success: false\<close> is not looked at.
\<close>

theorem fb_failed_broadcast_paid:
  assumes "prisma_client P" and "good_ext E"
    and "invoice_at (sub_invoice_uid r) w i invoice" and "inv_id invoice = i" and "inv_status invoice = ''unpaid''"
    and "option_at r w k po" and cur: "sub_currency r = ''FB''" "sub_chain_or_currency r = ''FB''"
    and t: "sub_transactions r = [t]" "sub_wallet r = None"
    and tx: "btcjs_tx E (tx_hex t) = Inr tx"
    and outs: "jsonV2_buildOutputs E po = Inr outs" and "outs \<noteq> []"
    and paid: "\<forall>out \<in> set outs. \<exists>a. BTC_target E out = Inr (Some a) \<and> pays (output_address E) tx a (out_amount out)"
    and fails: "provider E (ticks w) ''mempool.fractalbitcoin.io'' ''FB'' (tx_hex t) = Inl e"
    and "hash_free (txid_of t tx) i w"
  shows "submitPayment E P r w = (Inr [tx_hex t], recorded po t (txid_of t tx) i invoice
     (w\<lparr>ticks := Suc (ticks w), broadcasts := broadcasts w @ [(''FB'', tx_hex t)]\<rparr>))"
proof -
  have pl: "find_plugin E (sub_currency r) (sub_chain_or_currency r) = Inr (FB E)" by (simp add: cur)
  have po: "po_currency po = ''FB''" "po_chain po = ''FB''"
    using assms(6) by (simp_all add: only_row_def option_for_def cur)
  have verified: "plg_verifyPayment (FB E) po t w = (Inr True, w)"
    using tx outs paid by (simp add: FB_def class_defs Plugin_verifyPayment_def btc_verification)
  have "one_success E [Inr \<lparr>br_txid = [], br_success = False\<rparr>] = Inr \<lparr>br_txid = [], br_success = False\<rparr>"
    using assms(2) by (simp add: good_ext_def one_success_lib.single)
  then have send: "plg_broadcastTx (FB E) t w = (Inr \<lparr>br_txid = [], br_success = False\<rparr>,
      w\<lparr>ticks := Suc (ticks w), broadcasts := broadcasts w @ [(''FB'', tx_hex t)]\<rparr>)"
    by (simp add: FB_def class_defs FB_broadcastTx_def FB_provider_def fails io_simps)
  obtain out a where "out \<in> set outs" and "pays (output_address E) tx a (out_amount out)"
    using assms(13) paid by (cases outs) auto
  then have dec: "decode_outputs (output_address E) (utx_outputs tx) \<noteq> []" by (auto simp: pays_decoded)
  have parse: "plg_parsePayments (FB E) = BTC_parsePayments E ''FB'' ''FB''" by (simp add: FB_def class_defs)
  have pl': "find_plugin E ''FB'' ''FB'' = Inr (FB E)" by simp
  note txid = payment_txid_BTC [OF parse pl' tx dec]
  have txid': "payment_txid E (po_currency po) (payment_chain po) t v = (Inr (txid_of t tx), v)" for v
    using txid by (simp add: po)
  have chain: "po_chain po \<notin> set slow_chains \<union> {''SOL'', ''XRP''}"
    "po_currency po \<noteq> ''BTC'' \<or> \<not> truthy (cfg E ''REQUIRE_BTC_CONFIRMATIONS'')"
    by (simp_all add: po slow_chains_def)
  show ?thesis
    by (rule prisma_client.single_submission_recorded
        [OF assms(1,3-6) pl t chain verified send txid' assms(16)])
qed

section \<open>Witnesses\<close>

definition demo_submission :: "string \<Rightarrow> transaction list \<Rightarrow> submit_request" where
  "demo_submission currency ts = \<lparr>sub_invoice_uid = ''abc'', sub_currency = currency, sub_chain = None,
     sub_transactions = ts, sub_wallet = None\<rparr>"

definition offer_world :: "string \<Rightarrow> world" where
  "offer_world currency = demo_world\<lparr>db_payment_options :=
     [Some (demo_option\<lparr>po_currency := currency, po_chain := currency\<rparr>)]\<rparr>"

lemma demo_submission_fields [simp]:
  "sub_invoice_uid (demo_submission c ts) = ''abc''" "sub_currency (demo_submission c ts) = c"
  "sub_chain_or_currency (demo_submission c ts) = c" "sub_transactions (demo_submission c ts) = ts"
  "sub_wallet (demo_submission c ts) = None"
  by (simp_all add: demo_submission_def sub_chain_or_currency_def)

lemma offer_facts:
  "invoice_at (sub_invoice_uid (demo_submission c ts)) (offer_world c) 1 demo_invoice"
  "inv_id demo_invoice = 1" "inv_status demo_invoice = ''unpaid''"
  "option_at (demo_submission c ts) (offer_world c) 1
     (demo_option\<lparr>po_currency := c, po_chain := c\<rparr>)"
  "hash_free h 1 (offer_world c)"
proof -
  show "hash_free h 1 (offer_world c)"
    using demo_unique by (auto simp: hash_free_def offer_world_def demo_world_def row_def split: if_splits)
qed (simp_all add: offer_world_def demo_worlds demo_rows only_row_single option_for_def del: One_nat_def)

lemma demo_bch:
  "find_plugin demo_ext (sub_currency (demo_submission ''BCH'' ts))
     (sub_currency (demo_submission ''BCH'' ts)) = Inr (BCH demo_ext)"
  "find_plugin demo_ext (sub_currency (demo_submission ''BCH'' ts))
     (sub_chain_or_currency (demo_submission ''BCH'' ts)) = Inr (BCH demo_ext)"
  "bc_tx (plg_bitcore (BCH demo_ext)) h = Inr \<lparr>utx_hash = h, utx_outputs = [(''qaddr'', 5000)], utx_inputs = [0]\<rparr>"
  "bc_address (plg_bitcore (BCH demo_ext)) a = Inr a"
  by (simp_all add: BCH_def class_defs demo_ext_def)

lemma demo_outputs:
  "jsonV2_buildOutputs demo_ext (demo_option\<lparr>po_currency := c, po_chain := c\<rparr>) =
     Inr [\<lparr>out_address = Some ''qaddr'', out_amount = 5000, out_script = None\<rparr>]"
  by (simp add: jsonV2_buildOutputs_def demo_option_def)

lemma demo_pays:
  assumes "\<And>a. addr a = Inr a"
  shows "pays (stripped addr) \<lparr>utx_hash = h, utx_outputs = [(''qaddr'', 5000)], utx_inputs = [0]\<rparr> ''qaddr'' 5000"
    and "pays addr \<lparr>utx_hash = h, utx_outputs = [(''qaddr'', 5000)], utx_inputs = [0]\<rparr> ''qaddr'' 5000"
  by (simp_all add: pays_def stripped_def assms strip_scheme_def)

lemma demo_target:
  "(\<And>a. addr a = Inr a) \<Longrightarrow>
   target_address addr \<lparr>out_address = Some ''qaddr'', out_amount = v, out_script = None\<rparr> = Inr (Some ''qaddr'')"
  by (simp add: target_address_def)

lemma demo_bch_send:
  "plg_broadcastTx (BCH demo_ext) demo_tx w = (Inr \<lparr>br_txid = ''hex1'', br_success = True\<rparr>,
     w\<lparr>ticks := Suc (ticks w), broadcasts := broadcasts w @ [(''BCH'', ''hex1'')]\<rparr>)"
  by (simp add: BCH_def class_defs broadcast_to_def demo_ext_def demo_tx_def io_simps)

lemma demo_bch_outputs:
  "\<forall>out \<in> set [\<lparr>out_address = Some ''qaddr'', out_amount = 5000, out_script = None\<rparr>].
     \<exists>a. target_address (bc_address (plg_bitcore (BCH demo_ext))) out = Inr (Some a) \<and>
       pays (stripped (bc_address (plg_bitcore (BCH demo_ext))))
         \<lparr>utx_hash = h, utx_outputs = [(''qaddr'', 5000)], utx_inputs = [0]\<rparr> a (out_amount out)"
  using demo_pays(1) [of "bc_address (plg_bitcore (BCH demo_ext))"]
    demo_target [of "bc_address (plg_bitcore (BCH demo_ext))"]
  by (auto simp: demo_bch(4))

lemma demo_bch_currency: "sub_currency (demo_submission ''BCH'' ts) \<in> {''BCH'', ''BSV'', ''DASH'', ''LTC'', ''DOGE''}"
  "sub_chain_or_currency (demo_submission c ts) = sub_currency (demo_submission c ts)"
  by simp_all

lemmas demo_bch_args = prisma_client_pg offer_facts(1-4) demo_bch_currency(2) demo_submission_fields(4,5)
  demo_bch_currency(1) demo_bch(1) demo_bch(3) demo_outputs list.distinct(2) demo_bch_outputs demo_bch_send offer_facts(5)

theorem utxo_payment_accepted_witness:
  "fst (submitPayment demo_ext pg (demo_submission ''BCH'' [demo_tx]) (offer_world ''BCH'')) = Inr [''hex1'']"
  using utxo_payment_accepted [OF demo_bch_args] by (simp add: demo_tx_def)

lemma demo_bch_accepted:
  "\<exists>v. submitPayment demo_ext pg (demo_submission ''BCH'' [demo_tx]) (offer_world ''BCH'') = (Inr [''hex1''], v)"
  using utxo_accepted [OF demo_bch_args] by (auto simp: demo_tx_def)



theorem empty_submission_succeeds_witness:
  "submitPayment demo_ext pg (demo_submission ''BCH'' []) (offer_world ''BCH'') = (Inr [], offer_world ''BCH'')"
  by (rule empty_submission_succeeds [OF prisma_client_pg offer_facts(1,3,4) demo_bch(2)]) simp

theorem sol_payment_lost_witness:
  "fst (submitPayment demo_ext pg (demo_submission ''SOL'' [demo_tx]) (offer_world ''SOL'')) = Inl JsTypeError"
proof -
  have "\<not> truthy (tx_id demo_tx)" "length (tx_hex demo_tx) \<noteq> 66" "solana_tx demo_ext (tx_hex demo_tx) = Inr ()"
    "provider demo_ext n ''alchemy'' ''SOL'' (tx_hex demo_tx) = Inr \<lparr>br_txid = ''hex1'', br_success = True\<rparr>" for n
    by (simp_all add: demo_tx_def demo_ext_def)
  from sol_payment_lost [OF prisma_client_pg offer_facts(1-4) demo_submission_fields(2,3,4) this offer_facts(5)]
  show ?thesis by simp
qed

theorem fb_failed_broadcast_paid_witness:
  "fst (submitPayment (demo_ext\<lparr>provider := \<lambda>_ _ _ _. Inl no_answer\<rparr>) pg
     (demo_submission ''FB'' [demo_tx]) (offer_world ''FB'')) = Inr [''hex1'']"
proof -
  let ?E = "demo_ext\<lparr>provider := \<lambda>_ _ _ _. Inl no_answer\<rparr>"
  have E: "good_ext ?E" using good_demo_ext by (simp add: good_ext_def)
  have a: "btcjs_tx ?E (tx_hex demo_tx) = Inr \<lparr>utx_hash = ''hex1'', utx_outputs = [(''qaddr'', 5000)], utx_inputs = [0]\<rparr>"
    "jsonV2_buildOutputs ?E (demo_option\<lparr>po_currency := ''FB'', po_chain := ''FB''\<rparr>) =
       Inr [\<lparr>out_address = Some ''qaddr'', out_amount = 5000, out_script = None\<rparr>]"
    "provider ?E n s c h = Inl no_answer" for n s c h
    by (simp_all add: demo_tx_def demo_ext_def jsonV2_buildOutputs_def demo_option_def)
  have p: "\<forall>out \<in> set [\<lparr>out_address = Some ''qaddr'', out_amount = 5000, out_script = None\<rparr>].
     \<exists>a. BTC_target ?E out = Inr (Some a) \<and> pays (output_address ?E)
       \<lparr>utx_hash = ''hex1'', utx_outputs = [(''qaddr'', 5000)], utx_inputs = [0]\<rparr> a (out_amount out)"
    by (simp add: BTC_target_def pays_def output_address_def getTaprootAddressFromOutput_def demo_ext_def)
  from fb_failed_broadcast_paid [OF prisma_client_pg E offer_facts(1-4) demo_submission_fields(2-5)
      a(1,2) list.distinct(2) p a(3) offer_facts(5)]
  show ?thesis by (simp add: demo_tx_def)
qed

end
