(* ===== verification/Prices.thy ===== *)
theory Prices
  imports Plugins Webhooks "HOL-Library.List_Lexorder"
begin

text \<open>
  Prices and coins: \<open>src/lib/prices/index.ts\<close> and \<open>src/lib/coins.ts\<close>. A price column holds
  what \<open>setPrice\<close> wrote, a number of the source, so reading it back as a number is the
  identity. Dividing by a price of zero is \<open>Infinity\<close> in the source and left open here.
\<close>

section \<open>Conversion\<close>

record amount =
  amt_currency :: string
  amt_value :: num

definition MAX_DECIMALS :: nat where
  "MAX_DECIMALS = 8"

definition find_price :: "prisma \<Rightarrow> string \<Rightarrow> string \<Rightarrow> price option prog" where
  "find_price P base_currency currency =
     find_first (prisma_prices P) (\<lambda>p. prc_base_currency p = base_currency \<and> prc_currency p = currency)"

definition at_price :: "ext \<Rightarrow> num \<Rightarrow> num \<Rightarrow> num" where
  "at_price E price amount = bn_toNumber (bn E) (bn_dp (bn E) (bn_times (bn E) amount price) MAX_DECIMALS)"

definition at_inverse :: "ext \<Rightarrow> num \<Rightarrow> num \<Rightarrow> num" where
  "at_inverse E rate amount =
     bn_toNumber (bn E) (bn_dp (bn E) (bn_times (bn E) (bn_dividedBy (bn E) 1 rate) amount) MAX_DECIMALS)"

text \<open>The body of \<open>convert\<close> after its first step.\<close>

definition convert_direct :: "ext \<Rightarrow> prisma \<Rightarrow> amount \<Rightarrow> string \<Rightarrow> amount prog" where
  "convert_direct E P inputAmount outputCurrency =
     bnd (find_price P outputCurrency (amt_currency inputAmount)) (\<lambda>price.
     (case price of
        Some p \<Rightarrow> ret \<lparr>amt_currency = outputCurrency, amt_value = at_price E (prc_value p) (amt_value inputAmount)\<rparr>
      | None \<Rightarrow>
          bnd (find_price P (amt_currency inputAmount) outputCurrency) (\<lambda>inverse.
          (case inverse of
             None \<Rightarrow> throw (JsError (''no price for '' @ amt_currency inputAmount @ '' to '' @ outputCurrency))
           | Some p \<Rightarrow> ret \<lparr>amt_currency = outputCurrency,
               amt_value = at_inverse E (prc_value p) (amt_value inputAmount)\<rparr>))))"

text \<open>
  Neither side USD: the input is first converted to USD, by a recursive call whose own test
  fails.
\<close>

definition convert :: "ext \<Rightarrow> prisma \<Rightarrow> amount \<Rightarrow> string \<Rightarrow> amount prog" where
  "convert E P inputAmount outputCurrency =
     (if amt_currency inputAmount \<noteq> ''USD'' \<and> outputCurrency \<noteq> ''USD''
      then bnd (convert_direct E P inputAmount ''USD'') (\<lambda>inputAmount. convert_direct E P inputAmount outputCurrency)
      else convert_direct E P inputAmount outputCurrency)"

record conversion =
  cv_input :: amount
  cv_output :: amount
  cv_timestamp :: time

definition createConversion :: "ext \<Rightarrow> prisma \<Rightarrow> amount \<Rightarrow> string \<Rightarrow> conversion prog" where
  "createConversion E P inputAmount outputCurrency =
     bnd (convert E P inputAmount outputCurrency) (\<lambda>out.
     bnd (reads now) (\<lambda>timestamp.
     ret \<lparr>cv_input = inputAmount, cv_output = out, cv_timestamp = timestamp\<rparr>))"

section \<open>Setting prices\<close>

definition price_row :: "price_quote \<Rightarrow> num \<Rightarrow> time \<Rightarrow> nat \<Rightarrow> price" where
  "price_row q amount t i = \<lparr>prc_id = i, prc_currency = pq_currency q, prc_base_currency = pq_base_currency q,
     prc_value = amount, prc_source = pq_source q, prc_change_24hr = pq_change_24hr q, prc_updatedAt = t\<rparr>"

definition repriced :: "price_quote \<Rightarrow> num \<Rightarrow> time \<Rightarrow> price \<Rightarrow> price" where
  "repriced q amount t r = r\<lparr>prc_value := amount, prc_source := set_if (pq_source q) (prc_source r),
     prc_change_24hr := set_if (pq_change_24hr q) (prc_change_24hr r), prc_updatedAt := t\<rparr>"

text \<open>
  The result is the row that was found or created, not the one written. No schema is
  registered for \<open>price.updated\<close> and a price has no owner, so the event goes to one key.
\<close>

definition setPrice :: "ext \<Rightarrow> prisma \<Rightarrow> price_quote \<Rightarrow> price prog" where
  "setPrice E P q =
     (let amount = bn_toNumber (bn E) (bn_dp (bn E) (pq_value q) MAX_DECIMALS) in
      bnd (find_price P (pq_base_currency q) (pq_currency q)) (\<lambda>found.
      bnd (reads now) (\<lambda>t.
      bnd (case found of Some r \<Rightarrow> ret r
           | None \<Rightarrow> create_row (prisma_prices P) (price_row q amount t)) (\<lambda>r.
      bnd (create_row (prisma_price_records P) (price_row q amount t)) (\<lambda>_.
      bnd (case found of None \<Rightarrow> ret ()
           | Some _ \<Rightarrow> bnd (update_row (prisma_prices P) (prc_id r) (repriced q amount t)) (\<lambda>_. ret ())) (\<lambda>_.
      bnd (find_price P (pq_base_currency q) (pq_currency q)) (\<lambda>updatedRecord.
      bnd (case updatedRecord of None \<Rightarrow> ret ()
           | Some u \<Rightarrow> publish_raw ''price.updated'' (PriceMsg u)) (\<lambda>_.
      ret r))))))))"

definition crypto_quotes :: "ext \<Rightarrow> price_quote prog list" where
  "crypto_quotes E =
     [plugins_getPrice E ''BSV'' ''BSV'', plugins_getPrice E ''XRP'' ''XRP'', plugins_getPrice E ''FB'' ''FB''] @
     map (kraken_getPrice E) [''XMR'', ''DASH'', ''BTC'', ''BCH'', ''ETH'', ''SOL'', ''AVAX'', ''DOGE'', ''LTC'',
       ''ZEC'', ''XLM'']"

definition dollar_quote :: "string \<Rightarrow> price_quote" where
  "dollar_quote currency = \<lparr>pq_base_currency = ''USD'', pq_currency = currency, pq_value = 1,
     pq_source = Some ''hardcoded'', pq_change_24hr = Some 0\<rparr>"

text \<open>
  A quote that fails is skipped; \<open>return setPrice(\<dots>)\<close> is not awaited inside the \<open>try\<close>, so
  a price that cannot be stored is not.
\<close>

definition setAllCryptoPrices :: "ext \<Rightarrow> prisma \<Rightarrow> unit prog" where
  "setAllCryptoPrices E P =
     bnd (map_io (\<lambda>quote. catch (bnd quote (\<lambda>q. ret (Some q))) (\<lambda>_. ret None)) (crypto_quotes E)) (\<lambda>results.
     bnd (for_each (\<lambda>result. case result of None \<Rightarrow> ret ()
          | Some q \<Rightarrow> bnd (setPrice E P (q\<lparr>pq_base_currency := ''USD'',
              pq_source := Some (string_or_undefined (pq_source q))\<rparr>)) (\<lambda>_. ret ())) results) (\<lambda>_.
     bnd (setPrice E P (dollar_quote ''USDC'')) (\<lambda>_.
     bnd (setPrice E P (dollar_quote ''USDT'')) (\<lambda>_. ret ()))))"

definition setAllFiatPrices :: "ext \<Rightarrow> prisma \<Rightarrow> price list prog" where
  "setAllFiatPrices E P =
     bnd (ask (\<lambda>n. fiat_feed E n ''USD'')) (\<lambda>newPrices. map_io (setPrice E P) newPrices)"

section \<open>Coins\<close>

definition refreshCoins :: "prisma \<Rightarrow> coin list prog" where
  "refreshCoins P =
     bnd (find_many (prisma_coins P) (\<lambda>_. True)) (\<lambda>found.
     bnd (writes (\<lambda>w. w\<lparr>coins_cache := found\<rparr>)) (\<lambda>_. ret found))"

record coin_config =
  cc_code :: string
  cc_currency :: string
  cc_chain :: string
  cc_name :: string
  cc_supported :: "bool option"
  cc_icon :: "string option"
  cc_unavailable :: "bool option"

definition init_coin :: "prisma \<Rightarrow> coin_config \<Rightarrow> unit prog" where
  "init_coin P coin =
     bnd (find_first (prisma_coins P) (\<lambda>c. coin_code c = cc_code coin)) (\<lambda>existingCoin.
     (case existingCoin of
        Some _ \<Rightarrow> ret ()
      | None \<Rightarrow> bnd (create_row (prisma_coins P) (\<lambda>i. \<lparr>coin_id = i, coin_code = cc_code coin,
          coin_name = cc_name coin, coin_currency = Some (cc_currency coin), coin_chain = Some (cc_chain coin),
          coin_logo_url = cc_icon coin, coin_supported = cc_supported coin,
          coin_unavailable = cc_unavailable coin, coin_precision = None\<rparr>)) (\<lambda>_. ret ())))"

definition initFromConfig :: "prisma \<Rightarrow> coin_config list \<Rightarrow> coin list prog" where
  "initFromConfig P coinsConfig = bnd (for_each (init_coin P) coinsConfig) (\<lambda>_. refreshCoins P)"

definition getCoins :: "coin list prog" where
  "getCoins = reads coins_cache"

definition set_unavailable :: "prisma \<Rightarrow> bool \<Rightarrow> string \<Rightarrow> coin list prog" where
  "set_unavailable P b code =
     bnd (find_first (prisma_coins P) (\<lambda>c. coin_code c = code)) (\<lambda>found.
     (case found of
        None \<Rightarrow> throw (JsError (''Coin not found: '' @ code))
      | Some coin \<Rightarrow>
          bnd (update_row (prisma_coins P) (coin_id coin) (\<lambda>r. r\<lparr>coin_unavailable := Some b\<rparr>)) (\<lambda>_.
          refreshCoins P)))"

definition deactivateCoin :: "prisma \<Rightarrow> string \<Rightarrow> coin list prog" where
  "deactivateCoin P code = set_unavailable P True code"

definition activateCoin :: "prisma \<Rightarrow> string \<Rightarrow> coin list prog" where
  "activateCoin P code = set_unavailable P False code"

definition getCoin :: "string \<Rightarrow> coin option prog" where
  "getCoin currency = reads (\<lambda>w. find (\<lambda>c. coin_code c = currency) (coins_cache w))"

definition listPrices :: "prisma \<Rightarrow> price list prog" where
  "listPrices P =
     bnd (find_many (prisma_coins P) (\<lambda>_. True)) (\<lambda>coins.
     bnd (find_many (prisma_prices P) (\<lambda>p. prc_base_currency p = ''USD'' \<and> prc_currency p \<in> coin_code ` set coins)) (\<lambda>prices.
     ret (sort_key (\<lambda>p. map of_char (prc_currency p) :: nat list) prices)))"

section \<open>Facts\<close>

abbreviation price_at :: "string \<Rightarrow> string \<Rightarrow> world \<Rightarrow> nat \<Rightarrow> price \<Rightarrow> bool" where
  "price_at base currency w \<equiv>
     only_row (\<lambda>p. prc_base_currency p = base \<and> prc_currency p = currency) (db_prices w)"

context bignumber
begin

text \<open>Rounding to eight places, then to a double, is rounding to eight places below ten million.\<close>

lemma rounded_near:
  assumes "\<bar>x\<bar> \<le> 10 ^ 7 - 1"
  shows "\<bar>bn_toNumber B (bn_dp B x 8) - x\<bar> \<le> 1/2 / 10 ^ 8"
proof -
  obtain k where k: "bn_dp B x 8 = of_int k / 10 ^ 8" using dp_grid [of x 8] by blast
  define y :: rat where "y = of_int k / 10 ^ 8"
  have near: "\<bar>y - x\<bar> \<le> 1/2 / 10 ^ 8" using dp_error [of x 8] by (simp only: k y_def)
  then have "\<bar>y - x\<bar> \<le> 1" by (rule order_trans) simp
  with assms have "\<bar>y\<bar> \<le> 10 ^ 7" by linarith
  then have "\<bar>y\<bar> * 10 ^ 8 \<le> 10 ^ 7 * 10 ^ 8" by (rule mult_right_mono) simp
  moreover have "\<bar>y\<bar> * 10 ^ 8 = of_int \<bar>k\<bar>" by (simp add: y_def abs_divide)
  ultimately have "of_int \<bar>k\<bar> \<le> (of_int (10 ^ 15) :: rat)" by simp
  then have "\<bar>k\<bar> \<le> 10 ^ 15" by (simp only: of_int_le_iff)
  from toNumber_short [OF this, of 8] have "bn_toNumber B y = y" by (simp add: y_def)
  with near show ?thesis by (simp only: k y_def [symmetric])
qed

lemma reciprocal_near:
  assumes "r \<noteq> 0"
  shows "\<bar>bn_times B (bn_dividedBy B 1 r) v - v / r\<bar> \<le> \<bar>v\<bar> * (1/2 / 10 ^ 20)"
proof -
  have "bn_times B (bn_dividedBy B 1 r) v - v / r = (bn_dividedBy B 1 r - 1 / r) * v"
    by (simp add: times_exact algebra_simps)
  then have "\<bar>bn_times B (bn_dividedBy B 1 r) v - v / r\<bar> = \<bar>bn_dividedBy B 1 r - 1 / r\<bar> * \<bar>v\<bar>"
    by (simp only: abs_mult)
  also have "\<dots> \<le> (1/2 / 10 ^ 20) * \<bar>v\<bar>"
    by (rule mult_right_mono [OF dividedBy_error [OF assms]]) simp
  finally show ?thesis by (simp only: mult.commute)
qed

end

lemma near_trans: "\<bar>a - b\<bar> \<le> d \<Longrightarrow> \<bar>b - c\<bar> \<le> e \<Longrightarrow> \<bar>a - c\<bar> \<le> d + (e :: rat)"
  by linarith

lemma near_bound: "\<bar>a - b\<bar> \<le> d \<Longrightarrow> \<bar>b\<bar> + d \<le> m \<Longrightarrow> \<bar>a\<bar> \<le> (m :: rat)"
  by linarith

lemma at_price_near:
  assumes "bignumber (bn E)" and "\<bar>v * p\<bar> \<le> 10 ^ 7 - 1"
  shows "\<bar>at_price E p v - v * p\<bar> \<le> 1/2 / 10 ^ 8"
  using bignumber.rounded_near [OF assms(1), of "v * p"] assms(2)
  by (simp add: at_price_def MAX_DECIMALS_def bignumber.times_exact [OF assms(1)])

lemma at_inverse_near:
  assumes "bignumber (bn E)" and "p \<noteq> 0" and "\<bar>v / p\<bar> + \<bar>v\<bar> \<le> 10 ^ 7 - 1"
  shows "\<bar>at_inverse E p v - v / p\<bar> \<le> 1/2 / 10 ^ 8 + \<bar>v\<bar> * (1/2 / 10 ^ 20)"
proof -
  let ?x = "bn_times (bn E) (bn_dividedBy (bn E) 1 p) v"
  have near: "\<bar>?x - v / p\<bar> \<le> \<bar>v\<bar> * (1/2 / 10 ^ 20)"
    by (rule bignumber.reciprocal_near [OF assms(1,2)])
  also have "\<bar>v\<bar> * (1/2 / 10 ^ 20) \<le> \<bar>v\<bar> * 1" by (rule mult_left_mono) simp_all
  finally have "\<bar>?x - v / p\<bar> \<le> \<bar>v\<bar>" by (simp only: mult_1_right)
  from near_bound [OF this assms(3)] have "\<bar>?x\<bar> \<le> 10 ^ 7 - 1" .
  from near_trans [OF bignumber.rounded_near [OF assms(1) this] near] show ?thesis
    by (simp only: at_inverse_def MAX_DECIMALS_def)
qed

lemma convert_direct_cases:
  assumes "prisma_client P" and "convert_direct E P a out w = (Inr c, w')"
  obtains (price) p where "p \<in> set (rows (db_prices w))" "prc_base_currency p = out"
      "prc_currency p = amt_currency a" "c = \<lparr>amt_currency = out, amt_value = at_price E (prc_value p) (amt_value a)\<rparr>" "w' = w"
    | (inverse) p where "p \<in> set (rows (db_prices w))" "prc_base_currency p = amt_currency a"
      "prc_currency p = out" "c = \<lparr>amt_currency = out, amt_value = at_inverse E (prc_value p) (amt_value a)\<rparr>" "w' = w"
proof -
  have tpc: "table_client (api_prices P) no_constraint" using assms(1) by (simp add: prisma_client_def)
  note sound = table_client.first_sound [OF tpc]
  show thesis
  proof (cases "api_first (api_prices P) (\<lambda>p. prc_base_currency p = out \<and> prc_currency p = amt_currency a) (db_prices w)")
    case (Some p)
    from sound [OF this] Some assms(2) show ?thesis
      by (intro price [of p])
        (simp_all add: convert_direct_def find_price_def bnd_run find_first_run prisma_prices_def ret_run)
  next
    case None
    with assms(2) obtain p where p: "api_first (api_prices P)
        (\<lambda>p. prc_base_currency p = amt_currency a \<and> prc_currency p = out) (db_prices w) = Some p"
      and c: "c = \<lparr>amt_currency = out, amt_value = at_inverse E (prc_value p) (amt_value a)\<rparr>" "w' = w"
      by (auto simp: convert_direct_def find_price_def bnd_run find_first_run prisma_prices_def ret_run
          throw_run split: option.splits)
    from sound [OF p] c show ?thesis by (intro inverse [of p]) simp_all
  qed
qed

context prisma_client
begin

lemma find_price_run: "price_at base currency w i r \<Longrightarrow> find_price P base currency w = (Inr (Some r), w)"
  by (simp add: find_price_def find_first_run prisma_prices_def tpc.first_only)

lemma find_price_none:
  "(\<And>j x. row (db_prices w) j = Some x \<Longrightarrow> \<not> (prc_base_currency x = base \<and> prc_currency x = currency)) \<Longrightarrow>
   find_price P base currency w = (Inr None, w)"
  by (simp add: find_price_def find_first_run prisma_prices_def tpc.first_absent)

lemma setPrice_existing:
  fixes E q w
  defines "amount \<equiv> bn_toNumber (bn E) (bn_dp (bn E) (pq_value q) MAX_DECIMALS)"
  assumes at: "price_at (pq_base_currency q) (pq_currency q) w i r" and id: "prc_id r = i"
  shows "setPrice E P q w = (Inr r, w\<lparr>
     db_price_records := db_price_records w @ [Some (price_row q amount (now w) (next_id (db_price_records w)))],
     db_prices := put (db_prices w) i (Some (repriced q amount (now w) r)),
     published := published w @ [(''price.updated'', PriceMsg (repriced q amount (now w) r))]\<rparr>)"
proof -
  let ?u = "repriced q amount (now w) r"
  let ?v = "w\<lparr>db_price_records := db_price_records w @ [Some (price_row q amount (now w) (next_id (db_price_records w)))],
     db_prices := put (db_prices w) i (Some ?u)\<rparr>"
  have row: "row (db_prices w) i = Some r" using at by (rule only_rowD)
  have "price_at (pq_base_currency q) (pq_currency q) ?v i ?u"
    using only_row_put [OF at, of ?u] only_rowD(2) [OF at] by (simp add: repriced_def)
  from find_price_run [OF this] find_price_run [OF at] show ?thesis
    by (simp add: setPrice_def Let_def bnd_run reads_run ret_run create_price_records update_prices
        id row publish_raw_run amount_def)
qed

lemma setPrice_new:
  fixes E q w
  defines "amount \<equiv> bn_toNumber (bn E) (bn_dp (bn E) (pq_value q) MAX_DECIMALS)"
  assumes none: "\<And>j x. row (db_prices w) j = Some x \<Longrightarrow>
    \<not> (prc_base_currency x = pq_base_currency q \<and> prc_currency x = pq_currency q)"
  shows "setPrice E P q w = (Inr (price_row q amount (now w) (next_id (db_prices w))), w\<lparr>
     db_prices := db_prices w @ [Some (price_row q amount (now w) (next_id (db_prices w)))],
     db_price_records := db_price_records w @ [Some (price_row q amount (now w) (next_id (db_price_records w)))],
     published := published w @ [(''price.updated'', PriceMsg (price_row q amount (now w) (next_id (db_prices w))))]\<rparr>)"
proof -
  let ?u = "price_row q amount (now w) (next_id (db_prices w))"
  let ?v = "w\<lparr>db_prices := db_prices w @ [Some ?u],
     db_price_records := db_price_records w @ [Some (price_row q amount (now w) (next_id (db_price_records w)))]\<rparr>"
  have "price_at (pq_base_currency q) (pq_currency q) ?v (next_id (db_prices w)) ?u"
    using only_row_fresh [of "\<lambda>p. prc_base_currency p = pq_base_currency q \<and> prc_currency p = pq_currency q" ?u "db_prices w"] none
    by (simp add: price_row_def)
  from find_price_run [OF this] find_price_none [OF none] show ?thesis
    by (simp add: setPrice_def Let_def bnd_run reads_run ret_run create_prices create_price_records
        publish_raw_run amount_def)
qed

lemma convert_direct_price:
  "price_at out (amt_currency a) w i p \<Longrightarrow>
   convert_direct E P a out w = (Inr \<lparr>amt_currency = out, amt_value = at_price E (prc_value p) (amt_value a)\<rparr>, w)"
  by (simp add: convert_direct_def bnd_run find_price_run ret_run)

end

text \<open>At most one row for a pair.\<close>

definition one_price :: "string \<Rightarrow> string \<Rightarrow> price table \<Rightarrow> bool" where
  "one_price base currency t \<longleftrightarrow> (\<forall>i j x y. row t i = Some x \<longrightarrow> row t j = Some y \<longrightarrow>
     prc_base_currency x = base \<and> prc_currency x = currency \<longrightarrow>
     prc_base_currency y = base \<and> prc_currency y = currency \<longrightarrow> i = j)"

lemma setPrice_stores:
  assumes "prisma_client P" and "ids_ok prc_id (db_prices w)"
    and one: "one_price (pq_base_currency q) (pq_currency q) (db_prices w)"
  shows "\<exists>r u h v. setPrice E P q w = (Inr r, v) \<and>
    prc_value u = bn_toNumber (bn E) (bn_dp (bn E) (pq_value q) MAX_DECIMALS) \<and> prc_value h = prc_value u \<and>
    price_at (pq_base_currency q) (pq_currency q) v (prc_id u) u \<and>
    db_price_records v = db_price_records w @ [Some h] \<and>
    published v = published w @ [(''price.updated'', PriceMsg u)] \<and>
    (\<forall>i r'. price_at (pq_base_currency q) (pq_currency q) w i r' \<longrightarrow> r = r')"
proof (cases "\<exists>i r. row (db_prices w) i = Some r \<and> prc_base_currency r = pq_base_currency q \<and> prc_currency r = pq_currency q")
  case True
  then obtain i r where r: "row (db_prices w) i = Some r" "prc_base_currency r = pq_base_currency q"
    "prc_currency r = pq_currency q" by blast
  then have at: "price_at (pq_base_currency q) (pq_currency q) w i r"
    using one r unfolding only_row_def one_price_def by blast
  have id: "prc_id r = i" by (rule ids_okD [OF assms(2) r(1)])
  have same: "r' = r" if "price_at (pq_base_currency q) (pq_currency q) w j r'" for j r'
    using that at unfolding only_row_def by (metis option.inject)
  show ?thesis
    unfolding prisma_client.setPrice_existing [OF assms(1) at id]
  proof (intro exI conjI, rule refl)
    let ?rate = "bn_toNumber (bn E) (bn_dp (bn E) (pq_value q) MAX_DECIMALS)"
    let ?u = "repriced q ?rate (now w) r"
    show "prc_value ?u = ?rate" and "prc_value (price_row q ?rate (now w) (next_id (db_price_records w))) = prc_value ?u"
      by (simp_all add: repriced_def price_row_def)
    have "only_row (\<lambda>p. prc_base_currency p = pq_base_currency q \<and> prc_currency p = pq_currency q)
        (put (db_prices w) i (Some ?u)) i ?u"
      by (rule only_row_put [OF at]) (simp add: repriced_def r)
    then show "price_at (pq_base_currency q) (pq_currency q) (w\<lparr>
        db_price_records := db_price_records w @ [Some (price_row q ?rate (now w) (next_id (db_price_records w)))],
        db_prices := put (db_prices w) i (Some ?u),
        published := published w @ [(''price.updated'', PriceMsg ?u)]\<rparr>) (prc_id ?u) ?u"
      by (simp add: repriced_def id)
    show "\<forall>i r'. price_at (pq_base_currency q) (pq_currency q) w i r' \<longrightarrow> r = r'"
      using same by blast
  qed simp_all
next
  case False
  then have none: "\<not> (prc_base_currency x = pq_base_currency q \<and> prc_currency x = pq_currency q)"
    if "row (db_prices w) j = Some x" for j x using that by blast
  note run = prisma_client.setPrice_new [OF assms(1), where E = E and q = q and w = w, OF none]
  show ?thesis
  proof (intro exI conjI, rule run)
    let ?rate = "bn_toNumber (bn E) (bn_dp (bn E) (pq_value q) MAX_DECIMALS)"
    let ?u = "price_row q ?rate (now w) (next_id (db_prices w))"
    show "prc_value ?u = ?rate" and "prc_value (price_row q ?rate (now w) (next_id (db_price_records w))) = prc_value ?u"
      by (simp_all add: price_row_def)
    have "only_row (\<lambda>p. prc_base_currency p = pq_base_currency q \<and> prc_currency p = pq_currency q)
        (db_prices w @ [Some ?u]) (next_id (db_prices w)) ?u"
      by (rule only_row_fresh) (use none in \<open>auto simp: price_row_def\<close>)
    then show "price_at (pq_base_currency q) (pq_currency q) (w\<lparr>
        db_prices := db_prices w @ [Some ?u],
        db_price_records := db_price_records w @ [Some (price_row q ?rate (now w) (next_id (db_price_records w)))],
        published := published w @ [(''price.updated'', PriceMsg ?u)]\<rparr>) (prc_id ?u) ?u"
      by (simp add: price_row_def)
    show "\<forall>i r'. price_at (pq_base_currency q) (pq_currency q) w i r' \<longrightarrow> ?u = r'"
      using none by (auto simp: only_row_def)
  qed simp_all
qed

section \<open>Properties\<close>

text \<open>
  C23. \<open>convert\<close> (src/src/lib/prices/index.ts) between USD and another currency uses a stored
  price of the pair, or the reciprocal of the reverse one, and for results below ten
  million is exact to half a unit of the eighth decimal (plus, for a reciprocal, the rounding
  of the division to twenty decimals). It changes nothing, and the result is in the
  currency asked for.
\<close>

theorem convert_accuracy:
  assumes "prisma_client P" and "good_ext E" and "amt_currency a = ''USD'' \<or> out = ''USD''"
    and "convert E P a out w = (Inr c, w')"
  shows "w' = w \<and> amt_currency c = out \<and>
    (\<exists>p \<in> set (rows (db_prices w)).
      prc_base_currency p = out \<and> prc_currency p = amt_currency a \<and>
        (\<bar>amt_value a * prc_value p\<bar> \<le> 10 ^ 7 - 1 \<longrightarrow>
         \<bar>amt_value c - amt_value a * prc_value p\<bar> \<le> 1/2 / 10 ^ 8) \<or>
      prc_base_currency p = amt_currency a \<and> prc_currency p = out \<and>
        (prc_value p \<noteq> 0 \<and> \<bar>amt_value a / prc_value p\<bar> + \<bar>amt_value a\<bar> \<le> 10 ^ 7 - 1 \<longrightarrow>
         \<bar>amt_value c - amt_value a / prc_value p\<bar> \<le> 1/2 / 10 ^ 8 + \<bar>amt_value a\<bar> * (1/2 / 10 ^ 20)))"
proof -
  have bn: "bignumber (bn E)" using assms(2) by (simp add: good_ext_def)
  have "convert_direct E P a out w = (Inr c, w')"
    using assms(3,4) by (auto simp: convert_def split: if_splits)
  with assms(1) show ?thesis
  proof (cases rule: convert_direct_cases)
    case (price p)
    then show ?thesis using at_price_near [OF bn, of "amt_value a" "prc_value p"] by auto
  next
    case (inverse p)
    then show ?thesis using at_inverse_near [OF bn, of "prc_value p" "amt_value a"] by auto
  qed
qed

text \<open>
  \<open>setPrice\<close> (src/src/lib/prices/index.ts) keeps one row per pair, whether it creates or
  updates it: afterwards the pair's only row holds the amount rounded to eight decimals, the
  history has one more row with the same amount, \<open>price.updated\<close> carries the stored row, and
  converting one currency of the pair to the other uses it. The call returns the row as it
  was found, so after an update it returns the old price.
\<close>

theorem setPrice_then_convert:
  assumes "prisma_client P" and "ids_ok prc_id (db_prices w)"
    and "one_price (pq_base_currency q) (pq_currency q) (db_prices w)"
    and "pq_base_currency q = ''USD'' \<or> pq_currency q = ''USD''"
  shows "\<exists>r u h v. setPrice E P q w = (Inr r, v) \<and>
    prc_value u = bn_toNumber (bn E) (bn_dp (bn E) (pq_value q) MAX_DECIMALS) \<and> prc_value h = prc_value u \<and>
    price_at (pq_base_currency q) (pq_currency q) v (prc_id u) u \<and>
    db_price_records v = db_price_records w @ [Some h] \<and>
    published v = published w @ [(''price.updated'', PriceMsg u)] \<and>
    (\<forall>i r'. price_at (pq_base_currency q) (pq_currency q) w i r' \<longrightarrow> r = r') \<and>
    (\<forall>x. convert E P \<lparr>amt_currency = pq_currency q, amt_value = x\<rparr> (pq_base_currency q) v =
       (Inr \<lparr>amt_currency = pq_base_currency q, amt_value = at_price E (prc_value u) x\<rparr>, v))"
proof -
  obtain r u h v where s: "setPrice E P q w = (Inr r, v)"
    "prc_value u = bn_toNumber (bn E) (bn_dp (bn E) (pq_value q) MAX_DECIMALS)" "prc_value h = prc_value u"
    and at: "price_at (pq_base_currency q) (pq_currency q) v (prc_id u) u"
    and rest: "db_price_records v = db_price_records w @ [Some h]"
    "published v = published w @ [(''price.updated'', PriceMsg u)]"
    "\<forall>i r'. price_at (pq_base_currency q) (pq_currency q) w i r' \<longrightarrow> r = r'"
    using setPrice_stores [OF assms(1-3), where E = E] by blast
  have "convert E P \<lparr>amt_currency = pq_currency q, amt_value = x\<rparr> (pq_base_currency q) v =
       (Inr \<lparr>amt_currency = pq_base_currency q, amt_value = at_price E (prc_value u) x\<rparr>, v)" for x
    using assms(4) prisma_client.convert_direct_price [OF assms(1), of "pq_base_currency q"
        "\<lparr>amt_currency = pq_currency q, amt_value = x\<rparr>" v "prc_id u" u] at
    by (auto simp: convert_def)
  with s at rest show ?thesis by blast
qed

section \<open>Witnesses\<close>

definition priced_world :: world where
  "priced_world = demo_world\<lparr>db_prices := [Some \<lparr>prc_id = 1, prc_currency = ''BCH'', prc_base_currency = ''USD'',
     prc_value = 200, prc_source = None, prc_change_24hr = None, prc_updatedAt = 0\<rparr>]\<rparr>"

definition demo_quote :: price_quote where
  "demo_quote = \<lparr>pq_base_currency = ''USD'', pq_currency = ''BCH'', pq_value = 250, pq_source = None, pq_change_24hr = None\<rparr>"

lemma demo_to_usd:
  "convert demo_ext pg \<lparr>amt_currency = ''BCH'', amt_value = 3\<rparr> ''USD'' priced_world =
     (Inr \<lparr>amt_currency = ''USD'', amt_value = at_price demo_ext 200 3\<rparr>, priced_world)"
proof -
  have "price_at ''USD'' ''BCH'' priced_world 1 \<lparr>prc_id = 1, prc_currency = ''BCH'', prc_base_currency = ''USD'',
     prc_value = 200, prc_source = None, prc_change_24hr = None, prc_updatedAt = 0\<rparr>"
    by (simp add: priced_world_def only_row_def row_def)
  then show ?thesis
    using pg_client.convert_direct_price [of "''USD''" "\<lparr>amt_currency = ''BCH'', amt_value = 3\<rparr>" priced_world 1]
    by (simp add: convert_def)
qed

theorem convert_accuracy_witness:
  "\<exists>c. convert demo_ext pg \<lparr>amt_currency = ''BCH'', amt_value = 3\<rparr> ''USD'' priced_world = (Inr c, priced_world) \<and>
     \<bar>amt_value c - 600\<bar> \<le> 1/2 / 10 ^ 8"
proof -
  have usd: "amt_currency \<lparr>amt_currency = ''BCH'', amt_value = 3\<rparr> = ''USD'' \<or> ''USD'' = ''USD''" by simp
  show ?thesis
    using convert_accuracy [OF prisma_client_pg good_demo_ext usd demo_to_usd] demo_to_usd
    by (auto simp: priced_world_def)
qed

theorem setPrice_then_convert_witness:
  "\<exists>u v. snd (setPrice demo_ext pg demo_quote priced_world) = v \<and>
     published v = published priced_world @ [(''price.updated'', PriceMsg u)]"
proof -
  have "ids_ok prc_id (db_prices priced_world)" by (simp add: priced_world_def ids_ok_def row_def)
  moreover have "one_price b c (db_prices priced_world)" for b c
    by (auto simp: one_price_def priced_world_def row_def split: if_splits)
  moreover have "pq_base_currency demo_quote = ''USD'' \<or> pq_currency demo_quote = ''USD''"
    by (simp add: demo_quote_def)
  ultimately show ?thesis
    using setPrice_then_convert [OF prisma_client_pg, where w = priced_world and q = demo_quote and E = demo_ext]
    by force
qed

end
