(* ===== verification/Addresses.thy ===== *)
theory Addresses
  imports Prices
begin

text \<open>
  Where an account wants to be paid: \<open>src/lib/core.ts\<close> and \<open>src/lib/addresses.ts\<close>. The
  address a class method throws away is a plain record here, and the transformed address
  goes through the plugin of the chain.
\<close>

record address_changeset =
  acs_account_id :: nat
  acs_currency :: string
  acs_chain :: string
  acs_address :: string
  acs_paymail :: "string option"
  acs_view_key :: "string option"

definition address_of :: "prisma \<Rightarrow> nat \<Rightarrow> string \<Rightarrow> string \<Rightarrow> address option prog" where
  "address_of P account_id currency chain =
     find_first (prisma_addresses P) (\<lambda>a. adr_account_id a = Some account_id \<and>
       adr_currency a = currency \<and> adr_chain a = chain)"

definition address_of_or_throw :: "prisma \<Rightarrow> nat \<Rightarrow> string \<Rightarrow> string \<Rightarrow> address prog" where
  "address_of_or_throw P account_id currency chain =
     find_first_or_throw (prisma_addresses P) (\<lambda>a. adr_account_id a = Some account_id \<and>
       adr_currency a = currency \<and> adr_chain a = chain)"

section \<open>core.ts\<close>

definition core_setAddress :: "ext \<Rightarrow> prisma \<Rightarrow> address_changeset \<Rightarrow> address prog" where
  "core_setAddress E P changeset =
     bnd (lift_result (find_plugin E (acs_currency changeset) (acs_chain changeset))) (\<lambda>plugin.
     let paymail = (if CHR ''@'' \<in> set (acs_address changeset) then Some (acs_address changeset)
          else acs_paymail changeset) in
     bnd (plg_transformAddress plugin (acs_address changeset)) (\<lambda>value.
     bnd (plg_validateAddress plugin value) (\<lambda>isValid.
     bnd (guard_io isValid (JsError (''invalid '' @ acs_currency changeset @ '' address''))) (\<lambda>_.
     bnd (address_of P (acs_account_id changeset) (acs_currency changeset) (acs_chain changeset)) (\<lambda>found.
     (case found of
        Some r \<Rightarrow>
          bnd (guard_io (\<not> adr_locked r) (JsError (acs_currency changeset @ '' address locked''))) (\<lambda>_.
          update_row (prisma_addresses P) (adr_id r) (\<lambda>r. r\<lparr>adr_value := Some value,
            adr_paymail := set_if paymail (adr_paymail r), adr_view_key := set_if (acs_view_key changeset) (adr_view_key r),
            adr_note := None\<rparr>))
      | None \<Rightarrow>
          create_row (prisma_addresses P) (\<lambda>i. \<lparr>adr_id = i, adr_account_id = Some (acs_account_id changeset),
            adr_currency = acs_currency changeset, adr_chain = acs_chain changeset, adr_value = Some value,
            adr_view_key = acs_view_key changeset, adr_paymail = paymail, adr_note = None,
            adr_locked = False\<rparr>)))))))"

text \<open>Any chain: the first address of the account in the currency goes.\<close>

definition unsetAddress :: "prisma \<Rightarrow> nat \<Rightarrow> string \<Rightarrow> unit prog" where
  "unsetAddress P account_id currency =
     bnd (find_first_or_throw (prisma_addresses P) (\<lambda>a. adr_account_id a = Some account_id \<and>
            adr_currency a = currency)) (\<lambda>r.
     bnd (guard_io (\<not> adr_locked r) (JsError (currency @ '' address locked''))) (\<lambda>_.
     bnd (delete_row (prisma_addresses P) (adr_id r)) (\<lambda>_. ret ())))"

definition setDenomination :: "prisma \<Rightarrow> nat \<Rightarrow> string \<Rightarrow> unit prog" where
  "setDenomination P account_id currency =
     bnd (update_row (prisma_accounts P) account_id (\<lambda>r. r\<lparr>acc_denomination := Some currency\<rparr>)) (\<lambda>_. ret ())"

section \<open>addresses.ts\<close>

definition lockAddress :: "prisma \<Rightarrow> nat \<Rightarrow> string \<Rightarrow> string \<Rightarrow> address prog" where
  "lockAddress P account_id currency chain =
     bnd (address_of_or_throw P account_id currency chain) (\<lambda>r.
     update_row (prisma_addresses P) (adr_id r) (\<lambda>r. r\<lparr>adr_locked := True\<rparr>))"

definition unlockAddress :: "prisma \<Rightarrow> nat \<Rightarrow> string \<Rightarrow> string \<Rightarrow> address prog" where
  "unlockAddress P account_id currency chain =
     bnd (address_of_or_throw P account_id currency chain) (\<lambda>r.
     update_row (prisma_addresses P) (adr_id r) (\<lambda>r. r\<lparr>adr_locked := False\<rparr>))"

text \<open>The paymail a caller gives is not passed on.\<close>

definition setAddress ::
  "ext \<Rightarrow> prisma \<Rightarrow> account \<Rightarrow> string \<Rightarrow> string \<Rightarrow> string \<Rightarrow> string option \<Rightarrow> address prog" where
  "setAddress E P account currency chain value view_key =
     core_setAddress E P \<lparr>acs_account_id = acc_id account, acs_currency = currency, acs_chain = chain,
       acs_address = value, acs_paymail = None, acs_view_key = view_key\<rparr>"

definition removeAddress :: "prisma \<Rightarrow> account \<Rightarrow> string \<Rightarrow> string \<Rightarrow> unit prog" where
  "removeAddress P account currency chain =
     bnd (address_of_or_throw P (acc_id account) currency chain) (\<lambda>r.
     bnd (delete_row (prisma_addresses P) (adr_id r)) (\<lambda>_. ret ()))"

definition findAddress :: "prisma \<Rightarrow> account \<Rightarrow> string \<Rightarrow> string \<Rightarrow> address prog" where
  "findAddress P account currency chain =
     bnd (address_of P (acc_id account) currency chain) (\<lambda>found.
     (case found of
        None \<Rightarrow> throw (JsError (currency @ '' address not found for account '' @ decimal (acc_id account) @
          '' on '' @ chain))
      | Some r \<Rightarrow> ret r))"

record address_config =
  ac_currency :: string
  ac_chain :: string
  ac_code :: string
  ac_name :: string
  ac_enabled :: bool
  ac_icon :: string
  ac_price :: "num option"
  ac_address :: "string option"
  ac_paymail :: "string option"
  ac_note :: "string option"

definition code_of :: "string \<Rightarrow> string \<Rightarrow> string" where
  "code_of currency chain = currency @ ''_'' @ chain"

text \<open>\<open>map[code] = record\<close> in a reduce: the last record with a code counts.\<close>

definition last_with_code :: "address list \<Rightarrow> string \<Rightarrow> address option" where
  "last_with_code records code = find (\<lambda>r. code_of (adr_currency r) (adr_chain r) = code) (rev records)"

definition present :: "string option \<Rightarrow> string option" where
  "present x = (if truthy x then x else None)"

definition address_config_of :: "ext \<Rightarrow> prisma \<Rightarrow> address list \<Rightarrow> coin \<Rightarrow> address_config prog" where
  "address_config_of E P records coin =
     (let currency = js_String (coin_currency coin);
          chain = js_String (coin_chain coin);
          code = code_of currency chain;
          r = last_with_code records code in
      bnd (catch (bnd (convert E P \<lparr>amt_currency = currency, amt_value = 1\<rparr> ''USD'') (\<lambda>a. ret (Some (amt_value a))))
             (\<lambda>_. ret None)) (\<lambda>price.
      ret \<lparr>ac_currency = currency, ac_chain = chain, ac_code = code, ac_name = coin_name coin,
        ac_enabled = (coin_supported coin = Some True), ac_icon = js_String (coin_logo_url coin), ac_price = price,
        ac_address = (case r of None \<Rightarrow> None | Some a \<Rightarrow> present (adr_value a)),
        ac_paymail = (case r of None \<Rightarrow> None | Some a \<Rightarrow> present (adr_paymail a)),
        ac_note = (case r of None \<Rightarrow> None | Some a \<Rightarrow> present (adr_note a))\<rparr>))"

definition listAddresses :: "ext \<Rightarrow> prisma \<Rightarrow> account \<Rightarrow> address_config list prog" where
  "listAddresses E P account =
     bnd (find_many (prisma_addresses P) (\<lambda>a. adr_account_id a = Some (acc_id account))) (\<lambda>records.
     bnd getCoins (\<lambda>coins. map_io (address_config_of E P records) coins))"

end
