(* ===== verification/AddressFacts.thy ===== *)
theory AddressFacts
  imports Addresses Quiet
begin

text \<open>
  What locking an address protects it from.
\<close>

section \<open>Plugins reading an address\<close>

lemma silent_address_methods:
  "follows silent (Plugin_transformAddress a)" "follows silent (BSV_transformAddress E a)"
  "follows silent (BTC_validateAddress E a)" "follows silent (BCH_validateAddress E a)"
  unfolding Plugin_transformAddress_def BSV_transformAddress_def BTC_validateAddress_def BCH_validateAddress_def
  by (intro silent.follows_rules silent_ask)+

lemma plugins_read_addresses:
  "\<forall>p \<in> snd ` set (plugins E). \<forall>a. follows silent (plg_transformAddress p a) \<and> follows silent (plg_validateAddress p a)"
  by (simp add: plugins_def utxo_plugins evm_plugins erc20_plugins other_plugins class_defs throws
      silent_address_methods silent_methods)

lemma found_plugin_reads:
  assumes "find_plugin E currency chain = Inr p"
  shows "follows silent (plg_transformAddress p a)" and "follows silent (plg_validateAddress p a)"
proof -
  have "p \<in> snd ` set (plugins E)" using assms by (force simp: find_plugin_iff)
  with plugins_read_addresses show "follows silent (plg_transformAddress p a)"
    and "follows silent (plg_validateAddress p a)" by blast+
qed

section \<open>Setting an address\<close>

abbreviation address_at :: "nat \<Rightarrow> string \<Rightarrow> string \<Rightarrow> world \<Rightarrow> nat \<Rightarrow> address \<Rightarrow> bool" where
  "address_at account_id currency chain w \<equiv>
     only_row (\<lambda>a. adr_account_id a = Some account_id \<and> adr_currency a = currency \<and> adr_chain a = chain) (db_addresses w)"

text \<open>The part of \<open>core_setAddress\<close> after the checks, as a function of the address that is valid.\<close>

lemma silentD: "follows silent m \<Longrightarrow> m w = (r, v) \<Longrightarrow> \<exists>n. v = w\<lparr>ticks := n\<rparr>"
  unfolding follows_def silent_def by (metis snd_conv)

context prisma_client
begin

lemma address_of_run:
  "address_at i currency chain w k r \<Longrightarrow> address_of P i currency chain w = (Inr (Some r), w)"
  "(\<And>j x. row (db_addresses w) j = Some x \<Longrightarrow>
     \<not> (adr_account_id x = Some i \<and> adr_currency x = currency \<and> adr_chain x = chain)) \<Longrightarrow>
   address_of P i currency chain w = (Inr None, w)"
  "address_at i currency chain w k r \<Longrightarrow> address_of_or_throw P i currency chain w = (Inr r, w)"
  by (simp_all add: address_of_def address_of_or_throw_def find_first_run find_first_or_throw_run prisma_addresses_def
      tad.first_only tad.first_absent)

lemma locked_not_set:
  assumes "address_at (acc_id account) currency chain w k r" and "adr_locked r"
  shows "\<exists>e n. setAddress E P account currency chain value view_key w = (Inl e, w\<lparr>ticks := n\<rparr>)"
proof (cases "find_plugin E currency chain")
  case (Inl e)
  then show ?thesis
    by (auto simp: setAddress_def core_setAddress_def bnd_run lift_result_run intro: exI [of _ "ticks w"])
next
  case (Inr plugin)
  obtain t w1 where t: "plg_transformAddress plugin value w = (t, w1)" by (cases "plg_transformAddress plugin value w")
  obtain n where w1: "w1 = w\<lparr>ticks := n\<rparr>" using silentD [OF found_plugin_reads(1) [OF Inr] t] by blast
  show ?thesis
  proof (cases t)
    case (Inl e)
    then show ?thesis
      by (auto simp: setAddress_def core_setAddress_def bnd_run lift_result_run Inr t w1 Let_def)
  next
    case new: (Inr new)
    obtain x w2 where x: "plg_validateAddress plugin new w1 = (x, w2)" by (cases "plg_validateAddress plugin new w1")
    obtain m where w2: "w2 = w\<lparr>ticks := m\<rparr>" using silentD [OF found_plugin_reads(2) [OF Inr] x] by (auto simp: w1)
    have "address_of P (acc_id account) currency chain w2 = (Inr (Some r), w2)"
      using assms(1) by (intro address_of_run(1)) (simp add: w2)
    then show ?thesis
      using assms(2) x
      by (cases x) (auto simp: setAddress_def core_setAddress_def bnd_run lift_result_run guard_io_run Inr t new Let_def w2)
  qed
qed

lemma unset_is_set:
  assumes "\<And>j x. row (db_addresses w) j = Some x \<Longrightarrow>
      \<not> (adr_account_id x = Some (acc_id account) \<and> adr_currency x = currency \<and> adr_chain x = chain)"
    and plugin: "find_plugin E currency chain = Inr plugin"
    and t: "plg_transformAddress plugin value w = (Inr new, w1)" and x: "plg_validateAddress plugin new w1 = (Inr True, w2)"
  shows "\<exists>r. setAddress E P account currency chain value view_key w =
      (Inr r, w2\<lparr>db_addresses := db_addresses w @ [Some r]\<rparr>) \<and> adr_value r = Some new \<and> \<not> adr_locked r"
proof -
  obtain n where "w1 = w\<lparr>ticks := n\<rparr>" using silentD [OF found_plugin_reads(1) [OF plugin] t] by blast
  then obtain m where w2: "w2 = w\<lparr>ticks := m\<rparr>" using silentD [OF found_plugin_reads(2) [OF plugin] x] by auto
  have "address_of P (acc_id account) currency chain w2 = (Inr None, w2)"
    by (rule address_of_run(2)) (use assms(1) in \<open>auto simp: w2\<close>)
  then show ?thesis
    by (simp add: setAddress_def core_setAddress_def bnd_run lift_result_run guard_io_run plugin t x Let_def
        create_addresses w2)
qed

lemma removeAddress_run:
  assumes "address_at (acc_id account) currency chain w i r" and "adr_id r = i"
  shows "removeAddress P account currency chain w = (Inr (), w\<lparr>db_addresses := put (db_addresses w) i None\<rparr>)"
  using only_rowD(1) [OF assms(1)]
  by (simp add: removeAddress_def bnd_run address_of_run(3) [OF assms(1)] assms(2) ret_run
      tad.delete_run prisma_addresses_def)

end

section \<open>Properties\<close>

text \<open>
  C27. A locked address cannot be set, but it can be removed: \<open>setAddress\<close>
  (src/src/lib/addresses.ts, src/src/lib/core.ts) fails for it and changes nothing, but
  \<open>removeAddress\<close> does not look at the lock, and after it \<open>setAddress\<close> stores any address the
  plugin takes, unlocked. So the lock does not keep payments at the locked address.
\<close>

theorem lock_guards_only_setting:
  assumes "prisma_client P" and "address_at (acc_id account) currency chain w i r" and "adr_id r = i" and "adr_locked r"
  shows "(\<exists>e n. setAddress E P account currency chain value view_key w = (Inl e, w\<lparr>ticks := n\<rparr>)) \<and>
    (let w' = w\<lparr>db_addresses := put (db_addresses w) i None\<rparr> in
      removeAddress P account currency chain w = (Inr (), w') \<and>
      (\<forall>plugin new w1 w2. find_plugin E currency chain = Inr plugin \<longrightarrow>
        plg_transformAddress plugin value w' = (Inr new, w1) \<longrightarrow> plg_validateAddress plugin new w1 = (Inr True, w2) \<longrightarrow>
        (\<exists>s. setAddress E P account currency chain value view_key w' =
            (Inr s, w2\<lparr>db_addresses := db_addresses w' @ [Some s]\<rparr>) \<and> adr_value s = Some new \<and> \<not> adr_locked s)))"
proof -
  let ?w = "w\<lparr>db_addresses := put (db_addresses w) i None\<rparr>"
  have gone: "\<not> (adr_account_id x = Some (acc_id account) \<and> adr_currency x = currency \<and> adr_chain x = chain)"
    if "row (db_addresses ?w) j = Some x" for j x
  proof (cases "j = i")
    case True
    with that show ?thesis using row_put_same [OF only_rowD(1) [OF assms(2)], of None] by simp
  next
    case False
    with that have "row (db_addresses w) j = Some x" by (simp add: row_put)
    with assms(2) False show ?thesis unfolding only_row_def by blast
  qed
  show ?thesis
    unfolding Let_def
  proof (intro conjI allI impI)
    show "\<exists>e n. setAddress E P account currency chain value view_key w = (Inl e, w\<lparr>ticks := n\<rparr>)"
      by (rule prisma_client.locked_not_set [OF assms(1,2,4)])
    show "removeAddress P account currency chain w = (Inr (), ?w)"
      by (rule prisma_client.removeAddress_run [OF assms(1-3)])
  qed (rule prisma_client.unset_is_set [OF assms(1) gone])
qed

section \<open>Witness\<close>

definition locked_address :: address where
  "locked_address = \<lparr>adr_id = 1, adr_account_id = Some 1, adr_currency = ''DASH'', adr_chain = ''DASH'',
     adr_value = Some ''mine'', adr_view_key = None, adr_paymail = None, adr_note = None, adr_locked = True\<rparr>"

theorem lock_guards_only_setting_witness:
  "let w = demo_world\<lparr>db_addresses := [None]\<rparr> in
     \<exists>r. setAddress demo_ext pg demo_account ''DASH'' ''DASH'' ''theirs'' None w =
       (Inr r, w\<lparr>db_addresses := [None, Some r]\<rparr>) \<and> adr_value r = Some ''theirs''"
proof -
  let ?w = "demo_world\<lparr>db_addresses := [Some locked_address]\<rparr>"
  have at: "address_at (acc_id demo_account) ''DASH'' ''DASH'' ?w 1 locked_address" "adr_id locked_address = 1"
    "adr_locked locked_address"
    by (auto simp: only_row_def row_def locked_address_def demo_account_def split: if_splits)
  have plugin: "find_plugin demo_ext ''DASH'' ''DASH'' = Inr (DASH demo_ext)" by simp
  have reads: "plg_transformAddress (DASH demo_ext) ''theirs'' v = (Inr ''theirs'', v)"
    "plg_validateAddress (DASH demo_ext) ''theirs'' v = (Inr True, v)" for v
    by (simp_all add: DASH_def class_defs Plugin_transformAddress_def strip_scheme_def ret_run demo_ext_def)
  show ?thesis
    using lock_guards_only_setting [OF prisma_client_pg at, of demo_ext "''theirs''" None] plugin reads
    by (fastforce simp: Let_def put_def)
qed

end
