(* ===== verification/Invoices.thy ===== *)
theory Invoices
  imports Prices Protocol
begin

text \<open>
  Invoices: \<open>src/lib/invoices.ts\<close> and \<open>src/lib/invoice.ts\<close>. An invoice is created unpaid,
  gets one payment option per address of its account, is refreshed when it has expired, and
  may be cancelled. The invoices of an app are in \<open>PaymentRequests\<close>.
\<close>

section \<open>Payment options of an invoice\<close>

definition listAvailableAddresses :: "prisma \<Rightarrow> account \<Rightarrow> address list prog" where
  "listAvailableAddresses P account =
     bnd (find_many (prisma_addresses P) (\<lambda>a. adr_account_id a = Some (acc_id account))) (\<lambda>addresses.
     bnd getCoins (\<lambda>coins.
     ret (map (\<lambda>a. a\<lparr>adr_chain := (if adr_chain a = [] then adr_currency a else adr_chain a),
            adr_currency := (if adr_currency a = [] then adr_chain a else adr_currency a)\<rparr>)
       (filter (\<lambda>a. case find (\<lambda>c. coin_code c = adr_currency a) coins of
            None \<Rightarrow> False | Some coin \<Rightarrow> coin_unavailable coin \<noteq> Some True) addresses))))"

text \<open>The amount and the address an account is paid at: the first lines of the \<open>try\<close>.\<close>

definition quote_address :: "ext \<Rightarrow> prisma \<Rightarrow> account \<Rightarrow> invoice \<Rightarrow> address \<Rightarrow> (string \<times> num) option prog" where
  "quote_address E P account invoice entry =
     (let chain = adr_chain entry; currency = adr_currency entry in
      bnd (convert E P \<lparr>amt_currency = the (str_or (acc_denomination account) (Some ''USD'')),
             amt_value = js_Number (inv_amount invoice)\<rparr> currency) (\<lambda>converted.
      bnd (getNewAddress E entry chain currency) (\<lambda>found.
      if \<not> truthy found then ret None
      else
        let address = strip_scheme (the found) in
        bnd (lift_result (toSatoshis E (amt_value converted) currency chain)) (\<lambda>paymentAmount.
        ret (Some (address, paymentAmount))))))"

definition option_row :: "ext \<Rightarrow> invoice \<Rightarrow> address \<Rightarrow> string \<Rightarrow> num \<Rightarrow> time \<Rightarrow> nat \<Rightarrow> payment_option" where
  "option_row E invoice entry address paymentAmount t i = \<lparr>po_id = i, po_invoice_uid = inv_uid invoice,
     po_currency = adr_currency entry, po_chain = adr_chain entry,
     po_amount = Some (bn_toNumber (bn E) (bn_plus (bn E) 0 paymentAmount)), po_address = Some address,
     po_outputs = Some [\<lparr>out_address = Some address, out_amount = paymentAmount, out_script = None\<rparr>],
     po_uri = Some (computeInvoiceURI E (adr_currency entry) (inv_uid invoice)),
     po_currency_name = None, po_currency_logo_url = None, po_createdAt = t, po_updatedAt = t\<rparr>"

definition create_option :: "ext \<Rightarrow> prisma \<Rightarrow> account \<Rightarrow> invoice \<Rightarrow> address \<Rightarrow> payment_option option prog" where
  "create_option E P account invoice entry =
     catch
       (bnd (quote_address E P account invoice entry) (\<lambda>quoted.
        (case quoted of
           None \<Rightarrow> ret None
         | Some (address, paymentAmount) \<Rightarrow>
             bnd (reads now) (\<lambda>t.
             bnd (create_row (prisma_payment_options P) (option_row E invoice entry address paymentAmount t)) (\<lambda>r.
             ret (Some r))))))
       (\<lambda>_. ret None)"

definition createPaymentOptions :: "ext \<Rightarrow> prisma \<Rightarrow> account \<Rightarrow> invoice \<Rightarrow> payment_option list prog" where
  "createPaymentOptions E P account invoice =
     bnd (listAvailableAddresses P account) (\<lambda>addresses.
     bnd (map_io (create_option E P account invoice) addresses) (\<lambda>unfilteredOptions.
     ret (List.map_filter (\<lambda>x. x) unfilteredOptions)))"

section \<open>Creating an invoice\<close>

record create_invoice =
  ci_account :: account
  ci_amount :: num
  ci_currency :: "string option"
  ci_fee_rate_level :: "string option"
  ci_redirect_url :: "string option"
  ci_webhook_url :: "string option"
  ci_wordpress_site_url :: "string option"
  ci_external_id :: "string option"
  ci_memo :: "string option"
  ci_business_id :: "string option"
  ci_location_id :: "string option"
  ci_register_id :: "string option"

definition invoice_webhook_url :: "create_invoice \<Rightarrow> string option" where
  "invoice_webhook_url params =
     (if \<not> truthy (ci_webhook_url params) \<and> truthy (acc_webhook_url (ci_account params))
      then acc_webhook_url (ci_account params) else ci_webhook_url params)"

text \<open>Columns left undefined get the defaults of the schema.\<close>

definition fee_level_or_default :: "string option \<Rightarrow> string option" where
  "fee_level_or_default level = (case level of None \<Rightarrow> Some ''fastestFee'' | Some l \<Rightarrow> Some l)"

definition new_invoice :: "ext \<Rightarrow> create_invoice \<Rightarrow> string \<Rightarrow> time \<Rightarrow> nat \<Rightarrow> invoice" where
  "new_invoice E params uid t i = \<lparr>inv_id = i, inv_uid = uid, inv_amount = Some (ci_amount params),
     inv_currency = str_or (ci_currency params) (str_or (acc_denomination (ci_account params)) (Some ''USD'')),
     inv_status = ''unpaid'', inv_account_id = Some (acc_id (ci_account params)), inv_app_id = None,
     inv_hash = None, inv_address = None, inv_complete = False, inv_completed_at = None, inv_paidAt = None,
     inv_cancelled = False, inv_expiry = None, inv_uri = Some (computeInvoiceURI E ''ANYPAY'' uid),
     inv_webhook_url = invoice_webhook_url params, inv_redirect_url = ci_redirect_url params,
     inv_memo = ci_memo params, inv_secret = None, inv_metadata = None,
     inv_fee_rate_level = fee_level_or_default (ci_fee_rate_level params), inv_external_id = ci_external_id params,
     inv_business_id = ci_business_id params, inv_location_id = ci_location_id params,
     inv_register_id = ci_register_id params, inv_wordpress_site_url = ci_wordpress_site_url params,
     inv_is_public_request = Some False, inv_headers = None, inv_createdAt = t, inv_updatedAt = t\<rparr>"

text \<open>The template of the payment request names no chain.\<close>

definition template_of :: "invoice \<Rightarrow> payment_option \<Rightarrow> template_option" where
  "template_of invoice option = \<lparr>tpl_currency = po_currency option, tpl_chain = None,
     tpl_to = [\<lparr>to_currency = the (inv_currency invoice), to_amount = the (inv_amount invoice),
       to_address = po_address option\<rparr>]\<rparr>"

definition invoice_created_event :: "invoice \<Rightarrow> event" where
  "invoice_created_event invoice =
     (with_owner (inv_account_id invoice) (inv_app_id invoice)
       (blank_event ''invoice.created'' (inv_uid invoice) (inv_status invoice)))\<lparr>
       ev_quote := Some (js_Number (inv_amount invoice), js_String (inv_currency invoice))\<rparr>"

definition createInvoice :: "ext \<Rightarrow> prisma \<Rightarrow> create_invoice \<Rightarrow> invoice prog" where
  "createInvoice E P params =
     bnd (ask (shortid E)) (\<lambda>uid.
     bnd (reads now) (\<lambda>t.
     bnd (create_row (prisma_invoices P) (new_invoice E params uid t)) (\<lambda>invoice.
     bnd (start_job (JCreateWebhookForInvoice invoice)) (\<lambda>_.
     bnd (createPaymentOptions E P (ci_account params) invoice) (\<lambda>paymentOptions.
     bnd (create_row (prisma_payment_requests P) (\<lambda>i. \<lparr>pr_id = i, pr_app_id = 1,
            pr_template = map (template_of invoice) paymentOptions, pr_status = Some ''unpaid'',
            pr_invoice_uid = Some (inv_uid invoice), pr_uri = None, pr_webpage_url = None,
            pr_createdAt = t, pr_updatedAt = t\<rparr>)) (\<lambda>_.
     bnd (not_awaited (publishEvent ''invoice.created'' (invoice_created_event invoice))) (\<lambda>_.
     ret invoice)))))))"

section \<open>Reading, cancelling and refreshing\<close>

definition ensureInvoice :: "prisma \<Rightarrow> string \<Rightarrow> invoice prog" where
  "ensureInvoice P uid = invoice_by_uid P uid"

definition getInvoice :: "prisma \<Rightarrow> string \<Rightarrow> invoice prog" where
  "getInvoice P uid = invoice_by_uid P uid"

definition getPaymentOptions :: "ext \<Rightarrow> prisma \<Rightarrow> string \<Rightarrow> payment_instructions list prog" where
  "getPaymentOptions E P invoice_uid =
     bnd (invoice_by_uid P invoice_uid) (\<lambda>invoice.
     bnd (find_many (prisma_payment_options P) (\<lambda>po. po_invoice_uid po = invoice_uid)) (\<lambda>payment_options.
     map_io (\<lambda>option. getPaymentRequest E P invoice (Some (po_chain option)) (Some (po_currency option)))
       payment_options))"

definition listPaidInvoices :: "prisma \<Rightarrow> account \<Rightarrow> invoice list prog" where
  "listPaidInvoices P account =
     find_many (prisma_invoices P) (\<lambda>i. inv_account_id i = Some (acc_id account) \<and> inv_status i = ''paid'')"

definition cancelled_invoice :: "invoice \<Rightarrow> invoice" where
  "cancelled_invoice r = r\<lparr>inv_status := ''cancelled'', inv_cancelled := True\<rparr>"

definition invoice_cancelled_event :: "invoice \<Rightarrow> event" where
  "invoice_cancelled_event invoice =
     with_owner (inv_account_id invoice) (inv_app_id invoice)
       (blank_event ''invoice.cancelled'' (inv_uid invoice) (inv_status invoice))"

text \<open>The status tested is that of the row the caller read, not of the row as it is now.\<close>

definition cancelInvoice :: "prisma \<Rightarrow> invoice \<Rightarrow> invoice prog" where
  "cancelInvoice P invoice =
     bnd (guard_io (inv_status invoice = ''unpaid'') (JsError ''can only cancel unpaid invoices'')) (\<lambda>_.
     bnd (update_row (prisma_invoices P) (inv_id invoice) cancelled_invoice) (\<lambda>_.
     bnd (invoice_by_uid P (inv_uid invoice)) (\<lambda>invoice.
     bnd (not_awaited (publishEvent ''invoice.cancelled'' (invoice_cancelled_event invoice))) (\<lambda>_.
     ret invoice))))"

definition isExpired :: "invoice \<Rightarrow> bool prog" where
  "isExpired invoice =
     bnd (reads now) (\<lambda>t. ret (case inv_expiry invoice of None \<Rightarrow> False | Some expiry \<Rightarrow> t > expiry))"

definition refreshed_output :: "ext \<Rightarrow> prisma \<Rightarrow> payment_option \<Rightarrow> template_output \<Rightarrow> pay_output prog" where
  "refreshed_output E P option to =
     bnd (convert E P \<lparr>amt_currency = to_currency to, amt_value = to_amount to\<rparr> (po_currency option)) (\<lambda>conversion.
     bnd (lift_result (toSatoshis E (amt_value conversion) (po_currency option) (po_chain option))) (\<lambda>amount.
     ret \<lparr>out_address = to_address to, out_amount = amount, out_script = None\<rparr>))"

definition template_for :: "template_option list \<Rightarrow> payment_option \<Rightarrow> template_option option" where
  "template_for templates option =
     find (\<lambda>t. tpl_currency t = po_currency option \<and>
       (\<not> truthy (tpl_chain t) \<or> tpl_chain t = Some (po_chain option))) templates"

definition refresh_option :: "ext \<Rightarrow> prisma \<Rightarrow> string \<Rightarrow> template_option list \<Rightarrow> payment_option \<Rightarrow> unit prog" where
  "refresh_option E P uid templates option =
     (case template_for templates option of
        None \<Rightarrow> ret ()
      | Some template \<Rightarrow>
          bnd (map_io (refreshed_output E P option) (tpl_to template)) (\<lambda>outputs.
          bnd (find_first_or_throw (prisma_payment_options P) (\<lambda>po. po_invoice_uid po = uid \<and>
                 po_currency po = po_currency option \<and> po_chain po = po_chain option)) (\<lambda>entry.
          bnd (update_row (prisma_payment_options P) (po_id entry) (\<lambda>r. r\<lparr>po_outputs := Some outputs\<rparr>)) (\<lambda>_.
          ret ()))))"

text \<open>The result is the row read at the start, with the old expiry.\<close>

definition refreshInvoice :: "ext \<Rightarrow> prisma \<Rightarrow> string \<Rightarrow> invoice prog" where
  "refreshInvoice E P uid =
     bnd (invoice_by_uid P uid) (\<lambda>invoice.
     bnd (find_many (prisma_payment_options P) (\<lambda>po. po_invoice_uid po = uid)) (\<lambda>paymentOptions.
     bnd (find_first_or_throw (prisma_payment_requests P) (\<lambda>pr. pr_invoice_uid pr = Some uid)) (\<lambda>paymentRequest.
     bnd (for_each (refresh_option E P uid (pr_template paymentRequest)) paymentOptions) (\<lambda>_.
     bnd (reads now) (\<lambda>t.
     bnd (update_row (prisma_invoices P) (inv_id invoice)
            (\<lambda>r. r\<lparr>inv_expiry := Some (t + fifteen_minutes)\<rparr>)) (\<lambda>_.
     ret invoice))))))"

section \<open>Facts\<close>

text \<open>A computation that reads the prices and nothing else, and writes nothing.\<close>

definition peeks :: "'a prog \<Rightarrow> bool" where
  "peeks m \<longleftrightarrow> (\<forall>v w. db_prices v = db_prices w \<longrightarrow> m v = (fst (m w), v))"

lemma peeks_run: "peeks m \<Longrightarrow> m w = (fst (m w), w)"
  unfolding peeks_def by blast

lemma peeks_same: "peeks m \<Longrightarrow> db_prices v = db_prices w \<Longrightarrow> fst (m v) = fst (m w)"
  unfolding peeks_def by (metis fst_conv)

lemma peeks_ret: "peeks (ret a)"
  by (simp add: peeks_def io_simps)

lemma peeks_throw: "peeks (throw e)"
  by (simp add: peeks_def io_simps)

lemma peeks_lift: "peeks (lift_result r)"
  by (simp add: peeks_def io_simps)

lemma peeks_prices: "peeks (find_first (prisma_prices P) p)"
  by (simp add: peeks_def io_simps prisma_prices_def)

lemma peeks_bnd:
  assumes "peeks m" and "\<And>a. peeks (k a)"
  shows "peeks (bnd m k)"
  unfolding peeks_def
proof (intro allI impI)
  fix v w :: world
  assume same: "db_prices v = db_prices w"
  have "m v = (fst (m w), v)" using assms(1) same unfolding peeks_def by blast
  moreover have "m w = (fst (m w), w)" by (rule peeks_run [OF assms(1)])
  moreover have "k a v = (fst (k a w), v)" for a using assms(2) same unfolding peeks_def by blast
  ultimately show "bnd m k v = (fst (bnd m k w), v)"
    unfolding bnd_run by (cases "fst (m w)") (simp_all only: prod.case sum.case fst_conv)
qed

lemma peeks_if: "peeks a \<Longrightarrow> peeks b \<Longrightarrow> peeks (if c then a else b)"
  by simp

lemma peeks_option: "peeks a \<Longrightarrow> (\<And>x. peeks (f x)) \<Longrightarrow> peeks (case z of None \<Rightarrow> a | Some x \<Rightarrow> f x)"
  by (cases z) simp_all

lemma peeks_Let: "(\<And>x. peeks (f x)) \<Longrightarrow> peeks (Let z f)"
  by (simp add: Let_def)

lemmas peeks_rules = peeks_ret peeks_throw peeks_lift peeks_prices peeks_bnd peeks_if peeks_option peeks_Let

lemma peeks_quote: "peeks (quote_address E P account invoice entry)"
  unfolding quote_address_def convert_def convert_direct_def find_price_def getNewAddress_def with_plugin_def
  by (intro peeks_rules)

definition quoted :: "ext \<Rightarrow> prisma \<Rightarrow> account \<Rightarrow> invoice \<Rightarrow> world \<Rightarrow> address \<Rightarrow> (string \<times> num) option" where
  "quoted E P account invoice w entry =
     (case fst (quote_address E P account invoice entry w) of Inr (Some q) \<Rightarrow> Some q | _ \<Rightarrow> None)"

definition settles :: "('w, 'a) io \<Rightarrow> bool" where
  "settles m \<longleftrightarrow> (\<forall>w. fst (m w) \<noteq> Inl NeverSettles)"

lemma settles_ret: "settles (ret a)"
  by (simp add: settles_def io_simps)

lemma settles_throw: "e \<noteq> NeverSettles \<Longrightarrow> settles (throw e)"
  by (simp add: settles_def io_simps)

lemma settles_lift: "r \<noteq> Inl NeverSettles \<Longrightarrow> settles (lift_result r)"
  by (simp add: settles_def io_simps)

lemma settles_find_first: "settles (find_first h p)"
  by (simp add: settles_def io_simps)

lemma settles_bnd: "settles m \<Longrightarrow> (\<And>a. settles (k a)) \<Longrightarrow> settles (bnd m k)"
  by (simp add: settles_def bnd_run split: prod.splits sum.splits) (metis fst_conv)

lemma settles_if: "settles a \<Longrightarrow> settles b \<Longrightarrow> settles (if c then a else b)"
  by simp

lemma settles_option: "settles a \<Longrightarrow> (\<And>x. settles (f x)) \<Longrightarrow> settles (case z of None \<Rightarrow> a | Some x \<Rightarrow> f x)"
  by (cases z) simp_all

lemma settles_Let: "(\<And>x. settles (f x)) \<Longrightarrow> settles (Let z f)"
  by (simp add: Let_def)

lemmas settles_rules = settles_ret settles_throw settles_lift settles_find_first settles_bnd settles_if
  settles_option settles_Let

lemma find_plugin_settles: "find_plugin E c ch \<noteq> Inl NeverSettles"
  by (simp add: find_plugin_def split: option.splits)

lemma toSatoshis_settles: "toSatoshis E d c ch \<noteq> Inl NeverSettles"
  using find_plugin_settles [of E c ch] by (auto simp: toSatoshis_def split: sum.splits)

lemma quote_settles: "settles (quote_address E P account invoice entry)"
  unfolding quote_address_def convert_def convert_direct_def find_price_def getNewAddress_def with_plugin_def
  by (intro settles_rules find_plugin_settles toSatoshis_settles) simp_all

lemma quoted_run:
  "(\<exists>e. quote_address E P account invoice entry w = (Inl e, w) \<and> e \<noteq> NeverSettles \<and>
      quoted E P account invoice w entry = None) \<or>
   (\<exists>q. quote_address E P account invoice entry w = (Inr q, w) \<and> quoted E P account invoice w entry = q)"
proof -
  obtain r where r: "quote_address E P account invoice entry w = (r, w)"
    using peeks_run [OF peeks_quote] by blast
  moreover from this have "r \<noteq> Inl NeverSettles"
    using quote_settles by (metis fst_conv settles_def)
  ultimately show ?thesis
    by (cases r) (auto simp: quoted_def split: option.splits)
qed

text \<open>The rows one pass over the addresses creates, from the first free id.\<close>

fun offered ::
  "ext \<Rightarrow> invoice \<Rightarrow> (address \<Rightarrow> (string \<times> num) option) \<Rightarrow> time \<Rightarrow> nat \<Rightarrow> address list \<Rightarrow> payment_option option list" where
  "offered E invoice q t i [] = []"
| "offered E invoice q t i (a # ads) =
     (case q a of
        None \<Rightarrow> None # offered E invoice q t i ads
      | Some (address, amount) \<Rightarrow>
          Some (option_row E invoice a address amount t i) # offered E invoice q t (Suc i) ads)"

definition available_addresses :: "prisma \<Rightarrow> account \<Rightarrow> world \<Rightarrow> address list" where
  "available_addresses P account w = the (case fst (listAvailableAddresses P account w) of Inr ads \<Rightarrow> Some ads | Inl _ \<Rightarrow> None)"

lemma available_run: "listAvailableAddresses P account w = (Inr (available_addresses P account w), w)"
  by (simp add: available_addresses_def listAvailableAddresses_def getCoins_def io_simps)

context prisma_client
begin

lemma create_option_run:
  "create_option E P account invoice entry w =
     (case quoted E P account invoice w entry of
        None \<Rightarrow> (Inr None, w)
      | Some (address, amount) \<Rightarrow>
          (let r = option_row E invoice entry address amount (now w) (next_id (db_payment_options w)) in
           (Inr (Some r), w\<lparr>db_payment_options := db_payment_options w @ [Some r]\<rparr>)))"
  using quoted_run [of E P account invoice entry w]
  by (auto simp: create_option_def io_simps create_payment_options Let_def split: option.splits prod.splits)

lemma quoted_same: "db_prices v = db_prices w \<Longrightarrow> quoted E P account invoice v = quoted E P account invoice w"
  by (rule ext) (simp add: quoted_def peeks_same [OF peeks_quote, of v w])

lemma quoted_options [simp]:
  "quoted E P account invoice (w\<lparr>db_payment_options := t\<rparr>) = quoted E P account invoice w"
  by (rule quoted_same) simp

lemma create_options_run:
  "map_io (create_option E P account invoice) ads w =
     (let rs = offered E invoice (quoted E P account invoice w) (now w) (next_id (db_payment_options w)) ads in
      (Inr rs, w\<lparr>db_payment_options := db_payment_options w @ map Some (List.map_filter (\<lambda>x. x) rs)\<rparr>))"
proof (induction ads arbitrary: w)
  case Nil
  then show ?case by (simp add: io_simps List.map_filter_def)
next
  case (Cons a ads)
  have next_snoc: "next_id (t @ [x]) = Suc (next_id t)" for t :: "payment_option table" and x
    by (simp add: next_id_def)
  note first = create_option_run [of E account invoice a w]
  show ?case
    by (cases "quoted E P account invoice w a")
      (auto simp: Cons.IH bnd_run first ret_run Let_def next_snoc List.map_filter_def)
qed

lemma createPaymentOptions_run:
  "createPaymentOptions E P account invoice w =
     (let rs = List.map_filter (\<lambda>x. x) (offered E invoice (quoted E P account invoice w) (now w)
        (next_id (db_payment_options w)) (available_addresses P account w)) in
      (Inr rs, w\<lparr>db_payment_options := db_payment_options w @ map Some rs\<rparr>))"
  by (simp add: createPaymentOptions_def bnd_run available_run create_options_run ret_run Let_def)

lemma cancelInvoice_run:
  assumes "row (db_invoices w) (inv_id invoice) = Some r" and "unique_hash (db_invoices w)"
    and "invoice_at (inv_uid invoice) w (inv_id invoice) r"
  defines "event \<equiv> invoice_cancelled_event (cancelled_invoice r)"
  shows "cancelInvoice P invoice w =
    (if inv_status invoice = ''unpaid''
     then (Inr (cancelled_invoice r),
       w\<lparr>db_invoices := put (db_invoices w) (inv_id invoice) (Some (cancelled_invoice r)),
         published := published w @ map (\<lambda>k. (k, EventMsg event)) (routes ''invoice.cancelled'' event)\<rparr>)
     else (Inl (JsError ''can only cancel unpaid invoices''), w))"
proof -
  let ?v = "w\<lparr>db_invoices := put (db_invoices w) (inv_id invoice) (Some (cancelled_invoice r))\<rparr>"
  have "inv_uid (cancelled_invoice r) = inv_uid invoice"
    using only_rowD(2) [OF assms(3)] by (simp add: cancelled_invoice_def)
  then have "invoice_at (inv_uid invoice) ?v (inv_id invoice) (cancelled_invoice r)"
    using only_row_put [OF assms(3)] by simp
  then have row: "invoice_by_uid P (inv_uid invoice) ?v = (Inr (cancelled_invoice r), ?v)"
    by (rule invoice_by_uid_run)
  have "unique_hash (put (db_invoices w) (inv_id invoice) (Some (cancelled_invoice r)))"
    by (rule unique_hash_kept [OF assms(2,1)]) (simp add: cancelled_invoice_def)
  moreover have "accepted_on ''invoice.cancelled'' event"
    by (simp add: event_def accepted_on_def invoice_cancelled_event_def with_owner_def blank_event_def
        cancelled_invoice_def schema_defs)
  ultimately show ?thesis
    by (simp add: cancelInvoice_def bnd_run guard_io_run update_invoices assms(1) row not_awaited_run
        publishEvent_run ret_run event_def [symmetric])
qed

end

lemma available_same:
  "db_addresses v = db_addresses w \<Longrightarrow> coins_cache v = coins_cache w \<Longrightarrow>
   available_addresses P account v = available_addresses P account w"
  by (simp add: available_addresses_def listAvailableAddresses_def getCoins_def io_simps prisma_addresses_def)

lemma created_event_accepted: "accepted_on ''invoice.created'' (invoice_created_event (new_invoice E params uid t i))"
  by (simp add: accepted_on_def invoice_created_event_def with_owner_def blank_event_def new_invoice_def schema_defs)

definition template_request :: "invoice \<Rightarrow> payment_option list \<Rightarrow> time \<Rightarrow> nat \<Rightarrow> payment_request" where
  "template_request invoice opts t i = \<lparr>pr_id = i, pr_app_id = 1, pr_template = map (template_of invoice) opts,
     pr_status = Some ''unpaid'', pr_invoice_uid = Some (inv_uid invoice), pr_uri = None, pr_webpage_url = None,
     pr_createdAt = t, pr_updatedAt = t\<rparr>"

context prisma_client
begin

lemma createInvoice_run:
  fixes E params uid w
  defines "invoice \<equiv> new_invoice E params uid (now w) (next_id (db_invoices w))"
  defines "opts \<equiv> List.map_filter (\<lambda>x. x) (offered E invoice (quoted E P (ci_account params) invoice w) (now w)
    (next_id (db_payment_options w)) (available_addresses P (ci_account params) w))"
  assumes "shortid E (ticks w) = Inr uid" and "unique_hash (db_invoices w)"
  shows "createInvoice E P params w = (Inr invoice, w\<lparr>ticks := Suc (ticks w),
    db_invoices := db_invoices w @ [Some invoice],
    db_payment_options := db_payment_options w @ map Some opts,
    db_payment_requests := db_payment_requests w @
      [Some (template_request invoice opts (now w) (next_id (db_payment_requests w)))],
    jobs := jobs w @ [JCreateWebhookForInvoice invoice],
    published := published w @ map (\<lambda>k. (k, EventMsg (invoice_created_event invoice)))
      (routes ''invoice.created'' (invoice_created_event invoice))\<rparr>)"
proof -
  let ?u = "w\<lparr>ticks := Suc (ticks w), db_invoices := db_invoices w @ [Some invoice],
    jobs := jobs w @ [JCreateWebhookForInvoice invoice]\<rparr>"
  have "unique_hash (db_invoices w @ [Some invoice])"
    using assms(4) by (simp add: unique_hash_def unique_on_snoc invoice_def new_invoice_def)
  moreover have "accepted_on ''invoice.created'' (invoice_created_event invoice)"
    unfolding invoice_def by (rule created_event_accepted)
  moreover have q: "quoted E P (ci_account params) invoice ?u = quoted E P (ci_account params) invoice w"
    by (rule quoted_same) simp
  moreover have a: "available_addresses P (ci_account params) ?u = available_addresses P (ci_account params) w"
    by (rule available_same) simp_all
  moreover have "createPaymentOptions E P (ci_account params) invoice ?u =
      (Inr opts, ?u\<lparr>db_payment_options := db_payment_options w @ map Some opts\<rparr>)"
    unfolding createPaymentOptions_run q a Let_def opts_def by simp
  ultimately show ?thesis
    by (simp add: createInvoice_def bnd_run ask_run assms(3) reads_run create_invoices start_job_run Let_def
        create_payment_requests not_awaited_run publishEvent_run ret_run
        invoice_def [symmetric] template_request_def)
qed

end

section \<open>Properties\<close>

text \<open>
  \<open>createPaymentOptions\<close> (src/src/lib/invoice.ts) prices every address of the account
  whose coin is listed and available, each on its own and all at the prices of the start:
  one that cannot be priced (no rate, no plugin, no address) is left out and does not stop
  the others. One option is stored per priced address, in order, with the invoice's uid,
  the converted amount as its only output, and the address without its URI scheme.
\<close>

theorem options_offered_independently:
  assumes "prisma_client P"
  shows "createPaymentOptions E P account invoice w =
     (let rs = List.map_filter (\<lambda>x. x) (offered E invoice (quoted E P account invoice w) (now w)
        (next_id (db_payment_options w)) (available_addresses P account w)) in
      (Inr rs, w\<lparr>db_payment_options := db_payment_options w @ map Some rs\<rparr>))"
  by (rule prisma_client.createPaymentOptions_run [OF assms])

text \<open>
  C15. \<open>createInvoice\<close> (src/src/lib/invoices.ts) never fails once a uid is drawn. It adds one
  unpaid invoice without a transaction id or an expiry, the payment options of the
  account's addresses, one payment request made of exactly these options, one job that
  creates the webhook, and sends \<open>invoice.created\<close>, which its schema accepts, on the
  account's routes; every existing row stays as it was.
\<close>

theorem createInvoice_outcome:
  assumes "prisma_client P" and "shortid E (ticks w) = Inr uid" and "unique_hash (db_invoices w)"
  shows "\<exists>invoice opts.
    createInvoice E P params w = (Inr invoice, w\<lparr>ticks := Suc (ticks w),
      db_invoices := db_invoices w @ [Some invoice],
      db_payment_options := db_payment_options w @ map Some opts,
      db_payment_requests := db_payment_requests w @
        [Some (template_request invoice opts (now w) (next_id (db_payment_requests w)))],
      jobs := jobs w @ [JCreateWebhookForInvoice invoice],
      published := published w @ map (\<lambda>k. (k, EventMsg (invoice_created_event invoice)))
        (routes ''invoice.created'' (invoice_created_event invoice))\<rparr>) \<and>
    invoice = new_invoice E params uid (now w) (next_id (db_invoices w)) \<and>
    inv_status invoice = ''unpaid'' \<and> inv_hash invoice = None \<and> inv_expiry invoice = None \<and>
    opts = List.map_filter (\<lambda>x. x) (offered E invoice (quoted E P (ci_account params) invoice w) (now w)
      (next_id (db_payment_options w)) (available_addresses P (ci_account params) w))"
  by (intro exI conjI, rule prisma_client.createInvoice_run [OF assms]) (simp_all add: new_invoice_def)

text \<open>
  \<open>cancelInvoice\<close> (src/src/lib/invoices.ts) tests the status of the copy it was given:
  with a copy read while the invoice was unpaid, the stored invoice is cancelled whatever
  has happened to it since, and one that was paid in between keeps its transaction id and
  its payment. With any other copy nothing happens.
\<close>

theorem cancel_trusts_the_copy:
  assumes "prisma_client P" and "unique_hash (db_invoices w)"
    and "row (db_invoices w) (inv_id copy) = Some current"
    and "invoice_at (inv_uid copy) w (inv_id copy) current"
  shows "cancelInvoice P copy w =
    (if inv_status copy = ''unpaid''
     then let r = current\<lparr>inv_status := ''cancelled'', inv_cancelled := True\<rparr>; event = invoice_cancelled_event r in
       (Inr r, w\<lparr>db_invoices := put (db_invoices w) (inv_id copy) (Some r),
         published := published w @ map (\<lambda>k. (k, EventMsg event)) (routes ''invoice.cancelled'' event)\<rparr>)
     else (Inl (JsError ''can only cancel unpaid invoices''), w))"
  using prisma_client.cancelInvoice_run [OF assms(1,3,2,4)] by (simp add: Let_def cancelled_invoice_def)

section \<open>Witnesses\<close>

definition demo_coin :: "string \<Rightarrow> coin" where
  "demo_coin code = \<lparr>coin_id = 1, coin_code = code, coin_name = code, coin_currency = Some code,
     coin_chain = Some code, coin_logo_url = None, coin_supported = Some True, coin_unavailable = None,
     coin_precision = None\<rparr>"

definition demo_address :: "nat \<Rightarrow> string \<Rightarrow> address" where
  "demo_address i code = \<lparr>adr_id = i, adr_account_id = Some 1, adr_currency = code, adr_chain = code,
     adr_value = Some (code @ ''addr''), adr_view_key = None, adr_paymail = None, adr_note = None, adr_locked = False\<rparr>"

text \<open>DOGE has no price and no plugin answers for XYZ.\<close>

definition shop_world :: world where
  "shop_world = priced_world\<lparr>coins_cache := map demo_coin [''DOGE'', ''XYZ'', ''BCH''],
     db_addresses := [Some (demo_address 1 ''DOGE''), Some (demo_address 2 ''XYZ''), Some (demo_address 3 ''BCH'')]\<rparr>"

definition demo_order :: create_invoice where
  "demo_order = \<lparr>ci_account = demo_account, ci_amount = 10, ci_currency = None, ci_fee_rate_level = None,
     ci_redirect_url = None, ci_webhook_url = None, ci_wordpress_site_url = None, ci_external_id = None,
     ci_memo = None, ci_business_id = None, ci_location_id = None, ci_register_id = None\<rparr>"

lemma shop_quotes:
  "quoted demo_ext pg demo_account demo_invoice shop_world (demo_address 1 ''DOGE'') = None"
  "quoted demo_ext pg demo_account demo_invoice shop_world (demo_address 2 ''XYZ'') = None"
  "\<exists>q. quoted demo_ext pg demo_account demo_invoice shop_world (demo_address 3 ''BCH'') = Some q"
  by (simp_all add: quoted_def quote_address_def convert_def convert_direct_def find_price_def io_simps pg_eval
      shop_world_def priced_world_def demo_address_def getNewAddress_def with_plugin_def toSatoshis_def
      utxo_plugins class_defs demo_account_def demo_invoice_def demo_world_def str_or_def Let_def Plugin_getNewAddress_def)

theorem options_offered_independently_witness:
  "\<exists>r. fst (createPaymentOptions demo_ext pg demo_account demo_invoice shop_world) = Inr [r] \<and> po_currency r = ''BCH''"
proof -
  have a: "available_addresses pg demo_account shop_world =
      [demo_address 1 ''DOGE'', demo_address 2 ''XYZ'', demo_address 3 ''BCH'']"
    by (simp add: available_addresses_def listAvailableAddresses_def getCoins_def io_simps pg_eval shop_world_def
        demo_address_def demo_coin_def demo_account_def)
  show ?thesis
    unfolding options_offered_independently [OF prisma_client_pg] a
    using shop_quotes by (auto simp: Let_def List.map_filter_def option_row_def demo_address_def)
qed

theorem createInvoice_outcome_witness:
  "map_option inv_status (row (db_invoices (snd (createInvoice demo_ext pg demo_order shop_world))) 2) = Some ''unpaid''"
proof -
  obtain uid where "shortid demo_ext (ticks shop_world) = Inr uid" by (simp add: demo_ext_def)
  moreover have "unique_hash (db_invoices shop_world)"
    using demo_unique by (simp add: shop_world_def priced_world_def demo_worlds)
  ultimately obtain invoice opts where
    "db_invoices (snd (createInvoice demo_ext pg demo_order shop_world)) = db_invoices shop_world @ [Some invoice]"
    and "inv_status invoice = ''unpaid''"
    using createInvoice_outcome [OF prisma_client_pg, of demo_ext shop_world uid demo_order]
    by fastforce
  then show ?thesis by (simp add: shop_world_def priced_world_def demo_worlds row_def)
qed

theorem cancel_trusts_the_copy_witness:
  "map_option inv_status (row (db_invoices (snd (cancelInvoice pg demo_invoice paid_world))) 1) = Some ''cancelled''"
proof -
  let ?r = "demo_invoice\<lparr>inv_status := ''paid'', inv_hash := Some ''tx1''\<rparr>"
  have id: "inv_id demo_invoice = 1" "inv_status demo_invoice = ''unpaid''" by (simp_all add: demo_invoice_def)
  have row: "row (db_invoices paid_world) 1 = Some ?r" by (simp add: paid_world_def row_def)
  have u: "unique_hash (db_invoices paid_world)"
    by (simp add: paid_world_def unique_hash_def unique_on_def List.map_filter_def)
  have at: "invoice_at (inv_uid demo_invoice) paid_world 1 ?r"
    by (auto simp: only_row_def paid_world_def row_def split: if_splits)
  show ?thesis
    using cancel_trusts_the_copy [OF prisma_client_pg u, of demo_invoice ?r] row at
    by (simp add: id Let_def row_put row_Some_bounds)
qed

end
