(* ===== verification/PaymentRequests.thy ===== *)
theory PaymentRequests
  imports Invoices
begin

text \<open>
  Payment requests, the invoices of an app: \<open>src/lib/payment_requests.ts\<close>,
  \<open>src/lib/payment_options.ts\<close>, \<open>createEmptyInvoice\<close> of \<open>src/lib/invoice.ts\<close>, \<open>src/lib/apps.ts\<close>
  and \<open>src/lib/refunds.ts\<close>. A refund is a payment request of a new app, paid to the sender of
  the original payment. The JSON schema of a template is one of the package \<open>anypay\<close>, a
  parameter. An invoice without an amount or a currency has no refund; the source would ask
  for \<open>NaN\<close>, which is left open here.
\<close>

section \<open>Apps\<close>

definition createApp :: "ext \<Rightarrow> prisma \<Rightarrow> string \<Rightarrow> nat \<Rightarrow> app prog" where
  "createApp E P name account_id =
     bnd (ask (new_key E)) (\<lambda>(public, private).
     create_row (prisma_apps P) (\<lambda>i. \<lparr>app_row_id = i, app_name = name, app_account_id = account_id,
       app_public_key = public, app_private_key = private\<rparr>))"

definition createAppToken :: "ext \<Rightarrow> prisma \<Rightarrow> nat \<Rightarrow> access_token prog" where
  "createAppToken E P app_id =
     bnd (find_first_or_throw (prisma_apps P) (\<lambda>a. app_row_id a = app_id)) (\<lambda>app.
     bnd (find_first (prisma_access_tokens P) (\<lambda>t. tok_app_id t = Some (app_row_id app))) (\<lambda>token.
     (case token of
        Some t \<Rightarrow> ret t
      | None \<Rightarrow>
          bnd (ask (new_key E)) (\<lambda>(_, private).
          bnd (reads now) (\<lambda>t.
          create_row (prisma_access_tokens P) (\<lambda>i. \<lparr>tok_id = i, tok_uid = Some private,
            tok_account_id = app_account_id app, tok_app_id = Some (app_row_id app), tok_createdAt = t\<rparr>))))))"

section \<open>Invoices of an app\<close>

record empty_invoice_options =
  eio_uid :: "string option"
  eio_currency :: "string option"
  eio_amount :: "num option"
  eio_webhook_url :: "string option"
  eio_secret :: "string option"
  eio_metadata :: "string option"
  eio_memo :: "string option"
  eio_fee_rate_level :: "string option"
  eio_redirect_url :: "string option"

definition empty_invoice :: "ext \<Rightarrow> app \<Rightarrow> nat \<Rightarrow> empty_invoice_options \<Rightarrow> string \<Rightarrow> time \<Rightarrow> nat \<Rightarrow> invoice" where
  "empty_invoice E app app_id opts uid t i = \<lparr>inv_id = i, inv_uid = uid, inv_amount = eio_amount opts,
     inv_currency = eio_currency opts, inv_status = ''unpaid'', inv_account_id = Some (app_account_id app),
     inv_app_id = Some app_id, inv_hash = None, inv_address = None, inv_complete = False,
     inv_completed_at = None, inv_paidAt = None, inv_cancelled = False, inv_expiry = None,
     inv_uri = Some (computeInvoiceURI E ''ANYPAY'' uid), inv_webhook_url = eio_webhook_url opts,
     inv_redirect_url = eio_redirect_url opts, inv_memo = eio_memo opts, inv_secret = eio_secret opts,
     inv_metadata = eio_metadata opts, inv_fee_rate_level = fee_level_or_default (eio_fee_rate_level opts), inv_external_id = None,
     inv_business_id = None, inv_location_id = None, inv_register_id = None, inv_wordpress_site_url = None,
     inv_is_public_request = Some False, inv_headers = None, inv_createdAt = t, inv_updatedAt = t\<rparr>"

definition createEmptyInvoice :: "ext \<Rightarrow> prisma \<Rightarrow> nat \<Rightarrow> empty_invoice_options \<Rightarrow> invoice prog" where
  "createEmptyInvoice E P app_id opts =
     bnd (if truthy (eio_uid opts) then ret (the (eio_uid opts)) else ask (shortid E)) (\<lambda>uid.
     bnd (find_first_or_throw (prisma_apps P) (\<lambda>a. app_row_id a = app_id)) (\<lambda>app.
     bnd (reads now) (\<lambda>t.
     create_row (prisma_invoices P) (empty_invoice E app app_id opts uid t))))"

section \<open>Payment requests\<close>

text \<open>
  The amount asked for: the currency and the amount of the first output, whose currency the
  other outputs must repeat.
\<close>

fun consistent_amount ::
  "ext \<Rightarrow> template_output list \<Rightarrow> string option \<Rightarrow> num \<Rightarrow> js_error + string option \<times> num" where
  "consistent_amount E [] currency amount = Inr (currency, amount)"
| "consistent_amount E (to # tos) currency amount =
     (let (currency', amount') =
        (if truthy currency then (currency, amount)
         else (Some (to_currency to), bn_plus (bn E) amount (to_amount to)))
      in if currency' \<noteq> Some (to_currency to)
         then Inl (JsError ''all template options to.currency must equal the same value'')
         else consistent_amount E tos currency' amount')"

definition ensureConsistentCurrencyAmount ::
  "ext \<Rightarrow> template_option list \<Rightarrow> js_error + string option \<times> num" where
  "ensureConsistentCurrencyAmount E template =
     (case consistent_amount E (concat (map tpl_to template)) None 0 of
        Inl e \<Rightarrow> Inl e
      | Inr (currency, amount) \<Rightarrow> Inr (currency, bn_toNumber (bn E) amount))"

definition template_chain :: "template_option \<Rightarrow> string" where
  "template_chain option = (if truthy (tpl_chain option) then the (tpl_chain option) else tpl_currency option)"

definition priced_output :: "ext \<Rightarrow> prisma \<Rightarrow> template_option \<Rightarrow> template_output \<Rightarrow> pay_output prog" where
  "priced_output E P option to =
     bnd (convert E P \<lparr>amt_currency = to_currency to, amt_value = to_amount to\<rparr> (tpl_currency option)) (\<lambda>conversion.
     bnd (lift_result (toSatoshis E (amt_value conversion) (tpl_currency option) (template_chain option))) (\<lambda>amount.
     ret \<lparr>out_address = to_address to, out_amount = amount, out_script = None\<rparr>))"

definition option_of_template ::
  "ext \<Rightarrow> prisma \<Rightarrow> payment_request \<Rightarrow> template_option \<Rightarrow> (time \<Rightarrow> nat \<Rightarrow> payment_option) prog" where
  "option_of_template E P paymentRequest option =
     bnd (map_io (priced_output E P option) (tpl_to option)) (\<lambda>outputs.
     bnd (getCoin (tpl_currency option)) (\<lambda>coin.
     ret (\<lambda>t i. \<lparr>po_id = i, po_invoice_uid = js_String (pr_invoice_uid paymentRequest),
       po_currency = tpl_currency option, po_chain = template_chain option, po_amount = None,
       po_address = None, po_outputs = Some outputs,
       po_uri = Some (computeInvoiceURI E (tpl_currency option) (js_String (pr_invoice_uid paymentRequest))),
       po_currency_name = map_option coin_name coin,
       po_currency_logo_url = (case coin of None \<Rightarrow> None | Some c \<Rightarrow> coin_logo_url c),
       po_createdAt = t, po_updatedAt = t\<rparr>)))"

text \<open>Every option is priced before the first one is stored.\<close>

definition paymentRequestToPaymentOptions :: "ext \<Rightarrow> prisma \<Rightarrow> payment_request \<Rightarrow> payment_option list prog" where
  "paymentRequestToPaymentOptions E P paymentRequest =
     bnd (map_io (option_of_template E P paymentRequest) (pr_template paymentRequest)) (\<lambda>options.
     map_io (\<lambda>option. bnd (reads now) (\<lambda>t. create_row (prisma_payment_options P) (option t))) options)"

record payment_request_options =
  pro_webhook_url :: "string option"
  pro_redirect_url :: "string option"
  pro_memo :: "string option"
  pro_secret :: "string option"
  pro_metadata :: "string option"
  pro_fee_rate_level :: "string option"

definition no_options :: payment_request_options where
  "no_options = \<lparr>pro_webhook_url = None, pro_redirect_url = None, pro_memo = None, pro_secret = None,
     pro_metadata = None, pro_fee_rate_level = None\<rparr>"

definition with_request_options :: "payment_request_options \<Rightarrow> invoice \<Rightarrow> invoice" where
  "with_request_options opts r = r\<lparr>inv_webhook_url := set_if (pro_webhook_url opts) (inv_webhook_url r),
     inv_redirect_url := set_if (pro_redirect_url opts) (inv_redirect_url r),
     inv_secret := set_if (pro_secret opts) (inv_secret r),
     inv_metadata := set_if (pro_metadata opts) (inv_metadata r),
     inv_fee_rate_level := set_if (pro_fee_rate_level opts) (inv_fee_rate_level r)\<rparr>"

definition published_request :: "invoice \<Rightarrow> time \<Rightarrow> payment_request \<Rightarrow> payment_request" where
  "published_request invoice t r = r\<lparr>pr_invoice_uid := Some (inv_uid invoice),
     pr_uri := set_if (inv_uri invoice) (pr_uri r),
     pr_webpage_url := Some (''https://anypayx.com/i/'' @ inv_uid invoice),
     pr_status := Some ''unpaid'', pr_updatedAt := t\<rparr>"

text \<open>
  The currency of a one-option template is written to the local copy of the invoice only.
\<close>

definition createPaymentRequest ::
  "ext \<Rightarrow> prisma \<Rightarrow> nat \<Rightarrow> template_option list \<Rightarrow> payment_request_options \<Rightarrow> payment_request prog" where
  "createPaymentRequest E P app_id template opts =
     bnd (lift_result (ensureConsistentCurrencyAmount E template)) (\<lambda>(currency, amount).
     bnd (guard_io (template_valid E template) JoiError) (\<lambda>_.
     bnd (reads now) (\<lambda>t.
     bnd (create_row (prisma_payment_requests P) (\<lambda>i. \<lparr>pr_id = i, pr_app_id = app_id, pr_template = template,
            pr_status = None, pr_invoice_uid = None, pr_uri = None, pr_webpage_url = None,
            pr_createdAt = t, pr_updatedAt = t\<rparr>)) (\<lambda>paymentRequest.
     bnd (createEmptyInvoice E P app_id \<lparr>eio_uid = None, eio_currency = currency, eio_amount = Some amount,
            eio_webhook_url = pro_webhook_url opts, eio_secret = pro_secret opts,
            eio_metadata = pro_metadata opts, eio_memo = pro_memo opts,
            eio_fee_rate_level = pro_fee_rate_level opts, eio_redirect_url = pro_redirect_url opts\<rparr>) (\<lambda>invoice.
     bnd (update_row (prisma_invoices P) (inv_id invoice) (with_request_options opts)) (\<lambda>_.
     bnd (update_row (prisma_payment_requests P) (pr_id paymentRequest) (published_request invoice t)) (\<lambda>_.
     bnd (find_first_or_throw (prisma_payment_requests P) (\<lambda>r. pr_id r = pr_id paymentRequest)) (\<lambda>paymentRequest.
     bnd (paymentRequestToPaymentOptions E P paymentRequest) (\<lambda>_.
     ret paymentRequest)))))))))"

section \<open>Refunds\<close>

definition CURRENCIES :: "string \<Rightarrow> string option" where
  "CURRENCIES = map_of [(''BSV'', ''bitcoin-sv''), (''LTC'', ''litecoin''), (''BTC'', ''bitcoin''),
     (''BCH'', ''bitcoin-cash''), (''DASH'', ''dash''), (''ZEC'', ''zcash''), (''DOGE'', ''doge'')]"

text \<open>A decoded transaction is its inputs, as transaction and output number, and the addresses of its outputs.\<close>

definition getDecodedTransaction ::
  "ext \<Rightarrow> string \<Rightarrow> string \<Rightarrow> ((string \<times> nat) list \<times> string list list) prog" where
  "getDecodedTransaction E chain txid = ask (\<lambda>n. decoded_tx E n chain txid)"

definition getAddressForInvoice :: "ext \<Rightarrow> invoice \<Rightarrow> string option prog" where
  "getAddressForInvoice E invoice =
     bnd (guard_io (inv_status invoice \<noteq> ''unpaid'') (JsError [])) (\<lambda>_.
     (let currency = string_or_undefined (CURRENCIES (js_String (inv_currency invoice))) in
      bnd (getDecodedTransaction E currency (js_String (inv_hash invoice))) (\<lambda>(vin, _).
      (case vin of
         [] \<Rightarrow> throw JsTypeError
       | (txid, vout) # _ \<Rightarrow>
           bnd (getDecodedTransaction E currency txid) (\<lambda>(_, outs).
           if vout < length outs
           then ret (case outs ! vout of [] \<Rightarrow> None | a # _ \<Rightarrow> Some a)
           else throw JsTypeError)))))"

definition refund_template :: "payment \<Rightarrow> invoice \<Rightarrow> string option \<Rightarrow> template_option list" where
  "refund_template payment invoice address = [\<lparr>tpl_currency = pay_currency payment, tpl_chain = None,
     tpl_to = [\<lparr>to_currency = the (inv_currency invoice), to_amount = the (inv_amount invoice),
       to_address = address\<rparr>]\<rparr>]"

definition getRefund :: "ext \<Rightarrow> prisma \<Rightarrow> invoice \<Rightarrow> string option \<Rightarrow> refund prog" where
  "getRefund E P invoice address =
     bnd (find_first (prisma_refunds P) (\<lambda>r. rf_original_invoice_uid r = inv_uid invoice)) (\<lambda>record.
     (case record of
        Some r \<Rightarrow> ret r
      | None \<Rightarrow>
          bnd (if truthy address then ret address else getAddressForInvoice E invoice) (\<lambda>address.
          bnd (payment_by_invoice P (inv_uid invoice)) (\<lambda>payment.
          bnd (createApp E P ''@refunds'' (case inv_account_id invoice of None \<Rightarrow> 0 | Some a \<Rightarrow> a)) (\<lambda>app.
          bnd (createPaymentRequest E P (app_row_id app) (refund_template payment invoice address) no_options) (\<lambda>request.
          (case address of
             None \<Rightarrow> throw (PrismaError InvalidValue)
           | Some a \<Rightarrow>
               create_row (prisma_refunds P) (\<lambda>i. \<lparr>rf_id = i, rf_original_invoice_uid = inv_uid invoice,
                 rf_refund_invoice_uid = js_String (pr_invoice_uid request), rf_address = a,
                 rf_status = ''unpaid'', rf_txid = None\<rparr>))))))))"

end
