(* ===== verification/Ledger.thy ===== *)
theory Ledger
  imports PaymentRequests
begin

text \<open>
  The ledger is the part of the world an invoice's life is about: the invoices and the
  payments. Every operation that leaves both tables alone is listed here once, as a history,
  so that what the others do to them can be read off their few writes.
\<close>

section \<open>Operations that leave the ledger alone\<close>

definition ledger :: "world \<Rightarrow> invoice table \<times> payment table" where
  "ledger w = (db_invoices w, db_payments w)"

definition same_ledger :: "world \<Rightarrow> world \<Rightarrow> bool" where
  "same_ledger w w' \<longleftrightarrow> ledger w' = ledger w"

interpretation same: history same_ledger
  by unfold_locales (auto simp: same_ledger_def)

lemma same_writes: "(\<And>w. ledger (f w) = ledger w) \<Longrightarrow> follows same_ledger (writes f)"
  by (simp add: follows_def io_simps same_ledger_def)

lemma same_ask: "follows same_ledger (ask f)"
  by (simp add: follows_def ask_run same_ledger_def ledger_def)

lemma same_publish_raw: "follows same_ledger (publish_raw k m)"
  unfolding publish_raw_def by (rule same_writes) (simp add: ledger_def)

lemma same_start_job: "follows same_ledger (start_job j)"
  unfolding start_job_def by (rule same_writes) (simp add: ledger_def)

lemma same_not_awaited: "follows same_ledger m \<Longrightarrow> follows same_ledger (not_awaited m)"
  by (auto simp: follows_def not_awaited_def same_ledger_def ledger_def split: prod.splits sum.splits)
    (metis snd_conv fst_conv)+

lemma network_same: "network w w' \<Longrightarrow> same_ledger w w'"
  by (erule networkE) (simp add: same_ledger_def ledger_def)

lemma same_network: "follows network m \<Longrightarrow> follows same_ledger m"
  by (simp add: follows_def network_same)

lemma same_silent: "follows silent m \<Longrightarrow> follows same_ledger m"
  by (rule same_network [OF silent_is_network])

text \<open>A table of another kind: writing to it is writing apart from the ledger.\<close>

definition apart :: "(world, 'r) handle \<Rightarrow> bool" where
  "apart h \<longleftrightarrow> (\<forall>g w. ledger (h_set h g w) = ledger w)"

lemma same_create: "apart h \<Longrightarrow> follows same_ledger (create_row h f)"
  unfolding create_row_def by (rule same.follows_stored) (simp add: apart_def same_ledger_def)

lemma same_update: "apart h \<Longrightarrow> follows same_ledger (update_row h i f)"
  unfolding update_row_def by (rule same.follows_stored) (simp add: apart_def same_ledger_def)

lemma same_delete: "apart h \<Longrightarrow> follows same_ledger (delete_row h i)"
  unfolding delete_row_def by (rule same.follows_stored) (simp add: apart_def same_ledger_def)

lemma tables_apart:
  "apart (prisma_payment_options P)" "apart (prisma_payment_requests P)" "apart (prisma_accounts P)"
  "apart (prisma_addresses P)" "apart (prisma_coins P)" "apart (prisma_prices P)" "apart (prisma_price_records P)"
  "apart (prisma_apps P)" "apart (prisma_access_tokens P)" "apart (prisma_refunds P)"
  "apart (prisma_linked_accounts P)" "apart (prisma_webhooks P)" "apart (prisma_webhook_attempts P)"
  "apart (prisma_events P)" "apart (prisma_evm_receipts P)" "apart (prisma_account_settings P)"
  "apart (prisma_invoice_notes P)" "apart (prisma_payment_submissions P)" "apart (prisma_kraken_deposits P)"
  "apart (prisma_kraken_accounts P)" "apart (prisma_password_resets P)" "apart (prisma_firebase_tokens P)" "apart (prisma_logins P)"
  by (simp_all add: apart_def handle_defs ledger_def)

lemmas same_rules = same.follows_rules same.follows_reads_db same_ask same_publish_raw same_start_job
  same_not_awaited same_create same_update same_delete tables_apart

lemma same_publish: "follows same_ledger (publish key e)"
  unfolding publish_def by (intro same_rules)

lemma same_publishEvent: "follows same_ledger (publishEvent key e)"
  unfolding publishEvent_def publish_to_def by (intro same_rules same_publish)

lemma same_post: "follows same_ledger (post E url body)"
  unfolding post_def by (intro same_rules same_writes) (simp add: ledger_def)

lemma same_invoice_by_uid: "follows same_ledger (invoice_by_uid P uid)"
  unfolding invoice_by_uid_def by (intro same_rules)

lemma same_webhook_results:
  "follows same_ledger (webhook_succeeded P h r)" "follows same_ledger (webhook_failed P h e)"
  unfolding webhook_succeeded_def webhook_failed_def by (intro same_rules)+

lemma same_sendWebhook: "follows same_ledger (sendWebhook E P h)"
  unfolding sendWebhook_def by (intro same_rules same_post same_webhook_results)

lemma same_sendWebhookForInvoice: "follows same_ledger (sendWebhookForInvoice E P uid type)"
  unfolding sendWebhookForInvoice_def by (intro same_rules same_sendWebhook same_invoice_by_uid)

lemma same_createWebhookForInvoice: "follows same_ledger (createWebhookForInvoice E P invoice)"
  unfolding createWebhookForInvoice_def by (intro same_rules)

lemma same_createAndSendWebhook: "follows same_ledger (createAndSendWebhook P topic payload)"
  unfolding createAndSendWebhook_def create_app_webhook_def create_account_webhook_def by (intro same_rules)

lemma same_peeks: "peeks m \<Longrightarrow> follows same_ledger m"
  by (metis follows_def peeks_run same.R_refl snd_conv)

lemma same_convert: "follows same_ledger (convert E P a c)"
  unfolding convert_def convert_direct_def find_price_def by (intro same_rules)

lemma same_setPrice: "follows same_ledger (setPrice E P q)"
  unfolding setPrice_def find_price_def by (intro same_rules)

lemma same_createPaymentOptions: "follows same_ledger (createPaymentOptions E P account invoice)"
  unfolding createPaymentOptions_def listAvailableAddresses_def getCoins_def create_option_def
  by (intro same_rules same_peeks [OF peeks_quote])

lemma same_refresh_option: "follows same_ledger (refresh_option E P uid templates po)"
  unfolding refresh_option_def refreshed_output_def by (intro same_rules same_convert)

lemma same_paymentRequestToPaymentOptions: "follows same_ledger (paymentRequestToPaymentOptions E P request)"
  unfolding paymentRequestToPaymentOptions_def option_of_template_def priced_output_def getCoin_def
  by (intro same_rules same_convert)

lemma same_createApp: "follows same_ledger (createApp E P name account)"
  unfolding createApp_def by (intro same_rules)

lemma same_getAddressForInvoice: "follows same_ledger (getAddressForInvoice E invoice)"
  unfolding getAddressForInvoice_def getDecodedTransaction_def by (intro same_rules)

lemma same_payment_txid: "follows same_ledger (payment_txid E currency chain t)"
  by (rule same_silent [OF silent_payment_txid])

lemma same_save_receipt: "follows same_ledger (save_receipt P hash)"
  unfolding save_receipt_def by (intro same_rules)

text \<open>Asking for a confirmation only asks.\<close>

lemmas confirmation_defs = node_getConfirmation_def UTXO_getConfirmation_def BTC_getConfirmation_def
  BSV_getConfirmation_def EVM_getConfirmation_def XRP_getConfirmation_def Solana_getConfirmation_def
  XMR_getConfirmation_def

lemma same_confirmations:
  "follows same_ledger (node_getConfirmation E url h)" "follows same_ledger (UTXO_getConfirmation E u h)"
  "follows same_ledger (BTC_getConfirmation E h)" "follows same_ledger (BSV_getConfirmation E h)"
  "follows same_ledger (EVM_getConfirmation E url h)" "follows same_ledger (XRP_getConfirmation E h)"
  "follows same_ledger (Solana_getConfirmation E h)" "follows same_ledger (XMR_getConfirmation E h)"
  unfolding confirmation_defs by (intro same_rules)+

lemma plugins_confirmation_same:
  "\<forall>p \<in> snd ` set (plugins E). \<forall>h. follows same_ledger (plg_getConfirmation p h)"
  by (simp add: plugins_def utxo_plugins evm_plugins erc20_plugins other_plugins class_defs
      same_confirmations throws same_rules)

lemma same_with_plugin:
  assumes "\<And>p. find_plugin E currency chain = Inr p \<Longrightarrow> follows same_ledger (f p)"
  shows "follows same_ledger (with_plugin E currency chain f)"
  using assms
  by (cases "find_plugin E currency chain")
    (simp_all add: with_plugin_def follows_def bnd_run lift_result_run same.R_refl)

lemma same_getConfirmation: "follows same_ledger (getConfirmation E hash chain currency)"
  unfolding getConfirmation_def
proof (rule same_with_plugin)
  fix p
  assume "find_plugin E currency chain = Inr p"
  then have "p \<in> snd ` set (plugins E)" by (force simp: find_plugin_iff)
  with plugins_confirmation_same [of E] show "follows same_ledger (plg_getConfirmation p hash)" by blast
qed

end
