(* ===== verification/Triples.thy ===== *)
theory Triples
  imports Ledger
begin

text \<open>
  Assertions on the ledger. \<open>triple I m Q J\<close> says that \<open>m\<close>, started on a ledger satisfying \<open>I\<close>,
  returns with \<open>Q\<close> of its result and the ledger, or throws with \<open>J\<close> of the ledger. There is
  one rule per way of building a computation and one per call that reads or writes the two
  tables; everything else leaves the ledger alone (\<open>triple_same\<close>).
\<close>

type_synonym books = "invoice table \<times> payment table"

definition triple :: "(books \<Rightarrow> bool) \<Rightarrow> 'a prog \<Rightarrow> ('a \<Rightarrow> books \<Rightarrow> bool) \<Rightarrow> (books \<Rightarrow> bool) \<Rightarrow> bool" where
  "triple I m Q J \<longleftrightarrow> (\<forall>w. I (ledger w) \<longrightarrow>
     (\<forall>e v. m w = (Inl e, v) \<longrightarrow> J (ledger v)) \<and> (\<forall>a v. m w = (Inr a, v) \<longrightarrow> Q a (ledger v)))"

lemma tripleI:
  "(\<And>w e v. I (ledger w) \<Longrightarrow> m w = (Inl e, v) \<Longrightarrow> J (ledger v)) \<Longrightarrow>
   (\<And>w a v. I (ledger w) \<Longrightarrow> m w = (Inr a, v) \<Longrightarrow> Q a (ledger v)) \<Longrightarrow> triple I m Q J"
  unfolding triple_def by blast

lemma tripleD:
  assumes "triple I m Q J" and "I (ledger w)"
  shows "m w = (Inl e, v) \<Longrightarrow> J (ledger v)" and "m w = (Inr a, v) \<Longrightarrow> Q a (ledger v)"
  using assms unfolding triple_def by blast+

lemma triple_conseq:
  assumes "triple I m Q J" and "\<And>l. I' l \<Longrightarrow> I l" and "\<And>a l. Q a l \<Longrightarrow> Q' a l" and "\<And>l. J l \<Longrightarrow> J' l"
  shows "triple I' m Q' J'"
proof (rule tripleI)
  show "J' (ledger v)" if "I' (ledger w)" "m w = (Inl e, v)" for w e v
    using assms(4) [OF tripleD(1) [OF assms(1) assms(2) [OF that(1)] that(2)]] .
  show "Q' a (ledger v)" if "I' (ledger w)" "m w = (Inr a, v)" for w a v
    using assms(3) [OF tripleD(2) [OF assms(1) assms(2) [OF that(1)] that(2)]] .
qed

lemma triple_pre: "triple I m Q J \<Longrightarrow> (\<And>l. I' l \<Longrightarrow> I l) \<Longrightarrow> triple I' m Q J"
  by (rule triple_conseq) blast+

lemma triple_ret: "(\<And>l. I l \<Longrightarrow> Q a l) \<Longrightarrow> triple I (ret a) Q J"
  by (simp add: triple_def io_simps)

lemma triple_throw: "(\<And>l. I l \<Longrightarrow> J l) \<Longrightarrow> triple I (throw e) Q J"
  by (simp add: triple_def io_simps)

lemma triple_reads: "(\<And>a l. I l \<Longrightarrow> Q a l) \<Longrightarrow> triple I (reads f) Q J"
  by (simp add: triple_def io_simps)

lemma triple_bnd:
  assumes "triple I m R J" and "\<And>a. triple (R a) (k a) Q J"
  shows "triple I (bnd m k) Q J"
proof (rule tripleI)
  fix w e v
  assume "I (ledger w)" and "bnd m k w = (Inl e, v)"
  then show "J (ledger v)"
    using tripleD [OF assms(1)] tripleD(1) [OF assms(2)]
    by (simp add: bnd_run split: prod.splits sum.splits) blast+
next
  fix w b v
  assume "I (ledger w)" and "bnd m k w = (Inr b, v)"
  then show "Q b (ledger v)"
    using tripleD [OF assms(1)] tripleD(2) [OF assms(2)]
    by (simp add: bnd_run split: prod.splits sum.splits) blast
qed

lemma triple_catch:
  assumes "triple I m Q J" and "\<And>e. triple J (h e) Q J"
  shows "triple I (catch m h) Q J"
proof (rule tripleI)
  fix w e v
  assume "I (ledger w)" and "catch m h w = (Inl e, v)"
  then show "J (ledger v)"
    using tripleD [OF assms(1)] tripleD(1) [OF assms(2)]
    by (simp add: catch_run split: prod.splits sum.splits if_splits) blast+
next
  fix w b v
  assume "I (ledger w)" and "catch m h w = (Inr b, v)"
  then show "Q b (ledger v)"
    using tripleD [OF assms(1)] tripleD(2) [OF assms(2)]
    by (simp add: catch_run split: prod.splits sum.splits if_splits) blast+
qed

lemma triple_guard: "(\<And>l. I l \<Longrightarrow> b \<Longrightarrow> Q () l) \<Longrightarrow> (\<And>l. I l \<Longrightarrow> \<not> b \<Longrightarrow> J l) \<Longrightarrow> triple I (guard_io b e) Q J"
  by (simp add: triple_def guard_io_run)

lemma triple_lift:
  "(\<And>a l. r = Inr a \<Longrightarrow> I l \<Longrightarrow> Q a l) \<Longrightarrow> (\<And>l. I l \<Longrightarrow> J l) \<Longrightarrow> triple I (lift_result r) Q J"
  by (cases r) (simp_all add: triple_def lift_result_run)

lemma triple_if:
  "(c \<Longrightarrow> triple I a Q J) \<Longrightarrow> (\<not> c \<Longrightarrow> triple I b Q J) \<Longrightarrow> triple I (if c then a else b) Q J"
  by simp

lemma triple_option:
  "(z = None \<Longrightarrow> triple I a Q J) \<Longrightarrow> (\<And>x. z = Some x \<Longrightarrow> triple I (f x) Q J) \<Longrightarrow>
   triple I (case z of None \<Rightarrow> a | Some x \<Rightarrow> f x) Q J"
  by (cases z) simp_all

lemma triple_prod: "(\<And>x y. z = (x, y) \<Longrightarrow> triple I (f x y) Q J) \<Longrightarrow> triple I (case z of (x, y) \<Rightarrow> f x y) Q J"
  by (cases z) simp

lemma triple_Let: "(\<And>x. x = z \<Longrightarrow> triple I (f x) Q J) \<Longrightarrow> triple I (Let z f) Q J"
  by (simp add: Let_def)

lemma triple_fact: "(\<And>l. I l \<Longrightarrow> F) \<Longrightarrow> (F \<Longrightarrow> triple I m Q J) \<Longrightarrow> triple I m Q J"
  unfolding triple_def by blast

lemma triple_for_each: "(\<And>x. x \<in> set xs \<Longrightarrow> triple I (f x) (\<lambda>_. I) J) \<Longrightarrow> triple I (for_each f xs) (\<lambda>_. I) J"
  by (induction xs) (auto intro: triple_ret triple_bnd)

text \<open>What leaves the ledger alone leaves every assertion alone.\<close>

lemma triple_same:
  assumes "follows same_ledger m" and "\<And>a l. I l \<Longrightarrow> Q a l" and "\<And>l. I l \<Longrightarrow> J l"
  shows "triple I m Q J"
proof (rule tripleI)
  have same: "ledger v = ledger w" if "m w = (r, v)" for w r v
    using assms(1) that unfolding follows_def same_ledger_def by (metis snd_conv)
  show "J (ledger v)" if "I (ledger w)" "m w = (Inl e, v)" for w e v
    using assms(3) [OF that(1)] same [OF that(2)] by simp
  show "Q a (ledger v)" if "I (ledger w)" "m w = (Inr a, v)" for w a v
    using assms(2) [OF that(1)] same [OF that(2)] by simp
qed

lemma triple_not_awaited:
  assumes "triple I m (\<lambda>_. Q) Q"
  shows "triple I (not_awaited m) (\<lambda>_. Q) J"
proof (rule tripleI)
  have kept: "ledger (v\<lparr>rejections := x\<rparr>) = ledger v" for v x by (simp add: ledger_def)
  show "J (ledger v)" if "not_awaited m w = (Inl e, v)" for w e v
    using that by (simp add: not_awaited_def split: prod.splits sum.splits)
  show "Q (ledger v)" if "I (ledger w)" "not_awaited m w = (Inr a, v)" for w a v
    using that(2) tripleD [OF assms that(1)]
    by (auto simp: not_awaited_def kept split: prod.splits sum.splits if_splits)
qed

context prisma_client
begin

lemma triple_find_invoice:
  assumes "\<And>l. I l \<Longrightarrow> ids_ok inv_id (fst l)" and "\<And>l. I l \<Longrightarrow> J l"
  shows "triple I (find_first_or_throw (prisma_invoices P) p)
    (\<lambda>r l. I l \<and> p r \<and> row (fst l) (inv_id r) = Some r) J"
proof (rule tripleI)
  fix w r v
  assume I: "I (ledger w)" and run: "find_first_or_throw (prisma_invoices P) p w = (Inr r, v)"
  from run have f: "api_first (api_invoices P) p (db_invoices w) = Some r" and v: "v = w"
    by (auto simp: find_first_or_throw_run prisma_invoices_def split: option.splits)
  have ids: "ids_ok inv_id (db_invoices w)" using assms(1) [OF I] by (simp add: ledger_def)
  show "I (ledger v) \<and> p r \<and> row (fst (ledger v)) (inv_id r) = Some r"
    using I ti.first_row(1,2) [OF ids f] by (simp add: v ledger_def)
next
  fix w e v
  assume I: "I (ledger w)" and run: "find_first_or_throw (prisma_invoices P) p w = (Inl e, v)"
  from run have "v = w" by (auto simp: find_first_or_throw_run split: option.splits)
  then show "J (ledger v)" using assms(2) [OF I] by simp
qed

lemma triple_invoice_by_uid:
  assumes "\<And>l. I l \<Longrightarrow> ids_ok inv_id (fst l)" and "\<And>l. I l \<Longrightarrow> J l"
  shows "triple I (invoice_by_uid P uid)
    (\<lambda>r l. I l \<and> inv_uid r = uid \<and> row (fst l) (inv_id r) = Some r) J"
  unfolding invoice_by_uid_def by (rule triple_find_invoice [OF assms])

lemma triple_find_payment:
  assumes "\<And>l. I l \<Longrightarrow> ids_ok pay_id (snd l)" and "\<And>l. I l \<Longrightarrow> J l"
  shows "triple I (find_first_or_throw (prisma_payments P) p)
    (\<lambda>r l. I l \<and> p r \<and> row (snd l) (pay_id r) = Some r) J"
proof (rule tripleI)
  fix w r v
  assume I: "I (ledger w)" and run: "find_first_or_throw (prisma_payments P) p w = (Inr r, v)"
  from run have f: "api_first (api_payments P) p (db_payments w) = Some r" and v: "v = w"
    by (auto simp: find_first_or_throw_run prisma_payments_def split: option.splits)
  have ids: "ids_ok pay_id (db_payments w)" using assms(1) [OF I] by (simp add: ledger_def)
  show "I (ledger v) \<and> p r \<and> row (snd (ledger v)) (pay_id r) = Some r"
    using I tp.first_row(1,2) [OF ids f] by (simp add: v ledger_def)
next
  fix w e v
  assume I: "I (ledger w)" and run: "find_first_or_throw (prisma_payments P) p w = (Inl e, v)"
  from run have "v = w" by (auto simp: find_first_or_throw_run split: option.splits)
  then show "J (ledger v)" using assms(2) [OF I] by simp
qed

lemma triple_create_invoice:
  assumes "\<And>t p. I (t, p) \<Longrightarrow> unique_hash (t @ [Some (f (next_id t))]) \<Longrightarrow>
      Q (f (next_id t)) (t @ [Some (f (next_id t))], p)"
    and "\<And>l. I l \<Longrightarrow> J l"
  shows "triple I (create_row (prisma_invoices P) f) Q J"
  using assms by (simp add: triple_def create_invoices Let_def ledger_def)

lemma triple_update_invoice:
  assumes "\<And>t p r. I (t, p) \<Longrightarrow> row t i = Some r \<Longrightarrow> unique_hash (put t i (Some (g r))) \<Longrightarrow>
      Q (g r) (put t i (Some (g r)), p)"
    and "\<And>l. I l \<Longrightarrow> J l"
  shows "triple I (update_row (prisma_invoices P) i g) Q J"
  using assms by (simp add: triple_def update_invoices ledger_def split: option.splits)

lemma triple_create_payment:
  assumes "\<And>t p. I (t, p) \<Longrightarrow> Q (f (next_id p)) (t, p @ [Some (f (next_id p))])"
  shows "triple I (create_row (prisma_payments P) f) Q J"
  using assms by (simp add: triple_def create_payments ledger_def)

lemma triple_update_payment:
  assumes "\<And>t p r. I (t, p) \<Longrightarrow> row p k = Some r \<Longrightarrow> Q (g r) (t, put p k (Some (g r)))"
    and "\<And>l. I l \<Longrightarrow> J l"
  shows "triple I (update_row (prisma_payments P) k g) Q J"
  using assms by (simp add: triple_def update_payments ledger_def split: option.splits)

end

end
