(* ===== verification/Lifecycle.thy ===== *)
theory Lifecycle
  imports Triples
begin

text \<open>
  What an invoice goes through, stated without the program: a book of invoices and of
  payment slips, and the steps it may make. The functions of the source that write the two
  tables are then shown to make only such steps.
\<close>

section \<open>The specification\<close>

datatype phase = Unpaid | Confirming | Paid | Cancelled

record entry =
  en_uid :: string
  en_phase :: phase
  en_txid :: "string option"

record slip =
  sl_uid :: string
  sl_txid :: string

type_synonym book = "(nat \<rightharpoonup> entry) \<times> (nat \<rightharpoonup> slip)"

definition uid_free :: "string \<Rightarrow> (nat \<rightharpoonup> entry) \<Rightarrow> bool" where
  "uid_free u es \<longleftrightarrow> (\<forall>i e. es i = Some e \<longrightarrow> en_uid e \<noteq> u)"

definition txid_free :: "string \<Rightarrow> nat \<Rightarrow> (nat \<rightharpoonup> entry) \<Rightarrow> bool" where
  "txid_free h i es \<longleftrightarrow> (\<forall>j e. es j = Some e \<longrightarrow> en_txid e = Some h \<longrightarrow> j = i)"

text \<open>
  An invoice is opened unpaid under a new uid. A slip is noted for a transaction. An invoice
  that is not cancelled is settled by a transaction no other invoice carries and for which
  it has a slip; SOL and XRP write the transaction down first. A slip for the invoice is
  enough to mark it paid; one for the transaction it carries, to reopen it. It may be
  cancelled at any time.
\<close>

inductive book_step :: "book \<Rightarrow> book \<Rightarrow> bool" where
  opened: "es i = None \<Longrightarrow> uid_free u es \<Longrightarrow>
    book_step (es, sls) (es(i \<mapsto> \<lparr>en_uid = u, en_phase = Unpaid, en_txid = None\<rparr>), sls)"
| noted: "sls k = None \<Longrightarrow> book_step (es, sls) (es, sls(k \<mapsto> s))"
| settled: "es i = Some e \<Longrightarrow> en_phase e \<noteq> Cancelled \<Longrightarrow> ph \<in> {Paid, Confirming} \<Longrightarrow>
    sls k = Some s \<Longrightarrow> sl_uid s = en_uid e \<Longrightarrow> txid_free (sl_txid s) i es \<Longrightarrow>
    book_step (es, sls) (es(i \<mapsto> e\<lparr>en_phase := ph, en_txid := Some (sl_txid s)\<rparr>), sls)"
| tagged: "es i = Some e \<Longrightarrow> en_phase e \<noteq> Cancelled \<Longrightarrow> txid_free h i es \<Longrightarrow>
    book_step (es, sls) (es(i \<mapsto> e\<lparr>en_txid := Some h\<rparr>), sls)"
| confirmed: "es i = Some e \<Longrightarrow> sls k = Some s \<Longrightarrow> sl_uid s = en_uid e \<Longrightarrow>
    book_step (es, sls) (es(i \<mapsto> e\<lparr>en_phase := Paid\<rparr>), sls)"
| reopened: "es i = Some e \<Longrightarrow> sls k = Some s \<Longrightarrow> en_txid e = Some (sl_txid s) \<Longrightarrow>
    book_step (es, sls) (es(i \<mapsto> e\<lparr>en_phase := Unpaid, en_txid := None\<rparr>), sls)"
| cancelled: "es i = Some e \<Longrightarrow>
    book_step (es, sls) (es(i \<mapsto> e\<lparr>en_phase := Cancelled\<rparr>), sls)"

abbreviation book_steps :: "book \<Rightarrow> book \<Rightarrow> bool" where
  "book_steps \<equiv> book_step\<^sup>*\<^sup>*"

inductive_cases book_stepE: "book_step b b'"

text \<open>
  What holds of every book reached from the empty one: uids and transactions are not shared,
  and money is only booked against a slip.
\<close>

definition book_ok :: "book \<Rightarrow> bool" where
  "book_ok b \<longleftrightarrow> (case b of (es, sls) \<Rightarrow>
     (\<forall>i j e e'. es i = Some e \<longrightarrow> es j = Some e' \<longrightarrow> en_uid e = en_uid e' \<longrightarrow> i = j) \<and>
     (\<forall>i j e e' h. es i = Some e \<longrightarrow> es j = Some e' \<longrightarrow> en_txid e = Some h \<longrightarrow> en_txid e' = Some h \<longrightarrow> i = j) \<and>
     (\<forall>i e. es i = Some e \<longrightarrow> en_phase e \<in> {Paid, Confirming} \<longrightarrow>
        (\<exists>k s. sls k = Some s \<and> sl_uid s = en_uid e)))"

lemma book_okI:
  assumes "\<And>i j e e'. es i = Some e \<Longrightarrow> es j = Some e' \<Longrightarrow> en_uid e = en_uid e' \<Longrightarrow> i = j"
    and "\<And>i j e e' h. es i = Some e \<Longrightarrow> es j = Some e' \<Longrightarrow> en_txid e = Some h \<Longrightarrow> en_txid e' = Some h \<Longrightarrow> i = j"
    and "\<And>i e. es i = Some e \<Longrightarrow> en_phase e \<in> {Paid, Confirming} \<Longrightarrow> \<exists>k s. sls k = Some s \<and> sl_uid s = en_uid e"
  shows "book_ok (es, sls)"
  using assms unfolding book_ok_def by blast

lemma book_okD:
  assumes "book_ok (es, sls)"
  shows "es i = Some e \<Longrightarrow> es j = Some e' \<Longrightarrow> en_uid e = en_uid e' \<Longrightarrow> i = j"
    and "es i = Some e \<Longrightarrow> es j = Some e' \<Longrightarrow> en_txid e = Some h \<Longrightarrow> en_txid e' = Some h \<Longrightarrow> i = j"
    and "es i = Some e \<Longrightarrow> en_phase e \<in> {Paid, Confirming} \<Longrightarrow> \<exists>k s. sls k = Some s \<and> sl_uid s = en_uid e"
  using assms unfolding book_ok_def by blast+

text \<open>Rewriting one entry, keeping its uid.\<close>

lemma book_ok_entry:
  assumes ok: "book_ok (es, sls)" and e: "es i = Some e" and uid: "en_uid e' = en_uid e"
    and tx: "\<And>h. en_txid e' = Some h \<Longrightarrow> txid_free h i es"
    and slip: "en_phase e' \<in> {Paid, Confirming} \<Longrightarrow> \<exists>k s. sls k = Some s \<and> sl_uid s = en_uid e'"
  shows "book_ok (es(i \<mapsto> e'), sls)"
proof (rule book_okI)
  fix m n x y
  assume "(es(i \<mapsto> e')) m = Some x" "(es(i \<mapsto> e')) n = Some y" "en_uid x = en_uid y"
  then show "m = n"
    using book_okD(1) [OF ok] e uid by (simp split: if_splits)
next
  fix m n x y h
  assume "(es(i \<mapsto> e')) m = Some x" "(es(i \<mapsto> e')) n = Some y" "en_txid x = Some h" "en_txid y = Some h"
  then show "m = n"
    using book_okD(2) [OF ok, of m x n y h] tx [of h]
    by (simp add: txid_free_def split: if_splits)
next
  fix m x
  assume "(es(i \<mapsto> e')) m = Some x" "en_phase x \<in> {Paid, Confirming}"
  then show "\<exists>k s. sls k = Some s \<and> sl_uid s = en_uid x"
    using slip book_okD(3) [OF ok, of m x] by (auto split: if_splits)
qed

lemma txid_free_own: "book_ok (es, sls) \<Longrightarrow> es i = Some e \<Longrightarrow> en_txid e = Some h \<Longrightarrow> txid_free h i es"
  unfolding txid_free_def using book_okD(2) by blast

lemma book_step_ok:
  assumes "book_step b b'" and "book_ok b"
  shows "book_ok b'"
  using assms
proof (induction rule: book_step.induct)
  case (opened es i u sls)
  show ?case
  proof (rule book_okI)
    fix m n x y
    assume "(es(i \<mapsto> \<lparr>en_uid = u, en_phase = Unpaid, en_txid = None\<rparr>)) m = Some x"
      "(es(i \<mapsto> \<lparr>en_uid = u, en_phase = Unpaid, en_txid = None\<rparr>)) n = Some y" "en_uid x = en_uid y"
    with opened(2) book_okD(1) [OF opened(3)] show "m = n"
      unfolding uid_free_def by (simp split: if_splits) (metis entry.select_convs(1))+
  next
    fix m n x y h
    assume "(es(i \<mapsto> \<lparr>en_uid = u, en_phase = Unpaid, en_txid = None\<rparr>)) m = Some x"
      "(es(i \<mapsto> \<lparr>en_uid = u, en_phase = Unpaid, en_txid = None\<rparr>)) n = Some y"
      "en_txid x = Some h" "en_txid y = Some h"
    with book_okD(2) [OF opened(3), of m x n y h] show "m = n" by (auto split: if_splits)
  next
    fix m x
    assume "(es(i \<mapsto> \<lparr>en_uid = u, en_phase = Unpaid, en_txid = None\<rparr>)) m = Some x" "en_phase x \<in> {Paid, Confirming}"
    with book_okD(3) [OF opened(3), of m x] show "\<exists>k s. sls k = Some s \<and> sl_uid s = en_uid x"
      by (auto split: if_splits)
  qed
next
  case (noted sls k es s)
  have keep: "\<exists>k' s'. (sls(k \<mapsto> s)) k' = Some s' \<and> sl_uid s' = u" if "sls m = Some x" "sl_uid x = u" for m x u
    using that noted(1) by (intro exI [of _ m] exI [of _ x]) auto
  show ?case
    by (rule book_okI; use book_okD [OF noted(2)] keep in blast)
next
  case (settled es i e ph sls k s)
  then show ?case by (intro book_ok_entry [OF settled(7,1)]) auto
next
  case (tagged es i e h sls)
  have slip: "\<exists>k s. sls k = Some s \<and> sl_uid s = en_uid e" if "en_phase e \<in> {Paid, Confirming}"
    by (rule book_okD(3) [OF tagged(4,1) that])
  then show ?case by (intro book_ok_entry [OF tagged(4,1)]) (use tagged(3) in auto)
next
  case (confirmed es i e sls k s)
  then show ?case by (intro book_ok_entry [OF confirmed(4,1)]) (auto dest: txid_free_own)
next
  case (reopened es i e sls k s)
  then show ?case by (intro book_ok_entry [OF reopened(4,1)]) auto
next
  case (cancelled es i e sls)
  then show ?case by (intro book_ok_entry [OF cancelled(2,1)]) (auto dest: txid_free_own)
qed

lemma book_steps_ok: "book_steps b b' \<Longrightarrow> book_ok b \<Longrightarrow> book_ok b'"
  by (induction rule: rtranclp_induct) (auto dest: book_step_ok)

section \<open>The tables as a book\<close>

definition statuses :: "string set" where
  "statuses = {''unpaid'', ''confirming'', ''paid'', ''cancelled''}"

definition phase_of :: "string \<Rightarrow> phase" where
  "phase_of s = (if s = ''paid'' then Paid else if s = ''confirming'' then Confirming
     else if s = ''cancelled'' then Cancelled else Unpaid)"

definition entry_of :: "invoice \<Rightarrow> entry" where
  "entry_of r = \<lparr>en_uid = inv_uid r, en_phase = phase_of (inv_status r), en_txid = inv_hash r\<rparr>"

definition slip_of :: "payment \<Rightarrow> slip" where
  "slip_of q = \<lparr>sl_uid = pay_invoice_uid q, sl_txid = pay_txid q\<rparr>"

definition book_of :: "books \<Rightarrow> book" where
  "book_of l = ((\<lambda>i. map_option entry_of (row (fst l) i)), (\<lambda>k. map_option slip_of (row (snd l) k)))"

text \<open>
  The tables are well formed: rows carry their ids, a status is one of the four, a cancelled
  invoice is marked as such, no invoice has an expiry, and the book they stand for is in order.
\<close>

definition well :: "books \<Rightarrow> bool" where
  "well l \<longleftrightarrow> ids_ok inv_id (fst l) \<and> ids_ok pay_id (snd l) \<and>
     (\<forall>i r. row (fst l) i = Some r \<longrightarrow> inv_status r \<in> statuses \<and> inv_expiry r = None \<and> (inv_status r = ''cancelled'' \<longrightarrow> inv_cancelled r)) \<and> book_ok (book_of l)"

definition reach :: "books \<Rightarrow> books \<Rightarrow> bool" where
  "reach l0 l \<longleftrightarrow> well l \<and> book_steps (book_of l0) (book_of l)"

lemma wellD:
  assumes "well l"
  shows "ids_ok inv_id (fst l)" and "ids_ok pay_id (snd l)" and "book_ok (book_of l)"
    and "row (fst l) i = Some r \<Longrightarrow> inv_status r \<in> statuses"
    and "row (fst l) i = Some r \<Longrightarrow> inv_expiry r = None"
    and "row (fst l) i = Some r \<Longrightarrow> inv_status r = ''cancelled'' \<Longrightarrow> inv_cancelled r"
  using assms unfolding well_def by blast+

lemma reach_refl: "well l \<Longrightarrow> reach l l"
  by (simp add: reach_def)

lemma reach_trans: "reach a b \<Longrightarrow> reach b c \<Longrightarrow> reach a c"
  unfolding reach_def by (auto intro: rtranclp_trans)

lemma reach_well: "reach l0 l \<Longrightarrow> well l"
  by (simp add: reach_def)

lemma phase_of_simps [simp]:
  "phase_of ''paid'' = Paid" "phase_of ''confirming'' = Confirming" "phase_of ''cancelled'' = Cancelled"
  "phase_of ''unpaid'' = Unpaid"
  by (simp_all add: phase_of_def)

lemma phase_Cancelled [simp]: "phase_of s = Cancelled \<longleftrightarrow> s = ''cancelled''"
  by (simp add: phase_of_def)

lemma well_uid:
  assumes "well l" and "row (fst l) i = Some r" and "row (fst l) j = Some s" and "inv_uid r = inv_uid s"
  shows "i = j"
proof -
  have "book_ok (fst (book_of l), snd (book_of l))" using wellD(3) [OF assms(1)] by simp
  from book_okD(1) [OF this, of i "entry_of r" j "entry_of s"] show ?thesis
    using assms(2-4) by (simp add: book_of_def entry_of_def)
qed

text \<open>One move at a time.\<close>

lemma book_of_open: "book_of (t @ [Some r], p) = ((fst (book_of (t, p)))(next_id t \<mapsto> entry_of r), snd (book_of (t, p)))"
  by (auto simp: book_of_def row_append fun_eq_iff)

lemma book_of_note: "book_of (t, p @ [Some q]) = (fst (book_of (t, p)), (snd (book_of (t, p)))(next_id p \<mapsto> slip_of q))"
  by (auto simp: book_of_def row_append fun_eq_iff)

lemma book_of_put:
  "row t i = Some r \<Longrightarrow>
   book_of (put t i (Some r'), p) = ((fst (book_of (t, p)))(i \<mapsto> entry_of r'), snd (book_of (t, p)))"
  by (auto simp: book_of_def row_put fun_eq_iff dest: row_Some_bounds)

lemma book_of_pay:
  assumes "row p k = Some q" and "slip_of q' = slip_of q"
  shows "book_of (t, put p k (Some q')) = book_of (t, p)"
  using assms by (auto simp: book_of_def row_put fun_eq_iff dest: row_Some_bounds)

lemma reach_step:
  assumes "reach l0 l" and "book_step (book_of l) (book_of l')" and "ids_ok inv_id (fst l')" and "ids_ok pay_id (snd l')"
    and "\<And>i r. row (fst l') i = Some r \<Longrightarrow> inv_status r \<in> statuses \<and> inv_expiry r = None \<and> (inv_status r = ''cancelled'' \<longrightarrow> inv_cancelled r)"
  shows "reach l0 l'"
proof -
  have "book_ok (book_of l')"
    using book_step_ok [OF assms(2)] wellD(3) [OF reach_well [OF assms(1)]] by blast
  then show ?thesis
    using assms unfolding reach_def well_def by (auto intro: rtranclp.rtrancl_into_rtrancl)
qed

lemma move_open:
  assumes "reach l0 (t, p)" and "inv_id r = next_id t" and "\<And>j s. row t j = Some s \<Longrightarrow> inv_uid s \<noteq> inv_uid r"
    and "inv_status r = ''unpaid''" and "inv_hash r = None" and "inv_expiry r = None"
  shows "reach l0 (t @ [Some r], p)"
proof (rule reach_step [OF assms(1)])
  have "entry_of r = \<lparr>en_uid = inv_uid r, en_phase = Unpaid, en_txid = None\<rparr>"
    using assms(4,5) by (simp add: entry_of_def)
  moreover have "fst (book_of (t, p)) (next_id t) = None" by (simp add: book_of_def)
  moreover have "uid_free (inv_uid r) (fst (book_of (t, p)))"
    using assms(3) by (auto simp: uid_free_def book_of_def entry_of_def)
  ultimately show "book_step (book_of (t, p)) (book_of (t @ [Some r], p))"
    unfolding book_of_open using book_step.opened by (metis prod.collapse)
qed (use wellD [OF reach_well [OF assms(1)]] assms in \<open>auto simp: row_append statuses_def intro: ids_ok_append split: if_splits\<close>)

lemma move_note:
  assumes "reach l0 (t, p)" and "pay_id q = next_id p"
  shows "reach l0 (t, p @ [Some q])"
proof (rule reach_step [OF assms(1)])
  have "snd (book_of (t, p)) (next_id p) = None" by (simp add: book_of_def)
  then show "book_step (book_of (t, p)) (book_of (t, p @ [Some q]))"
    unfolding book_of_note using book_step.noted by (metis prod.collapse)
qed (use wellD [OF reach_well [OF assms(1)]] assms(2) in \<open>auto intro: ids_ok_append\<close>)

lemma move_pay:
  assumes "reach l0 (t, p)" and "row p k = Some q" and "slip_of q' = slip_of q" and "pay_id q' = pay_id q"
  shows "reach l0 (t, put p k (Some q'))"
  using assms wellD [OF reach_well [OF assms(1)]] book_of_pay [OF assms(2,3), of t]
  by (simp add: reach_def well_def) (metis ids_okD ids_ok_put)

lemma move_edit:
  assumes "reach l0 (t, p)" and "row t i = Some r" and "inv_id r' = inv_id r" and "inv_status r' \<in> statuses"
    and "inv_expiry r' = inv_expiry r" and "inv_status r' = ''cancelled'' \<Longrightarrow> inv_cancelled r'"
    and "book_step (book_of (t, p)) ((fst (book_of (t, p)))(i \<mapsto> entry_of r'), snd (book_of (t, p)))"
  shows "reach l0 (put t i (Some r'), p)"
proof (rule reach_step [OF assms(1)])
  note w = wellD [OF reach_well [OF assms(1)]]
  show "book_step (book_of (t, p)) (book_of (put t i (Some r'), p))"
    unfolding book_of_put [OF assms(2)] by (rule assms(7))
  show "ids_ok inv_id (fst (put t i (Some r'), p))"
    using w(1) assms(2,3) by (simp add: ids_ok_put ids_okD)
  show "inv_status s \<in> statuses \<and> inv_expiry s = None \<and> (inv_status s = ''cancelled'' \<longrightarrow> inv_cancelled s)" if "row (fst (put t i (Some r'), p)) j = Some s" for j s
    using that assms(2,4,5,6) w(4,5,6) by (auto simp: row_put split: if_splits)
qed (use wellD(2) [OF reach_well [OF assms(1)]] in simp)

text \<open>An edit that shows in no entry.\<close>

definition unseen :: "(invoice \<Rightarrow> invoice) \<Rightarrow> bool" where
  "unseen g \<longleftrightarrow> (\<forall>r. inv_id (g r) = inv_id r \<and> inv_uid (g r) = inv_uid r \<and> inv_status (g r) = inv_status r \<and>
     inv_hash (g r) = inv_hash r \<and> inv_expiry (g r) = inv_expiry r \<and> inv_cancelled (g r) = inv_cancelled r)"

lemma move_keep:
  assumes "reach l0 (t, p)" and "row t i = Some r" and "unseen g"
  shows "reach l0 (put t i (Some (g r)), p)"
proof -
  have "entry_of (g r) = entry_of r" using assms(3) by (simp add: unseen_def entry_of_def)
  then have "book_of (put t i (Some (g r)), p) = book_of (t, p)"
    unfolding book_of_put [OF assms(2)] using assms(2) by (simp add: book_of_def fun_upd_idem)
  moreover have "ids_ok inv_id (put t i (Some (g r)))"
    using assms wellD(1) [OF reach_well [OF assms(1)]] by (simp add: unseen_def ids_ok_put ids_okD)
  ultimately show ?thesis
    using assms wellD(4,5,6) [OF reach_well [OF assms(1)]]
    by (auto simp: reach_def well_def unseen_def row_put split: if_splits)
qed

end
