(* ===== verification/Refinement.thy ===== *)
theory Refinement
  imports Lifecycle
begin

text \<open>
  The functions of the source that write invoices or payments, each shown to move the book
  only by the steps of the specification, whatever the state it finds, whatever the outside
  world answers, and whether it returns or throws.
\<close>

section \<open>Moves\<close>

definition uids_distinct :: "invoice table \<Rightarrow> bool" where
  "uids_distinct t \<longleftrightarrow> (\<forall>i j r s. row t i = Some r \<longrightarrow> row t j = Some s \<longrightarrow> inv_uid r = inv_uid s \<longrightarrow> i = j)"

lemma unique_txid_free:
  assumes "unique_hash (put t i (Some r'))" and "row t i = Some r" and "inv_hash r' = Some h"
  shows "txid_free h i (fst (book_of (t, p)))"
  unfolding txid_free_def
proof (intro allI impI)
  fix j e
  assume "fst (book_of (t, p)) j = Some e" and "en_txid e = Some h"
  then obtain s where s: "row t j = Some s" "inv_hash s = Some h" by (auto simp: book_of_def entry_of_def)
  show "j = i"
  proof (rule ccontr)
    assume "j \<noteq> i"
    with unique_hash_taken [of "empty_world\<lparr>db_invoices := t\<rparr>" j s i h r r'] s assms show False by simp
  qed
qed

lemma move_settle:
  assumes "reach l0 (t, p)" and "row t i = Some r" and "inv_status r \<noteq> ''cancelled''"
    and "row p k = Some q" and "pay_invoice_uid q = inv_uid r"
    and "inv_status r' \<in> {''paid'', ''confirming''}" and "inv_hash r' = Some (pay_txid q)"
    and "inv_id r' = inv_id r" and "inv_uid r' = inv_uid r" and "inv_expiry r' = inv_expiry r"
    and "unique_hash (put t i (Some r'))"
  shows "reach l0 (put t i (Some r'), p)"
proof (rule move_edit [OF assms(1,2,8) _ assms(10)])
  let ?b = "book_of (t, p)"
  have "entry_of r' = (entry_of r)\<lparr>en_phase := phase_of (inv_status r'), en_txid := Some (sl_txid (slip_of q))\<rparr>"
    using assms(7,9) by (simp add: entry_of_def slip_of_def)
  moreover have "txid_free (sl_txid (slip_of q)) i (fst ?b)"
    using unique_txid_free [OF assms(11,2,7)] by (simp add: slip_of_def)
  moreover have "book_step (fst ?b, snd ?b) ((fst ?b)(i \<mapsto>
      (entry_of r)\<lparr>en_phase := phase_of (inv_status r'), en_txid := Some (sl_txid (slip_of q))\<rparr>), snd ?b)"
    using assms(2-6) calculation(2)
    by (intro book_step.settled [where k = k]) (auto simp: book_of_def entry_of_def slip_of_def)
  ultimately show "book_step ?b ((fst ?b)(i \<mapsto> entry_of r'), snd ?b)" by simp
qed (use assms(6) in \<open>auto simp: statuses_def\<close>)

lemma move_tag:
  assumes "reach l0 (t, p)" and "row t i = Some r" and "inv_status r \<noteq> ''cancelled''"
    and "inv_status r' = inv_status r" and "inv_hash r' = Some h"
    and "inv_id r' = inv_id r" and "inv_uid r' = inv_uid r" and "inv_expiry r' = inv_expiry r"
    and "unique_hash (put t i (Some r'))"
  shows "reach l0 (put t i (Some r'), p)"
proof (rule move_edit [OF assms(1,2,6) _ assms(8)])
  let ?b = "book_of (t, p)"
  have "entry_of r' = (entry_of r)\<lparr>en_txid := Some h\<rparr>" using assms(4,5,7) by (simp add: entry_of_def)
  moreover have "book_step (fst ?b, snd ?b) ((fst ?b)(i \<mapsto> (entry_of r)\<lparr>en_txid := Some h\<rparr>), snd ?b)"
    using assms(2,3) unique_txid_free [OF assms(9,2,5)]
    by (intro book_step.tagged) (auto simp: book_of_def entry_of_def)
  ultimately show "book_step ?b ((fst ?b)(i \<mapsto> entry_of r'), snd ?b)" by simp
qed (use assms(3,4) wellD(4) [OF reach_well [OF assms(1)]] assms(2) in simp_all)

lemma move_confirm:
  assumes "reach l0 (t, p)" and "row t i = Some r" and "row p k = Some q" and "pay_invoice_uid q = inv_uid r"
  shows "reach l0 (put t i (Some (r\<lparr>inv_status := ''paid''\<rparr>)), p)"
proof (rule move_edit [OF assms(1,2)])
  let ?b = "book_of (t, p)"
  have "entry_of (r\<lparr>inv_status := ''paid''\<rparr>) = (entry_of r)\<lparr>en_phase := Paid\<rparr>" by (simp add: entry_of_def)
  moreover have "book_step (fst ?b, snd ?b) ((fst ?b)(i \<mapsto> (entry_of r)\<lparr>en_phase := Paid\<rparr>), snd ?b)"
    using assms(2-4) by (intro book_step.confirmed [where k = k]) (auto simp: book_of_def entry_of_def slip_of_def)
  ultimately show "book_step ?b ((fst ?b)(i \<mapsto> entry_of (r\<lparr>inv_status := ''paid''\<rparr>)), snd ?b)" by simp
qed (simp_all add: statuses_def)

lemma move_reopen:
  assumes "reach l0 (t, p)" and "row t i = Some r" and "row p k = Some q" and "inv_hash r = Some (pay_txid q)"
  shows "reach l0 (put t i (Some (reverted_invoice r)), p)"
proof (rule move_edit [OF assms(1,2)])
  let ?b = "book_of (t, p)"
  have "entry_of (reverted_invoice r) = (entry_of r)\<lparr>en_phase := Unpaid, en_txid := None\<rparr>"
    by (simp add: entry_of_def reverted_invoice_def)
  moreover have "book_step (fst ?b, snd ?b) ((fst ?b)(i \<mapsto> (entry_of r)\<lparr>en_phase := Unpaid, en_txid := None\<rparr>), snd ?b)"
    using assms(2-4) by (intro book_step.reopened [where k = k]) (auto simp: book_of_def entry_of_def slip_of_def)
  ultimately show "book_step ?b ((fst ?b)(i \<mapsto> entry_of (reverted_invoice r)), snd ?b)" by simp
qed (simp_all add: statuses_def reverted_invoice_def)

lemma move_cancel:
  assumes "reach l0 (t, p)" and "row t i = Some r"
  shows "reach l0 (put t i (Some (cancelled_invoice r)), p)"
proof (rule move_edit [OF assms])
  let ?b = "book_of (t, p)"
  have "entry_of (cancelled_invoice r) = (entry_of r)\<lparr>en_phase := Cancelled\<rparr>"
    by (simp add: entry_of_def cancelled_invoice_def)
  moreover have "book_step (fst ?b, snd ?b) ((fst ?b)(i \<mapsto> (entry_of r)\<lparr>en_phase := Cancelled\<rparr>), snd ?b)"
    using assms(2) by (intro book_step.cancelled) (auto simp: book_of_def entry_of_def)
  ultimately show "book_step ?b ((fst ?b)(i \<mapsto> entry_of (cancelled_invoice r)), snd ?b)" by simp
qed (simp_all add: statuses_def cancelled_invoice_def)

section \<open>Safe computations\<close>

text \<open>A computation that moves the book by steps of the specification only.\<close>

definition safe :: "'a prog \<Rightarrow> bool" where
  "safe m \<longleftrightarrow> (\<forall>l0. triple (reach l0) m (\<lambda>_. reach l0) (reach l0))"

lemma safeI: "(\<And>l0. triple (reach l0) m (\<lambda>_. reach l0) (reach l0)) \<Longrightarrow> safe m"
  unfolding safe_def by blast

lemma safeD: "safe m \<Longrightarrow> triple (reach l0) m (\<lambda>_. reach l0) (reach l0)"
  unfolding safe_def by blast

lemma safe_reach:
  assumes "safe m" and "well (ledger w)"
  shows "reach (ledger w) (ledger (snd (m w)))"
proof -
  obtain r v where m: "m w = (r, v)" by (cases "m w")
  have "reach (ledger w) (ledger v)"
    using tripleD [OF safeD [OF assms(1), of "ledger w"] reach_refl [OF assms(2)]] m by (cases r) simp_all
  with m show ?thesis by simp
qed

lemma safe_same: "follows same_ledger m \<Longrightarrow> safe m"
  by (rule safeI) (rule triple_same)

lemma safe_bnd: "safe m \<Longrightarrow> (\<And>a. safe (k a)) \<Longrightarrow> safe (bnd m k)"
  by (rule safeI) (rule triple_bnd, rule safeD, assumption, rule safeD)

lemma safe_catch: "safe m \<Longrightarrow> (\<And>e. safe (h e)) \<Longrightarrow> safe (catch m h)"
  by (rule safeI) (rule triple_catch, rule safeD, assumption, rule safeD)

lemma safe_for_each: "(\<And>x. safe (f x)) \<Longrightarrow> safe (for_each f xs)"
  by (rule safeI) (rule triple_for_each, rule safeD)

lemma safe_not_awaited: "safe m \<Longrightarrow> safe (not_awaited m)"
  by (rule safeI) (rule triple_not_awaited, rule safeD)

lemma safe_if: "safe a \<Longrightarrow> safe b \<Longrightarrow> safe (if c then a else b)"
  by simp

lemma safe_option: "safe a \<Longrightarrow> (\<And>x. safe (f x)) \<Longrightarrow> safe (case z of None \<Rightarrow> a | Some x \<Rightarrow> f x)"
  by (cases z) simp_all

lemma safe_prod: "(\<And>x y. safe (f x y)) \<Longrightarrow> safe (case z of (x, y) \<Rightarrow> f x y)"
  by (cases z) simp

lemma safe_Let: "(\<And>x. safe (f x)) \<Longrightarrow> safe (Let z f)"
  by (simp add: Let_def)

lemmas safe_leaves = same_rules same_publishEvent same_post same_invoice_by_uid same_sendWebhook
  same_sendWebhookForInvoice same_createWebhookForInvoice same_createAndSendWebhook same_convert
  same_createPaymentOptions same_refresh_option same_paymentRequestToPaymentOptions same_createApp
  same_getAddressForInvoice same_payment_txid same_save_receipt same_getConfirmation

lemmas safe_rules = safe_bnd safe_catch safe_for_each safe_not_awaited safe_if safe_option safe_prod safe_Let

lemma triple_bnd_same:
  "follows same_ledger m \<Longrightarrow> (\<And>l. I l \<Longrightarrow> J l) \<Longrightarrow> (\<And>a. triple I (k a) Q J) \<Longrightarrow> triple I (bnd m k) Q J"
  by (rule triple_bnd [where R = "\<lambda>_. I"], rule triple_same) auto

section \<open>Payments\<close>

text \<open>Row \<open>i\<close> is the invoice with a uid, and it is not cancelled.\<close>

definition paying :: "books \<Rightarrow> string \<Rightarrow> nat \<Rightarrow> books \<Rightarrow> bool" where
  "paying l0 u i l \<longleftrightarrow> reach l0 l \<and>
     (\<exists>r. row (fst l) i = Some r \<and> inv_uid r = u \<and> inv_status r \<noteq> ''cancelled'')"

lemma paying_reach: "paying l0 u i l \<Longrightarrow> reach l0 l"
  by (simp add: paying_def)

lemma paying_ids: "paying l0 u i l \<Longrightarrow> ids_ok inv_id (fst l)" "paying l0 u i l \<Longrightarrow> ids_ok pay_id (snd l)"
  unfolding paying_def using reach_well wellD(1,2) by blast+

lemma paying_row:
  assumes "paying l0 u i l" and "row (fst l) i = Some r"
  shows "inv_uid r = u" and "inv_status r \<noteq> ''cancelled''" and "inv_id r = i"
  using assms ids_okD [OF paying_ids(1) [OF assms(1)]] by (auto simp: paying_def)

lemma paying_only:
  assumes "paying l0 u i l" and "row (fst l) j = Some r" and "inv_uid r = u"
  shows "j = i"
proof -
  obtain s where s: "row (fst l) i = Some s" "inv_uid s = u" using assms(1) by (auto simp: paying_def)
  show ?thesis
    by (rule well_uid [OF reach_well [OF paying_reach [OF assms(1)]] assms(2) s(1)]) (simp add: assms(3) s(2))
qed

lemma paying_put:
  assumes "reach l0 (put t i (Some r'), p)" and "row t i = Some r" and "inv_uid r' = u" and "inv_status r' \<noteq> ''cancelled''"
  shows "paying l0 u i (put t i (Some r'), p)"
  using assms by (simp add: paying_def row_put_same)

text \<open>The slip just written for the invoice.\<close>

definition slipped :: "string \<Rightarrow> string \<Rightarrow> books \<Rightarrow> bool" where
  "slipped u hash l \<longleftrightarrow> (\<exists>k q. row (snd l) k = Some q \<and> pay_invoice_uid q = u \<and> pay_txid q = hash)"

lemma slip_written:
  assumes "paying l0 u i (t, p)" and "pay_id q = next_id p" and "pay_invoice_uid q = u" and "pay_txid q = hash"
  shows "paying l0 u i (t, p @ [Some q]) \<and> slipped u hash (t, p @ [Some q])"
proof
  show "paying l0 u i (t, p @ [Some q])"
    using assms(1,2) by (auto simp: paying_def intro: move_note)
  show "slipped u hash (t, p @ [Some q])"
    unfolding slipped_def using assms(3,4) by (auto intro!: exI [of _ "next_id p"])
qed

lemma slip_settles:
  assumes "paying l0 u i (t, p)" and "slipped u hash (t, p)"
    and "row t i = Some r" and "unique_hash (put t i (Some r'))"
    and "inv_status r' \<in> {''paid'', ''confirming''}" and "inv_hash r' = Some hash"
    and "inv_id r' = inv_id r" and "inv_uid r' = inv_uid r" and "inv_expiry r' = inv_expiry r"
  shows "paying l0 u i (put t i (Some r'), p)"
proof -
  note r = paying_row [OF assms(1), of r, simplified, OF assms(3)]
  obtain k q where q: "row p k = Some q" "pay_invoice_uid q = inv_uid r" "pay_txid q = hash"
    using assms(2) by (auto simp: slipped_def r)
  have "reach l0 (put t i (Some r'), p)"
    using assms(4-) q paying_reach [OF assms(1)]
    by (intro move_settle [OF _ assms(3) r(2) q(1)]) simp_all
  then show ?thesis
    using assms(5,8) r(1) by (intro paying_put [OF _ assms(3)]) auto
qed

lemma paying_unseen:
  assumes "paying l0 u i (t, p)" and "row p k = Some q" and "slip_of q' = slip_of q" and "pay_id q' = pay_id q"
  shows "paying l0 u i (t, put p k (Some q'))"
  using assms move_pay [OF paying_reach [OF assms(1)] assms(2-4)] by (auto simp: paying_def)

context prisma_client
begin

lemma invoice_read:
  "triple (paying l0 u i) (invoice_by_uid P u)
     (\<lambda>r l. paying l0 u i l \<and> inv_uid r = u \<and> inv_id r = i) (paying l0 u i)"
  by (rule triple_conseq [OF triple_invoice_by_uid [where I = "paying l0 u i" and J = "paying l0 u i"]])
    (auto simp: paying_ids dest: paying_only)

text \<open>Both ways of recording a payment: a slip, then the invoice is settled with its transaction.\<close>

lemma recording_triple:
  assumes "\<And>n. pay_id (f n) = n" and "\<And>n. pay_invoice_uid (f n) = u" and "\<And>n. pay_txid (f n) = hash"
    and "\<And>r. inv_status (g r) \<in> {''paid'', ''confirming''}" and "\<And>r. inv_hash (g r) = Some hash"
    and "\<And>r. inv_id (g r) = inv_id r" and "\<And>r. inv_uid (g r) = inv_uid r" and "\<And>r. inv_expiry (g r) = inv_expiry r"
    and "\<And>q. follows same_ledger (rest q)"
  shows "triple (paying l0 u i)
    (bnd (create_row (prisma_payments P) f) (\<lambda>q. bnd (update_row (prisma_invoices P) i g) (\<lambda>_. rest q)))
    (\<lambda>_. paying l0 u i) (paying l0 u i)"
proof (rule triple_bnd [where R = "\<lambda>_ l. paying l0 u i l \<and> slipped u hash l"])
  show "triple (paying l0 u i) (create_row (prisma_payments P) f) (\<lambda>_ l. paying l0 u i l \<and> slipped u hash l) (paying l0 u i)"
    by (rule triple_create_payment, rule slip_written) (use assms(1-3) in auto)
  fix q
  show "triple (\<lambda>l. paying l0 u i l \<and> slipped u hash l)
      (bnd (update_row (prisma_invoices P) i g) (\<lambda>_. rest q)) (\<lambda>_. paying l0 u i) (paying l0 u i)"
  proof (rule triple_bnd [where R = "\<lambda>_. paying l0 u i"])
    show "triple (\<lambda>l. paying l0 u i l \<and> slipped u hash l) (update_row (prisma_invoices P) i g)
        (\<lambda>_. paying l0 u i) (paying l0 u i)"
      by (rule triple_update_invoice, rule slip_settles [where hash = hash]) (use assms(4-8) in auto)
    show "triple (paying l0 u i) (rest q) (\<lambda>_. paying l0 u i) (paying l0 u i)" for q
      by (rule triple_same [OF assms(9)])
  qed
qed

lemma completePayment_triple:
  "triple (paying l0 (po_invoice_uid opt) i) (completePayment E P opt t c)
     (\<lambda>_. paying l0 (po_invoice_uid opt) i) (paying l0 (po_invoice_uid opt) i)"
  unfolding completePayment_def Let_def
proof (rule triple_bnd_same [OF same_payment_txid], assumption, rule triple_bnd [OF invoice_read])
  fix hash invoice
  show "triple (\<lambda>l. paying l0 (po_invoice_uid opt) i l \<and> inv_uid invoice = po_invoice_uid opt \<and> inv_id invoice = i)
      (bnd (reads now) (\<lambda>time.
        bnd (create_row (prisma_payments P) (new_payment hash (payment_chain opt) opt t invoice time)) (\<lambda>paymentRecord.
        bnd (update_row (prisma_invoices P) (inv_id invoice)
              (settle_invoice opt hash (if c then ''confirming'' else ''paid'') time)) (\<lambda>_.
        bnd (invoice_by_uid P (po_invoice_uid opt)) (\<lambda>invoice.
        bnd (not_awaited (publishEvent ''invoice.paid'' (invoice_paid_event invoice (payment_chain opt) (po_currency opt) hash))) (\<lambda>_.
        bnd (start_job (JSendWebhookForInvoice (inv_uid invoice) ''api_on_complete_payment'')) (\<lambda>_.
        ret paymentRecord))))))) (\<lambda>_. paying l0 (po_invoice_uid opt) i) (paying l0 (po_invoice_uid opt) i)"
    by (rule triple_fact [where F = "inv_id invoice = i"])
      (auto intro!: triple_bnd_same [OF same.follows_reads] triple_pre [OF recording_triple [where hash = hash]]
        safe_leaves simp: new_payment_def settle_invoice_def)
qed

lemma handleUnconfirmedPayment_triple:
  "triple (paying l0 (po_invoice_uid opt) i) (handleUnconfirmedPayment E P opt t)
     (\<lambda>_. paying l0 (po_invoice_uid opt) i) (paying l0 (po_invoice_uid opt) i)"
  unfolding handleUnconfirmedPayment_def
proof (rule triple_bnd_same [OF same.follows_lift], assumption, rule triple_bnd_same [OF same.follows_lift],
    assumption, rule triple_bnd [OF invoice_read])
  fix tx invoice
  let ?hash = "if truthy (tx_id t) then the (tx_id t) else utx_hash tx"
  show "triple (\<lambda>l. paying l0 (po_invoice_uid opt) i l \<and> inv_uid invoice = po_invoice_uid opt \<and> inv_id invoice = i)
      (let hash = ?hash in
       bnd (reads now) (\<lambda>time.
       bnd (create_row (prisma_payments P) (new_payment hash (payment_chain opt) opt t invoice time)) (\<lambda>paymentRecord.
       bnd (update_row (prisma_invoices P) (inv_id invoice) (\<lambda>r.
              (settle_invoice opt hash ''confirming'' time r)\<lparr>
                 inv_currency := Some (po_currency opt), inv_amount := inv_amount invoice\<rparr>)) (\<lambda>_.
       bnd (publish_raw ''payment.confirming'' (PaymentMsg paymentRecord)) (\<lambda>_.
       ret paymentRecord))))) (\<lambda>_. paying l0 (po_invoice_uid opt) i) (paying l0 (po_invoice_uid opt) i)"
    unfolding Let_def
    by (rule triple_fact [where F = "inv_id invoice = i"])
      (auto intro!: triple_bnd_same [OF same.follows_reads] triple_pre [OF recording_triple [where hash = ?hash]]
        safe_leaves simp: new_payment_def settle_invoice_def)
qed

lemma set_invoice_hash_triple:
  "inv_id invoice = i \<Longrightarrow>
   triple (paying l0 u i) (set_invoice_hash P invoice h) (\<lambda>_. paying l0 u i) (paying l0 u i)"
  unfolding set_invoice_hash_def
proof (rule triple_bnd_same [OF same.follows_reads], assumption, rule triple_update_invoice)
  fix time t p and r :: invoice
  let ?r = "r\<lparr>inv_hash := Some h, inv_updatedAt := time\<rparr>"
  assume id: "inv_id invoice = i" and I: "paying l0 u i (t, p)" and row: "row t (inv_id invoice) = Some r"
    and unique: "unique_hash (put t (inv_id invoice) (Some ?r))"
  note r = paying_row [OF I, of r, simplified, OF row [unfolded id]]
  have "reach l0 (put t i (Some ?r), p)"
    using unique r by (intro move_tag [OF paying_reach [OF I] row [unfolded id]]) (simp_all add: id)
  then show "paying l0 u i (put t (inv_id invoice) (Some ?r), p)"
    using r unfolding id by (intro paying_put [OF _ row [unfolded id]]) simp_all
qed

lemma note_wallet_triple:
  "triple (paying l0 u i) (note_wallet P request paymentRecord) (\<lambda>_. paying l0 u i) (paying l0 u i)"
  unfolding note_wallet_def
proof (intro triple_if triple_ret)
  show "triple (paying l0 u i)
      (bnd (update_row (prisma_payments P) (pay_id paymentRecord) (\<lambda>r. r\<lparr>pay_wallet := sub_wallet request\<rparr>)) (\<lambda>_. ret ()))
      (\<lambda>_. paying l0 u i) (paying l0 u i)"
    by (rule triple_bnd [where R = "\<lambda>_. paying l0 u i"], rule triple_update_payment)
      (auto intro!: paying_unseen triple_ret simp: slip_of_def)
qed

lemma broadcast_triple:
  assumes "follows network (plg_broadcastTx plugin t)" and "inv_id invoice = i"
  shows "triple (paying l0 u i) (broadcast_transaction P plugin opt invoice t) (\<lambda>_. paying l0 u i) (paying l0 u i)"
  unfolding broadcast_transaction_def
  by (intro triple_bnd_same [OF same_network [OF assms(1)]] triple_if triple_ret
      triple_bnd [OF set_invoice_hash_triple [OF assms(2)]])

lemma record_transaction_triple:
  assumes "po_invoice_uid opt = u"
  shows "triple (paying l0 u i) (record_transaction E P opt invoice t) (\<lambda>_. paying l0 u i) (paying l0 u i)"
  unfolding record_transaction_def assms [symmetric]
  by (intro triple_if completePayment_triple triple_bnd [OF handleUnconfirmedPayment_triple]
      triple_bnd_same [OF same_start_job] triple_ret)

lemma submit_transaction_triple:
  assumes "find_plugin E currency chain = Inr plugin" and "inv_id invoice = i" and "po_invoice_uid opt = u"
  shows "triple (paying l0 u i) (submit_transaction E P request invoice opt plugin t) (\<lambda>_. paying l0 u i) (paying l0 u i)"
  unfolding submit_transaction_def
  by (intro triple_bnd_same [OF same_silent [OF found_plugin_quiet(1) [OF assms(1)]]]
      triple_bnd_same [OF same.follows_guard] triple_bnd [OF broadcast_triple [OF found_plugin_quiet(3) [OF assms(1)] assms(2)]]
      triple_bnd [OF record_transaction_triple [OF assms(3)]] note_wallet_triple)

lemma triple_find_option:
  assumes "\<And>l. I l \<Longrightarrow> J l"
  shows "triple I (find_first (prisma_payment_options P) p) (\<lambda>r l. I l \<and> (\<forall>po. r = Some po \<longrightarrow> p po)) J"
  using assms tpo.first_sound [of p]
  by (intro tripleI) (auto simp: find_first_run prisma_payment_options_def ledger_def)

lemma reach_ids: "reach l0 l \<Longrightarrow> ids_ok inv_id (fst l)" "reach l0 l \<Longrightarrow> ids_ok pay_id (snd l)"
  using reach_well wellD(1,2) by blast+

lemma submit_loop_triple:
  assumes "find_plugin E currency chain = Inr plugin" and "inv_id invoice = i" and "po_invoice_uid opt = u"
  shows "triple (paying l0 u i) (bnd (for_each (submit_transaction E P request invoice opt plugin) ts) (\<lambda>_. ret xs))
    (\<lambda>_. reach l0) (reach l0)"
proof (rule triple_conseq [where Q = "\<lambda>_. paying l0 u i" and J = "paying l0 u i" and I = "paying l0 u i"])
  show "triple (paying l0 u i) (bnd (for_each (submit_transaction E P request invoice opt plugin) ts) (\<lambda>_. ret xs))
    (\<lambda>_. paying l0 u i) (paying l0 u i)"
    by (rule triple_bnd, rule triple_for_each, rule submit_transaction_triple [OF assms], rule triple_ret)
qed (simp_all add: paying_reach)

lemma submit_option_triple:
  assumes "inv_id invoice = i" and "po_invoice_uid opt = u"
  shows "triple (paying l0 u i)
    (bnd (lift_result (find_plugin E currency chain)) (\<lambda>plugin.
     bnd (for_each (submit_transaction E P request invoice opt plugin) ts) (\<lambda>_. ret xs)))
    (\<lambda>_. reach l0) (reach l0)"
proof (rule triple_bnd [where R = "\<lambda>plugin l. paying l0 u i l \<and> find_plugin E currency chain = Inr plugin"])
  show "triple (paying l0 u i) (lift_result (find_plugin E currency chain))
      (\<lambda>plugin l. paying l0 u i l \<and> find_plugin E currency chain = Inr plugin) (reach l0)"
    by (rule triple_lift) (simp_all add: paying_reach)
  fix plugin
  show "triple (\<lambda>l. paying l0 u i l \<and> find_plugin E currency chain = Inr plugin)
      (bnd (for_each (submit_transaction E P request invoice opt plugin) ts) (\<lambda>_. ret xs)) (\<lambda>_. reach l0) (reach l0)"
    by (rule triple_fact [where F = "find_plugin E currency chain = Inr plugin"], simp)
      (rule triple_pre [OF submit_loop_triple [OF _ assms]], auto)
qed

lemma submit_found_triple:
  fixes request
  defines "u \<equiv> sub_invoice_uid request" and "chain \<equiv> sub_chain_or_currency request"
  shows "triple (paying l0 u (inv_id invoice))
    (bnd (find_first (prisma_payment_options P) (\<lambda>po. po_invoice_uid po = u \<and>
           po_currency po = sub_currency request \<and> po_chain po = chain)) (\<lambda>found.
     (case found of
        None \<Rightarrow> throw (JsError ''Unsupported Currency or Chain for Payment Option'')
      | Some paymentOption \<Rightarrow>
          bnd (lift_result (find_plugin E (sub_currency request) chain)) (\<lambda>plugin.
          bnd (for_each (submit_transaction E P request invoice paymentOption plugin)
                 (sub_transactions request)) (\<lambda>_.
          ret (map tx_hex (sub_transactions request)))))))
    (\<lambda>_. reach l0) (reach l0)"
proof (rule triple_bnd [OF triple_find_option], erule paying_reach)
  fix found :: "payment_option option"
  let ?fact = "\<forall>po. found = Some po \<longrightarrow> po_invoice_uid po = u \<and> po_currency po = sub_currency request \<and> po_chain po = chain"
  show "triple (\<lambda>l. paying l0 u (inv_id invoice) l \<and> ?fact)
    (case found of
        None \<Rightarrow> throw (JsError ''Unsupported Currency or Chain for Payment Option'')
      | Some paymentOption \<Rightarrow>
          bnd (lift_result (find_plugin E (sub_currency request) chain)) (\<lambda>plugin.
          bnd (for_each (submit_transaction E P request invoice paymentOption plugin)
                 (sub_transactions request)) (\<lambda>_.
          ret (map tx_hex (sub_transactions request))))) (\<lambda>_. reach l0) (reach l0)"
    by (rule triple_fact [where F = ?fact], simp, rule triple_option)
      (auto intro!: triple_throw triple_pre [OF submit_option_triple [OF refl]] dest: paying_reach)
qed

lemma submitPayment_safe: "safe (submitPayment E P request)"
  unfolding submitPayment_def Let_def
proof (rule safeI, rule triple_bnd [OF triple_invoice_by_uid], erule reach_ids, assumption, rule triple_bnd)
  fix l0 invoice
  show "triple (\<lambda>l. reach l0 l \<and> inv_uid invoice = sub_invoice_uid request \<and> row (fst l) (inv_id invoice) = Some invoice)
      (guard_io (inv_status invoice = ''unpaid'') (JsError (''Invoice With Status '' @ inv_status invoice @ '' Cannot Be Paid'')))
      (\<lambda>_. paying l0 (sub_invoice_uid request) (inv_id invoice)) (reach l0)"
    by (rule triple_guard) (auto simp: paying_def)
qed (rule submit_found_triple)

section \<open>Confirming and reverting\<close>

lemma update_payment_safe:
  "(\<And>r. slip_of (g r) = slip_of r \<and> pay_id (g r) = pay_id r) \<Longrightarrow> safe (update_row (prisma_payments P) k g)"
  by (rule safeI, rule triple_update_payment) (auto intro: move_pay)

lemma mark_paid_triple:
  "triple (\<lambda>l. reach l0 l \<and> row (snd l) (pay_id payment) = Some payment \<and> inv_uid invoice = pay_invoice_uid payment \<and>
      row (fst l) (inv_id invoice) = Some invoice)
     (update_row (prisma_invoices P) (inv_id invoice) (\<lambda>r. r\<lparr>inv_status := ''paid''\<rparr>)) (\<lambda>_. reach l0) (reach l0)"
  by (rule triple_update_invoice) (auto intro: move_confirm)

lemma confirmPayment_safe: "safe (confirmPayment P payment c)"
  unfolding confirmPayment_def
proof (rule safeI, rule triple_if)
  fix l0
  show "triple (reach l0) (ret payment) (\<lambda>_. reach l0) (reach l0)" by (rule triple_ret)
  have confirm: "safe (update_row (prisma_payments P) (pay_id payment) (confirmed_payment c))"
    by (rule update_payment_safe) (simp add: confirmed_payment_def slip_of_def)
  show "triple (reach l0)
      (bnd (guard_io (cf_date c \<noteq> None) (PrismaError InvalidValue)) (\<lambda>_.
       bnd (update_row (prisma_payments P) (pay_id payment) (confirmed_payment c)) (\<lambda>_.
       bnd (find_first_or_throw (prisma_payments P) (\<lambda>p. pay_id p = pay_id payment)) (\<lambda>payment.
       bnd (invoice_by_uid P (pay_invoice_uid payment)) (\<lambda>invoice.
       bnd (update_row (prisma_invoices P) (inv_id invoice) (\<lambda>r. r\<lparr>inv_status := ''paid''\<rparr>)) (\<lambda>_.
       bnd (publish_raw ''payment.confirmed'' (PaymentMsg payment)) (\<lambda>_.
       bnd (createAndSendWebhook P ''payment.confirmed'' (payment_confirmed_event payment invoice c)) (\<lambda>_.
       ret payment)))))))) (\<lambda>_. reach l0) (reach l0)"
    by (rule triple_bnd_same [OF same.follows_guard], assumption, rule triple_bnd [OF safeD [OF confirm]],
        rule triple_bnd [OF triple_find_payment], erule reach_ids, assumption,
        rule triple_bnd [OF triple_invoice_by_uid], auto dest: reach_ids)
      (rule triple_bnd [OF triple_pre [OF mark_paid_triple]], auto intro!: triple_same safe_leaves)
qed

lemma reopen_triple:
  "triple (\<lambda>l. reach l0 l \<and> inv_hash invoice = Some (pay_txid payment) \<and> row (fst l) (inv_id invoice) = Some invoice \<and>
      row (snd l) (pay_id payment) = Some payment)
     (update_row (prisma_invoices P) (inv_id invoice) reverted_invoice) (\<lambda>_. reach l0) (reach l0)"
  by (rule triple_update_invoice) (auto intro: move_reopen)

lemma revertPayment_safe: "safe (revertPayment P hash)"
  unfolding revertPayment_def payment_by_txid_def
proof (rule safeI, rule triple_bnd [OF triple_find_invoice], erule reach_ids, assumption,
    rule triple_bnd [OF triple_find_payment], blast dest: reach_ids, blast)
  fix l0 and invoice :: invoice and payment :: payment
  have fail: "safe (update_row (prisma_payments P) (pay_id payment) (\<lambda>r. r\<lparr>pay_status := Some ''failed''\<rparr>))"
    by (rule update_payment_safe) (simp add: slip_of_def)
  show "triple (\<lambda>l. (reach l0 l \<and> inv_hash invoice = Some hash \<and> row (fst l) (inv_id invoice) = Some invoice) \<and>
        pay_txid payment = hash \<and> row (snd l) (pay_id payment) = Some payment)
      (bnd (update_row (prisma_invoices P) (inv_id invoice) reverted_invoice) (\<lambda>_.
       bnd (update_row (prisma_payments P) (pay_id payment) (\<lambda>r. r\<lparr>pay_status := Some ''failed''\<rparr>)) (\<lambda>_.
       bnd (find_first_or_throw (prisma_payments P) (\<lambda>p. pay_id p = pay_id payment)) (\<lambda>payment.
       bnd (publish_raw ''payment.reverted'' (RevertedMsg payment invoice)) (\<lambda>_.
       ret (invoice, payment)))))) (\<lambda>_. reach l0) (reach l0)"
    by (rule triple_bnd [OF triple_pre [OF reopen_triple]], auto)
      (rule triple_bnd [OF safeD [OF fail]], auto intro!: triple_same safe_leaves)
qed

lemma confirmPaymentByTxid_safe: "safe (confirmPaymentByTxid P hash c)"
  unfolding confirmPaymentByTxid_def payment_by_txid_def
  by (intro safe_bnd safe_same [OF same.follows_find_first_or_throw] confirmPayment_safe)

lemma getConfirmationForTxid_safe: "safe (getConfirmationForTxid E P hash)"
  unfolding getConfirmationForTxid_def
  by (intro safe_rules confirmPayment_safe; (intro safe_same safe_leaves)?)

lemma confirm_one_safe: "safe (confirm_one E P payment)"
  unfolding confirm_one_def
  by (intro safe_rules confirmPayment_safe; (intro safe_same safe_leaves)?)

lemma confirming_tick_safe: "safe (confirming_tick E P)"
  unfolding confirming_tick_def
  by (intro safe_rules confirm_one_safe; (intro safe_same safe_leaves)?)

lemma confirmInvoice_safe: "safe (confirmInvoice E P uid)"
  unfolding confirmInvoice_def
  by (intro safe_rules confirmPaymentByTxid_safe; (intro safe_same safe_leaves)?)

lemma revert_unawaited_safe: "safe (revert_unawaited P hash)"
  unfolding revert_unawaited_def
  by (intro safe_rules revertPayment_safe; (intro safe_same safe_leaves)?)

lemma handleTransactionReceipt_safe: "safe (handleTransactionReceipt E P url receipt)"
  unfolding handleTransactionReceipt_def
  by (intro safe_rules confirmPaymentByTxid_safe revert_unawaited_safe; (intro safe_same safe_leaves)?)

lemma job_poll_receipt_safe: "safe (job_poll_receipt E P url hash)"
  unfolding job_poll_receipt_def
  by (intro safe_rules handleTransactionReceipt_safe; (intro safe_same safe_leaves)?)

lemma job_receipt_safe: "safe (job_receipt E P url receipt)"
  unfolding job_receipt_def
  by (intro safe_rules handleTransactionReceipt_safe revert_unawaited_safe)

lemma cancelInvoice_safe: "safe (cancelInvoice P invoice)"
proof -
  have "safe (update_row (prisma_invoices P) (inv_id invoice) cancelled_invoice)"
    by (rule safeI, rule triple_update_invoice) (auto intro: move_cancel)
  then show ?thesis
    unfolding cancelInvoice_def by (intro safe_bnd; (assumption | intro safe_same safe_leaves))
qed

end

section \<open>New invoices\<close>

text \<open>
  The uid of a new invoice comes from the package \<open>shortid\<close>; that it is not in use is what
  the package promises, and is a condition on the world after the operation.
\<close>

definition cautious :: "books \<Rightarrow> books \<Rightarrow> bool" where
  "cautious l0 l \<longleftrightarrow> (uids_distinct (fst l) \<longrightarrow> reach l0 l)"

lemma reach_cautious: "reach l0 l \<Longrightarrow> cautious l0 l"
  by (simp add: cautious_def)

definition blank :: "invoice \<Rightarrow> bool" where
  "blank r \<longleftrightarrow> inv_status r = ''unpaid'' \<and> inv_hash r = None \<and> inv_expiry r = None"

lemma cautious_open:
  assumes "reach l0 (t, p)" and "blank r" and "inv_id r = next_id t"
  shows "cautious l0 (t @ [Some r], p)"
proof -
  have "inv_uid s \<noteq> inv_uid r" if "uids_distinct (t @ [Some r])" and s: "row t j = Some s" for j s
  proof
    assume "inv_uid s = inv_uid r"
    moreover have j: "j \<noteq> next_id t" using s by auto
    moreover have "row (t @ [Some r]) j = Some s" "row (t @ [Some r]) (next_id t) = Some r"
      using j s by (simp_all add: row_append)
    ultimately show False
      using that(1) unfolding uids_distinct_def by blast
  qed
  then show ?thesis
    using assms by (auto simp: cautious_def blank_def intro: move_open)
qed

lemma uids_distinct_put:
  assumes "row t i = Some r" and "inv_uid r' = inv_uid r" and "uids_distinct (put t i (Some r'))"
  shows "uids_distinct t"
  unfolding uids_distinct_def
proof (intro allI impI)
  have kept: "\<exists>y. row (put t i (Some r')) j = Some y \<and> inv_uid y = inv_uid x" if "row t j = Some x" for j x
  proof (cases "j = i")
    case True
    with that assms(1) have "x = r" by simp
    with True assms(2) row_put_same [OF assms(1), of "Some r'"] show ?thesis by blast
  qed (simp add: row_put that)
  fix m n x y
  assume xy: "row t m = Some x" "row t n = Some y" "inv_uid x = inv_uid y"
  obtain x' y' where "row (put t i (Some r')) m = Some x'" "inv_uid x' = inv_uid x"
    "row (put t i (Some r')) n = Some y'" "inv_uid y' = inv_uid y"
    using kept [OF xy(1)] kept [OF xy(2)] by blast
  with assms(3) xy(3) show "m = n" unfolding uids_distinct_def by metis
qed

lemma cautious_keep:
  assumes "cautious l0 (t, p)" and "row t i = Some r" and "unseen g"
  shows "cautious l0 (put t i (Some (g r)), p)"
  unfolding cautious_def fst_conv
proof
  assume "uids_distinct (put t i (Some (g r)))"
  moreover have "inv_uid (g r) = inv_uid r" using assms(3) by (simp add: unseen_def)
  ultimately have "uids_distinct t" using uids_distinct_put [OF assms(2)] by blast
  with assms(1) have "reach l0 (t, p)" by (simp add: cautious_def)
  then show "reach l0 (put t i (Some (g r)), p)" by (rule move_keep [OF _ assms(2,3)])
qed

lemma unseen_request_options: "unseen (with_request_options opts)"
  by (simp add: unseen_def with_request_options_def)

context prisma_client
begin

lemma create_blank:
  "(\<And>i. blank (f i) \<and> inv_id (f i) = i) \<Longrightarrow>
   triple (reach l0) (create_row (prisma_invoices P) f) (\<lambda>_. cautious l0) (cautious l0)"
  by (rule triple_create_invoice) (auto intro: cautious_open reach_cautious)

lemma createInvoice_triple: "triple (reach l0) (createInvoice E P params) (\<lambda>_. cautious l0) (cautious l0)"
  unfolding createInvoice_def
proof (rule triple_bnd_same [OF same_ask], erule reach_cautious,
    rule triple_bnd_same [OF same.follows_reads], erule reach_cautious, rule triple_bnd [OF create_blank])
  show "blank (new_invoice E params uid t i) \<and> inv_id (new_invoice E params uid t i) = i" for uid t i
    by (simp add: blank_def new_invoice_def)
qed (rule triple_same, intro safe_leaves)

lemma createEmptyInvoice_triple:
  "triple (reach l0) (createEmptyInvoice E P app_id opts) (\<lambda>_. cautious l0) (cautious l0)"
  unfolding createEmptyInvoice_def
proof (rule triple_bnd_same)
  show "follows same_ledger (if truthy (eio_uid opts) then ret (the (eio_uid opts)) else ask (shortid E))"
    by (intro safe_leaves)
  show "triple (reach l0) (bnd (find_first_or_throw (prisma_apps P) (\<lambda>a. app_row_id a = app_id)) (\<lambda>app.
      bnd (reads now) (\<lambda>t. create_row (prisma_invoices P) (empty_invoice E app app_id opts uid t))))
      (\<lambda>_. cautious l0) (cautious l0)" for uid
    by (intro triple_bnd_same same.follows_find_first_or_throw same.follows_reads create_blank)
      (auto simp: blank_def empty_invoice_def intro: reach_cautious)
qed (rule reach_cautious)

lemma createPaymentRequest_triple:
  "triple (reach l0) (createPaymentRequest E P app_id template opts) (\<lambda>_. cautious l0) (cautious l0)"
proof -
  have options: "triple (cautious l0) (update_row (prisma_invoices P) i (with_request_options opts))
      (\<lambda>_. cautious l0) (cautious l0)" for i
    by (rule triple_update_invoice) (auto intro: cautious_keep unseen_request_options)
  show ?thesis
    unfolding createPaymentRequest_def
    by (rule triple_bnd_same [OF same.follows_lift], erule reach_cautious, rule triple_prod,
        rule triple_bnd_same [OF same.follows_guard], erule reach_cautious,
        rule triple_bnd_same [OF same.follows_reads], erule reach_cautious,
        rule triple_bnd_same, intro safe_leaves, erule reach_cautious,
        rule triple_bnd [OF createEmptyInvoice_triple], rule triple_bnd [OF options],
        rule triple_same, intro safe_leaves)
qed

lemma getRefund_triple: "triple (reach l0) (getRefund E P invoice address) (\<lambda>_. cautious l0) (cautious l0)"
proof -
  have "follows same_ledger (if truthy address then ret address else getAddressForInvoice E invoice)" for address
    by (intro safe_leaves)
  moreover have "follows same_ledger (payment_by_invoice P uid)" for uid
    unfolding payment_by_invoice_def by (intro safe_leaves)
  ultimately show ?thesis
    unfolding getRefund_def
    by (intro triple_bnd_same [OF same.follows_find_first] triple_option triple_ret triple_bnd_same
        [where m = "if truthy address then ret address else getAddressForInvoice E invoice" for address]
        triple_bnd_same [where m = "payment_by_invoice P uid" for uid] triple_bnd_same [OF same_createApp]
        triple_bnd [OF createPaymentRequest_triple] triple_same)
      (auto intro: reach_cautious safe_leaves)
qed

end

end
