(* ===== verification/Bip70.thy ===== *)
theory Bip70
  imports PayLib Fixtures "HOL-Library.Word"
begin

text \<open>
  The payment details of BIP70, \<open>src/lib/pay/bip70.ts\<close>. Their protobuf form, and its signature,
  are the package's. The clock is cut to 32 bits with \<open>| 0\<close>, which is exact until January 2038
  and a time before 1970 for the 68 years after.
\<close>

definition to_int32 :: "int \<Rightarrow> int" where
  "to_int32 x = sint (word_of_int x :: 32 word)"

text \<open>A script that could not be built, for an address that starts with 3, is missing when it is read.\<close>

definition bip70_output :: "bitcore \<Rightarrow> pay_output \<Rightarrow> js_error + (string \<times> num)" where
  "bip70_output bitcore out =
     (let script =
        (if prefix ''3'' (string_or_undefined (out_address out)) then
           (case bc_address bitcore (the (out_address out)) of
              Inl _ \<Rightarrow> Inl JsTypeError
            | Inr a \<Rightarrow> (case bc_p2sh bitcore a of Inl _ \<Rightarrow> Inl JsTypeError | Inr s \<Rightarrow> Inr s))
         else bc_p2pkh bitcore (out_address out))
      in case script of Inl e \<Rightarrow> Inl e | Inr s \<Rightarrow> Inr (s, out_amount out))"

definition bip70_buildOutputs :: "ext \<Rightarrow> payment_option \<Rightarrow> (string \<times> num) list prog" where
  "bip70_buildOutputs E payment_option =
     bnd (lift_result (getBitcore E (po_currency payment_option))) (\<lambda>bitcore.
     (case po_outputs payment_option of
        None \<Rightarrow> ret []
      | Some outputs \<Rightarrow> map_io (\<lambda>out. lift_result (bip70_output bitcore out)) outputs))"

record payment_details =
  pd_outputs :: "(string \<times> num) list"
  pd_time :: int
  pd_expires :: int
  pd_memo :: "string option"
  pd_payment_url :: string
  pd_required_fee_rate :: "num option"
  pd_merchant_data :: string

definition seconds_now :: "time \<Rightarrow> int" where
  "seconds_now t = to_int32 (js_trunc (of_int t / 1000))"

definition bip70_buildPaymentRequest :: "ext \<Rightarrow> payment_option \<Rightarrow> string \<Rightarrow> payment_details prog" where
  "bip70_buildPaymentRequest E paymentOption memo =
     bnd (bip70_buildOutputs E paymentOption) (\<lambda>outputs.
     bnd (reads now) (\<lambda>t.
     let now_s = seconds_now t; fee = cfg E (''REQUIRED_FEE_RATE_'' @ po_currency paymentOption) in
     ret \<lparr>pd_outputs = outputs, pd_time = now_s, pd_expires = now_s + 60 * 60 * 24,
       pd_memo = (if memo \<noteq> [] then Some memo else None),
       pd_payment_url = getBaseURL E @ ''/r/'' @ po_invoice_uid paymentOption @ ''/pay/'' @
         po_currency paymentOption @ ''/bip70'',
       pd_required_fee_rate = (if truthy fee then string_parseInt (the fee) else Some 1),
       pd_merchant_data = po_invoice_uid paymentOption\<rparr>))"

section \<open>Facts\<close>

lemma to_int32_range: "- (2 ^ 31) \<le> to_int32 x" "to_int32 x < 2 ^ 31"
  using sint_greater_eq [of "word_of_int x :: 32 word"] sint_less [of "word_of_int x :: 32 word"]
  by (simp_all add: to_int32_def)

lemma to_int32_exact: "- (2 ^ 31) \<le> x \<Longrightarrow> x < 2 ^ 31 \<Longrightarrow> to_int32 x = x"
  by (simp add: to_int32_def sint_sbintrunc' signed_take_bit_int_eq_self)

lemma to_int32_wraps:
  assumes "2 ^ 31 \<le> x" and "x < 2 ^ 32"
  shows "to_int32 x = x - 2 ^ 32"
proof -
  have "to_int32 x = (x + 2 ^ 31) mod 2 ^ 32 - 2 ^ 31" by (simp add: to_int32_def int_word_sint)
  moreover have "(x + 2 ^ 31) mod 2 ^ 32 = x + 2 ^ 31 - 2 ^ 32"
    using assms minus_mod_self2 [of "x + 2 ^ 31" "2 ^ 32"]
      mod_pos_pos_trivial [of "x + 2 ^ 31 - 2 ^ 32" "2 ^ 32"] by simp
  ultimately show ?thesis by simp
qed

lemma js_trunc_nonneg: "0 \<le> t \<Longrightarrow> js_trunc (of_int t / 1000) = t div 1000"
  using floor_divide_of_int_eq [of t 1000, where 'a = rat] by (simp add: js_trunc_def)

lemma seconds_now_eval:
  assumes "0 \<le> t" and "t < 2 ^ 32 * 1000"
  shows "seconds_now t = (if t div 1000 < 2 ^ 31 then t div 1000 else t div 1000 - 2 ^ 32)"
proof (cases "t div 1000 < 2 ^ 31")
  case True
  with assms show ?thesis by (simp add: seconds_now_def js_trunc_nonneg to_int32_exact)
next
  case False
  with assms show ?thesis
    using to_int32_wraps [of "t div 1000"] by (simp add: seconds_now_def js_trunc_nonneg)
qed

lemma map_io_reads:
  assumes "\<And>x w. snd (g x w) = w"
  shows "snd (map_io g xs w) = w"
proof (induction xs arbitrary: w)
  case (Cons x xs)
  then show ?case
    using assms [of x w] by (auto simp: bnd_run ret_run split: prod.splits sum.splits) (metis snd_conv)+
qed (simp add: ret_run)

lemma bip70_outputs_read: "snd (bip70_buildOutputs E po w) = w"
  by (auto simp: bip70_buildOutputs_def bnd_run lift_result_run ret_run map_io_reads split: sum.splits option.splits)

section \<open>Property\<close>

text \<open>
  The time of a BIP70 request (\<open>buildPaymentRequest\<close> of src/src/lib/pay/bip70.ts): \<open>| 0\<close> cuts
  the seconds of the clock to 32 bits, which is exact before 2038, and from then on, until
  2106, a time in the 68 years before 1970; the request expires a day after that time, so
  that from 2038 on a wallet is shown a request that has expired.
\<close>

theorem bip70_time_wraps:
  assumes "bip70_buildPaymentRequest E po memo w = (Inr d, w')" and "0 \<le> now w" and "now w < 2 ^ 32 * 1000"
  shows "pd_time d = (if now w div 1000 < 2 ^ 31 then now w div 1000 else now w div 1000 - 2 ^ 32) \<and>
    pd_expires d = pd_time d + 24 * 60 * 60 \<and> (2 ^ 31 + 24 * 60 * 60 \<le> now w div 1000 \<longrightarrow> pd_expires d < now w div 1000)"
proof -
  obtain r v where outs: "bip70_buildOutputs E po w = (r, v)" by (cases "bip70_buildOutputs E po w")
  with bip70_outputs_read [of E po w] have "v = w" by simp
  with assms(1) outs have "pd_time d = seconds_now (now w)" "pd_expires d = seconds_now (now w) + 24 * 60 * 60"
    by (auto simp: bip70_buildPaymentRequest_def io_simps Let_def split: sum.splits)
  then show ?thesis using seconds_now_eval [OF assms(2,3)] by auto
qed

theorem bip70_time_wraps_witness:
  "\<exists>d w'. bip70_buildPaymentRequest demo_ext (demo_option\<lparr>po_outputs := None\<rparr>) [] (empty_world\<lparr>now := 2 ^ 31 * 1000\<rparr>) = (Inr d, w') \<and>
     pd_time d = - (2 ^ 31)"
proof -
  let ?w = "empty_world\<lparr>now := 2 ^ 31 * 1000\<rparr>"
  obtain d where run: "bip70_buildPaymentRequest demo_ext (demo_option\<lparr>po_outputs := None\<rparr>) [] ?w = (Inr d, ?w)"
    by (simp add: bip70_buildPaymentRequest_def bip70_buildOutputs_def getBitcore_def find_plugin_def plugin_key_def plugins_def
        demo_option_def io_simps Let_def)
  from bip70_time_wraps [OF run] have "pd_time d = - (2 ^ 31)" by simp
  with run show ?thesis by blast
qed

end
