(* ===== verification/Server.thy ===== *)
theory Server
  imports Refinement Bip70
begin

text \<open>
  The HTTP handlers around invoices and payments: \<open>src/server/v0/handlers/invoices.ts\<close> and
  \<open>payment_requests.ts\<close>, \<open>src/server/v1/handlers/invoices.ts\<close>, \<open>payments.ts\<close> and \<open>refunds.ts\<close>,
  \<open>src/server/jsonV2/handlers/protocol.ts\<close> and \<open>src/server/payment_requests/handlers\<close>. A
  handler takes the parts of the request it reads and gives an answer; an error it lets
  through is the server's 500.
\<close>

section \<open>Answers\<close>

text \<open>A body with its code, or an error code with the error whose message is the body.\<close>

datatype 'a reply = Reply nat 'a | Refused nat "js_error option"

definition or_refuse :: "nat \<Rightarrow> 'a reply prog \<Rightarrow> 'a reply prog" where
  "or_refuse code m = catch m (\<lambda>e. ret (Refused code (Some e)))"

section \<open>Invoices, v0\<close>

text \<open>The deleted fields of an invoice are blank here.\<close>

definition sanitizeInvoice :: "invoice \<Rightarrow> invoice" where
  "sanitizeInvoice i = i\<lparr>inv_id := 0, inv_webhook_url := None, inv_headers := None, inv_secret := None,
     inv_app_id := None\<rparr>"

definition current_invoice :: "ext \<Rightarrow> prisma \<Rightarrow> string \<Rightarrow> invoice prog" where
  "current_invoice E P invoiceId =
     bnd (invoice_by_uid P invoiceId) (\<lambda>invoice.
     bnd (isExpired invoice) (\<lambda>expired.
     if inv_status invoice = ''unpaid'' \<and> expired then refreshInvoice E P (inv_uid invoice) else ret invoice))"

definition notes_of :: "prisma \<Rightarrow> string \<Rightarrow> invoice_note list prog" where
  "notes_of P uid = find_many (prisma_invoice_notes P) (\<lambda>n. nt_invoice_uid n = uid)"

definition showDeprecated ::
  "ext \<Rightarrow> prisma \<Rightarrow> string \<Rightarrow> (invoice \<times> payment_instructions list \<times> invoice_note list) reply prog" where
  "showDeprecated E P invoiceId =
     bnd (current_invoice E P invoiceId) (\<lambda>invoice.
     bnd (getPaymentOptions E P (inv_uid invoice)) (\<lambda>payment_options.
     bnd (notes_of P (inv_uid invoice)) (\<lambda>notes.
     ret (Reply 200 (sanitizeInvoice invoice, payment_options, notes)))))"

definition showLegacy ::
  "ext \<Rightarrow> prisma \<Rightarrow> string \<Rightarrow> (invoice \<times> payment_instructions list \<times> invoice_note list) reply prog" where
  "showLegacy E P invoiceId =
     bnd (current_invoice E P invoiceId) (\<lambda>invoice.
     bnd (getPaymentOptions E P (inv_uid invoice)) (\<lambda>payment_options.
     bnd (notes_of P (inv_uid invoice)) (\<lambda>notes.
     ret (Reply 200 (sanitizeInvoice invoice, payment_options, notes)))))"

record shown_invoice =
  si_amount :: "num option"
  si_currency :: "string option"
  si_status :: string
  si_uid :: string
  si_uri :: "string option"
  si_createdAt :: time
  si_expiresAt :: "time option"
  si_hash :: "string option"
  si_redirect_url :: "string option"
  si_payment_options :: "payment_instructions list"
  si_notes :: "invoice_note list"

text \<open>
  The query for the payment is not awaited: what the answer shows of it is the text of a
  promise, a payment with no field at all.
\<close>

definition shown_payment :: "invoice \<Rightarrow> payment option option" where
  "shown_payment invoice = (if truthy (inv_hash invoice) then Some None else None)"

definition v0_show :: "ext \<Rightarrow> prisma \<Rightarrow> string \<Rightarrow> (shown_invoice \<times> payment option option) reply prog" where
  "v0_show E P invoiceId = or_refuse 400
     (bnd (current_invoice E P invoiceId) (\<lambda>invoice.
      bnd (getPaymentOptions E P (inv_uid invoice)) (\<lambda>payment_options.
      bnd (notes_of P (inv_uid invoice)) (\<lambda>notes.
      ret (Reply 200 (\<lparr>si_amount = inv_amount invoice, si_currency = inv_currency invoice,
        si_status = inv_status invoice, si_uid = inv_uid invoice, si_uri = inv_uri invoice,
        si_createdAt = inv_createdAt invoice, si_expiresAt = inv_expiry invoice,
        si_hash = (if truthy (inv_hash invoice) then inv_hash invoice else None),
        si_redirect_url = (if truthy (inv_redirect_url invoice) then inv_redirect_url invoice else None),
        si_payment_options = payment_options, si_notes = notes\<rparr>, shown_payment invoice))))))"

definition v0_cancel :: "prisma \<Rightarrow> nat \<Rightarrow> string \<Rightarrow> (string \<times> nat \<times> string) reply prog" where
  "v0_cancel P account_id uid =
     bnd (find_first (prisma_invoices P) (\<lambda>r. inv_uid r = uid \<and> inv_account_id r = Some account_id)) (\<lambda>found.
     (case found of
        None \<Rightarrow> ret (Refused 404 None)
      | Some invoice \<Rightarrow>
          if \<not> inv_cancelled invoice
          then bnd (cancelInvoice P invoice) (\<lambda>_. ret (Reply 200 (uid, account_id, ''cancelled'')))
          else throw (JsError ''invoice already cancelled'')))"

text \<open>A limit or an offset of zero is none.\<close>

definition v0_index ::
  "prisma \<Rightarrow> time option \<Rightarrow> time option \<Rightarrow> nat option \<Rightarrow> nat option \<Rightarrow> invoice list reply prog" where
  "v0_index P startDateCreated endDateCreated limit offset =
     bnd (find_many (prisma_invoices P) (\<lambda>r.
            (case startDateCreated of None \<Rightarrow> True | Some d \<Rightarrow> d \<le> inv_createdAt r) \<and>
            (case endDateCreated of None \<Rightarrow> True | Some d \<Rightarrow> inv_createdAt r < d))) (\<lambda>invoices.
     ret (Reply 200 (page (Some (if truthy_id limit then the limit else 100))
       (Some (if truthy_id offset then the offset else 0)) invoices)))"

record created_invoice =
  cr_amount :: "num option"
  cr_status :: string
  cr_uid :: string
  cr_uri :: "string option"
  cr_createdAt :: time
  cr_expiresAt :: "time option"

definition created_view :: "invoice \<Rightarrow> created_invoice" where
  "created_view i = \<lparr>cr_amount = inv_amount i, cr_status = inv_status i, cr_uid = inv_uid i, cr_uri = inv_uri i,
     cr_createdAt = inv_createdAt i, cr_expiresAt = inv_expiry i\<rparr>"

definition v0_create ::
  "ext \<Rightarrow> prisma \<Rightarrow> create_invoice \<Rightarrow> (created_invoice \<times> payment_instructions list) reply prog" where
  "v0_create E P params = or_refuse 400
     (bnd (createInvoice E P params) (\<lambda>invoice.
      bnd (getPaymentOptions E P (inv_uid invoice)) (\<lambda>payment_options.
      ret (Reply 200 (created_view invoice, payment_options)))))"

record deprecated_option =
  do_uri :: string
  do_chain :: string
  do_currency :: string
  do_amount :: num

definition deprecated_option_of :: "ext \<Rightarrow> string \<Rightarrow> payment_instructions \<Rightarrow> js_error + deprecated_option" where
  "deprecated_option_of E uid option =
     (case pi_instructions option of
        [] \<Rightarrow> Inl JsTypeError
      | i # _ \<Rightarrow> Inr \<lparr>do_uri = computeInvoiceURI E (pi_chain option) uid, do_chain = pi_chain option,
          do_currency = pi_currency option, do_amount = sum_list (map fst (ins_outputs i))\<rparr>)"

definition createDeprecated ::
  "ext \<Rightarrow> prisma \<Rightarrow> create_invoice \<Rightarrow> (created_invoice \<times> deprecated_option list) reply prog" where
  "createDeprecated E P params = or_refuse 400
     (bnd (createInvoice E P params) (\<lambda>invoice.
      bnd (getPaymentOptions E P (inv_uid invoice)) (\<lambda>payment_options.
      bnd (map_io (\<lambda>option. lift_result (deprecated_option_of E (inv_uid invoice) option)) payment_options) (\<lambda>shown.
      ret (Reply 200 (created_view invoice, shown))))))"

section \<open>Payment requests of apps, v0\<close>

definition v0_create_request ::
  "ext \<Rightarrow> prisma \<Rightarrow> nat \<Rightarrow> template_option list \<Rightarrow> payment_request_options \<Rightarrow> payment_request reply prog" where
  "v0_create_request E P app_id template opts = or_refuse 400
     (bnd (createPaymentRequest E P app_id template opts) (\<lambda>result. ret (Reply 200 result)))"

text \<open>The function that should answer 401 throws.\<close>

definition notAuthorized :: "'a prog" where
  "notAuthorized = throw (JsError ''Function not implemented.'')"

definition cancel_request :: "prisma \<Rightarrow> nat \<Rightarrow> string \<Rightarrow> unit reply prog" where
  "cancel_request P app_id uid = or_refuse 400
     (bnd (find_first (prisma_invoices P) (\<lambda>r. inv_uid r = uid)) (\<lambda>found.
      (case found of
         None \<Rightarrow> ret (Refused 404 None)
       | Some invoice \<Rightarrow>
           if inv_app_id invoice \<noteq> Some app_id then notAuthorized
           else bnd (cancelInvoice P invoice) (\<lambda>_. ret (Reply 200 ())))))"

section \<open>Invoices, v1\<close>

text \<open>
  The uid as the handler reads it from the path; the route names the parameter otherwise, so
  it is undefined, and a condition on an undefined value is none.
\<close>

record brief_invoice =
  bi_currency :: string
  bi_amount :: "num option"
  bi_status :: string
  bi_createdAt :: time

definition v1_show ::
  "prisma \<Rightarrow> string option \<Rightarrow> (brief_invoice \<times> payment option \<times> kraken_deposit list) reply prog" where
  "v1_show P invoice_uid = or_refuse 500
     (bnd (find_first (prisma_invoices P) (\<lambda>r. case invoice_uid of None \<Rightarrow> True | Some u \<Rightarrow> inv_uid r = u)) (\<lambda>found.
      (case found of
         None \<Rightarrow> ret (Refused 404 (Some (JsError ''invoice not found'')))
       | Some invoice \<Rightarrow>
           bnd (find_first (prisma_payments P) (\<lambda>q. pay_invoice_uid q = inv_uid invoice)) (\<lambda>payment.
           bnd (find_many (prisma_kraken_deposits P) (\<lambda>d.
                  kd_account_id d = (case inv_account_id invoice of None \<Rightarrow> 0 | Some a \<Rightarrow> a) \<and>
                  kd_txid d = js_String (inv_hash invoice))) (\<lambda>deposits.
           ret (Reply 200 (\<lparr>bi_currency = js_String (inv_currency invoice), bi_amount = inv_amount invoice,
             bi_status = inv_status invoice, bi_createdAt = inv_createdAt invoice\<rparr>, payment, deposits)))))))"

record option_summary =
  os_uri :: "string option"
  os_currency :: string
  os_amount :: "num option"

definition option_summaries :: "prisma \<Rightarrow> invoice \<Rightarrow> option_summary list prog" where
  "option_summaries P invoice =
     bnd (find_many (prisma_payment_options P) (\<lambda>po. po_invoice_uid po = inv_uid invoice)) (\<lambda>payment_options.
     ret (map (\<lambda>po. \<lparr>os_uri = po_uri po, os_currency = po_currency po, os_amount = po_amount po\<rparr>) payment_options))"

definition v1_create ::
  "ext \<Rightarrow> prisma \<Rightarrow> create_invoice \<Rightarrow> bool \<Rightarrow> (string \<times> string) list \<Rightarrow> (invoice \<times> option_summary list) reply prog" where
  "v1_create E P params is_public_request headers =
     bnd (createInvoice E P params) (\<lambda>invoice.
     bnd (update_row (prisma_invoices P) (inv_id invoice)
            (\<lambda>r. r\<lparr>inv_is_public_request := Some is_public_request, inv_headers := Some headers\<rparr>)) (\<lambda>_.
     bnd (find_first_or_throw (prisma_invoices P) (\<lambda>r. inv_id r = inv_id invoice)) (\<lambda>invoice.
     bnd (option_summaries P invoice) (\<lambda>payment_options.
     ret (Reply 201 (invoice, payment_options))))))"

definition v1_refund ::
  "ext \<Rightarrow> prisma \<Rightarrow> nat \<Rightarrow> string \<Rightarrow> (refund \<times> invoice \<times> invoice) reply prog" where
  "v1_refund E P account_id invoice_uid = or_refuse 400
     (bnd (ensureInvoice P invoice_uid) (\<lambda>invoice.
      if inv_account_id invoice \<noteq> Some account_id
      then ret (Refused 401 (Some (JsError ''unauthorized'')))
      else
        bnd (getRefund E P invoice None) (\<lambda>refund.
        bnd (ensureInvoice P (rf_refund_invoice_uid refund)) (\<lambda>refund_invoice.
        ret (Reply 200 (refund, invoice, refund_invoice))))))"

section \<open>The JSON payment protocol\<close>

definition open_invoice :: "prisma \<Rightarrow> string \<Rightarrow> invoice prog" where
  "open_invoice P uid =
     bnd (getInvoice P uid) (\<lambda>invoice.
     bnd (guard_io (inv_status invoice \<noteq> ''paid'') (JsError ''invoice already paid'')) (\<lambda>_.
     bnd (guard_io (inv_status invoice \<noteq> ''cancelled'') (JsError ''invoice cancelled'')) (\<lambda>_.
     ret invoice)))"

text \<open>
  The header schemas: the version, read as a number, is an integer between 1 and 3; the other
  header is not empty and holds a media type anywhere in it.
\<close>

definition version_ok :: "ext \<Rightarrow> headers \<Rightarrow> bool" where
  "version_ok E headers = (case headers ''x-paypro-version'' of None \<Rightarrow> True
     | Some v \<Rightarrow> (case joi_number E v of None \<Rightarrow> False | Some n \<Rightarrow> of_int \<lfloor>n\<rfloor> = n \<and> 1 < n \<and> n < 3))"

definition media_ok :: "bool \<Rightarrow> string \<Rightarrow> string option \<Rightarrow> bool" where
  "media_ok required pattern header =
     (case header of None \<Rightarrow> \<not> required | Some h \<Rightarrow> h \<noteq> [] \<and> re_search pattern h)"

definition PaymentOptionsHeaders :: "ext \<Rightarrow> headers \<Rightarrow> bool" where
  "PaymentOptionsHeaders E headers \<longleftrightarrow>
     version_ok E headers \<and> media_ok True ''application/payment-options'' (headers ''accept'')"

definition PaymentRequestHeaders :: "ext \<Rightarrow> headers \<Rightarrow> bool" where
  "PaymentRequestHeaders E headers \<longleftrightarrow>
     version_ok E headers \<and> media_ok False ''application/payment-request'' (headers ''x-content-type'')"

definition PaymentVerificationHeaders :: "ext \<Rightarrow> headers \<Rightarrow> bool" where
  "PaymentVerificationHeaders E headers \<longleftrightarrow>
     version_ok E headers \<and> media_ok False ''application/payment-verification'' (headers ''x-content-type'')"

definition PaymentHeaders :: "ext \<Rightarrow> headers \<Rightarrow> bool" where
  "PaymentHeaders E headers \<longleftrightarrow>
     version_ok E headers \<and> media_ok False ''application/payment'' (headers ''x-content-type'')"

definition http_listPaymentOptions :: "ext \<Rightarrow> prisma \<Rightarrow> headers \<Rightarrow> string \<Rightarrow> offers reply prog" where
  "http_listPaymentOptions E P headers uid = or_refuse 400
     (bnd (open_invoice P uid) (\<lambda>invoice.
      bnd (guard_io (PaymentOptionsHeaders E headers) JoiError) (\<lambda>_.
      bnd (listPaymentOptions E P invoice) (\<lambda>response.
      ret (Reply 200 response)))))"

text \<open>A transaction of the payload, with the names the wallets use.\<close>

record posted_tx =
  ptx_tx :: string
  ptx_tx_key :: "string option"
  ptx_tx_hash :: "string option"
  ptx_txid :: "string option"

record posted =
  pst_currency :: "string option"
  pst_chain :: "string option"
  pst_transactions :: "posted_tx list"

definition unsigned_tx :: "posted_tx \<Rightarrow> transaction" where
  "unsigned_tx t = \<lparr>tx_hex = ptx_tx t, tx_id = ptx_txid t, tx_key = ptx_tx_key t\<rparr>"

definition signed_tx :: "posted_tx \<Rightarrow> transaction" where
  "signed_tx t = \<lparr>tx_hex = ptx_tx t, tx_id = str_or (ptx_tx_hash t) (ptx_txid t), tx_key = ptx_tx_key t\<rparr>"

datatype protocol_reply =
  Instructions payment_instructions
| Verified verification_request
| Accepted string

definition http_getPaymentRequest :: "ext \<Rightarrow> prisma \<Rightarrow> headers \<Rightarrow> string \<Rightarrow> posted \<Rightarrow> protocol_reply reply prog" where
  "http_getPaymentRequest E P headers uid payload = or_refuse 400
     (bnd (open_invoice P uid) (\<lambda>invoice.
      bnd (guard_io (PaymentRequestHeaders E headers) JoiError) (\<lambda>_.
      bnd (getPaymentRequest E P invoice (pst_chain payload) (pst_currency payload)) (\<lambda>response.
      ret (Reply 200 (Instructions response))))))"

definition http_verifyUnsignedPayment :: "ext \<Rightarrow> prisma \<Rightarrow> headers \<Rightarrow> string \<Rightarrow> posted \<Rightarrow> protocol_reply reply prog" where
  "http_verifyUnsignedPayment E P headers uid payload = or_refuse 400
     (bnd (open_invoice P uid) (\<lambda>invoice.
      bnd (guard_io (PaymentVerificationHeaders E headers) JoiError) (\<lambda>_.
      bnd (verifyUnsignedPayment E P invoice \<lparr>vr_chain = pst_chain payload, vr_currency = pst_currency payload,
             vr_transactions = map unsigned_tx (pst_transactions payload)\<rparr>) (\<lambda>response.
      ret (Reply 200 (Verified response))))))"

definition http_submitPayment :: "ext \<Rightarrow> prisma \<Rightarrow> headers \<Rightarrow> string \<Rightarrow> posted \<Rightarrow> protocol_reply reply prog" where
  "http_submitPayment E P headers uid payload = or_refuse 400
     (bnd (guard_io (PaymentHeaders E headers) JoiError) (\<lambda>_.
      bnd (open_invoice P uid) (\<lambda>invoice.
      bnd (sendSignedPayment E P invoice (string_or_undefined (pst_currency payload)) (pst_chain payload)
             (map signed_tx (pst_transactions payload))) (\<lambda>response.
      ret (Reply 200 (Accepted response))))))"

definition handlePost :: "ext \<Rightarrow> prisma \<Rightarrow> headers \<Rightarrow> string \<Rightarrow> posted \<Rightarrow> protocol_reply reply prog" where
  "handlePost E P headers uid payload = or_refuse 400
     (bnd (open_invoice P uid) (\<lambda>_.
      if headers ''x-content-type'' = Some ''application/payment-request''
      then http_getPaymentRequest E P headers uid payload
      else if headers ''x-content-type'' = Some ''application/payment-verification''
      then http_verifyUnsignedPayment E P headers uid payload
      else if headers ''x-content-type'' = Some ''application/payment''
      then http_submitPayment E P headers uid payload
      else throw (JsError ''Invalid Content-Type header'')))"

section \<open>The older protocols\<close>

definition option_of_invoice :: "prisma \<Rightarrow> string \<Rightarrow> string \<Rightarrow> payment_option prog" where
  "option_of_invoice P uid currency =
     find_first_or_throw (prisma_payment_options P) (\<lambda>po. po_invoice_uid po = uid \<and> po_currency po = currency)"

text \<open>\<open>buildPaymentRequestForInvoice\<close>, one definition per protocol.\<close>

definition bip270_request_for :: "ext \<Rightarrow> prisma \<Rightarrow> string \<Rightarrow> string \<Rightarrow> bip270_request prog" where
  "bip270_request_for E P uid currency =
     bnd (option_of_invoice P uid currency) (\<lambda>paymentOption.
     bnd (invoice_by_uid P uid) (\<lambda>_.
     bip270_buildPaymentRequest E P paymentOption))"

definition jsonv2_request_for :: "ext \<Rightarrow> prisma \<Rightarrow> string \<Rightarrow> string \<Rightarrow> jsonv2_request prog" where
  "jsonv2_request_for E P uid currency =
     bnd (option_of_invoice P uid currency) (\<lambda>paymentOption.
     bnd (invoice_by_uid P uid) (\<lambda>invoice.
     jsonV2_buildPaymentRequest E paymentOption None (js_String (inv_memo invoice))))"

definition bip70_request_for :: "ext \<Rightarrow> prisma \<Rightarrow> string \<Rightarrow> string \<Rightarrow> payment_details prog" where
  "bip70_request_for E P uid currency =
     bnd (option_of_invoice P uid currency) (\<lambda>paymentOption.
     bnd (invoice_by_uid P uid) (\<lambda>invoice.
     bip70_buildPaymentRequest E paymentOption (js_String (inv_memo invoice))))"

text \<open>
  The headers that sign the answer are left out, and so is the row that would keep the
  request: the query that inserts it is never sent, because nothing awaits it.
\<close>

definition bip70_show :: "ext \<Rightarrow> prisma \<Rightarrow> headers \<Rightarrow> string \<Rightarrow> payment_details reply prog" where
  "bip70_show E P headers uid =
     bnd (lift_result (getCurrency ''BIP70'' headers)) (\<lambda>currency.
     bnd (bip70_request_for E P uid (cur_code currency)) (\<lambda>content. ret (Reply 200 content)))"

definition bip270_show :: "ext \<Rightarrow> prisma \<Rightarrow> string \<Rightarrow> bip270_request reply prog" where
  "bip270_show E P uid = bnd (bip270_request_for E P uid ''BSV'') (\<lambda>content. ret (Reply 200 content))"

definition json_show :: "ext \<Rightarrow> prisma \<Rightarrow> headers \<Rightarrow> string \<Rightarrow> jsonv2_request reply prog" where
  "json_show E P headers uid =
     bnd (lift_result (getCurrency ''JSONV2'' headers)) (\<lambda>currency.
     bnd (jsonv2_request_for E P uid (cur_code currency)) (\<lambda>content. ret (Reply 200 content)))"

text \<open>The answer repeats the transaction, with \<open>error: 0\<close> or \<open>error: 1\<close>.\<close>

definition bip270_create :: "ext \<Rightarrow> prisma \<Rightarrow> headers \<Rightarrow> string \<Rightarrow> string \<Rightarrow> string reply prog" where
  "bip270_create E P headers uid txhex =
     bnd (invoice_by_uid P uid) (\<lambda>invoice.
     or_refuse 500
       (bnd (guard_io (\<not> inv_cancelled invoice) (JsError ''Invoice Already Cancelled'')) (\<lambda>_.
        bnd (submitPayment E P \<lparr>sub_invoice_uid = uid, sub_currency = ''BSV'', sub_chain = None,
               sub_transactions = [\<lparr>tx_hex = txhex, tx_id = None, tx_key = None\<rparr>],
               sub_wallet = detectWallet headers\<rparr>) (\<lambda>_.
        ret (Reply 200 txhex)))))"

definition to_upper_char :: "char \<Rightarrow> char" where
  "to_upper_char c =
     (if 97 \<le> (of_char c :: nat) \<and> (of_char c :: nat) \<le> 122
      then char_of ((of_char c :: nat) - 32) else c)"

definition to_upper :: "string \<Rightarrow> string" where
  "to_upper s = map to_upper_char s"

text \<open>The queries that would keep the submissions are never sent: nothing awaits them.\<close>

definition json_create ::
  "ext \<Rightarrow> prisma \<Rightarrow> headers \<Rightarrow> string \<Rightarrow> string \<Rightarrow> string \<Rightarrow> transaction list \<Rightarrow> string list reply prog" where
  "json_create E P headers uid currency chain transactions = or_refuse 400
     (bnd (submitPayment E P \<lparr>sub_invoice_uid = uid, sub_currency = to_upper currency,
             sub_chain = Some (to_upper chain), sub_transactions = transactions,
             sub_wallet = detectWallet headers\<rparr>) (\<lambda>response.
      ret (Reply 200 response)))"

text \<open>
  BIP70, with the transactions of the decoded payment. Whatever becomes of the row that keeps
  a submission, the payment goes on; the invoice must not be cancelled, but may be paid.
\<close>

definition keep_submission :: "prisma \<Rightarrow> invoice \<Rightarrow> payment_option \<Rightarrow> string \<Rightarrow> unit prog" where
  "keep_submission P invoice payment_option txhex =
     catch (bnd (create_row (prisma_payment_submissions P) (\<lambda>i. \<lparr>psub_id = i,
              psub_invoice_uid = Some (inv_uid invoice), psub_txhex = Some txhex,
              psub_currency = Some (po_currency payment_option), psub_wallet = None,
              psub_protocol = Some ''bip70''\<rparr>)) (\<lambda>_. ret ()))
       (\<lambda>_. ret ())"

definition bip70_transaction :: "ext \<Rightarrow> prisma \<Rightarrow> plugin \<Rightarrow> payment_option \<Rightarrow> string \<Rightarrow> unit prog" where
  "bip70_transaction E P plugin payment_option txhex =
     (let t = \<lparr>tx_hex = txhex, tx_id = None, tx_key = None\<rparr> in
      bnd (pay_verifyPayment E payment_option t) (\<lambda>_.
      bnd (plg_broadcastTx plugin t) (\<lambda>_.
      bnd (completePayment E P payment_option t False) (\<lambda>_.
      ret ()))))"

definition bip70_create ::
  "ext \<Rightarrow> prisma \<Rightarrow> headers \<Rightarrow> string \<Rightarrow> js_error + string list \<Rightarrow> string list reply prog" where
  "bip70_create E P headers uid decoded =
     bnd (lift_result (getCurrency ''BIP70'' headers)) (\<lambda>currency.
     bnd (lift_result (find_plugin E (cur_code currency) (cur_code currency))) (\<lambda>plugin.
     bnd (lift_result decoded) (\<lambda>transactions.
     bnd (publish_raw (''bip70.payments.'' @ to_lower (cur_code currency)) (Bip70Msg transactions)) (\<lambda>_.
     bnd (option_of_invoice P uid (cur_code currency)) (\<lambda>payment_option.
     bnd (invoice_by_uid P uid) (\<lambda>invoice.
     if inv_cancelled invoice then ret (Refused 400 (Some (JsError ''invoice cancelled'')))
     else
       bnd (for_each (keep_submission P invoice payment_option) transactions) (\<lambda>_.
       bnd (for_each (bip70_transaction E P plugin payment_option) transactions) (\<lambda>_.
       ret (Reply 200 transactions)))))))))"

section \<open>Payment requests\<close>

text \<open>The content negotiation of \<open>GET /r/{uid}\<close>.\<close>

datatype shown_request =
  ShownOffers offers
| ShownBip270 bip270_request
| ShownBip70 payment_details
| ShownJson jsonv2_request

fun map_reply :: "('a \<Rightarrow> 'b) \<Rightarrow> 'a reply \<Rightarrow> 'b reply" where
  "map_reply f (Reply n x) = Reply n (f x)"
| "map_reply f (Refused n e) = Refused n e"

definition answering :: "('a \<Rightarrow> 'b) \<Rightarrow> 'a reply prog \<Rightarrow> 'b reply prog" where
  "answering f m = bnd m (\<lambda>r. ret (map_reply f r))"

definition show_by_accept :: "ext \<Rightarrow> prisma \<Rightarrow> headers \<Rightarrow> string \<Rightarrow> shown_request reply prog" where
  "show_by_accept E P headers uid =
     (let accept = headers ''accept'' in
      if truthy accept \<and> re_search ''payment-options'' (the accept)
      then answering ShownOffers (http_listPaymentOptions E P headers uid)
      else if truthy accept \<and> suffix ''bitcoinsv-paymentrequest'' (the accept)
      then answering ShownBip270 (bip270_show E P uid)
      else if truthy accept \<and> suffix ''paymentrequest'' (the accept)
      then answering ShownBip70 (bip70_show E P headers uid)
      else if truthy accept \<and> suffix ''application/payment-request'' (the accept)
      then answering ShownJson (json_show E P headers uid)
      else answering ShownBip270 (bip270_show E P uid))"

text \<open>Only what comes before the negotiation is inside the \<open>try\<close>.\<close>

definition requests_show :: "ext \<Rightarrow> prisma \<Rightarrow> headers \<Rightarrow> string \<Rightarrow> shown_request reply prog" where
  "requests_show E P headers uid =
     bnd (catch
       (bnd (invoice_by_uid P uid) (\<lambda>invoice.
        if inv_cancelled invoice then ret (Some (Refused 400 (Some (JsError ''invoice cancelled''))))
        else
          bnd (isExpired invoice) (\<lambda>expired.
          bnd (if inv_status invoice = ''unpaid'' \<and> expired
               then bnd (refreshInvoice E P (inv_uid invoice)) (\<lambda>_. ret ()) else ret ()) (\<lambda>_.
          ret None))))
       (\<lambda>e. ret (Some (Refused 400 (Some e))))) (\<lambda>early.
     (case early of Some r \<Rightarrow> ret r | None \<Rightarrow> show_by_accept E P headers uid))"

text \<open>The row read back is the one answered; the invoice is the row as it was created.\<close>

record platform_options =
  plo_webhook :: "string option"
  plo_redirect :: "string option"
  plo_secret :: "string option"
  plo_metadata :: "string option"
  plo_fee_rate_level :: "string option"

definition with_platform_options :: "string \<Rightarrow> platform_options option \<Rightarrow> invoice \<Rightarrow> invoice" where
  "with_platform_options currency opts r =
     (case opts of
        None \<Rightarrow> r\<lparr>inv_currency := Some currency\<rparr>
      | Some plo \<Rightarrow> r\<lparr>inv_currency := Some currency,
          inv_webhook_url := set_if (plo_webhook plo) (inv_webhook_url r),
          inv_redirect_url := set_if (plo_redirect plo) (inv_redirect_url r),
          inv_secret := set_if (plo_secret plo) (inv_secret r),
          inv_metadata := set_if (plo_metadata plo) (inv_metadata r),
          inv_fee_rate_level := set_if (plo_fee_rate_level plo) (inv_fee_rate_level r)\<rparr>)"

definition first_currency :: "template_option list \<Rightarrow> string prog" where
  "first_currency template = (case template of [] \<Rightarrow> throw JsTypeError | t # _ \<Rightarrow> ret (tpl_currency t))"

definition requests_create ::
  "ext \<Rightarrow> prisma \<Rightarrow> nat \<Rightarrow> template_option list \<Rightarrow> platform_options option \<Rightarrow> payment_request reply prog" where
  "requests_create E P app_id template opts = or_refuse 400
     (bnd (guard_io (template_valid E template) JoiError) (\<lambda>_.
      bnd (reads now) (\<lambda>t.
      bnd (create_row (prisma_payment_requests P) (\<lambda>i. \<lparr>pr_id = i, pr_app_id = app_id, pr_template = template,
             pr_status = Some ''unpaid'', pr_invoice_uid = None, pr_uri = None, pr_webpage_url = None,
             pr_createdAt = t, pr_updatedAt = t\<rparr>)) (\<lambda>record.
      bnd (first_currency template) (\<lambda>currency.
      bnd (createEmptyInvoice E P app_id \<lparr>eio_uid = None, eio_currency = Some currency, eio_amount = None,
             eio_webhook_url = None, eio_secret = None, eio_metadata = None, eio_memo = None,
             eio_fee_rate_level = None, eio_redirect_url = None\<rparr>) (\<lambda>invoice.
      bnd (update_row (prisma_invoices P) (inv_id invoice) (with_platform_options currency opts)) (\<lambda>_.
      bnd (update_row (prisma_payment_requests P) (pr_id record)
             (\<lambda>r. published_request invoice (pr_updatedAt r) r)) (\<lambda>_.
      bnd (find_first_or_throw (prisma_payment_requests P) (\<lambda>r. pr_id r = pr_id record)) (\<lambda>record.
      bnd (paymentRequestToPaymentOptions E P record) (\<lambda>_.
      bnd (start_job (JCreateWebhookForInvoice invoice)) (\<lambda>_.
      ret (Reply 200 record))))))))))))"

section \<open>Payments, v1\<close>

text \<open>A payment with the relations its query loaded.\<close>

record loaded_payment =
  lp_payment :: payment
  lp_option :: "payment_option option"
  lp_invoice :: "invoice option"

text \<open>\<open>listPayments\<close> includes no relation.\<close>

definition loaded :: "payment \<Rightarrow> loaded_payment" where
  "loaded q = \<lparr>lp_payment = q, lp_option = None, lp_invoice = None\<rparr>"

record payment_item =
  pit_currency :: string
  pit_chain :: "string option"
  pit_txid :: string
  pit_createdAt :: time
  pit_outputs :: "pay_output list option"
  pit_invoice_uid :: string
  pit_invoice_amount :: "num option"
  pit_invoice_currency :: "string option"

definition payment_item :: "loaded_payment \<Rightarrow> js_error + payment_item" where
  "payment_item l =
     (case (lp_option l, lp_invoice l) of
        (Some option, Some invoice) \<Rightarrow> Inr \<lparr>pit_currency = pay_currency (lp_payment l),
          pit_chain = pay_chain (lp_payment l), pit_txid = pay_txid (lp_payment l),
          pit_createdAt = pay_createdAt (lp_payment l), pit_outputs = po_outputs option,
          pit_invoice_uid = inv_uid invoice, pit_invoice_amount = inv_amount invoice,
          pit_invoice_currency = inv_currency invoice\<rparr>
      | _ \<Rightarrow> Inl JsTypeError)"

definition payment_items :: "loaded_payment list \<Rightarrow> payment_item list" where
  "payment_items ls = List.map_filter (\<lambda>l. case payment_item l of Inl _ \<Rightarrow> None | Inr i \<Rightarrow> Some i) ls"

definition payments_index :: "prisma \<Rightarrow> nat \<Rightarrow> nat option \<Rightarrow> nat option \<Rightarrow> payment_item list reply prog" where
  "payments_index P account_id limit offset = or_refuse 400
     (bnd (listPayments P account_id (if truthy_id limit then the limit else 1000)
             (if truthy_id offset then the offset else 0)) (\<lambda>payments.
      ret (Reply 200 (payment_items (map loaded payments)))))"

record shown_confirmation =
  sc_chain :: string
  sc_block_hash :: string
  sc_block_height :: nat
  sc_timestamp :: time

text \<open>The time shown is that of the payment, not of the block.\<close>

definition payments_show :: "prisma \<Rightarrow> string \<Rightarrow> (payment \<times> shown_confirmation option) reply prog" where
  "payments_show P invoice_uid =
     bnd (find_first_or_throw (prisma_payments P) (\<lambda>q. pay_invoice_uid q = invoice_uid)) (\<lambda>payment.
     ret (Reply 200 (payment,
       if truthy (pay_confirmation_hash payment)
       then Some \<lparr>sc_chain = (if truthy (pay_chain payment) then the (pay_chain payment) else pay_currency payment),
         sc_block_hash = the (pay_confirmation_hash payment),
         sc_block_height = (case pay_confirmation_height payment of None \<Rightarrow> 0 | Some h \<Rightarrow> h),
         sc_timestamp = pay_createdAt payment\<rparr>
       else None)))"

end
