(* ===== verification/System.thy ===== *)
theory System
  imports Server
begin

text \<open>
  The server as a whole: requests, the timer of \<open>startConfirmingTransactions\<close>, and what earlier
  requests left to do, in any order. A request runs from its first query to its answer,
  except where the source trusts a row it read earlier: a cancellation and a confirmation
  act on copies that other requests may have overtaken, and are two steps each.
\<close>

section \<open>Requests\<close>

datatype command =
  CreateInvoice create_invoice bool "(string \<times> string) list"
| CreateInvoiceV0 create_invoice
| CreateRequest nat "template_option list" payment_request_options
| CreatePlatformRequest nat "template_option list" "platform_options option"
| RefundInvoice nat string
| PostProtocol headers string posted
| PayBip270 headers string string
| PayBip70 headers string "js_error + string list"
| PayJson headers string string string "transaction list"
| ShowInvoice string
| ShowRequest headers string
| ConfirmInvoice string
| SetPrice price_quote

definition discard :: "'a prog \<Rightarrow> unit prog" where
  "discard m = bnd m (\<lambda>_. ret ())"

fun serve :: "ext \<Rightarrow> prisma \<Rightarrow> command \<Rightarrow> unit prog" where
  "serve E P (CreateInvoice params public headers) = discard (v1_create E P params public headers)"
| "serve E P (CreateInvoiceV0 params) = discard (v0_create E P params)"
| "serve E P (CreateRequest app_id template opts) = discard (v0_create_request E P app_id template opts)"
| "serve E P (CreatePlatformRequest app_id template opts) = discard (requests_create E P app_id template opts)"
| "serve E P (RefundInvoice account_id uid) = discard (v1_refund E P account_id uid)"
| "serve E P (PostProtocol headers uid payload) = discard (handlePost E P headers uid payload)"
| "serve E P (PayBip270 headers uid txhex) = discard (bip270_create E P headers uid txhex)"
| "serve E P (PayBip70 headers uid decoded) = discard (bip70_create E P headers uid decoded)"
| "serve E P (PayJson headers uid currency chain ts) = discard (json_create E P headers uid currency chain ts)"
| "serve E P (ShowInvoice uid) = discard (v0_show E P uid)"
| "serve E P (ShowRequest headers uid) = discard (requests_show E P headers uid)"
| "serve E P (ConfirmInvoice uid) = discard (confirmInvoice E P uid)"
| "serve E P (SetPrice quote) = discard (setPrice E P quote)"

text \<open>The rest of the work of a call that was not awaited.\<close>

fun run_job :: "ext \<Rightarrow> prisma \<Rightarrow> job \<Rightarrow> unit prog" where
  "run_job E P (JSendWebhook webhook) = not_awaited (discard (sendWebhook E P webhook))"
| "run_job E P (JSendWebhookForInvoice uid type) = not_awaited (discard (sendWebhookForInvoice E P uid type))"
| "run_job E P (JCreateWebhookForInvoice invoice) = not_awaited (discard (createWebhookForInvoice E P invoice))"
| "run_job E P (JCreateAndSendWebhook topic e) = not_awaited (createAndSendWebhook P topic e)"
| "run_job E P (JPollReceipt url hash) = not_awaited (job_poll_receipt E P url hash)"
| "run_job E P (JReceipt url status hash block number) = not_awaited (job_receipt E P url
     \<lparr>rc_status = status, rc_transactionHash = hash, rc_blockHash = block, rc_blockNumber = number\<rparr>)"

section \<open>Steps\<close>

text \<open>
  The world, the invoices that cancellations have read and not yet written, and the payments
  that the timer has read and not yet confirmed.
\<close>

record server =
  sv_world :: world
  sv_cancels :: "invoice list"
  sv_checks :: "payment list"

text \<open>The uid a request draws is in no other invoice: what the package \<open>shortid\<close> is for.\<close>

inductive step :: "ext \<Rightarrow> prisma \<Rightarrow> server \<Rightarrow> server \<Rightarrow> bool" for E P where
  served: "serve E P c (sv_world s) = (r, w') \<Longrightarrow> uids_distinct (db_invoices w') \<Longrightarrow>
    step E P s (s\<lparr>sv_world := w'\<rparr>)"
| cancel_reads: "row (db_invoices (sv_world s)) i = Some invoice \<Longrightarrow>
    step E P s (s\<lparr>sv_cancels := invoice # sv_cancels s\<rparr>)"
| cancel_acts: "invoice \<in> set (sv_cancels s) \<Longrightarrow> cancelInvoice P invoice (sv_world s) = (r, w') \<Longrightarrow>
    step E P s (s\<lparr>sv_world := w', sv_cancels := remove1 invoice (sv_cancels s)\<rparr>)"
| tick_reads: "row (db_payments (sv_world s)) k = Some payment \<Longrightarrow> pay_status payment = Some ''confirming'' \<Longrightarrow>
    step E P s (s\<lparr>sv_checks := payment # sv_checks s\<rparr>)"
| tick_acts: "payment \<in> set (sv_checks s) \<Longrightarrow> confirm_one E P payment (sv_world s) = (r, w') \<Longrightarrow>
    step E P s (s\<lparr>sv_world := w', sv_checks := remove1 payment (sv_checks s)\<rparr>)"
| job_runs: "jobs (sv_world s) = js @ j # ks \<Longrightarrow> run_job E P j (sv_world s\<lparr>jobs := js @ ks\<rparr>) = (r, w') \<Longrightarrow>
    step E P s (s\<lparr>sv_world := w'\<rparr>)"
| waits: "now (sv_world s) \<le> t \<Longrightarrow> step E P s (s\<lparr>sv_world := sv_world s\<lparr>now := t\<rparr>\<rparr>)"

inductive_cases stepE: "step E P s s'"

text \<open>The server starts on tables that are in order, the empty ones for instance.\<close>

definition starts :: "server \<Rightarrow> bool" where
  "starts s \<longleftrightarrow> well (ledger (sv_world s)) \<and> sv_cancels s = [] \<and> sv_checks s = []"

inductive reachable :: "ext \<Rightarrow> prisma \<Rightarrow> server \<Rightarrow> bool" for E P where
  start: "starts s \<Longrightarrow> reachable E P s"
| later: "reachable E P s \<Longrightarrow> step E P s s' \<Longrightarrow> reachable E P s'"

definition books_of :: "server \<Rightarrow> books" where
  "books_of s = ledger (sv_world s)"

lemma empty_well: "well ([], [])"
  by (simp add: well_def ids_ok_def book_ok_def book_of_def row_def)

lemma books_of_simps [simp]:
  "books_of (s\<lparr>sv_world := w\<rparr>) = ledger w" "books_of (s\<lparr>sv_cancels := c\<rparr>) = books_of s"
  "books_of (s\<lparr>sv_checks := p\<rparr>) = books_of s"
  "ledger (w\<lparr>jobs := js\<rparr>) = ledger w" "ledger (w\<lparr>now := t\<rparr>) = ledger w"
  by (simp_all add: books_of_def ledger_def)

section \<open>Careful computations\<close>

text \<open>Safe as long as no two invoices end up with one uid.\<close>

definition careful :: "'a prog \<Rightarrow> bool" where
  "careful m \<longleftrightarrow> (\<forall>l0. triple (reach l0) m (\<lambda>_. cautious l0) (cautious l0))"

lemma carefulI: "(\<And>l0. triple (reach l0) m (\<lambda>_. cautious l0) (cautious l0)) \<Longrightarrow> careful m"
  unfolding careful_def by blast

lemma carefulD: "careful m \<Longrightarrow> triple (reach l0) m (\<lambda>_. cautious l0) (cautious l0)"
  unfolding careful_def by blast

lemma careful_safe: "safe m \<Longrightarrow> careful m"
  by (rule carefulI, rule triple_conseq [OF safeD]) (auto intro: reach_cautious)

lemma careful_same: "follows same_ledger m \<Longrightarrow> careful m"
  by (intro careful_safe safe_same)

lemma careful_then: "careful m \<Longrightarrow> (\<And>a. follows same_ledger (k a)) \<Longrightarrow> careful (bnd m k)"
  by (rule carefulI, rule triple_bnd [OF carefulD]) (auto intro: triple_same)

lemma careful_after:
  assumes "safe m" and "\<And>a. careful (k a)"
  shows "careful (bnd m k)"
proof (rule carefulI, rule triple_bnd)
  fix l0 a
  show "triple (reach l0) m (\<lambda>_. reach l0) (cautious l0)"
    by (rule triple_conseq [OF safeD [OF assms(1)]]) (auto intro: reach_cautious)
  show "triple (reach l0) (k a) (\<lambda>_. cautious l0) (cautious l0)"
    by (rule carefulD [OF assms(2)])
qed

lemma careful_if: "careful a \<Longrightarrow> careful b \<Longrightarrow> careful (if c then a else b)"
  by simp

lemma careful_option: "careful a \<Longrightarrow> (\<And>x. careful (f x)) \<Longrightarrow> careful (case z of None \<Rightarrow> a | Some x \<Rightarrow> f x)"
  by (cases z) simp_all

lemma careful_or_refuse: "careful m \<Longrightarrow> careful (or_refuse code m)"
  unfolding or_refuse_def
  by (rule carefulI, rule triple_catch [OF carefulD]) (auto intro: triple_ret)

lemma careful_discard: "careful m \<Longrightarrow> careful (discard m)"
  unfolding discard_def by (intro careful_then same_rules)

lemma careful_reach:
  assumes "careful m" and "well (ledger w)" and "uids_distinct (db_invoices (snd (m w)))"
  shows "reach (ledger w) (ledger (snd (m w)))"
proof -
  obtain r v where m: "m w = (r, v)" by (cases "m w")
  have "cautious (ledger w) (ledger v)"
    using tripleD [OF carefulD [OF assms(1), of "ledger w"] reach_refl [OF assms(2)]] m by (cases r) simp_all
  with m assms(3) show ?thesis by (simp add: cautious_def ledger_def)
qed

lemma safe_or_refuse: "safe m \<Longrightarrow> safe (or_refuse code m)"
  unfolding or_refuse_def by (intro safe_catch) (auto intro: safe_same same_rules)

lemma safe_discard: "safe m \<Longrightarrow> safe (discard m)"
  unfolding discard_def by (intro safe_bnd) (auto intro: safe_same same_rules)

section \<open>The requests are careful\<close>

lemma same_plain:
  "follows same_ledger (getPaymentOptions E P uid)" "follows same_ledger (notes_of P uid)"
  "follows same_ledger (option_summaries P invoice)" "follows same_ledger (isExpired invoice)"
  "follows same_ledger (option_of_invoice P uid currency)" "follows same_ledger (ensureInvoice P uid)"
  "follows same_ledger (getRequiredFeeRate E level chain)"
  unfolding getPaymentOptions_def getPaymentRequest_def getRequiredFeeRate_def getFeeRate_def notes_of_def
    option_summaries_def isExpired_def option_of_invoice_def ensureInvoice_def
  by (intro safe_leaves)+

lemma same_offers: "follows same_ledger (http_listPaymentOptions E P headers uid)"
  unfolding http_listPaymentOptions_def or_refuse_def open_invoice_def getInvoice_def listPaymentOptions_def
    offer_of_def
  by (intro safe_leaves same_plain)

lemma same_shows:
  "follows same_ledger (bip270_show E P uid)" "follows same_ledger (json_show E P headers uid)"
  "follows same_ledger (bip70_show E P headers uid)"
  unfolding bip270_show_def json_show_def bip70_show_def bip270_request_for_def jsonv2_request_for_def
    bip70_request_for_def bip270_buildPaymentRequest_def getMerchantData_def bip270_buildOutputs_def
    jsonV2_buildPaymentRequest_def bip70_buildPaymentRequest_def bip70_buildOutputs_def
  by (intro safe_leaves same_plain)+

lemma same_show_by_accept: "follows same_ledger (show_by_accept E P headers uid)"
  unfolding show_by_accept_def answering_def by (intro safe_leaves same_offers same_shows)

lemma plugins_validate_silent:
  "\<forall>p \<in> snd ` set (plugins E). \<forall>po ts. follows silent (plg_validateUnsignedTx p po ts)"
  by (simp add: plugins_def utxo_plugins evm_plugins erc20_plugins other_plugins class_defs
      bch_is_base throws silent_methods)

lemma same_validate:
  assumes "find_plugin E currency chain = Inr plugin"
  shows "follows same_ledger (plg_validateUnsignedTx plugin po ts)"
proof -
  have "plugin \<in> snd ` set (plugins E)" using assms by (force simp: find_plugin_iff)
  with plugins_validate_silent [of E] have "follows silent (plg_validateUnsignedTx plugin po ts)" by blast
  then show ?thesis by (rule same_silent)
qed

lemma same_found_plugin:
  assumes "\<And>p. find_plugin E currency chain = Inr p \<Longrightarrow> follows same_ledger (f p)"
  shows "follows same_ledger (bnd (lift_result (find_plugin E currency chain)) f)"
  using same_with_plugin [of E currency chain f] assms by (simp add: with_plugin_def)

lemma same_verifyUnsigned: "follows same_ledger (verifyUnsigned E P request)"
  unfolding verifyUnsigned_def Let_def
  by (intro safe_leaves same_found_plugin) (intro safe_leaves same_validate)

lemma same_verifyUnsignedPayment: "follows same_ledger (verifyUnsignedPayment E P invoice params)"
  unfolding verifyUnsignedPayment_def Let_def by (intro safe_leaves same_verifyUnsigned)

lemma never_expired: "inv_expiry invoice = None \<Longrightarrow> bnd (isExpired invoice) k = bnd (reads now) (\<lambda>_. k False)"
  by (simp add: isExpired_def bnd_def reads_def ret_def fun_eq_iff)

context prisma_client
begin

text \<open>No invoice has an expiry, so none is refreshed.\<close>

lemma fresh_invoice_safe:
  assumes "\<And>invoice. inv_expiry invoice = None \<Longrightarrow> safe (k invoice)"
  shows "safe (bnd (invoice_by_uid P uid) k)"
proof (rule safeI, rule triple_bnd [OF triple_invoice_by_uid])
  fix l0 invoice
  show "triple (\<lambda>l. reach l0 l \<and> inv_uid invoice = uid \<and> row (fst l) (inv_id invoice) = Some invoice)
      (k invoice) (\<lambda>_. reach l0) (reach l0)"
  proof (rule triple_fact [where F = "inv_expiry invoice = None"])
    show "inv_expiry invoice = None"
      if "reach l0 l \<and> inv_uid invoice = uid \<and> row (fst l) (inv_id invoice) = Some invoice" for l
      using that wellD(5) [OF reach_well] by blast
  qed (auto intro: triple_pre [OF safeD [OF assms]])
qed (use reach_ids in blast)+

lemma v0_show_safe: "safe (v0_show E P uid)"
proof -
  have "safe (current_invoice E P uid)"
    unfolding current_invoice_def
    by (rule fresh_invoice_safe) (simp add: never_expired, intro safe_same safe_leaves)
  then show ?thesis
    unfolding v0_show_def
    by (intro safe_or_refuse safe_bnd; (assumption | intro safe_same safe_leaves same_plain))
qed

lemma requests_show_safe: "safe (requests_show E P headers uid)"
  unfolding requests_show_def
proof (rule safe_bnd, rule safe_catch, rule fresh_invoice_safe, goal_cases)
  case (1 invoice)
  then show ?case by (simp add: never_expired) (intro impI conjI safe_same safe_leaves)
qed (intro safe_same safe_leaves same_show_by_accept)+

lemma sendSignedPayment_safe: "safe (sendSignedPayment E P invoice currency chain ts)"
  unfolding sendSignedPayment_def by (intro safe_bnd submitPayment_safe safe_same same_rules)

lemma open_invoice_safe: "safe (open_invoice P uid)"
  unfolding open_invoice_def getInvoice_def by (intro safe_same safe_leaves)

lemma handlePost_safe: "safe (handlePost E P headers uid payload)"
proof -
  have get: "follows same_ledger (http_getPaymentRequest E P headers uid payload)"
    unfolding http_getPaymentRequest_def or_refuse_def open_invoice_def getInvoice_def getPaymentRequest_def
    by (intro safe_leaves same_plain)
  have verify: "follows same_ledger (http_verifyUnsignedPayment E P headers uid payload)"
    unfolding http_verifyUnsignedPayment_def or_refuse_def open_invoice_def getInvoice_def
    by (intro safe_leaves same_verifyUnsignedPayment)
  have submit: "safe (http_submitPayment E P headers uid payload)"
    unfolding http_submitPayment_def
    by (intro safe_or_refuse safe_bnd open_invoice_safe sendSignedPayment_safe; intro safe_same safe_leaves)
  show ?thesis
    unfolding handlePost_def
    by (intro safe_or_refuse safe_bnd safe_if open_invoice_safe submit safe_same [OF get] safe_same [OF verify];
        intro safe_same safe_leaves)
qed

lemma bip270_create_safe: "safe (bip270_create E P headers uid txhex)"
  unfolding bip270_create_def
  by (intro safe_bnd safe_or_refuse submitPayment_safe; intro safe_same safe_leaves)

lemma json_create_safe: "safe (json_create E P headers uid currency chain ts)"
  unfolding json_create_def
  by (intro safe_or_refuse safe_bnd submitPayment_safe; intro safe_same safe_leaves)

text \<open>A BIP70 payment: the invoice must not be marked cancelled, and so its status is another.\<close>

lemma bip70_transaction_triple:
  assumes "find_plugin E currency chain = Inr plugin" and "po_invoice_uid opt = u"
  shows "triple (paying l0 u i) (bip70_transaction E P plugin opt txhex) (\<lambda>_. paying l0 u i) (paying l0 u i)"
  unfolding bip70_transaction_def Let_def pay_verifyPayment_def assms(2) [symmetric]
  by (intro triple_bnd_same [OF same_network [OF found_plugin_quiet(3) [OF assms(1)]]] triple_ret
      triple_bnd [OF completePayment_triple] triple_bnd_same) (intro safe_leaves | assumption)+

lemma bip70_paying_triple:
  assumes "find_plugin E currency chain = Inr plugin" and "po_invoice_uid opt = u"
  shows "triple (paying l0 u i)
    (bnd (for_each (keep_submission P invoice opt) ts) (\<lambda>_.
     bnd (for_each (bip70_transaction E P plugin opt) ts) (\<lambda>_. ret x)))
    (\<lambda>_. reach l0) (reach l0)"
proof (rule triple_conseq [where Q = "\<lambda>_. paying l0 u i" and J = "paying l0 u i" and I = "paying l0 u i"])
  show "triple (paying l0 u i)
    (bnd (for_each (keep_submission P invoice opt) ts) (\<lambda>_.
     bnd (for_each (bip70_transaction E P plugin opt) ts) (\<lambda>_. ret x)))
    (\<lambda>_. paying l0 u i) (paying l0 u i)"
  proof (rule triple_bnd_same)
    show "follows same_ledger (for_each (keep_submission P invoice opt) ts)"
      unfolding keep_submission_def by (intro safe_leaves)
    show "triple (paying l0 u i) (bnd (for_each (bip70_transaction E P plugin opt) ts) (\<lambda>_. ret x))
        (\<lambda>_. paying l0 u i) (paying l0 u i)"
      by (rule triple_bnd, rule triple_for_each, rule bip70_transaction_triple [OF assms], rule triple_ret)
  qed
qed (simp_all add: paying_reach)

lemma option_of_invoice_triple:
  assumes "\<And>l. I l \<Longrightarrow> J l"
  shows "triple I (option_of_invoice P uid currency) (\<lambda>po l. I l \<and> po_invoice_uid po = uid) J"
  unfolding option_of_invoice_def find_first_or_throw_def
proof (rule triple_bnd [OF triple_find_option [OF assms]], assumption)
  fix found
  show "triple (\<lambda>l. I l \<and> (\<forall>po. found = Some po \<longrightarrow> po_invoice_uid po = uid \<and> po_currency po = currency))
      (case found of None \<Rightarrow> throw (PrismaError RecordNotFound) | Some r \<Rightarrow> ret r)
      (\<lambda>po l. I l \<and> po_invoice_uid po = uid) J"
    by (cases found) (auto intro: triple_throw triple_ret assms)
qed

lemma bip70_found_triple:
  assumes "find_plugin E currency chain = Inr plugin" and "po_invoice_uid opt = uid"
  shows "triple (reach l0) (bnd (invoice_by_uid P uid) (\<lambda>invoice.
     if inv_cancelled invoice then ret (Refused 400 (Some (JsError ''invoice cancelled'')))
     else
       bnd (for_each (keep_submission P invoice opt) ts) (\<lambda>_.
       bnd (for_each (bip70_transaction E P plugin opt) ts) (\<lambda>_. ret x))))
     (\<lambda>_. reach l0) (reach l0)"
proof (rule triple_bnd [OF triple_invoice_by_uid], erule reach_ids, assumption)
  fix invoice :: invoice
  let ?I = "\<lambda>l. reach l0 l \<and> inv_uid invoice = uid \<and> row (fst l) (inv_id invoice) = Some invoice"
  have paid: "paying l0 uid (inv_id invoice) l" if "?I l" and "\<not> inv_cancelled invoice" for l
    using that wellD(6) [OF reach_well, of l0 l "inv_id invoice" invoice] by (auto simp: paying_def)
  show "triple ?I
     (if inv_cancelled invoice then ret (Refused 400 (Some (JsError ''invoice cancelled'')))
      else
       bnd (for_each (keep_submission P invoice opt) ts) (\<lambda>_.
       bnd (for_each (bip70_transaction E P plugin opt) ts) (\<lambda>_. ret x)))
     (\<lambda>_. reach l0) (reach l0)"
  proof (cases "inv_cancelled invoice")
    case False
    then show ?thesis
      by (simp, intro triple_pre [OF bip70_paying_triple [OF assms]]) (rule paid)
  qed (auto intro: triple_ret)
qed

lemma bip70_create_safe: "safe (bip70_create E P headers uid decoded)"
  unfolding bip70_create_def
proof (rule safe_bnd, intro safe_same same.follows_lift, rule safeI, rule triple_bnd)
  fix l0 currency plugin
  let ?found = "find_plugin E (cur_code currency) (cur_code currency) = Inr plugin"
  show "triple (reach l0) (lift_result (find_plugin E (cur_code currency) (cur_code currency)))
      (\<lambda>p l. reach l0 l \<and> find_plugin E (cur_code currency) (cur_code currency) = Inr p) (reach l0)"
    by (rule triple_lift) simp_all
  have chosen: "triple (\<lambda>l. reach l0 l \<and> po_invoice_uid opt = uid)
      (bnd (invoice_by_uid P uid) (\<lambda>invoice.
       if inv_cancelled invoice then ret (Refused 400 (Some (JsError ''invoice cancelled'')))
       else
         bnd (for_each (keep_submission P invoice opt) ts) (\<lambda>_.
         bnd (for_each (bip70_transaction E P plugin opt) ts) (\<lambda>_. ret (Reply 200 ts)))))
      (\<lambda>_. reach l0) (reach l0)" if ?found for opt ts
    by (rule triple_fact [where F = "po_invoice_uid opt = uid"], simp)
      (rule triple_pre [OF bip70_found_triple [OF that]], auto)
  show "triple (\<lambda>l. reach l0 l \<and> ?found)
      (bnd (lift_result decoded) (\<lambda>transactions.
       bnd (publish_raw (''bip70.payments.'' @ to_lower (cur_code currency)) (Bip70Msg transactions)) (\<lambda>_.
       bnd (option_of_invoice P uid (cur_code currency)) (\<lambda>payment_option.
       bnd (invoice_by_uid P uid) (\<lambda>invoice.
       if inv_cancelled invoice then ret (Refused 400 (Some (JsError ''invoice cancelled'')))
       else
         bnd (for_each (keep_submission P invoice payment_option) transactions) (\<lambda>_.
         bnd (for_each (bip70_transaction E P plugin payment_option) transactions) (\<lambda>_.
         ret (Reply 200 transactions))))))))
      (\<lambda>_. reach l0) (reach l0)"
    by (rule triple_fact [where F = ?found], simp, rule triple_pre [where I = "reach l0"],
        rule triple_bnd_same [OF same.follows_lift], assumption, rule triple_bnd_same [OF same_publish_raw],
        assumption, rule triple_bnd [OF option_of_invoice_triple], assumption, rule chosen) simp_all
qed

text \<open>What opens an invoice.\<close>

lemma careful_create: "careful (createInvoice E P params)"
  by (rule carefulI, rule createInvoice_triple)

lemma v0_create_careful: "careful (v0_create E P params)"
  unfolding v0_create_def by (intro careful_or_refuse careful_then careful_create safe_leaves same_plain)

lemma cautious_update:
  assumes "unseen g"
  shows "triple (cautious l0) (update_row (prisma_invoices P) i g) (\<lambda>_. cautious l0) (cautious l0)"
  by (rule triple_update_invoice) (auto intro: cautious_keep [OF _ _ assms])

lemma v1_create_careful: "careful (v1_create E P params public headers)"
  unfolding v1_create_def
proof (rule carefulI, rule triple_bnd [OF createInvoice_triple], rule triple_bnd [OF cautious_update])
  show "unseen (\<lambda>r. r\<lparr>inv_is_public_request := Some public, inv_headers := Some headers\<rparr>)"
    by (simp add: unseen_def)
qed (rule triple_same, intro safe_leaves same_plain)

lemma careful_request: "careful (createPaymentRequest E P app_id template opts)"
  by (rule carefulI, rule createPaymentRequest_triple)

lemma v0_create_request_careful: "careful (v0_create_request E P app_id template opts)"
  unfolding v0_create_request_def by (intro careful_or_refuse careful_then careful_request safe_leaves)

lemma requests_create_careful: "careful (requests_create E P app_id template opts)"
  unfolding requests_create_def first_currency_def
proof (rule careful_or_refuse, rule careful_after, intro safe_same safe_leaves, rule careful_after,
    intro safe_same safe_leaves, rule careful_after, intro safe_same safe_leaves, rule careful_after,
    (intro safe_same; cases template; simp add: same_rules), rule carefulI, rule triple_bnd [OF createEmptyInvoice_triple],
    rule triple_bnd [OF cautious_update])
  show "unseen (with_platform_options currency opts)" for currency
    by (cases opts) (simp_all add: unseen_def with_platform_options_def)
qed (rule triple_same, intro safe_leaves)

lemma v1_refund_careful: "careful (v1_refund E P account_id uid)"
proof -
  have "careful (getRefund E P invoice None)" for invoice by (rule carefulI, rule getRefund_triple)
  then have paid: "careful (bnd (getRefund E P invoice None) (\<lambda>refund.
      bnd (ensureInvoice P (rf_refund_invoice_uid refund)) (\<lambda>refund_invoice.
      ret (Reply 200 (refund, invoice, refund_invoice)))))" for invoice
    by (intro careful_then) (assumption | intro safe_leaves same_plain)+
  show ?thesis
    unfolding v1_refund_def
    by (rule careful_or_refuse, rule careful_after, intro safe_same same_plain, rule careful_if,
        intro careful_same safe_leaves, rule paid)
qed

lemma serve_careful: "careful (serve E P c)"
  by (cases c) (auto intro!: careful_discard v1_create_careful v0_create_careful v0_create_request_careful
    requests_create_careful v1_refund_careful careful_safe [OF handlePost_safe] careful_safe [OF bip270_create_safe]
    careful_safe [OF bip70_create_safe] careful_safe [OF json_create_safe] careful_safe [OF v0_show_safe]
    careful_safe [OF requests_show_safe] careful_safe [OF confirmInvoice_safe] careful_same [OF same_setPrice])

lemma run_job_safe: "safe (run_job E P j)"
  by (cases j) (auto intro!: safe_not_awaited safe_discard job_poll_receipt_safe job_receipt_safe
    intro: safe_same safe_leaves)

theorem step_reach:
  assumes "step E P s s'" and "well (books_of s)"
  shows "reach (books_of s) (books_of s')"
  using assms(1)
proof (cases rule: step.cases)
  case (served c r w')
  then show ?thesis
    using careful_reach [OF serve_careful, of "sv_world s" E c] assms(2) by (simp add: books_of_def)
next
  case (cancel_acts invoice r w')
  then show ?thesis
    using safe_reach [OF cancelInvoice_safe, of "sv_world s" invoice] assms(2) by (simp add: books_of_def)
next
  case (tick_acts payment r w')
  then show ?thesis
    using safe_reach [OF confirm_one_safe, of "sv_world s" E payment] assms(2) by (simp add: books_of_def)
next
  case (job_runs js j ks r w')
  then show ?thesis
    using safe_reach [OF run_job_safe, of "sv_world s\<lparr>jobs := js @ ks\<rparr>" E j] assms(2)
    by (simp add: books_of_def ledger_def)
qed (use assms(2) in \<open>auto intro: reach_refl simp: books_of_def ledger_def\<close>)

theorem reachable_well:
  assumes "reachable E P s"
  shows "well (books_of s)"
  using assms
proof induction
  case (start s)
  then show ?case by (simp add: starts_def books_of_def)
next
  case (later s s')
  then show ?case using step_reach reach_well by blast
qed

theorem reachable_books:
  assumes "reachable E P s"
  shows "\<exists>s0. starts s0 \<and> book_steps (book_of (books_of s0)) (book_of (books_of s))"
  using assms
proof induction
  case (later s s')
  then show ?case
    using step_reach [OF later(2) reachable_well [OF later(1)]] unfolding reach_def
    by (meson rtranclp_trans)
qed blast

end

end
