(* ===== verification/SystemFacts.thy ===== *)
theory SystemFacts
  imports System ProtocolFacts
begin

text \<open>
  The properties of the server as a whole: what every reachable state keeps, that every step
  is one of the abstract book's, and what the interleavings and the entries around the
  payment protocol still allow.
\<close>

section \<open>What a well formed ledger shows\<close>

lemma well_invoice:
  assumes "well (t, p)" and "row t i = Some r"
  shows "inv_id r = i" and "inv_status r \<in> {''unpaid'', ''confirming'', ''paid'', ''cancelled''}"
    and "inv_status r = ''cancelled'' \<Longrightarrow> inv_cancelled r" and "inv_expiry r = None"
    and "inv_status r \<in> {''paid'', ''confirming''} \<Longrightarrow>
      \<exists>k q. row p k = Some q \<and> pay_invoice_uid q = inv_uid r"
proof -
  show "\<exists>k q. row p k = Some q \<and> pay_invoice_uid q = inv_uid r" if "inv_status r \<in> {''paid'', ''confirming''}"
  proof -
    have ok: "book_ok (fst (book_of (t, p)), snd (book_of (t, p)))" using wellD(3) [OF assms(1)] by simp
    have "fst (book_of (t, p)) i = Some (entry_of r)" using assms(2) by (simp add: book_of_def)
    moreover have "en_phase (entry_of r) \<in> {Paid, Confirming}" using that by (auto simp: entry_of_def)
    ultimately obtain k s where "snd (book_of (t, p)) k = Some s" "sl_uid s = en_uid (entry_of r)"
      using book_okD(3) [OF ok] by blast
    then show ?thesis by (auto simp: book_of_def slip_of_def entry_of_def) metis
  qed
qed (use wellD(1) [OF assms(1)] wellD(4,5,6) [OF assms(1), of i r] ids_okD [of inv_id t i r] assms(2) in \<open>auto simp: statuses_def\<close>)

lemma well_unshared:
  assumes "well (t, p)" and "row t i = Some r" and "row t j = Some r'"
    and "inv_uid r = inv_uid r' \<or> (inv_hash r \<noteq> None \<and> inv_hash r = inv_hash r')"
  shows "i = j"
proof -
  have ok: "book_ok (fst (book_of (t, p)), snd (book_of (t, p)))" using wellD(3) [OF assms(1)] by simp
  have e: "fst (book_of (t, p)) i = Some (entry_of r)" "fst (book_of (t, p)) j = Some (entry_of r')"
    using assms(2,3) by (simp_all add: book_of_def)
  show ?thesis
    using assms(4) book_okD(1) [OF ok e] book_okD(2) [OF ok e] by (cases "inv_hash r'") (auto simp: entry_of_def)
qed

lemma well_at: "well (ledger w) \<Longrightarrow> row (db_invoices w) i = Some r \<Longrightarrow> invoice_at (inv_uid r) w i r"
  unfolding only_row_def ledger_def by (auto dest: well_unshared)

lemma well_unique_hash: "well (ledger w) \<Longrightarrow> unique_hash (db_invoices w)"
  unfolding unique_hash_def unique_on_iff ledger_def by (auto dest: well_unshared)

section \<open>A payment by BIP70\<close>

text \<open>The world in which the first transaction of a BIP70 payment is verified.\<close>

definition submitted :: "string \<Rightarrow> invoice \<Rightarrow> payment_option \<Rightarrow> string \<Rightarrow> world \<Rightarrow> world" where
  "submitted code invoice po txhex w = w\<lparr>
     published := published w @ [(''bip70.payments.'' @ to_lower code, Bip70Msg [txhex])],
     db_payment_submissions := db_payment_submissions w @ [Some \<lparr>psub_id = next_id (db_payment_submissions w),
       psub_invoice_uid = Some (inv_uid invoice), psub_txhex = Some txhex,
       psub_currency = Some (po_currency po), psub_wallet = None, psub_protocol = Some ''bip70''\<rparr>]\<rparr>"

context prisma_client
begin

lemma option_of_invoice_run:
  assumes "only_row (\<lambda>x. po_invoice_uid x = uid \<and> po_currency x = c) (db_payment_options w) k po"
  shows "option_of_invoice P uid c w = (Inr po, w)"
  using assms by (simp add: option_of_invoice_def io_simps prisma_payment_options_def tpo.first_only)

lemma bip70_create_run:
  fixes txhex
  defines "t \<equiv> \<lparr>tx_hex = txhex, tx_id = None, tx_key = None\<rparr>"
  assumes cur: "getCurrency ''BIP70'' headers = Inr currency"
    and pl: "find_plugin E (cur_code currency) (cur_code currency) = Inr plugin"
    and at: "invoice_at uid w i invoice" "inv_id invoice = i" "\<not> inv_cancelled invoice"
    and po: "only_row (\<lambda>x. po_invoice_uid x = uid \<and> po_currency x = cur_code currency) (db_payment_options w) k po"
    and ok: "pay_verifyPayment E po t (submitted (cur_code currency) invoice po txhex w) =
        (Inr ok, submitted (cur_code currency) invoice po txhex w)"
    and send: "plg_broadcastTx plugin t (submitted (cur_code currency) invoice po txhex w) = (Inr res, u)"
    and txid: "payment_txid E (po_currency po) (payment_chain po) t u = (Inr hash, u)"
    and fresh: "hash_free hash i w"
  shows "bip70_create E P headers uid (Inr [txhex]) w = (Inr (Reply 200 [txhex]), recorded po t hash i invoice u)"
proof -
  let ?v = "submitted (cur_code currency) invoice po txhex w"
  let ?m = "w\<lparr>published := published w @ [(''bip70.payments.'' @ to_lower (cur_code currency), Bip70Msg [txhex])]\<rparr>"
  have "network ?v u" using found_plugin_quiet(3) [OF pl, of t] send by (metis follows_def snd_conv)
  then have u: "db_invoices u = db_invoices w" by (auto simp: network_def submitted_def)
  have uid: "po_invoice_uid po = uid" using po by (simp add: only_row_def)
  have "invoice_at (po_invoice_uid po) u i invoice" using at(1) by (simp add: u uid)
  note complete = completePayment_run [OF txid this at(2), of False]
  have uq: "unique_hash (put (db_invoices u) i (Some (settle_invoice po hash ''paid'' (now u) invoice)))"
    using hash_free_unique [OF fresh, of "settle_invoice po hash ''paid'' (now u) invoice"] by (simp add: u)
  have found: "option_of_invoice P uid (cur_code currency) ?m = (Inr po, ?m)"
    "invoice_by_uid P uid ?m = (Inr invoice, ?m)"
    by (rule option_of_invoice_run, use po in simp) (rule invoice_by_uid_run, use at(1) in simp)
  have kept: "keep_submission P invoice po txhex ?m = (Inr (), ?v)"
    by (simp add: keep_submission_def catch_run bnd_run create_payment_submissions ret_run submitted_def)
  have "bip70_transaction E P plugin po txhex ?v = (Inr (), recorded po t hash i invoice u)"
    using ok send complete uq
    by (simp add: bip70_transaction_def t_def [symmetric] Let_def bnd_run ret_run recorded_def)
  then show ?thesis
    using kept at(3) found by (simp add: bip70_create_def bnd_run lift_result_run cur pl publish_raw_run ret_run)
qed

end


section \<open>A confirmation by the timer\<close>

context prisma_client
begin

lemma confirm_one_ledger:
  assumes q: "row (db_payments w) k = Some q" "pay_id q = k" "ids_ok pay_id (db_payments w)"
    and new: "\<not> truthy (pay_confirmation_hash q)"
    and c: "getConfirmation E (pay_txid q) (js_String (pay_chain q)) (pay_currency q) w = (Inr (Some c), u)"
      "cf_date c \<noteq> None"
    and at: "invoice_at (pay_invoice_uid q) w i invoice" "inv_id invoice = i" "unique_hash (db_invoices w)"
  shows "ledger (snd (confirm_one E P q w)) =
    (put (db_invoices w) i (Some (invoice\<lparr>inv_status := ''paid''\<rparr>)),
     put (db_payments w) k (Some (confirmed_payment c q)))"
proof -
  have "same_ledger w u" using same_getConfirmation c(1) by (metis follows_def snd_conv)
  then have u: "db_invoices u = db_invoices w" "db_payments u = db_payments w"
    by (simp_all add: same_ledger_def ledger_def)
  let ?v = "confirmation_writes k i (confirmed_payment c q) invoice u"
  have hooks: "ledger y = ledger v" if "createAndSendWebhook P topic e v = (x, y)" for topic e v x y
    using same_createAndSendWebhook [of P topic e] that by (simp add: follows_def same_ledger_def) (metis snd_conv)
  have "ledger (snd (confirmPayment P q c u)) = ledger ?v"
    using confirmPayment_run [OF new c(2) q(2), of u q i invoice] q at hooks
    by (auto simp: u split: prod.splits sum.splits)
  then have "ledger (snd (confirm_one E P q w)) = ledger ?v"
    by (auto simp: confirm_one_def catch_run bnd_run c(1) ret_run split: prod.splits sum.splits if_splits)
  then show ?thesis by (simp add: confirmation_writes_def ledger_def u)
qed

end

section \<open>Properties\<close>




text \<open>
  Invoices never expire: in a reachable state no invoice has an expiry, so that
  \<open>isExpired\<close> is false for each, and \<open>show\<close> (src/src/server/v0/handlers/invoices.ts) answers
  with the stored row and leaves it alone, however long ago it was priced. Only
  \<open>refreshInvoice\<close> (src/src/lib/invoice.ts) sets an expiry, and it only runs on an expired invoice.
\<close>

theorem invoices_never_expire:
  assumes "prisma_client P" and "reachable E P s" and "row (db_invoices (sv_world s)) i = Some r"
  shows "inv_expiry r = None \<and> isExpired r (sv_world s) = (Inr False, sv_world s) \<and>
    current_invoice E P (inv_uid r) (sv_world s) = (Inr r, sv_world s)"
proof -
  have w: "well (ledger (sv_world s))"
    using prisma_client.reachable_well [OF assms(1,2)] by (simp add: books_of_def)
  then have none: "inv_expiry r = None" using well_invoice(4) assms(3) by (simp add: ledger_def)
  then show ?thesis
    using prisma_client.invoice_by_uid_run [OF assms(1) well_at [OF w assms(3)]]
    by (simp add: isExpired_def current_invoice_def io_simps)
qed

text \<open>
  C11. A cancellation that read the invoice while it was unpaid, and a request \<open>c\<close> that pays
  the invoice before the cancellation writes: the cancellation (\<open>cancelInvoice\<close>,
  src/src/lib/invoices.ts) goes through, and the server is in a state where the invoice is
  cancelled and keeps the id of the transaction that paid it.
\<close>

theorem cancelled_though_paid:
  assumes "prisma_client P" and "reachable E P s"
    and "copy \<in> set (sv_cancels s)" and "inv_status copy = ''unpaid''"
    and "serve E P c (sv_world s) = (r, w')" and "uids_distinct (db_invoices w')"
    and "row (db_invoices w') (inv_id copy) = Some current" and "inv_uid current = inv_uid copy"
    and "inv_status current = ''paid''"
  shows "\<exists>s'. reachable E P s' \<and> row (db_invoices (sv_world s')) (inv_id copy) =
    Some (current\<lparr>inv_status := ''cancelled'', inv_cancelled := True\<rparr>)"
proof -
  let ?s = "s\<lparr>sv_world := w'\<rparr>" and ?r = "current\<lparr>inv_status := ''cancelled'', inv_cancelled := True\<rparr>"
  have reached: "reachable E P ?s" using reachable.later [OF assms(2) step.served [OF assms(5,6)]] .
  have w: "well (ledger w')" using prisma_client.reachable_well [OF assms(1) reached] by simp
  have at: "invoice_at (inv_uid copy) w' (inv_id copy) current"
    using well_at [OF w assms(7)] by (simp add: assms(8))
  obtain v a where v: "cancelInvoice P copy w' = (a, v)" "db_invoices v = put (db_invoices w') (inv_id copy) (Some ?r)"
    using prisma_client.cancelInvoice_run [OF assms(1,7) well_unique_hash [OF w] at] assms(4)
    by (simp add: cancelled_invoice_def)
  have "step E P ?s (?s\<lparr>sv_world := v, sv_cancels := remove1 copy (sv_cancels ?s)\<rparr>)"
    by (rule step.cancel_acts [where r = a]) (simp_all add: assms(3) v)
  then have "reachable E P (?s\<lparr>sv_world := v, sv_cancels := remove1 copy (sv_cancels ?s)\<rparr>)"
    by (rule reachable.later [OF reached])
  moreover have "row (db_invoices v) (inv_id copy) = Some ?r" using v(2) row_put_same [OF assms(7)] by simp
  ultimately show ?thesis by (intro exI [of _ "?s\<lparr>sv_world := v, sv_cancels := remove1 copy (sv_cancels ?s)\<rparr>"]) simp
qed

text \<open>
  C10. One transaction, two invoices: \<open>completePayment\<close> (src/src/lib/pay/index.ts) refuses a
  transaction id that another invoice carries, but the payment row it wrote before is found
  by the timer, and \<open>confirmPayment\<close> (src/src/lib/confirmations.ts) makes the second invoice
  paid as soon as the chain confirms the transaction, although it has no transaction id of
  its own and the other invoice was paid by it already.
\<close>

theorem replayed_txid_pays_twice:
  assumes "prisma_client P"
    and "payment_txid E (po_currency opt) (payment_chain opt) t w = (Inr hash, v)"
    and "invoice_at (po_invoice_uid opt) v i invoice" and "inv_id invoice = i"
    and "row (db_invoices v) j = Some other" and "j \<noteq> i" and "inv_hash other = Some hash"
    and "unique_hash (db_invoices v)" and "ids_ok pay_id (db_payments v)"
    and "completePayment E P opt t True w = (r, v')"
    and "getConfirmation E hash (payment_chain opt) (po_currency opt) v' = (Inr (Some c), u)" and "cf_date c \<noteq> None"
  shows "r = Inl (PrismaError UniqueViolation) \<and> row (db_invoices v') i = Some invoice \<and>
    (\<exists>q. row (db_payments v') (next_id (db_payments v)) = Some q \<and> pay_status q = Some ''confirming'' \<and>
       row (db_invoices (snd (confirm_one E P q v'))) i = Some (invoice\<lparr>inv_status := ''paid''\<rparr>) \<and>
       row (db_invoices (snd (confirm_one E P q v'))) j = Some other)"
proof -
  let ?q = "new_payment hash (payment_chain opt) opt t invoice (now v) (next_id (db_payments v))"
  let ?k = "next_id (db_payments v)"
  have row: "row (db_invoices v) i = Some invoice" using assms(3) by (rule only_rowD)
  then have "\<not> unique_hash (put (db_invoices v) i (Some (settle_invoice opt hash ''confirming'' (now v) invoice)))"
    by (intro unique_hash_taken [OF assms(5-7)]) simp_all
  then have refused: "r = Inl (PrismaError UniqueViolation)" "v' = v\<lparr>db_payments := db_payments v @ [Some ?q]\<rparr>"
    using prisma_client.completePayment_run [OF assms(1-4), of True] assms(10) by simp_all
  have q: "row (db_payments v') ?k = Some ?q" "pay_id ?q = ?k" "ids_ok pay_id (db_payments v')"
    using assms(9) by (simp_all add: refused(2) row_append new_payment_def ids_ok_append)
  have fields: "pay_txid ?q = hash" "js_String (pay_chain ?q) = payment_chain opt" "pay_currency ?q = po_currency opt"
    "pay_invoice_uid ?q = po_invoice_uid opt" "\<not> truthy (pay_confirmation_hash ?q)" "pay_status ?q = Some ''confirming''"
    using assms(3) by (simp_all add: new_payment_def only_row_def)
  have "ledger (snd (confirm_one E P ?q v')) = (put (db_invoices v') i (Some (invoice\<lparr>inv_status := ''paid''\<rparr>)),
      put (db_payments v') ?k (Some (confirmed_payment c ?q)))"
    by (rule prisma_client.confirm_one_ledger [OF assms(1) q fields(5), where u = u])
      (use assms fields in \<open>simp_all add: refused(2)\<close>)
  then have "db_invoices (snd (confirm_one E P ?q v')) = put (db_invoices v) i (Some (invoice\<lparr>inv_status := ''paid''\<rparr>))"
    by (simp add: ledger_def refused(2))
  then show ?thesis
    using refused q(1) fields(6) row assms(5,6) by (auto simp: row_put row_put_same row_Some_bounds)
qed

text \<open>
  C12. \<open>create\<close> of src/src/server/payment_requests/handlers/bip70_payment_requests.ts does not
  look at the status of the invoice: a transaction that pays the expected outputs is
  broadcast and recorded for an invoice that is paid already, whose transaction id and
  time of payment it replaces, with a second payment row, event and webhook.
\<close>

theorem bip70_pays_a_paid_invoice:
  assumes "prisma_client P" and "getCurrency ''BIP70'' headers = Inr currency"
    and "find_plugin E (cur_code currency) (cur_code currency) = Inr plugin"
    and "invoice_at uid w i invoice" and "inv_id invoice = i" and "\<not> inv_cancelled invoice"
    and "only_row (\<lambda>x. po_invoice_uid x = uid \<and> po_currency x = cur_code currency) (db_payment_options w) k po"
    and "pay_verifyPayment E po t (submitted (cur_code currency) invoice po (tx_hex t) w) =
        (Inr ok, submitted (cur_code currency) invoice po (tx_hex t) w)"
    and "tx_id t = None" and "tx_key t = None"
    and "plg_broadcastTx plugin t (submitted (cur_code currency) invoice po (tx_hex t) w) = (Inr res, u)"
    and "payment_txid E (po_currency po) (payment_chain po) t u = (Inr hash, u)" and "hash_free hash i w"
  shows "bip70_create E P headers uid (Inr [tx_hex t]) w =
      (Inr (Reply 200 [tx_hex t]), recorded po t hash i invoice u) \<and>
    row (db_invoices (recorded po t hash i invoice u)) i =
      Some (invoice\<lparr>inv_address := po_address po, inv_hash := Some hash, inv_status := ''paid'',
        inv_paidAt := Some (now u), inv_complete := True, inv_completed_at := Some (now u)\<rparr>)"
proof -
  obtain txhex where t: "t = \<lparr>tx_hex = txhex, tx_id = None, tx_key = None\<rparr>"
    using assms(9,10) by (cases t) simp
  have "network (submitted (cur_code currency) invoice po (tx_hex t) w) u"
    using spec [OF found_plugin_quiet(3) [OF assms(3), of t, unfolded follows_def],
        of "submitted (cur_code currency) invoice po (tx_hex t) w"] assms(11) by simp
  from network_same [OF this] have "db_invoices u = db_invoices w"
    by (simp add: same_ledger_def ledger_def submitted_def)
  with only_rowD(1) [OF assms(4)] have "row (db_invoices u) i = Some invoice" by simp
  then have "row (db_invoices (recorded po t hash i invoice u)) i =
      Some (settle_invoice po hash ''paid'' (now u) invoice)"
    by (simp add: recorded_def Let_def row_put_same)
  then show ?thesis
    using prisma_client.bip70_create_run [OF assms(1-7), of txhex ok res u hash] assms(8,11-13)
    by (simp add: t settle_invoice_def)
qed

section \<open>Witnesses\<close>

text \<open>One unpaid invoice offered in BCH, and a cancellation that has read it.\<close>

definition demo_server :: server where
  "demo_server = \<lparr>sv_world = offer_world ''BCH'', sv_cancels = [], sv_checks = []\<rparr>"

definition reading_server :: server where
  "reading_server = demo_server\<lparr>sv_cancels := [demo_invoice]\<rparr>"

lemma offer_invoice: "row (db_invoices (offer_world c)) i = Some r \<longleftrightarrow> i = 1 \<and> r = demo_invoice"
  by (auto simp: offer_world_def demo_world_def row_def split: if_splits)

lemma offer_payments: "db_payments (offer_world c) = []"
  by (simp add: offer_world_def demo_worlds)

lemma demo_invoice_fields [simp]:
  "inv_id demo_invoice = 1" "inv_uid demo_invoice = ''abc''" "inv_status demo_invoice = ''unpaid''"
  "inv_hash demo_invoice = None" "inv_expiry demo_invoice = None" "\<not> inv_cancelled demo_invoice"
  by (simp_all add: demo_invoice_def)

lemma demo_reachable: "reachable demo_ext pg demo_server" "reachable demo_ext pg reading_server"
proof -
  have "well (ledger (offer_world ''BCH''))"
    by (simp add: well_def ledger_def ids_ok_def offer_invoice offer_payments statuses_def row_def [of "[]"]
        book_of_def book_ok_def entry_of_def)
  then show start: "reachable demo_ext pg demo_server"
    by (intro reachable.start) (simp add: starts_def demo_server_def)
  have "step demo_ext pg demo_server (demo_server\<lparr>sv_cancels := demo_invoice # sv_cancels demo_server\<rparr>)"
    by (rule step.cancel_reads [where i = 1]) (simp add: demo_server_def offer_invoice)
  then show "reachable demo_ext pg reading_server"
    using reachable.later [OF start] by (simp add: reading_server_def demo_server_def)
qed



theorem invoices_never_expire_witness:
  "current_invoice demo_ext pg ''abc'' (sv_world reading_server) = (Inr demo_invoice, sv_world reading_server)"
proof -
  have "row (db_invoices (sv_world reading_server)) 1 = Some demo_invoice"
    by (simp add: reading_server_def demo_server_def offer_invoice)
  from invoices_never_expire [OF prisma_client_pg demo_reachable(2) this] show ?thesis by simp
qed

text \<open>A BIP70 payment of the demo invoice, unpaid or paid.\<close>

definition bch_headers :: headers where
  "bch_headers = (\<lambda>_. None)(''accept'' := Some ''application/bitcoincash-paymentrequest'')"

definition bch_option :: payment_option where
  "bch_option = demo_option\<lparr>po_currency := ''BCH'', po_chain := ''BCH''\<rparr>"

definition bch_world :: "invoice \<Rightarrow> world" where
  "bch_world r = (offer_world ''BCH'')\<lparr>db_invoices := [Some r]\<rparr>"

abbreviation sent :: "world \<Rightarrow> world" where
  "sent w \<equiv> w\<lparr>ticks := Suc (ticks w), broadcasts := broadcasts w @ [(''BCH'', ''hex1'')]\<rparr>"

abbreviation bch_currency :: currency_info where
  "bch_currency \<equiv> \<lparr>cur_name = Some ''bitcoincash'', cur_code = ''BCH''\<rparr>"

lemma bch_args:
  assumes "inv_uid r = ''abc''" and "inv_id r = 1"
  shows "getCurrency ''BIP70'' bch_headers = Inr bch_currency"
    and "find_plugin demo_ext (cur_code bch_currency) (cur_code bch_currency) = Inr (BCH demo_ext)"
    and "invoice_at ''abc'' (bch_world r) 1 r"
    and "only_row (\<lambda>x. po_invoice_uid x = ''abc'' \<and> po_currency x = cur_code bch_currency)
      (db_payment_options (bch_world r)) 1 bch_option"
    and "pay_verifyPayment demo_ext bch_option demo_tx v = (Inr True, v)"
    and "plg_broadcastTx (BCH demo_ext) demo_tx v = (Inr \<lparr>br_txid = ''hex1'', br_success = True\<rparr>, sent v)"
    and "payment_txid demo_ext (po_currency bch_option) (payment_chain bch_option) demo_tx v = (Inr ''hex1'', v)"
    and "hash_free ''hex1'' 1 (bch_world r)"
proof -
  show "getCurrency ''BIP70'' bch_headers = Inr bch_currency"
    by (simp add: getCurrency_def bip70_getCurrency_def bch_headers_def header_ends_def media_name_def
        suffix_def codeFromName_def currency_list_def)
  show pl: "find_plugin demo_ext (cur_code bch_currency) (cur_code bch_currency) = Inr (BCH demo_ext)"
    using demo_bch(1) by simp
  show "invoice_at ''abc'' (bch_world r) 1 r"
    using assms by (simp add: bch_world_def only_row_single del: One_nat_def)
  show "only_row (\<lambda>x. po_invoice_uid x = ''abc'' \<and> po_currency x = cur_code bch_currency)
      (db_payment_options (bch_world r)) 1 bch_option"
    by (simp add: bch_world_def offer_world_def bch_option_def demo_option_def only_row_single del: One_nat_def)
  have decoded: "bc_tx (plg_bitcore (BCH demo_ext)) (tx_hex demo_tx) =
      Inr \<lparr>utx_hash = ''hex1'', utx_outputs = [(''qaddr'', 5000)], utx_inputs = [0]\<rparr>"
    using demo_bch(3) [of "''hex1''"] by (simp add: demo_tx_def)
  have outs: "decode_outputs (stripped (bc_address (plg_bitcore (BCH demo_ext)))) [(''qaddr'', 5000)] = [(''qaddr'', 5000)]"
    by (simp add: stripped_def demo_bch(4) strip_scheme_def)
  have expected: "jsonV2_buildOutputs demo_ext bch_option =
      Inr [\<lparr>out_address = Some ''qaddr'', out_amount = 5000, out_script = None\<rparr>]"
    using demo_outputs by (simp add: bch_option_def)
  have "getBitcore demo_ext (if po_chain bch_option = [] then po_currency bch_option else po_chain bch_option) =
      Inr (plg_bitcore (BCH demo_ext))"
    using pl by (simp add: getBitcore_def bch_option_def)
  then show "pay_verifyPayment demo_ext bch_option demo_tx v = (Inr True, v)"
    using demo_target [of "bc_address (plg_bitcore (BCH demo_ext))"]
    by (simp only: pay_verifyPayment_def bnd_run lift_result_run sum.case prod.case, subst decoded)
      (simp add: expected demo_bch(4) stripped_def strip_scheme_def verifyOutput_def Let_def bnd_run lift_result_run)
  show "plg_broadcastTx (BCH demo_ext) demo_tx v = (Inr \<lparr>br_txid = ''hex1'', br_success = True\<rparr>, sent v)"
    by (rule demo_bch_send)
  have bch: "find_plugin demo_ext ''BCH'' ''BCH'' = Inr (BCH demo_ext)" using pl by simp
  have "payment_txid demo_ext ''BCH'' ''BCH'' demo_tx v = (Inr ''hex1'', v)"
    using payment_txid_base [OF bch utxo_parse_is_base [OF _ bch] decoded] outs by (simp add: txid_of_def demo_tx_def)
  then show "payment_txid demo_ext (po_currency bch_option) (payment_chain bch_option) demo_tx v = (Inr ''hex1'', v)"
    by (simp add: bch_option_def)
  show "hash_free ''hex1'' 1 (bch_world r)"
    using assms by (auto simp: hash_free_def bch_world_def row_def unique_hash_def unique_on_def
        List.map_filter_def split: if_splits)
qed

lemma bch_tx_fields: "tx_hex demo_tx = ''hex1''" "tx_id demo_tx = None" "tx_key demo_tx = None"
  by (simp_all add: demo_tx_def)

text \<open>The invoice was paid by another transaction before.\<close>

theorem bip70_pays_a_paid_invoice_witness:
  "map_option inv_hash (row (db_invoices (snd (bip70_create demo_ext pg bch_headers ''abc'' (Inr [''hex1''])
     (bch_world (demo_invoice\<lparr>inv_status := ''paid'', inv_hash := Some ''old''\<rparr>))))) 1) = Some (Some ''hex1'')"
proof -
  let ?r = "demo_invoice\<lparr>inv_status := ''paid'', inv_hash := Some ''old''\<rparr>"
  note args = bch_args [of ?r]
  show ?thesis
    using bip70_pays_a_paid_invoice [OF prisma_client_pg args(1-3) _ _ args(4,5) bch_tx_fields(2,3) args(6-8)]
    by (simp add: bch_tx_fields)
qed

theorem cancelled_though_paid_witness:
  "\<exists>s r. reachable demo_ext pg s \<and> row (db_invoices (sv_world s)) 1 = Some r \<and>
     inv_status r = ''cancelled'' \<and> inv_hash r = Some ''hex1''"
proof -
  note args = bch_args [of demo_invoice]
  let ?w = "bch_world demo_invoice"
  let ?v = "sent (submitted ''BCH'' demo_invoice bch_option ''hex1'' ?w)"
  let ?u = "recorded bch_option demo_tx ''hex1'' 1 demo_invoice ?v"
  let ?paid = "settle_invoice bch_option ''hex1'' ''paid'' (now ?v) demo_invoice"
  have w: "sv_world reading_server = ?w"
    by (simp add: reading_server_def demo_server_def bch_world_def offer_world_def demo_world_def)
  have served: "serve demo_ext pg (PayBip70 bch_headers ''abc'' (Inr [''hex1''])) (sv_world reading_server) = (Inr (), ?u)"
    using prisma_client.bip70_create_run [OF prisma_client_pg args(1-3) _ _ args(4), of "''hex1''"] args(5-8)
    by (simp add: w discard_def bnd_run ret_run demo_tx_def)
  have rows: "db_invoices ?u = [Some ?paid]"
    by (simp add: recorded_def Let_def submitted_def bch_world_def put_def)
  have row: "row (db_invoices ?u) (inv_id demo_invoice) = Some ?paid" and uids: "uids_distinct (db_invoices ?u)"
    unfolding rows by (auto simp: row_def uids_distinct_def split: if_splits)
  have "inv_uid ?paid = inv_uid demo_invoice" "inv_status ?paid = ''paid''" "inv_hash ?paid = Some ''hex1''"
    by (simp_all add: settle_invoice_def)
  then show ?thesis
    using cancelled_though_paid [OF prisma_client_pg demo_reachable(2) _ _ served uids row]
    by (auto simp: reading_server_def)
qed

text \<open>Another invoice was paid by the transaction.\<close>

definition mined_ext :: ext where
  "mined_ext = demo_ext\<lparr>mempool_tx := \<lambda>_ _. Inr \<lparr>ms_confirmed = True, ms_block_hash = ''block'',
     ms_block_height = 7, ms_block_time = 1\<rparr>\<rparr>"

lemma mined: "\<exists>c u. getConfirmation mined_ext h ''BTC'' ''BTC'' w = (Inr (Some c), u) \<and> cf_date c \<noteq> None"
  by (simp add: getConfirmation_def with_plugin_def BTC_def class_defs BTC_getConfirmation_def mined_ext_def io_simps)

definition btc_option :: payment_option where
  "btc_option = demo_option\<lparr>po_currency := ''BTC'', po_chain := ''BTC''\<rparr>"

theorem replayed_txid_pays_twice_witness:
  "\<exists>q. let w = snd (completePayment mined_ext pg btc_option (demo_tx\<lparr>tx_id := Some ''tx1''\<rparr>) True replay_world) in
     row (db_payments w) 1 = Some q \<and>
     map_option inv_status (row (db_invoices (snd (confirm_one mined_ext pg q w))) 1) = Some ''paid''"
proof -
  let ?t = "demo_tx\<lparr>tx_id := Some ''tx1''\<rparr>" and ?o = "demo_invoice\<lparr>inv_id := 2, inv_uid := ''old'', inv_hash := Some ''tx1''\<rparr>"
  have txid: "payment_txid mined_ext (po_currency btc_option) (payment_chain btc_option) ?t replay_world = (Inr ''tx1'', replay_world)"
    by (simp add: payment_txid_def ret_run)
  have at: "invoice_at (po_invoice_uid btc_option) replay_world 1 demo_invoice"
    by (auto simp: only_row_def replay_world_def btc_option_def demo_option_def row_def nth_Cons' split: if_splits)
  have other: "row (db_invoices replay_world) 2 = Some ?o" by (simp add: replay_world_def row_def)
  have tables: "unique_hash (db_invoices replay_world)" "ids_ok pay_id (db_payments replay_world)"
    "next_id (db_payments replay_world) = 1"
    by (simp_all add: replay_world_def demo_worlds unique_hash_def unique_on_def List.map_filter_def ids_ok_def row_def next_id_def)
  obtain r v where paid: "completePayment mined_ext pg btc_option ?t True replay_world = (r, v)" by fastforce
  obtain c u where "getConfirmation mined_ext ''tx1'' (payment_chain btc_option) (po_currency btc_option) v = (Inr (Some c), u)"
    and "cf_date c \<noteq> None"
    using mined [of "''tx1''" v] by (auto simp: btc_option_def)
  then obtain q where "row (db_payments v) 1 = Some q"
    and "row (db_invoices (snd (confirm_one mined_ext pg q v))) 1 = Some (demo_invoice\<lparr>inv_status := ''paid''\<rparr>)"
    using replayed_txid_pays_twice [OF prisma_client_pg txid at _ other _ _ tables(1,2) paid] tables(3) by auto
  then show ?thesis by (auto simp: paid Let_def)
qed

end
