(* ===== verification/Settling.thy ===== *)
theory Settling
  imports System "HOL-Library.Multiset"
begin

text \<open>
  Work that ends: what the calls that nothing awaits leave behind runs out, in whatever order
  it is run, and a round of the timer of \<open>startConfirmingTransactions\<close> gets through all of
  its payments, whatever happens to some of them.
\<close>

section \<open>The queue of unawaited work\<close>

text \<open>A piece of work leaves only work of a lower rank behind.\<close>

fun job_rank :: "job \<Rightarrow> nat" where
  "job_rank (JSendWebhook webhook) = 0"
| "job_rank (JSendWebhookForInvoice uid type) = 0"
| "job_rank (JCreateWebhookForInvoice invoice) = 0"
| "job_rank (JCreateAndSendWebhook topic e) = 1"
| "job_rank (JPollReceipt url hash) = 1"
| "job_rank (JReceipt url status hash block number) = 1"

definition queues :: "nat \<Rightarrow> world \<Rightarrow> world \<Rightarrow> bool" where
  "queues n w w' \<longleftrightarrow> (\<exists>ks. jobs w' = jobs w @ ks \<and> (\<forall>k \<in> set ks. job_rank k < n))"

interpretation queue: history "queues n" for n
proof unfold_locales
  show "queues n w w" for w by (simp add: queues_def)
  show "queues n u w" if "queues n u v" "queues n v w" for u v w
    using that by (fastforce simp: queues_def)
qed

lemma queues_keep: "jobs w' = jobs w \<Longrightarrow> queues n w w'"
  by (simp add: queues_def)

lemma queues_more: "queues m w w' \<Longrightarrow> m \<le> n \<Longrightarrow> queues n w w'"
  unfolding queues_def by fastforce

lemma queue_writes: "(\<And>w. jobs (f w) = jobs w) \<Longrightarrow> follows (queues n) (writes f)"
  by (rule queue.follows_writes) (rule queues_keep)

lemma queue_ask: "follows (queues n) (ask f)"
  by (simp add: follows_def ask_run queues_keep)

lemma queue_publish_raw: "follows (queues n) (publish_raw k m)"
  unfolding publish_raw_def by (rule queue_writes) simp

lemma queue_start_job: "job_rank j < n \<Longrightarrow> follows (queues n) (start_job j)"
  unfolding start_job_def by (rule queue.follows_writes) (simp add: queues_def)

lemma queue_not_awaited: "follows (queues n) m \<Longrightarrow> follows (queues n) (not_awaited m)"
  unfolding follows_def not_awaited_def queues_def by (auto split: prod.splits sum.splits) (metis snd_conv)+

text \<open>No table holds the queue.\<close>

definition idle :: "(world, 'r) handle \<Rightarrow> bool" where
  "idle h \<longleftrightarrow> (\<forall>g w. jobs (h_set h g w) = jobs w)"

lemma queue_create: "idle h \<Longrightarrow> follows (queues n) (create_row h f)"
  unfolding create_row_def by (rule queue.follows_stored) (simp add: idle_def queues_keep)

lemma queue_update: "idle h \<Longrightarrow> follows (queues n) (update_row h i f)"
  unfolding update_row_def by (rule queue.follows_stored) (simp add: idle_def queues_keep)

lemma tables_idle:
  "idle (prisma_invoices P)" "idle (prisma_payments P)" "idle (prisma_webhooks P)"
  "idle (prisma_webhook_attempts P)" "idle (prisma_events P)" "idle (prisma_evm_receipts P)"
  by (simp_all add: idle_def handle_defs)

lemmas queue_rules = queue.follows_rules queue.follows_reads_db queue_ask queue_publish_raw
  queue_not_awaited queue_create queue_update tables_idle

lemma queue_publishEvent: "follows (queues n) (publishEvent key e)"
  unfolding publishEvent_def publish_to_def publish_def by (intro queue_rules)

lemma queue_post: "follows (queues n) (post E url body)"
  unfolding post_def by (intro queue_rules queue_writes) simp

lemma queue_invoice_by_uid: "follows (queues n) (invoice_by_uid P uid)"
  unfolding invoice_by_uid_def by (intro queue_rules)

lemma queue_sendWebhook: "follows (queues n) (sendWebhook E P h)"
  unfolding sendWebhook_def webhook_succeeded_def webhook_failed_def by (intro queue_rules queue_post)

lemma queue_sendWebhookForInvoice: "follows (queues n) (sendWebhookForInvoice E P uid type)"
  unfolding sendWebhookForInvoice_def by (intro queue_rules queue_sendWebhook queue_invoice_by_uid)

lemma queue_createWebhookForInvoice: "follows (queues n) (createWebhookForInvoice E P invoice)"
  unfolding createWebhookForInvoice_def by (intro queue_rules)

lemma queue_createAndSendWebhook: "follows (queues 1) (createAndSendWebhook P topic e)"
  unfolding createAndSendWebhook_def create_app_webhook_def create_account_webhook_def
  by (intro queue_rules queue_start_job) simp_all

lemma queue_confirmPaymentByTxid: "follows (queues 1) (confirmPaymentByTxid P hash c)"
  unfolding confirmPaymentByTxid_def payment_by_txid_def confirmPayment_def
  by (intro queue_rules queue_createAndSendWebhook queue_invoice_by_uid)

lemma queue_revert_unawaited: "follows (queues n) (revert_unawaited P hash)"
  unfolding revert_unawaited_def revertPayment_def payment_by_txid_def by (intro queue_rules)

lemma queue_handleTransactionReceipt: "follows (queues 1) (handleTransactionReceipt E P url receipt)"
  unfolding handleTransactionReceipt_def save_receipt_def
  by (intro queue_rules queue_revert_unawaited queue_confirmPaymentByTxid)

lemma queue_receipts:
  "follows (queues 1) (job_poll_receipt E P url hash)" "follows (queues 1) (job_receipt E P url receipt)"
  unfolding job_poll_receipt_def job_receipt_def
  by (intro queue_rules queue_revert_unawaited queue_handleTransactionReceipt)+

lemma run_job_queues: "follows (queues (job_rank j)) (run_job E P j)"
  by (cases j)
    (auto simp: discard_def intro!: queue_not_awaited queue_rules queue_receipts [unfolded One_nat_def] queue_createAndSendWebhook [unfolded One_nat_def]
      queue_sendWebhook queue_sendWebhookForInvoice queue_createWebhookForInvoice)

text \<open>One piece of the queue is run, whichever.\<close>

inductive runs_job :: "ext \<Rightarrow> prisma \<Rightarrow> world \<Rightarrow> world \<Rightarrow> bool" for E P where
  "jobs w = js @ j # ks \<Longrightarrow> run_job E P j (w\<lparr>jobs := js @ ks\<rparr>) = (r, w') \<Longrightarrow> runs_job E P w w'"

inductive_cases runs_jobE: "runs_job E P w w'"

definition ranks :: "world \<Rightarrow> nat multiset" where
  "ranks w = mset (map job_rank (jobs w))"

lemma ranks_decrease:
  assumes "runs_job E P w w'"
  shows "(ranks w', ranks w) \<in> mult less_than"
  using assms
proof (rule runs_jobE)
  fix js j ks r
  assume j: "jobs w = js @ j # ks" and run: "run_job E P j (w\<lparr>jobs := js @ ks\<rparr>) = (r, w')"
  have "queues (job_rank j) (w\<lparr>jobs := js @ ks\<rparr>) w'"
    using run_job_queues [of j E P] run by (metis follows_def snd_conv)
  then obtain new where new: "jobs w' = (js @ ks) @ new" "\<forall>k \<in> set new. job_rank k < job_rank j"
    by (auto simp: queues_def)
  let ?rest = "mset (map job_rank (js @ ks))"
  have "ranks w = ?rest + {#job_rank j#}" "ranks w' = ?rest + mset (map job_rank new)"
    using j new(1) by (simp_all add: ranks_def)
  moreover have "(?rest + mset (map job_rank new), ?rest + {#job_rank j#}) \<in> mult less_than"
    by (rule one_step_implies_mult) (use new(2) in auto)
  ultimately show ?thesis by simp
qed

lemma runs_job_wf: "wf {(w', w). runs_job E P w w'}"
proof (rule wf_subset)
  show "wf (inv_image (mult less_than) ranks)" by (intro wf_inv_image wf_mult wf_less_than)
  show "{(w', w). runs_job E P w w'} \<subseteq> inv_image (mult less_than) ranks"
    using ranks_decrease by (auto simp: inv_image_def)
qed

lemma runs_job_enabled: "jobs w \<noteq> [] \<Longrightarrow> \<exists>w'. runs_job E P w w'"
  by (cases "jobs w") (auto intro!: runs_job.intros [of w "[]"] prod.collapse [symmetric])

lemma jobs_run_out: "\<exists>w'. (runs_job E P)\<^sup>*\<^sup>* w w' \<and> jobs w' = []"
proof (induction w rule: wf_induct_rule [OF runs_job_wf [of E P]])
  case (1 w)
  show ?case
  proof (cases "jobs w = []")
    case False
    then obtain v where v: "runs_job E P w v" using runs_job_enabled by blast
    with 1 [of v] show ?thesis by (auto intro: converse_rtranclp_into_rtranclp)
  qed blast
qed

section \<open>A round of the timer\<close>

lemma for_each_append: "for_each f (xs @ ys) = bnd (for_each f xs) (\<lambda>_. for_each f ys)"
  by (induction xs) (auto simp: bnd_def ret_def fun_eq_iff split: prod.splits sum.splits)

text \<open>What settles, with a value or an error.\<close>

lemma settles_for_each: "(\<And>x. settles (f x)) \<Longrightarrow> settles (for_each f xs)"
proof (induction xs)
  case (Cons x xs)
  then show ?case by (simp add: settles_bnd)
qed (simp add: settles_def ret_run)

lemma settles_leaves:
  "settles (ret a)" "settles (reads f)" "settles (writes g)" "settles (find_many h p)" "settles (find_sorted h g' p)"
  "settles (find_first h p)" "settles (find_first_or_throw h p)" "settles (create_row h f')" "settles (update_row h i g'')"
  "settles (start_job j)" "settles (publish_raw key msg)" "settles (throw (JsError e))"
  "settles (guard_io b (PrismaError e'))" "settles (lift_result (schema_parse schema ev))"
  "settles (lift_result (js_Number_string x))"
  by (simp_all add: settles_def io_simps create_row_def update_row_def stored_run start_job_def publish_raw_def
      schema_parse_def js_Number_string_def split: option.splits sum.splits)

lemmas work_settles = settles_bnd settles_for_each settles_option settles_if settles_leaves

lemma settles_confirmPayment: "settles (confirmPayment P q c)"
  unfolding confirmPayment_def createAndSendWebhook_def create_app_webhook_def create_account_webhook_def
    invoice_by_uid_def
  by (intro work_settles)

lemma catch_all: "settles m \<Longrightarrow> fst (catch m (\<lambda>_. ret ()) w) = Inr ()"
  unfolding settles_def catch_run by (auto simp: ret_run split: prod.splits sum.splits) (metis fst_conv)

lemma for_each_never_throws:
  assumes "\<And>x w. x \<in> set xs \<Longrightarrow> fst (f x w) = Inr ()"
  shows "fst (for_each f xs w) = Inr ()"
  using assms
proof (induction xs arbitrary: w)
  case (Cons x xs)
  then show ?case using Cons.prems [of x w] by (cases "f x w") (simp add: bnd_run)
qed (simp add: ret_run)

abbreviation asks_for :: "ext \<Rightarrow> payment \<Rightarrow> confirmation option prog" where
  "asks_for E q \<equiv> getConfirmation E (pay_txid q) (js_String (pay_chain q)) (pay_currency q)"

lemma confirm_one_returns: "settles (asks_for E q) \<Longrightarrow> fst (confirm_one E P q w) = Inr ()"
  unfolding confirm_one_def by (intro catch_all work_settles settles_confirmPayment)

text \<open>What the round keeps of the payment in row \<open>k\<close>, before and after its turn.\<close>

definition listed :: "nat \<Rightarrow> world \<Rightarrow> bool" where
  "listed k w \<longleftrightarrow> ids_ok pay_id (db_payments w) \<and> row (db_payments w) k \<noteq> None"

definition is_confirmed :: "nat \<Rightarrow> world \<Rightarrow> bool" where
  "is_confirmed k w \<longleftrightarrow> ids_ok pay_id (db_payments w) \<and>
     (\<exists>q. row (db_payments w) k = Some q \<and> pay_status q = Some ''confirmed'')"

lemma keeps_same:
  assumes "follows same_ledger m"
  shows "follows (keeping (listed k)) m" and "follows (keeping (is_confirmed k)) m"
  using assms
  by (auto simp: follows_def keeping_def same_ledger_def ledger_def listed_def is_confirmed_def)

context prisma_client
begin

lemma keeps_updates:
  "follows (keeping (listed k)) (update_row (prisma_payments P) i (confirmed_payment c))"
  "follows (keeping (is_confirmed k)) (update_row (prisma_payments P) i (confirmed_payment c))"
  "follows (keeping (listed k)) (update_row (prisma_invoices P) i g)"
  "follows (keeping (is_confirmed k)) (update_row (prisma_invoices P) i g)"
  by (auto simp: follows_def keeping_def listed_def is_confirmed_def update_payments update_invoices row_put
      ids_ok_put ids_okD split: option.splits if_splits)

lemma keeps_confirmPayment:
  "follows (keeping (listed k)) (confirmPayment P q c)" "follows (keeping (is_confirmed k)) (confirmPayment P q c)"
  unfolding confirmPayment_def
  by (intro keep.follows_rules keeps_updates keeps_same same_invoice_by_uid same_publish_raw
      same_createAndSendWebhook same.follows_reads_db)+

lemma keeps_confirm_one:
  "follows (keeping (listed k)) (confirm_one E P q)" "follows (keeping (is_confirmed k)) (confirm_one E P q)"
  unfolding confirm_one_def
  by (intro keep.follows_rules keeps_confirmPayment keeps_same same_getConfirmation)+

lemma confirmPayment_confirms:
  assumes "listed k w" and "pay_id q = k" and "\<not> truthy (pay_confirmation_hash q)" and "cf_date c \<noteq> None"
  shows "is_confirmed k (snd (confirmPayment P q c w))"
proof -
  obtain r where r: "row (db_payments w) k = Some r" "ids_ok pay_id (db_payments w)"
    using assms(1) by (auto simp: listed_def)
  let ?v = "w\<lparr>db_payments := put (db_payments w) k (Some (confirmed_payment c r))\<rparr>"
  let ?rest = "bnd (find_first_or_throw (prisma_payments P) (\<lambda>p. pay_id p = k)) (\<lambda>payment.
        bnd (invoice_by_uid P (pay_invoice_uid payment)) (\<lambda>invoice.
        bnd (update_row (prisma_invoices P) (inv_id invoice) (\<lambda>r. r\<lparr>inv_status := ''paid''\<rparr>)) (\<lambda>_.
        bnd (publish_raw ''payment.confirmed'' (PaymentMsg payment)) (\<lambda>_.
        bnd (createAndSendWebhook P ''payment.confirmed'' (payment_confirmed_event payment invoice c)) (\<lambda>_.
        ret payment)))))"
  have "is_confirmed k ?v"
    using r ids_okD [OF r(2,1)] by (simp add: is_confirmed_def ids_ok_put row_put_same)
  moreover have "follows (keeping (is_confirmed k)) ?rest"
    by (intro keep.follows_rules keeps_updates keeps_same same_invoice_by_uid same_publish_raw
        same_createAndSendWebhook same.follows_reads_db)
  moreover have "confirmPayment P q c w = ?rest ?v"
    using assms(2-4) r(1) by (simp add: confirmPayment_def bnd_run [of "guard_io _ _"] guard_io_run
        bnd_run [of "update_row (prisma_payments P) _ _"] update_payments)
  ultimately show ?thesis using keepingD by simp
qed

lemma confirm_one_confirms:
  assumes "listed k w" and "pay_id q = k" and "\<not> truthy (pay_confirmation_hash q)"
    and "asks_for E q w = (Inr (Some c), u)" and "cf_date c \<noteq> None"
  shows "is_confirmed k (snd (confirm_one E P q w))"
proof -
  have "listed k u" using keepingD [OF keeps_same(1) [OF same_getConfirmation] assms(1)] assms(4) by (metis snd_conv)
  from confirmPayment_confirms [OF this assms(2,3,5)] show ?thesis
    by (auto simp: confirm_one_def catch_run bnd_run assms(4) ret_run split: prod.splits sum.splits)
qed

lemma tick_confirms:
  assumes "ids_ok pay_id (db_payments w)" and "row (db_payments w) k = Some q"
    and "pay_status q = Some ''confirming''" and "now w - seven_days \<le> pay_createdAt q"
    and "\<not> truthy (pay_confirmation_hash q)"
    and "\<And>v. \<exists>c u. asks_for E q v = (Inr (Some c), u) \<and> cf_date c \<noteq> None"
    and "\<And>i p. row (db_payments w) i = Some p \<Longrightarrow> settles (asks_for E p)"
  shows "fst (confirming_tick E P w) = Inr () \<and> is_confirmed k (snd (confirming_tick E P w))"
proof -
  let ?ps = "api_sorted (h_api (prisma_payments P)) (\<lambda>p. - pay_createdAt p)
      (\<lambda>p. pay_status p = Some ''confirming'' \<and> now w - seven_days \<le> pay_createdAt p) (db_payments w)"
  have tick: "confirming_tick E P w = catch (for_each (confirm_one E P) ?ps) (\<lambda>_. ret ()) w"
    by (simp add: confirming_tick_def catch_def bnd_run reads_run find_sorted_run prisma_payments_def)
  have one: "fst (confirm_one E P p v) = Inr ()" if "p \<in> set ?ps" for p v
    using that assms(7) by (auto intro: confirm_one_returns simp: prisma_payments_def tp.set_sorted in_rows)
  have returns: "fst (for_each (confirm_one E P) ps v) = Inr ()" if "set ps \<subseteq> set ?ps" for ps v
    by (rule for_each_never_throws) (use one that in blast)
  have "q \<in> set ?ps"
    using assms(2-4) by (auto simp: prisma_payments_def tp.set_sorted row_in_rows)
  then obtain as bs where ps: "?ps = as @ q # bs" by (meson split_list)
  let ?u = "snd (for_each (confirm_one E P) as w)"
  let ?v = "snd (confirm_one E P q ?u)"
  have "listed k w" using assms(1,2) by (simp add: listed_def)
  then have "listed k ?u" by (rule keepingD [OF keep.follows_for_each [OF keeps_confirm_one(1)]])
  moreover obtain c x where "asks_for E q ?u = (Inr (Some c), x)" "cf_date c \<noteq> None" using assms(6) by blast
  ultimately have "is_confirmed k ?v"
    using confirm_one_confirms ids_okD [OF assms(1,2)] assms(5) by blast
  then have "is_confirmed k (snd (for_each (confirm_one E P) bs ?v))"
    by (rule keepingD [OF keep.follows_for_each [OF keeps_confirm_one(2)]])
  moreover have first: "fst (for_each (confirm_one E P) as w) = Inr ()" and turn: "fst (confirm_one E P q ?u) = Inr ()"
    by (rule returns, use ps in auto) (rule one, use ps in simp)
  moreover have "snd (for_each (confirm_one E P) ?ps w) = snd (for_each (confirm_one E P) bs ?v)"
    unfolding ps for_each_append using first turn
    by (auto simp: bnd_run split: prod.splits sum.splits)
  ultimately show ?thesis
    using returns [of ?ps w] by (auto simp: tick catch_run ret_run split: prod.splits sum.splits)
qed

end

section \<open>Properties\<close>

text \<open>
  C26. The work that unawaited calls leave behind ends: running it piece by piece, in whatever
  order, stops after finitely many pieces, whatever the outside world answers, because the
  lookup of a receipt leaves at most webhooks to send and sending a webhook leaves nothing;
  and from every state the queue can be emptied.
\<close>

theorem unawaited_work_ends:
  "wf {(w', w). runs_job E P w w'} \<and> (\<exists>w'. (runs_job E P)\<^sup>*\<^sup>* w w' \<and> jobs w' = [])"
  using runs_job_wf jobs_run_out by blast

text \<open>
  C14. A round of \<open>startConfirmingTransactions\<close> (src/src/lib/confirmations.ts) confirms every
  payment that it lists and the chain reports a block for: if no lookup hangs, the round ends
  without an error and a confirming payment of the last seven days whose lookup gives a
  confirmation is confirmed after it, although the lookups of other payments, the reading of
  its invoice or the creation of webhooks may fail.
\<close>

theorem timer_confirms:
  assumes "prisma_client P" and "ids_ok pay_id (db_payments w)" and "row (db_payments w) k = Some q"
    and "pay_status q = Some ''confirming''" and "now w - 7 * 24 * 60 * 60 * 1000 \<le> pay_createdAt q"
    and "\<not> truthy (pay_confirmation_hash q)"
    and "\<And>v. \<exists>c u. getConfirmation E (pay_txid q) (js_String (pay_chain q)) (pay_currency q) v =
        (Inr (Some c), u) \<and> cf_date c \<noteq> None"
    and "\<And>i p v. row (db_payments w) i = Some p \<Longrightarrow>
        fst (getConfirmation E (pay_txid p) (js_String (pay_chain p)) (pay_currency p) v) \<noteq> Inl NeverSettles"
  shows "fst (confirming_tick E P w) = Inr () \<and>
    (\<exists>q'. row (db_payments (snd (confirming_tick E P w))) k = Some q' \<and> pay_status q' = Some ''confirmed'')"
  using prisma_client.tick_confirms [OF assms(1-4) assms(5) [folded seven_days_def] assms(6,7)] assms(8)
  by (auto simp: settles_def is_confirmed_def)

section \<open>Witness\<close>

text \<open>A payment on Bitcoin, and one on a currency without a plugin.\<close>

definition block_ext :: ext where
  "block_ext = demo_ext\<lparr>mempool_tx := \<lambda>_ _. Inr \<lparr>ms_confirmed = True, ms_block_hash = ''block'',
     ms_block_height = 7, ms_block_time = 1\<rparr>\<rparr>"

definition watched_world :: world where
  "watched_world = empty_world\<lparr>db_payments := [Some (demo_payment\<lparr>pay_currency := ''?''\<rparr>),
     Some (demo_payment\<lparr>pay_id := 2, pay_currency := ''BTC'', pay_chain := Some ''BTC''\<rparr>)]\<rparr>"

lemma watched:
  "row (db_payments watched_world) i = Some p \<longleftrightarrow>
     i = 1 \<and> p = demo_payment\<lparr>pay_currency := ''?''\<rparr> \<or>
     i = 2 \<and> p = demo_payment\<lparr>pay_id := 2, pay_currency := ''BTC'', pay_chain := Some ''BTC''\<rparr>"
  by (auto simp: watched_world_def row_def nth_Cons' split: if_splits)

lemma block_lookups:
  "\<exists>c u. getConfirmation block_ext h ''BTC'' ''BTC'' v = (Inr (Some c), u) \<and> cf_date c \<noteq> None"
  "fst (getConfirmation block_ext h ''BCH'' ''?'' v) \<noteq> Inl NeverSettles"
proof -
  show "\<exists>c u. getConfirmation block_ext h ''BTC'' ''BTC'' v = (Inr (Some c), u) \<and> cf_date c \<noteq> None"
    by (simp add: getConfirmation_def with_plugin_def BTC_def class_defs BTC_getConfirmation_def block_ext_def io_simps)
  have "\<exists>e. find_plugin block_ext ''?'' ''BCH'' = Inl e \<and> e \<noteq> NeverSettles"
    by (simp add: find_plugin_def plugins_def plugin_key_def)
  then show "fst (getConfirmation block_ext h ''BCH'' ''?'' v) \<noteq> Inl NeverSettles"
    by (auto simp: getConfirmation_def with_plugin_def io_simps)
qed

theorem timer_confirms_witness:
  "\<exists>q. row (db_payments (snd (confirming_tick block_ext pg watched_world))) 2 = Some q \<and>
     pay_status q = Some ''confirmed''"
proof -
  let ?q = "demo_payment\<lparr>pay_id := 2, pay_currency := ''BTC'', pay_chain := Some ''BTC''\<rparr>"
  have ids: "ids_ok pay_id (db_payments watched_world)"
    by (auto simp: ids_ok_def watched demo_payment_def)
  have q: "row (db_payments watched_world) 2 = Some ?q" by (simp add: watched)
  have settles: "fst (getConfirmation block_ext (pay_txid p) (js_String (pay_chain p)) (pay_currency p) v) \<noteq> Inl NeverSettles"
    if "row (db_payments watched_world) i = Some p" for i p v
    using that block_lookups by (auto simp: watched demo_payment_def) (metis Inr_not_Inl fst_conv)
  show ?thesis
    using timer_confirms [OF prisma_client_pg ids q, of block_ext] block_lookups(1) settles
    by (simp add: demo_payment_def watched_world_def empty_world_def)
qed

end
