(* ===== verification/Accounts.thy ===== *)
theory Accounts
  imports Addresses PaymentRequests "HOL-Library.AList"
begin

text \<open>
  Accounts and who may act for them: \<open>src/lib/accounts\<close>, \<open>src/lib/access_tokens.ts\<close>,
  \<open>src/lib/account_login.ts\<close>, \<open>src/lib/apikeys.ts\<close>, \<open>src/lib/auth.ts\<close>, \<open>src/lib/bcrypt.ts\<close>,
  \<open>src/lib/linked_accounts.ts\<close>, \<open>src/lib/settings.ts\<close>, \<open>src/lib/search.ts\<close>, \<open>src/lib/merchants.ts\<close>,
  \<open>src/lib/password.ts\<close>, \<open>src/lib/password_reset.ts\<close> and the validators of
  \<open>src/server/auth\<close>. The packages \<open>bcryptjs\<close>, \<open>uuid\<close>, \<open>jsonwebtoken\<close> and \<open>geoip-lite\<close> are
  parameters; notifications to Slack are left out.
\<close>

section \<open>Passwords\<close>

definition hash :: "ext \<Rightarrow> string \<Rightarrow> string prog" where
  "hash E password = ask (\<lambda>n. bcrypt_hash E n password)"

text \<open>A mismatch rejects with the value \<open>false\<close>, which every caller catches.\<close>

definition compare :: "ext \<Rightarrow> string \<Rightarrow> string \<Rightarrow> bool prog" where
  "compare E password hashed =
     bnd (lift_result (bcrypt_compare E password hashed)) (\<lambda>isMatch.
     bnd (guard_io isMatch (JsError [])) (\<lambda>_. ret True))"

definition resetPassword :: "ext \<Rightarrow> prisma \<Rightarrow> nat \<Rightarrow> string \<Rightarrow> bool prog" where
  "resetPassword E P accountId newPassword =
     bnd (hash E newPassword) (\<lambda>passwordHash.
     bnd (update_row (prisma_accounts P) accountId (\<lambda>r. r\<lparr>acc_password_hash := Some passwordHash\<rparr>)) (\<lambda>_.
     ret True))"

definition resetPasswordByEmail :: "ext \<Rightarrow> prisma \<Rightarrow> string \<Rightarrow> string \<Rightarrow> bool prog" where
  "resetPasswordByEmail E P email newPassword =
     bnd (find_first_or_throw (prisma_accounts P) (\<lambda>a. acc_email a = Some email)) (\<lambda>account.
     resetPassword E P (acc_id account) newPassword)"

text \<open>The body of the function that sends the email is commented out.\<close>

definition sendPasswordResetEmail :: "string \<Rightarrow> unit prog" where
  "sendPasswordResetEmail email = ret ()"

definition passwordResetEmail :: "ext \<Rightarrow> prisma \<Rightarrow> string \<Rightarrow> password_reset prog" where
  "passwordResetEmail E P email =
     bnd (ask (uuid E)) (\<lambda>uid.
     bnd (create_row (prisma_password_resets P) (\<lambda>_. \<lparr>rst_uid = uid, rst_claimed = None, rst_email = Some email\<rparr>)) (\<lambda>record.
     bnd (sendPasswordResetEmail email) (\<lambda>_.
     ret record)))"

section \<open>Accounts\<close>

definition findByEmail :: "prisma \<Rightarrow> string \<Rightarrow> account option prog" where
  "findByEmail P email = find_first (prisma_accounts P) (\<lambda>a. acc_email a = Some email)"

text \<open>The columns a request may name; the source writes whatever the request holds.\<close>

record account_payload =
  apl_email :: "string option"
  apl_denomination :: "string option"
  apl_webhook_url :: "string option"
  apl_password_hash :: "string option"
  apl_business_name :: "string option"
  apl_image_url :: "string option"
  apl_physical_address :: "string option"
  apl_stub :: "string option"
  apl_latitude :: "string option"
  apl_longitude :: "string option"

definition apply_payload :: "account_payload \<Rightarrow> account \<Rightarrow> account" where
  "apply_payload p r = r\<lparr>acc_email := set_if (apl_email p) (acc_email r),
     acc_denomination := set_if (apl_denomination p) (acc_denomination r),
     acc_webhook_url := set_if (apl_webhook_url p) (acc_webhook_url r),
     acc_password_hash := set_if (apl_password_hash p) (acc_password_hash r),
     acc_business_name := set_if (apl_business_name p) (acc_business_name r),
     acc_image_url := set_if (apl_image_url p) (acc_image_url r),
     acc_physical_address := set_if (apl_physical_address p) (acc_physical_address r),
     acc_stub := set_if (apl_stub p) (acc_stub r),
     acc_latitude := set_if (apl_latitude p) (acc_latitude r),
     acc_longitude := set_if (apl_longitude p) (acc_longitude r)\<rparr>"

definition account_by_id :: "prisma \<Rightarrow> nat \<Rightarrow> account prog" where
  "account_by_id P i = find_first_or_throw (prisma_accounts P) (\<lambda>a. acc_id a = i)"

definition updateAccount :: "prisma \<Rightarrow> account \<Rightarrow> account_payload \<Rightarrow> account prog" where
  "updateAccount P account payload =
     bnd (update_row (prisma_accounts P) (acc_id account) (apply_payload payload)) (\<lambda>_.
     account_by_id P (acc_id account))"

text \<open>No tags give \<open>undefined\<close>.\<close>

definition getIntersection :: "'a list \<Rightarrow> 'a list \<Rightarrow> 'a list" where
  "getIntersection arrA arrB = filter (\<lambda>x. x \<in> set arrB) arrA"

definition findAllWithTags :: "prisma \<Rightarrow> string list \<Rightarrow> nat option list option prog" where
  "findAllWithTags P tags =
     bnd (map_io (\<lambda>tag. bnd (find_many (prisma_account_tags P) (\<lambda>r. tag_tag r = Some tag))
            (\<lambda>rs. ret (map tag_account_id rs))) tags) (\<lambda>groups.
     ret (case groups of [] \<Rightarrow> None | g # gs \<Rightarrow> Some (foldl getIntersection g gs)))"

definition blank_account :: "nat \<Rightarrow> account" where
  "blank_account i = \<lparr>acc_id = i, acc_email = None, acc_denomination = None, acc_webhook_url = None,
     acc_password_hash = None, acc_business_name = None, acc_image_url = None, acc_physical_address = None,
     acc_stub = None, acc_latitude = None, acc_longitude = None, acc_registration_ip_address = None,
     acc_registration_geolocation = None\<rparr>"

text \<open>\<open>registerAccount\<close> of \<open>src/lib/accounts/index.ts\<close>, which the scripts and tests use.\<close>

definition accounts_registerAccount :: "ext \<Rightarrow> prisma \<Rightarrow> string \<Rightarrow> string \<Rightarrow> account prog" where
  "accounts_registerAccount E P email password =
     bnd (hash E password) (\<lambda>passwordHash.
     bnd (findByEmail P email) (\<lambda>found.
     bnd (guard_io (found = None) (JsError (''account '' @ email @ '' already exists''))) (\<lambda>_.
     bnd (create_row (prisma_accounts P) (\<lambda>i. (blank_account i)\<lparr>acc_email := Some email,
            acc_password_hash := Some passwordHash, acc_denomination := Some ''USD''\<rparr>)) (\<lambda>account.
     bnd (reads now) (\<lambda>t.
     bnd (create_row (prisma_events P) (\<lambda>i. \<lparr>evt_id = i, evt_type = ''account.created'',
            evt_payload = AccountJson email (acc_id account), evt_account_id = Some (acc_id account),
            evt_app_id = None, evt_invoice_uid = None, evt_namespace = None, evt_error = None, evt_createdAt = t\<rparr>)) (\<lambda>_.
     ret account))))))"

definition accounts_create :: "ext \<Rightarrow> prisma \<Rightarrow> string \<Rightarrow> string \<Rightarrow> account prog" where
  "accounts_create E P email password = accounts_registerAccount E P email password"

definition new_token :: "string \<Rightarrow> nat \<Rightarrow> time \<Rightarrow> nat \<Rightarrow> access_token" where
  "new_token uid account_id t i = \<lparr>tok_id = i, tok_uid = Some uid, tok_account_id = account_id,
     tok_app_id = None, tok_createdAt = t\<rparr>"

definition createAccessToken :: "ext \<Rightarrow> prisma \<Rightarrow> nat \<Rightarrow> access_token prog" where
  "createAccessToken E P accountId =
     bnd (ask (uuid E)) (\<lambda>uid.
     bnd (reads now) (\<lambda>t.
     create_row (prisma_access_tokens P) (new_token uid accountId t)))"

definition setName :: "prisma \<Rightarrow> account \<Rightarrow> string \<Rightarrow> account prog" where
  "setName P account name =
     update_row (prisma_accounts P) (acc_id account) (\<lambda>r. r\<lparr>acc_business_name := Some name\<rparr>)"

definition setPhysicalAddress :: "prisma \<Rightarrow> account \<Rightarrow> string \<Rightarrow> account prog" where
  "setPhysicalAddress P account place =
     update_row (prisma_accounts P) (acc_id account) (\<lambda>r. r\<lparr>acc_physical_address := Some place\<rparr>)"

definition setAddressNote :: "prisma \<Rightarrow> nat \<Rightarrow> string \<Rightarrow> string \<Rightarrow> unit prog" where
  "setAddressNote P account_id currency note =
     bnd (find_first_or_throw (prisma_addresses P) (\<lambda>a. adr_account_id a = Some account_id \<and>
            adr_currency a = currency)) (\<lambda>r.
     bnd (update_row (prisma_addresses P) (adr_id r) (\<lambda>r. r\<lparr>adr_note := Some note\<rparr>)) (\<lambda>_. ret ()))"

section \<open>The coins of an account\<close>

record account_coin =
  aco_code :: string
  aco_currency :: "string option"
  aco_chain :: "string option"
  aco_name :: string
  aco_enabled :: bool
  aco_icon :: "string option"
  aco_address :: "string option"
  aco_supported :: "bool option"
  aco_unavailable :: "bool option"

text \<open>The object from coin codes to coins, in the order the codes first appear.\<close>

type_synonym account_coins = "(string \<times> account_coin) list"

definition addressed_coin :: "address \<Rightarrow> account_coin" where
  "addressed_coin a = \<lparr>aco_code = adr_currency a, aco_currency = Some (adr_currency a),
     aco_chain = Some (adr_chain a),
     aco_name = adr_currency a, aco_enabled = True,
     aco_icon = Some (''https://app.anypayinc.com/'' @ to_lower (adr_currency a) @ ''.png''),
     aco_address = Some (js_String (adr_value a)), aco_supported = None, aco_unavailable = None\<rparr>"

definition plain_coin :: "coin \<Rightarrow> account_coin" where
  "plain_coin c = \<lparr>aco_code = coin_code c, aco_currency = coin_currency c,
     aco_chain = coin_chain c, aco_name = coin_name c, aco_enabled = False, aco_icon = coin_logo_url c, aco_address = None,
     aco_supported = coin_supported c, aco_unavailable = None\<rparr>"

definition add_address :: "account_coins \<Rightarrow> address \<Rightarrow> account_coins" where
  "add_address acc a = AList.update (adr_currency a) (addressed_coin a) acc"

definition add_coin :: "account_coins \<Rightarrow> coin \<Rightarrow> account_coins" where
  "add_coin acc c =
     AList.update (coin_code c)
       (case map_of acc (coin_code c) of
          Some a \<Rightarrow> a\<lparr>aco_name := coin_name c, aco_icon := coin_logo_url c,
            aco_unavailable := Some (coin_unavailable c = Some True),
            aco_supported := Some (coin_supported c = Some True)\<rparr>
        | None \<Rightarrow> plain_coin c) acc"

definition getSupportedCoins :: "prisma \<Rightarrow> nat \<Rightarrow> account_coins prog" where
  "getSupportedCoins P accountId =
     bnd (find_many (prisma_addresses P) (\<lambda>a. adr_account_id a = Some accountId)) (\<lambda>addresses.
     bnd getCoins (\<lambda>coins.
     ret (foldl add_coin (foldl add_address [] addresses) coins)))"

definition getAddress :: "prisma \<Rightarrow> nat \<Rightarrow> string \<Rightarrow> string option prog" where
  "getAddress P accountId currency =
     bnd (getSupportedCoins P accountId) (\<lambda>coins.
     ret (case map_of coins currency of None \<Rightarrow> None | Some c \<Rightarrow> aco_address c))"

record account_address =
  aad_account_id :: nat
  aad_currency :: "string option"
  aad_address :: string
  aad_enabled :: bool

definition getAccountAddress :: "prisma \<Rightarrow> nat \<Rightarrow> string \<Rightarrow> account_address prog" where
  "getAccountAddress P accountId currency =
     bnd (getSupportedCoins P accountId) (\<lambda>coins.
     bnd (find_first_or_throw (prisma_addresses P) (\<lambda>a. adr_account_id a = Some accountId \<and>
            adr_currency a = currency)) (\<lambda>a.
     (case map_of coins currency of
        None \<Rightarrow> throw JsTypeError
      | Some c \<Rightarrow> ret \<lparr>aad_account_id = accountId, aad_currency = aco_currency c,
          aad_address = js_String (adr_value a), aad_enabled = aco_enabled c\<rparr>)))"

section \<open>Registration and login\<close>

record new_account =
  na_email :: string
  na_password :: string

definition registerAccount :: "ext \<Rightarrow> prisma \<Rightarrow> new_account \<Rightarrow> account prog" where
  "registerAccount E P params =
     bnd (hash E (na_password params)) (\<lambda>passwordHash.
     bnd (find_first (prisma_accounts P) (\<lambda>a. acc_email a = Some (na_email params))) (\<lambda>found.
     (case found of
        None \<Rightarrow> create_row (prisma_accounts P) (\<lambda>i. (blank_account i)\<lparr>acc_email := Some (na_email params),
          acc_password_hash := Some passwordHash\<rparr>)
      | Some _ \<Rightarrow> throw (JsError (''account already registered with email '' @ na_email params)))))"

definition toKeyValueString :: "(string \<times> string) list \<Rightarrow> string" where
  "toKeyValueString json = concat (map (\<lambda>(k, v). k @ ''='' @ v @ '' '') json)"

text \<open>Where a request comes from: its address, and the address a proxy passes on.\<close>

record origin =
  org_remoteAddress :: string
  org_forwarded_for :: "string option"

definition located :: "ext \<Rightarrow> origin \<Rightarrow> (string \<times> string) list option" where
  "located E request = geo_lookup E
     (if truthy (org_forwarded_for request) then the (org_forwarded_for request) else org_remoteAddress request)"

definition geolocateAccountFromRequest :: "ext \<Rightarrow> prisma \<Rightarrow> account \<Rightarrow> origin \<Rightarrow> unit prog" where
  "geolocateAccountFromRequest E P account request =
     bnd (case located E request of
            None \<Rightarrow> ret ()
          | Some geoLocation \<Rightarrow>
              let userLocation = toKeyValueString (AList.update ''ip'' (org_remoteAddress request) geoLocation) in
              bnd (update_row (prisma_accounts P) (acc_id account)
                     (\<lambda>r. r\<lparr>acc_registration_geolocation := Some userLocation\<rparr>)) (\<lambda>_. ret ())) (\<lambda>_.
     bnd (update_row (prisma_accounts P) (acc_id account)
            (\<lambda>r. r\<lparr>acc_registration_ip_address := Some (org_remoteAddress request)\<rparr>)) (\<lambda>_.
     ret ()))"

definition loginAccount :: "ext \<Rightarrow> prisma \<Rightarrow> new_account \<Rightarrow> account prog" where
  "loginAccount E P params =
     bnd (find_first_or_throw (prisma_accounts P) (\<lambda>a. acc_email a = Some (na_email params))) (\<lambda>account.
     bnd (guard_io (truthy (acc_password_hash account)) (JsError ''invalid login'')) (\<lambda>_.
     bnd (catch (compare E (na_password params) (js_String (acc_password_hash account)))
            (\<lambda>_. throw (JsError ''invalid login''))) (\<lambda>_.
     ret account)))"

definition ensureAccessToken :: "ext \<Rightarrow> prisma \<Rightarrow> account \<Rightarrow> access_token prog" where
  "ensureAccessToken E P account =
     bnd (ask (uuid E)) (\<lambda>uid.
     bnd (reads now) (\<lambda>t.
     create_row (prisma_access_tokens P) (new_token uid (acc_id account) t)))"

definition withEmailPassword :: "ext \<Rightarrow> prisma \<Rightarrow> string \<Rightarrow> string \<Rightarrow> access_token prog" where
  "withEmailPassword E P email password =
     bnd (find_first_or_throw (prisma_accounts P) (\<lambda>a. acc_email a = Some (to_lower email))) (\<lambda>account.
     bnd (catch (compare E password (js_String (acc_password_hash account)))
            (\<lambda>_. throw (JsError ''invalid password''))) (\<lambda>_.
     bnd (ask (uuid E)) (\<lambda>uid.
     bnd (reads now) (\<lambda>t.
     create_row (prisma_access_tokens P) (new_token uid (acc_id account) t)))))"

section \<open>API keys\<close>

definition getMerchantApiKey :: "ext \<Rightarrow> prisma \<Rightarrow> nat \<Rightarrow> string prog" where
  "getMerchantApiKey E P account_id =
     bnd (find_first (prisma_access_tokens P) (\<lambda>t. tok_account_id t = account_id)) (\<lambda>found.
     bnd (case found of
            Some t \<Rightarrow> ret t
          | None \<Rightarrow> createAccessToken E P account_id) (\<lambda>accessToken.
     ret (js_String (tok_uid accessToken))))"

definition getPlatformApiKey :: "ext \<Rightarrow> prisma \<Rightarrow> nat \<Rightarrow> string prog" where
  "getPlatformApiKey E P account_id =
     bnd (createApp E P ''platform'' account_id) (\<lambda>app.
     bnd (find_sorted (prisma_access_tokens P) tok_createdAt (\<lambda>t. tok_account_id t = account_id \<and>
            tok_app_id t = Some (app_row_id app))) (\<lambda>found.
     bnd (case found of
            t # _ \<Rightarrow> ret t
          | [] \<Rightarrow> createAppToken E P (app_row_id app)) (\<lambda>accessToken.
     ret (js_String (tok_uid accessToken)))))"

section \<open>Who a request is from\<close>

text \<open>
  What the validators add to the request; \<open>None\<close> is \<open>isValid: false\<close>.
\<close>

record credentials =
  crd_token :: access_token
  crd_account :: account

definition credentials_of :: "prisma \<Rightarrow> access_token \<Rightarrow> credentials option prog" where
  "credentials_of P accessToken =
     bnd (account_by_id P (tok_account_id accessToken)) (\<lambda>account.
     ret (Some \<lparr>crd_token = accessToken, crd_account = account\<rparr>))"

definition validateToken :: "prisma \<Rightarrow> string \<Rightarrow> credentials option prog" where
  "validateToken P username =
     (if username = [] then ret None
      else
        bnd (find_first (prisma_access_tokens P) (\<lambda>t. tok_uid t = Some username)) (\<lambda>found.
        (case found of
           None \<Rightarrow> ret None
         | Some accessToken \<Rightarrow> credentials_of P accessToken)))"

definition validateAppToken :: "prisma \<Rightarrow> string \<Rightarrow> (credentials \<times> app) option prog" where
  "validateAppToken P username =
     (if username = [] then ret None
      else
        bnd (find_first (prisma_access_tokens P) (\<lambda>t. tok_uid t = Some username)) (\<lambda>found.
        (case found of
           None \<Rightarrow> ret None
         | Some accessToken \<Rightarrow>
             if truthy_id (tok_app_id accessToken) then
               bnd (find_first_or_throw (prisma_apps P)
                      (\<lambda>a. Some (app_row_id a) = tok_app_id accessToken)) (\<lambda>app.
               bnd (account_by_id P (tok_account_id accessToken)) (\<lambda>account.
               ret (Some (\<lparr>crd_token = accessToken, crd_account = account\<rparr>, app))))
             else ret None)))"

definition validatePassword :: "ext \<Rightarrow> prisma \<Rightarrow> string \<Rightarrow> string \<Rightarrow> credentials option prog" where
  "validatePassword E P username password =
     catch
       (if username = [] \<or> password = [] then ret None
        else
          bnd (find_first (prisma_accounts P) (\<lambda>a. acc_email a = Some (to_lower username))) (\<lambda>found.
          (case found of
             None \<Rightarrow> ret None
           | Some account \<Rightarrow>
               bnd (withEmailPassword E P username password) (\<lambda>accessToken.
               ret (Some \<lparr>crd_token = accessToken, crd_account = account\<rparr>)))))
       (\<lambda>_. ret None)"

text \<open>The password is not looked at: the user name is compared with the hash.\<close>

definition validateSudoPassword :: "ext \<Rightarrow> string \<Rightarrow> string \<Rightarrow> bool prog" where
  "validateSudoPassword E username password =
     (if username = [] then ret False
      else catch (bnd (compare E username (cfg_string E ''SUDO_PASSWORD_HASH'')) (\<lambda>_. ret True))
             (\<lambda>_. ret False))"

definition prometheus_auth :: "prisma \<Rightarrow> string \<Rightarrow> string \<Rightarrow> access_token option prog" where
  "prometheus_auth P username password =
     (if to_lower username \<noteq> ''prometheus'' then ret None
      else
        bnd (find_first (prisma_apps P) (\<lambda>a. app_name a = ''prometheus'' \<and> app_account_id a = 0)) (\<lambda>found.
        (case found of
           None \<Rightarrow> ret None
         | Some prometheusApp \<Rightarrow>
             if password = [] then ret None
             else catch
               (find_first (prisma_access_tokens P) (\<lambda>t. tok_uid t = Some password \<and>
                  tok_app_id t = Some (app_row_id prometheusApp)))
               (\<lambda>_. ret None))))"

definition generateAccountToken :: "ext \<Rightarrow> nat \<Rightarrow> string \<Rightarrow> string" where
  "generateAccountToken E account_id uid = jwt_sign E account_id uid"

text \<open>The account a token names, if it names one: an administrator's token does not.\<close>

definition verifyToken :: "ext \<Rightarrow> string \<Rightarrow> nat option prog" where
  "verifyToken E token = bnd (reads now) (\<lambda>t. lift_result (jwt_verify E t token))"

text \<open>A condition on an undefined value is no condition.\<close>

definition authorizeAccount :: "ext \<Rightarrow> prisma \<Rightarrow> string \<Rightarrow> account prog" where
  "authorizeAccount E P token =
     bnd (verifyToken E token) (\<lambda>verified.
     find_first_or_throw (prisma_accounts P)
       (\<lambda>a. case verified of None \<Rightarrow> True | Some i \<Rightarrow> acc_id a = i))"

text \<open>\<open>useJWT\<close> answers 401 to any error.\<close>

definition validateJWT :: "ext \<Rightarrow> prisma \<Rightarrow> string \<Rightarrow> account option prog" where
  "validateJWT E P token =
     catch (bnd (authorizeAccount E P token) (\<lambda>account. ret (Some account))) (\<lambda>_. ret None)"

definition validateAdminToken :: "ext \<Rightarrow> string \<Rightarrow> bool prog" where
  "validateAdminToken E username =
     catch (bnd (verifyToken E username) (\<lambda>_. ret True)) (\<lambda>_. ret False)"

end
