(* ===== verification/Links.thy ===== *)
theory Links
  imports Accounts
begin

text \<open>
  What one account may see of another: linked accounts (\<open>src/lib/linked_accounts.ts\<close>) and
  search (\<open>src/lib/search.ts\<close>); and what is kept for an account: its settings
  (\<open>src/lib/settings.ts\<close>), its public description (\<open>src/lib/merchants.ts\<close>) and the readable
  name made for it (\<open>src/lib/stub.ts\<close>).
\<close>

section \<open>Linked accounts\<close>

record linked_view =
  lv_link :: linked_account
  lv_source :: "(nat \<times> string option) option"
  lv_target :: "(nat \<times> string option) option"

definition shown_account :: "prisma \<Rightarrow> nat \<Rightarrow> (nat \<times> string option) option prog" where
  "shown_account P i =
     bnd (find_first (prisma_accounts P) (\<lambda>a. acc_id a = i)) (\<lambda>found.
     ret (map_option (\<lambda>a. (acc_id a, acc_email a)) found))"

definition with_accounts :: "prisma \<Rightarrow> linked_account \<Rightarrow> linked_view prog" where
  "with_accounts P link =
     bnd (shown_account P (ln_source link)) (\<lambda>s.
     bnd (shown_account P (ln_target link)) (\<lambda>t.
     ret \<lparr>lv_link = link, lv_source = s, lv_target = t\<rparr>))"

definition listLinkedAccounts :: "prisma \<Rightarrow> nat \<Rightarrow> (linked_view list \<times> linked_view list) prog" where
  "listLinkedAccounts P account_id =
     bnd (bnd (find_many (prisma_linked_accounts P) (\<lambda>l. ln_source l = account_id)) (map_io (with_accounts P))) (\<lambda>source.
     bnd (bnd (find_many (prisma_linked_accounts P) (\<lambda>l. ln_target l = account_id)) (map_io (with_accounts P))) (\<lambda>target.
     ret (target, source)))"

definition linkAccount :: "prisma \<Rightarrow> account \<Rightarrow> string \<Rightarrow> linked_account prog" where
  "linkAccount P account email =
     bnd (find_first_or_throw (prisma_accounts P) (\<lambda>a. acc_email a = Some email)) (\<lambda>target.
     bnd (find_first (prisma_linked_accounts P) (\<lambda>l. ln_source l = acc_id account \<and> ln_target l = acc_id target)) (\<lambda>found.
     (case found of
        Some record \<Rightarrow> ret record
      | None \<Rightarrow> create_row (prisma_linked_accounts P)
          (\<lambda>i. \<lparr>ln_id = i, ln_source = acc_id account, ln_target = acc_id target\<rparr>))))"

text \<open>An id that does not parse is a value the client refuses.\<close>

definition find_link :: "prisma \<Rightarrow> string \<Rightarrow> linked_account option prog" where
  "find_link P i =
     (case string_parseInt i of
        None \<Rightarrow> throw (PrismaError InvalidValue)
      | Some n \<Rightarrow> find_first (prisma_linked_accounts P) (\<lambda>l. of_nat (ln_id l) = n))"

definition unlinkAccount :: "prisma \<Rightarrow> account \<Rightarrow> string \<Rightarrow> unit prog" where
  "unlinkAccount P account i =
     bnd (find_link P i) (\<lambda>found.
     (case found of
        Some link \<Rightarrow>
          if ln_target link = acc_id account \<or> ln_source link = acc_id account
          then bnd (delete_row (prisma_linked_accounts P) (ln_id link)) (\<lambda>_. ret ())
          else ret ()
      | None \<Rightarrow> ret ()))"

definition getLink :: "prisma \<Rightarrow> nat \<Rightarrow> nat \<Rightarrow> linked_account option prog" where
  "getLink P source target =
     find_first (prisma_linked_accounts P) (\<lambda>l. ln_source l = source \<and> ln_target l = target)"

section \<open>Settings\<close>

text \<open>A value a caller gives; the column is a boolean, and the client refuses a text.\<close>

datatype setting = FlagSetting bool | TextSetting string

definition setting_column :: "setting \<Rightarrow> js_error + bool" where
  "setting_column v = (case v of FlagSetting b \<Rightarrow> Inr b | TextSetting _ \<Rightarrow> Inl (PrismaError InvalidValue))"

definition setting_row :: "prisma \<Rightarrow> nat \<Rightarrow> string \<Rightarrow> account_setting option prog" where
  "setting_row P account_id key =
     find_first (prisma_account_settings P) (\<lambda>s. stg_account_id s = Some account_id \<and> stg_key s = Some key)"

text \<open>The value of the row, even when it is null, or the default.\<close>

definition getAccountSetting :: "prisma \<Rightarrow> nat \<Rightarrow> string \<Rightarrow> string option \<Rightarrow> (bool option + string option) prog" where
  "getAccountSetting P account_id key fallback =
     bnd (setting_row P account_id key) (\<lambda>found.
     ret (case found of Some r \<Rightarrow> Inl (stg_value r) | None \<Rightarrow> Inr fallback))"

definition setAccountSetting :: "prisma \<Rightarrow> nat \<Rightarrow> string \<Rightarrow> setting \<Rightarrow> account_setting prog" where
  "setAccountSetting P account_id key given =
     bnd (setting_row P account_id key) (\<lambda>found.
     bnd (case found of
            Some r \<Rightarrow> ret r
          | None \<Rightarrow>
              bnd (lift_result (setting_column given)) (\<lambda>b.
              create_row (prisma_account_settings P) (\<lambda>i. \<lparr>stg_id = i, stg_account_id = Some account_id,
                stg_key = Some key, stg_value = Some b\<rparr>))) (\<lambda>record.
     bnd (lift_result (setting_column given)) (\<lambda>b.
     update_row (prisma_account_settings P) (stg_id record) (\<lambda>r. r\<lparr>stg_value := Some b\<rparr>))))"

definition settings_setDenomination :: "prisma \<Rightarrow> nat \<Rightarrow> string \<Rightarrow> string prog" where
  "settings_setDenomination P account_id denomination =
     bnd (update_row (prisma_accounts P) account_id (\<lambda>r. r\<lparr>acc_denomination := Some denomination\<rparr>)) (\<lambda>_.
     ret denomination)"

definition getDenomination :: "prisma \<Rightarrow> nat \<Rightarrow> string prog" where
  "getDenomination P accountId =
     bnd (account_by_id P accountId) (\<lambda>account. ret (js_String (acc_denomination account)))"

section \<open>Search\<close>

datatype search_result = FoundInvoice invoice | FoundAccount account

definition searchInvoice :: "prisma \<Rightarrow> (invoice \<Rightarrow> bool) \<Rightarrow> account option \<Rightarrow> search_result list prog" where
  "searchInvoice P matches account =
     bnd (find_first (prisma_invoices P) (\<lambda>r. matches r \<and>
            (case account of None \<Rightarrow> True | Some a \<Rightarrow> inv_account_id r = Some (acc_id a)))) (\<lambda>found.
     ret (case found of None \<Rightarrow> [] | Some r \<Rightarrow> [FoundInvoice r]))"

definition searchInvoiceUid :: "prisma \<Rightarrow> string \<Rightarrow> account option \<Rightarrow> search_result list prog" where
  "searchInvoiceUid P uid account = searchInvoice P (\<lambda>r. inv_uid r = uid) account"

definition searchInvoiceHash :: "prisma \<Rightarrow> string \<Rightarrow> account option \<Rightarrow> search_result list prog" where
  "searchInvoiceHash P query account = searchInvoice P (\<lambda>r. inv_hash r = Some query) account"

definition searchInvoiceExternalId :: "prisma \<Rightarrow> string \<Rightarrow> account option \<Rightarrow> search_result list prog" where
  "searchInvoiceExternalId P external_id account = searchInvoice P (\<lambda>r. inv_external_id r = Some external_id) account"

definition searchAccountEmail :: "prisma \<Rightarrow> string \<Rightarrow> account option \<Rightarrow> search_result list prog" where
  "searchAccountEmail P email account =
     bnd (find_first (prisma_accounts P) (\<lambda>a. acc_email a = Some email \<and>
            (case account of None \<Rightarrow> True | Some b \<Rightarrow> acc_id a = acc_id b))) (\<lambda>found.
     ret (case found of None \<Rightarrow> [] | Some a \<Rightarrow> [FoundAccount a]))"

definition search :: "prisma \<Rightarrow> string \<Rightarrow> account option \<Rightarrow> search_result list prog" where
  "search P query account =
     bnd (searchInvoiceUid P query account) (\<lambda>a.
     bnd (searchInvoiceHash P query account) (\<lambda>b.
     bnd (searchInvoiceExternalId P query account) (\<lambda>c.
     bnd (searchAccountEmail P query account) (\<lambda>d.
     ret (a @ b @ c @ d)))))"

section \<open>Public descriptions\<close>

text \<open>The coordinates are the texts whose \<open>parseFloat\<close> the answer holds.\<close>

record merchant_info =
  mi_business_name :: string
  mi_latitude :: string
  mi_longitude :: string
  mi_image_url :: string
  mi_account_id :: nat
  mi_denomination :: string

definition getMerchantInfo :: "prisma \<Rightarrow> string \<Rightarrow> merchant_info prog" where
  "getMerchantInfo P identifier =
     bnd (find_first (prisma_accounts P) (\<lambda>a. acc_stub a = Some identifier)) (\<lambda>found.
     bnd (case found of
            Some a \<Rightarrow> ret a
          | None \<Rightarrow> (case string_parseInt identifier of
               None \<Rightarrow> throw (PrismaError InvalidValue)
             | Some n \<Rightarrow> find_first_or_throw (prisma_accounts P) (\<lambda>a. of_nat (acc_id a) = n))) (\<lambda>account.
     ret \<lparr>mi_business_name = js_String (acc_business_name account), mi_latitude = js_String (acc_latitude account),
       mi_longitude = js_String (acc_longitude account), mi_image_url = js_String (acc_image_url account),
       mi_account_id = acc_id account, mi_denomination = js_String (acc_denomination account)\<rparr>))"

text \<open>\<open>replace\<close> with a text replaces its first occurrence only.\<close>

definition punctuation :: string where
  "punctuation = [CHR ''!'', CHR 0x22, CHR ''#'', CHR ''$'', CHR ''%'', CHR ''&'', CHR 0x27, CHR ''('', CHR '')'',
     CHR ''*'', CHR ''+'', CHR '','', CHR ''-'', CHR ''.'', CHR ''/'', CHR '':'', CHR '';'', CHR ''<'', CHR ''='',
     CHR ''>'', CHR ''?'', CHR ''@'', CHR ''['', CHR '']'', CHR ''^'', CHR ''_'', CHR 0x60, CHR ''{'', CHR ''|'',
     CHR ''}'', CHR ''~'']"

fun first_blank_dashed :: "string \<Rightarrow> string" where
  "first_blank_dashed [] = []"
| "first_blank_dashed (c # cs) = (if c = CHR '' '' then CHR ''-'' # cs else c # first_blank_dashed cs)"

definition stub_of :: "string \<Rightarrow> string" where
  "stub_of s = first_blank_dashed (filter (\<lambda>c. c \<notin> set punctuation) (to_lower s))"

definition build_stub :: "string \<Rightarrow> string option \<Rightarrow> string" where
  "build_stub business_name city =
     (if truthy city then stub_of business_name @ ''-'' @ stub_of (the city) else stub_of business_name)"

end
