(* ===== verification/Portal.thy ===== *)
theory Portal
  imports Server Links
begin

text \<open>
  The handlers of an account's own pages: registration and login, keys, addresses, settings,
  linked accounts, events, webhooks and search, of \<open>src/server/v0/handlers\<close> and
  \<open>src/server/v1/handlers\<close>. The account of a request is the one its credentials name.
\<close>

section \<open>Registration, login and keys\<close>

record session_view =
  sv_user :: account
  sv_accessToken :: string

definition token_for :: "ext \<Rightarrow> prisma \<Rightarrow> account \<Rightarrow> string prog" where
  "token_for E P account =
     bnd (ensureAccessToken E P account) (\<lambda>accessToken.
     ret (generateAccountToken E (acc_id account) (js_String (tok_uid accessToken))))"

text \<open>
  The row the answer shows is the one registered, without what the geolocation adds to it. The
  geolocation is not awaited; it writes two columns nothing else here reads, and comes first.
\<close>

definition account_registrations_create :: "ext \<Rightarrow> prisma \<Rightarrow> origin \<Rightarrow> new_account \<Rightarrow> session_view reply prog" where
  "account_registrations_create E P request payload =
     bnd (registerAccount E P payload) (\<lambda>account.
     bnd (not_awaited (geolocateAccountFromRequest E P account request)) (\<lambda>_.
     bnd (token_for E P account) (\<lambda>jwt.
     ret (Reply 201 \<lparr>sv_user = account, sv_accessToken = jwt\<rparr>))))"

definition account_logins_create :: "ext \<Rightarrow> prisma \<Rightarrow> origin \<Rightarrow> new_account \<Rightarrow> session_view reply prog" where
  "account_logins_create E P request payload =
     bnd (catch (bnd (loginAccount E P payload) (\<lambda>account. ret (Inr account))) (\<lambda>e. ret (Inl e))) (\<lambda>logged.
     (case logged of
        Inl e \<Rightarrow> ret (Refused 401 (Some e))
      | Inr account \<Rightarrow>
          bnd (not_awaited (geolocateAccountFromRequest E P account request)) (\<lambda>_.
          bnd (token_for E P account) (\<lambda>jwt.
          ret (Reply 200 \<lparr>sv_user = account, sv_accessToken = jwt\<rparr>)))))"

definition v0_accounts_create :: "ext \<Rightarrow> prisma \<Rightarrow> origin \<Rightarrow> new_account \<Rightarrow> account reply prog" where
  "v0_accounts_create E P request payload = or_refuse 400
     (bnd (hash E (na_password payload)) (\<lambda>passwordHash.
      bnd (find_first (prisma_accounts P) (\<lambda>a. acc_email a = Some (na_email payload))) (\<lambda>found.
      if found \<noteq> None then ret (Refused 409 (Some (JsError ''Account already exists'')))
      else
        bnd (create_row (prisma_accounts P) (\<lambda>i. (blank_account i)\<lparr>acc_email := Some (na_email payload),
               acc_password_hash := Some passwordHash,
               acc_registration_ip_address := Some (org_remoteAddress request)\<rparr>)) (\<lambda>account.
        (case located E request of
           None \<Rightarrow> ret (Reply 200 account)
         | Some geoLocation \<Rightarrow>
             bnd (update_row (prisma_accounts P) (acc_id account)
                    (\<lambda>r. r\<lparr>acc_registration_geolocation := Some (toKeyValueString geoLocation)\<rparr>)) (\<lambda>_.
             bnd (account_by_id P (acc_id account)) (\<lambda>account.
             ret (Reply 200 account))))))))"

record login_view =
  lgv_uid :: "string option"
  lgv_account_id :: nat
  lgv_email :: "string option"

definition access_tokens_create :: "ext \<Rightarrow> prisma \<Rightarrow> origin \<Rightarrow> string option \<Rightarrow> credentials \<Rightarrow> login_view reply prog" where
  "access_tokens_create E P request user_agent crd = or_refuse 400
     (bnd (create_row (prisma_logins P) (\<lambda>i. \<lparr>lgn_id = i, lgn_account_id = Some (tok_account_id (crd_token crd)),
             lgn_ip_address = Some (org_remoteAddress request), lgn_user_agent = user_agent,
             lgn_geolocation = map_option toKeyValueString (located E request)\<rparr>)) (\<lambda>_.
      ret (Reply 200 \<lparr>lgv_uid = tok_uid (crd_token crd), lgv_account_id = tok_account_id (crd_token crd),
        lgv_email = acc_email (crd_account crd)\<rparr>)))"

definition v1_password_reset :: "ext \<Rightarrow> prisma \<Rightarrow> string \<Rightarrow> unit reply prog" where
  "v1_password_reset E P email = bnd (passwordResetEmail E P email) (\<lambda>_. ret (Reply 200 ()))"

definition v0_password_reset :: "string \<Rightarrow> bool reply prog" where
  "v0_password_reset email = bnd (sendPasswordResetEmail email) (\<lambda>_. ret (Reply 200 True))"

definition password_claim :: "ext \<Rightarrow> prisma \<Rightarrow> string \<Rightarrow> string \<Rightarrow> bool reply prog" where
  "password_claim E P uid password =
     bnd (find_first (prisma_password_resets P) (\<lambda>r. rst_uid r = uid)) (\<lambda>found.
     (case found of
        None \<Rightarrow> ret (Reply 200 False)
      | Some passwordReset \<Rightarrow>
          bnd (resetPasswordByEmail E P (js_String (rst_email passwordReset)) password) (\<lambda>_.
          ret (Reply 200 True))))"

definition api_keys_index :: "ext \<Rightarrow> prisma \<Rightarrow> nat \<Rightarrow> (string \<times> string) reply prog" where
  "api_keys_index E P account_id =
     bnd (getMerchantApiKey E P account_id) (\<lambda>merchant_api_key.
     bnd (getPlatformApiKey E P account_id) (\<lambda>platform_api_key.
     ret (Reply 200 (merchant_api_key, platform_api_key))))"

definition access_keys_index :: "ext \<Rightarrow> prisma \<Rightarrow> nat \<Rightarrow> string reply prog" where
  "access_keys_index E P account_id =
     bnd (getMerchantApiKey E P account_id) (\<lambda>merchant_api_key. ret (Reply 200 merchant_api_key))"

section \<open>Accounts and apps\<close>

definition v0_accounts_update :: "prisma \<Rightarrow> account \<Rightarrow> account_payload \<Rightarrow> account reply prog" where
  "v0_accounts_update P account payload = or_refuse 400
     (bnd (updateAccount P account payload) (\<lambda>account. ret (Reply 200 account)))"

record public_account =
  pa_id :: nat
  pa_name :: "string option"
  pa_physical_address :: "string option"
  pa_latitude :: "string option"
  pa_longitude :: "string option"
  pa_coins :: "string list"
  pa_last_30_days :: nat
  pa_latest :: "invoice list"

text \<open>
  A path that is no email is compared, as a text, with the number of a row: the client
  refuses that. The date a month ago is a calendar computation of the package \<open>moment\<close>.
\<close>

definition account_for_path :: "prisma \<Rightarrow> string \<Rightarrow> account prog" where
  "account_for_path P i =
     bnd (find_first (prisma_accounts P) (\<lambda>a. acc_email a = Some i)) (\<lambda>found.
     (case found of Some a \<Rightarrow> ret a | None \<Rightarrow> throw (PrismaError InvalidValue)))"

definition showPublic :: "(time \<Rightarrow> time) \<Rightarrow> prisma \<Rightarrow> string \<Rightarrow> public_account reply prog" where
  "showPublic month_before P i = or_refuse 400
     (bnd (account_for_path P i) (\<lambda>account.
      bnd (find_many (prisma_addresses P) (\<lambda>a. adr_account_id a = Some (acc_id account))) (\<lambda>addresses.
      bnd (reads now) (\<lambda>t.
      bnd (find_sorted (prisma_invoices P) (\<lambda>r. - inv_createdAt r) (\<lambda>r. inv_account_id r = Some (acc_id account) \<and>
             inv_status r = ''paid'' \<and> month_before t \<le> inv_createdAt r)) (\<lambda>payments.
      bnd (find_sorted (prisma_invoices P) (\<lambda>r. - inv_createdAt r) (\<lambda>r. inv_account_id r = Some (acc_id account) \<and>
             inv_status r = ''paid'')) (\<lambda>latest.
      bnd getCoins (\<lambda>coins.
      ret (Reply 200 \<lparr>pa_id = acc_id account, pa_name = acc_business_name account,
        pa_physical_address = acc_physical_address account, pa_latitude = acc_latitude account,
        pa_longitude = acc_longitude account,
        pa_coins = map adr_currency (filter (\<lambda>a. case find (\<lambda>c. coin_code c = adr_currency a) coins of
             None \<Rightarrow> False | Some c \<Rightarrow> coin_unavailable c \<noteq> Some True) addresses),
        pa_last_30_days = length payments, pa_latest = latest\<rparr>))))))))"

definition v0_accounts_show :: "prisma \<Rightarrow> nat \<Rightarrow> address list reply prog" where
  "v0_accounts_show P account_id = or_refuse 400
     (bnd (find_many (prisma_addresses P) (\<lambda>a. adr_account_id a = Some account_id)) (\<lambda>addresses.
      ret (Reply 200 addresses)))"

definition v0_accounts_index :: "prisma \<Rightarrow> nat option \<Rightarrow> nat option \<Rightarrow> account list reply prog" where
  "v0_accounts_index P limit offset = or_refuse 400
     (bnd (find_many (prisma_accounts P) (\<lambda>_. True)) (\<lambda>accounts.
      ret (Reply 200 (page (Some (if truthy_id limit then the limit else 100))
        (Some (if truthy_id offset then the offset else 0)) accounts))))"

definition anypaycity_show :: "prisma \<Rightarrow> string \<Rightarrow> string reply prog" where
  "anypaycity_show P email =
     bnd (find_first (prisma_accounts P) (\<lambda>a. acc_email a = Some email)) (\<lambda>found.
     ret (case found of
        Some account \<Rightarrow> Reply 302 (''https://app.anypayinc.com/pay/'' @ decimal (acc_id account))
      | None \<Rightarrow> Reply 200 (email @ '' Not Yet Registered With Anypay'')))"

definition apps_index :: "prisma \<Rightarrow> nat \<Rightarrow> app list reply prog" where
  "apps_index P account_id =
     bnd (find_many (prisma_apps P) (\<lambda>a. app_account_id a = account_id)) (\<lambda>apps. ret (Reply 200 apps))"

definition apps_show :: "prisma \<Rightarrow> nat \<Rightarrow> nat \<Rightarrow> app reply prog" where
  "apps_show P account_id i =
     bnd (find_first (prisma_apps P) (\<lambda>a. app_account_id a = account_id \<and> app_row_id a = i)) (\<lambda>found.
     ret (case found of Some a \<Rightarrow> Reply 200 a | None \<Rightarrow> Refused 404 None))"

definition apps_create :: "ext \<Rightarrow> prisma \<Rightarrow> nat \<Rightarrow> string \<Rightarrow> app reply prog" where
  "apps_create E P account_id name =
     bnd (createApp E P name account_id) (\<lambda>app. ret (Reply 200 app))"

definition merchants_show :: "prisma \<Rightarrow> string \<Rightarrow> merchant_info reply prog" where
  "merchants_show P i = bnd (getMerchantInfo P i) (\<lambda>info. ret (Reply 200 info))"

section \<open>Addresses and coins\<close>

definition v0_addresses_destroy :: "prisma \<Rightarrow> nat \<Rightarrow> string \<Rightarrow> unit reply prog" where
  "v0_addresses_destroy P account_id currency =
     bnd (address_of_or_throw P account_id currency currency) (\<lambda>r.
     bnd (delete_row (prisma_addresses P) (adr_id r)) (\<lambda>_. ret (Reply 200 ())))"

text \<open>One value per currency: the last row of a currency counts.\<close>

definition v0_addresses_list :: "prisma \<Rightarrow> nat \<Rightarrow> (string \<times> string) list reply prog" where
  "v0_addresses_list P account_id =
     bnd (find_many (prisma_addresses P) (\<lambda>a. adr_account_id a = Some account_id)) (\<lambda>accountAddresses.
     ret (Reply 200 (foldl (\<lambda>acc a. AList.update (adr_currency a) (js_String (adr_value a)) acc) [] accountAddresses)))"

definition v0_addresses_index :: "prisma \<Rightarrow> nat \<Rightarrow> address list reply prog" where
  "v0_addresses_index P account_id =
     bnd (find_many (prisma_addresses P) (\<lambda>a. adr_account_id a = Some account_id)) (\<lambda>addresses.
     ret (Reply 200 addresses))"

definition changeset :: "nat \<Rightarrow> string \<Rightarrow> string \<Rightarrow> string \<Rightarrow> address_changeset" where
  "changeset account_id currency chain place = \<lparr>acs_account_id = account_id, acs_currency = currency,
     acs_chain = chain, acs_address = place, acs_paymail = None, acs_view_key = None\<rparr>"

definition v0_addresses_update ::
  "ext \<Rightarrow> prisma \<Rightarrow> nat \<Rightarrow> string \<Rightarrow> string \<Rightarrow> string \<Rightarrow> (string \<times> string \<times> string) reply prog" where
  "v0_addresses_update E P account_id currency chain place = or_refuse 400
     (bnd (core_setAddress E P (changeset account_id currency chain place)) (\<lambda>_.
      ret (Reply 200 (currency, chain, place))))"

definition v0_addresses_updateLegacy ::
  "ext \<Rightarrow> prisma \<Rightarrow> nat \<Rightarrow> string \<Rightarrow> string \<Rightarrow> (string \<times> string option) reply prog" where
  "v0_addresses_updateLegacy E P account_id currency place = or_refuse 400
     (bnd (core_setAddress E P (changeset account_id currency currency place)) (\<lambda>result.
      ret (Reply 200 (currency, adr_value result))))"

definition v1_addresses_update ::
  "ext \<Rightarrow> prisma \<Rightarrow> account \<Rightarrow> string option \<Rightarrow> string \<Rightarrow> string \<Rightarrow> address reply prog" where
  "v1_addresses_update E P account chain currency given =
     bnd (setAddress E P account currency (if truthy chain then the chain else currency) given None) (\<lambda>a.
     ret (Reply 200 a))"

definition v1_addresses_index :: "ext \<Rightarrow> prisma \<Rightarrow> account \<Rightarrow> address_config list reply prog" where
  "v1_addresses_index E P account = bnd (listAddresses E P account) (\<lambda>addresses. ret (Reply 200 addresses))"

text \<open>\<open>code.split('_')\<close>: a code without the mark names a coin on its own chain.\<close>

definition v1_addresses_remove :: "prisma \<Rightarrow> account \<Rightarrow> string \<Rightarrow> unit reply prog" where
  "v1_addresses_remove P account code = or_refuse 500
     (let parts = split_on (CHR ''_'') code; currency = hd parts;
          chain = (case tl parts of [] \<Rightarrow> currency | c # _ \<Rightarrow> if c = [] then currency else c) in
      bnd (removeAddress P account currency chain) (\<lambda>_. ret (Reply 200 ())))"

text \<open>Both the row and the account must fit, in the update and in the query after it.\<close>

definition address_notes_update :: "prisma \<Rightarrow> nat \<Rightarrow> nat \<Rightarrow> string \<Rightarrow> address reply prog" where
  "address_notes_update P account_id i note =
     bnd (find_first_or_throw (prisma_addresses P) (\<lambda>a. adr_id a = i \<and> adr_account_id a = Some account_id)) (\<lambda>a.
     bnd (update_row (prisma_addresses P) (adr_id a) (\<lambda>r. r\<lparr>adr_note := Some note\<rparr>)) (\<lambda>_.
     bnd (find_first_or_throw (prisma_addresses P) (\<lambda>a. adr_id a = i \<and> adr_account_id a = Some account_id)) (\<lambda>a.
     ret (Reply 200 a))))"

definition with_decimals :: "ext \<Rightarrow> account_coin \<Rightarrow> js_error + account_coin \<times> nat" where
  "with_decimals E coin =
     (if truthy (aco_chain coin) \<and> truthy (aco_currency coin)
      then map_sum id (\<lambda>plugin. (coin, plg_decimals plugin))
             (find_plugin E (the (aco_currency coin)) (the (aco_chain coin)))
      else Inr (coin, 0))"

text \<open>
  The comparison of \<open>sortBCHFirst\<close> is not an order when two coins have the code BCH; codes are
  keys of an object, so that BCH comes first and the others keep their order.
\<close>

definition sortBCHFirst :: "(account_coin \<times> nat) list \<Rightarrow> (account_coin \<times> nat) list" where
  "sortBCHFirst cs = filter (\<lambda>(c, _). aco_currency c = Some ''BCH'') cs @ filter (\<lambda>(c, _). aco_currency c \<noteq> Some ''BCH'') cs"

definition v0_coins_list :: "ext \<Rightarrow> prisma \<Rightarrow> nat \<Rightarrow> (account_coin \<times> nat) list reply prog" where
  "v0_coins_list E P account_id =
     bnd (getSupportedCoins P account_id) (\<lambda>accountCoins.
     bnd (map_io (\<lambda>(_, coin). lift_result (with_decimals E coin)) accountCoins) (\<lambda>coins.
     ret (Reply 200 (sortBCHFirst coins))))"

record listed_coin =
  lc_name :: string
  lc_code :: string
  lc_logo :: "string option"
  lc_precision :: "nat option"
  lc_enabled :: bool
  lc_price :: "num option"

definition listed_coin_of :: "ext \<Rightarrow> prisma \<Rightarrow> coin \<Rightarrow> listed_coin prog" where
  "listed_coin_of E P coin =
     bnd (catch (bnd (convert E P \<lparr>amt_currency = coin_code coin, amt_value = 1\<rparr> ''USD'') (\<lambda>a. ret (Some (amt_value a))))
            (\<lambda>_. ret None)) (\<lambda>price.
     ret \<lparr>lc_name = coin_name coin, lc_code = coin_code coin, lc_logo = coin_logo_url coin,
       lc_precision = coin_precision coin,
       lc_enabled = (coin_supported coin = Some True \<and> coin_unavailable coin \<noteq> Some True), lc_price = price\<rparr>)"

definition v1_coins_index :: "ext \<Rightarrow> prisma \<Rightarrow> listed_coin list reply prog" where
  "v1_coins_index E P =
     bnd getCoins (\<lambda>coins. bnd (map_io (listed_coin_of E P) coins) (\<lambda>response. ret (Reply 200 response)))"

definition price_conversions_show :: "ext \<Rightarrow> prisma \<Rightarrow> string \<Rightarrow> num \<Rightarrow> string \<Rightarrow> conversion reply prog" where
  "price_conversions_show E P oldcurrency oldamount newcurrency =
     bnd (createConversion E P \<lparr>amt_currency = oldcurrency, amt_value = oldamount\<rparr> newcurrency) (\<lambda>c.
     ret (Reply 200 c))"

definition v1_prices_index :: "prisma \<Rightarrow> price list reply prog" where
  "v1_prices_index P = or_refuse 400 (bnd (listPrices P) (\<lambda>prices. ret (Reply 200 prices)))"

section \<open>Settings\<close>

definition denominations_update :: "prisma \<Rightarrow> nat \<Rightarrow> string \<Rightarrow> string reply prog" where
  "denominations_update P account_id currency =
     bnd (settings_setDenomination P account_id (to_upper currency)) (\<lambda>denomination. ret (Reply 200 denomination))"

definition denominations_show :: "prisma \<Rightarrow> nat \<Rightarrow> string reply prog" where
  "denominations_show P account_id =
     bnd (getDenomination P account_id) (\<lambda>denomination. ret (Reply 200 denomination))"

definition checkout_images :: "(string \<times> string) list" where
  "checkout_images = [
     (''XMR'', ''https://doge.bitcoinfiles.org/406e0f115578598c4364ea42aa3887e8aeccf513d948c183054c42d12782cd38''),
     (''DASH'', ''https://doge.bitcoinfiles.org/a5f08a3aad5e97da45515b70c7d09dac75baf107ddc1176bf676cad0e347d2d1''),
     (''BCH'', ''https://doge.bitcoinfiles.org/c028b3d5843fb65da41555a090963da84b80356492f6950bc573d4ec9c3af3f2''),
     (''BTC'', ''https://doge.bitcoinfiles.org/f353b39f04ad62840adce8102f0c5b8e538c89b4a8ff81326de21cc314593d71''),
     (''BSV'', ''https://doge.bitcoinfiles.org/04271bbc9dc1e77527c26699938e082a5f1a1deed758a9e9d6d72c9c8bc7c142''),
     (''LTC'', ''https://doge.bitcoinfiles.org/14585ce9b3b58154c87668234221db2dc4b2ce7352925d896daad47d12714f09''),
     (''DOGE'', ''https://doge.bitcoinfiles.org/322c7e091fb9ea4ed0fd170da6c2f05c58075eafaeff21015381443e31680c9b''),
     (''ANYPAY'', ''https://doge.bitcoinfiles.org/31bc517ddae2134408f15acd582606ffe493e4d3800e8a60250899c61ace9bb3'')]"

definition checkout_image_key :: string where
  "checkout_image_key = ''woocommerce.checkout.image''"

text \<open>A boolean of the table is no name of an image.\<close>

definition image_url :: "(bool option + string option) \<Rightarrow> string option" where
  "image_url img = (case img of Inr (Some name) \<Rightarrow> map_of checkout_images name | _ \<Rightarrow> None)"

definition checkout_images_show ::
  "prisma \<Rightarrow> nat \<Rightarrow> ((bool option + string option) \<times> string option) reply prog" where
  "checkout_images_show P account_id = or_refuse 500
     (bnd (getAccountSetting P account_id checkout_image_key (Some ''ANYPAY'')) (\<lambda>img.
      ret (Reply 200 (img, image_url img))))"

definition checkout_images_index :: "(string \<times> string) list reply prog" where
  "checkout_images_index = ret (Reply 200 checkout_images)"

definition checkout_images_update :: "prisma \<Rightarrow> nat \<Rightarrow> string \<Rightarrow> (string \<times> string option) reply prog" where
  "checkout_images_update P account_id name =
     (let url = map_of checkout_images name in
      bnd (if truthy url
           then bnd (setAccountSetting P account_id checkout_image_key (TextSetting name)) (\<lambda>_. ret ())
           else ret ()) (\<lambda>_.
      ret (Reply 200 (name, url))))"

definition firebase_token_of :: "prisma \<Rightarrow> nat \<Rightarrow> firebase_token option prog" where
  "firebase_token_of P account_id =
     bnd (find_sorted (prisma_firebase_tokens P) (\<lambda>t. int (fbt_id t)) (\<lambda>t. fbt_account_id t = Some account_id)) (\<lambda>found.
     ret (case found of [] \<Rightarrow> None | t # _ \<Rightarrow> Some t))"

definition firebase_tokens_show :: "prisma \<Rightarrow> nat \<Rightarrow> firebase_token option reply prog" where
  "firebase_tokens_show P account_id = bnd (firebase_token_of P account_id) (\<lambda>t. ret (Reply 200 t))"

definition firebase_tokens_index :: "prisma \<Rightarrow> nat \<Rightarrow> firebase_token list reply prog" where
  "firebase_tokens_index P account_id =
     bnd (find_many (prisma_firebase_tokens P) (\<lambda>t. fbt_account_id t = Some account_id)) (\<lambda>ts. ret (Reply 200 ts))"

definition firebase_tokens_create :: "prisma \<Rightarrow> nat \<Rightarrow> string \<Rightarrow> firebase_token reply prog" where
  "firebase_tokens_create P account_id token =
     bnd (firebase_token_of P account_id) (\<lambda>found.
     bnd (case found of
            Some t \<Rightarrow> ret t
          | None \<Rightarrow> create_row (prisma_firebase_tokens P) (\<lambda>i. \<lparr>fbt_id = i, fbt_account_id = Some account_id,
              fbt_token = Some token\<rparr>)) (\<lambda>t.
     bnd (if fbt_token t \<noteq> Some token
          then update_row (prisma_firebase_tokens P) (fbt_id t) (\<lambda>r. r\<lparr>fbt_token := Some token\<rparr>)
          else ret t) (\<lambda>t.
     ret (Reply 200 t))))"

definition kraken_account_of :: "prisma \<Rightarrow> nat \<Rightarrow> kraken_account option prog" where
  "kraken_account_of P account_id = find_first (prisma_kraken_accounts P) (\<lambda>k. ka_account_id k = Some account_id)"

text \<open>The key answered is that of the row before the update.\<close>

definition kraken_api_keys_create :: "prisma \<Rightarrow> nat \<Rightarrow> string \<Rightarrow> string \<Rightarrow> (string option \<times> string) reply prog" where
  "kraken_api_keys_create P account_id api_key api_secret =
     bnd (kraken_account_of P account_id) (\<lambda>found.
     bnd (case found of
            Some k \<Rightarrow> ret k
          | None \<Rightarrow> create_row (prisma_kraken_accounts P) (\<lambda>i. \<lparr>ka_id = i, ka_account_id = Some account_id,
              ka_api_key = Some api_key, ka_api_secret = Some api_secret\<rparr>)) (\<lambda>krakenAccount.
     bnd (update_row (prisma_kraken_accounts P) (ka_id krakenAccount)
            (\<lambda>r. r\<lparr>ka_api_key := Some api_key, ka_api_secret := Some api_secret\<rparr>)) (\<lambda>_.
     ret (Reply 200 (ka_api_key krakenAccount, ''xxxxxxxxxxxxxx'')))))"

definition kraken_api_keys_show :: "prisma \<Rightarrow> nat \<Rightarrow> (string option \<times> string option) reply prog" where
  "kraken_api_keys_show P account_id =
     bnd (kraken_account_of P account_id) (\<lambda>found.
     ret (Reply 200 (case found of None \<Rightarrow> (None, None)
       | Some k \<Rightarrow> (ka_api_key k, Some ''xxxxxxxxxxxxxx''))))"

definition kraken_api_keys_destroy :: "prisma \<Rightarrow> nat \<Rightarrow> unit reply prog" where
  "kraken_api_keys_destroy P account_id =
     bnd (kraken_account_of P account_id) (\<lambda>found.
     bnd (case found of None \<Rightarrow> ret ()
          | Some k \<Rightarrow> bnd (delete_row (prisma_kraken_accounts P) (ka_id k)) (\<lambda>_. ret ())) (\<lambda>_.
     ret (Reply 200 ())))"

section \<open>Invoices of an account\<close>

definition invoice_notes_create :: "prisma \<Rightarrow> nat \<Rightarrow> string \<Rightarrow> string \<Rightarrow> invoice_note reply prog" where
  "invoice_notes_create P account_id invoice_uid content =
     bnd (find_first_or_throw (prisma_invoices P)
            (\<lambda>r. inv_uid r = invoice_uid \<and> inv_account_id r = Some account_id)) (\<lambda>invoice.
     bnd (reads now) (\<lambda>t.
     bnd (create_row (prisma_invoice_notes P) (\<lambda>i. \<lparr>nt_id = i, nt_invoice_uid = inv_uid invoice,
            nt_content = content, nt_created_at = t\<rparr>)) (\<lambda>note.
     ret (Reply 200 note))))"

definition invoice_payment_options_show :: "prisma \<Rightarrow> string \<Rightarrow> payment_option list reply prog" where
  "invoice_payment_options_show P invoice_uid =
     bnd (find_many (prisma_payment_options P) (\<lambda>po. po_invoice_uid po = invoice_uid)) (\<lambda>pos. ret (Reply 200 pos))"

definition invoice_events_index :: "prisma \<Rightarrow> nat \<Rightarrow> string \<Rightarrow> event_row list reply prog" where
  "invoice_events_index P account_id invoice_uid =
     bnd (ensureInvoice P invoice_uid) (\<lambda>invoice.
     if inv_account_id invoice \<noteq> Some account_id then ret (Refused 401 None)
     else bnd (listInvoiceEvents P invoice None) (\<lambda>events. ret (Reply 200 events)))"

definition account_events_index :: "prisma \<Rightarrow> account \<Rightarrow> bool \<Rightarrow> event_row list reply prog" where
  "account_events_index P account ascending =
     bnd (listAccountEvents P account \<lparr>elo_type = None, elo_ascending = ascending, elo_limit = None,
            elo_offset = None\<rparr>) (\<lambda>events. ret (Reply 200 events))"

definition webhooks_index :: "prisma \<Rightarrow> account \<Rightarrow> nat option \<Rightarrow> nat option \<Rightarrow> webhook list reply prog" where
  "webhooks_index P account limit offset =
     bnd (listForAccount P account limit offset) (\<lambda>webhooks. ret (Reply 200 webhooks))"

definition webhooks_attempt :: "ext \<Rightarrow> prisma \<Rightarrow> nat \<Rightarrow> string \<Rightarrow> (webhook_attempt \<times> webhook) reply prog" where
  "webhooks_attempt E P account_id invoice_uid =
     bnd (ensureInvoice P invoice_uid) (\<lambda>invoice.
     if inv_account_id invoice \<noteq> Some account_id
     then ret (Refused 401 (Some (JsError ''invoice not authorized'')))
     else
       bnd (webhookForInvoice P invoice) (\<lambda>webhook.
       bnd (attemptWebhook E P webhook) (\<lambda>attempt.
       bnd (webhookForInvoice P invoice) (\<lambda>webhook.
       ret (Reply 201 (attempt, webhook))))))"

definition search_create :: "prisma \<Rightarrow> account \<Rightarrow> string \<Rightarrow> search_result list reply prog" where
  "search_create P account query = or_refuse 500
     (bnd (search P query (Some account)) (\<lambda>result. ret (Reply 200 result)))"

definition transactions_decode :: "ext \<Rightarrow> string \<Rightarrow> string \<Rightarrow> string \<Rightarrow> parsed_payment list reply prog" where
  "transactions_decode E chain currency txhex =
     bnd (lift_result (find_plugin E currency chain)) (\<lambda>plugin.
     bnd (plg_parsePayments plugin \<lparr>tx_hex = txhex, tx_id = None, tx_key = None\<rparr>) (\<lambda>result.
     ret (Reply 200 result)))"

section \<open>Linked accounts\<close>

definition linked_accounts_index :: "prisma \<Rightarrow> account \<Rightarrow> (linked_view list \<times> linked_view list) reply prog" where
  "linked_accounts_index P account = or_refuse 400
     (bnd (listLinkedAccounts P (acc_id account)) (\<lambda>links. ret (Reply 200 links)))"

definition linked_accounts_create :: "prisma \<Rightarrow> account \<Rightarrow> string \<Rightarrow> linked_account reply prog" where
  "linked_accounts_create P account email = or_refuse 400
     (bnd (linkAccount P account email) (\<lambda>link. ret (Reply 201 link)))"

definition linked_accounts_unlink :: "prisma \<Rightarrow> account \<Rightarrow> string \<Rightarrow> unit reply prog" where
  "linked_accounts_unlink P account i = or_refuse 400
     (bnd (unlinkAccount P account i) (\<lambda>_. ret (Reply 200 ())))"

text \<open>The handler that lists the payments is returned, not awaited, inside the \<open>try\<close>.\<close>

definition linked_account_payments ::
  "prisma \<Rightarrow> account \<Rightarrow> nat \<Rightarrow> nat option \<Rightarrow> nat option \<Rightarrow> payment_item list reply prog" where
  "linked_account_payments P account source limit offset =
     bnd (catch
       (bnd (getLink P source (acc_id account)) (\<lambda>link.
        if link = None then ret None
        else bnd (account_by_id P source) (\<lambda>a. ret (Some a))))
       (\<lambda>_. ret None)) (\<lambda>allowed.
     (case allowed of
        None \<Rightarrow> ret (Refused 401 None)
      | Some a \<Rightarrow> payments_index P (acc_id a) limit offset))"

end
