(* ===== verification/PortalFacts.thy ===== *)
theory PortalFacts
  imports Portal
begin

text \<open>
  Properties of accounts, of the tokens that act for them and of refunds.
\<close>

section \<open>Accounts\<close>

text \<open>What the properties assume of the package \<open>bcryptjs\<close>: a hash matches the password it was made from.\<close>

definition bcrypt_matches :: "ext \<Rightarrow> string \<Rightarrow> bool" where
  "bcrypt_matches E password \<longleftrightarrow>
     (\<forall>n h. bcrypt_hash E n password = Inr h \<longrightarrow> h \<noteq> [] \<and> bcrypt_compare E password h = Inr True)"

context prisma_client
begin

lemma find_accounts:
  "find_first (prisma_accounts P) p w = (Inr (api_first (api_accounts P) p (db_accounts w)), w)"
  "find_first_or_throw (prisma_accounts P) p w = (case api_first (api_accounts P) p (db_accounts w) of
     None \<Rightarrow> (Inl (PrismaError RecordNotFound), w) | Some r \<Rightarrow> (Inr r, w))"
  by (simp_all add: io_simps prisma_accounts_def)

lemma registerAccount_run:
  assumes "registerAccount E P params w = (Inr account, v)"
  shows "\<exists>h. bcrypt_hash E (ticks w) (na_password params) = Inr h \<and>
    account = (blank_account (next_id (db_accounts w)))\<lparr>acc_email := Some (na_email params), acc_password_hash := Some h\<rparr> \<and>
    v = w\<lparr>ticks := Suc (ticks w), db_accounts := db_accounts w @ [Some account]\<rparr> \<and>
    (\<forall>i r. row (db_accounts w) i = Some r \<longrightarrow> acc_email r \<noteq> Some (na_email params))"
  using assms
  by (auto simp: registerAccount_def hash_def bnd_run ask_run find_accounts create_accounts Let_def throw_run
      tac.first_None_iff in_rows split: sum.splits option.splits if_splits)

text \<open>The account is then the one row with its email, and with its number.\<close>

lemma registered_rows:
  assumes "registerAccount E P params w = (Inr account, v)" and "ids_ok acc_id (db_accounts w)"
  shows "only_row (\<lambda>a. acc_email a = Some (na_email params)) (db_accounts v) (acc_id account) account"
    and "row (db_accounts v) (acc_id account) = Some account" and "ids_ok acc_id (db_accounts v)"
proof -
  obtain h where h: "account = (blank_account (next_id (db_accounts w)))\<lparr>acc_email := Some (na_email params), acc_password_hash := Some h\<rparr>"
    "v = w\<lparr>ticks := Suc (ticks w), db_accounts := db_accounts w @ [Some account]\<rparr>"
    "\<And>i r. row (db_accounts w) i = Some r \<Longrightarrow> acc_email r \<noteq> Some (na_email params)"
    using registerAccount_run [OF assms(1)] by blast
  have id: "acc_id account = next_id (db_accounts w)" by (simp add: h(1) blank_account_def)
  show "only_row (\<lambda>a. acc_email a = Some (na_email params)) (db_accounts v) (acc_id account) account"
    using h(3) by (auto simp: only_row_def h(2) row_append id split: if_splits) (simp add: h(1))
  then show "row (db_accounts v) (acc_id account) = Some account" by (rule only_rowD)
  show "ids_ok acc_id (db_accounts v)" using assms(2) id by (simp add: h(2) ids_ok_append)
qed

lemma loginAccount_run:
  assumes "only_row (\<lambda>a. acc_email a = Some (na_email params)) (db_accounts w) i account"
    and "acc_password_hash account = Some h" and "h \<noteq> []"
  shows "loginAccount E P params w =
    (case bcrypt_compare E (na_password params) h of
       Inr True \<Rightarrow> (Inr account, w)
     | Inl NeverSettles \<Rightarrow> (Inl NeverSettles, w)
     | _ \<Rightarrow> (Inl (JsError ''invalid login''), w))"
  using assms(2,3)
  by (auto simp: loginAccount_def bnd_run find_accounts tac.first_only [OF assms(1)] guard_io_run catch_run compare_def
      lift_result_run throw_run ret_run split: sum.splits bool.splits js_error.splits)

lemma ensureAccessToken_run:
  "ensureAccessToken E P account w = (case uuid E (ticks w) of
     Inl e \<Rightarrow> (Inl e, w\<lparr>ticks := Suc (ticks w)\<rparr>)
   | Inr uid \<Rightarrow> let t = new_token uid (acc_id account) (now w) (next_id (db_access_tokens w)) in
       (Inr t, w\<lparr>ticks := Suc (ticks w), db_access_tokens := db_access_tokens w @ [Some t]\<rparr>))"
  by (simp add: ensureAccessToken_def bnd_run ask_run reads_run create_access_tokens Let_def split: sum.splits)

lemma validateToken_run:
  assumes "only_row (\<lambda>t. tok_uid t = Some u) (db_access_tokens w) i t" and "u \<noteq> []"
    and "row (db_accounts w) (tok_account_id t) = Some account" and "ids_ok acc_id (db_accounts w)"
  shows "validateToken P u w = (Inr (Some \<lparr>crd_token = t, crd_account = account\<rparr>), w)"
  using assms(2) tac.first_by_id [OF assms(4,3)]
  by (simp add: validateToken_def credentials_of_def account_by_id_def bnd_run find_accounts find_first_run ret_run
      prisma_access_tokens_def ttk.first_only [OF assms(1)])

lemma account_laws:
  "ids_ok acc_id t \<Longrightarrow> api_first (api_accounts P) (\<lambda>a. acc_id a = i) t = row t i"
  "rows t \<noteq> [] \<Longrightarrow> \<exists>a \<in> set (rows t). api_first (api_accounts P) (\<lambda>_. True) t = Some a"
proof -
  show "api_first (api_accounts P) (\<lambda>a. acc_id a = i) t = row t i" if "ids_ok acc_id t"
  proof (cases "row t i")
    case None
    then show ?thesis using ids_ok_row [OF that] by (auto simp: tac.first_None_iff)
  qed (simp add: tac.first_by_id [OF that])
  show "\<exists>a \<in> set (rows t). api_first (api_accounts P) (\<lambda>_. True) t = Some a" if "rows t \<noteq> []"
    using that tac.first_complete [of _ t "\<lambda>_. True"] tac.first_sound [of "\<lambda>_. True" t]
    by (metis list.set_intros(1) neq_Nil_conv option.exhaust)
qed

lemma absent_account: "(\<And>j r. row (db_accounts w) j = Some r \<Longrightarrow> \<not> p r) \<Longrightarrow> api_first (api_accounts P) p (db_accounts w) = None"
  by (rule tac.first_absent)

end

section \<open>Refunds\<close>

definition same_refunds :: "world \<Rightarrow> world \<Rightarrow> bool" where
  "same_refunds w w' \<longleftrightarrow> db_refunds w' = db_refunds w"

interpretation refunds: history same_refunds
  by unfold_locales (auto simp: same_refunds_def)

lemma refunds_kept: "follows same_refunds m \<Longrightarrow> m w = (r, v) \<Longrightarrow> db_refunds v = db_refunds w"
  by (metis follows_def same_refunds_def snd_conv)

lemma refunds_ask: "follows same_refunds (ask f)"
  by (simp add: follows_def ask_run same_refunds_def)

definition beside :: "(world, 'r) handle \<Rightarrow> bool" where
  "beside h \<longleftrightarrow> (\<forall>g w. db_refunds (h_set h g w) = db_refunds w)"

lemma refunds_create: "beside h \<Longrightarrow> follows same_refunds (create_row h f)"
  unfolding create_row_def by (rule refunds.follows_stored) (simp add: beside_def same_refunds_def)

lemma refunds_update: "beside h \<Longrightarrow> follows same_refunds (update_row h i f)"
  unfolding update_row_def by (rule refunds.follows_stored) (simp add: beside_def same_refunds_def)

lemma tables_beside:
  "beside (prisma_invoices P)" "beside (prisma_apps P)" "beside (prisma_payment_requests P)"
  "beside (prisma_payment_options P)"
  by (simp_all add: beside_def handle_defs)

lemmas refund_rules = refunds.follows_rules refunds.follows_reads_db refunds_ask refunds_create refunds_update
  tables_beside

lemma refunds_convert: "follows same_refunds (convert E P a c)"
  unfolding convert_def convert_direct_def find_price_def by (intro refund_rules)

lemma refunds_createPaymentRequest: "follows same_refunds (createPaymentRequest E P app_id template opts)"
  unfolding createPaymentRequest_def createEmptyInvoice_def paymentRequestToPaymentOptions_def
    option_of_template_def priced_output_def getCoin_def
  by (intro refund_rules refunds_convert)

lemma refunds_before:
  "follows same_refunds (getAddressForInvoice E invoice)" "follows same_refunds (createApp E P name account)"
  "follows same_refunds (payment_by_invoice P uid)"
  unfolding getAddressForInvoice_def getDecodedTransaction_def createApp_def payment_by_invoice_def
  by (intro refund_rules)+

context prisma_client
begin

lemma getRefund_found:
  "api_first (api_refunds P) (\<lambda>r. rf_original_invoice_uid r = inv_uid invoice) (db_refunds w) = Some r \<Longrightarrow>
   getRefund E P invoice address w = (Inr r, w)"
  by (simp add: getRefund_def bnd_run find_first_run prisma_refunds_def ret_run)

lemma refund_laws:
  "api_first (api_refunds P) p t = Some r \<Longrightarrow> p r"
  "api_first (api_refunds P) p t = None \<Longrightarrow> row t i = Some x \<Longrightarrow> \<not> p x"
  "only_row p t i x \<Longrightarrow> api_first (api_refunds P) p t = Some x"
  using trf.first_sound trf.first_None_iff trf.first_only by (blast intro: row_in_rows)+

text \<open>A first refund is one new row, and the only one for its invoice.\<close>

lemma getRefund_first:
  assumes "api_first (api_refunds P) (\<lambda>r. rf_original_invoice_uid r = inv_uid invoice) (db_refunds w) = None"
    and "getRefund E P invoice address w = (Inr refund, v)"
  shows "db_refunds v = db_refunds w @ [Some refund]" and "rf_original_invoice_uid refund = inv_uid invoice"
    and "rf_status refund = ''unpaid''"
proof -
  have found: "find_first (prisma_refunds P) (\<lambda>r. rf_original_invoice_uid r = inv_uid invoice) w = (Inr None, w)"
    using assms(1) by (simp add: find_first_run prisma_refunds_def)
  obtain a w1 payment w2 app w3 request w4 where
      m1: "(if truthy address then ret address else getAddressForInvoice E invoice) w = (Inr a, w1)"
    and m2: "payment_by_invoice P (inv_uid invoice) w1 = (Inr payment, w2)"
    and m3: "createApp E P ''@refunds'' (case inv_account_id invoice of None \<Rightarrow> 0 | Some a \<Rightarrow> a) w2 = (Inr app, w3)"
    and m4: "createPaymentRequest E P (app_row_id app) (refund_template payment invoice a) no_options w3 = (Inr request, w4)"
    and m5: "(case a of None \<Rightarrow> throw (PrismaError InvalidValue)
         | Some a \<Rightarrow> create_row (prisma_refunds P) (\<lambda>i. \<lparr>rf_id = i, rf_original_invoice_uid = inv_uid invoice,
             rf_refund_invoice_uid = js_String (pr_invoice_uid request), rf_address = a,
             rf_status = ''unpaid'', rf_txid = None\<rparr>)) w4 = (Inr refund, v)"
    using assms(2) unfolding getRefund_def bnd_run [of "find_first _ _"] found
    by (simp del: Product_Type.split_paired_Ex) (elim bnd_Inr_E, blast)
  have kept: "follows same_refunds (if truthy address then ret address else getAddressForInvoice E invoice)"
    by (intro refund_rules refunds_before)
  have w4: "db_refunds w4 = db_refunds w"
    using refunds_kept [OF refunds_createPaymentRequest m4] refunds_kept [OF refunds_before(2) m3]
      refunds_kept [OF refunds_before(3) m2] refunds_kept [OF kept m1] by simp
  show "db_refunds v = db_refunds w @ [Some refund]" "rf_original_invoice_uid refund = inv_uid invoice"
    "rf_status refund = ''unpaid''"
    using m5 by (auto simp: create_refunds throw_run w4 split: option.splits)
qed

lemma registered_account:
  assumes "bcrypt_matches E (na_password params)" and "registerAccount E P params w = (Inr account, v)"
  obtains h where "account = (blank_account (next_id (db_accounts w)))\<lparr>acc_email := Some (na_email params), acc_password_hash := Some h\<rparr>"
    and "v = w\<lparr>ticks := Suc (ticks w), db_accounts := db_accounts w @ [Some account]\<rparr>"
    and "acc_password_hash account = Some h" and "h \<noteq> []" and "bcrypt_compare E (na_password params) h = Inr True"
proof -
  obtain h where h: "bcrypt_hash E (ticks w) (na_password params) = Inr h"
    "account = (blank_account (next_id (db_accounts w)))\<lparr>acc_email := Some (na_email params), acc_password_hash := Some h\<rparr>"
    "v = w\<lparr>ticks := Suc (ticks w), db_accounts := db_accounts w @ [Some account]\<rparr>"
    using registerAccount_run [OF assms(2)] by blast
  show ?thesis using that [OF h(2,3)] assms(1) h(1) by (simp add: h(2) bcrypt_matches_def)
qed

lemma not_registered_twice:
  assumes "registerAccount E P params w = (Inr account, v)" and "ids_ok acc_id (db_accounts w)"
    and "na_email again = na_email params"
  shows "isl (fst (registerAccount E P again v))"
proof (cases "registerAccount E P again v")
  case (Pair r u)
  show ?thesis
  proof (cases r)
    case (Inr found)
    then show ?thesis
      using registerAccount_run [of E again v found u] only_rowD [OF registered_rows(1) [OF assms(1,2)]] assms(3) Pair by auto
  qed (simp add: Pair)
qed

lemma issued_token_valid:
  assumes "registerAccount E P params w = (Inr account, v)" and "ids_ok acc_id (db_accounts w)"
    and "uuid E (ticks v) = Inr uid" and "uid \<noteq> []" and fresh: "\<And>i t. row (db_access_tokens v) i = Some t \<Longrightarrow> tok_uid t \<noteq> Some uid"
  shows "\<exists>token u. ensureAccessToken E P account v = (Inr token, u) \<and>
    validateToken P uid u = (Inr (Some \<lparr>crd_token = token, crd_account = account\<rparr>), u)"
proof -
  let ?t = "new_token uid (acc_id account) (now v) (next_id (db_access_tokens v))"
  let ?u = "v\<lparr>ticks := Suc (ticks v), db_access_tokens := db_access_tokens v @ [Some ?t]\<rparr>"
  have "ensureAccessToken E P account v = (Inr ?t, ?u)"
    by (simp add: ensureAccessToken_run assms(3) Let_def)
  moreover have only: "only_row (\<lambda>t. tok_uid t = Some uid) (db_access_tokens ?u) (next_id (db_access_tokens v)) ?t"
    using fresh by (auto simp: only_row_def row_append new_token_def split: if_splits)
  then have "validateToken P uid ?u = (Inr (Some \<lparr>crd_token = ?t, crd_account = account\<rparr>), ?u)"
    by (rule validateToken_run [OF _ assms(4)]) (use registered_rows(2,3) [OF assms(1,2)] in \<open>simp_all add: new_token_def\<close>)
  ultimately show ?thesis by blast
qed

lemma capitals_are_missed:
  assumes "\<And>i r. row (db_accounts v) i = Some r \<Longrightarrow> acc_email r \<noteq> Some (to_lower email)"
  shows "validatePassword E P email password v = (Inr None, v)"
proof -
  have "api_first (api_accounts P) (\<lambda>a. acc_email a = Some (to_lower email)) (db_accounts v) = None"
    by (intro absent_account) (rule assms)
  then show ?thesis by (simp add: validatePassword_def catch_run bnd_run find_accounts ret_run)
qed

end

section \<open>Properties\<close>

text \<open>
  C17. An account that was registered can be used. After \<open>registerAccount\<close>
  (src/src/lib/accounts/registration.ts), \<open>loginAccount\<close> with the same password finds the
  account and changes nothing; with a password that does not match it is refused; registering
  the address again fails; and a token that \<open>ensureAccessToken\<close> (src/src/lib/access_tokens.ts)
  makes under a uid that no token has is one that \<open>validateToken\<close> (src/src/server/auth/token.ts)
  takes for this account. But registration keeps the address as it was typed, and
  \<open>validatePassword\<close> (src/src/server/auth/password.ts) looks for it in lower case: with capital
  letters in it, the account is refused there with its own password.
\<close>

theorem registered_account_works:
  assumes "prisma_client P" and "ids_ok acc_id (db_accounts w)" and "bcrypt_matches E (na_password params)"
    and "registerAccount E P params w = (Inr account, v)"
    and "uuid E (ticks v) = Inr uid" and "uid \<noteq> []" and "\<And>i t. row (db_access_tokens w) i = Some t \<Longrightarrow> tok_uid t \<noteq> Some uid"
  shows "loginAccount E P params v = (Inr account, v) \<and>
    (\<forall>other. bcrypt_compare E other (js_String (acc_password_hash account)) = Inr False \<longrightarrow>
      loginAccount E P (params\<lparr>na_password := other\<rparr>) v = (Inl (JsError ''invalid login''), v)) \<and>
    (\<forall>again. na_email again = na_email params \<longrightarrow> isl (fst (registerAccount E P again v))) \<and>
    (\<exists>token u. ensureAccessToken E P account v = (Inr token, u) \<and>
      validateToken P uid u = (Inr (Some \<lparr>crd_token = token, crd_account = account\<rparr>), u)) \<and>
    (to_lower (na_email params) \<noteq> na_email params \<longrightarrow>
      (\<forall>i r. row (db_accounts w) i = Some r \<longrightarrow> acc_email r \<noteq> Some (to_lower (na_email params))) \<longrightarrow>
      validatePassword E P (na_email params) (na_password params) v = (Inr None, v))"
proof -
  obtain h where h: "account = (blank_account (next_id (db_accounts w)))\<lparr>acc_email := Some (na_email params), acc_password_hash := Some h\<rparr>"
    "v = w\<lparr>ticks := Suc (ticks w), db_accounts := db_accounts w @ [Some account]\<rparr>"
    and hashed: "acc_password_hash account = Some h" "h \<noteq> []" "bcrypt_compare E (na_password params) h = Inr True"
    by (rule prisma_client.registered_account [OF assms(1,3,4)])
  note rows = prisma_client.registered_rows [OF assms(1,4,2)]
  note login = prisma_client.loginAccount_run [OF assms(1) _ hashed(1,2)]
  have "loginAccount E P params v = (Inr account, v)"
    by (simp add: login [OF rows(1)] hashed(3))
  moreover have "loginAccount E P (params\<lparr>na_password := other\<rparr>) v = (Inl (JsError ''invalid login''), v)"
    if "bcrypt_compare E other (js_String (acc_password_hash account)) = Inr False" for other
    using login [of "params\<lparr>na_password := other\<rparr>" v] rows(1) that by (simp add: hashed(1))
  moreover have "validatePassword E P (na_email params) (na_password params) v = (Inr None, v)"
    if "to_lower (na_email params) \<noteq> na_email params"
      and "\<forall>i r. row (db_accounts w) i = Some r \<longrightarrow> acc_email r \<noteq> Some (to_lower (na_email params))"
    by (rule prisma_client.capitals_are_missed [OF assms(1)])
      (use that in \<open>auto simp: h row_append split: if_splits\<close>)
  moreover have "\<exists>token u. ensureAccessToken E P account v = (Inr token, u) \<and>
      validateToken P uid u = (Inr (Some \<lparr>crd_token = token, crd_account = account\<rparr>), u)"
    by (rule prisma_client.issued_token_valid [OF assms(1,4,2,5,6)]) (use assms(7) in \<open>simp add: h(2)\<close>)
  ultimately show ?thesis using prisma_client.not_registered_twice [OF assms(1,4,2)] by blast
qed

text \<open>
  An invoice is refunded once: when \<open>getRefund\<close> (src/src/lib/refunds.ts) has answered with
  a refund, every later call for the same invoice, with whatever address, answers with the
  same row and makes nothing, and at most one row was added for the first.
\<close>

theorem refunded_once:
  assumes "prisma_client P" and "getRefund E P invoice address w = (Inr refund, v)"
  shows "getRefund E' P invoice address' v = (Inr refund, v) \<and>
    rf_original_invoice_uid refund = inv_uid invoice \<and>
    (db_refunds v = db_refunds w \<or>
     (\<forall>i r. row (db_refunds w) i = Some r \<longrightarrow> rf_original_invoice_uid r \<noteq> inv_uid invoice) \<and>
     db_refunds v = db_refunds w @ [Some refund])"
proof (cases "api_first (api_refunds P) (\<lambda>r. rf_original_invoice_uid r = inv_uid invoice) (db_refunds w)")
  case (Some r)
  with prisma_client.getRefund_found [OF assms(1) Some] assms(2) prisma_client.refund_laws(1) [OF assms(1) Some]
  show ?thesis by simp
next
  case None
  note first = prisma_client.getRefund_first [OF assms(1) None assms(2)]
  have "row (db_refunds w) i = Some r \<Longrightarrow> rf_original_invoice_uid r \<noteq> inv_uid invoice" for i r
    using prisma_client.refund_laws(2) [OF assms(1) None] .
  moreover from this have "only_row (\<lambda>r. rf_original_invoice_uid r = inv_uid invoice) (db_refunds v)
      (next_id (db_refunds w)) refund"
    using first(2) by (auto simp: only_row_def first(1) row_append split: if_splits)
  then have "api_first (api_refunds P) (\<lambda>r. rf_original_invoice_uid r = inv_uid invoice) (db_refunds v) = Some refund"
    by (rule prisma_client.refund_laws(3) [OF assms(1)])
  from prisma_client.getRefund_found [OF assms(1) this] have "getRefund E' P invoice address' v = (Inr refund, v)" .
  ultimately show ?thesis using first(1,2) by blast
qed

text \<open>
  C16. What a signed token is good for. \<open>validateAdminToken\<close> (src/src/server/auth/token.ts) lets
  any token in whose signature is valid, the token of a merchant's session too; and
  \<open>authorizeAccount\<close> (src/src/lib/auth.ts) given a token that names no account, as an
  administrator's does not, asks for an account with no condition, so that the token acts as
  one of the accounts there are. A token that names an account acts as that account, and one
  that does not verify is refused by both.
\<close>

theorem what_a_token_is_good_for:
  assumes "prisma_client P" and "ids_ok acc_id (db_accounts w)"
  shows "case jwt_verify E (now w) token of
      Inl e \<Rightarrow> e \<noteq> NeverSettles \<longrightarrow>
        validateAdminToken E token w = (Inr False, w) \<and> validateJWT E P token w = (Inr None, w)
    | Inr None \<Rightarrow> validateAdminToken E token w = (Inr True, w) \<and>
        (rows (db_accounts w) \<noteq> [] \<longrightarrow>
          (\<exists>a \<in> set (rows (db_accounts w)). validateJWT E P token w = (Inr (Some a), w)))
    | Inr (Some i) \<Rightarrow> validateAdminToken E token w = (Inr True, w) \<and>
        validateJWT E P token w = (Inr (row (db_accounts w) i), w)"
proof -
  have verify: "verifyToken E token w = (jwt_verify E (now w) token, w)"
    by (simp add: verifyToken_def bnd_run reads_run lift_result_run)
  note found = prisma_client.find_accounts [OF assms(1)]
  have by_id: "api_first (api_accounts P) (\<lambda>a. acc_id a = i) (db_accounts w) = row (db_accounts w) i" for i
    using prisma_client.account_laws(1) [OF assms, of i] .
  have any: "\<exists>a \<in> set (rows (db_accounts w)). api_first (api_accounts P) (\<lambda>_. True) (db_accounts w) = Some a"
    if "rows (db_accounts w) \<noteq> []"
    using prisma_client.account_laws(2) [OF assms(1) that] .
  show ?thesis
    using any
    by (cases "rows (db_accounts w) = []") (auto simp: validateAdminToken_def validateJWT_def authorizeAccount_def catch_run bnd_run verify found
        by_id ret_run split: sum.splits option.splits)
qed

section \<open>Witnesses\<close>

definition newcomer :: new_account where
  "newcomer = \<lparr>na_email = ''Ann@x.y'', na_password = ''pw''\<rparr>"

lemma demo_accounts: "row (db_accounts demo_world) i = Some r \<longleftrightarrow> i = 1 \<and> r = demo_account"
  by (auto simp: demo_world_def row_def split: if_splits)

lemma newcomer_fields [simp]: "na_email newcomer = ''Ann@x.y''" "na_password newcomer = ''pw''"
  by (simp_all add: newcomer_def)

lemma newcomer_registers:
  "\<exists>account v. registerAccount demo_ext pg newcomer demo_world = (Inr account, v) \<and> ticks v = Suc 0 \<and> db_access_tokens v = []"
proof -
  have none: "api_first (api_accounts pg) (\<lambda>a. acc_email a = Some ''Ann@x.y'') (db_accounts demo_world) = None"
    by (rule prisma_client.absent_account [OF prisma_client_pg]) (simp add: demo_accounts demo_account_def)
  have "unique_email (db_accounts demo_world @ [Some ((blank_account 2)\<lparr>acc_email := Some ''Ann@x.y'', acc_password_hash := p\<rparr>)])" for p
    by (simp add: unique_email_def unique_on_def demo_world_def demo_account_def List.map_filter_def blank_account_def)
  moreover have "bcrypt_hash demo_ext n ''pw'' = Inr ''#pw''" for n by (simp add: demo_ext_def)
  moreover have "next_id (db_accounts demo_world) = 2" by (simp add: demo_world_def next_id_def)
  moreover have "ticks demo_world = 0" "db_access_tokens demo_world = []" by (simp_all add: demo_worlds)
  ultimately show ?thesis
    by (simp add: registerAccount_def hash_def bnd_run ask_run none Let_def
        prisma_client.find_accounts [OF prisma_client_pg] prisma_client.create_accounts [OF prisma_client_pg])
qed

theorem registered_account_works_witness:
  "\<exists>account v. registerAccount demo_ext pg newcomer demo_world = (Inr account, v) \<and>
     loginAccount demo_ext pg newcomer v = (Inr account, v) \<and>
     validatePassword demo_ext pg ''Ann@x.y'' ''pw'' v = (Inr None, v)"
proof -
  obtain account v where v: "registerAccount demo_ext pg newcomer demo_world = (Inr account, v)"
    "ticks v = Suc 0" "db_access_tokens v = []" using newcomer_registers by blast
  have ids: "ids_ok acc_id (db_accounts demo_world)" by (simp add: ids_ok_def demo_accounts demo_account_def)
  have matches: "bcrypt_matches demo_ext (na_password newcomer)" by (auto simp: bcrypt_matches_def demo_ext_def)
  obtain uid where uid: "uuid demo_ext (ticks v) = Inr uid" "uid \<noteq> []" by (simp add: demo_ext_def)
  have lower: "to_lower ''Ann@x.y'' = ''ann@x.y''" by code_simp
  have none: "tok_uid t \<noteq> Some uid" if "row (db_access_tokens demo_world) i = Some t" for i t
    using that by (simp add: demo_worlds row_def split: if_splits)
  show ?thesis
    using registered_account_works [OF prisma_client_pg ids matches v(1) uid none] v(1)
    by (auto simp: demo_accounts demo_account_def lower)
qed

definition demo_refund :: refund where
  "demo_refund = \<lparr>rf_id = 1, rf_original_invoice_uid = ''abc'', rf_refund_invoice_uid = ''back'',
     rf_address = ''sender'', rf_status = ''unpaid'', rf_txid = None\<rparr>"

theorem refunded_once_witness:
  "let w = demo_world\<lparr>db_refunds := [Some demo_refund]\<rparr> in
     getRefund demo_ext pg demo_invoice (Some ''thief'') w = (Inr demo_refund, w)"
proof -
  let ?w = "demo_world\<lparr>db_refunds := [Some demo_refund]\<rparr>"
  have "only_row (\<lambda>r. rf_original_invoice_uid r = inv_uid demo_invoice) (db_refunds ?w) 1 demo_refund"
    by (auto simp: only_row_def row_def demo_refund_def demo_invoice_def split: if_splits)
  then have "getRefund demo_ext pg demo_invoice None ?w = (Inr demo_refund, ?w)"
    by (intro prisma_client.getRefund_found [OF prisma_client_pg] prisma_client.refund_laws(3) [OF prisma_client_pg])
  from refunded_once [OF prisma_client_pg this] show ?thesis by simp
qed

theorem what_a_token_is_good_for_witness:
  "let E = demo_ext\<lparr>jwt_verify := \<lambda>_ _. Inr None\<rparr> in
     validateAdminToken E ''signed'' demo_world = (Inr True, demo_world) \<and>
     validateJWT E pg ''signed'' demo_world = (Inr (Some demo_account), demo_world)"
proof -
  have "ids_ok acc_id (db_accounts demo_world)" by (simp add: ids_ok_def demo_accounts demo_account_def)
  from what_a_token_is_good_for [OF prisma_client_pg this, of "demo_ext\<lparr>jwt_verify := \<lambda>_ _. Inr None\<rparr>" "''signed''"]
  show ?thesis by (simp add: demo_world_def)
qed

end
