(* ===== verification/Routes.thy ===== *)
theory Routes
  imports Prelude
begin

text \<open>
  The HTTP interface as data: every \<open>server.route\<close> call of \<open>src/server/v0/server.ts\<close>,
  \<open>src/server/v0/plugins/merchant_app.ts\<close>, \<open>src/server/v1/routes.ts\<close>,
  \<open>src/server/jsonV2/routes.ts\<close>, \<open>src/server/payment_requests/server.ts\<close>,
  \<open>src/server/v0/handlers/csv_reports.ts\<close> and \<open>src/server/routes/invoices/confirm.ts\<close>, in the
  order they are registered, with the schemas its requests and answers are checked against.
  Labels, tags and notes, which only show in the documentation, are left out. Then what a path
  template means: the parameters it names and when two of them collide.
\<close>

section \<open>Routes\<close>

text \<open>
  Joi schemas: the checks on a value, the fields of an object with their presence and the
  rules on the object. A literal null that is allowed is the text null.
\<close>

datatype check = Email | Uri | Integer | Strict | Iso | MinLength nat
  | Pattern string | Allow "string list" | Valid "string list"

datatype object_rule = Unknown | OneOf "string list"

datatype presence = Required | Optional

datatype schema =
  JString "check list" | JNumber "check list" | JDate "check list" | JBoolean "check list" | JAny "check list"
| JObject "(presence \<times> string \<times> schema) list" "object_rule list"
| JArray "schema option"
| JAlternatives "schema list"

definition req :: "string \<Rightarrow> schema \<Rightarrow> presence \<times> string \<times> schema" where
  "req key s = (Required, key, s)"

definition opt :: "string \<Rightarrow> schema \<Rightarrow> presence \<times> string \<times> schema" where
  "opt key s = (Optional, key, s)"

text \<open>
  A route: where a check fails, the request is refused (\<open>Fail\<close>, hapi's default) or the failure
  is logged and the request goes on (\<open>Log\<close>, what \<open>failAction\<close> of \<open>src/server/handlers.ts\<close> is).
\<close>

datatype http_method = GET | POST | PUT | DELETE

datatype fail_action = Fail | Log

datatype request_part = Params | Query | Payload | Headers

record route =
  ro_method :: http_method
  ro_path :: string
  ro_handler :: string
  ro_auth :: "string option"
  ro_checks :: "(request_part \<times> fail_action \<times> schema) list"
  ro_response :: "(fail_action \<times> schema) option"

section \<open>Schemas\<close>

definition v1_Payment :: schema where
  "v1_Payment =
     JObject [req ''currency'' (JString []), req ''txid'' (JString []), req ''createdAt'' (JDate []),
       opt ''outputs'' (JArray (Some (JObject [req ''address'' (JString []), req ''amount'' (JNumber [])] []))),
       opt ''invoice'' (JObject [req ''uid'' (JString []), req ''currency'' (JString []),
       req ''amount'' (JNumber [])] [])] []"

definition listPayments :: schema where
  "listPayments = JObject [opt ''payments'' (JArray (Some v1_Payment))] []"

definition PasswordReset :: schema where
  "PasswordReset = JObject [req ''email'' (JString [])] []"

definition PasswordResetClaim :: schema where
  "PasswordResetClaim = JObject [req ''password'' (JString [MinLength 1])] []"

definition v0_AddressSchema :: schema where
  "v0_AddressSchema =
     JObject [opt ''address'' (JString []), opt ''script'' (JString []),
       req ''amount'' (JNumber [])] [OneOf [''address'', ''script'']]"

definition v0_PaymentInstructionSchema :: schema where
  "v0_PaymentInstructionSchema =
     JObject [opt ''type'' (JString []), opt ''requiredFeeRate'' (JNumber []),
       req ''outputs'' (JArray (Some v0_AddressSchema))] []"

definition v0_PaymentOptionSchema :: schema where
  "v0_PaymentOptionSchema =
     JObject [req ''time'' (JString []), req ''expires'' (JString []), opt ''memo'' (JString []),
       req ''paymentUrl'' (JString []), req ''paymentId'' (JString []), req ''chain'' (JString []),
       req ''currency'' (JString []), req ''network'' (JString []),
       req ''instructions'' (JArray (Some v0_PaymentInstructionSchema))] []"

definition v0_PaymentOptionsSchema :: schema where
  "v0_PaymentOptionsSchema =
     JObject [req ''payment_options'' (JArray (Some v0_PaymentOptionSchema))] []"

definition v0_InvoiceSchema :: schema where
  "v0_InvoiceSchema =
     JObject [req ''uid'' (JString []), req ''uri'' (JString []), req ''status'' (JString []),
       req ''currency'' (JString []), req ''amount'' (JNumber []), opt ''hash'' (JString []),
       opt ''payment_options'' v0_PaymentOptionsSchema, opt ''notes'' (JArray (Some (JString [])))] []"

definition v0_InvoiceResponseSchema :: schema where
  "v0_InvoiceResponseSchema =
     JObject [req ''invoice'' v0_InvoiceSchema] []"

definition v0_UidParamsSchema :: schema where
  "v0_UidParamsSchema =
     JObject [req ''uid'' (JString [])] []"

definition v0_PaymentDestinationSchema :: schema where
  "v0_PaymentDestinationSchema =
     JObject [req ''address'' (JString []), req ''amount'' (JNumber []), opt ''currency'' (JString [])] []"

definition v0_PaymentRequestTemplateSchema :: schema where
  "v0_PaymentRequestTemplateSchema =
     JObject [opt ''chain'' (JString []), req ''currency'' (JString []),
       req ''to'' (JArray (Some v0_PaymentDestinationSchema))] []"

definition v1_OutputSchema :: schema where
  "v1_OutputSchema =
     JObject [req ''amount'' (JNumber []), req ''address'' (JString [])] []"

definition v1_InstructionSchema :: schema where
  "v1_InstructionSchema =
     JObject [req ''type'' (JString []), req ''requiredFeeRate'' (JNumber []),
       req ''outputs'' (JArray (Some v1_OutputSchema))] []"

definition v1_PaymentOptionSchema :: schema where
  "v1_PaymentOptionSchema =
     JObject [req ''time'' (JDate [Iso]), req ''expires'' (JDate [Iso]), opt ''memo'' (JString [Allow [''null'']]),
       req ''paymentUrl'' (JString [Uri]), req ''paymentId'' (JString []), req ''chain'' (JString []),
       req ''currency'' (JString []), req ''network'' (JString []),
       req ''instructions'' (JArray (Some v1_InstructionSchema))] []"

definition v1_InvoiceSchema :: schema where
  "v1_InvoiceSchema =
     JObject [req ''amount'' (JNumber [Strict]), req ''currency'' (JString []), req ''status'' (JString []),
       req ''uid'' (JString []), req ''uri'' (JString []), req ''createdAt'' (JDate [Iso]),
       opt ''expiresAt'' (JDate [Iso, Allow [''null'']]),
       req ''payment_options'' (JArray (Some v1_PaymentOptionSchema)),
       req ''notes'' (JArray (Some (JString [])))] []"

definition v1_InvoiceResponseSchema :: schema where
  "v1_InvoiceResponseSchema =
     JObject [req ''invoice'' v1_InvoiceSchema] []"

definition v1_PriceSchema :: schema where
  "v1_PriceSchema =
     JObject [req ''currency'' (JString []), req ''base'' (JString []), req ''value'' (JNumber []),
       req ''updatedAt'' (JDate []), req ''source'' (JString [])] []"

definition v1_PricesSchema :: schema where
  "v1_PricesSchema =
     JObject [opt ''prices'' (JArray (Some v1_PriceSchema))] []"

section \<open>\<^verbatim>\<open>payment_requests/server.ts\<close>\<close>

definition payreq_routes :: "route list" where
  "payreq_routes = [
     \<lparr>ro_method = GET, ro_path = ''/r/{uid}'', ro_handler = ''payreq.PaymentRequests.show'', ro_auth = None,
       ro_checks = [], ro_response = None\<rparr>,
     \<lparr>ro_method = POST, ro_path = ''/r/{uid}/pay/{currency}/bip270'',
       ro_handler = ''payreq.Bip270PaymentRequests.create'', ro_auth = None,
       ro_checks = [], ro_response = None\<rparr>,
     \<lparr>ro_method = POST, ro_path = ''/r/{uid}/pay/{currency}/bip70'',
       ro_handler = ''payreq.Bip70PaymentRequests.create'', ro_auth = None,
       ro_checks = [], ro_response = None\<rparr>]"

section \<open>\<^verbatim>\<open>jsonV2/routes.ts\<close>\<close>

definition jsonV2_routes :: "route list" where
  "jsonV2_routes = [
     \<lparr>ro_method = GET, ro_path = ''/i/{uid}'', ro_handler = ''jsonV2.Protocol.listPaymentOptions'',
       ro_auth = None,
       ro_checks = [(Params, Log, JObject [req ''uid'' (JString [])] []), (Headers, Log,
         JObject [opt ''x-paypro-version'' (JNumber [Integer]),
         req ''accept'' (JString [Pattern ''application/payment-options''])] [Unknown])], ro_response = None\<rparr>,
     \<lparr>ro_method = POST, ro_path = ''/i/{uid}'', ro_handler = ''jsonV2.Protocol.handlePost'', ro_auth = None,
       ro_checks = [(Params, Log, JObject [req ''uid'' (JString [])] []), (Headers, Log,
         JObject [opt ''x-paypro-version'' (JNumber [Integer]),
         req ''x-content-type'' (JAlternatives [JString [Pattern ''application/payment-request''],
         JString [Pattern ''application/payment-verification''],
         JString [Pattern ''application/payment'']])] [Unknown])], ro_response = None\<rparr>,
     \<lparr>ro_method = POST, ro_path = ''/r/{uid}'', ro_handler = ''jsonV2.Protocol.handlePost'', ro_auth = None,
       ro_checks = [(Params, Log, JObject [req ''uid'' (JString [])] []), (Headers, Log,
         JObject [opt ''x-paypro-version'' (JNumber [Integer]),
         req ''x-content-type'' (JAlternatives [JString [Pattern ''application/payment-request''],
         JString [Pattern ''application/payment-verification''], JString [Pattern ''application/payment'']])] [])],
         ro_response = None\<rparr>]"

section \<open>\<^verbatim>\<open>v0/plugins/merchant_app.ts\<close>\<close>

definition merchant_invoice_routes :: "route list" where
  "merchant_invoice_routes = [
     \<lparr>ro_method = GET, ro_path = ''/invoices'', ro_handler = ''v0.Invoices.index'', ro_auth = Some ''token'',
       ro_checks = [], ro_response = None\<rparr>,
     \<lparr>ro_method = GET, ro_path = ''/woocommerce'', ro_handler = ''v0.Woocommerce.index'',
       ro_auth = Some ''token'',
       ro_checks = [], ro_response = None\<rparr>,
     \<lparr>ro_method = POST, ro_path = ''/access_tokens'', ro_handler = ''v0.AccessTokens.create'',
       ro_auth = Some ''password'',
       ro_checks = [], ro_response = None\<rparr>,
     \<lparr>ro_method = POST, ro_path = ''/invoices/{invoice_uid}/notes'', ro_handler = ''v0.InvoiceNotes.create'',
       ro_auth = Some ''token'',
       ro_checks = [(Payload, Log, JObject [req ''note'' (JString [])] [])], ro_response = None\<rparr>,
     \<lparr>ro_method = POST, ro_path = ''/invoices'', ro_handler = ''v0.Invoices.createDeprecated'',
       ro_auth = Some ''token'',
       ro_checks = [(Payload, Log, JObject [req ''amount'' (JNumber []), opt ''currency'' (JString []),
         opt ''redirect_url'' (JString [Allow ['''']]), opt ''webhook_url'' (JString [Allow ['''']]),
         opt ''wordpress_site_url'' (JString [Allow ['''']]), opt ''memo'' (JString [Allow ['''']]),
         opt ''email'' (JString [Allow ['''']]), opt ''external_id'' (JString [Allow ['''']]),
         opt ''business_id'' (JString [Allow ['''']]), opt ''location_id'' (JString [Allow ['''']]),
         opt ''register_id'' (JString [Allow ['''']]), opt ''required_fee_rate'' (JString [Allow [''fastestFee'',
         ''halfHourFee'', ''hourFee'', ''economyFee'', ''minimumFee'']])] [])], ro_response = Some (Log,
         JObject [req ''invoice'' (JObject [req ''amount'' (JNumber []), req ''currency'' (JString []),
         req ''status'' (JString []), req ''uid'' (JString []), req ''uri'' (JString []),
         req ''createdAt'' (JDate []), req ''expiresAt'' (JDate []),
         req ''payment_options'' (JArray (Some (JObject [req ''uri'' (JString []), req ''currency'' (JString []),
         req ''amount'' (JNumber []), req ''chain'' (JString [])] [])))] [])] [])\<rparr>]"

definition merchant_create_routes :: "route list" where
  "merchant_create_routes = [
     \<lparr>ro_method = POST, ro_path = ''/api/v1/invoices'', ro_handler = ''v0.Invoices.create'',
       ro_auth = Some ''token'',
       ro_checks = [(Payload, Log, JObject [req ''amount'' (JNumber []), opt ''currency'' (JString []),
         opt ''redirect_url'' (JString [Allow ['''']]), opt ''webhook_url'' (JString [Allow ['''']]),
         opt ''wordpress_site_url'' (JString [Allow ['''']]), opt ''memo'' (JString [Allow ['''']]),
         opt ''email'' (JString [Allow ['''']]), opt ''external_id'' (JString [Allow ['''']]),
         opt ''business_id'' (JString [Allow ['''']]), opt ''location_id'' (JString [Allow ['''']]),
         opt ''register_id'' (JString [Allow ['''']]), opt ''required_fee_rate'' (JString [Allow [''fastestFee'',
         ''halfHourFee'', ''hourFee'', ''economyFee'', ''minimumFee'']])] [])], ro_response = Some (Log,
         JObject [req ''invoice'' (JObject [req ''uid'' (JString []), req ''uri'' (JString []),
         req ''status'' (JString []), req ''currency'' (JString []), req ''amount'' (JNumber []),
         opt ''hash'' (JString []), req ''payment_options'' (JArray (Some (JObject [opt ''time'' (JString []),
         req ''expires'' (JString []), opt ''memo'' (JString []), req ''paymentUrl'' (JString []),
         req ''paymentId'' (JString []), req ''chain'' (JString []), req ''currency'' (JString []),
         req ''network'' (JString []), req ''instructions'' (JArray (Some (JObject [opt ''type'' (JString []),
         opt ''requiredFeeRate'' (JNumber []), req ''outputs'' (JArray (Some (JObject [opt ''address'' (JString []),
         opt ''script'' (JString []), req ''amount'' (JNumber [])] [OneOf [''address'',
         ''script'']])))] [])))] []))), opt ''notes'' (JArray None)] [])] [])\<rparr>]"

definition merchant_address_routes :: "route list" where
  "merchant_address_routes = [
     \<lparr>ro_method = DELETE, ro_path = ''/invoices/{uid}'', ro_handler = ''v0.Invoices.cancel'',
       ro_auth = Some ''token'',
       ro_checks = [], ro_response = None\<rparr>,
     \<lparr>ro_method = PUT, ro_path = ''/addresses/{currency}'', ro_handler = ''v0.Addresses.updateLegacy'',
       ro_auth = Some ''token'',
       ro_checks = [(Params, Log, JObject [req ''currency'' (JString [])] []), (Payload, Log,
         JObject [req ''address'' (JString [])] [])], ro_response = None\<rparr>,
     \<lparr>ro_method = POST, ro_path = ''/api/v1/addresses'', ro_handler = ''v0.Addresses.update'',
       ro_auth = Some ''jwt'',
       ro_checks = [(Payload, Log, JObject [req ''address'' (JString []), req ''currency'' (JString []),
         req ''chain'' (JString [])] [])], ro_response = None\<rparr>,
     \<lparr>ro_method = GET, ro_path = ''/addresses'', ro_handler = ''v0.Addresses.list'',
       ro_auth = Some ''token'',
       ro_checks = [], ro_response = None\<rparr>,
     \<lparr>ro_method = DELETE, ro_path = ''/addresses/{currency}'', ro_handler = ''v0.Addresses.destroy'',
       ro_auth = Some ''token'',
       ro_checks = [], ro_response = None\<rparr>,
     \<lparr>ro_method = GET, ro_path = ''/account_addresses'', ro_handler = ''v0.Addresses.index'',
       ro_auth = Some ''token'',
       ro_checks = [], ro_response = None\<rparr>,
     \<lparr>ro_method = PUT, ro_path = ''/addresses/{id}/notes'', ro_handler = ''v0.AddressNotes.update'',
       ro_auth = Some ''token'',
       ro_checks = [(Params, Log, JObject [req ''id'' (JNumber [])] []), (Payload, Log,
         JObject [req ''note'' (JString [])] [])], ro_response = None\<rparr>,
     \<lparr>ro_method = POST, ro_path = ''/v0/search'', ro_handler = ''v0.Search.create'',
       ro_auth = Some ''token'',
       ro_checks = [(Payload, Log, JObject [req ''search'' (JString [])] [])], ro_response = None\<rparr>,
     \<lparr>ro_method = GET, ro_path = ''/account'', ro_handler = ''v0.Accounts.show'', ro_auth = Some ''token'',
       ro_checks = [], ro_response = None\<rparr>,
     \<lparr>ro_method = PUT, ro_path = ''/account'', ro_handler = ''v0.Accounts.update'', ro_auth = Some ''token'',
       ro_checks = [], ro_response = None\<rparr>,
     \<lparr>ro_method = GET, ro_path = ''/coins'', ro_handler = ''v0.Coins.list'', ro_auth = Some ''token'',
       ro_checks = [], ro_response = None\<rparr>]"

definition merchant_account_routes :: "route list" where
  "merchant_account_routes = [
     \<lparr>ro_method = POST, ro_path = ''/password-resets'', ro_handler = ''v0.Passwords.reset'', ro_auth = None,
       ro_checks = [(Payload, Log, PasswordReset)], ro_response = None\<rparr>,
     \<lparr>ro_method = POST, ro_path = ''/password-resets/{uid}'', ro_handler = ''v0.Passwords.claim'',
       ro_auth = None,
       ro_checks = [(Payload, Log, PasswordResetClaim)], ro_response = None\<rparr>,
     \<lparr>ro_method = PUT, ro_path = ''/settings/denomination'', ro_handler = ''v0.Denominations.update'',
       ro_auth = Some ''token'',
       ro_checks = [], ro_response = None\<rparr>,
     \<lparr>ro_method = GET, ro_path = ''/settings/denomination'', ro_handler = ''v0.Denominations.show'',
       ro_auth = Some ''token'',
       ro_checks = [], ro_response = None\<rparr>,
     \<lparr>ro_method = GET, ro_path = ''/firebase_token'', ro_handler = ''v0.FirebaseTokens.show'',
       ro_auth = Some ''token'',
       ro_checks = [], ro_response = None\<rparr>,
     \<lparr>ro_method = POST, ro_path = ''/firebase_token'', ro_handler = ''v0.FirebaseTokens.create'',
       ro_auth = Some ''token'',
       ro_checks = [], ro_response = None\<rparr>,
     \<lparr>ro_method = PUT, ro_path = ''/firebase_token'', ro_handler = ''v0.FirebaseTokens.update'',
       ro_auth = Some ''token'',
       ro_checks = [], ro_response = None\<rparr>,
     \<lparr>ro_method = GET, ro_path = ''/support/{token}'', ro_handler = ''v0.SupportProxy.show'', ro_auth = None,
       ro_checks = [], ro_response = None\<rparr>,
     \<lparr>ro_method = GET, ro_path = ''/invoices/{invoice_uid}/payment_options'',
       ro_handler = ''v0.InvoicePaymentOptions.show'', ro_auth = None,
       ro_checks = [], ro_response = None\<rparr>,
     \<lparr>ro_method = GET, ro_path = ''/grab_and_go_items'', ro_handler = ''v0.Products.index'', ro_auth = None,
       ro_checks = [], ro_response = None\<rparr>,
     \<lparr>ro_method = POST, ro_path = ''/accounts'', ro_handler = ''v0.Accounts.create'', ro_auth = None,
       ro_checks = [(Payload, Log, JObject [req ''email'' (JString [Email]), req ''password'' (JString [])] [])],
         ro_response = None\<rparr>]"

definition merchant_key_routes :: "route list" where
  "merchant_key_routes = [
     \<lparr>ro_method = GET, ro_path = ''/api_keys'', ro_handler = ''v0.ApiKeys.index'', ro_auth = Some ''token'',
       ro_checks = [], ro_response = None\<rparr>,
     \<lparr>ro_method = POST, ro_path = ''/kraken_api_keys'', ro_handler = ''v0.KrakenApiKeys.create'',
       ro_auth = Some ''token'',
       ro_checks = [], ro_response = None\<rparr>,
     \<lparr>ro_method = GET, ro_path = ''/kraken_api_keys'', ro_handler = ''v0.KrakenApiKeys.show'',
       ro_auth = Some ''token'',
       ro_checks = [], ro_response = None\<rparr>,
     \<lparr>ro_method = DELETE, ro_path = ''/kraken_api_keys'', ro_handler = ''v0.KrakenApiKeys.destroy'',
       ro_auth = Some ''token'',
       ro_checks = [], ro_response = None\<rparr>]"

section \<open>\<^verbatim>\<open>v0/server.ts\<close>\<close>

definition v0_public_routes :: "route list" where
  "v0_public_routes = [
     \<lparr>ro_method = GET, ro_path = ''/base_currencies'', ro_handler = ''v0.BaseCurrencies.index'',
       ro_auth = None,
       ro_checks = [], ro_response = None\<rparr>,
     \<lparr>ro_method = GET, ro_path = ''/convert/{oldamount}-{oldcurrency}/to-{newcurrency}'',
       ro_handler = ''v0.PriceConversions.show'', ro_auth = None,
       ro_checks = [], ro_response = None\<rparr>,
     \<lparr>ro_method = POST, ro_path = ''/r'', ro_handler = ''v0.PaymentRequests.create'', ro_auth = Some ''app'',
       ro_checks = [(Payload, Log, JObject [req ''template'' v0_PaymentRequestTemplateSchema,
         opt ''options'' (JObject [opt ''webhook'' (JString []), opt ''redirect'' (JString []),
         opt ''secret'' (JString []), opt ''metadata'' (JObject [] [Unknown]), opt ''fee_rate_level'' (JString []),
         opt ''fee_rate'' (JNumber []), opt ''fee'' (JNumber [])] [])] [])], ro_response = Some (Log,
         v0_InvoiceResponseSchema)\<rparr>,
     \<lparr>ro_method = DELETE, ro_path = ''/r/{uid}'', ro_handler = ''v0.PaymentRequests.cancel'',
       ro_auth = Some ''app'',
       ro_checks = [], ro_response = Some (Fail, JObject [req ''success'' (JBoolean [])] [])\<rparr>,
     \<lparr>ro_method = POST, ro_path = ''/payment-requests'', ro_handler = ''v0.PaymentRequests.create'',
       ro_auth = Some ''app'',
       ro_checks = [(Payload, Fail, JObject [req ''template'' v0_PaymentRequestTemplateSchema,
         opt ''options'' (JObject [opt ''webhook'' (JString []), opt ''redirect'' (JString []),
         opt ''secret'' (JString []), opt ''metadata'' (JObject [] [Unknown])] [])] [])], ro_response = Some (Fail,
         v0_InvoiceResponseSchema)\<rparr>,
     \<lparr>ro_method = GET, ro_path = ''/merchants/{account_id}'', ro_handler = ''v0.Merchants.show'',
       ro_auth = None,
       ro_checks = [], ro_response = None\<rparr>,
     \<lparr>ro_method = GET, ro_path = ''/api/accounts-by-email/{email}'', ro_handler = ''v0.Anypaycity.show'',
       ro_auth = None,
       ro_checks = [], ro_response = None\<rparr>,
     \<lparr>ro_method = GET, ro_path = ''/invoices/{invoice_id}'', ro_handler = ''v0.Invoices.showDeprecated'',
       ro_auth = None,
       ro_checks = [(Params, Log, v0_UidParamsSchema)], ro_response = None\<rparr>,
     \<lparr>ro_method = GET, ro_path = ''/api/v1/invoices/{invoice_id}'', ro_handler = ''v0.Invoices.show'',
       ro_auth = None,
       ro_checks = [(Params, Log, v0_UidParamsSchema)], ro_response = Some (Log, v0_InvoiceResponseSchema)\<rparr>,
     \<lparr>ro_method = GET, ro_path = ''/accounts/{id}'', ro_handler = ''v0.Accounts.showPublic'', ro_auth = None,
       ro_checks = [], ro_response = None\<rparr>]"

definition v0_app_routes :: "route list" where
  "v0_app_routes = [
     \<lparr>ro_method = GET, ro_path = ''/apps'', ro_handler = ''v0.Apps.index'', ro_auth = Some ''token'',
       ro_checks = [], ro_response = None\<rparr>,
     \<lparr>ro_method = GET, ro_path = ''/apps/{id}'', ro_handler = ''v0.Apps.show'', ro_auth = Some ''token'',
       ro_checks = [], ro_response = None\<rparr>,
     \<lparr>ro_method = POST, ro_path = ''/apps'', ro_handler = ''v0.Apps.create'', ro_auth = Some ''token'',
       ro_checks = [], ro_response = None\<rparr>]"

section \<open>\<^verbatim>\<open>v1/routes.ts\<close>\<close>

definition v1_account_routes :: "route list" where
  "v1_account_routes = [
     \<lparr>ro_method = POST, ro_path = ''/v1/api/account/register'',
       ro_handler = ''v1.AccountRegistrations.create'', ro_auth = None,
       ro_checks = [(Payload, Log, JObject [req ''email'' (JString [Email]), req ''password'' (JString [])] [])],
         ro_response = None\<rparr>,
     \<lparr>ro_method = POST, ro_path = ''/v1/api/account/login'', ro_handler = ''v1.AccountLogins.create'',
       ro_auth = None,
       ro_checks = [(Payload, Log, JObject [req ''email'' (JString [Email]), req ''password'' (JString [])] [])],
         ro_response = None\<rparr>,
     \<lparr>ro_method = POST, ro_path = ''/v1/api/account/password-reset'',
       ro_handler = ''v1.PasswordResets.create'', ro_auth = None,
       ro_checks = [(Payload, Log, JObject [req ''email'' (JString [Email])] [])], ro_response = None\<rparr>,
     \<lparr>ro_method = GET, ro_path = ''/v1/api/account/my-account'', ro_handler = ''v1.MyAccount.show'',
       ro_auth = Some ''jwt'',
       ro_checks = [], ro_response = None\<rparr>,
     \<lparr>ro_method = GET, ro_path = ''/v1/api/account/access-keys'', ro_handler = ''v1.AccessKeys.index'',
       ro_auth = Some ''jwt'',
       ro_checks = [], ro_response = None\<rparr>,
     \<lparr>ro_method = GET, ro_path = ''/v1/api/webhooks'', ro_handler = ''v1.Webhooks.index'',
       ro_auth = Some ''jwt'',
       ro_checks = [], ro_response = None\<rparr>,
     \<lparr>ro_method = GET, ro_path = ''/v1/api/account/payments'', ro_handler = ''v1.Payments.index'',
       ro_auth = Some ''jwt'',
       ro_checks = [(Query, Log, JObject [opt ''limit'' (JNumber []), opt ''offset'' (JNumber [])] [])],
         ro_response = Some (Log, listPayments)\<rparr>,
     \<lparr>ro_method = GET, ro_path = ''/v1/api/linked-accounts'', ro_handler = ''v1.LinkedAccounts.index'',
       ro_auth = Some ''jwt'',
       ro_checks = [(Query, Log, JObject [opt ''limit'' (JNumber []), opt ''offset'' (JNumber [])] [])],
         ro_response = None\<rparr>,
     \<lparr>ro_method = POST, ro_path = ''/v1/api/linked-accounts'', ro_handler = ''v1.LinkedAccounts.create'',
       ro_auth = Some ''jwt'',
       ro_checks = [(Payload, Log, JObject [opt ''email'' (JString [])] [])], ro_response = None\<rparr>,
     \<lparr>ro_method = DELETE, ro_path = ''/v1/api/linked-accounts/{id}'',
       ro_handler = ''v1.LinkedAccounts.unlink'', ro_auth = Some ''jwt'',
       ro_checks = [(Query, Log, JObject [opt ''limit'' (JNumber []), opt ''offset'' (JNumber [])] [])],
         ro_response = None\<rparr>]"

definition v1_invoice_routes :: "route list" where
  "v1_invoice_routes = [
     \<lparr>ro_method = GET, ro_path = ''/v1/api/linked-accounts/{account_id}/payments'',
       ro_handler = ''v1.LinkedAccountPayments.index'', ro_auth = Some ''jwt'',
       ro_checks = [(Params, Log, JObject [req ''account_id'' (JNumber [])] []), (Query, Log,
         JObject [opt ''limit'' (JNumber []), opt ''offset'' (JNumber [])] [])], ro_response = Some (Log,
         listPayments)\<rparr>,
     \<lparr>ro_method = POST, ro_path = ''/v1/api/webhooks/{invoice_uid}/attempts'',
       ro_handler = ''v1.Webhooks.attempt'', ro_auth = Some ''jwt'',
       ro_checks = [(Params, Log, JObject [req ''invoice_uid'' (JString [])] [])], ro_response = None\<rparr>,
     \<lparr>ro_method = POST, ro_path = ''/v1/api/invoices'', ro_handler = ''v1.Invoices.create'',
       ro_auth = Some ''jwt'',
       ro_checks = [(Payload, Log, JObject [req ''amount'' (JNumber []), opt ''currency'' (JString []),
         opt ''redirect_url'' (JString []), opt ''webhook_url'' (JString []),
         opt ''wordpress_site_url'' (JString []), opt ''memo'' (JString []), opt ''email'' (JString []),
         opt ''external_id'' (JString []), opt ''business_id'' (JString []), opt ''location_id'' (JString []),
         opt ''register_id'' (JString []), opt ''metadata'' (JObject [] [Unknown]),
         opt ''required_fee_rate'' (JString [Allow [''fastestFee'', ''halfHourFee'', ''hourFee'', ''economyFee'',
         ''minimumFee'']])] [])], ro_response = None\<rparr>,
     \<lparr>ro_method = GET, ro_path = ''/v1/api/invoices/{uid}'', ro_handler = ''v1.Invoices.show'',
       ro_auth = None,
       ro_checks = [(Params, Fail, JObject [req ''uid'' (JString [])] [])], ro_response = Some (Log,
         v1_InvoiceResponseSchema)\<rparr>,
     \<lparr>ro_method = GET, ro_path = ''/v1/api/invoices/{invoice_uid}/payment'',
       ro_handler = ''v1.Payments.show'', ro_auth = Some ''jwt'',
       ro_checks = [], ro_response = None\<rparr>]"

definition v1_event_routes :: "route list" where
  "v1_event_routes = [
     \<lparr>ro_method = GET, ro_path = ''/v1/api/invoices/{invoice_uid}/events'',
       ro_handler = ''v1.InvoiceEvents.index'', ro_auth = Some ''jwt'',
       ro_checks = [(Params, Log, JObject [req ''invoice_uid'' (JString [])] []), (Query, Log,
         JObject [opt ''order'' (JString [Valid [''asc'', ''desc'']])] [])], ro_response = Some (Log,
         JObject [req ''invoice_uid'' (JString []), opt ''events'' (JArray (Some (JObject [req ''id'' (JNumber []),
         opt ''app_id'' (JAny []), opt ''account_id'' (JAny []), opt ''invoice_uid'' (JString []),
         req ''type'' (JString []), opt ''payload'' (JObject [] [Unknown]), req ''createdAt'' (JDate []),
         req ''updatedAt'' (JDate []), opt ''namespace'' (JString [])] [])))] [])\<rparr>,
     \<lparr>ro_method = GET, ro_path = ''/api/v1/invoices/{invoice_uid}/events'',
       ro_handler = ''v1.InvoiceEvents.index'', ro_auth = Some ''jwt'',
       ro_checks = [(Params, Log, JObject [req ''invoice_uid'' (JString [])] []), (Query, Log,
         JObject [opt ''order'' (JString [Valid [''asc'', ''desc'']])] [])], ro_response = Some (Log,
         JObject [req ''invoice_uid'' (JString []), opt ''events'' (JArray (Some (JObject [req ''id'' (JNumber []),
         opt ''app_id'' (JAny []), opt ''account_id'' (JAny []), opt ''invoice_uid'' (JString []),
         req ''type'' (JString []), opt ''payload'' (JObject [] [Unknown]), req ''createdAt'' (JDate []),
         req ''updatedAt'' (JDate []), opt ''namespace'' (JString [])] [])))] [])\<rparr>,
     \<lparr>ro_method = GET, ro_path = ''/v1/api/account/events'', ro_handler = ''v1.AccountEvents.index'',
       ro_auth = Some ''jwt'',
       ro_checks = [], ro_response = Some (Log, JObject [req ''account_id'' (JNumber []),
         opt ''events'' (JArray (Some (JObject [req ''id'' (JNumber []), opt ''invoice_uid'' (JAny []),
         opt ''account_id'' (JNumber []), req ''type'' (JString []), opt ''payload'' (JObject [] [Unknown]),
         req ''createdAt'' (JDate []), req ''updatedAt'' (JDate []),
         opt ''namespace'' (JString [])] [])))] [])\<rparr>]"

definition v1_address_routes :: "route list" where
  "v1_address_routes = [
     \<lparr>ro_method = POST, ro_path = ''/v1/api/account/addresses'', ro_handler = ''v1.Addresses.update'',
       ro_auth = Some ''jwt'',
       ro_checks = [(Payload, Log, JObject [req ''chain'' (JString []), req ''currency'' (JString []),
         req ''value'' (JString []), opt ''label'' (JString [])] [])], ro_response = Some (Log,
         JObject [opt ''address'' (JObject [req ''currency'' (JString []), req ''value'' (JString []),
         opt ''label'' (JString [])] [])] [])\<rparr>,
     \<lparr>ro_method = DELETE, ro_path = ''/v1/api/account/addresses/{code}'',
       ro_handler = ''v1.Addresses.remove'', ro_auth = Some ''jwt'',
       ro_checks = [(Params, Log, JObject [req ''code'' (JString [])] [])], ro_response = Some (Log,
         JObject [opt ''address'' (JObject [opt ''success'' (JBoolean [])] [])] [])\<rparr>,
     \<lparr>ro_method = GET, ro_path = ''/api/v1/addresses'', ro_handler = ''v1.Addresses.index'',
       ro_auth = Some ''token'',
       ro_checks = [], ro_response = Some (Log,
         JObject [opt ''addresses'' (JArray (Some (JObject [req ''currency'' (JString []),
         req ''chain'' (JString []), req ''code'' (JString []), req ''name'' (JString []),
         req ''enabled'' (JBoolean []), req ''price'' (JNumber []), req ''icon'' (JString []),
         req ''address'' (JString []), req ''supported'' (JBoolean []), opt ''wallet'' (JString []),
         opt ''note'' (JString [])] [])))] [])\<rparr>,
     \<lparr>ro_method = GET, ro_path = ''/v1/api/account/addresses'', ro_handler = ''v1.Addresses.index'',
       ro_auth = Some ''jwt'',
       ro_checks = [], ro_response = Some (Log,
         JObject [opt ''addresses'' (JArray (Some (JObject [req ''currency'' (JString []),
         req ''code'' (JString []), req ''name'' (JString []), req ''enabled'' (JBoolean []),
         req ''price'' (JNumber []), req ''icon'' (JString []), req ''address'' (JString []),
         req ''supported'' (JBoolean []), opt ''wallet'' (JString []), opt ''note'' (JString [])] [])))] [])\<rparr>,
     \<lparr>ro_method = GET, ro_path = ''/v1/api/system/coins'', ro_handler = ''v1.Coins.index'', ro_auth = None,
       ro_checks = [], ro_response = Some (Log,
         JObject [opt ''addresses'' (JArray (Some (JObject [req ''code'' (JString []), req ''name'' (JString []),
         req ''enabled'' (JBoolean []), req ''price'' (JNumber []), req ''icon'' (JString [])] [])))] [])\<rparr>,
     \<lparr>ro_method = POST, ro_path = ''/v1/api/test/webhooks'', ro_handler = ''v1.Webhooks.test'',
       ro_auth = None,
       ro_checks = [], ro_response = None\<rparr>]"

definition v1_shop_routes :: "route list" where
  "v1_shop_routes = [
     \<lparr>ro_method = POST, ro_path = ''/v1/api/fail'', ro_handler = ''v1.fail'', ro_auth = None,
       ro_checks = [(Query, Fail, JObject [req ''error'' (JString [])] []), (Headers, Fail,
         JObject [req ''fail'' (JString [])] [])], ro_response = None\<rparr>,
     \<lparr>ro_method = GET, ro_path = ''/v1/woocommerce/checkout_images'',
       ro_handler = ''v1.WoocommerceCheckoutImages.index'', ro_auth = None,
       ro_checks = [], ro_response = None\<rparr>,
     \<lparr>ro_method = GET, ro_path = ''/v1/woocommerce/checkout_image'',
       ro_handler = ''v1.WoocommerceCheckoutImages.show'', ro_auth = Some ''jwt'',
       ro_checks = [], ro_response = None\<rparr>,
     \<lparr>ro_method = PUT, ro_path = ''/v1/woocommerce/checkout_image'',
       ro_handler = ''v1.WoocommerceCheckoutImages.update'', ro_auth = Some ''jwt'',
       ro_checks = [(Payload, Fail, JObject [opt ''name'' (JString [])] [])], ro_response = None\<rparr>,
     \<lparr>ro_method = GET, ro_path = ''/v1/woocommerce/accounts/{account_id}/checkout_image.png'',
       ro_handler = ''v1.WoocommerceCheckoutImages.image'', ro_auth = None,
       ro_checks = [], ro_response = None\<rparr>,
     \<lparr>ro_method = POST, ro_path = ''/v1/api/search'', ro_handler = ''v1.Search.create'',
       ro_auth = Some ''jwt'',
       ro_checks = [(Payload, Log, JObject [req ''search'' (JString [])] [])], ro_response = None\<rparr>,
     \<lparr>ro_method = GET, ro_path = ''/v1/api/account/invoices/{invoice_uid}/refund'',
       ro_handler = ''v1.Refunds.show'', ro_auth = Some ''jwt'',
       ro_checks = [(Params, Log, JObject [req ''invoice_uid'' (JString [])] [])], ro_response = None\<rparr>,
     \<lparr>ro_method = POST, ro_path = ''/v1/api/transactions'', ro_handler = ''v1.Transactions.create'',
       ro_auth = None,
       ro_checks = [(Payload, Log, JObject [req ''chain'' (JString []), req ''transaction'' (JString [])] [])],
         ro_response = None\<rparr>,
     \<lparr>ro_method = POST, ro_path = ''/v1/api/transactions/decode'', ro_handler = ''v1.Transactions.decode'',
       ro_auth = None,
       ro_checks = [(Payload, Log, JObject [req ''currency'' (JString []), req ''chain'' (JString []),
         req ''txhex'' (JString [])] [])], ro_response = None\<rparr>]"

definition v1_price_routes :: "route list" where
  "v1_price_routes = [
     \<lparr>ro_method = POST, ro_path = ''/api/v1/blockcypher/webhooks'',
       ro_handler = ''v1.BlockcypherWebhooks.create'', ro_auth = None,
       ro_checks = [], ro_response = None\<rparr>,
     \<lparr>ro_method = GET, ro_path = ''/api/v1/prices'', ro_handler = ''v1.Prices.index'', ro_auth = None,
       ro_checks = [], ro_response = Some (Log, v1_PricesSchema)\<rparr>,
     \<lparr>ro_method = GET, ro_path = ''/api/v1/prices/{currency}/history'', ro_handler = ''v1.Prices.show'',
       ro_auth = None,
       ro_checks = [], ro_response = Some (Log, v1_PricesSchema)\<rparr>]"

text \<open>The route of \<open>src/server/routes/invoices/confirm.ts\<close>.\<close>

definition invoiceConfirm :: route where
  "invoiceConfirm =
     \<lparr>ro_method = GET, ro_path = ''/api/v1/invoices/{uid}/confirm'', ro_handler = ''invoiceConfirm'', ro_auth = None,
       ro_checks = [(Params, Fail, JObject [req ''uid'' (JString [])] [])],
       ro_response = Some (Fail, JObject [opt ''success'' (JBoolean []),
         opt ''payment'' (JObject [] [Unknown]), opt ''confirmation'' (JObject [] [Unknown])] [])\<rparr>"

section \<open>\<^verbatim>\<open>csv_reports.ts and the rest of v0/server.ts\<close>\<close>

definition csv_routes :: "route list" where
  "csv_routes = [
     \<lparr>ro_method = GET, ro_path = ''/csv_reports.csv'', ro_handler = ''csv.report'', ro_auth = None,
       ro_checks = [(Query, Fail, JObject [req ''start_date'' (JDate []), req ''end_date'' (JDate []),
         req ''token'' (JString [])] [])], ro_response = None\<rparr>,
     \<lparr>ro_method = GET, ro_path = ''/reports/csv/payments.csv'', ro_handler = ''csv.payments'',
       ro_auth = None,
       ro_checks = [(Query, Fail, JObject [req ''token'' (JString [])] [])], ro_response = None\<rparr>]"

definition root_routes :: "route list" where
  "root_routes = [
     \<lparr>ro_method = GET, ro_path = ''/'', ro_handler = ''redirect'', ro_auth = None,
       ro_checks = [], ro_response = None\<rparr>,
     \<lparr>ro_method = GET, ro_path = ''/_metrics'', ro_handler = ''v0.Prometheus.show'',
       ro_auth = Some ''prometheus'',
       ro_checks = [], ro_response = None\<rparr>]"

section \<open>\<^verbatim>\<open>NewServer\<close>\<close>

text \<open>
  The routes in the order \<open>NewServer\<close> attaches them, without the plugin of the wallet bot,
  which a setting adds, and without the routes of hapi's own plugins.
\<close>

definition merchant_app :: "route list" where
  "merchant_app = merchant_invoice_routes @ merchant_create_routes @ merchant_address_routes @
     merchant_account_routes @ merchant_key_routes"

definition attachV1Routes :: "route list" where
  "attachV1Routes = v1_account_routes @ v1_invoice_routes @ v1_event_routes @ v1_address_routes @
     v1_shop_routes @ v1_price_routes @ [invoiceConfirm]"

definition server_routes :: "route list" where
  "server_routes = payreq_routes @ jsonV2_routes @ merchant_app @ v0_public_routes @ v0_app_routes @
     attachV1Routes @ csv_routes @ root_routes"

section \<open>Path templates\<close>

text \<open>The parameters of a template, and the template with their names left out.\<close>

definition param_names :: "string \<Rightarrow> string list" where
  "param_names path = map (takeWhile (\<lambda>c. c \<noteq> CHR ''}'')) (tl (split_on (CHR ''{'') path))"

primrec skip_names :: "string \<Rightarrow> bool \<Rightarrow> string" where
  "skip_names [] inside = []"
| "skip_names (c # cs) inside =
     (if inside then skip_names cs (c \<noteq> CHR ''}'')
      else if c = CHR ''{'' then CHR ''?'' # skip_names cs True else c # skip_names cs False)"

definition fingerprint :: "string \<Rightarrow> string" where
  "fingerprint path = skip_names path False"

end
