(* ===== verification/Reports.thy ===== *)
theory Reports
  imports Links
begin

text \<open>
  Figures about payments: the fee of an invoice of \<open>src/lib/pay/fees.ts\<close>, the network fee of
  \<open>src/lib/fees.ts\<close>, and the CSV reports of \<open>src/lib/csv.ts\<close>. The packages \<open>csv-writer\<close> and
  \<open>moment\<close>, which lay the rows out as text, are parameters.
\<close>

section \<open>Fees\<close>

definition feesFiat :: "(string \<times> amount) list" where
  "feesFiat = [
     (''BCH'', \<lparr>amt_currency = ''USD'', amt_value = 1 / 100\<rparr>),
     (''DASH'', \<lparr>amt_currency = ''USD'', amt_value = 1 / 100\<rparr>),
     (''BSV'', \<lparr>amt_currency = ''USD'', amt_value = 1 / 100\<rparr>),
     (''LTC'', \<lparr>amt_currency = ''USD'', amt_value = 1 / 100\<rparr>),
     (''DOGE'', \<lparr>amt_currency = ''USD'', amt_value = 1 / 100\<rparr>),
     (''BTC'', \<lparr>amt_currency = ''USD'', amt_value = 1 / 10\<rparr>),
     (''XMR'', \<lparr>amt_currency = ''USD'', amt_value = 1 / 100\<rparr>),
     (''USDC_MATIC'', \<lparr>amt_currency = ''USD'', amt_value = 1 / 100\<rparr>),
     (''USDT_MATIC'', \<lparr>amt_currency = ''USD'', amt_value = 1 / 100\<rparr>),
     (''MATIC'', \<lparr>amt_currency = ''USD'', amt_value = 1 / 100\<rparr>)]"

definition feeAddresses :: "(string \<times> string) list" where
  "feeAddresses = [
     (''BTC'', ''3PSFeZrEj1eSeFKs6cwYiU9Y4frfKati8L''),
     (''ETH'', ''0x8a3fe74311084e6f71ef9fc04bc6481e257a7325''),
     (''LTC'', ''MGzgGYeni8WZ6Hc2iqd3vWwQRKa7wkf4GG''),
     (''BCH'', ''qravv0seavret7g3mpfpx9yupuzff0nhjvc506v2z2''),
     (''DASH'', ''XjPLAKYmLtHNmWiKhy3vSHFn3Yh9NaRnvu''),
     (''BSV'', ''12XdPcmqkJCLFhEZccTw2xP33vqYh8mhfu''),
     (''DOGE'', ''DSrL49Fo6qD3GwAHeBDvmZMa4g27YpMyz8''),
     (''XMR'', ''42DxjbzjtQtFo59BwvjSjbA3FXAwV9ESn3zbkuU8fJYoPzQW7dGdZ3sAzyvz8Zcc1p9MZkLyMUU8EiU7xWJyYcURUaswNrQ''),
     (''XRP'', ''rasrvYBgXKEopSrkhmiZ97zk2DkTKo1pgK''),
     (''SOL'', ''CN8Hchkypid7g55B3fTBZMxyN73Z656RGQQt9YJmcUiA''),
     (''AVAX'', ''0x8881c5306fec0a4f6b829e39f0ffbb6c4a9faa05'')]"

text \<open>One turn of the loop: the fee in the smallest unit, kept under the key.\<close>

definition update_fee :: "ext \<Rightarrow> prisma \<Rightarrow> string \<times> amount \<Rightarrow> unit prog" where
  "update_fee E P entry =
     catch
       (let key = fst entry; parts = split_on (CHR ''_'') key; currency = hd parts;
            chain = (case tl parts of [] \<Rightarrow> currency | c # _ \<Rightarrow> if c = [] then currency else c) in
        bnd (convert E P (snd entry) currency) (\<lambda>fee.
        bnd (lift_result (toSatoshis E (amt_value fee) currency chain)) (\<lambda>satoshis.
        writes (\<lambda>w. w\<lparr>fees_cache := (fees_cache w)(key := Some satoshis)\<rparr>))))
       (\<lambda>_. ret ())"

definition updateFees :: "ext \<Rightarrow> prisma \<Rightarrow> unit prog" where
  "updateFees E P = for_each (update_fee E P) feesFiat"

record fee_output =
  fee_address :: "string option"
  fee_amount :: int

text \<open>
  A fee that is missing is larger than nothing and smaller than nothing, and counts as zero;
  an amount of zero is no amount.
\<close>

definition percentage :: "ext \<Rightarrow> num \<Rightarrow> num" where
  "percentage E amount = bn_toNumber (bn E) (bn_times (bn E) amount (1 / 1000))"

definition fee_for :: "ext \<Rightarrow> string \<Rightarrow> num option \<Rightarrow> num option \<Rightarrow> fee_output" where
  "fee_for E currency fee amount =
     (let raised = (case (fee, amount) of
          (Some f, Some a) \<Rightarrow>
            if a = 0 then Some f
            else
              let f = (if f < percentage E a then percentage E a else f) in
              Some (if currency = ''BTC'' \<and> f < 546 then 546 else f)
        | _ \<Rightarrow> fee) in
      \<lparr>fee_address = map_of feeAddresses currency,
       fee_amount = (case raised of None \<Rightarrow> 0 | Some f \<Rightarrow> js_trunc f)\<rparr>)"

text \<open>With a fee at hand the update goes on behind the answer.\<close>

definition getFee :: "ext \<Rightarrow> prisma \<Rightarrow> string \<Rightarrow> num option \<Rightarrow> fee_output prog" where
  "getFee E P currency amount =
     bnd (reads (\<lambda>w. fees_cache w currency)) (\<lambda>cached.
     if cached = None \<or> cached = Some 0
     then bnd (updateFees E P) (\<lambda>_.
          bnd (reads (\<lambda>w. fees_cache w currency)) (\<lambda>fee. ret (fee_for E currency fee amount)))
     else bnd (not_awaited (updateFees E P)) (\<lambda>_. ret (fee_for E currency cached amount)))"

text \<open>
  The network fee. The value of an input is looked up in the transaction's own outputs, by
  the index it has in the transaction it spends.
\<close>

definition own_output :: "utxo_tx \<Rightarrow> nat \<Rightarrow> js_error + num" where
  "own_output tx i = (if i < length (utx_outputs tx) then Inr (snd (utx_outputs tx ! i)) else Inl JsTypeError)"

fun sum_inputs :: "utxo_tx \<Rightarrow> nat list \<Rightarrow> num \<Rightarrow> js_error + num" where
  "sum_inputs tx [] acc = Inr acc"
| "sum_inputs tx (i # is) acc =
     (case own_output tx i of Inl e \<Rightarrow> Inl e | Inr satoshis \<Rightarrow> sum_inputs tx is (acc + satoshis))"

record fee_result =
  fr_total_input :: num
  fr_total_output :: num
  fr_network_fee :: num

definition getMiningFee :: "ext \<Rightarrow> string \<Rightarrow> string \<Rightarrow> fee_result prog" where
  "getMiningFee E currency txhex =
     bnd (lift_result (getBitcore E currency)) (\<lambda>bitcore.
     bnd (lift_result (bc_tx bitcore txhex)) (\<lambda>tx.
     bnd (lift_result (sum_inputs tx (utx_inputs tx) 0)) (\<lambda>total_input.
     let total_output = sum_list (map snd (utx_outputs tx)) in
     ret \<lparr>fr_total_input = total_input, fr_total_output = total_output,
       fr_network_fee = total_input - total_output\<rparr>)))"

section \<open>CSV reports\<close>

definition getInvoicesByDates :: "prisma \<Rightarrow> nat \<Rightarrow> time \<Rightarrow> time \<Rightarrow> invoice list prog" where
  "getInvoicesByDates P accountId start_date end_date =
     find_sorted (prisma_invoices P) (\<lambda>r. - (case inv_completed_at r of None \<Rightarrow> 0 | Some t \<Rightarrow> t))
       (\<lambda>r. inv_account_id r = Some accountId \<and> inv_complete r \<and>
          (case inv_completed_at r of None \<Rightarrow> False | Some t \<Rightarrow> start_date \<le> t \<and> t < end_date))"

text \<open>The client takes no null for a bound.\<close>

definition getInvoices :: "prisma \<Rightarrow> string \<Rightarrow> invoice list prog" where
  "getInvoices P invoiceUID =
     bnd (invoice_by_uid P invoiceUID) (\<lambda>invoice.
     (case inv_completed_at invoice of
        None \<Rightarrow> throw (PrismaError InvalidValue)
      | Some completed \<Rightarrow>
          find_sorted (prisma_invoices P) (\<lambda>r. - inv_createdAt r)
            (\<lambda>r. inv_account_id r = inv_account_id invoice \<and> inv_complete r \<and>
               (case inv_completed_at r of None \<Rightarrow> False | Some t \<Rightarrow> completed < t))))"

record report_invoice =
  ri_invoice_uid :: string
  ri_invoice_date :: time
  ri_amount :: num
  ri_currency :: string
  ri_invoice_external_id :: string
  ri_payment_date :: "time option"
  ri_payment_currency :: string
  ri_payment_amount :: num
  ri_payment_txid :: string

definition report_invoice_of :: "invoice \<Rightarrow> report_invoice" where
  "report_invoice_of invoice =
     \<lparr>ri_invoice_uid = inv_uid invoice, ri_invoice_date = inv_createdAt invoice,
      ri_amount = (case inv_amount invoice of None \<Rightarrow> 0 | Some a \<Rightarrow> a),
      ri_currency = js_String (inv_currency invoice), ri_invoice_external_id = js_String (inv_external_id invoice),
      ri_payment_date = inv_paidAt invoice, ri_payment_currency = js_String (inv_currency invoice),
      ri_payment_amount = (case inv_amount invoice of None \<Rightarrow> 0 | Some a \<Rightarrow> a),
      ri_payment_txid = js_String (inv_hash invoice)\<rparr>"

definition report_header :: "(string \<times> string) list" where
  "report_header = [
     (''invoice_date'', ''Date Invoiced''),
     (''amount'', ''Amount Invoiced''),
     (''currency'', ''Currency Invoiced''),
     (''invoice_uid'', ''Invoice ID''),
     (''payment_currency'', ''Payment Currency''),
     (''payment_amount'', ''Payment Amount''),
     (''payment_date'', ''Payment Date''),
     (''payment_txid'', ''Payment Txid''),
     (''external_id'', ''External Reference ID''),
     (''refund_address'', ''Refund Address''),
     (''refund_txid'', ''Refund Txid'')]"

text \<open>
  How the packages print: a date by the format of the source, where a missing one is invalid,
  a number, and a row of cells in the order of the header.
\<close>

record printers =
  fmt_date :: "time option \<Rightarrow> string"
  fmt_num :: "num \<Rightarrow> string"
  csv_line :: "string list \<Rightarrow> string"

definition report_record :: "printers \<Rightarrow> report_invoice \<Rightarrow> string \<Rightarrow> string option" where
  "report_record F r = map_of [
     (''invoice_uid'', ri_invoice_uid r), (''invoice_date'', fmt_date F (Some (ri_invoice_date r))),
     (''amount'', fmt_num F (ri_amount r)), (''currency'', ri_currency r),
     (''invoice_external_id'', ri_invoice_external_id r),
     (''payment_date'', fmt_date F (ri_payment_date r)), (''payment_currency'', ri_payment_currency r),
     (''payment_amount'', fmt_num F (ri_payment_amount r)), (''payment_txid'', ri_payment_txid r)]"

text \<open>A column the record has no field for is printed empty.\<close>

definition report_cells :: "printers \<Rightarrow> report_invoice \<Rightarrow> string list" where
  "report_cells F r = map (\<lambda>(column, _). case report_record F r column of None \<Rightarrow> [] | Some v \<Rightarrow> v) report_header"

definition buildReportCsv :: "printers \<Rightarrow> report_invoice list \<Rightarrow> string" where
  "buildReportCsv F invoices =
     csv_line F (map snd report_header) @ CHR 0x09 # concat (map (\<lambda>r. csv_line F (report_cells F r)) invoices)"

definition buildAccountCsvReport :: "printers \<Rightarrow> prisma \<Rightarrow> account \<Rightarrow> string prog" where
  "buildAccountCsvReport F P account =
     bnd (find_sorted (prisma_invoices P) (\<lambda>r. - (case inv_paidAt r of None \<Rightarrow> 0 | Some t \<Rightarrow> t))
            (\<lambda>r. inv_status r = ''paid'' \<and> inv_account_id r = Some (acc_id account) \<and> inv_app_id r = None)) (\<lambda>paidInvoices.
     ret (buildReportCsv F (map report_invoice_of paidInvoices)))"

definition buildReportCsvFromDates :: "printers \<Rightarrow> prisma \<Rightarrow> nat \<Rightarrow> time \<Rightarrow> time \<Rightarrow> string prog" where
  "buildReportCsvFromDates F P accountId start_date end_date =
     bnd (getInvoicesByDates P accountId start_date end_date) (\<lambda>invoices.
     ret (buildReportCsv F (map report_invoice_of invoices)))"

definition buildReportCsvFromInvoiceUID :: "printers \<Rightarrow> prisma \<Rightarrow> string \<Rightarrow> string prog" where
  "buildReportCsvFromInvoiceUID F P invoiceUid =
     bnd (getInvoices P invoiceUid) (\<lambda>invoices. ret (buildReportCsv F (map report_invoice_of invoices)))"

section \<open>Facts\<close>

text \<open>A cached fee is never lowered, and an invoice pays a thousandth of its amount at least.\<close>

lemma fee_for_bounds:
  assumes "bignumber (bn E)" and "0 \<le> f" and "0 < a" and "a \<le> 2 ^ 53"
  shows "\<lfloor>f\<rfloor> \<le> fee_amount (fee_for E currency (Some f) (Some a))"
    and "\<lfloor>a / 1000\<rfloor> \<le> fee_amount (fee_for E currency (Some f) (Some a))"
    and "fee_amount (fee_for E currency (Some f) (Some a)) \<le> max \<lceil>a / 1000\<rceil> (max \<lfloor>f\<rfloor> (if currency = ''BTC'' then 546 else 0))"
proof -
  let ?p = "percentage E a"
  have "\<bar>a / 1000\<bar> \<le> 2 ^ 53 - 2" using assms(3,4) by simp
  then have p: "of_int \<lfloor>a / 1000\<rfloor> \<le> ?p" "?p \<le> of_int \<lceil>a / 1000\<rceil>"
    using bignumber.toNumber_between [OF assms(1), of "a / 1000"] bignumber.times_exact [OF assms(1)]
    by (simp_all add: percentage_def)
  have "0 \<le> a / 1000" using assms(3) by simp
  then have "0 \<le> \<lfloor>a / 1000\<rfloor>" by simp
  then have pos: "0 \<le> ?p" using p(1) by linarith
  define g where "g = (let f = (if f < ?p then ?p else f) in if currency = ''BTC'' \<and> f < 546 then 546 else f)"
  have g: "fee_amount (fee_for E currency (Some f) (Some a)) = \<lfloor>g\<rfloor>"
    using assms(2,3) pos by (simp add: fee_for_def g_def Let_def js_trunc_def)
  have "f \<le> g" "?p \<le> g" by (auto simp: g_def Let_def)
  then show "\<lfloor>f\<rfloor> \<le> fee_amount (fee_for E currency (Some f) (Some a))"
    "\<lfloor>a / 1000\<rfloor> \<le> fee_amount (fee_for E currency (Some f) (Some a))"
    using p(1) order_trans [OF of_int_floor_le [of f]] unfolding g by (auto simp: le_floor_iff)
  have "g = ?p \<or> g = f \<or> (currency = ''BTC'' \<and> g = 546)" by (auto simp: g_def Let_def)
  then show "fee_amount (fee_for E currency (Some f) (Some a)) \<le> max \<lceil>a / 1000\<rceil> (max \<lfloor>f\<rfloor> (if currency = ''BTC'' then 546 else 0))"
    using p(2) floor_mono [of ?p "of_int \<lceil>a / 1000\<rceil>"] unfolding g by auto
qed

text \<open>No transaction with one input shows a positive network fee.\<close>

lemma mining_fee_never_positive:
  assumes "getBitcore E currency = Inr bitcore" and "bc_tx bitcore txhex = Inr tx" and "utx_inputs tx = [i]"
    and "\<forall>v \<in> snd ` set (utx_outputs tx). 0 \<le> v" and "getMiningFee E currency txhex w = (Inr fee, w')"
  shows "fr_network_fee fee \<le> 0"
proof -
  have i: "i < length (utx_outputs tx)"
    using assms(1,2,3,5) by (auto simp: getMiningFee_def io_simps own_output_def split: if_splits)
  then have fee: "fr_network_fee fee = snd (utx_outputs tx ! i) - sum_list (map snd (utx_outputs tx))"
    using assms(1,2,3,5) by (auto simp: getMiningFee_def io_simps own_output_def Let_def)
  have "snd (utx_outputs tx ! i) \<in> set (map snd (utx_outputs tx))" using i by auto
  then have "snd (utx_outputs tx ! i) \<le> sum_list (map snd (utx_outputs tx))"
    using assms(4) by (intro member_le_sum_list) auto
  with fee show ?thesis by simp
qed

text \<open>The columns for the external reference and for refunds are empty in every report.\<close>

lemma report_empty_columns:
  "report_record F r ''external_id'' = None" "report_record F r ''refund_address'' = None"
  "report_record F r ''refund_txid'' = None"
  by (simp_all add: report_record_def)

end
