(* ===== verification/Blockcypher.thy ===== *)
theory Blockcypher
  imports Invoices Confirmations Fixtures
begin

text \<open>
  Confirmation by block, \<open>src/lib/blockcypher.ts\<close> and the handler of its webhook,
  \<open>src/server/v1/handlers/blockcypher_webhooks.ts\<close>: the pages of a block are fetched one by
  one and the payments found on them confirmed. The service is a parameter. The posting of a
  transaction and the administration of the webhook are calls of the service alone.
\<close>

section \<open>The service\<close>

record bcy_transaction =
  bct_block_hash :: string
  bct_block_height :: nat
  bct_confirmed :: time

record bcy_page =
  bcp_txids :: "string list"
  bcp_time :: time
  bcp_height :: nat
  bcp_hash :: string

record blockcypher =
  bcy_tx :: "nat \<Rightarrow> string \<Rightarrow> string \<Rightarrow> js_error + bcy_transaction"
  bcy_block :: "nat \<Rightarrow> string \<Rightarrow> nat \<Rightarrow> js_error + bcy_page"

definition bcy_getTransaction :: "blockcypher \<Rightarrow> string \<Rightarrow> string \<Rightarrow> bcy_transaction prog" where
  "bcy_getTransaction api chain hash =
     (let chain = (if chain = ''BCH'' then ''bitcoin-cash'' else chain) in
      ask (\<lambda>n. bcy_tx api n (to_lower chain) hash))"

section \<open>Confirming\<close>

text \<open>
  The update of the payment is not awaited, and the client runs a query only when its promise
  is: nothing of the confirmation is stored. The payment published is the row as it was.
\<close>

definition confirmTransaction ::
  "blockcypher \<Rightarrow> prisma \<Rightarrow> payment \<Rightarrow> bcy_transaction option \<Rightarrow> payment prog" where
  "confirmTransaction api P payment transaction =
     bnd (case transaction of
            None \<Rightarrow> bnd (bcy_getTransaction api (pay_currency payment) (pay_txid payment)) (\<lambda>_. ret ())
          | Some _ \<Rightarrow> ret ()) (\<lambda>_.
     bnd (find_first_or_throw (prisma_payments P) (\<lambda>p. pay_id p = pay_id payment)) (\<lambda>updatedPayment.
     bnd (publish_raw ''payment.confirmed'' (PaymentMsg updatedPayment)) (\<lambda>_.
     bnd (invoice_by_uid P (pay_invoice_uid payment)) (\<lambda>invoice.
     let originalStatus = inv_status invoice in
     bnd (update_row (prisma_invoices P) (inv_id invoice) (\<lambda>r. r\<lparr>inv_status := ''paid''\<rparr>)) (\<lambda>_.
     bnd (find_first_or_throw (prisma_invoices P) (\<lambda>r. inv_id r = inv_id invoice)) (\<lambda>invoice.
     bnd (if originalStatus = ''confirming'' then publish_raw ''invoice.paid'' (InvoiceMsg invoice) else ret ()) (\<lambda>_.
     bnd (start_job (JSendWebhookForInvoice (inv_uid invoice) ''confirmTransaction'')) (\<lambda>_.
     ret payment))))))))"

text \<open>The loop, with fuel: it goes on until a page is empty. Out of fuel it is still running.\<close>

primrec confirm_pages ::
  "nat \<Rightarrow> blockcypher \<Rightarrow> prisma \<Rightarrow> string \<Rightarrow> nat \<Rightarrow> payment list \<Rightarrow> payment list prog" where
  "confirm_pages 0 api P hash offset confirmed = throw NeverSettles"
| "confirm_pages (Suc fuel) api P hash offset confirmed =
     bnd (ask (\<lambda>n. bcy_block api n hash offset)) (\<lambda>data.
     bnd (find_many (prisma_payments P) (\<lambda>p. pay_txid p \<in> set (bcp_txids data))) (\<lambda>payments.
     bnd (map_io (\<lambda>payment. confirmTransaction api P payment
            (Some \<lparr>bct_block_hash = bcp_hash data, bct_block_height = bcp_height data, bct_confirmed = bcp_time data\<rparr>))
          payments) (\<lambda>updated.
     if bcp_txids data = [] then ret (confirmed @ updated)
     else confirm_pages fuel api P hash (offset + 500) (confirmed @ updated))))"

definition confirmTransactionsFromBlock :: "nat \<Rightarrow> blockcypher \<Rightarrow> prisma \<Rightarrow> string \<Rightarrow> payment list prog" where
  "confirmTransactionsFromBlock fuel api P hash = confirm_pages fuel api P hash 0 []"

text \<open>
  The webhook: whoever posts it, the block it names is fetched. The handler does not wait and
  answers that it succeeded; what follows runs right away here.
\<close>

definition blockcypher_webhooks_create :: "nat \<Rightarrow> blockcypher \<Rightarrow> prisma \<Rightarrow> string \<Rightarrow> bool prog" where
  "blockcypher_webhooks_create fuel api P hash =
     catch
       (bnd (publish_raw ''blockcypher.webhook.received'' (TextMsg hash)) (\<lambda>_.
        bnd (not_awaited (bnd (confirmTransactionsFromBlock fuel api P hash) (\<lambda>_. ret ()))) (\<lambda>_.
        ret True)))
       (\<lambda>_. ret False)"

section \<open>The loop ends\<close>

text \<open>The service serves a block in pages of at most 500, an empty one after the last.\<close>

definition serves_block :: "blockcypher \<Rightarrow> string \<Rightarrow> string list \<Rightarrow> bool" where
  "serves_block api hash txids \<longleftrightarrow> (\<forall>n offset. \<exists>data. bcy_block api n hash offset = Inr data \<and>
     bcp_txids data = take 500 (drop offset txids))"

lemma settles_map_io: "(\<And>x. settles (f x)) \<Longrightarrow> settles (map_io f xs)"
  by (induction xs) (auto intro: settles_rules)

lemma settles_writes:
  "settles (publish_raw k m)" "settles (start_job j)" "settles (find_many h p)" "settles (update_row h i g)"
  "settles (find_first_or_throw h p)"
  by (auto simp: settles_def publish_raw_def start_job_def update_row_def stored_run io_simps split: sum.splits option.splits)

lemma settles_confirmTransaction: "settles (confirmTransaction api P payment (Some t))"
  unfolding confirmTransaction_def invoice_by_uid_def option.case(2) by (intro settles_rules settles_writes)

lemma settles_ask_bnd:
  assumes "\<And>n. f n \<noteq> Inl NeverSettles" and "\<And>n a. f n = Inr a \<Longrightarrow> settles (k a)"
  shows "settles (bnd (ask f) k)"
  unfolding settles_def
proof
  fix w
  show "fst (bnd (ask f) k w) \<noteq> Inl NeverSettles"
    using assms(1) [of "ticks w"] assms(2) [of "ticks w"]
    by (cases "f (ticks w)") (simp_all add: bnd_run ask_run settles_def)
qed

lemma confirm_pages_settle:
  assumes "serves_block api hash txids"
  shows "0 < fuel \<Longrightarrow> length txids \<le> offset + 500 * (fuel - 1) \<Longrightarrow>
    settles (confirm_pages fuel api P hash offset confirmed)"
proof (induction fuel arbitrary: offset confirmed)
  case 0
  then show ?case by simp
next
  case (Suc fuel)
  have page: "\<exists>data. bcy_block api n hash offset = Inr data \<and> bcp_txids data = take 500 (drop offset txids)" for n
    using assms unfolding serves_block_def by blast
  show ?case
    unfolding confirm_pages.simps
  proof (rule settles_ask_bnd)
    show "bcy_block api n hash offset \<noteq> Inl NeverSettles" for n using page [of n] by auto
    fix n data assume "bcy_block api n hash offset = Inr data"
    then have d: "bcp_txids data = take 500 (drop offset txids)" using page [of n] by auto
    have more: "settles (confirm_pages fuel api P hash (offset + 500) c)" if "bcp_txids data \<noteq> []" for c
    proof (rule Suc.IH)
      have "offset < length txids" using that d by auto
      then show "0 < fuel" "length txids \<le> offset + 500 + 500 * (fuel - 1)"
        using Suc.prems(2) by (cases fuel; auto)+
    qed
    then have "settles (if bcp_txids data = [] then ret (confirmed @ updated)
        else confirm_pages fuel api P hash (offset + 500) (confirmed @ updated))" for updated
      by (simp add: settles_ret)
    then show "settles (bnd (find_many (prisma_payments P) (\<lambda>p. pay_txid p \<in> set (bcp_txids data))) (\<lambda>payments.
        bnd (map_io (\<lambda>payment. confirmTransaction api P payment
            (Some \<lparr>bct_block_hash = bcp_hash data, bct_block_height = bcp_height data, bct_confirmed = bcp_time data\<rparr>))
          payments) (\<lambda>updated. if bcp_txids data = [] then ret (confirmed @ updated)
            else confirm_pages fuel api P hash (offset + 500) (confirmed @ updated))))"
      by (intro settles_bnd settles_writes settles_map_io settles_confirmTransaction)
  qed
qed

section \<open>What is confirmed\<close>

context prisma_client
begin

lemma invoice_by_id_run:
  "ids_ok inv_id (db_invoices w) \<Longrightarrow> row (db_invoices w) i = Some r \<Longrightarrow>
   find_first_or_throw (prisma_invoices P) (\<lambda>v. inv_id v = i) w = (Inr r, w)"
  by (simp add: io_simps prisma_invoices_def ti.first_by_id)

lemma confirmTransaction_run:
  assumes ids: "ids_ok pay_id (db_payments w)" "ids_ok inv_id (db_invoices w)"
    and pay: "row (db_payments w) (pay_id payment) = Some r"
    and at: "invoice_at (pay_invoice_uid payment) w i invoice" and uq: "unique_hash (db_invoices w)"
  shows "confirmTransaction api P payment (Some t) w = (Inr payment, w\<lparr>
      db_invoices := put (db_invoices w) i (Some (invoice\<lparr>inv_status := ''paid''\<rparr>)),
      published := published w @ (''payment.confirmed'', PaymentMsg r) #
        (if inv_status invoice = ''confirming'' then [(''invoice.paid'', InvoiceMsg (invoice\<lparr>inv_status := ''paid''\<rparr>))] else []),
      jobs := jobs w @ [JSendWebhookForInvoice (inv_uid invoice) ''confirmTransaction'']\<rparr>)"
proof -
  let ?paid = "invoice\<lparr>inv_status := ''paid''\<rparr>"
  let ?u = "w\<lparr>published := published w @ [(''payment.confirmed'', PaymentMsg r)]\<rparr>"
  let ?v = "?u\<lparr>db_invoices := put (db_invoices w) i (Some ?paid)\<rparr>"
  have row: "row (db_invoices w) i = Some invoice" using at by (rule only_rowD)
  then have id: "inv_id invoice = i" by (rule ids_okD [OF ids(2)])
  have uq': "unique_hash (put (db_invoices w) i (Some ?paid))"
    by (rule unique_hash_kept [OF uq row]) simp
  have "find_first_or_throw (prisma_invoices P) (\<lambda>v. inv_id v = i) ?v = (Inr ?paid, ?v)"
    by (rule invoice_by_id_run) (simp_all add: ids_ok_put [OF ids(2)] id row_put_same [OF row])
  moreover have "invoice_by_uid P (pay_invoice_uid payment) ?u = (Inr invoice, ?u)"
    using at by (intro invoice_by_uid_run) simp
  ultimately show ?thesis
    by (simp add: confirmTransaction_def bnd_run ret_run payment_by_id_run [OF ids(1) pay] publish_raw_run Let_def
        update_invoices row id uq' start_job_run)
qed

end

section \<open>Properties\<close>

text \<open>
  What the block webhook confirms (\<open>confirmTransaction\<close> of src/src/lib/blockcypher.ts):
  the invoice of the payment becomes paid, whatever its status was, the events are published
  and the merchant's webhook is due; the payment itself keeps its row, without the block and
  in the status it had, because the query that would confirm it is never sent.
\<close>

theorem block_confirms_only_the_invoice:
  assumes "prisma_client P" and "ids_ok pay_id (db_payments w)" and "ids_ok inv_id (db_invoices w)"
    and "row (db_payments w) (pay_id payment) = Some r"
    and "invoice_at (pay_invoice_uid payment) w i invoice" and "unique_hash (db_invoices w)"
  shows "\<exists>w'. confirmTransaction api P payment (Some t) w = (Inr payment, w') \<and>
      row (db_invoices w') i = Some (invoice\<lparr>inv_status := ''paid''\<rparr>) \<and> db_payments w' = db_payments w \<and>
      (\<exists>events. published w' = published w @ (''payment.confirmed'', PaymentMsg r) # events) \<and>
      jobs w' = jobs w @ [JSendWebhookForInvoice (inv_uid invoice) ''confirmTransaction'']"
  using prisma_client.confirmTransaction_run [OF assms, of api t] row_put_same [OF only_rowD(1) [OF assms(5)]]
  by simp

text \<open>
  C31. The confirmation of a block ends (\<open>confirmTransactionsFromBlock\<close> of
  src/src/lib/blockcypher.ts): a block of n transactions takes at most n div 500 + 2 turns of
  the loop, whatever the confirmations in it do.
\<close>

theorem block_confirmation_ends:
  assumes "serves_block api hash txids" and "length txids div 500 + 2 \<le> fuel"
  shows "fst (confirmTransactionsFromBlock fuel api P hash w) \<noteq> Inl NeverSettles"
proof -
  have "length txids \<le> 500 * (length txids div 500 + 1)" by simp
  also have "\<dots> \<le> 500 * (fuel - 1)" using assms(2) by simp
  finally have "settles (confirm_pages fuel api P hash 0 [])"
    using assms(2) by (intro confirm_pages_settle [OF assms(1)]) simp_all
  then show ?thesis by (simp add: settles_def confirmTransactionsFromBlock_def)
qed

section \<open>Witnesses\<close>

definition demo_blocks :: blockcypher where
  "demo_blocks = \<lparr>bcy_tx = (\<lambda>_ _ _. Inl no_answer),
     bcy_block = (\<lambda>_ hash offset. Inr \<lparr>bcp_txids = take 500 (drop offset [''tx1'']), bcp_time = 7, bcp_height = 9, bcp_hash = hash\<rparr>)\<rparr>"

theorem block_confirms_only_the_invoice_witness:
  "let w = paid_world\<lparr>db_invoices := [Some (demo_invoice\<lparr>inv_status := ''confirming'', inv_hash := Some ''tx1''\<rparr>)]\<rparr>;
       w' = snd (confirmTransaction demo_blocks pg demo_payment
         (Some \<lparr>bct_block_hash = ''b'', bct_block_height = 9, bct_confirmed = 7\<rparr>) w)
   in row (db_invoices w') 1 = Some (demo_invoice\<lparr>inv_status := ''paid'', inv_hash := Some ''tx1''\<rparr>) \<and>
      db_payments w' = [Some demo_payment]"
proof -
  let ?i = "demo_invoice\<lparr>inv_status := ''confirming'', inv_hash := Some ''tx1''\<rparr>"
  let ?w = "paid_world\<lparr>db_invoices := [Some ?i]\<rparr>"
  have "ids_ok pay_id (db_payments ?w)" "ids_ok inv_id (db_invoices ?w)"
    "row (db_payments ?w) (pay_id demo_payment) = Some demo_payment"
    "invoice_at (pay_invoice_uid demo_payment) ?w 1 ?i" "unique_hash (db_invoices ?w)"
    by (auto simp: demo_worlds demo_rows ids_ok_def row_def only_row_def unique_hash_def unique_on_def split: if_splits)
  from block_confirms_only_the_invoice [OF prisma_client_pg this, of demo_blocks
      "\<lparr>bct_block_hash = ''b'', bct_block_height = 9, bct_confirmed = 7\<rparr>"]
  show ?thesis by (auto simp: Let_def paid_world_def)
qed

theorem block_confirmation_ends_witness:
  "fst (confirmTransactionsFromBlock 2 demo_blocks pg ''b'' paid_world) \<noteq> Inl NeverSettles"
  by (rule block_confirmation_ends [where txids = "[''tx1'']"]) (auto simp: serves_block_def demo_blocks_def)

end
