(* ===== verification/Gateway.thy ===== *)
theory Gateway
  imports Routes Portal Reports Blockcypher
begin

text \<open>
  From a request to a handler: the header rewriting of \<open>src/server/payment_requests/server.ts\<close>,
  the authentication strategies of \<open>src/server/v0/server.ts\<close>, the handlers left over from
  Server and Portal, and the modules \<open>v0\<close>, \<open>v1\<close>, \<open>jsonV2\<close> and \<open>handlers\<close> as tables from the
  names the routes use to the definitions that model them.

  A request comes decoded: the texts of its path, query and payload by name, and the larger
  payloads as records. A payload without a text its handler needs stops with \<open>JoiError\<close> here;
  in the source the checks only log, and the handler runs with an undefined value.
\<close>

section \<open>Requests\<close>

text \<open>
  The payload of a new invoice may name an account: a payload that fails its check is passed
  on as it came, and \<open>...request.payload\<close> overrides the account of the request.
\<close>

datatype payload =
  Fields "string \<Rightarrow> string option"
| NewInvoice create_invoice "account option"
| AccountChange account_payload
| NewRequest "template_option list" payment_request_options
| ProtocolPost posted
| RawPayment "js_error + string list"

record request =
  rq_headers :: "(string \<times> string) list"
  rq_remoteAddress :: string
  rq_basic :: "(string \<times> string) option"
  rq_bearer :: "string option"
  rq_params :: "string \<Rightarrow> string option"
  rq_query :: "string \<Rightarrow> string option"
  rq_payload :: payload
  rq_account :: "account option"
  rq_app_id :: "nat option"
  rq_credentials :: "credentials option"

text \<open>
  What the handlers get from packages and from services no other component uses: dates read
  from text, the date a month before another and those of a day, the printers of the reports, Blockcypher with
  the fuel of its loop, the metrics, the rows of two tables that nothing writes, and the answer
  to a raw query.
\<close>

record web =
  web_date :: "string \<Rightarrow> time option"
  web_month_before :: "time \<Rightarrow> time"
  web_parseFloat :: "string \<Rightarrow> num option"
  web_start_of_day :: "time \<Rightarrow> time"
  web_next_day :: "time \<Rightarrow> time"
  web_printers :: printers
  web_blockcypher :: blockcypher
  web_fuel :: nat
  web_metrics :: string
  web_woocommerce :: "nat \<Rightarrow> string option"
  web_products :: "nat \<Rightarrow> string list"
  web_raw_query :: "nat \<Rightarrow> string \<Rightarrow> js_error + (time \<times> num) list"

section \<open>Media types\<close>

text \<open>
  Media types of the payment protocols are replaced by that of JSON, for hapi to parse the
  body, and kept in a header of their own. One rule after the other, each on the headers the
  ones before it left.
\<close>

definition alternate_rules :: "((string \<times> string) \<times> (string \<times> string) list) list" where
  "alternate_rules = [
     ((''content-type'', ''application/payment''),
       [(''content-type'', ''application/json''), (''x-content-type'', ''application/payment'')]),
     ((''content-type'', ''application/payment-request''),
       [(''content-type'', ''application/json''), (''x-content-type'', ''application/payment-request'')]),
     ((''content-type'', ''application/payment-verification''),
       [(''content-type'', ''application/json''), (''x-content-type'', ''application/payment-verification'')]),
     ((''accept'', ''application/payment''),
       [(''content-type'', ''application/json''), (''x-content-type'', ''application/payment'')]),
     ((''content-type'', ''application/bitcoinsv-payment''),
       [(''content-type'', ''application/json''), (''x-content-type'', ''application/bitcoinsv-payment'')]),
     ((''content-type'', ''application/dash-payment''),
       [(''content-type'', ''application/json''), (''x-content-type'', ''application/dash-payment'')]),
     ((''accept'', ''application/dash-payment''),
       [(''accept'', ''application/json''), (''x-accept'', ''application/dash-payment'')]),
     ((''accept'', ''application/dash-paymentack''),
       [(''accept'', ''application/json''), (''x-accept'', ''application/dash-paymentack'')]),
     ((''accept'', ''application/bitcoinsv-paymentack''),
       [(''content-type'', ''application/json''), (''x-content-type'', ''application/bitcoinsv-payment''),
        (''x-accept'', ''application/bitcoinsv-paymentack'')]),
     ((''content-type'', ''application/verify-payment''),
       [(''content-type'', ''application/json''), (''x-content-type'', ''application/verify-payment'')]),
     ((''accept'', ''application/verify-payment''),
       [(''content-type'', ''application/json''), (''x-content-type'', ''application/verify-payment'')]),
     ((''content-type'', ''application/payment''),
       [(''content-type'', ''application/json''), (''x-content-type'', ''application/payment'')])]"

definition set_headers :: "(string \<times> string) list \<Rightarrow> (string \<times> string) list \<Rightarrow> (string \<times> string) list" where
  "set_headers h sets = foldl (\<lambda>h (name, v). AList.update name v h) h sets"

definition alternate_rule ::
  "(string \<times> string) list \<Rightarrow> (string \<times> string) \<times> (string \<times> string) list \<Rightarrow> (string \<times> string) list" where
  "alternate_rule h rule =
     (case rule of ((name, v), sets) \<Rightarrow> if map_of h name = Some v then set_headers h sets else h)"

definition alternate_headers :: "(string \<times> string) list \<Rightarrow> (string \<times> string) list" where
  "alternate_headers h = foldl alternate_rule h alternate_rules"

section \<open>Authentication\<close>

text \<open>
  The strategies \<open>NewServer\<close> registers and what their validators put into the request:
  \<open>password\<close> and \<open>prometheus\<close> only give credentials. A request the validator does not take is
  \<open>None\<close>, hapi's 401.
\<close>

definition strategies :: "string list" where
  "strategies = [''token'', ''app'', ''password'', ''prometheus'', ''jwt'']"

definition authenticate :: "ext \<Rightarrow> prisma \<Rightarrow> string \<Rightarrow> request \<Rightarrow> request option prog" where
  "authenticate E P strategy request =
     (if strategy = ''token'' then
        (case rq_basic request of
           None \<Rightarrow> ret None
         | Some (username, _) \<Rightarrow>
             bnd (validateToken P username) (\<lambda>valid.
             ret (map_option (\<lambda>c. request\<lparr>rq_account := Some (crd_account c), rq_credentials := Some c\<rparr>) valid)))
      else if strategy = ''app'' then
        (case rq_basic request of
           None \<Rightarrow> ret None
         | Some (username, _) \<Rightarrow>
             bnd (validateAppToken P username) (\<lambda>valid.
             ret (map_option (\<lambda>(c, app). request\<lparr>rq_account := Some (crd_account c),
               rq_app_id := Some (app_row_id app), rq_credentials := Some c\<rparr>) valid)))
      else if strategy = ''password'' then
        (case rq_basic request of
           None \<Rightarrow> ret None
         | Some (username, password) \<Rightarrow>
             bnd (validatePassword E P username password) (\<lambda>valid.
             ret (map_option (\<lambda>c. request\<lparr>rq_credentials := Some c\<rparr>) valid)))
      else if strategy = ''prometheus'' then
        (case rq_basic request of
           None \<Rightarrow> ret None
         | Some (username, password) \<Rightarrow>
             bnd (prometheus_auth P username password) (\<lambda>valid. ret (map_option (\<lambda>_. request) valid)))
      else
        (case rq_bearer request of
           None \<Rightarrow> ret None
         | Some token \<Rightarrow>
             bnd (validateJWT E P token) (\<lambda>valid.
             ret (map_option (\<lambda>account. request\<lparr>rq_account := Some account\<rparr>) valid))))"

section \<open>The remaining handlers\<close>

definition quoted :: "string \<Rightarrow> string" where
  "quoted s = CHR 0x27 # s @ [CHR 0x27]"

definition named :: "string \<Rightarrow> string" where
  "named s = CHR 0x22 # s @ [CHR 0x22]"

definition base_currencies_index :: "ext \<Rightarrow> price_quote list reply prog" where
  "base_currencies_index E = bnd (ask (\<lambda>n. fiat_feed E n ''USD'')) (\<lambda>currencies. ret (Reply 200 currencies))"

definition default_image_url :: string where
  "default_image_url =
     ''https://media.bitcoinfiles.org/65602243db575e3c275d6f12daff4c35860c26176f44ca88ff9d271d8201e686.jpeg''"

definition woocommerce_index :: "web \<Rightarrow> prisma \<Rightarrow> nat \<Rightarrow> (string \<times> string list) reply prog" where
  "woocommerce_index W P account_id =
     bnd (find_many (prisma_addresses P) (\<lambda>a. adr_account_id a = Some account_id)) (\<lambda>coins.
     let settingsCoins = map adr_currency coins in
     (case web_woocommerce W account_id of
        Some kept_url \<Rightarrow> ret (Reply 200 (kept_url, settingsCoins))
      | None \<Rightarrow> ret (Reply 200 (default_image_url, settingsCoins))))"

definition products_index :: "web \<Rightarrow> nat \<Rightarrow> string list reply prog" where
  "products_index W account_id = ret (Reply 200 (web_products W account_id))"

text \<open>Without the notifications to Slack.\<close>

definition support_proxy_show :: "prisma \<Rightarrow> string \<Rightarrow> string reply prog" where
  "support_proxy_show P token =
     bnd (find_first_or_throw (prisma_access_tokens P) (\<lambda>t. tok_uid t = Some token)) (\<lambda>accessToken.
     bnd (account_by_id P (tok_account_id accessToken)) (\<lambda>_.
     ret (Reply 302 ''https://anypayx.com/pay'')))"

definition prometheus_show :: "web \<Rightarrow> string reply prog" where
  "prometheus_show W = ret (Reply 200 (web_metrics W))"

definition my_account_show :: "account \<Rightarrow> account reply prog" where
  "my_account_show account = ret (Reply 200 account)"

definition transactions_create :: "unit reply prog" where
  "transactions_create = ret (Reply 200 ())"

definition webhooks_test :: "bool reply prog" where
  "webhooks_test = ret (Reply 200 True)"

text \<open>The account of the path is a text, which the client refuses to compare with a number.\<close>

definition checkout_images_image :: "string \<Rightarrow> string reply prog" where
  "checkout_images_image account_id = or_refuse 400 (throw (PrismaError InvalidValue))"

text \<open>
  The text of the query holds the currency as it came in the path, in the place of a column,
  and a placeholder that nothing fills.
\<close>

definition price_history_sql :: "string \<Rightarrow> string \<Rightarrow> string" where
  "price_history_sql currency days =
     concat [''SELECT date_trunc('', quoted ''hour'', '', '', named ''createdAt'', '') AS '', named ''createdAt'',
       '', avg('', named ''value'', '') AS '', named ''avg'', '' FROM '', named ''public'', ''.'', named ''PriceRecords'',
       '' WHERE ('', named currency, '' = $1 AND '', named ''createdAt'', '' >= CAST((now() + (INTERVAL '',
       quoted (''-'' @ days @ '' day''), '')) AS date) AND '', named ''createdAt'', '' < CAST(now() AS date)) GROUP BY date_trunc('',
       quoted ''hour'', '', '', named ''createdAt'', '') ORDER BY date_trunc('', quoted ''hour'', '', '', named ''createdAt'',
       '') ASC;'']"

definition getPriceHistory :: "web \<Rightarrow> string \<Rightarrow> (time \<times> num) list prog" where
  "getPriceHistory W currency = ask (\<lambda>n. web_raw_query W n (price_history_sql currency ''30''))"

definition v1_prices_show :: "web \<Rightarrow> string \<Rightarrow> (time \<times> num) list reply prog" where
  "v1_prices_show W currency = or_refuse 400
     (bnd (getPriceHistory W currency) (\<lambda>result. ret (Reply 200 result)))"

text \<open>
  The two reports. Who has a token has the report; the checks of their queries, which fail
  a request, come first: without a token \<open>uid: undefined\<close> would be no condition at all.
\<close>

definition csv_report :: "prisma \<Rightarrow> web \<Rightarrow> string \<Rightarrow> time \<Rightarrow> time \<Rightarrow> string reply prog" where
  "csv_report P W token start_date end_date =
     bnd (find_first (prisma_access_tokens P) (\<lambda>t. tok_uid t = Some token)) (\<lambda>found.
     (case found of
        None \<Rightarrow> ret (Refused 401 None)
      | Some t \<Rightarrow>
          bnd (buildReportCsvFromDates (web_printers W) P (tok_account_id t) (web_start_of_day W start_date)
                 (web_next_day W (web_start_of_day W end_date))) (\<lambda>content.
          ret (Reply 200 content))))"

definition csv_payments :: "prisma \<Rightarrow> web \<Rightarrow> string \<Rightarrow> string reply prog" where
  "csv_payments P W token =
     bnd (find_first (prisma_access_tokens P) (\<lambda>t. tok_uid t = Some token)) (\<lambda>found.
     (case found of
        None \<Rightarrow> ret (Refused 401 None)
      | Some t \<Rightarrow>
          bnd (account_by_id P (tok_account_id t)) (\<lambda>account.
          bnd (buildAccountCsvReport (web_printers W) P account) (\<lambda>content.
          ret (Reply 200 content)))))"

definition confirm_handler ::
  "ext \<Rightarrow> prisma \<Rightarrow> string \<Rightarrow> (payment option \<times> confirmation option) reply prog" where
  "confirm_handler E P uid = or_refuse 500
     (bnd (confirmInvoice E P uid) (\<lambda>result. ret (Reply 200 result)))"

definition fail_handler :: "unit reply prog" where
  "fail_handler = ret (Reply 400 ())"

definition redirect_handler :: "string reply prog" where
  "redirect_handler = ret (Reply 302 ''/api'')"

section \<open>What a handler reads\<close>

definition shown :: "'a reply prog \<Rightarrow> unit reply prog" where
  "shown m = answering (\<lambda>_. ()) m"

definition answering_plain :: "'a prog \<Rightarrow> 'a reply prog" where
  "answering_plain m = bnd m (\<lambda>x. ret (Reply 200 x))"

text \<open>Without a strategy that sets it the account of the request is undefined.\<close>

definition with_account :: "request \<Rightarrow> (account \<Rightarrow> 'a reply prog) \<Rightarrow> unit reply prog" where
  "with_account request k = (case rq_account request of None \<Rightarrow> throw JsTypeError | Some a \<Rightarrow> shown (k a))"

definition with_credentials :: "request \<Rightarrow> (credentials \<Rightarrow> 'a reply prog) \<Rightarrow> unit reply prog" where
  "with_credentials request k = (case rq_credentials request of None \<Rightarrow> throw JsTypeError | Some c \<Rightarrow> shown (k c))"

definition with_app :: "request \<Rightarrow> (nat \<Rightarrow> 'a reply prog) \<Rightarrow> unit reply prog" where
  "with_app request k = (case rq_app_id request of None \<Rightarrow> throw JsTypeError | Some i \<Rightarrow> shown (k i))"

definition field :: "request \<Rightarrow> string \<Rightarrow> string option" where
  "field request name = (case rq_payload request of Fields f \<Rightarrow> f name | _ \<Rightarrow> None)"

definition given :: "string option \<Rightarrow> (string \<Rightarrow> unit reply prog) \<Rightarrow> unit reply prog" where
  "given v k = (case v of None \<Rightarrow> throw JoiError | Some x \<Rightarrow> k x)"

text \<open>A number a check converts: no check, or one that fails, leaves the text, which the client refuses.\<close>

definition whole :: "ext \<Rightarrow> string \<Rightarrow> nat option" where
  "whole E s = (case joi_number E s of None \<Rightarrow> None
     | Some n \<Rightarrow> if 0 \<le> n \<and> of_int \<lfloor>n\<rfloor> = n then Some (nat \<lfloor>n\<rfloor>) else None)"

definition with_number :: "ext \<Rightarrow> string option \<Rightarrow> (nat option \<Rightarrow> unit reply prog) \<Rightarrow> unit reply prog" where
  "with_number E v k =
     (case v of None \<Rightarrow> k None
      | Some s \<Rightarrow> (case whole E s of None \<Rightarrow> throw (PrismaError InvalidValue) | Some n \<Rightarrow> k (Some n)))"

definition unchecked_number :: "string option \<Rightarrow> unit reply prog \<Rightarrow> unit reply prog" where
  "unchecked_number v m = (if truthy v then throw (PrismaError InvalidValue) else m)"

definition origin_of :: "request \<Rightarrow> origin" where
  "origin_of request = \<lparr>org_remoteAddress = rq_remoteAddress request,
     org_forwarded_for = map_of (rq_headers request) ''x-forwarded-for''\<rparr>"

definition user_agent :: "request \<Rightarrow> string option" where
  "user_agent request = str_or (map_of (rq_headers request) ''User-Agent'') (map_of (rq_headers request) ''user-agent'')"

definition with_new_account :: "request \<Rightarrow> (new_account \<Rightarrow> unit reply prog) \<Rightarrow> unit reply prog" where
  "with_new_account request k =
     given (field request ''email'') (\<lambda>email. given (field request ''password'') (\<lambda>password.
       k \<lparr>na_email = email, na_password = password\<rparr>))"

text \<open>\<open>{ account, ...request.payload }\<close> of v0, and the named fields of v1.\<close>

definition spread_invoice :: "request \<Rightarrow> (create_invoice \<Rightarrow> unit reply prog) \<Rightarrow> unit reply prog" where
  "spread_invoice request k =
     (case rq_payload request of
        NewInvoice params named_account \<Rightarrow>
          (case named_account of
             Some account \<Rightarrow> k (params\<lparr>ci_account := account\<rparr>)
           | None \<Rightarrow> (case rq_account request of None \<Rightarrow> throw JsTypeError
               | Some account \<Rightarrow> k (params\<lparr>ci_account := account\<rparr>)))
      | _ \<Rightarrow> throw JoiError)"

definition named_invoice :: "request \<Rightarrow> (create_invoice \<Rightarrow> unit reply prog) \<Rightarrow> unit reply prog" where
  "named_invoice request k =
     (case rq_payload request of
        NewInvoice params _ \<Rightarrow>
          (case rq_account request of None \<Rightarrow> throw JsTypeError | Some account \<Rightarrow> k (params\<lparr>ci_account := account\<rparr>))
      | _ \<Rightarrow> throw JoiError)"

definition posted_payload :: "request \<Rightarrow> (posted \<Rightarrow> unit reply prog) \<Rightarrow> unit reply prog" where
  "posted_payload request k = (case rq_payload request of ProtocolPost p \<Rightarrow> k p | _ \<Rightarrow> throw JoiError)"
section \<open>The handlers by name\<close>

text \<open>
  A text in the place of a number or a date stops the request before its handler, with the
  error of the client. \<open>src/server/handlers.ts\<close> and the modules it collects.
\<close>

definition with_date :: "web \<Rightarrow> string option \<Rightarrow> (time option \<Rightarrow> unit reply prog) \<Rightarrow> unit reply prog" where
  "with_date W v k =
     (if truthy v then (case web_date W (the v) of None \<Rightarrow> throw (PrismaError InvalidValue) | Some t \<Rightarrow> k (Some t))
      else k None)"

definition payreq_endpoints :: "ext \<Rightarrow> prisma \<Rightarrow> request \<Rightarrow> (string \<times> unit reply prog) list" where
  "payreq_endpoints E P q = [
     (''payreq.PaymentRequests.show'', given (rq_params q ''uid'') (\<lambda>uid. shown (requests_show E P (map_of (rq_headers q)) uid))),
     (''payreq.Bip270PaymentRequests.create'', given (rq_params q ''uid'') (\<lambda>uid.
        given (field q ''transaction'') (\<lambda>hex. shown (bip270_create E P (map_of (rq_headers q)) uid hex)))),
     (''payreq.Bip70PaymentRequests.create'', given (rq_params q ''uid'') (\<lambda>uid.
        case rq_payload q of
          RawPayment decoded \<Rightarrow> shown (bip70_create E P (map_of (rq_headers q)) uid decoded)
        | _ \<Rightarrow> throw JoiError))]"

definition jsonV2_endpoints :: "ext \<Rightarrow> prisma \<Rightarrow> request \<Rightarrow> (string \<times> unit reply prog) list" where
  "jsonV2_endpoints E P q = [
     (''jsonV2.Protocol.listPaymentOptions'', given (rq_params q ''uid'') (\<lambda>uid.
        shown (http_listPaymentOptions E P (map_of (rq_headers q)) uid))),
     (''jsonV2.Protocol.handlePost'', given (rq_params q ''uid'') (\<lambda>uid.
        posted_payload q (\<lambda>p. shown (handlePost E P (map_of (rq_headers q)) uid p))))]"

definition v0_shop_endpoints :: "ext \<Rightarrow> prisma \<Rightarrow> web \<Rightarrow> request \<Rightarrow> (string \<times> unit reply prog) list" where
  "v0_shop_endpoints E P W q = [
     (''v0.Invoices.index'', with_date W (rq_query q ''start_date_created'') (\<lambda>s.
        with_date W (rq_query q ''end_date_created'') (\<lambda>e.
        unchecked_number (rq_query q ''limit'') (unchecked_number (rq_query q ''offset'') (shown (v0_index P s e None None)))))),
     (''v0.Invoices.cancel'', with_account q (\<lambda>a. given (rq_params q ''uid'') (\<lambda>uid. shown (v0_cancel P (acc_id a) uid)))),
     (''v0.Invoices.create'', spread_invoice q (\<lambda>params. shown (v0_create E P params))),
     (''v0.Invoices.createDeprecated'', spread_invoice q (\<lambda>params. shown (createDeprecated E P params))),
     (''v0.Invoices.show'', given (rq_params q ''invoice_id'') (\<lambda>uid. shown (v0_show E P uid))),
     (''v0.Invoices.showDeprecated'', given (rq_params q ''invoice_id'') (\<lambda>uid. shown (showDeprecated E P uid))),
     (''v0.InvoiceNotes.create'', with_account q (\<lambda>a. given (rq_params q ''invoice_uid'') (\<lambda>uid.
        given (field q ''note'') (\<lambda>note. shown (invoice_notes_create P (acc_id a) uid note))))),
     (''v0.InvoicePaymentOptions.show'', given (rq_params q ''invoice_uid'') (\<lambda>uid. shown (invoice_payment_options_show P uid))),
     (''v0.PaymentRequests.create'', with_app q (\<lambda>app_id.
        case rq_payload q of NewRequest template opts \<Rightarrow> shown (v0_create_request E P app_id template opts) | _ \<Rightarrow> throw JoiError)),
     (''v0.PaymentRequests.cancel'', with_app q (\<lambda>app_id. given (rq_params q ''uid'') (\<lambda>uid. shown (cancel_request P app_id uid)))),
     (''v0.Woocommerce.index'', with_account q (\<lambda>a. woocommerce_index W P (acc_id a))),
     (''v0.Products.index'', with_account q (\<lambda>a. products_index W (acc_id a))),
     (''v0.BaseCurrencies.index'', shown (base_currencies_index E)),
     (''v0.PriceConversions.show'', given (rq_params q ''oldcurrency'') (\<lambda>c. given (rq_params q ''oldamount'') (\<lambda>n.
        given (rq_params q ''newcurrency'') (\<lambda>d.
        case web_parseFloat W n of None \<Rightarrow> throw (PrismaError InvalidValue)
        | Some x \<Rightarrow> shown (price_conversions_show E P c x d))))),
     (''v0.Merchants.show'', given (rq_params q ''account_id'') (\<lambda>i. shown (merchants_show P i))),
     (''v0.Anypaycity.show'', given (rq_params q ''email'') (\<lambda>email. shown (anypaycity_show P email))),
     (''v0.SupportProxy.show'', given (rq_params q ''token'') (\<lambda>t. shown (support_proxy_show P t))),
     (''v0.Prometheus.show'', shown (prometheus_show W))]"

definition v0_account_endpoints :: "ext \<Rightarrow> prisma \<Rightarrow> web \<Rightarrow> request \<Rightarrow> (string \<times> unit reply prog) list" where
  "v0_account_endpoints E P W q = [
     (''v0.AccessTokens.create'', with_credentials q (\<lambda>c. access_tokens_create E P (origin_of q) (user_agent q) c)),
     (''v0.Accounts.create'', with_new_account q (\<lambda>n. shown (v0_accounts_create E P (origin_of q) n))),
     (''v0.Accounts.show'', with_account q (\<lambda>a. v0_accounts_show P (acc_id a))),
     (''v0.Accounts.showPublic'', given (rq_params q ''id'') (\<lambda>i. shown (showPublic (web_month_before W) P i))),
     (''v0.Accounts.update'', with_account q (\<lambda>a.
        case rq_payload q of AccountChange change \<Rightarrow> shown (v0_accounts_update P a change) | _ \<Rightarrow> throw JoiError)),
     (''v0.Addresses.destroy'', with_account q (\<lambda>a. given (rq_params q ''currency'') (\<lambda>c.
        shown (v0_addresses_destroy P (acc_id a) c)))),
     (''v0.Addresses.list'', with_account q (\<lambda>a. v0_addresses_list P (acc_id a))),
     (''v0.Addresses.index'', with_account q (\<lambda>a. v0_addresses_index P (acc_id a))),
     (''v0.Addresses.update'', with_account q (\<lambda>a. given (field q ''currency'') (\<lambda>c. given (field q ''chain'') (\<lambda>ch.
        given (field q ''address'') (\<lambda>x. shown (v0_addresses_update E P (acc_id a) c ch x)))))),
     (''v0.Addresses.updateLegacy'', with_account q (\<lambda>a. given (rq_params q ''currency'') (\<lambda>c.
        given (field q ''address'') (\<lambda>x. shown (v0_addresses_updateLegacy E P (acc_id a) c x))))),
     (''v0.AddressNotes.update'', with_account q (\<lambda>a. with_number E (rq_params q ''id'') (\<lambda>i.
        given (field q ''note'') (\<lambda>note. case i of None \<Rightarrow> throw JoiError
          | Some i \<Rightarrow> shown (address_notes_update P (acc_id a) i note))))),
     (''v0.ApiKeys.index'', with_account q (\<lambda>a. api_keys_index E P (acc_id a))),
     (''v0.Apps.index'', with_account q (\<lambda>a. apps_index P (acc_id a))),
     (''v0.Apps.show'', with_account q (\<lambda>a. with_number E (rq_params q ''id'') (\<lambda>i.
        case i of None \<Rightarrow> throw JoiError | Some i \<Rightarrow> shown (apps_show P (acc_id a) i)))),
     (''v0.Apps.create'', with_account q (\<lambda>a. given (field q ''name'') (\<lambda>name. shown (apps_create E P (acc_id a) name)))),
     (''v0.Coins.list'', with_account q (\<lambda>a. v0_coins_list E P (acc_id a))),
     (''v0.Denominations.show'', with_credentials q (\<lambda>c. denominations_show P (tok_account_id (crd_token c)))),
     (''v0.Denominations.update'', with_credentials q (\<lambda>c. given (field q ''denomination'') (\<lambda>d.
        shown (denominations_update P (tok_account_id (crd_token c)) d)))),
     (''v0.FirebaseTokens.show'', with_account q (\<lambda>a. firebase_tokens_show P (acc_id a))),
     (''v0.FirebaseTokens.create'', with_account q (\<lambda>a. given (field q ''firebase_token'') (\<lambda>t.
        shown (firebase_tokens_create P (acc_id a) t)))),
     (''v0.FirebaseTokens.update'', with_account q (\<lambda>a. given (field q ''firebase_token'') (\<lambda>t.
        shown (firebase_tokens_create P (acc_id a) t)))),
     (''v0.KrakenApiKeys.create'', with_account q (\<lambda>a. given (field q ''api_key'') (\<lambda>k. given (field q ''api_secret'') (\<lambda>s.
        shown (kraken_api_keys_create P (acc_id a) k s))))),
     (''v0.KrakenApiKeys.show'', with_account q (\<lambda>a. kraken_api_keys_show P (acc_id a))),
     (''v0.KrakenApiKeys.destroy'', with_account q (\<lambda>a. kraken_api_keys_destroy P (acc_id a))),
     (''v0.Passwords.reset'', given (field q ''email'') (\<lambda>email. shown (v0_password_reset email))),
     (''v0.Passwords.claim'', given (rq_params q ''uid'') (\<lambda>uid. given (field q ''password'') (\<lambda>p. shown (password_claim E P uid p)))),
     (''v0.Search.create'', with_account q (\<lambda>a. given (field q ''search'') (\<lambda>s. shown (search_create P a s))))]"

definition v1_endpoints :: "ext \<Rightarrow> prisma \<Rightarrow> web \<Rightarrow> request \<Rightarrow> (string \<times> unit reply prog) list" where
  "v1_endpoints E P W q = [
     (''v1.AccessKeys.index'', with_account q (\<lambda>a. access_keys_index E P (acc_id a))),
     (''v1.AccountEvents.index'', with_account q (\<lambda>a. account_events_index P a (rq_query q ''order'' = Some ''asc''))),
     (''v1.AccountLogins.create'', with_new_account q (\<lambda>n. shown (account_logins_create E P (origin_of q) n))),
     (''v1.AccountRegistrations.create'', with_new_account q (\<lambda>n. shown (account_registrations_create E P (origin_of q) n))),
     (''v1.Addresses.index'', with_account q (\<lambda>a. v1_addresses_index E P a)),
     (''v1.Addresses.update'', with_account q (\<lambda>a. given (field q ''currency'') (\<lambda>c. given (field q ''value'') (\<lambda>x.
        shown (v1_addresses_update E P a (field q ''chain'') c x))))),
     (''v1.Addresses.remove'', with_account q (\<lambda>a. given (rq_params q ''code'') (\<lambda>c. shown (v1_addresses_remove P a c)))),
     (''v1.BlockcypherWebhooks.create'',
        shown (answering_plain (blockcypher_webhooks_create (web_fuel W) (web_blockcypher W) P (string_or_undefined (field q ''hash''))))),
     (''v1.Coins.index'', shown (v1_coins_index E P)),
     (''v1.InvoiceEvents.index'', with_account q (\<lambda>a. given (rq_params q ''invoice_uid'') (\<lambda>uid.
        shown (invoice_events_index P (acc_id a) uid)))),
     (''v1.Invoices.create'', named_invoice q (\<lambda>params. shown (v1_create E P params False (rq_headers q)))),
     (''v1.Invoices.show'', shown (v1_show P (rq_params q ''invoice_uid''))),
     (''v1.LinkedAccountPayments.index'', with_account q (\<lambda>a. with_number E (rq_params q ''account_id'') (\<lambda>i.
        with_number E (rq_query q ''limit'') (\<lambda>l. with_number E (rq_query q ''offset'') (\<lambda>n.
        case i of None \<Rightarrow> throw JoiError | Some i \<Rightarrow> shown (linked_account_payments P a i l n)))))),
     (''v1.LinkedAccounts.index'', with_account q (\<lambda>a. linked_accounts_index P a)),
     (''v1.LinkedAccounts.create'', with_account q (\<lambda>a. given (field q ''email'') (\<lambda>email. shown (linked_accounts_create P a email)))),
     (''v1.LinkedAccounts.unlink'', with_account q (\<lambda>a. given (rq_params q ''id'') (\<lambda>i. shown (linked_accounts_unlink P a i)))),
     (''v1.MyAccount.show'', with_account q my_account_show),
     (''v1.PasswordResets.create'', given (field q ''email'') (\<lambda>email. shown (v1_password_reset E P email))),
     (''v1.Payments.index'', with_account q (\<lambda>a. with_number E (rq_query q ''limit'') (\<lambda>l.
        with_number E (rq_query q ''offset'') (\<lambda>n. shown (payments_index P (acc_id a) l n))))),
     (''v1.Payments.show'', given (rq_params q ''invoice_uid'') (\<lambda>uid. shown (payments_show P uid))),
     (''v1.Prices.index'', shown (v1_prices_index P)),
     (''v1.Prices.show'', given (rq_params q ''currency'') (\<lambda>c. shown (v1_prices_show W c))),
     (''v1.Refunds.show'', with_account q (\<lambda>a. given (rq_params q ''invoice_uid'') (\<lambda>uid. shown (v1_refund E P (acc_id a) uid)))),
     (''v1.Search.create'', with_account q (\<lambda>a. given (field q ''search'') (\<lambda>s. shown (search_create P a s)))),
     (''v1.Transactions.create'', transactions_create),
     (''v1.Transactions.decode'', given (field q ''chain'') (\<lambda>ch. given (field q ''currency'') (\<lambda>c.
        given (field q ''txhex'') (\<lambda>hex. shown (transactions_decode E ch c hex))))),
     (''v1.Webhooks.index'', with_account q (\<lambda>a. unchecked_number (rq_query q ''limit'')
        (unchecked_number (rq_query q ''offset'') (shown (webhooks_index P a None None))))),
     (''v1.Webhooks.attempt'', with_account q (\<lambda>a. given (rq_params q ''invoice_uid'') (\<lambda>uid.
        shown (webhooks_attempt E P (acc_id a) uid)))),
     (''v1.Webhooks.test'', shown webhooks_test),
     (''v1.WoocommerceCheckoutImages.image'', given (rq_params q ''account_id'') (\<lambda>i. shown (checkout_images_image i))),
     (''v1.WoocommerceCheckoutImages.index'', shown checkout_images_index),
     (''v1.WoocommerceCheckoutImages.show'', with_account q (\<lambda>a. checkout_images_show P (acc_id a))),
     (''v1.WoocommerceCheckoutImages.update'', with_account q (\<lambda>a. given (field q ''name'') (\<lambda>name.
        shown (checkout_images_update P (acc_id a) name)))),
     (''v1.fail'', fail_handler)]"

definition other_endpoints :: "ext \<Rightarrow> prisma \<Rightarrow> web \<Rightarrow> request \<Rightarrow> (string \<times> unit reply prog) list" where
  "other_endpoints E P W q = [
     (''invoiceConfirm'', given (rq_params q ''uid'') (\<lambda>uid. shown (confirm_handler E P uid))),
     (''csv.report'', given (rq_query q ''token'') (\<lambda>token.
        with_date W (rq_query q ''start_date'') (\<lambda>s. with_date W (rq_query q ''end_date'') (\<lambda>e.
        case (s, e) of (Some s, Some e) \<Rightarrow> shown (csv_report P W token s e) | _ \<Rightarrow> throw JoiError)))),
     (''csv.payments'', given (rq_query q ''token'') (\<lambda>token. shown (csv_payments P W token))),
     (''redirect'', shown redirect_handler)]"

definition endpoints :: "ext \<Rightarrow> prisma \<Rightarrow> web \<Rightarrow> request \<Rightarrow> (string \<times> unit reply prog) list" where
  "endpoints E P W q = payreq_endpoints E P q @ jsonV2_endpoints E P q @ v0_shop_endpoints E P W q @
     v0_account_endpoints E P W q @ v1_endpoints E P W q @ other_endpoints E P W q"

section \<open>Serving a request\<close>

text \<open>
  The headers are rewritten, the strategy of the route is asked, and then its handler runs
  with what the strategy put into the request.
\<close>

definition received :: "request \<Rightarrow> request" where
  "received q = q\<lparr>rq_headers := alternate_headers (rq_headers q), rq_account := None, rq_app_id := None,
     rq_credentials := None\<rparr>"

definition serve_route :: "ext \<Rightarrow> prisma \<Rightarrow> web \<Rightarrow> route \<Rightarrow> request \<Rightarrow> unit reply prog" where
  "serve_route E P W r q =
     bnd (case ro_auth r of None \<Rightarrow> ret (Some (received q)) | Some strategy \<Rightarrow> authenticate E P strategy (received q)) (\<lambda>found.
     (case found of
        None \<Rightarrow> ret (Refused 401 None)
      | Some q \<Rightarrow> (case map_of (endpoints E P W q) (ro_handler r) of None \<Rightarrow> ret (Refused 404 None) | Some m \<Rightarrow> m)))"

text \<open>The code of the answer: an error the handler lets through is a 500, with its message as the body.\<close>

definition status_code :: "js_error + unit reply \<Rightarrow> nat" where
  "status_code r = (case r of Inl _ \<Rightarrow> 500 | Inr (Reply n _) \<Rightarrow> n | Inr (Refused n _) \<Rightarrow> n)"

end
