(* ===== verification/Owners.thy ===== *)
theory Owners
  imports Gateway AddressFacts PortalFacts System
begin

text \<open>
  Who can change where an account is paid: what each handler does to the table of addresses.
  Most of the server leaves the table alone (\<open>unmoved\<close>); the handlers of addresses write rows
  of the account of the request only (\<open>confined\<close>).
\<close>

section \<open>What leaves the addresses alone\<close>

named_theorems unmoved_intros \<open>computations that leave the addresses alone\<close>

definition unmoved :: "world \<Rightarrow> world \<Rightarrow> bool" where
  "unmoved w w' \<longleftrightarrow> db_addresses w' = db_addresses w"

interpretation unmoved: history unmoved
  by unfold_locales (simp_all add: unmoved_def)

declare unmoved.follows_rules [unmoved_intros] unmoved.follows_reads_db [unmoved_intros]

definition elsewhere :: "(world, 'r) handle \<Rightarrow> bool" where
  "elsewhere h \<longleftrightarrow> (\<forall>g w. db_addresses (h_set h g w) = db_addresses w)"

lemma elsewhere_tables [unmoved_intros]:
  "elsewhere (prisma_invoices P)" "elsewhere (prisma_payments P)" "elsewhere (prisma_payment_options P)"
  "elsewhere (prisma_payment_requests P)" "elsewhere (prisma_accounts P)" "elsewhere (prisma_apps P)"
  "elsewhere (prisma_access_tokens P)" "elsewhere (prisma_refunds P)" "elsewhere (prisma_linked_accounts P)"
  "elsewhere (prisma_webhooks P)" "elsewhere (prisma_webhook_attempts P)" "elsewhere (prisma_events P)"
  "elsewhere (prisma_account_settings P)" "elsewhere (prisma_invoice_notes P)"
  "elsewhere (prisma_payment_submissions P)" "elsewhere (prisma_kraken_accounts P)"
  "elsewhere (prisma_password_resets P)" "elsewhere (prisma_firebase_tokens P)" "elsewhere (prisma_logins P)"
  by (simp_all add: elsewhere_def handle_defs)

lemma unmoved_stored:
  assumes "elsewhere h"
  shows "follows unmoved (create_row h f)" "follows unmoved (update_row h i g)" "follows unmoved (delete_row h i)"
  using assms unfolding create_row_def update_row_def delete_row_def
  by (auto intro!: unmoved.follows_stored simp: elsewhere_def unmoved_def)

declare unmoved_stored [unmoved_intros]

lemma unmoved_plain [unmoved_intros]:
  "follows unmoved (ask x)" "follows unmoved (publish_raw key m)" "follows unmoved (start_job j)"
  by (simp_all add: follows_def unmoved_def ask_run publish_raw_run start_job_run)

lemma unmoved_not_awaited [unmoved_intros]: "follows unmoved m \<Longrightarrow> follows unmoved (not_awaited m)"
  unfolding follows_def not_awaited_def unmoved_def by (auto split: prod.splits sum.splits) (metis snd_conv)+

lemma unmoved_writes: "(\<And>w. db_addresses (f w) = db_addresses w) \<Longrightarrow> follows unmoved (writes f)"
  by (rule unmoved.follows_writes) (simp add: unmoved_def)

lemma unmoved_quiet:
  "follows silent m \<Longrightarrow> follows unmoved m" "follows network m \<Longrightarrow> follows unmoved m"
proof -
  have "silent w w' \<Longrightarrow> unmoved w w'" "network w w' \<Longrightarrow> unmoved w w'" for w w'
    by (auto simp: silent_def network_def unmoved_def)
  then show "follows silent m \<Longrightarrow> follows unmoved m" "follows network m \<Longrightarrow> follows unmoved m"
    by (simp_all add: follows_def)
qed

lemma unmoved_replies [unmoved_intros]:
  "follows unmoved m \<Longrightarrow> follows unmoved (or_refuse code m)"
  "follows unmoved m' \<Longrightarrow> follows unmoved (answering f m')" "follows unmoved m'' \<Longrightarrow> follows unmoved (shown m'')"
  "follows unmoved m3 \<Longrightarrow> follows unmoved (answering_plain m3)"
  unfolding or_refuse_def shown_def answering_def answering_plain_def by (intro unmoved_intros | assumption)+

section \<open>Plugins\<close>

lemma unmoved_confirmations:
  "\<forall>p \<in> snd ` set (plugins E). \<forall>h. follows unmoved (plg_getConfirmation p h)"
proof -
  have "follows unmoved (node_getConfirmation E url h)" "follows unmoved (UTXO_getConfirmation E u h)"
    "follows unmoved (BTC_getConfirmation E h)" "follows unmoved (BSV_getConfirmation E h)"
    "follows unmoved (EVM_getConfirmation E url h)" "follows unmoved (XRP_getConfirmation E h)"
    "follows unmoved (Solana_getConfirmation E h)" "follows unmoved (XMR_getConfirmation E h)" for url u h
    unfolding confirmation_defs by (intro unmoved_intros)+
  then show ?thesis
    by (simp add: plugins_def utxo_plugins evm_plugins erc20_plugins other_plugins class_defs throws
        unmoved_intros)
qed

lemma unmoved_with_plugin:
  assumes "\<And>p. find_plugin E currency chain = Inr p \<Longrightarrow> follows unmoved (f p)"
  shows "follows unmoved (with_plugin E currency chain f)"
    and "follows unmoved (bnd (lift_result (find_plugin E currency chain)) f)"
  using assms
  by (cases "find_plugin E currency chain"; auto simp: with_plugin_def follows_def bnd_run lift_result_run unmoved.R_refl)+

lemma found_plugin_unmoved:
  assumes "find_plugin E currency chain = Inr p"
  shows "follows unmoved (plg_verifyPayment p po t)" "follows unmoved (plg_parsePayments p t)"
    "follows unmoved (plg_broadcastTx p t)" "follows unmoved (plg_transformAddress p a)"
    "follows unmoved (plg_validateAddress p a)" "follows unmoved (plg_validateUnsignedTx p po ts)"
    "follows unmoved (plg_getConfirmation p h)"
proof -
  have p: "p \<in> snd ` set (plugins E)" using assms by (force simp: find_plugin_iff)
  with plugins_validate_silent [of E] have "follows silent (plg_validateUnsignedTx p po ts)" by blast
  then show "follows unmoved (plg_validateUnsignedTx p po ts)" by (rule unmoved_quiet)
  from p unmoved_confirmations [of E] show "follows unmoved (plg_getConfirmation p h)" by blast
qed (intro unmoved_quiet found_plugin_quiet [OF assms] found_plugin_reads [OF assms])+

lemma unmoved_plugins [unmoved_intros]:
  "follows unmoved (plugins_parsePayments E currency chain t)" "follows unmoved (plugins_verifyPayment E po t)"
  "follows unmoved (getConfirmation E hash' chain currency)" "follows unmoved (getNewAddress E a chain currency)"
  unfolding plugins_parsePayments_def plugins_verifyPayment_def getConfirmation_def getNewAddress_def
  by (intro unmoved_with_plugin found_plugin_unmoved unmoved.follows_ret; assumption)+

section \<open>The libraries\<close>

lemma unmoved_events [unmoved_intros]:
  "follows unmoved (invoice_by_uid P uid)" "follows unmoved (publishEvent key e)" "follows unmoved (publish key e)"
  "follows unmoved (post E url body)" "follows unmoved (payment_by_invoice P uid)"
  "follows unmoved (listAccountEvents P a opts)" "follows unmoved (listInvoiceEvents P i ty)"
  "follows unmoved (account_by_id P n)"
  unfolding invoice_by_uid_def publishEvent_def publish_to_def publish_def post_def payment_by_invoice_def
    listAccountEvents_def listInvoiceEvents_def account_by_id_def
  by (intro unmoved_intros unmoved_writes | simp)+

lemma unmoved_prices [unmoved_intros]:
  "follows unmoved (convert E P a c)" "follows unmoved (createConversion E P a c)" "follows unmoved getCoins"
  "follows unmoved (getCoin c)" "follows unmoved (listPrices P)"
  unfolding convert_def convert_direct_def find_price_def createConversion_def getCoins_def getCoin_def listPrices_def
  by (intro unmoved_intros | simp)+

lemma unmoved_webhooks [unmoved_intros]:
  "follows unmoved (createAndSendWebhook P topic e)" "follows unmoved (attemptWebhook E P h)"
  "follows unmoved (webhookForInvoice P i)" "follows unmoved (listForAccount P a l n)"
  unfolding createAndSendWebhook_def create_app_webhook_def create_account_webhook_def attemptWebhook_def
    attempt_succeeded_def attempt_failed_def webhookForInvoice_def listForAccount_def
  by (intro unmoved_intros)+

lemma unmoved_payments [unmoved_intros]:
  "follows unmoved (completePayment E P po t b)" "follows unmoved (handleUnconfirmedPayment E P po t)"
  "follows unmoved (pay_verifyPayment E po t)" "follows unmoved (listPayments P n l i)"
  unfolding completePayment_def handleUnconfirmedPayment_def payment_txid_def pay_verifyPayment_def listPayments_def
  by (intro unmoved_intros)+

lemma unmoved_confirming [unmoved_intros]:
  "follows unmoved (confirmPayment P q c)" "follows unmoved (confirmPaymentByTxid P h c)"
  unfolding confirmPayment_def confirmPaymentByTxid_def payment_by_txid_def
  by (intro unmoved_intros)+

lemma unmoved_confirmInvoice [unmoved_intros]: "follows unmoved (confirmInvoice E P uid)"
  unfolding confirmInvoice_def Let_def by (intro unmoved_intros)

lemma unmoved_options [unmoved_intros]:
  "follows unmoved (createPaymentOptions E P a i)" "follows unmoved (isExpired i)"
  "follows unmoved (refreshInvoice E P uid)" "follows unmoved (getPaymentOptions E P uid)"
  "follows unmoved (ensureInvoice P uid)" "follows unmoved (getInvoice P uid)" "follows unmoved (cancelInvoice P i)"
  unfolding createPaymentOptions_def create_option_def quote_address_def listAvailableAddresses_def isExpired_def
    refreshInvoice_def refresh_option_def refreshed_output_def getPaymentOptions_def getPaymentRequest_def
    getRequiredFeeRate_def getFeeRate_def ensureInvoice_def getInvoice_def cancelInvoice_def
  by (intro unmoved_intros | simp only: Let_def)+

lemma unmoved_createInvoice [unmoved_intros]: "follows unmoved (createInvoice E P params)"
  unfolding createInvoice_def by (intro unmoved_intros | simp only: Let_def)+

lemma unmoved_requests [unmoved_intros]:
  "follows unmoved (createEmptyInvoice E P n o')" "follows unmoved (paymentRequestToPaymentOptions E P r)"
  "follows unmoved (createApp E P name n)" "follows unmoved (createAppToken E P n)"
  "follows unmoved (getAddressForInvoice E i)"
  unfolding createEmptyInvoice_def paymentRequestToPaymentOptions_def option_of_template_def priced_output_def
    createApp_def createAppToken_def getAddressForInvoice_def getDecodedTransaction_def
  by (intro unmoved_intros | simp only: Let_def)+

lemma unmoved_createPaymentRequest [unmoved_intros]:
  "follows unmoved (createPaymentRequest E P n t o')" "follows unmoved (getRefund E P i a)"
  unfolding createPaymentRequest_def getRefund_def by (intro unmoved_intros | simp only: Let_def)+

lemma unmoved_protocol [unmoved_intros]:
  "follows unmoved (getPaymentRequest E P i ch c)" "follows unmoved (listPaymentOptions E P i)"
  "follows unmoved (jsonV2_buildPaymentRequest E po t' memo)" "follows unmoved (bip270_buildPaymentRequest E P po)"
  "follows unmoved (bip70_buildPaymentRequest E po memo)"
  unfolding getPaymentRequest_def listPaymentOptions_def offer_of_def getRequiredFeeRate_def getFeeRate_def
    jsonV2_buildPaymentRequest_def bip270_buildPaymentRequest_def getMerchantData_def bip270_buildOutputs_def
    bip70_buildPaymentRequest_def bip70_buildOutputs_def
  by (intro unmoved_intros | simp only: Let_def)+

lemma unmoved_submission:
  assumes "find_plugin E currency chain = Inr plugin"
  shows "follows unmoved (broadcast_transaction P plugin po invoice t)"
    "follows unmoved (submit_transaction E P q invoice po plugin t)"
proof -
  show b: "follows unmoved (broadcast_transaction P plugin po invoice t)" for t
    unfolding broadcast_transaction_def set_invoice_hash_def
    by (intro unmoved_intros found_plugin_unmoved [OF assms])
  show "follows unmoved (submit_transaction E P q invoice po plugin t)"
    unfolding submit_transaction_def record_transaction_def note_wallet_def set_invoice_hash_def
    by (intro unmoved_intros found_plugin_unmoved [OF assms] b | simp only: Let_def)+
qed

lemma unmoved_submitPayment [unmoved_intros]: "follows unmoved (submitPayment E P request)"
  unfolding submitPayment_def Let_def
  by (intro unmoved_intros unmoved_with_plugin unmoved_submission | assumption)+

lemma unmoved_verifyUnsigned [unmoved_intros]: "follows unmoved (verifyUnsignedPayment E P invoice params)"
  unfolding verifyUnsignedPayment_def verifyUnsigned_def Let_def
  by (intro unmoved_intros unmoved_with_plugin found_plugin_unmoved | assumption)+

lemma unmoved_sendSignedPayment [unmoved_intros]: "follows unmoved (sendSignedPayment E P invoice c ch ts)"
  unfolding sendSignedPayment_def by (intro unmoved_intros)

lemma unmoved_accounts [unmoved_intros]:
  "follows unmoved (registerAccount E P n)" "follows unmoved (loginAccount E P n)"
  "follows unmoved (geolocateAccountFromRequest E P a q)" "follows unmoved (ensureAccessToken E P a)"
  "follows unmoved (hash E pw)" "follows unmoved (updateAccount P a pl)" "follows unmoved (getSupportedCoins P i)"
  "follows unmoved (passwordResetEmail E P email)" "follows unmoved (sendPasswordResetEmail email)"
  "follows unmoved (resetPasswordByEmail E P email pw)" "follows unmoved (getMerchantApiKey E P i)"
  "follows unmoved (getPlatformApiKey E P i)"
  unfolding registerAccount_def loginAccount_def geolocateAccountFromRequest_def ensureAccessToken_def hash_def
    compare_def updateAccount_def getSupportedCoins_def passwordResetEmail_def sendPasswordResetEmail_def
    resetPasswordByEmail_def resetPassword_def getMerchantApiKey_def getPlatformApiKey_def createAccessToken_def
  by (intro unmoved_intros | simp only: Let_def)+

lemma unmoved_authentication [unmoved_intros]:
  "follows unmoved (validateToken P u)" "follows unmoved (validateAppToken P u)"
  "follows unmoved (validatePassword E P u pw)" "follows unmoved (prometheus_auth P u pw)"
  "follows unmoved (validateJWT E P t)"
  unfolding validateToken_def validateAppToken_def validatePassword_def withEmailPassword_def prometheus_auth_def
    validateJWT_def authorizeAccount_def verifyToken_def credentials_of_def compare_def createAccessToken_def
  by (intro unmoved_intros | simp only: Let_def)+

lemma unmoved_links [unmoved_intros]:
  "follows unmoved (listLinkedAccounts P i)" "follows unmoved (linkAccount P a email)"
  "follows unmoved (unlinkAccount P a t)" "follows unmoved (getLink P i j)"
  "follows unmoved (getAccountSetting P i k d)" "follows unmoved (setAccountSetting P i k v)"
  "follows unmoved (settings_setDenomination P i c)" "follows unmoved (getDenomination P i)"
  "follows unmoved (search P t b)" "follows unmoved (getMerchantInfo P t)"
  unfolding listLinkedAccounts_def with_accounts_def shown_account_def linkAccount_def unlinkAccount_def find_link_def
    getLink_def getAccountSetting_def setAccountSetting_def setting_row_def settings_setDenomination_def
    getDenomination_def search_def searchInvoice_def searchInvoiceUid_def searchInvoiceHash_def
    searchInvoiceExternalId_def searchAccountEmail_def getMerchantInfo_def
  by (intro unmoved_intros | simp only: Let_def)+

section \<open>The handlers\<close>

lemma unmoved_invoice_handlers [unmoved_intros]:
  "follows unmoved (showDeprecated E P i)" "follows unmoved (v0_show E P i)" "follows unmoved (v0_cancel P n i)"
  "follows unmoved (v0_index P s e l o')" "follows unmoved (v0_create E P params)"
  "follows unmoved (createDeprecated E P params)" "follows unmoved (v0_create_request E P n t opts)"
  "follows unmoved (cancel_request P n i)" "follows unmoved (v1_show P u)" "follows unmoved (v1_create E P params b hs)"
  "follows unmoved (v1_refund E P n i)" "follows unmoved (payments_index P n l o')" "follows unmoved (payments_show P i)"
  unfolding showDeprecated_def v0_show_def current_invoice_def notes_of_def v0_cancel_def v0_index_def v0_create_def
    createDeprecated_def v0_create_request_def cancel_request_def notAuthorized_def v1_show_def v1_create_def
    option_summaries_def v1_refund_def payments_index_def payments_show_def
  by (intro unmoved_intros | simp only: Let_def)+

lemma unmoved_open_invoice [unmoved_intros]: "follows unmoved (open_invoice P uid)"
  unfolding open_invoice_def by (intro unmoved_intros)

lemma unmoved_handlePost [unmoved_intros]:
  "follows unmoved (handlePost E P headers uid payload)" "follows unmoved (http_listPaymentOptions E P headers uid)"
  unfolding handlePost_def http_getPaymentRequest_def http_verifyUnsignedPayment_def http_submitPayment_def
    http_listPaymentOptions_def
  by (intro unmoved_intros | simp only: Let_def)+

lemma unmoved_shows [unmoved_intros]:
  "follows unmoved (bip270_show E P uid)" "follows unmoved (json_show E P headers uid)"
  "follows unmoved (bip70_show E P headers uid)"
  unfolding bip270_show_def json_show_def bip70_show_def bip270_request_for_def jsonv2_request_for_def
    bip70_request_for_def option_of_invoice_def
  by (intro unmoved_intros | simp only: Let_def)+

lemma unmoved_bip70_transaction:
  assumes "find_plugin E currency chain = Inr plugin"
  shows "follows unmoved (bip70_transaction E P plugin po hex)"
  unfolding bip70_transaction_def Let_def by (intro unmoved_intros found_plugin_unmoved [OF assms])

lemma unmoved_older_protocols [unmoved_intros]:
  "follows unmoved (requests_show E P headers uid)" "follows unmoved (bip270_create E P headers uid hex)"
  "follows unmoved (bip70_create E P headers uid decoded)"
proof -
  show "follows unmoved (requests_show E P headers uid)" "follows unmoved (bip270_create E P headers uid hex)"
    unfolding requests_show_def show_by_accept_def bip270_create_def
    by (intro unmoved_intros | simp only: Let_def)+
  show "follows unmoved (bip70_create E P headers uid decoded)"
    unfolding bip70_create_def keep_submission_def option_of_invoice_def
    by (rule unmoved.follows_bnd [OF unmoved.follows_lift], rule unmoved_with_plugin)
      (intro unmoved_intros unmoved_bip70_transaction | assumption)+
qed

lemma unmoved_account_handlers [unmoved_intros]:
  "follows unmoved (account_registrations_create E P og n)" "follows unmoved (account_logins_create E P og n)"
  "follows unmoved (v0_accounts_create E P og n)" "follows unmoved (access_tokens_create E P og ua c)"
  "follows unmoved (v1_password_reset E P email)" "follows unmoved (v0_password_reset email)"
  "follows unmoved (password_claim E P uid pw)" "follows unmoved (api_keys_index E P i)"
  "follows unmoved (access_keys_index E P i)" "follows unmoved (v0_accounts_update P a change)"
  "follows unmoved (showPublic mb P t)" "follows unmoved (v0_accounts_show P i)"
  "follows unmoved (anypaycity_show P t)" "follows unmoved (apps_index P i)" "follows unmoved (apps_show P i j)"
  "follows unmoved (apps_create E P i t)" "follows unmoved (merchants_show P t)"
  unfolding account_registrations_create_def account_logins_create_def token_for_def v0_accounts_create_def
    access_tokens_create_def v1_password_reset_def v0_password_reset_def password_claim_def api_keys_index_def
    access_keys_index_def v0_accounts_update_def showPublic_def account_for_path_def v0_accounts_show_def
    anypaycity_show_def apps_index_def apps_show_def apps_create_def merchants_show_def
  by (intro unmoved_intros | simp only: Let_def)+

lemma unmoved_address_reads [unmoved_intros]:
  "follows unmoved (address_of P i c ch)" "follows unmoved (address_of_or_throw P i c ch)"
  "follows unmoved (v0_addresses_list P i)" "follows unmoved (v0_addresses_index P i)"
  "follows unmoved (v1_addresses_index E P a)" "follows unmoved (v0_coins_list E P i)"
  "follows unmoved (v1_coins_index E P)" "follows unmoved (price_conversions_show E P oc oa nc)"
  "follows unmoved (v1_prices_index P)"
  unfolding address_of_def address_of_or_throw_def v0_addresses_list_def v0_addresses_index_def v1_addresses_index_def
    listAddresses_def address_config_of_def v0_coins_list_def v1_coins_index_def listed_coin_of_def
    price_conversions_show_def v1_prices_index_def
  by (intro unmoved_intros | simp only: Let_def)+

lemma unmoved_setting_handlers [unmoved_intros]:
  "follows unmoved (denominations_update P i c)" "follows unmoved (denominations_show P i)"
  "follows unmoved (checkout_images_show P i)" "follows unmoved checkout_images_index"
  "follows unmoved (checkout_images_update P i nm)" "follows unmoved (firebase_tokens_show P i)"
  "follows unmoved (firebase_tokens_create P i t)" "follows unmoved (kraken_api_keys_create P i k s)"
  "follows unmoved (kraken_api_keys_show P i)" "follows unmoved (kraken_api_keys_destroy P i)"
  "follows unmoved (invoice_notes_create P i u t)" "follows unmoved (invoice_payment_options_show P u)"
  "follows unmoved (invoice_events_index P i u)" "follows unmoved (account_events_index P a b)"
  "follows unmoved (webhooks_index P a l n)" "follows unmoved (webhooks_attempt E P i u)"
  "follows unmoved (search_create P a t)" "follows unmoved (transactions_decode E ch c hex)"
  "follows unmoved (linked_accounts_index P a)" "follows unmoved (linked_accounts_create P a t)"
  "follows unmoved (linked_accounts_unlink P a t)" "follows unmoved (linked_account_payments P a i l n)"
proof -
  show "follows unmoved (transactions_decode E ch c hex)"
    unfolding transactions_decode_def
    by (rule unmoved_with_plugin) (intro unmoved_intros found_plugin_unmoved | assumption)+
qed (unfold denominations_update_def denominations_show_def checkout_images_show_def checkout_images_index_def
    checkout_images_update_def firebase_tokens_show_def firebase_tokens_create_def firebase_token_of_def
    kraken_api_keys_create_def kraken_api_keys_show_def kraken_api_keys_destroy_def kraken_account_of_def
    invoice_notes_create_def invoice_payment_options_show_def invoice_events_index_def account_events_index_def
    webhooks_index_def webhooks_attempt_def search_create_def linked_accounts_index_def linked_accounts_create_def
    linked_accounts_unlink_def linked_account_payments_def,
    (intro unmoved_intros | simp only: Let_def)+)

lemma unmoved_confirmTransaction [unmoved_intros]: "follows unmoved (confirmTransaction api P q t)"
  unfolding confirmTransaction_def bcy_getTransaction_def by (intro unmoved_intros | simp only: Let_def)+

lemma unmoved_confirm_pages [unmoved_intros]: "follows unmoved (confirm_pages fuel api P hash' offset confirmed)"
proof (induction fuel arbitrary: offset confirmed)
  case (Suc fuel)
  show ?case unfolding confirm_pages.simps by (intro unmoved_intros Suc.IH)
qed (simp add: unmoved_intros)

lemma unmoved_other_handlers [unmoved_intros]:
  "follows unmoved (blockcypher_webhooks_create fuel api P h)" "follows unmoved (base_currencies_index E)"
  "follows unmoved (woocommerce_index W P i)" "follows unmoved (products_index W i)"
  "follows unmoved (support_proxy_show P t)" "follows unmoved (prometheus_show W)"
  "follows unmoved (my_account_show a)" "follows unmoved transactions_create" "follows unmoved webhooks_test"
  "follows unmoved (checkout_images_image t)" "follows unmoved (v1_prices_show W c)"
  "follows unmoved (csv_report P W t s e)" "follows unmoved (csv_payments P W t)"
  "follows unmoved (confirm_handler E P uid)" "follows unmoved fail_handler" "follows unmoved redirect_handler"
  unfolding blockcypher_webhooks_create_def confirmTransactionsFromBlock_def base_currencies_index_def
    woocommerce_index_def products_index_def support_proxy_show_def prometheus_show_def my_account_show_def
    transactions_create_def webhooks_test_def checkout_images_image_def v1_prices_show_def getPriceHistory_def
    csv_report_def buildReportCsvFromDates_def getInvoicesByDates_def csv_payments_def buildAccountCsvReport_def
    confirm_handler_def fail_handler_def redirect_handler_def
  by (intro unmoved_intros | simp only: Let_def)+

lemma unmoved_authenticate [unmoved_intros]: "follows unmoved (authenticate E P strategy q)"
  unfolding authenticate_def by (intro unmoved_intros)

section \<open>What writes them\<close>

text \<open>
  Rows change only where they belong to an account of \<open>A\<close> before and after. That every row
  carries its own id is part of the relation, so that it can be used and is passed on.
\<close>

definition owned :: "nat set \<Rightarrow> address option \<Rightarrow> bool" where
  "owned A r \<longleftrightarrow> (case r of None \<Rightarrow> True | Some a \<Rightarrow> adr_account_id a \<in> Some ` A)"

definition confined :: "nat set \<Rightarrow> world \<Rightarrow> world \<Rightarrow> bool" where
  "confined A w w' \<longleftrightarrow> (ids_ok adr_id (db_addresses w) \<longrightarrow> ids_ok adr_id (db_addresses w') \<and>
     (\<forall>i. row (db_addresses w') i = row (db_addresses w) i \<or>
        owned A (row (db_addresses w) i) \<and> owned A (row (db_addresses w') i)))"

lemma confinedD:
  assumes "confined A w w'" and "ids_ok adr_id (db_addresses w)"
  shows "ids_ok adr_id (db_addresses w')"
    and "row (db_addresses w') i = row (db_addresses w) i \<or>
      owned A (row (db_addresses w) i) \<and> owned A (row (db_addresses w') i)"
  using assms unfolding confined_def by blast+

interpretation confined: history "confined A" for A
proof
  show "confined A w w" for w by (simp add: confined_def)
  fix u v w assume uv: "confined A u v" and vw: "confined A v w"
  show "confined A u w"
    unfolding confined_def
  proof (intro impI conjI allI)
    assume u: "ids_ok adr_id (db_addresses u)"
    have v: "ids_ok adr_id (db_addresses v)" by (rule confinedD(1) [OF uv u])
    then show "ids_ok adr_id (db_addresses w)" by (rule confinedD(1) [OF vw])
    show "row (db_addresses w) i = row (db_addresses u) i \<or>
        owned A (row (db_addresses u) i) \<and> owned A (row (db_addresses w) i)" for i
      using confinedD(2) [OF uv u, of i] confinedD(2) [OF vw v, of i] by (elim disjE conjE) simp_all
  qed
qed

lemma unmoved_confined: "follows unmoved m \<Longrightarrow> follows (confined A) m"
  by (simp add: follows_def unmoved_def confined_def)

context prisma_client
begin

text \<open>A row is looked up by its account, and then changed by its id.\<close>

lemma confined_found:
  assumes none: "follows (confined A) (k None)"
    and some: "\<And>r w. p r \<Longrightarrow> row (db_addresses w) (adr_id r) = Some r \<Longrightarrow> confined A w (snd (k (Some r) w))"
  shows "follows (confined A) (bnd (find_first (prisma_addresses P) p) k)"
  unfolding follows_def
proof
  fix w
  show "confined A w (snd (bnd (find_first (prisma_addresses P) p) k w))"
  proof (cases "ids_ok adr_id (db_addresses w)")
    case True
    show ?thesis
    proof (cases "api_first (api_addresses P) p (db_addresses w)")
      case None
      with none show ?thesis by (simp add: bnd_run find_first_run prisma_addresses_def follows_def)
    next
      case (Some r)
      with tad.first_row [OF True Some] some [of r w] show ?thesis
        by (simp add: bnd_run find_first_run prisma_addresses_def)
    qed
  qed (simp add: confined_def)
qed

lemma confined_found_or_throw:
  assumes "\<And>r w. p r \<Longrightarrow> row (db_addresses w) (adr_id r) = Some r \<Longrightarrow> confined A w (snd (k r w))"
  shows "follows (confined A) (bnd (find_first_or_throw (prisma_addresses P) p) k)"
  unfolding find_first_or_throw_def bnd_assoc
  by (rule confined_found) (use assms in \<open>simp_all add: confined.follows_throw\<close>)

lemma confined_update:
  assumes "row (db_addresses w) (adr_id r) = Some r" and "adr_account_id r \<in> Some ` A"
    and "adr_id (f r) = adr_id r" and "adr_account_id (f r) = adr_account_id r"
  shows "confined A w (snd (update_row (prisma_addresses P) (adr_id r) f w))"
  using assms by (auto simp: confined_def update_addresses row_put owned_def ids_ok_put)

lemma confined_delete:
  assumes "row (db_addresses w) (adr_id r) = Some r" and "adr_account_id r \<in> Some ` A"
  shows "confined A w (snd (delete_row (prisma_addresses P) (adr_id r) w))"
  using assms by (auto simp: confined_def tad.delete_run prisma_addresses_def row_put owned_def ids_ok_hole)

lemma confined_create:
  assumes "\<And>i. adr_id (f i) = i" and "\<And>i. adr_account_id (f i) \<in> Some ` A"
  shows "follows (confined A) (create_row (prisma_addresses P) f)"
  using assms by (auto simp: follows_def confined_def create_addresses row_append owned_def ids_ok_append)

lemma confined_then:
  assumes "confined A w (snd (m w))" and "\<And>a. follows (confined A) (k a)"
  shows "confined A w (snd (bnd m k w))"
proof (cases "m w")
  case (Pair r v)
  with assms show ?thesis
    by (cases r) (auto simp: bnd_run follows_def intro: confined.R_trans)
qed

lemma confined_core_setAddress: "follows (confined {acs_account_id c}) (core_setAddress E P c)"
proof (cases "find_plugin E (acs_currency c) (acs_chain c)")
  case (Inl e)
  then show ?thesis
    by (simp add: core_setAddress_def follows_def bnd_run lift_result_run confined.R_refl)
next
  case (Inr plugin)
  have reads: "follows (confined A) (plg_transformAddress plugin a)" "follows (confined A) (plg_validateAddress plugin a)" for A a
    by (intro unmoved_confined found_plugin_unmoved [OF Inr])+
  have store: "follows (confined {acs_account_id c}) (bnd (address_of P (acs_account_id c) (acs_currency c) (acs_chain c))
      (\<lambda>found. case found of
         Some r \<Rightarrow> bnd (guard_io (\<not> adr_locked r) e) (\<lambda>_. update_row (prisma_addresses P) (adr_id r) (\<lambda>r. r\<lparr>adr_value := v,
            adr_paymail := p r, adr_view_key := k r, adr_note := None\<rparr>))
       | None \<Rightarrow> create_row (prisma_addresses P) (\<lambda>i. \<lparr>adr_id = i, adr_account_id = Some (acs_account_id c),
            adr_currency = cu, adr_chain = ch, adr_value = v, adr_view_key = vk, adr_paymail = pm, adr_note = None,
            adr_locked = False\<rparr>)))" for e v p k cu ch vk pm
    unfolding address_of_def
    by (rule confined_found) (auto simp: bnd_run guard_io_run confined.R_refl intro!: confined_create confined_update)
  have "lift_result (Inr plugin :: js_error + plugin) = (ret plugin :: plugin prog)"
    by (simp add: lift_result_def ret_def)
  then show ?thesis
    unfolding core_setAddress_def Let_def Inr by (simp only: bnd_ret) (intro confined.follows_rules reads store)
qed

lemma confined_removes:
  "follows (confined {i}) (bnd (address_of_or_throw P i c ch) (\<lambda>r. bnd (delete_row (prisma_addresses P) (adr_id r)) (\<lambda>_. ret x)))"
  unfolding address_of_or_throw_def
  by (rule confined_found_or_throw, rule confined_then) (auto intro: confined_delete confined.follows_ret)

lemma confined_refused: "follows (confined A) m \<Longrightarrow> follows (confined A) (or_refuse n m)"
  unfolding or_refuse_def by (intro confined.follows_rules)

lemma confined_handlers:
  "follows (confined {i}) (v0_addresses_destroy P i c)" "follows (confined {i}) (v0_addresses_update E P i c ch x)"
  "follows (confined {i}) (v0_addresses_updateLegacy E P i c x)"
  "follows (confined {acc_id a}) (v1_addresses_update E P a ch' c x)"
  "follows (confined {acc_id a}) (v1_addresses_remove P a c)"
  using confined_core_setAddress [of "changeset i c ch x" E] confined_core_setAddress [of "changeset i c c x" E]
    confined_core_setAddress [of "\<lparr>acs_account_id = acc_id a, acs_currency = c,
      acs_chain = if truthy ch' then the ch' else c, acs_address = x, acs_paymail = None, acs_view_key = None\<rparr>" E]
  unfolding v0_addresses_destroy_def v0_addresses_update_def v0_addresses_updateLegacy_def v1_addresses_update_def
    v1_addresses_remove_def setAddress_def removeAddress_def Let_def changeset_def
  by (auto intro!: confined.follows_bnd confined.follows_ret confined_removes confined_refused)

lemma confined_note: "follows (confined {i}) (address_notes_update P i k note)"
  unfolding address_notes_update_def
proof (rule confined_found_or_throw, rule confined_then, goal_cases)
  case (1 r w)
  then show ?case by (intro confined_update) auto
qed (intro unmoved_confined unmoved_intros)

end

section \<open>The server\<close>

text \<open>The account of a request, and the readers of its fields.\<close>

definition holder :: "request \<Rightarrow> nat set" where
  "holder q = (case rq_account q of None \<Rightarrow> {} | Some a \<Rightarrow> {acc_id a})"

lemma unmoved_readers [unmoved_intros]:
  "(\<And>a. follows unmoved (k1 a)) \<Longrightarrow> follows unmoved (with_account q k1)"
  "(\<And>c. follows unmoved (k2 c)) \<Longrightarrow> follows unmoved (with_credentials q k2)"
  "(\<And>i. follows unmoved (k3 i)) \<Longrightarrow> follows unmoved (with_app q k3)"
  "(\<And>x. follows unmoved (k4 x)) \<Longrightarrow> follows unmoved (given v k4)"
  "(\<And>n. follows unmoved (k5 n)) \<Longrightarrow> follows unmoved (with_number E v k5)"
  "follows unmoved m \<Longrightarrow> follows unmoved (unchecked_number v m)"
  "(\<And>n. follows unmoved (k6 n)) \<Longrightarrow> follows unmoved (with_new_account q k6)"
  "(\<And>n. follows unmoved (k7 n)) \<Longrightarrow> follows unmoved (spread_invoice q k7)"
  "(\<And>n. follows unmoved (k8 n)) \<Longrightarrow> follows unmoved (named_invoice q k8)"
  "(\<And>n. follows unmoved (k9 n)) \<Longrightarrow> follows unmoved (posted_payload q k9)"
  "(\<And>t. follows unmoved (k10 t)) \<Longrightarrow> follows unmoved (with_date W v k10)"
  unfolding with_account_def with_credentials_def with_app_def given_def with_number_def unchecked_number_def
    with_new_account_def spread_invoice_def named_invoice_def posted_payload_def with_date_def
  by (auto intro!: unmoved_intros split: option.splits payload.splits)

lemma confined_readers:
  "(\<And>x. follows (confined A) (k4 x)) \<Longrightarrow> follows (confined A) (given v k4)"
  "(\<And>n. follows (confined A) (k5 n)) \<Longrightarrow> follows (confined A) (with_number E v k5)"
  "follows (confined A) m \<Longrightarrow> follows (confined A) (shown m)"
  unfolding given_def with_number_def shown_def answering_def
  by (auto intro!: confined.follows_rules)

lemma confined_with_account:
  "(\<And>a. follows (confined {acc_id a}) (k a)) \<Longrightarrow> follows (confined (holder q)) (with_account q k)"
  by (auto simp: with_account_def holder_def intro!: confined_readers confined.follows_throw split: option.splits)

lemma unmoved_payload:
  "(\<And>a b. follows unmoved (g a b)) \<Longrightarrow> follows unmoved (case z of NewRequest a b \<Rightarrow> g a b | _ \<Rightarrow> throw e)"
  "(\<And>a. follows unmoved (h a)) \<Longrightarrow> follows unmoved (case z of RawPayment a \<Rightarrow> h a | _ \<Rightarrow> throw e)"
  "(\<And>a. follows unmoved (k a)) \<Longrightarrow> follows unmoved (case z of AccountChange a \<Rightarrow> k a | _ \<Rightarrow> throw e)"
  by (auto intro: unmoved_intros split: payload.splits)

context prisma_client
begin

lemma confined_endpoints:
  "follows (confined (holder q)) (with_account q (\<lambda>a. given v (\<lambda>c. shown (v0_addresses_destroy P (acc_id a) c))))"
  "follows (confined (holder q)) (with_account q (\<lambda>a. given v (\<lambda>c. given v' (\<lambda>ch.
     given v'' (\<lambda>x. shown (v0_addresses_update E P (acc_id a) c ch x))))))"
  "follows (confined (holder q)) (with_account q (\<lambda>a. given v (\<lambda>c. given v' (\<lambda>x.
     shown (v0_addresses_updateLegacy E P (acc_id a) c x)))))"
  "follows (confined (holder q)) (with_account q (\<lambda>a. with_number E v (\<lambda>i. given v' (\<lambda>note.
     case i of None \<Rightarrow> throw JoiError | Some i \<Rightarrow> shown (address_notes_update P (acc_id a) i note)))))"
  "follows (confined (holder q)) (with_account q (\<lambda>a. given v (\<lambda>c. given v' (\<lambda>x.
     shown (v1_addresses_update E P a ch' c x)))))"
  "follows (confined (holder q)) (with_account q (\<lambda>a. given v (\<lambda>c. shown (v1_addresses_remove P a c))))"
  by (intro confined_with_account confined_readers confined.follows_option confined.follows_throw
      confined_handlers confined_note)+

lemma confined_tables:
  "list_all (\<lambda>(n, m). follows (confined (holder q)) m) (payreq_endpoints E P q)"
  "list_all (\<lambda>(n, m). follows (confined (holder q)) m) (jsonV2_endpoints E P q)"
  "list_all (\<lambda>(n, m). follows (confined (holder q)) m) (v0_shop_endpoints E P W q)"
  "list_all (\<lambda>(n, m). follows (confined (holder q)) m) (v0_account_endpoints E P W q)"
  "list_all (\<lambda>(n, m). follows (confined (holder q)) m) (v1_endpoints E P W q)"
  "list_all (\<lambda>(n, m). follows (confined (holder q)) m) (other_endpoints E P W q)"
  unfolding payreq_endpoints_def jsonV2_endpoints_def v0_shop_endpoints_def v0_account_endpoints_def v1_endpoints_def
    other_endpoints_def list.pred_inject prod.case
  by (intro conjI; (rule list.pred_inject(1) | rule confined_endpoints | (rule unmoved_confined, (intro unmoved_intros unmoved_payload)?)))+

end

end
