(* ===== verification/GatewayFacts.thy ===== *)
theory GatewayFacts
  imports Owners
begin

text \<open>
  The server from the outside: which requests reach which handlers, on whose behalf, and what
  they can change.
\<close>

section \<open>Who a request is from\<close>

definition identified :: "ext \<Rightarrow> prisma \<Rightarrow> route \<Rightarrow> request \<Rightarrow> world \<Rightarrow> account option" where
  "identified E P r q w =
     (case ro_auth r of
        None \<Rightarrow> None
      | Some strategy \<Rightarrow> (case fst (authenticate E P strategy (received q) w) of Inr (Some q') \<Rightarrow> rq_account q' | _ \<Rightarrow> None))"

lemma received_simps [simp]:
  "rq_account (received q) = None" "rq_app_id (received q) = None" "rq_credentials (received q) = None"
  "rq_headers (received q) = alternate_headers (rq_headers q)" "rq_params (received q) = rq_params q"
  "rq_query (received q) = rq_query q" "rq_payload (received q) = rq_payload q" "rq_basic (received q) = rq_basic q"
  "rq_bearer (received q) = rq_bearer q"
  by (simp_all add: received_def)

lemma serve_public:
  "ro_auth r = None \<Longrightarrow> serve_route E P W r q =
     (case map_of (endpoints E P W (received q)) (ro_handler r) of None \<Rightarrow> ret (Refused 404 None) | Some m \<Rightarrow> m)"
  by (simp add: serve_route_def)

context prisma_client
begin

lemma endpoint_confined:
  assumes "map_of (endpoints E P W q) h = Some m"
  shows "follows (confined (holder q)) m"
proof -
  have "list_all (\<lambda>(n, m). follows (confined (holder q)) m) (endpoints E P W q)"
    unfolding endpoints_def by (simp add: confined_tables)
  with map_of_SomeD [OF assms] show ?thesis by (auto simp: list_all_iff)
qed

lemma dispatch_confined:
  "follows (confined (holder q)) (case map_of (endpoints E P W q) h of None \<Rightarrow> ret (Refused 404 None) | Some m \<Rightarrow> m)"
  by (auto intro: confined.follows_ret endpoint_confined split: option.splits)

lemma serve_confined:
  "confined (case identified E P r q w of None \<Rightarrow> {} | Some a \<Rightarrow> {acc_id a}) w (snd (serve_route E P W r q w))"
proof (cases "ro_auth r")
  case None
  then show ?thesis
    using dispatch_confined [of "received q" E W "ro_handler r"]
    by (simp add: serve_public identified_def holder_def follows_def)
next
  case (Some strategy)
  obtain found v where run: "authenticate E P strategy (received q) w = (found, v)"
    by (cases "authenticate E P strategy (received q) w")
  have v: "confined A w v" for A
    using unmoved_confined [OF unmoved_authenticate, of A E P strategy "received q"] run
    unfolding follows_def by (metis snd_conv)
  show ?thesis
  proof (cases found)
    case (Inl e)
    with Some run v show ?thesis by (simp add: serve_route_def bnd_run)
  next
    case (Inr q')
    show ?thesis
    proof (cases q')
      case None
      with Inr Some run v show ?thesis by (simp add: serve_route_def bnd_run ret_run)
    next
      case q: (Some q'')
      have "confined (holder q'') v (snd ((case map_of (endpoints E P W q'') (ro_handler r) of
          None \<Rightarrow> ret (Refused 404 None) | Some m \<Rightarrow> m) v))"
        using dispatch_confined [of q'' E W "ro_handler r"] by (simp add: follows_def)
      with Inr q Some run v [of "holder q''"] show ?thesis
        by (simp add: serve_route_def bnd_run identified_def holder_def confined.R_trans [of _ w v])
    qed
  qed
qed

end

section \<open>The tables\<close>

lemmas route_tables = payreq_routes_def jsonV2_routes_def merchant_app_def merchant_invoice_routes_def
  merchant_create_routes_def merchant_address_routes_def merchant_account_routes_def merchant_key_routes_def
  v0_public_routes_def v0_app_routes_def attachV1Routes_def v1_account_routes_def v1_invoice_routes_def
  v1_event_routes_def v1_address_routes_def v1_shop_routes_def v1_price_routes_def invoiceConfirm_def csv_routes_def
  root_routes_def

lemmas endpoint_tables = endpoints_def payreq_endpoints_def jsonV2_endpoints_def v0_shop_endpoints_def
  v0_account_endpoints_def v1_endpoints_def other_endpoints_def

definition handler_names :: "string list" where
  "handler_names = [
     ''payreq.PaymentRequests.show'', ''payreq.Bip270PaymentRequests.create'',
     ''payreq.Bip70PaymentRequests.create'', ''jsonV2.Protocol.listPaymentOptions'',
     ''jsonV2.Protocol.handlePost'', ''v0.Invoices.index'', ''v0.Invoices.cancel'', ''v0.Invoices.create'',
     ''v0.Invoices.createDeprecated'', ''v0.Invoices.show'', ''v0.Invoices.showDeprecated'',
     ''v0.InvoiceNotes.create'', ''v0.InvoicePaymentOptions.show'', ''v0.PaymentRequests.create'',
     ''v0.PaymentRequests.cancel'', ''v0.Woocommerce.index'', ''v0.Products.index'',
     ''v0.BaseCurrencies.index'', ''v0.PriceConversions.show'', ''v0.Merchants.show'', ''v0.Anypaycity.show'',
     ''v0.SupportProxy.show'', ''v0.Prometheus.show'', ''v0.AccessTokens.create'', ''v0.Accounts.create'',
     ''v0.Accounts.show'', ''v0.Accounts.showPublic'', ''v0.Accounts.update'', ''v0.Addresses.destroy'',
     ''v0.Addresses.list'', ''v0.Addresses.index'', ''v0.Addresses.update'', ''v0.Addresses.updateLegacy'',
     ''v0.AddressNotes.update'', ''v0.ApiKeys.index'', ''v0.Apps.index'', ''v0.Apps.show'', ''v0.Apps.create'',
     ''v0.Coins.list'', ''v0.Denominations.show'', ''v0.Denominations.update'', ''v0.FirebaseTokens.show'',
     ''v0.FirebaseTokens.create'', ''v0.FirebaseTokens.update'', ''v0.KrakenApiKeys.create'',
     ''v0.KrakenApiKeys.show'', ''v0.KrakenApiKeys.destroy'', ''v0.Passwords.reset'', ''v0.Passwords.claim'',
     ''v0.Search.create'', ''v1.AccessKeys.index'', ''v1.AccountEvents.index'', ''v1.AccountLogins.create'',
     ''v1.AccountRegistrations.create'', ''v1.Addresses.index'', ''v1.Addresses.update'',
     ''v1.Addresses.remove'', ''v1.BlockcypherWebhooks.create'', ''v1.Coins.index'',
     ''v1.InvoiceEvents.index'', ''v1.Invoices.create'', ''v1.Invoices.show'',
     ''v1.LinkedAccountPayments.index'', ''v1.LinkedAccounts.index'', ''v1.LinkedAccounts.create'',
     ''v1.LinkedAccounts.unlink'', ''v1.MyAccount.show'', ''v1.PasswordResets.create'', ''v1.Payments.index'',
     ''v1.Payments.show'', ''v1.Prices.index'', ''v1.Prices.show'', ''v1.Refunds.show'', ''v1.Search.create'',
     ''v1.Transactions.create'', ''v1.Transactions.decode'', ''v1.Webhooks.index'', ''v1.Webhooks.attempt'',
     ''v1.Webhooks.test'', ''v1.WoocommerceCheckoutImages.image'', ''v1.WoocommerceCheckoutImages.index'',
     ''v1.WoocommerceCheckoutImages.show'', ''v1.WoocommerceCheckoutImages.update'', ''v1.fail'',
     ''invoiceConfirm'', ''csv.report'', ''csv.payments'', ''redirect'']"

lemma endpoint_names: "map fst (endpoints E P W q) = handler_names"
  by (simp only: endpoint_tables handler_names_def list.map append.simps fst_conv)

lemma known_handler: "map_of (endpoints E P W q) h \<noteq> None \<longleftrightarrow> h \<in> set handler_names"
  by (simp add: map_of_eq_None_iff endpoint_names [of E P W q, symmetric])

lemma routes_have_handlers: "list_all (\<lambda>r. ro_handler r \<in> set handler_names) server_routes"
  by code_simp

lemma endpoint_lookup:
  "map_of (endpoints E P W q) ''v1.Invoices.show'' = Some (shown (v1_show P (rq_params q ''invoice_uid'')))"
  "map_of (endpoints E P W q) ''v0.Products.index'' = Some (with_account q (\<lambda>a. products_index W (acc_id a)))"
  "map_of (endpoints E P W q) ''jsonV2.Protocol.handlePost'' = Some (given (rq_params q ''uid'') (\<lambda>uid.
        posted_payload q (\<lambda>p. shown (handlePost E P (map_of (rq_headers q)) uid p))))"
  by (simp_all add: endpoint_tables)

section \<open>Media types\<close>

text \<open>
  The types of the bodies the JSON protocol takes, the last of which no handler knows, and the
  values of the \<open>accept\<close> header that rename a body.
\<close>

definition body_types :: "string list" where
  "body_types = [''application/payment-request'', ''application/payment-verification'', ''application/payment'',
     ''application/verify-payment'']"

definition rerouted :: "string list" where
  "rerouted = [''application/payment'', ''application/bitcoinsv-paymentack'', ''application/verify-payment'']"

text \<open>A body is named by the rule of its type, and no later rule takes the name back.\<close>

definition named_body :: "string \<Rightarrow> (string \<times> string) list \<Rightarrow> bool" where
  "named_body m h \<longleftrightarrow> map_of h ''accept'' \<notin> Some ` set rerouted \<and>
     map_of h ''content-type'' = Some ''application/json'' \<and> map_of h ''x-content-type'' = Some m"

definition typed_body :: "string \<Rightarrow> (string \<times> string) list \<Rightarrow> bool" where
  "typed_body m h \<longleftrightarrow> map_of h ''accept'' \<notin> Some ` set rerouted \<and> map_of h ''content-type'' = Some m"

lemma map_of_set_headers: "map_of (set_headers h sets) = foldl (\<lambda>f (n, v). f(n \<mapsto> v)) (map_of h) sets"
  unfolding set_headers_def by (induction sets arbitrary: h) (auto simp: AList.update_conv')

lemma alternate_rule_eval:
  "map_of (alternate_rule h ((n, v), sets)) =
     (if map_of h n = Some v then foldl (\<lambda>f (n, v). f(n \<mapsto> v)) (map_of h) sets else map_of h)"
  by (simp add: alternate_rule_def map_of_set_headers)

lemma named_body_kept:
  "list_all (\<lambda>rule. named_body m h \<longrightarrow> named_body m (alternate_rule h rule)) alternate_rules"
  unfolding alternate_rules_def list.pred_inject(2) named_body_def
  by (intro conjI list.pred_inject(1); simp add: alternate_rule_eval rerouted_def)

lemma typed_body_kept:
  "m \<in> set body_types \<Longrightarrow>
   list_all (\<lambda>rule. typed_body m h \<longrightarrow> typed_body m (alternate_rule h rule) \<or> named_body m (alternate_rule h rule)) alternate_rules"
  unfolding alternate_rules_def list.pred_inject(2) named_body_def typed_body_def
  by (intro conjI list.pred_inject(1); auto simp add: alternate_rule_eval rerouted_def body_types_def)

lemma foldl_keeps: "(\<And>r h. r \<in> set rs \<Longrightarrow> N h \<Longrightarrow> N (f h r)) \<Longrightarrow> N h \<Longrightarrow> N (foldl f h rs)"
  by (induction rs arbitrary: h) simp_all

lemma foldl_reaches:
  assumes "\<And>r h. r \<in> set rs \<Longrightarrow> T h \<Longrightarrow> T (f h r) \<or> N (f h r)" and "\<And>r h. r \<in> set rs \<Longrightarrow> N h \<Longrightarrow> N (f h r)"
    and "r0 \<in> set rs" and "\<And>h. T h \<Longrightarrow> N (f h r0)" and "T h"
  shows "N (foldl f h rs)"
  using assms
proof (induction rs arbitrary: h)
  case (Cons r rs)
  have keeps: "N h \<Longrightarrow> N (foldl f h rs)" for h by (rule foldl_keeps) (use Cons.prems(2) in auto)
  show ?case
  proof (cases "N (f h r)")
    case True
    then show ?thesis by (simp add: keeps)
  next
    case False
    then have "T (f h r)" "r \<noteq> r0" using Cons.prems(1,4,5) by auto
    then show ?thesis using Cons.prems by (auto intro!: Cons.IH)
  qed
qed simp

lemma body_rule:
  assumes "m \<in> set body_types" and "typed_body m h"
  shows "named_body m (alternate_rule h ((''content-type'', m), [(''content-type'', ''application/json''), (''x-content-type'', m)]))"
  using assms(2) by (simp add: typed_body_def named_body_def alternate_rule_eval)

lemma alternate_body:
  assumes "m \<in> set body_types" and "typed_body m h"
  shows "map_of (alternate_headers h) ''x-content-type'' = Some m"
proof -
  have "named_body m (foldl alternate_rule h alternate_rules)"
  proof (rule foldl_reaches [where T = "typed_body m"])
    show "((''content-type'', m), [(''content-type'', ''application/json''), (''x-content-type'', m)]) \<in> set alternate_rules"
      using assms(1) by (auto simp: body_types_def alternate_rules_def)
  qed (use assms named_body_kept typed_body_kept body_rule in \<open>auto simp: list_all_iff\<close>)
  then show ?thesis by (simp add: named_body_def alternate_headers_def)
qed

section \<open>Path parameters\<close>

text \<open>A request that reached a route has the parameters of its template, and no others.\<close>

definition fits :: "route \<Rightarrow> request \<Rightarrow> bool" where
  "fits r q \<longleftrightarrow> list_all (\<lambda>n. rq_params q n \<noteq> None) (param_names (ro_path r)) \<and>
     (\<forall>n. n \<notin> set (param_names (ro_path r)) \<longrightarrow> rq_params q n = None)"

lemma show_reads_no_uid:
  assumes "r \<in> set v1_invoice_routes" "ro_handler r = ''v1.Invoices.show''" and "fits r q"
  shows "serve_route E P W r q = shown (v1_show P None)"
proof -
  have "ro_auth r = None" "param_names (ro_path r) = [''uid'']"
    using assms(1,2) by (auto simp: v1_invoice_routes_def param_names_def)
  then show ?thesis using assms(2,3) by (simp add: serve_public endpoint_lookup fits_def)
qed
section \<open>Properties\<close>

text \<open>
  C13. Only the owner moves an address (\<open>NewServer\<close> of src/src/server/v0/server.ts with the
  routes of src/src/server/v1/routes.ts and src/src/server/v0/plugins/merchant_app.ts): whatever
  request comes in at whatever route, with whatever payload, every row of the addresses that
  it creates, changes or removes belongs, before and after, to the account its credentials
  identify; a request that identifies no account changes none.
\<close>

theorem only_the_owner_moves_addresses:
  assumes "prisma_client P" and "ids_ok adr_id (db_addresses w)" and "serve_route E P W r q w = (res, w')"
    and "row (db_addresses w') i \<noteq> row (db_addresses w) i"
    and "row (db_addresses w) i = Some x \<or> row (db_addresses w') i = Some x"
  shows "\<exists>a. identified E P r q w = Some a \<and> adr_account_id x = Some (acc_id a)"
proof -
  let ?A = "case identified E P r q w of None \<Rightarrow> {} | Some a \<Rightarrow> {acc_id a}"
  have "confined ?A w w'" using prisma_client.serve_confined [OF assms(1), of E r q w W] assms(3) by simp
  from confinedD(2) [OF this assms(2), of i] assms(4,5) have "adr_account_id x \<in> Some ` ?A"
    by (auto simp: owned_def)
  then show ?thesis by (auto split: option.splits)
qed

text \<open>
  Without credentials (the strategies of src/src/server/v0/server.ts): a request that
  brings neither a user name nor a token is answered 401 at every route that asks for a
  strategy, and changes nothing.
\<close>

lemma no_credentials_no_effect:
  assumes "ro_auth r = Some strategy" and "rq_basic q = None" and "rq_bearer q = None"
  shows "serve_route E P W r q w = (Inr (Refused 401 None), w)"
  using assms by (simp add: serve_route_def authenticate_def bnd_run ret_run)




section \<open>Witnesses\<close>


definition demo_token :: access_token where
  "demo_token = \<lparr>tok_id = 1, tok_uid = Some ''tok'', tok_account_id = 1, tok_app_id = None, tok_createdAt = 0\<rparr>"

definition demo_request :: request where
  "demo_request = \<lparr>rq_headers = [], rq_remoteAddress = ''::1'', rq_basic = None, rq_bearer = None,
     rq_params = (\<lambda>_. None), rq_query = (\<lambda>_. None), rq_payload = Fields (\<lambda>_. None), rq_account = None,
     rq_app_id = None, rq_credentials = None\<rparr>"

definition addresses_destroy :: route where
  "addresses_destroy = \<lparr>ro_method = DELETE, ro_path = ''/addresses/{currency}'', ro_handler = ''v0.Addresses.destroy'',
     ro_auth = Some ''token'', ro_checks = [], ro_response = None\<rparr>"

definition keyed_world :: world where
  "keyed_world = demo_world\<lparr>db_access_tokens := [Some demo_token], db_addresses := [Some (locked_address\<lparr>adr_locked := False\<rparr>)]\<rparr>"

definition demo_web :: web where
  "demo_web = \<lparr>web_date = (\<lambda>_. None), web_month_before = id, web_parseFloat = (\<lambda>_. None), web_start_of_day = id,
     web_next_day = id, web_printers = \<lparr>fmt_date = (\<lambda>_. []), fmt_num = (\<lambda>_. []), csv_line = concat\<rparr>,
     web_blockcypher = demo_blocks, web_fuel = 2, web_metrics = [], web_woocommerce = (\<lambda>_. None), web_products = (\<lambda>_. []),
     web_raw_query = (\<lambda>_ _. Inl no_answer)\<rparr>"

lemma destroy_lookup:
  "map_of (endpoints E P W q) ''v0.Addresses.destroy'' = Some (with_account q (\<lambda>a. given (rq_params q ''currency'') (\<lambda>c.
        shown (v0_addresses_destroy P (acc_id a) c))))"
  by (simp add: endpoint_tables)

lemma demo_authenticated:
  "authenticate demo_ext pg ''token'' (received (demo_request\<lparr>rq_basic := Some (''tok'', [])\<rparr>)) keyed_world =
   (Inr (Some ((received (demo_request\<lparr>rq_basic := Some (''tok'', [])\<rparr>))\<lparr>rq_account := Some demo_account,
      rq_credentials := Some \<lparr>crd_token = demo_token, crd_account = demo_account\<rparr>\<rparr>)), keyed_world)"
  by (simp add: authenticate_def validateToken_def credentials_of_def account_by_id_def io_simps find_first_run find_first_or_throw_run
     keyed_world_def demo_worlds pg_eval demo_token_def demo_rows)


theorem only_the_owner_moves_addresses_witness:
  "let q = demo_request\<lparr>rq_basic := Some (''tok'', []), rq_params := [''currency'' \<mapsto> ''DASH'']\<rparr>;
       w' = snd (serve_route demo_ext pg demo_web addresses_destroy q keyed_world)
   in db_addresses w' = [None] \<and> identified demo_ext pg addresses_destroy q keyed_world = Some demo_account"
proof -
  let ?q = "demo_request\<lparr>rq_basic := Some (''tok'', []), rq_params := [''currency'' \<mapsto> ''DASH'']\<rparr>"
  have auth: "authenticate demo_ext pg ''token'' (received ?q) keyed_world =
    (Inr (Some ((received ?q)\<lparr>rq_account := Some demo_account,
      rq_credentials := Some \<lparr>crd_token = demo_token, crd_account = demo_account\<rparr>\<rparr>)), keyed_world)"
    by (simp add: authenticate_def validateToken_def credentials_of_def account_by_id_def io_simps find_first_run find_first_or_throw_run
     keyed_world_def demo_worlds pg_eval demo_token_def demo_rows)
  have run: "serve_route demo_ext pg demo_web addresses_destroy ?q keyed_world =
      (Inr (Reply 200 ()), keyed_world\<lparr>db_addresses := [None]\<rparr>)"
    by (simp add: serve_route_def addresses_destroy_def bnd_run auth destroy_lookup with_account_def given_def
        shown_def answering_def v0_addresses_destroy_def address_of_or_throw_def find_first_or_throw_run delete_row_def
        stored_run ret_run)
      (simp add: bnd_run stored_run ret_run keyed_world_def demo_worlds pg_eval demo_rows locked_address_def)
  have "ids_ok adr_id (db_addresses keyed_world)"
    by (auto simp: keyed_world_def ids_ok_def row_def locked_address_def split: if_splits)
  from only_the_owner_moves_addresses [OF prisma_client_pg this run, of 1 "locked_address\<lparr>adr_locked := False\<rparr>"]
  have "\<exists>a. identified demo_ext pg addresses_destroy ?q keyed_world = Some a"
    by (auto simp: keyed_world_def row_def)
  with run show ?thesis by (simp add: Let_def identified_def addresses_destroy_def auth)
qed

lemma no_credentials_example:
  "serve_route demo_ext pg demo_web addresses_destroy demo_request keyed_world = (Inr (Refused 401 None), keyed_world)"
  by (rule no_credentials_no_effect [where strategy = "''token''"]) (simp_all add: addresses_destroy_def demo_request_def)

definition post_route :: route where
  "post_route = jsonV2_routes ! 1"



end
