(* ===== verification/Sockets.thy ===== *)
theory Sockets
  imports Events
begin

text \<open>
  The websocket server of \<open>src/websockets\<close>: a session authenticates with an
  access token, binds its queue to the keys of its account and app, and passes on the messages
  that \<open>validate\<close> accepts. The exchange is RabbitMQ's: which queues a message goes to is a
  parameter, with the law of a direct exchange as the locale \<open>exchange\<close>. A session's queue is
  its own, named by a fresh uid; its messages wait in \<open>ses_pending\<close>.
\<close>

section \<open>The exchange\<close>

text \<open>Bindings are pairs of a queue and a key; a router names the queues a message goes to.\<close>

type_synonym router = "(string \<times> string) list \<Rightarrow> string \<Rightarrow> string list"

locale exchange =
  fixes route :: router
  assumes route_bound: "set (route bs key) = {q. (q, key) \<in> set bs}"
    and route_once: "distinct (route bs key)"
begin

lemma route_empty: "route [] key = []"
  using route_bound [of "[]" key] by simp

lemma route_queue: "q \<in> set (route (map (Pair q) keys) key) \<longleftrightarrow> key \<in> set keys"
  by (auto simp: route_bound)

end

definition direct_route :: router where
  "direct_route bs key = remdups (map fst (filter (\<lambda>(q, k). k = key) bs))"

interpretation direct: exchange direct_route
  by unfold_locales (force simp: direct_route_def)+

section \<open>Sessions\<close>

datatype frame =
  ConnectedFrame string
| AuthenticatedFrame nat "nat option"
| ErrorFrame string
| TopicFrame string event

text \<open>A socket that is closing keeps the close code it was given, if any.\<close>

datatype socket = SocketOpen | SocketClosing "nat option"

record session =
  ses_uid :: string
  ses_queue_name :: string
  ses_account_id :: "nat option"
  ses_app_id :: "nat option"
  ses_socket :: socket
  ses_frames :: "frame list"
  ses_bindings :: "string list"
  ses_pending :: "message list"
  ses_channel :: bool

text \<open>The socket of the \<open>ws\<close> package: nothing is sent after \<open>close\<close>, and a second \<open>close\<close> does nothing.\<close>

definition ws_send :: "frame \<Rightarrow> session \<Rightarrow> session" where
  "ws_send f s = (if ses_socket s = SocketOpen then s\<lparr>ses_frames := ses_frames s @ [f]\<rparr> else s)"

definition ws_close :: "nat option \<Rightarrow> session \<Rightarrow> session" where
  "ws_close code s = (if ses_socket s = SocketOpen then s\<lparr>ses_socket := SocketClosing code\<rparr> else s)"

definition closeSession :: "string option \<Rightarrow> session \<Rightarrow> session" where
  "closeSession err s =
     ws_close None (case err of None \<Rightarrow> s | Some message \<Rightarrow> ws_send (ErrorFrame message) s)"

definition bindWebsocketToTopic :: "string \<Rightarrow> session \<Rightarrow> session" where
  "bindWebsocketToTopic key s = s\<lparr>ses_bindings := ses_bindings s @ [key]\<rparr>"

definition subscribeToAccountEvents :: "session \<Rightarrow> session" where
  "subscribeToAccountEvents s =
     (case id_or_undefined (ses_account_id s) of None \<Rightarrow> s | Some n \<Rightarrow> bindWebsocketToTopic (account_key n) s)"

definition subscribeToAppEvents :: "session \<Rightarrow> session" where
  "subscribeToAppEvents s =
     (case id_or_undefined (ses_app_id s) of None \<Rightarrow> s | Some n \<Rightarrow> bindWebsocketToTopic (app_key n) s)"

text \<open>The constructor and its \<open>onOpen\<close>: greet, declare the queue, consume it.\<close>

definition new_session :: "string \<Rightarrow> session" where
  "new_session uid =
     ws_send (ConnectedFrame uid)
       \<lparr>ses_uid = uid, ses_queue_name = ''websocket:'' @ uid, ses_account_id = None, ses_app_id = None,
        ses_socket = SocketOpen, ses_frames = [], ses_bindings = [], ses_pending = [], ses_channel = True\<rparr>"

text \<open>
  The request of the handshake: its header, and the \<open>token\<close> of its URL, which may not parse.
\<close>

record handshake =
  hsk_authorization :: "string option"
  hsk_url_token :: "js_error + string option"

definition bearer_token :: "handshake \<Rightarrow> string option" where
  "bearer_token request =
     (case hsk_authorization request of
        None \<Rightarrow> None
      | Some h \<Rightarrow>
          (case split_on (CHR '' '') h of
             bearer # headerToken # _ \<Rightarrow> if bearer = ''Bearer'' then Some headerToken else None
           | _ \<Rightarrow> None))"

definition presented_token :: "handshake \<Rightarrow> js_error + string option" where
  "presented_token request =
     (if truthy (bearer_token request) then Inr (bearer_token request)
      else (case hsk_url_token request of
              Inl e \<Rightarrow> Inl e
            | Inr t \<Rightarrow> Inr (if truthy t then t else None)))"

definition session_authenticate ::
  "prisma \<Rightarrow> handshake \<Rightarrow> session \<Rightarrow> (session \<times> (nat \<times> nat option) option) prog" where
  "session_authenticate P request s =
     bnd (lift_result (presented_token request)) (\<lambda>token.
     (case token of
        None \<Rightarrow> ret (closeSession (Some ''no valid token provided'') s, None)
      | Some t \<Rightarrow>
          bnd (find_first_or_throw (prisma_access_tokens P) (\<lambda>r. tok_uid r = Some t)) (\<lambda>accessToken.
          bnd (find_first_or_throw (prisma_accounts P) (\<lambda>a. acc_id a = tok_account_id accessToken)) (\<lambda>account.
          bnd (case id_or_undefined (tok_app_id accessToken) of
                 None \<Rightarrow> ret s
               | Some app_id \<Rightarrow>
                   bnd (find_first_or_throw (prisma_apps P) (\<lambda>a. app_row_id a = app_id)) (\<lambda>app.
                   ret (subscribeToAppEvents (s\<lparr>ses_app_id := Some (app_row_id app)\<rparr>)))) (\<lambda>s1.
          ret (subscribeToAccountEvents (s1\<lparr>ses_account_id := Some (acc_id account)\<rparr>),
               Some (acc_id account, tok_app_id accessToken)))))))"

text \<open>
  The connection handler of \<open>src/websockets/server.ts\<close>; \<open>amqp\<close> is how the connection to
  the broker went, without which there is no session.
\<close>

definition on_connection ::
  "prisma \<Rightarrow> js_error + unit \<Rightarrow> string \<Rightarrow> handshake \<Rightarrow> session option prog" where
  "on_connection P amqp uid request =
     (case amqp of
        Inl _ \<Rightarrow> ret None
      | Inr _ \<Rightarrow>
          catch
            (bnd (session_authenticate P request (new_session uid)) (\<lambda>(s, auth).
             (case auth of
                None \<Rightarrow> ret (Some (ws_close (Some 1008) s))
              | Some (account_id, app_id) \<Rightarrow> ret (Some (ws_send (AuthenticatedFrame account_id app_id) s)))))
            (\<lambda>_. ret (Some (ws_close (Some 1008) (new_session uid)))))"

text \<open>
  What a client may send: text that is no JSON, \<open>null\<close>, or a value whose \<open>topic\<close> and
  \<open>payload\<close> can be read, which nothing handles.
\<close>

datatype client_text = Malformed | NullJson | Json

definition on_message :: "client_text \<Rightarrow> session \<Rightarrow> session" where
  "on_message m s = (if m = Json then s else closeSession (Some ''failed to parse json message'') s)"

text \<open>
  A message of the queue. Only events carry a topic; every other message of the program is
  acknowledged and dropped, as \<open>validate\<close> finds no schema for it.
\<close>

fun topic_of :: "message \<Rightarrow> (string \<times> event) option" where
  "topic_of (EventMsg e) = Some (ev_topic e, e)"
| "topic_of _ = None"

definition passes :: "message \<Rightarrow> bool" where
  "passes m = (case topic_of m of None \<Rightarrow> False | Some (topic, payload) \<Rightarrow> validate topic payload)"

definition on_delivery :: "message \<Rightarrow> session \<Rightarrow> session" where
  "on_delivery m s =
     (case topic_of m of
        None \<Rightarrow> s
      | Some (topic, payload) \<Rightarrow> if validate topic payload then ws_send (TopicFrame topic payload) s else s)"

definition consume :: "session \<Rightarrow> session" where
  "consume s = (case ses_pending s of [] \<Rightarrow> s | m # ms \<Rightarrow> on_delivery m (s\<lparr>ses_pending := ms\<rparr>))"

text \<open>Closing the channel deletes the queue, which is \<open>autoDelete\<close>.\<close>

definition on_close :: "session \<Rightarrow> session" where
  "on_close s = s\<lparr>ses_channel := False, ses_pending := []\<rparr>"

text \<open>The broker: a message under a key goes to the queues the router names.\<close>

definition enqueue :: "router \<Rightarrow> string \<times> message \<Rightarrow> session \<Rightarrow> session" where
  "enqueue route km s =
     (if ses_channel s \<and> ses_queue_name s \<in> set (route (map (Pair (ses_queue_name s)) (ses_bindings s)) (fst km))
      then s\<lparr>ses_pending := ses_pending s @ [snd km]\<rparr> else s)"

definition enqueue_all :: "router \<Rightarrow> (string \<times> message) list \<Rightarrow> session \<Rightarrow> session" where
  "enqueue_all route ms s = fold (enqueue route) ms s"

section \<open>The server\<close>

record hub =
  hub_world :: world
  hub_sessions :: "session list"

text \<open>
  The steps: a client connects, any other part of the program runs and publishes, a session
  takes a message from its queue, a client sends something, a connection ends.
\<close>

inductive hub_step :: "router \<Rightarrow> prisma \<Rightarrow> hub \<Rightarrow> hub \<Rightarrow> bool" for route :: router and P :: prisma where
  connects: "on_connection P amqp uid request (hub_world h) = (Inr (Some s), w') \<Longrightarrow>
     uid \<notin> ses_uid ` set (hub_sessions h) \<Longrightarrow>
     hub_step route P h (h\<lparr>hub_world := w', hub_sessions := hub_sessions h @ [s]\<rparr>)"
| publishes: "published w' = published (hub_world h) @ ms \<Longrightarrow>
     hub_step route P h (h\<lparr>hub_world := w', hub_sessions := map (enqueue_all route ms) (hub_sessions h)\<rparr>)"
| consumes: "i < length (hub_sessions h) \<Longrightarrow>
     hub_step route P h (h\<lparr>hub_sessions := (hub_sessions h)[i := consume (hub_sessions h ! i)]\<rparr>)"
| receives: "i < length (hub_sessions h) \<Longrightarrow>
     hub_step route P h (h\<lparr>hub_sessions := (hub_sessions h)[i := on_message m (hub_sessions h ! i)]\<rparr>)"
| closes: "i < length (hub_sessions h) \<Longrightarrow>
     hub_step route P h (h\<lparr>hub_sessions := (hub_sessions h)[i := on_close (hub_sessions h ! i)]\<rparr>)"

inductive_cases hub_stepE: "hub_step route P h h'"

definition hub_reachable :: "router \<Rightarrow> prisma \<Rightarrow> hub \<Rightarrow> bool" where
  "hub_reachable route P h \<longleftrightarrow> (\<exists>w0. (hub_step route P)\<^sup>*\<^sup>* \<lparr>hub_world = w0, hub_sessions = []\<rparr> h)"

section \<open>What a session hears\<close>

fun heard_in :: "frame list \<Rightarrow> event list" where
  "heard_in [] = []"
| "heard_in (TopicFrame topic payload # fs) = payload\<lparr>ev_topic := topic\<rparr> # heard_in fs"
| "heard_in (_ # fs) = heard_in fs"

definition heard :: "session \<Rightarrow> event list" where
  "heard s = heard_in (ses_frames s)"

definition owner_keys :: "session \<Rightarrow> string set" where
  "owner_keys s = account_key ` set_option (ses_account_id s) \<union> app_key ` set_option (ses_app_id s)"

definition bound_for :: "session \<Rightarrow> (string \<times> message) list \<Rightarrow> message list" where
  "bound_for s ms = map snd (filter (\<lambda>km. fst km \<in> set (ses_bindings s)) ms)"

lemma heard_in_append [simp]: "heard_in (fs @ gs) = heard_in fs @ heard_in gs"
  by (induction fs rule: heard_in.induct) auto

lemma ws_send_simps [simp]:
  "ses_bindings (ws_send f s) = ses_bindings s" "ses_account_id (ws_send f s) = ses_account_id s"
  "ses_app_id (ws_send f s) = ses_app_id s" "ses_pending (ws_send f s) = ses_pending s"
  "ses_channel (ws_send f s) = ses_channel s" "ses_queue_name (ws_send f s) = ses_queue_name s"
  "ses_socket (ws_send f s) = ses_socket s" "ses_uid (ws_send f s) = ses_uid s"
  by (simp_all add: ws_send_def)

lemma ws_close_simps [simp]:
  "ses_bindings (ws_close c s) = ses_bindings s" "ses_account_id (ws_close c s) = ses_account_id s"
  "ses_app_id (ws_close c s) = ses_app_id s" "ses_pending (ws_close c s) = ses_pending s"
  "ses_channel (ws_close c s) = ses_channel s" "ses_queue_name (ws_close c s) = ses_queue_name s"
  "ses_frames (ws_close c s) = ses_frames s" "ses_uid (ws_close c s) = ses_uid s"
  by (simp_all add: ws_close_def)

text \<open>The invariant of a session, in a world whose traffic is \<open>ms\<close>.\<close>

definition session_ok :: "(string \<times> message) list \<Rightarrow> session \<Rightarrow> bool" where
  "session_ok ms s \<longleftrightarrow>
     set (ses_bindings s) \<subseteq> owner_keys s \<and>
     subseq (map EventMsg (heard s) @ ses_pending s) (bound_for s ms) \<and>
     list_all (\<lambda>e. validate (ev_topic e) e) (heard s)"

text \<open>What the invariant reads of a session.\<close>

lemma session_ok_same:
  assumes "session_ok ms s" and "ses_bindings t = ses_bindings s" and "owner_keys t = owner_keys s"
    and "heard t = heard s" and "ses_pending t = ses_pending s \<or> ses_pending t = []"
  shows "session_ok ms t"
  using assms unfolding session_ok_def bound_for_def
  by (auto intro: subseq_order.trans [OF prefix_imp_subseq [OF prefixI [OF refl]]])

lemma heard_send: "heard (ws_send f s) = (if ses_socket s = SocketOpen then heard s @ heard_in [f] else heard s)"
  by (simp add: heard_def ws_send_def)

lemma owner_keys_send [simp]: "owner_keys (ws_send f s) = owner_keys s" "owner_keys (ws_close c s) = owner_keys s"
  by (simp_all add: owner_keys_def)

lemma heard_close [simp]: "heard (ws_close c s) = heard s"
  by (simp add: heard_def)

lemma closeSession_ok: "session_ok ms s \<Longrightarrow> session_ok ms (closeSession err s)"
  by (erule session_ok_same) (auto simp: closeSession_def heard_send split: option.splits)

lemma on_close_ok: "session_ok ms s \<Longrightarrow> session_ok ms (on_close s)"
  by (erule session_ok_same) (auto simp: on_close_def heard_def owner_keys_def)

lemma on_message_ok: "session_ok ms s \<Longrightarrow> session_ok ms (on_message m s)"
  by (simp add: on_message_def closeSession_ok)

lemma consume_ok:
  assumes "session_ok ms s"
  shows "session_ok ms (consume s)"
proof (cases "ses_pending s")
  case Nil
  with assms show ?thesis by (simp add: consume_def)
next
  case (Cons m rest)
  let ?t = "s\<lparr>ses_pending := rest\<rparr>"
  from assms Cons have sub: "subseq (map EventMsg (heard s) @ m # rest) (bound_for s ms)"
    by (simp add: session_ok_def)
  have "subseq (map EventMsg (heard s) @ rest) (map EventMsg (heard s) @ m # rest)"
    by (rule iffD2 [OF subseq_append']) (rule list_emb_Cons, rule subseq_order.order_refl)
  from subseq_order.trans [OF this sub] assms have t: "session_ok ms ?t"
    by (simp add: session_ok_def heard_def owner_keys_def bound_for_def)
  show ?thesis
  proof (cases m)
    case (EventMsg e)
    show ?thesis
    proof (cases "validate (ev_topic e) e \<and> ses_socket s = SocketOpen")
      case True
      with sub assms EventMsg Cons show ?thesis
        by (simp add: session_ok_def consume_def on_delivery_def heard_send owner_keys_def bound_for_def)
          (simp add: heard_def)
    next
      case False
      with t EventMsg Cons show ?thesis by (auto simp: consume_def on_delivery_def ws_send_def)
    qed
  qed (use t Cons in \<open>simp_all add: consume_def on_delivery_def\<close>)
qed

lemma bound_for_append: "bound_for s (ms @ new) = bound_for s ms @ bound_for s new"
  by (simp add: bound_for_def)

context exchange
begin

lemma enqueue_queued:
  "enqueue route km s =
     (if ses_channel s \<and> fst km \<in> set (ses_bindings s) then s\<lparr>ses_pending := ses_pending s @ [snd km]\<rparr> else s)"
  by (simp add: enqueue_def route_queue)

lemma enqueue_all_queued:
  "enqueue_all route ms s =
     (if ses_channel s then s\<lparr>ses_pending := ses_pending s @ bound_for s ms\<rparr> else s)"
proof (induction ms arbitrary: s)
  case Nil
  then show ?case by (simp add: enqueue_all_def bound_for_def)
next
  case (Cons km ms)
  have "enqueue_all route (km # ms) s = enqueue_all route ms (enqueue route km s)"
    by (simp add: enqueue_all_def)
  then show ?case using Cons [of "enqueue route km s"] by (auto simp: enqueue_queued bound_for_def)
qed

lemma enqueue_all_ok:
  assumes "session_ok ms s"
  shows "session_ok (ms @ new) (enqueue_all route new s)"
proof (cases "ses_channel s")
  case True
  have t: "heard (s\<lparr>ses_pending := p\<rparr>) = heard s" "owner_keys (s\<lparr>ses_pending := p\<rparr>) = owner_keys s"
    "bound_for (s\<lparr>ses_pending := p\<rparr>) l = bound_for s l" for p l
    by (simp_all add: heard_def owner_keys_def bound_for_def)
  have "subseq ((map EventMsg (heard s) @ ses_pending s) @ bound_for s new) (bound_for s ms @ bound_for s new)"
    using assms by (intro list_emb_append_mono) (simp_all add: session_ok_def)
  with assms True t show ?thesis
    by (simp add: session_ok_def enqueue_all_queued bound_for_append)
next
  case False
  then have "enqueue_all route new s = s" by (simp add: enqueue_all_queued)
  moreover have "subseq (map EventMsg (heard s) @ ses_pending s) (bound_for s ms @ bound_for s new)"
    by (rule list_emb_prefix) (use assms in \<open>simp add: session_ok_def\<close>)
  ultimately show ?thesis using assms by (simp add: session_ok_def bound_for_append)
qed

end

section \<open>Connecting\<close>

text \<open>The session of a client that is who its token says.\<close>

definition welcomed :: "string \<Rightarrow> access_token \<Rightarrow> session \<Rightarrow> bool" where
  "welcomed uid tok s \<longleftrightarrow>
     ses_uid s = uid \<and> ses_socket s = SocketOpen \<and> ses_channel s \<and> ses_pending s = [] \<and>
     ses_account_id s = Some (tok_account_id tok) \<and> ses_app_id s = id_or_undefined (tok_app_id tok) \<and>
     ses_frames s = [ConnectedFrame uid, AuthenticatedFrame (tok_account_id tok) (tok_app_id tok)] \<and>
     ses_bindings s =
       (case id_or_undefined (tok_app_id tok) of None \<Rightarrow> [] | Some n \<Rightarrow> [app_key n]) @
       (case id_or_undefined (Some (tok_account_id tok)) of None \<Rightarrow> [] | Some n \<Rightarrow> [account_key n])"

text \<open>
  The session of a client that is not: bound to nothing, closing, told why only when it
  presented no token at all.
\<close>

definition turned_away :: "string \<Rightarrow> session \<Rightarrow> bool" where
  "turned_away uid s \<longleftrightarrow>
     s = ws_close (Some 1008) (new_session uid) \<or>
     s = closeSession (Some ''no valid token provided'') (new_session uid)"

lemma ws_close_twice: "ws_close (Some c) (closeSession err s) = closeSession err s"
  by (simp add: closeSession_def ws_close_def)

lemma id_or_undefined_at [simp]: "id_or_undefined (Some n) = (if n = 0 then None else Some n)"
  by (simp add: id_or_undefined_def)

lemmas session_defs = id_or_undefined_at subscribeToAccountEvents_def subscribeToAppEvents_def bindWebsocketToTopic_def
  new_session_def ws_send_def

lemma turned_away_unbound:
  "turned_away uid s \<Longrightarrow> ses_bindings s = [] \<and> ses_account_id s = None \<and> ses_app_id s = None \<and>
     ses_pending s = [] \<and> heard s = [] \<and> ses_socket s \<noteq> SocketOpen \<and> ses_uid s = uid"
  by (auto simp: turned_away_def closeSession_def ws_close_def new_session_def ws_send_def heard_def)

context prisma_client
begin

lemma on_connection_outcome:
  assumes "on_connection P amqp uid request w = (Inr (Some s), w')"
  shows "w' = w \<and> (turned_away uid s \<or>
    (\<exists>tok. presented_token request = Inr (tok_uid tok) \<and> truthy (tok_uid tok) \<and>
       tok \<in> set (rows (db_access_tokens w)) \<and>
       (\<exists>a \<in> set (rows (db_accounts w)). acc_id a = tok_account_id tok) \<and> welcomed uid tok s))"
proof (cases "presented_token request")
  case (Inl e)
  with assms show ?thesis
    by (auto simp: on_connection_def session_authenticate_def io_simps turned_away_def split: sum.splits if_splits)
next
  case (Inr token)
  show ?thesis
  proof (cases token)
    case None
    with Inr assms show ?thesis
      by (auto simp: on_connection_def session_authenticate_def io_simps turned_away_def ws_close_twice split: sum.splits)
  next
    case (Some t)
    from Inr Some have truth: "truthy (Some t)"
      by (auto simp: presented_token_def split: if_splits sum.splits)
    note run = on_connection_def session_authenticate_def io_simps handle_defs
    show ?thesis
    proof (cases "api_first (api_access_tokens P) (\<lambda>r. tok_uid r = Some t) (db_access_tokens w)")
      case None
      with Inr Some assms show ?thesis by (auto simp: run turned_away_def split: sum.splits)
    next
      case tok: (Some tok)
      note tok_row = ttk.first_sound [OF tok]
      show ?thesis
      proof (cases "api_first (api_accounts P) (\<lambda>a. acc_id a = tok_account_id tok) (db_accounts w)")
        case None
        with Inr Some tok assms show ?thesis by (auto simp: run turned_away_def split: sum.splits)
      next
        case acc: (Some acc)
        note acc_row = tac.first_sound [OF acc]
        show ?thesis
        proof (cases "id_or_undefined (tok_app_id tok)")
          case None
          with Inr Some tok acc assms have "w' = w \<and> welcomed uid tok s"
            using acc_row by (auto simp: run welcomed_def session_defs split: sum.splits option.splits if_splits)
          with Inr Some truth tok_row acc_row show ?thesis by metis
        next
          case app: (Some n)
          show ?thesis
          proof (cases "api_first (api_apps P) (\<lambda>a. app_row_id a = n) (db_apps w)")
            case None
            with Inr Some tok acc app assms show ?thesis
              by (auto simp: run turned_away_def split: sum.splits if_splits)
          next
            case ap: (Some ap)
            note ap_row = tap.first_sound [OF ap]
            from app have "n \<noteq> 0" by simp
            with Inr Some tok acc app ap assms have "w' = w \<and> welcomed uid tok s"
              using acc_row ap_row by (auto simp: run welcomed_def session_defs split: sum.splits option.splits if_splits)
            with Inr Some truth tok_row acc_row show ?thesis by metis
          qed
        qed
      qed
    qed
  qed
qed

end

section \<open>Reachable servers\<close>

lemma welcomed_ok: "welcomed uid tok s \<Longrightarrow> session_ok ms s"
  by (auto simp: welcomed_def session_ok_def heard_def owner_keys_def split: option.splits if_splits)

lemma turned_away_ok: "turned_away uid s \<Longrightarrow> session_ok ms s"
  by (drule turned_away_unbound) (simp add: session_ok_def)

lemma on_connection_ok:
  assumes "prisma_client P" and "on_connection P amqp uid request w = (Inr (Some s), w')"
  shows "session_ok ms s" and "w' = w"
  using prisma_client.on_connection_outcome [OF assms] by (auto intro: welcomed_ok turned_away_ok)

definition hub_ok :: "hub \<Rightarrow> bool" where
  "hub_ok h \<longleftrightarrow> list_all (session_ok (published (hub_world h))) (hub_sessions h)"

lemma hub_ok_update:
  "hub_ok h \<Longrightarrow> (\<And>s. session_ok (published (hub_world h)) s \<Longrightarrow> session_ok (published (hub_world h)) (f s)) \<Longrightarrow>
   i < length (hub_sessions h) \<Longrightarrow> hub_ok (h\<lparr>hub_sessions := (hub_sessions h)[i := f (hub_sessions h ! i)]\<rparr>)"
  by (auto simp: hub_ok_def list_all_length nth_list_update)

context exchange
begin

lemma hub_step_ok:
  assumes "prisma_client P" and "hub_step route P h h'" and "hub_ok h"
  shows "hub_ok h'"
  using assms(2)
proof cases
  case (connects amqp uid request s w')
  with assms(3) on_connection_ok [OF assms(1) connects(2)] show ?thesis by (simp add: hub_ok_def)
next
  case (publishes w' new)
  with assms(3) show ?thesis by (auto simp: hub_ok_def list_all_iff enqueue_all_ok)
next
  case (consumes i)
  with hub_ok_update [OF assms(3) consume_ok] show ?thesis by simp
next
  case (receives i m)
  with hub_ok_update [OF assms(3) on_message_ok] show ?thesis by simp
next
  case (closes i)
  with hub_ok_update [OF assms(3) on_close_ok] show ?thesis by simp
qed

lemma hub_reachable_ok:
  assumes "prisma_client P" and "hub_reachable route P h"
  shows "hub_ok h"
proof -
  from assms(2) obtain w0 where "(hub_step route P)\<^sup>*\<^sup>* \<lparr>hub_world = w0, hub_sessions = []\<rparr> h"
    by (auto simp: hub_reachable_def)
  then show ?thesis
    by (induction rule: rtranclp_induct) (auto simp: hub_ok_def [of "\<lparr>hub_world = w0, hub_sessions = []\<rparr>"]
      intro: hub_step_ok [OF assms(1)])
qed

end

text \<open>A session takes everything that waits for it.\<close>

definition consume_all :: "session \<Rightarrow> session" where
  "consume_all s = (consume ^^ length (ses_pending s)) s"

lemma consume_many:
  assumes "ses_socket s = SocketOpen"
  shows "ses_frames (consume_all s) = ses_frames s @
    List.map_filter (\<lambda>m. if passes m then map_option (\<lambda>(t, e). TopicFrame t e) (topic_of m) else None) (ses_pending s)"
  using assms
proof (induction "ses_pending s" arbitrary: s)
  case Nil
  then show ?case by (simp add: consume_all_def map_filter_simps)
next
  case (Cons m rest)
  let ?t = "consume s"
  have t: "ses_socket ?t = SocketOpen" "ses_pending ?t = rest"
    using Cons.hyps(2) Cons.prems
    by (auto simp: consume_def on_delivery_def split: list.splits option.splits)
  have "consume_all s = consume_all ?t"
    using Cons.hyps(2) [symmetric] t by (simp add: consume_all_def funpow_Suc_right del: funpow.simps)
  moreover have "ses_frames ?t = ses_frames s @
      List.map_filter (\<lambda>m. if passes m then map_option (\<lambda>(t, e). TopicFrame t e) (topic_of m) else None) [m]"
    using Cons.hyps(2) [symmetric] Cons.prems
    by (auto simp: consume_def on_delivery_def passes_def ws_send_def map_filter_simps split: option.splits)
  ultimately show ?case
    using Cons.hyps(1) [of ?t] t Cons.hyps(2) [symmetric] by (simp add: map_filter_simps split: option.splits)
qed

text \<open>Of the keys an event goes to, those a welcomed session is bound to.\<close>

lemma account_app_keys [simp]:
  "account_key n \<noteq> app_key k" "app_key k \<noteq> account_key n" "account_key n \<noteq> app_key k @ x"
  "app_key k \<noteq> account_key n @ x" "account_key n = account_key k \<longleftrightarrow> n = k" "app_key n = app_key k \<longleftrightarrow> n = k"
  by (simp_all add: account_key_def app_key_def)

definition hears_as :: "nat option \<Rightarrow> nat option \<Rightarrow> nat" where
  "hears_as mine its = of_bool (id_or_undefined mine \<noteq> None \<and> id_or_undefined mine = id_or_undefined its)"

lemma topic_not_key: "webhookSchemas topic \<noteq> None \<Longrightarrow> topic \<noteq> account_key n \<and> topic \<noteq> app_key n"
  by (auto simp: webhookSchemas_def account_key_def app_key_def split: if_splits)

text \<open>A numeral has no dot, so a key and the key of one of its topics never coincide.\<close>

lemma digit_no_dot: "k < 10 \<Longrightarrow> char_of (48 + k :: nat) \<noteq> CHR ''.''"
proof
  assume "k < 10" and "char_of (48 + k) = CHR ''.''"
  then have "(of_char (char_of (48 + k) :: char) :: nat) = of_char (CHR ''.'')" by simp
  with \<open>k < 10\<close> show False by simp
qed

lemma decimal_no_dot: "count_list (decimal n) (CHR ''.'') = 0"
proof (induction n rule: decimal.induct)
  case (1 n)
  then show ?case
    using digit_no_dot [of n] digit_no_dot [of "n mod 10"] by (simp add: decimal.simps [of n])
qed

lemma key_dots:
  "count_list (account_key n) (CHR ''.'') = 2" "count_list (app_key n) (CHR ''.'') = 2"
  by (simp_all add: account_key_def app_key_def decimal_no_dot)

lemma keys_with_suffix [simp]:
  "account_key n @ CHR ''.'' # x \<noteq> account_key m" "app_key n @ CHR ''.'' # x \<noteq> app_key m"
  "account_key n @ CHR ''.'' # x \<noteq> app_key m" "app_key n @ CHR ''.'' # x \<noteq> account_key m"
  using key_dots [of m] key_dots [of n]
  by (auto dest!: arg_cong [where f = "\<lambda>s. count_list s (CHR ''.'')"] simp: count_list_append)

lemma bound_routes:
  assumes "welcomed uid tok s" and "webhookSchemas (ev_topic e) \<noteq> None"
  shows "bound_for s (map (\<lambda>k. (k, EventMsg e)) (routes (ev_topic e) e)) =
    replicate (hears_as (ses_app_id s) (ev_app_id e) + hears_as (ses_account_id s) (ev_account_id e)) (EventMsg e)"
proof -
  let ?k = "\<lambda>keys. filter (\<lambda>k. k \<in> set (ses_bindings s)) keys"
  have only: "bound_for s (map (\<lambda>k. (k, EventMsg e)) keys) = replicate (length (?k keys)) (EventMsg e)" for keys
    by (induction keys) (auto simp: bound_for_def)
  note t = topic_not_key [OF assms(2)]
  show ?thesis
    using assms(1) t unfolding only
    by (cases "id_or_undefined (ev_app_id e)"; cases "id_or_undefined (ev_account_id e)";
        cases "id_or_undefined (tok_app_id tok)"; cases "tok_account_id tok")
      (auto simp: welcomed_def routes_def owner_routes_def hears_as_def)
qed

lemma delivered_frames:
  assumes "exchange route" and "welcomed uid tok s" and "validate (ev_topic e) e"
  shows "ses_frames (consume_all (enqueue_all route (map (\<lambda>k. (k, EventMsg e)) (routes (ev_topic e) e)) s)) =
    ses_frames s @ replicate (hears_as (ses_app_id s) (ev_app_id e) + hears_as (ses_account_id s) (ev_account_id e))
      (TopicFrame (ev_topic e) e)"
proof -
  from assms(3) have topic: "webhookSchemas (ev_topic e) \<noteq> None" by (auto simp: validate_iff)
  let ?n = "hears_as (ses_app_id s) (ev_app_id e) + hears_as (ses_account_id s) (ev_account_id e)"
  let ?f = "\<lambda>m. if passes m then map_option (\<lambda>(t, e). TopicFrame t e) (topic_of m) else None"
  have "?f (EventMsg e) = Some (TopicFrame (ev_topic e) e)"
    using assms(3) by (simp add: passes_def)
  then have rep: "List.map_filter ?f (replicate n (EventMsg e)) = replicate n (TopicFrame (ev_topic e) e)" for n
    by (induction n) (simp_all add: map_filter_simps)
  have "enqueue_all route (map (\<lambda>k. (k, EventMsg e)) (routes (ev_topic e) e)) s =
      s\<lparr>ses_pending := replicate ?n (EventMsg e)\<rparr>"
    using assms(2) by (simp add: exchange.enqueue_all_queued [OF assms(1)] bound_routes [OF assms(2) topic] welcomed_def)
  then show ?thesis
    using assms(2) consume_many [of "s\<lparr>ses_pending := replicate ?n (EventMsg e)\<rparr>"] rep [of ?n]
    by (simp add: welcomed_def)
qed

section \<open>Properties\<close>

definition socket_event :: event where
  "socket_event = (blank_event ''invoice.cancelled'' ''abc'' ''cancelled'')\<lparr>ev_account_id := Some 1, ev_app_id := Some 1\<rparr>"

definition socket_app :: app where
  "socket_app = \<lparr>app_row_id = 1, app_name = ''shop'', app_account_id = 1, app_public_key = [], app_private_key = []\<rparr>"

definition socket_token :: access_token where
  "socket_token = \<lparr>tok_id = 1, tok_uid = Some ''tok'', tok_account_id = 1, tok_app_id = Some 1, tok_createdAt = 0\<rparr>"

definition socket_world :: world where
  "socket_world = demo_world\<lparr>db_access_tokens := [Some socket_token], db_apps := [Some socket_app]\<rparr>"

definition socket_request :: handshake where
  "socket_request = \<lparr>hsk_authorization = Some ''Bearer tok'', hsk_url_token = Inr None\<rparr>"

definition socket_session :: session where
  "socket_session = \<lparr>ses_uid = ''u'', ses_queue_name = ''websocket:u'', ses_account_id = Some 1, ses_app_id = Some 1,
     ses_socket = SocketOpen, ses_frames = [ConnectedFrame ''u'', AuthenticatedFrame 1 (Some 1)],
     ses_bindings = [app_key 1, account_key 1], ses_pending = [], ses_channel = True\<rparr>"

lemma socket_presented: "presented_token socket_request = Inr (Some ''tok'')"
  by (simp add: presented_token_def bearer_token_def socket_request_def)

lemma socket_connects:
  "on_connection pg (Inr ()) ''u'' socket_request socket_world = (Inr (Some socket_session), socket_world)"
  by (simp add: on_connection_def session_authenticate_def socket_presented io_simps pg_eval demo_worlds demo_rows
      socket_world_def socket_token_def socket_app_def socket_session_def session_defs)

lemma socket_event_valid: "validate (ev_topic socket_event) socket_event"
  by (simp add: socket_event_def validate_iff InvoiceCancelledEvent_def blank_event_def)

lemma socket_welcomed: "welcomed ''u'' socket_token socket_session"
  by (simp add: welcomed_def socket_session_def socket_token_def)

text \<open>
  C37. Who a websocket session belongs to (src/src/websockets/session.ts and server.ts). Connecting
  changes nothing, and its session is either turned away (closing, bound to no key, heard by
  nobody) or the client presented, in its header or its URL, the uid of an access token whose
  account exists; then the session has exactly that token's account and app, is bound to exactly
  their keys, and the client was told who it is.
\<close>

theorem only_a_token_opens_a_session:
  assumes "prisma_client P" and "on_connection P amqp uid request w = (Inr (Some s), w')"
  shows "w' = w \<and>
    (turned_away uid s \<or>
     (\<exists>tok. presented_token request = Inr (tok_uid tok) \<and> truthy (tok_uid tok) \<and>
        tok \<in> set (rows (db_access_tokens w)) \<and>
        tok_account_id tok \<in> acc_id ` set (rows (db_accounts w)) \<and> welcomed uid tok s))"
  using prisma_client.on_connection_outcome [OF assms] by (metis image_eqI)

theorem only_a_token_opens_a_session_witness:
  "\<exists>s. on_connection pg (Inr ()) ''u'' socket_request socket_world = (Inr (Some s), socket_world) \<and>
     welcomed ''u'' socket_token s \<and> socket_token \<in> set (rows (db_access_tokens socket_world))"
proof -
  from only_a_token_opens_a_session [OF prisma_client_pg socket_connects] have "\<not> turned_away ''u'' socket_session \<longrightarrow>
      (\<exists>tok. tok \<in> set (rows (db_access_tokens socket_world)) \<and> welcomed ''u'' tok socket_session)" by blast
  moreover have "\<not> turned_away ''u'' socket_session"
    using turned_away_unbound [of "''u''" socket_session] by (auto simp: socket_session_def)
  ultimately have "welcomed ''u'' socket_token socket_session"
    by (auto simp: socket_world_def)
  then show ?thesis using socket_connects by (auto simp: socket_world_def)
qed

text \<open>
  C18. What a websocket session hears, in every state the server can reach (src/src/websockets).
  Whatever the rest of the program publishes, whatever clients send and whenever they connect or
  leave, the events a session has passed on are, in order and each at most as often as it was
  published, among those published under the keys of the session's own account and app, and
  each of them passes \<open>validate\<close>.
\<close>

theorem sessions_hear_only_their_owner:
  assumes "exchange route" and "prisma_client P"
    and "hub_reachable route P h" and "s \<in> set (hub_sessions h)"
  shows "list_all (\<lambda>e. validate (ev_topic e) e) (heard s) \<and>
    subseq (map EventMsg (heard s))
      (map snd (filter (\<lambda>km. fst km \<in> owner_keys s) (published (hub_world h))))"
proof -
  from exchange.hub_reachable_ok [OF assms(1-3)] assms(4)
  have ok: "session_ok (published (hub_world h)) s" by (simp add: hub_ok_def list_all_iff)
  have "subseq (bound_for s ms) (map snd (filter (\<lambda>km. fst km \<in> owner_keys s) ms))" for ms
    unfolding bound_for_def using ok by (intro subseq_map) (induction ms, auto simp: session_ok_def)
  moreover have "subseq (map EventMsg (heard s)) (bound_for s (published (hub_world h)))"
    using ok by (auto simp: session_ok_def intro: subseq_order.trans [OF prefix_imp_subseq [OF prefixI [OF refl]]])
  ultimately show ?thesis using ok subseq_order.trans by (auto simp: session_ok_def)
qed

theorem sessions_hear_only_their_owner_witness:
  "\<exists>h s. hub_reachable direct_route pg h \<and> s \<in> set (hub_sessions h) \<and> heard s = [socket_event] \<and>
     subseq (map EventMsg (heard s))
       (map snd (filter (\<lambda>km. fst km \<in> owner_keys s) (published (hub_world h))))"
proof -
  let ?w = "socket_world\<lparr>published := published socket_world @ [(account_key 1, EventMsg socket_event)]\<rparr>"
  let ?h0 = "\<lparr>hub_world = socket_world, hub_sessions = []\<rparr>"
  let ?h1 = "\<lparr>hub_world = socket_world, hub_sessions = [socket_session]\<rparr>"
  let ?h2 = "\<lparr>hub_world = ?w, hub_sessions = [socket_session\<lparr>ses_pending := [EventMsg socket_event]\<rparr>]\<rparr>"
  let ?s = "consume (socket_session\<lparr>ses_pending := [EventMsg socket_event]\<rparr>)"
  have 1: "hub_step direct_route pg ?h0 ?h1"
    using hub_step.connects [of pg "Inr ()" "''u''" socket_request ?h0 socket_session socket_world direct_route] socket_connects
    by simp
  have "enqueue_all direct_route [(account_key 1, EventMsg socket_event)] socket_session =
      socket_session\<lparr>ses_pending := [EventMsg socket_event]\<rparr>"
    by (simp add: direct.enqueue_all_queued bound_for_def socket_session_def)
  then have 2: "hub_step direct_route pg ?h1 ?h2"
    using hub_step.publishes [of ?w ?h1 "[(account_key 1, EventMsg socket_event)]" direct_route pg] by simp
  have 3: "hub_step direct_route pg ?h2 \<lparr>hub_world = ?w, hub_sessions = [?s]\<rparr>"
    using hub_step.consumes [of 0 ?h2 direct_route pg] by simp
  have reach: "hub_reachable direct_route pg \<lparr>hub_world = ?w, hub_sessions = [?s]\<rparr>"
    unfolding hub_reachable_def
    by (rule exI, rule rtranclp_trans [OF rtranclp_trans [OF r_into_rtranclp [of "hub_step direct_route pg", OF 1]
      r_into_rtranclp [of "hub_step direct_route pg", OF 2]] r_into_rtranclp [of "hub_step direct_route pg", OF 3]])
  have "heard ?s = [socket_event]"
    using socket_event_valid
    by (simp add: consume_def on_delivery_def ws_send_def socket_session_def heard_def)
  have s: "?s \<in> set (hub_sessions \<lparr>hub_world = ?w, hub_sessions = [?s]\<rparr>)"
    by (simp only: hub.select_convs list.set_intros)
  note heard_sub = conjunct2 [OF sessions_hear_only_their_owner [OF direct.exchange_axioms prisma_client_pg reach s]]
  show ?thesis
    by (rule exI, rule exI, rule conjI [OF reach], rule conjI [OF s], rule conjI [OF \<open>heard ?s = [socket_event]\<close>], rule heard_sub)
qed

text \<open>
  How often an event reaches a session: what \<open>publishEvent\<close> (src/src/lib/amqp.ts) publishes,
  routed by a direct exchange and taken from the queue (src/src/websockets/session.ts), adds the
  event's frame once for the session's app and once more for its account. A client with an app's
  token so receives each event of that app twice.
\<close>

theorem published_events_reach_sessions:
  assumes "exchange route" and "welcomed uid tok s" and "validate (ev_topic e) e"
    and "publishEvent (ev_topic e) e w = (Inr (), w')"
  shows "ses_frames (consume_all (enqueue_all route (drop (length (published w)) (published w')) s)) =
    ses_frames s @
    replicate (hears_as (tok_app_id tok) (ev_app_id e) + hears_as (Some (tok_account_id tok)) (ev_account_id e))
      (TopicFrame (ev_topic e) e)"
proof -
  from assms(4) have "published w' = published w @ map (\<lambda>k. (k, EventMsg e)) (routes (ev_topic e) e)"
    by (auto simp: publishEvent_run split: if_splits)
  moreover have "hears_as (ses_app_id s) i = hears_as (tok_app_id tok) i"
    "hears_as (ses_account_id s) j = hears_as (Some (tok_account_id tok)) j" for i j
    using assms(2) by (auto simp: welcomed_def hears_as_def id_or_undefined_def)
  ultimately show ?thesis using delivered_frames [OF assms(1-3)] by simp
qed

theorem published_events_reach_sessions_witness:
  "\<exists>w'. publishEvent ''invoice.cancelled'' socket_event socket_world = (Inr (), w') \<and>
     ses_frames (consume_all (enqueue_all direct_route (published w') socket_session)) =
       ses_frames socket_session @ [TopicFrame ''invoice.cancelled'' socket_event, TopicFrame ''invoice.cancelled'' socket_event]"
proof -
  have topic: "ev_topic socket_event = ''invoice.cancelled''" by (simp add: socket_event_def blank_event_def)
  obtain w' where w': "publishEvent (ev_topic socket_event) socket_event socket_world = (Inr (), w')"
    by (simp add: publishEvent_run accepted_on_def socket_event_def blank_event_def InvoiceCancelledEvent_def)
  have "hears_as (tok_app_id socket_token) (ev_app_id socket_event) +
      hears_as (Some (tok_account_id socket_token)) (ev_account_id socket_event) = 2"
    by (simp add: hears_as_def socket_token_def socket_event_def)
  with published_events_reach_sessions [OF direct.exchange_axioms socket_welcomed socket_event_valid w'] w' topic
  show ?thesis by (auto simp: numeral_2_eq_2 socket_world_def demo_worlds)
qed

end
