(* ===== verification/Feeds.thy ===== *)
theory Feeds
  imports Sockets
begin

text \<open>
  The older websocket server, \<open>src/server/ws/plugin.ts\<close>: a socket subscribes to the messages of
  an invoice, of the prices or, with an access token, of an account, and gets them as they are
  published. The queues are consumed by actors of the package \<open>rabbi\<close>: which of the consumers
  of one queue gets a message is a parameter, with what RabbitMQ promises as the locale
  \<open>work_queue\<close>.
\<close>

section \<open>Queues with several consumers\<close>

locale work_queue =
  fixes pick :: "nat \<Rightarrow> nat \<Rightarrow> nat"
  assumes pick_one: "0 < k \<Longrightarrow> pick n k < k"
begin

lemma pick_member: "xs \<noteq> [] \<Longrightarrow> xs ! pick n (length xs) \<in> set xs"
  by (simp add: pick_one)

end

text \<open>Consumers take turns.\<close>

definition round_robin :: "nat \<Rightarrow> nat \<Rightarrow> nat" where
  "round_robin n k = n mod k"

interpretation turns: work_queue round_robin
  by unfold_locales (simp add: round_robin_def)

section \<open>Sockets\<close>

record feed =
  fd_subscriptions :: "(string \<times> string) list"
  fd_listens :: bool
  fd_alive :: bool
  fd_messages :: "message list"

definition new_feed :: feed where
  "new_feed = \<lparr>fd_subscriptions = [], fd_listens = False, fd_alive = True, fd_messages = []\<rparr>"

definition subscribe :: "string \<Rightarrow> string \<Rightarrow> feed \<Rightarrow> feed" where
  "subscribe queue key f = f\<lparr>fd_subscriptions := fd_subscriptions f @ [(queue, key)]\<rparr>"

definition account_queue :: "nat \<Rightarrow> string" where
  "account_queue n = ''websocket_events_account_'' @ decimal n"

text \<open>\<open>findFirstOrThrow\<close> throws, so the socket of an unknown invoice is never closed.\<close>

definition handleInvoiceWebsocket :: "prisma \<Rightarrow> string \<Rightarrow> string \<Rightarrow> feed \<Rightarrow> feed prog" where
  "handleInvoiceWebsocket P invoice_uid socket_uid f =
     bnd (find_first_or_throw (prisma_invoices P) (\<lambda>i. inv_uid i = invoice_uid)) (\<lambda>_.
     ret (subscribe (''websocket_invoice_events_'' @ socket_uid) (invoice_key invoice_uid) f))"

definition handlePricesWebsocket :: "string \<Rightarrow> feed \<Rightarrow> feed prog" where
  "handlePricesWebsocket socket_uid f = ret (subscribe (''websocket_price_events_'' @ socket_uid) ''price.updated'' f)"

text \<open>
  A connection. With the header of an invoice the handler returns before it listens to the
  socket's messages; with a token of nobody it throws before it does.
\<close>

definition feed_connection ::
  "prisma \<Rightarrow> (string \<times> string) list \<Rightarrow> string \<Rightarrow> feed \<Rightarrow> feed prog" where
  "feed_connection P headers socket_uid f =
     (if truthy (map_of headers ''anypay-invoice-uid'')
      then handleInvoiceWebsocket P (the (map_of headers ''anypay-invoice-uid'')) socket_uid f
      else
        bnd (if truthy (map_of headers ''anypay-access-token'') then
               bnd (find_first_or_throw (prisma_access_tokens P)
                      (\<lambda>t. tok_uid t = map_of headers ''anypay-access-token'')) (\<lambda>accessToken.
               bnd (find_first_or_throw (prisma_accounts P)
                      (\<lambda>a. acc_id a = tok_account_id accessToken)) (\<lambda>account.
               ret (subscribe (account_queue (acc_id account)) (account_key (acc_id account)) f)))
             else ret f) (\<lambda>f.
        ret (f\<lparr>fd_listens := True\<rparr>)))"

text \<open>
  What a client may ask for; text that is no JSON, or a subscription without a payload, throws
  in the listener, where nothing catches it.
\<close>

datatype feed_request = BrokenJson | InvoiceSubscribe "string option" | SubscribeWithoutPayload | PricesSubscribe | OtherRequest

definition feed_message :: "prisma \<Rightarrow> feed_request \<Rightarrow> string \<Rightarrow> feed \<Rightarrow> feed prog" where
  "feed_message P message socket_uid f =
     (if \<not> fd_listens f then ret f
      else
        (case message of
           BrokenJson \<Rightarrow> throw (JsError ''SyntaxError'')
         | SubscribeWithoutPayload \<Rightarrow> throw JsTypeError
         | InvoiceSubscribe uid \<Rightarrow>
             if truthy uid
             then catch (handleInvoiceWebsocket P (the uid) socket_uid f)
                    (\<lambda>e. bnd (writes (\<lambda>w. w\<lparr>rejections := rejections w @ [e]\<rparr>)) (\<lambda>_. ret f))
             else ret f
         | PricesSubscribe \<Rightarrow> handlePricesWebsocket socket_uid f
         | OtherRequest \<Rightarrow> ret f))"

text \<open>Every thirty seconds: a socket that has not answered since the last round is ended.\<close>

definition ping :: "feed list \<Rightarrow> feed list" where
  "ping fs = map (\<lambda>f. f\<lparr>fd_alive := False\<rparr>) (filter fd_alive fs)"

definition heartbeat :: "feed \<Rightarrow> feed" where
  "heartbeat f = f\<lparr>fd_alive := True\<rparr>"

section \<open>Delivery\<close>

text \<open>A message goes to every queue bound to its key, and there to one of the consumers.\<close>

definition queues_for :: "string \<Rightarrow> feed list \<Rightarrow> string list" where
  "queues_for key fs = remdups (map fst (filter (\<lambda>(q, k). k = key) (concat (map fd_subscriptions fs))))"

definition consumers_of :: "string \<Rightarrow> feed list \<Rightarrow> nat list" where
  "consumers_of q fs = filter (\<lambda>i. q \<in> fst ` set (fd_subscriptions (fs ! i))) [0..<length fs]"

definition take_message :: "(nat \<Rightarrow> nat \<Rightarrow> nat) \<Rightarrow> nat \<Rightarrow> message \<Rightarrow> string \<Rightarrow> feed list \<Rightarrow> feed list" where
  "take_message pick n m q fs =
     (let i = consumers_of q fs ! pick n (length (consumers_of q fs)) in
      fs[i := (fs ! i)\<lparr>fd_messages := fd_messages (fs ! i) @ [m]\<rparr>])"

definition feed_deliver :: "(nat \<Rightarrow> nat \<Rightarrow> nat) \<Rightarrow> nat \<Rightarrow> string \<times> message \<Rightarrow> feed list \<Rightarrow> feed list" where
  "feed_deliver pick n km fs = fold (take_message pick n (snd km)) (queues_for (fst km) fs) fs"

section \<open>Facts\<close>

definition received_in_all :: "feed list \<Rightarrow> nat" where
  "received_in_all fs = sum_list (map (\<lambda>f. length (fd_messages f)) fs)"

lemma queues_for_set: "set (queues_for key fs) = {q. \<exists>f \<in> set fs. (q, key) \<in> set (fd_subscriptions f)}"
  by (force simp: queues_for_def)

lemma consumers_of_Nil: "consumers_of q fs = [] \<longleftrightarrow> (\<forall>f \<in> set fs. q \<notin> fst ` set (fd_subscriptions f))"
  by (auto simp: consumers_of_def filter_empty_conv all_set_conv_all_nth)

lemma consumers_of_bound: "i \<in> set (consumers_of q fs) \<Longrightarrow> i < length fs"
  by (simp add: consumers_of_def)

context work_queue
begin

text \<open>One message of one queue: one socket more has it, and nobody's subscriptions change.\<close>

lemma take_message_once:
  assumes "f \<in> set fs" and "q \<in> fst ` set (fd_subscriptions f)"
  shows "received_in_all (take_message pick n m q fs) = Suc (received_in_all fs)"
    and "map fd_subscriptions (take_message pick n m q fs) = map fd_subscriptions fs"
proof -
  let ?i = "consumers_of q fs ! pick n (length (consumers_of q fs))"
  from assms have "consumers_of q fs \<noteq> []" unfolding consumers_of_Nil by blast
  then have "?i \<in> set (consumers_of q fs)" by (rule pick_member)
  then have i: "?i < length fs" by (rule consumers_of_bound)
  have "received_in_all (xs[j := (xs ! j)\<lparr>fd_messages := fd_messages (xs ! j) @ [m]\<rparr>]) = Suc (received_in_all xs)"
    if "j < length xs" for j and xs :: "feed list"
    using that
  proof (induction xs arbitrary: j)
    case (Cons x xs)
    then show ?case by (cases j) (simp_all add: received_in_all_def)
  qed simp
  from this [OF i] show "received_in_all (take_message pick n m q fs) = Suc (received_in_all fs)"
    by (simp add: take_message_def Let_def)
  show "map fd_subscriptions (take_message pick n m q fs) = map fd_subscriptions fs"
    using i by (intro nth_equalityI) (auto simp: take_message_def Let_def nth_list_update)
qed

lemma take_messages_once:
  assumes "\<And>q. q \<in> set qs \<Longrightarrow> \<exists>s \<in> set (map fd_subscriptions fs). q \<in> fst ` set s"
  shows "received_in_all (fold (take_message pick n m) qs fs) = length qs + received_in_all fs"
  using assms
proof (induction qs arbitrary: fs)
  case (Cons q qs)
  from Cons.prems [of q] obtain f where f: "f \<in> set fs" "q \<in> fst ` set (fd_subscriptions f)" by auto
  note step = take_message_once [OF f, of n m]
  have "received_in_all (fold (take_message pick n m) qs (take_message pick n m q fs)) =
      length qs + received_in_all (take_message pick n m q fs)"
    by (rule Cons.IH) (use Cons.prems step(2) in simp)
  then show ?case using step(1) by simp
qed simp

lemma feed_deliver_count:
  "received_in_all (feed_deliver pick n km fs) = length (queues_for (fst km) fs) + received_in_all fs"
proof -
  have "\<exists>s \<in> set (map fd_subscriptions fs). q \<in> fst ` set s" if q: "q \<in> set (queues_for (fst km) fs)" for q
  proof -
    from q obtain f where "f \<in> set fs" and "(q, fst km) \<in> set (fd_subscriptions f)"
      unfolding queues_for_set by blast
    then show ?thesis by (intro bexI [of _ "fd_subscriptions f"]) (rule image_eqI [of _ _ "(q, fst km)"], simp_all)
  qed
  then show ?thesis unfolding feed_deliver_def by (rule take_messages_once)
qed

text \<open>
  All the sockets of an account consume one queue: however many there are, each event of the
  account reaches one of them.
\<close>

lemma account_event_taken_once:
  assumes "f \<in> set fs" and "(account_queue a, account_key a) \<in> set (fd_subscriptions f)"
    and "\<And>f q. f \<in> set fs \<Longrightarrow> (q, account_key a) \<in> set (fd_subscriptions f) \<Longrightarrow> q = account_queue a"
  shows "received_in_all (feed_deliver pick n (account_key a, m) fs) = Suc (received_in_all fs)"
proof -
  have "set (queues_for (account_key a) fs) = {account_queue a}"
    unfolding queues_for_set using assms by blast
  moreover have "distinct (queues_for (account_key a) fs)" by (simp add: queues_for_def)
  ultimately have "length (queues_for (account_key a) fs) = 1"
    using distinct_card [of "queues_for (account_key a) fs"] by simp
  then show ?thesis by (simp add: feed_deliver_count)
qed

end

text \<open>A socket that does not answer is gone after two rounds; one that answers each time stays.\<close>

lemma silent_feeds_end: "ping (ping fs) = []"
  by (simp add: ping_def)

lemma answering_feeds_stay: "list_all fd_alive fs \<Longrightarrow> map heartbeat (ping fs) = fs"
  by (induction fs) (auto simp: ping_def heartbeat_def)

context prisma_client
begin

lemma feed_connection_token:
  assumes "feed_connection P headers u new_feed w = (Inr f, w')" and "(q, account_key a) \<in> set (fd_subscriptions f)"
  shows "\<exists>tok \<in> set (rows (db_access_tokens w)). tok_uid tok = map_of headers ''anypay-access-token'' \<and>
    tok_account_id tok = a \<and> q = account_queue a"
proof (cases "truthy (map_of headers ''anypay-invoice-uid'')")
  case True
  with assms show ?thesis
    by (auto simp: feed_connection_def handleInvoiceWebsocket_def io_simps new_feed_def subscribe_def
        invoice_key_def account_key_def split: option.splits)
next
  case False
  with assms(2) have token: "truthy (map_of headers ''anypay-access-token'')"
    using assms(1) by (cases "truthy (map_of headers ''anypay-access-token'')") (auto simp: feed_connection_def ret_run new_feed_def)
  let ?tok = "api_first (api_access_tokens P) (\<lambda>t. tok_uid t = map_of headers ''anypay-access-token'') (db_access_tokens w)"
  note run = feed_connection_def bnd_run find_first_or_throw_run prisma_access_tokens_def prisma_accounts_def ret_run
  from False token assms(1) obtain tok where tok: "?tok = Some tok"
    by (cases ?tok) (simp_all add: run)
  let ?acc = "api_first (api_accounts P) (\<lambda>a. acc_id a = tok_account_id tok) (db_accounts w)"
  from False token assms(1) tok obtain acc where acc: "?acc = Some acc"
    by (cases ?acc) (simp_all add: run)
  from False token assms(1) tok acc have "fd_subscriptions f = [(account_queue (acc_id acc), account_key (acc_id acc))]"
    by (auto simp: run subscribe_def new_feed_def)
  with assms(2) ttk.first_sound [OF tok] tac.first_sound [OF acc] show ?thesis by auto
qed

end

end
