(* ===== verification/WalletBot.thy ===== *)
theory WalletBot
  imports Server Routes
begin

text \<open>
  The wallet bot of \<open>src/apps/wallet-bot\<close>: the bot of an account and its app, the invoices it
  asks for, the balances it reports, and the handlers of \<open>plugin.ts\<close> and \<open>api/handlers\<close>. The
  sockets of the bots are in WalletSockets; here a handler is told which bots have one.
\<close>

definition APP_NAME :: string where
  "APP_NAME = ''@wallet-bot''"

definition not_authorized :: js_error where
  "not_authorized = JsError ''WalletBotNotAuthorized''"

section \<open>The bot of an account\<close>

definition loadFromApp :: "prisma \<Rightarrow> app \<Rightarrow> wallet_bot prog" where
  "loadFromApp P app =
     bnd (guard_io (app_name app = APP_NAME) (JsError ''Invalid Access Token'')) (\<lambda>_.
     find_first_or_throw (prisma_wallet_bots P) (\<lambda>b. wb_app_id b = Some (app_row_id app)))"

definition getWalletBot :: "prisma \<Rightarrow> string \<Rightarrow> wallet_bot prog" where
  "getWalletBot P token =
     bnd (find_first_or_throw (prisma_access_tokens P) (\<lambda>t. tok_uid t = Some token)) (\<lambda>accessToken.
     (case id_or_undefined (tok_app_id accessToken) of
        None \<Rightarrow> throw (JsError ''Invalid Access Token'')
      | Some app_id \<Rightarrow>
          bnd (find_first_or_throw (prisma_apps P) (\<lambda>a. app_row_id a = app_id)) (\<lambda>app.
          loadFromApp P app)))"

definition listWalletBots :: "prisma \<Rightarrow> account \<Rightarrow> wallet_bot list prog" where
  "listWalletBots P account = find_many (prisma_wallet_bots P) (\<lambda>b. wb_account_id b = Some (acc_id account))"

definition createWalletBot :: "ext \<Rightarrow> prisma \<Rightarrow> account \<Rightarrow> wallet_bot prog" where
  "createWalletBot E P account =
     bnd (find_first (prisma_apps P) (\<lambda>a. app_name a = APP_NAME \<and> app_account_id a = acc_id account)) (\<lambda>found.
     bnd (case found of Some app \<Rightarrow> ret app | None \<Rightarrow> createApp E P APP_NAME (acc_id account)) (\<lambda>app.
     bnd (find_first (prisma_wallet_bots P) (\<lambda>b. wb_app_id b = Some (app_row_id app) \<and>
            wb_account_id b = Some (acc_id account))) (\<lambda>walletBot.
     (case walletBot of
        Some b \<Rightarrow> ret b
      | None \<Rightarrow> create_row (prisma_wallet_bots P) (\<lambda>i. \<lparr>wb_id = i, wb_name = None,
          wb_account_id = Some (acc_id account), wb_app_id = Some (app_row_id app)\<rparr>)))))"

definition findOrCreateWalletBot :: "ext \<Rightarrow> prisma \<Rightarrow> account \<Rightarrow> (wallet_bot \<times> app) prog" where
  "findOrCreateWalletBot E P account =
     bnd (find_first (prisma_wallet_bots P) (\<lambda>b. wb_account_id b = Some (acc_id account))) (\<lambda>existingBot.
     (case existingBot of
        Some walletBot \<Rightarrow>
          bnd (find_first_or_throw (prisma_apps P)
                 (\<lambda>a. app_account_id a = acc_id account \<and> app_name a = APP_NAME)) (\<lambda>app.
          ret (walletBot, app))
      | None \<Rightarrow>
          bnd (createApp E P APP_NAME (acc_id account)) (\<lambda>app.
          bnd (create_row (prisma_wallet_bots P) (\<lambda>i. \<lparr>wb_id = i, wb_name = Some APP_NAME,
                 wb_account_id = Some (acc_id account), wb_app_id = Some (app_row_id app)\<rparr>)) (\<lambda>walletBot.
          ret (walletBot, app)))))"

definition getAccessToken :: "ext \<Rightarrow> prisma \<Rightarrow> wallet_bot \<Rightarrow> access_token prog" where
  "getAccessToken E P walletBot =
     (let account_id = (case wb_account_id walletBot of None \<Rightarrow> 0 | Some n \<Rightarrow> n) in
      bnd (find_first (prisma_access_tokens P) (\<lambda>t. tok_account_id t = account_id \<and>
             tok_app_id t = wb_app_id walletBot)) (\<lambda>found.
      (case found of
         Some record \<Rightarrow> ret record
       | None \<Rightarrow>
           bnd (ask (uuid E)) (\<lambda>uid.
           bnd (reads now) (\<lambda>t.
           create_row (prisma_access_tokens P) (\<lambda>i. \<lparr>tok_id = i, tok_uid = Some uid, tok_account_id = account_id,
             tok_app_id = wb_app_id walletBot, tok_createdAt = t\<rparr>))))))"

section \<open>Invoices of a bot\<close>

text \<open>\<open>Number(walletBot.app_id)\<close>\<close>

definition bot_app_id :: "wallet_bot \<Rightarrow> nat" where
  "bot_app_id walletBot = (case wb_app_id walletBot of None \<Rightarrow> 0 | Some n \<Rightarrow> n)"

definition bot_createInvoice ::
  "ext \<Rightarrow> prisma \<Rightarrow> wallet_bot \<Rightarrow> string \<Rightarrow> template_output list \<Rightarrow> payment_request_options \<Rightarrow> payment_request prog" where
  "bot_createInvoice E P walletBot currency to options =
     (case id_or_undefined (wb_app_id walletBot) of
        None \<Rightarrow> throw not_authorized
      | Some app_id \<Rightarrow>
          createPaymentRequest E P app_id [\<lparr>tpl_currency = currency, tpl_chain = None, tpl_to = to\<rparr>] options)"

definition bot_getInvoice :: "prisma \<Rightarrow> wallet_bot \<Rightarrow> string \<Rightarrow> invoice prog" where
  "bot_getInvoice P walletBot uid =
     bnd (invoice_by_uid P uid) (\<lambda>invoice.
     bnd (guard_io (inv_app_id invoice = wb_app_id walletBot) not_authorized) (\<lambda>_.
     ret invoice))"

record list_invoices =
  lsi_status :: "string option"
  lsi_currency :: "string option"
  lsi_offset :: "nat option"
  lsi_limit :: "nat option"

text \<open>The conditions are those of the caller alone.\<close>

definition bot_listInvoices :: "prisma \<Rightarrow> wallet_bot \<Rightarrow> list_invoices \<Rightarrow> invoice list prog" where
  "bot_listInvoices P walletBot q =
     bnd (find_many (prisma_invoices P) (\<lambda>i.
            (truthy (lsi_status q) \<longrightarrow> Some (inv_status i) = lsi_status q) \<and>
            (truthy (lsi_currency q) \<longrightarrow> inv_currency i = lsi_currency q))) (\<lambda>found.
     ret (take (or_default (lsi_limit q) 100) (drop (case lsi_offset q of None \<Rightarrow> 0 | Some n \<Rightarrow> n) found)))"

definition bot_createPaymentRequest ::
  "ext \<Rightarrow> prisma \<Rightarrow> wallet_bot \<Rightarrow> template_option list \<Rightarrow> payment_request_options \<Rightarrow> payment_request prog" where
  "bot_createPaymentRequest E P walletBot template options =
     createPaymentRequest E P (bot_app_id walletBot) template options"

definition bot_cancelInvoice :: "prisma \<Rightarrow> wallet_bot \<Rightarrow> string \<Rightarrow> invoice prog" where
  "bot_cancelInvoice P walletBot uid =
     bnd (invoice_by_uid P uid) (\<lambda>invoice.
     bnd (guard_io (inv_app_id invoice = wb_app_id walletBot) not_authorized) (\<lambda>_.
     cancelInvoice P invoice))"

section \<open>Balances\<close>

text \<open>The pairs of chain and currency of all balances, whichever bot reported them, each once.\<close>

definition balance_groups :: "prisma \<Rightarrow> (string option \<times> string option) list prog" where
  "balance_groups P =
     bnd (find_many (prisma_balance_updates P) (\<lambda>_. True)) (\<lambda>updates.
     ret (remdups (map (\<lambda>u. (abu_chain u, abu_currency u)) updates)))"

definition latest_balance :: "prisma \<Rightarrow> wallet_bot \<Rightarrow> string option \<times> string option \<Rightarrow> balance_update prog" where
  "latest_balance P walletBot g =
     bnd (find_sorted (prisma_balance_updates P) (\<lambda>u. - abu_createdAt u)
            (\<lambda>u. abu_wallet_bot_id u = Some (wb_id walletBot) \<and> abu_chain u = fst g \<and> abu_currency u = snd g)) (\<lambda>found.
     (case found of [] \<Rightarrow> throw (PrismaError RecordNotFound) | u # _ \<Rightarrow> ret u))"

definition listLatestBalances :: "prisma \<Rightarrow> wallet_bot \<Rightarrow> balance_update list prog" where
  "listLatestBalances P walletBot = bnd (balance_groups P) (\<lambda>updates. map_io (latest_balance P walletBot) updates)"

definition getAddressHistory ::
  "prisma \<Rightarrow> wallet_bot \<Rightarrow> string \<Rightarrow> string \<Rightarrow> string \<Rightarrow> balance_update list prog" where
  "getAddressHistory P walletBot address currency chain =
     find_many (prisma_balance_updates P) (\<lambda>u. abu_address u = Some address \<and> abu_currency u = Some currency \<and>
       abu_chain u = Some chain \<and> abu_wallet_bot_id u = Some (wb_id walletBot))"

record balance_report =
  rep_chain :: "string option"
  rep_currency :: "string option"
  rep_address :: "string option"
  rep_balance :: "num option"

definition new_balance :: "wallet_bot \<Rightarrow> balance_report \<Rightarrow> time \<Rightarrow> nat \<Rightarrow> balance_update" where
  "new_balance walletBot p t i = \<lparr>abu_id = i, abu_chain = rep_chain p, abu_currency = rep_currency p,
     abu_address = rep_address p, abu_balance = rep_balance p, abu_wallet_bot_id = Some (wb_id walletBot),
     abu_createdAt = t\<rparr>"

text \<open>A condition on an undefined value is no condition; the difference to an undefined balance is \<open>NaN\<close>.\<close>

definition reported_for :: "wallet_bot \<Rightarrow> balance_report \<Rightarrow> balance_update \<Rightarrow> bool" where
  "reported_for walletBot p u \<longleftrightarrow>
     (rep_chain p = None \<or> abu_chain u = rep_chain p) \<and>
     (rep_currency p = None \<or> abu_currency u = rep_currency p) \<and>
     (rep_address p = None \<or> abu_address u = rep_address p) \<and>
     abu_wallet_bot_id u = Some (wb_id walletBot)"

definition setAddressBalance :: "prisma \<Rightarrow> wallet_bot \<Rightarrow> balance_report \<Rightarrow> (balance_update \<times> bool) prog" where
  "setAddressBalance P walletBot p =
     bnd (find_first (prisma_balance_updates P) (reported_for walletBot p)) (\<lambda>latest.
     if (case latest of None \<Rightarrow> False | Some u \<Rightarrow> rep_balance p = Some (js_Number (abu_balance u)))
     then ret (the latest, False)
     else
       bnd (reads now) (\<lambda>t.
       bnd (create_row (prisma_balance_updates P) (new_balance walletBot p t)) (\<lambda>update.
       ret (update, True))))"

record payment_counts =
  cnt_cancelled :: nat
  cnt_paid :: nat
  cnt_unpaid :: nat

definition getPaymentCounts :: "wallet_bot \<Rightarrow> payment_counts prog" where
  "getPaymentCounts walletBot = ret \<lparr>cnt_cancelled = 0, cnt_paid = 0, cnt_unpaid = 0\<rparr>"

section \<open>Handlers\<close>

text \<open>
  \<open>GET /v1/api/apps/wallet-bot\<close> and its dashboard. \<open>socket\<close> says which bots are connected.
  The module's own table of balances, which the first one shows, is never written.
\<close>

record bot_view =
  bv_id :: nat
  bv_connected :: bool
  bv_access_token :: "string option"
  bv_balances :: "balance_update list"
  bv_counts :: payment_counts

definition bot_show :: "ext \<Rightarrow> prisma \<Rightarrow> (nat \<Rightarrow> bool) \<Rightarrow> account \<Rightarrow> bot_view reply prog" where
  "bot_show E P socket account = or_refuse 500
     (bnd (findOrCreateWalletBot E P account) (\<lambda>(walletBot, _).
      bnd (getAccessToken E P walletBot) (\<lambda>accessToken.
      bnd (getPaymentCounts walletBot) (\<lambda>counts.
      ret (Reply 200 \<lparr>bv_id = wb_id walletBot, bv_connected = socket (wb_id walletBot),
        bv_access_token = tok_uid accessToken, bv_balances = [], bv_counts = counts\<rparr>)))))"

definition bot_dashboard :: "ext \<Rightarrow> prisma \<Rightarrow> (nat \<Rightarrow> bool) \<Rightarrow> account \<Rightarrow> bot_view reply prog" where
  "bot_dashboard E P socket account = or_refuse 500
     (bnd (findOrCreateWalletBot E P account) (\<lambda>(walletBot, _).
      bnd (getAccessToken E P walletBot) (\<lambda>accessToken.
      bnd (getPaymentCounts walletBot) (\<lambda>counts.
      bnd (listLatestBalances P walletBot) (\<lambda>balances.
      ret (Reply 200 \<lparr>bv_id = wb_id walletBot, bv_connected = socket (wb_id walletBot),
        bv_access_token = tok_uid accessToken, bv_balances = balances, bv_counts = counts\<rparr>))))))"

definition bot_invoices_create ::
  "ext \<Rightarrow> prisma \<Rightarrow> account \<Rightarrow> string \<Rightarrow> template_output \<Rightarrow> payment_request_options \<Rightarrow> payment_request reply prog" where
  "bot_invoices_create E P account currency to options = or_refuse 400
     (bnd (findOrCreateWalletBot E P account) (\<lambda>(walletBot, _).
      bnd (bot_createPaymentRequest E P walletBot
             [\<lparr>tpl_currency = currency, tpl_chain = None, tpl_to = [to]\<rparr>] options) (\<lambda>result.
      ret (Reply 201 result))))"

text \<open>
  The query comes as texts: the client refuses a \<open>take\<close> or \<open>skip\<close> that is one. Without them
  the first hundred are listed. \<open>invoices.ts\<close> and \<open>v1_invoices.ts\<close> have the same list.
\<close>

record invoice_query =
  iq_status :: "string option"
  iq_limit :: "string option"
  iq_offset :: "string option"
  iq_currency :: "string option"

definition bot_invoices_index :: "ext \<Rightarrow> prisma \<Rightarrow> account \<Rightarrow> invoice_query \<Rightarrow> invoice list reply prog" where
  "bot_invoices_index E P account q =
     bnd (findOrCreateWalletBot E P account) (\<lambda>(_, app).
     bnd (guard_io (\<not> truthy (iq_limit q) \<and> \<not> truthy (iq_offset q)) (PrismaError InvalidValue)) (\<lambda>_.
     bnd (find_many (prisma_invoices P) (\<lambda>i. inv_app_id i = Some (app_row_id app) \<and>
            Some (inv_status i) = str_or (iq_status q) (Some ''unpaid'') \<and>
            (truthy (iq_currency q) \<longrightarrow> inv_currency i = iq_currency q))) (\<lambda>invoices.
     ret (Reply 200 (take 100 invoices)))))"

definition bot_v1_invoices_index :: "ext \<Rightarrow> prisma \<Rightarrow> account \<Rightarrow> invoice_query \<Rightarrow> invoice list reply prog" where
  "bot_v1_invoices_index E P account q = bot_invoices_index E P account q"

definition bot_invoices_cancel :: "ext \<Rightarrow> prisma \<Rightarrow> account \<Rightarrow> string \<Rightarrow> invoice reply prog" where
  "bot_invoices_cancel E P account invoice_uid = or_refuse 400
     (bnd (findOrCreateWalletBot E P account) (\<lambda>(walletBot, app).
      bnd (ensureInvoice P invoice_uid) (\<lambda>invoice.
      if inv_app_id invoice \<noteq> Some (app_row_id app) then ret (Refused 401 None)
      else bnd (bot_cancelInvoice P walletBot (inv_uid invoice)) (\<lambda>cancelled. ret (Reply 200 cancelled)))))"

definition balances_index :: "prisma \<Rightarrow> app \<Rightarrow> balance_update list reply prog" where
  "balances_index P app =
     bnd (loadFromApp P app) (\<lambda>walletBot.
     bnd (listLatestBalances P walletBot) (\<lambda>balances. ret (Reply 200 balances)))"

definition balances_show :: "prisma \<Rightarrow> app \<Rightarrow> string \<Rightarrow> string \<Rightarrow> string \<Rightarrow> balance_update list reply prog" where
  "balances_show P app chain currency address = or_refuse 400
     (bnd (loadFromApp P app) (\<lambda>walletBot.
      bnd (getAddressHistory P walletBot address currency chain) (\<lambda>history. ret (Reply 200 history))))"

definition balances_update :: "prisma \<Rightarrow> app \<Rightarrow> balance_report \<Rightarrow> (balance_update \<times> bool) reply prog" where
  "balances_update P app p =
     bnd (loadFromApp P app) (\<lambda>walletBot.
     or_refuse 400 (bnd (setAddressBalance P walletBot p) (\<lambda>changed. ret (Reply 200 changed))))"

section \<open>Routes\<close>

text \<open>
  The routes of \<open>plugin.ts\<close>, which \<open>src/server/v0/server.ts\<close> registers with those of Routes when
  the wallet bot is enabled.
\<close>

definition bot_invoice_schema :: Routes.schema where
  "bot_invoice_schema =
     JObject [req ''currency'' (JString []),
       req ''to'' (JObject [req ''address'' (JString []), req ''amount'' (JNumber []), req ''currency'' (JString [])] []),
       opt ''options'' (JObject [opt ''webhook_url'' (JString []), opt ''memo'' (JString [])] [])] []"

definition bot_routes :: "route list" where
  "bot_routes = [
     \<lparr>ro_method = GET, ro_path = ''/v1/api/apps/wallet-bot'', ro_handler = ''bot_show'', ro_auth = Some ''jwt'',
       ro_checks = [], ro_response = None\<rparr>,
     \<lparr>ro_method = GET, ro_path = ''/v1/api/apps/wallet-bot/dashboard'', ro_handler = ''bot_dashboard'', ro_auth = Some ''app'',
       ro_checks = [], ro_response = None\<rparr>,
     \<lparr>ro_method = POST, ro_path = ''/v1/api/apps/wallet-bot/invoices'', ro_handler = ''Invoices.create'', ro_auth = Some ''app'',
       ro_checks = [(Payload, Log, bot_invoice_schema)], ro_response = Some (Log, JAny [])\<rparr>,
     \<lparr>ro_method = GET, ro_path = ''/v0/api/apps/wallet-bot/invoices'', ro_handler = ''Invoices.index'', ro_auth = Some ''app'',
       ro_checks = [], ro_response = None\<rparr>,
     \<lparr>ro_method = PUT, ro_path = ''/v1/api/apps/wallet-bot/address-balances'', ro_handler = ''AddressBalances.update'',
       ro_auth = Some ''app'',
       ro_checks = [(Payload, Fail, JObject [opt ''chain'' (JString []), opt ''currency'' (JString []),
         opt ''address'' (JString []), opt ''balance'' (JNumber [])] [])], ro_response = None\<rparr>,
     \<lparr>ro_method = GET, ro_path = ''/v1/api/apps/wallet-bot/address-balances'', ro_handler = ''AddressBalances.index'',
       ro_auth = Some ''app'', ro_checks = [], ro_response = None\<rparr>,
     \<lparr>ro_method = GET, ro_path = ''/v1/api/apps/wallet-bot/address-balances/{chain}/{currency}/{address}'',
       ro_handler = ''AddressBalances.show'', ro_auth = Some ''app'',
       ro_checks = [(Params, Fail, JObject [opt ''chain'' (JString []), opt ''currency'' (JString []),
         opt ''address'' (JString [])] [])], ro_response = None\<rparr>,
     \<lparr>ro_method = DELETE, ro_path = ''/v1/api/apps/wallet-bot/invoices/{invoice_uid}'', ro_handler = ''V1Invoices.cancel'',
       ro_auth = Some ''app'', ro_checks = [(Params, Fail, JObject [req ''invoice_uid'' (JString [])] [])], ro_response = None\<rparr>,
     \<lparr>ro_method = GET, ro_path = ''/v1/api/apps/wallet-bot/invoices'', ro_handler = ''V1Invoices.index'', ro_auth = Some ''app'',
       ro_checks = [], ro_response = None\<rparr>]"

lemma bot_routes_new:
  "distinct (map (\<lambda>r. (ro_method r, fingerprint (ro_path r))) (server_routes @ bot_routes))"
  by code_simp

section \<open>Facts\<close>

text \<open>The conditions of a list name no bot.\<close>

lemma bot_listInvoices_of_anyone: "bot_listInvoices P b q = bot_listInvoices P b' q"
  by (simp add: bot_listInvoices_def)

definition group_of :: "balance_update \<Rightarrow> string option \<times> string option" where
  "group_of u = (abu_chain u, abu_currency u)"

text \<open>A bot's balances of one chain and currency, and the newest of them.\<close>

definition newest_balance :: "world \<Rightarrow> wallet_bot \<Rightarrow> string option \<times> string option \<Rightarrow> balance_update \<Rightarrow> bool" where
  "newest_balance w b g u \<longleftrightarrow>
     u \<in> set (rows (db_balance_updates w)) \<and> abu_wallet_bot_id u = Some (wb_id b) \<and>
     group_of u = g \<and>
     (\<forall>v \<in> set (rows (db_balance_updates w)).
        abu_wallet_bot_id v = Some (wb_id b) \<and> group_of v = g \<longrightarrow> abu_createdAt v \<le> abu_createdAt u)"

definition all_groups :: "world \<Rightarrow> (string option \<times> string option) set" where
  "all_groups w = group_of ` set (rows (db_balance_updates w))"

definition own_groups :: "wallet_bot \<Rightarrow> world \<Rightarrow> (string option \<times> string option) set" where
  "own_groups b w = group_of ` {u \<in> set (rows (db_balance_updates w)). abu_wallet_bot_id u = Some (wb_id b)}"

context prisma_client
begin

lemma latest_balance_run:
  "latest_balance P b g w =
     (case api_sorted (api_balance_updates P) (\<lambda>u. - abu_createdAt u)
        (\<lambda>u. abu_wallet_bot_id u = Some (wb_id b) \<and> abu_chain u = fst g \<and> abu_currency u = snd g) (db_balance_updates w) of
        [] \<Rightarrow> (Inl (PrismaError RecordNotFound), w) | u # _ \<Rightarrow> (Inr u, w))"
  by (simp add: latest_balance_def io_simps prisma_balance_updates_def split: list.splits)

lemma latest_balance_cases:
  "(\<exists>u. latest_balance P b g w = (Inr u, w) \<and> newest_balance w b g u) \<or>
   (latest_balance P b g w = (Inl (PrismaError RecordNotFound), w) \<and>
    (\<forall>v \<in> set (rows (db_balance_updates w)).
       abu_wallet_bot_id v = Some (wb_id b) \<longrightarrow> group_of v \<noteq> g))"
proof -
  let ?p = "\<lambda>u. abu_wallet_bot_id u = Some (wb_id b) \<and> abu_chain u = fst g \<and> abu_currency u = snd g"
  let ?l = "api_sorted (api_balance_updates P) (\<lambda>u. - abu_createdAt u) ?p (db_balance_updates w)"
  have set: "set ?l = {u \<in> set (rows (db_balance_updates w)). ?p u}" by (rule tbu.set_sorted)
  show ?thesis
  proof (cases ?l)
    case Nil
    with set show ?thesis by (auto simp: latest_balance_run group_of_def)
  next
    case (Cons u rest)
    have "sorted (map (\<lambda>u. - abu_createdAt u) ?l)" by (rule tbu.sorted_order)
    then have "\<forall>v \<in> set ?l. abu_createdAt v \<le> abu_createdAt u" unfolding Cons by auto
    moreover have "u \<in> set ?l" by (simp add: Cons)
    ultimately have "newest_balance w b g u" unfolding set newest_balance_def group_of_def by (cases g) auto
    with Cons show ?thesis by (simp add: latest_balance_run)
  qed
qed

lemma map_latest_balance:
  "(\<exists>bs. map_io (latest_balance P b) gs w = (Inr bs, w) \<and> list_all2 (newest_balance w b) gs bs \<and> set gs \<subseteq> own_groups b w) \<or>
   (map_io (latest_balance P b) gs w = (Inl (PrismaError RecordNotFound), w) \<and> \<not> set gs \<subseteq> own_groups b w)"
proof (induction gs)
  case Nil
  then show ?case by (simp add: io_simps)
next
  case (Cons g gs)
  have own: "newest_balance w b g u \<Longrightarrow> g \<in> own_groups b w" for u
    by (auto simp: newest_balance_def own_groups_def)
  from latest_balance_cases [of b g w] show ?case
  proof (elim disjE exE conjE)
    fix u assume u: "latest_balance P b g w = (Inr u, w)" "newest_balance w b g u"
    from Cons show ?case
    proof (elim disjE exE conjE)
      fix bs assume "map_io (latest_balance P b) gs w = (Inr bs, w)" "list_all2 (newest_balance w b) gs bs"
        and "set gs \<subseteq> own_groups b w"
      with u own show ?case by (simp add: io_simps)
    next
      assume "map_io (latest_balance P b) gs w = (Inl (PrismaError RecordNotFound), w)" and "\<not> set gs \<subseteq> own_groups b w"
      with u show ?case by (auto simp: io_simps)
    qed
  next
    assume fails: "latest_balance P b g w = (Inl (PrismaError RecordNotFound), w)"
      and "\<forall>v \<in> set (rows (db_balance_updates w)). abu_wallet_bot_id v = Some (wb_id b) \<longrightarrow> group_of v \<noteq> g"
    then have "g \<notin> own_groups b w" by (auto simp: own_groups_def)
    with fails show ?case by (simp add: io_simps)
  qed
qed

lemma listLatestBalances_groups:
  obtains gs where "set gs = all_groups w"
    and "listLatestBalances P b w = map_io (latest_balance P b) gs w"
proof (rule that)
  let ?l = "api_many (api_balance_updates P) (\<lambda>_. True) (db_balance_updates w)"
  show "set (remdups (map (\<lambda>u. (abu_chain u, abu_currency u)) ?l)) = all_groups w"
    unfolding set_remdups set_map tbu.set_many all_groups_def group_of_def by simp
  show "listLatestBalances P b w = map_io (latest_balance P b) (remdups (map (\<lambda>u. (abu_chain u, abu_currency u)) ?l)) w"
    by (simp add: listLatestBalances_def balance_groups_def io_simps prisma_balance_updates_def)
qed

lemma createApp_run:
  "createApp E P name account_id w =
     (case new_key E (ticks w) of
        Inl e \<Rightarrow> (Inl e, w\<lparr>ticks := Suc (ticks w)\<rparr>)
      | Inr (public, private) \<Rightarrow>
          let a = \<lparr>app_row_id = next_id (db_apps w), app_name = name, app_account_id = account_id,
                app_public_key = public, app_private_key = private\<rparr> in
          (Inr a, w\<lparr>ticks := Suc (ticks w), db_apps := db_apps w @ [Some a]\<rparr>))"
  by (simp add: createApp_def io_simps create_apps Let_def split: sum.splits prod.splits)

lemma bot_found_again:
  assumes "findOrCreateWalletBot E P account w = (Inr (b, app), w1)"
    and "\<forall>x \<in> set (rows (db_wallet_bots w)). wb_account_id x \<noteq> Some (acc_id account)"
    and "\<forall>a \<in> set (rows (db_apps w)). app_name a = APP_NAME \<longrightarrow> app_account_id a \<noteq> acc_id account"
  shows "findOrCreateWalletBot E P account w1 = (Inr (b, app), w1) \<and> wb_account_id b = Some (acc_id account) \<and>
    wb_app_id b = Some (app_row_id app) \<and> app_account_id app = acc_id account \<and> app_name app = APP_NAME"
proof -
  let ?mine = "\<lambda>x. wb_account_id x = Some (acc_id account)"
  let ?ours = "\<lambda>a. app_account_id a = acc_id account \<and> app_name a = APP_NAME"
  from assms(2) have none: "api_first (api_wallet_bots P) ?mine (db_wallet_bots w) = None"
    by (simp add: twb.first_None_iff)
  from assms(1) none have b: "?mine b" "wb_app_id b = Some (app_row_id app)" and app: "?ours app"
    and tables: "db_wallet_bots w1 = db_wallet_bots w @ [Some b]" "db_apps w1 = db_apps w @ [Some app]"
    by (auto simp: findOrCreateWalletBot_def bnd_run ret_run find_first_run createApp_run Let_def
        create_wallet_bots [unfolded prisma_wallet_bots_def] prisma_wallet_bots_def split: sum.splits prod.splits)
  have "api_first (api_wallet_bots P) ?mine (db_wallet_bots w1) = Some b"
    using assms(2) b by (intro twb.first_unique) (auto simp: tables)
  moreover have "api_first (api_apps P) ?ours (db_apps w1) = Some app"
    using assms(3) app by (intro tap.first_unique) (auto simp: tables)
  ultimately have "findOrCreateWalletBot E P account w1 = (Inr (b, app), w1)"
    by (simp add: findOrCreateWalletBot_def bnd_run ret_run find_first_run find_first_or_throw_run
        prisma_wallet_bots_def prisma_apps_def)
  with b app show ?thesis by simp
qed

lemma bot_found_already:
  assumes "findOrCreateWalletBot E P account w = (Inr (b, app), w1)"
    and "x \<in> set (rows (db_wallet_bots w))" and "wb_account_id x = Some (acc_id account)"
  shows "w1 = w \<and> wb_account_id b = Some (acc_id account) \<and> app_account_id app = acc_id account \<and> app_name app = APP_NAME"
proof -
  let ?mine = "\<lambda>x. wb_account_id x = Some (acc_id account)"
  let ?ours = "\<lambda>a. app_account_id a = acc_id account \<and> app_name a = APP_NAME"
  from twb.first_complete [OF assms(2), of ?mine] assms(3)
  obtain b' where b': "api_first (api_wallet_bots P) ?mine (db_wallet_bots w) = Some b'" by auto
  with assms(1) have a: "api_first (api_apps P) ?ours (db_apps w) = Some app" and "b' = b" "w1 = w"
    by (auto simp: findOrCreateWalletBot_def bnd_run ret_run find_first_run find_first_or_throw_run
        prisma_wallet_bots_def prisma_apps_def split: option.splits)
  with twb.first_sound [OF b'] tap.first_sound [OF a] show ?thesis by simp
qed

end

section \<open>Properties\<close>

text \<open>
  What a bot's list of balances shows (\<open>listLatestBalances\<close> of src/src/apps/wallet-bot/index.ts).
  The pairs of chain and currency are collected over the reports of all bots. When this bot has
  reported each of them, the list has its newest report of each; when another bot has
  reported one that this bot has not, the list throws and the bot sees nothing.
\<close>

theorem latest_balances_need_every_group:
  assumes "prisma_client P"
  shows "if all_groups w \<subseteq> own_groups b w
    then \<exists>bs. listLatestBalances P b w = (Inr bs, w) \<and> group_of ` set bs = all_groups w \<and>
      list_all (\<lambda>u. newest_balance w b (group_of u) u) bs
    else listLatestBalances P b w = (Inl (PrismaError RecordNotFound), w)"
proof -
  obtain gs where gs: "set gs = all_groups w" and run: "listLatestBalances P b w = map_io (latest_balance P b) gs w"
    by (rule prisma_client.listLatestBalances_groups [OF assms])
  from prisma_client.map_latest_balance [OF assms, of b gs w] show ?thesis
  proof (elim disjE exE conjE)
    fix bs assume bs: "map_io (latest_balance P b) gs w = (Inr bs, w)" "list_all2 (newest_balance w b) gs bs"
      and own: "set gs \<subseteq> own_groups b w"
    from bs(2) have map: "map group_of bs = gs" and new: "list_all (\<lambda>u. newest_balance w b (group_of u) u) bs"
      by (induction rule: list_all2_induct) (auto simp: newest_balance_def)
    from map have "group_of ` set bs = all_groups w" unfolding gs [symmetric] by (metis set_map)
    with bs(1) own new gs run show ?thesis by simp
  next
    assume "map_io (latest_balance P b) gs w = (Inl (PrismaError RecordNotFound), w)" and "\<not> set gs \<subseteq> own_groups b w"
    with gs run show ?thesis by simp
  qed
qed

definition demo_bot :: wallet_bot where
  "demo_bot = \<lparr>wb_id = 1, wb_name = None, wb_account_id = Some 1, wb_app_id = Some 1\<rparr>"

definition demo_report :: "num \<Rightarrow> balance_report" where
  "demo_report x = \<lparr>rep_chain = Some ''BTC'', rep_currency = Some ''BTC'', rep_address = Some ''a'', rep_balance = Some x\<rparr>"

theorem latest_balances_need_every_group_witness:
  "let other = new_balance (demo_bot\<lparr>wb_id := 2\<rparr>) (demo_report 5) 0 1;
       w = demo_world\<lparr>db_balance_updates := [Some other]\<rparr>
   in listLatestBalances pg demo_bot w = (Inl (PrismaError RecordNotFound), w)"
proof -
  let ?w = "demo_world\<lparr>db_balance_updates := [Some (new_balance (demo_bot\<lparr>wb_id := 2\<rparr>) (demo_report 5) 0 1)]\<rparr>"
  have "\<not> all_groups ?w \<subseteq> own_groups demo_bot ?w"
    by (auto simp: all_groups_def own_groups_def new_balance_def demo_bot_def)
  with latest_balances_need_every_group [OF prisma_client_pg, of ?w demo_bot] show ?thesis by simp
qed

text \<open>
  The bot of an account is made once (\<open>findOrCreateWalletBot\<close> of src/src/apps/wallet-bot/index.ts,
  which every handler of the bot begins with): what one call returns is the account's bot and its
  app, and asking again returns the same two and changes nothing. The condition is that an
  account without a bot has no app of the bot's name yet.
\<close>

theorem wallet_bot_is_found_again:
  assumes "prisma_client P" and "findOrCreateWalletBot E P account w = (Inr (b, app), w1)"
    and "acc_id account \<notin> app_account_id ` {a \<in> set (rows (db_apps w)). app_name a = APP_NAME} \<or>
      Some (acc_id account) \<in> wb_account_id ` set (rows (db_wallet_bots w))"
  shows "findOrCreateWalletBot E P account w1 = (Inr (b, app), w1) \<and> wb_account_id b = Some (acc_id account) \<and>
    app_account_id app = acc_id account \<and> app_name app = APP_NAME"
proof (cases "Some (acc_id account) \<in> wb_account_id ` set (rows (db_wallet_bots w))")
  case True
  then obtain x where "x \<in> set (rows (db_wallet_bots w))" and "wb_account_id x = Some (acc_id account)" by force
  from prisma_client.bot_found_already [OF assms(1,2) this] assms(2) show ?thesis by simp
next
  case False
  with assms(3) have "\<forall>x \<in> set (rows (db_wallet_bots w)). wb_account_id x \<noteq> Some (acc_id account)"
    and "\<forall>a \<in> set (rows (db_apps w)). app_name a = APP_NAME \<longrightarrow> app_account_id a \<noteq> acc_id account"
    by (auto simp: image_iff)
  from prisma_client.bot_found_again [OF assms(1,2) this] show ?thesis by simp
qed

theorem wallet_bot_is_found_again_witness:
  "\<exists>b app w1. findOrCreateWalletBot demo_ext pg demo_account demo_world = (Inr (b, app), w1) \<and>
     findOrCreateWalletBot demo_ext pg demo_account w1 = (Inr (b, app), w1) \<and> w1 \<noteq> demo_world"
proof -
  obtain b app w1 where run: "findOrCreateWalletBot demo_ext pg demo_account demo_world = (Inr (b, app), w1)"
    and new: "db_wallet_bots w1 = [Some b]"
  proof -
    have "api_first (api_wallet_bots pg) = (\<lambda>p t. find p (rows t))" by (simp add: pg_def pg_api_def)
    moreover obtain k where "new_key demo_ext 0 = Inr k" by (simp add: demo_ext_def)
    ultimately show thesis
      using that by (cases k) (simp add: findOrCreateWalletBot_def bnd_run ret_run find_first_run
        prisma_client.createApp_run [OF prisma_client_pg] prisma_wallet_bots_def
        prisma_client.create_wallet_bots [OF prisma_client_pg, unfolded prisma_wallet_bots_def] demo_worlds Let_def)
  qed
  have "acc_id demo_account \<notin> app_account_id ` {a \<in> set (rows (db_apps demo_world)). app_name a = APP_NAME}"
    by (simp add: demo_worlds)
  with wallet_bot_is_found_again [OF prisma_client_pg run] run new show ?thesis by (auto simp: demo_worlds)
qed

lemma find_after: "find p xs = None \<Longrightarrow> p y \<Longrightarrow> find p (xs @ y # us) = Some y"
  by (induction xs) (auto split: if_splits)

text \<open>
  A balance that comes back is not recorded (\<open>setAddressBalance\<close>): the report is compared with
  the first row of the address, not with the latest one. On a client that finds rows in the order
  they were made, an address reported with one balance, then another, then the first again
  ends with the second as its newest row.
\<close>

theorem returning_balance_is_lost:
  assumes "rep_balance p = Some x" and "x \<noteq> y"
    and "list_all (\<lambda>u. \<not> reported_for b p u) (rows (db_balance_updates w))"
  shows "\<exists>u1 u2 w1 w2. setAddressBalance pg b p w = (Inr (u1, True), w1) \<and>
    setAddressBalance pg b (p\<lparr>rep_balance := Some y\<rparr>) w1 = (Inr (u2, True), w2) \<and>
    setAddressBalance pg b p w2 = (Inr (u1, False), w2) \<and>
    last (rows (db_balance_updates w2)) = u2 \<and> abu_balance u2 = Some y"
proof -
  let ?q = "p\<lparr>rep_balance := Some y\<rparr>"
  let ?u1 = "new_balance b p (now w) (next_id (db_balance_updates w))"
  let ?w1 = "w\<lparr>db_balance_updates := db_balance_updates w @ [Some ?u1]\<rparr>"
  let ?u2 = "new_balance b ?q (now w) (next_id (db_balance_updates ?w1))"
  let ?w2 = "w\<lparr>db_balance_updates := (db_balance_updates w @ [Some ?u1]) @ [Some ?u2]\<rparr>"
  have same: "reported_for b ?q = reported_for b p" by (simp add: fun_eq_iff reported_for_def)
  have u1: "reported_for b p ?u1" by (simp add: reported_for_def new_balance_def)
  from assms(3) have none: "find (reported_for b p) (rows (db_balance_updates w)) = None"
    by (auto simp: find_None_iff list_all_iff)
  then have found: "find (reported_for b p) (rows (db_balance_updates w) @ ?u1 # us) = Some ?u1" for us
    using find_after u1 by metis
  note run = setAddressBalance_def bnd_run ret_run reads_run find_first_run prisma_balance_updates_def
    prisma_client.create_balance_updates [OF prisma_client_pg, unfolded prisma_balance_updates_def]
  have api: "api_first (api_balance_updates pg) = (\<lambda>p t. find p (rows t))" by (simp add: pg_def pg_api_def)
  have 1: "setAddressBalance pg b p w = (Inr (?u1, True), ?w1)"
    by (simp add: run api none)
  have 2: "setAddressBalance pg b ?q ?w1 = (Inr (?u2, True), ?w2)"
    using assms(1,2) found [of "[]"] by (simp add: run api same new_balance_def js_Number_def)
  have 3: "setAddressBalance pg b p ?w2 = (Inr (?u1, False), ?w2)"
    using assms(1) found [of "[?u2]"] by (simp add: run api new_balance_def js_Number_def)
  show ?thesis
    by (intro exI conjI, rule 1, rule 2, rule 3) (simp_all add: new_balance_def)
qed

theorem returning_balance_is_lost_witness:
  "\<exists>u1 u2 w1 w2. setAddressBalance pg demo_bot (demo_report 5) demo_world = (Inr (u1, True), w1) \<and>
     setAddressBalance pg demo_bot (demo_report 7) w1 = (Inr (u2, True), w2) \<and>
     setAddressBalance pg demo_bot (demo_report 5) w2 = (Inr (u1, False), w2)"
  using returning_balance_is_lost [of "demo_report 5" 5 7 demo_bot demo_world]
  by (auto simp: demo_report_def demo_worlds)

end
