(* ===== verification/WalletSockets.thy ===== *)
theory WalletSockets
  imports WalletBot Sockets
begin

text \<open>
  The sockets of the wallet bots. First the server of \<open>plugin.ts\<close> with its table of live
  sockets (\<open>sockets.ts\<close>) and the binding of a bot's queue
  (\<open>socket.io/amqp_queue_socket_binding.ts\<close>), as a state machine; then the server of
  \<open>server/websockets\<close>: its router and handlers, the topics of \<open>subscriptions.ts\<close>, and the
  roles of \<open>jwt.ts\<close>.
\<close>

section \<open>Live sockets\<close>

type_synonym live_sockets = "nat \<Rightarrow> nat option"

definition getSocket :: "nat \<Rightarrow> live_sockets \<Rightarrow> nat option" where
  "getSocket wid live = live wid"

definition setSocket :: "nat \<Rightarrow> nat \<Rightarrow> live_sockets \<Rightarrow> js_error + live_sockets" where
  "setSocket wid socket live =
     (if getSocket wid live \<noteq> None then Inl (JsError ''Socket Already Connected For Wallet Bot'')
      else Inr (live(wid \<mapsto> socket)))"

text \<open>Whatever socket is given, the entry of the bot goes.\<close>

definition removeSocket :: "nat \<Rightarrow> live_sockets \<Rightarrow> live_sockets" where
  "removeSocket wid live = (if getSocket wid live \<noteq> None then live(wid := None) else live)"

section \<open>Connecting\<close>

text \<open>
  A token of the header, and the bot it names; every error is told to the listeners of the
  socket object and logged.
\<close>

definition bot_token :: "(string \<times> string) list \<Rightarrow> js_error + string" where
  "bot_token headers =
     (if \<not> truthy (map_of headers ''authorization'') then Inl (JsError ''authorization header missing'')
      else (case split_on (CHR '' '') (the (map_of headers ''authorization'')) of
              _ # token # _ \<Rightarrow> Inr token
            | _ \<Rightarrow> Inr ''undefined''))"

definition bot_authenticate :: "prisma \<Rightarrow> (string \<times> string) list \<Rightarrow> wallet_bot option prog" where
  "bot_authenticate P headers =
     catch (bnd (lift_result (bot_token headers)) (\<lambda>token. bnd (getWalletBot P token) (\<lambda>b. ret (Some b))))
       (\<lambda>_. ret None)"

text \<open>
  A socket waits for \<open>bind\<close>, then listens for its own end; one that was refused stays open and
  is listened to by nobody.
\<close>

datatype phase = Binding nat | Listening nat | Refused_socket | Ended

record bot_server =
  bs_live :: live_sockets
  bs_phase :: "nat \<Rightarrow> phase option"

definition socket_connects :: "nat \<Rightarrow> wallet_bot option \<Rightarrow> bot_server \<Rightarrow> bot_server" where
  "socket_connects socket walletBot s =
     (case walletBot of
        None \<Rightarrow> s\<lparr>bs_phase := (bs_phase s)(socket \<mapsto> Refused_socket)\<rparr>
      | Some b \<Rightarrow>
          (case setSocket (wb_id b) socket (bs_live s) of
             Inl _ \<Rightarrow> s\<lparr>bs_phase := (bs_phase s)(socket \<mapsto> Refused_socket)\<rparr>
           | Inr live \<Rightarrow> s\<lparr>bs_live := live, bs_phase := (bs_phase s)(socket \<mapsto> Binding (wb_id b))\<rparr>))"

text \<open>\<open>bind\<close> has answered; on an error only a line is logged.\<close>

definition socket_bound :: "nat \<Rightarrow> bool \<Rightarrow> bot_server \<Rightarrow> bot_server" where
  "socket_bound socket ok s =
     (case bs_phase s socket of
        Some (Binding wid) \<Rightarrow> s\<lparr>bs_phase := (bs_phase s)(socket \<mapsto> if ok then Listening wid else Refused_socket)\<rparr>
      | _ \<Rightarrow> s)"

definition socket_closes :: "nat \<Rightarrow> bot_server \<Rightarrow> bot_server" where
  "socket_closes socket s =
     (case bs_phase s socket of
        None \<Rightarrow> s
      | Some (Listening wid) \<Rightarrow>
          s\<lparr>bs_live := removeSocket wid (bs_live s), bs_phase := (bs_phase s)(socket \<mapsto> Ended)\<rparr>
      | Some _ \<Rightarrow> s\<lparr>bs_phase := (bs_phase s)(socket \<mapsto> Ended)\<rparr>)"

inductive bot_step :: "bot_server \<Rightarrow> bot_server \<Rightarrow> bool" where
  connect: "bs_phase s socket = None \<Longrightarrow> bot_step s (socket_connects socket walletBot s)"
| bound: "bot_step s (socket_bound socket ok s)"
| close: "bot_step s (socket_closes socket s)"

inductive_cases bot_stepE: "bot_step s t"

definition no_sockets :: bot_server where
  "no_sockets = \<lparr>bs_live = (\<lambda>_. None), bs_phase = (\<lambda>_. None)\<rparr>"

definition bot_reachable :: "bot_server \<Rightarrow> bool" where
  "bot_reachable s \<longleftrightarrow> bot_step\<^sup>*\<^sup>* no_sockets s"

text \<open>
  The invariant: a socket that binds or listens for a bot is the bot's entry in the table, so
  two sockets of one bot never listen at once; and the entry is a socket that connected.
\<close>

definition bot_server_ok :: "bot_server \<Rightarrow> bool" where
  "bot_server_ok s \<longleftrightarrow>
     (\<forall>socket wid. bs_phase s socket \<in> {Some (Binding wid), Some (Listening wid)} \<longrightarrow> bs_live s wid = Some socket) \<and>
     (\<forall>wid socket. bs_live s wid = Some socket \<longrightarrow> bs_phase s socket \<noteq> None)"

lemmas socket_table_defs = getSocket_def setSocket_def removeSocket_def

lemma bot_step_ok:
  assumes "bot_step s t" and "bot_server_ok s"
  shows "bot_server_ok t"
  using assms(1)
proof cases
  case (connect socket walletBot)
  then show ?thesis
    using assms(2) by (auto simp: bot_server_ok_def socket_connects_def socket_table_defs split: option.splits)
next
  case (bound socket ok)
  then show ?thesis
    using assms(2) by (auto simp: bot_server_ok_def socket_bound_def split: option.splits phase.splits)
next
  case (close socket)
  show ?thesis
  proof (cases "\<exists>wid. bs_phase s socket = Some (Listening wid)")
    case True
    then obtain wid where ph: "bs_phase s socket = Some (Listening wid)" by blast
    with assms(2) have live: "bs_live s wid = Some socket" by (auto simp: bot_server_ok_def)
    have t: "t = s\<lparr>bs_live := (bs_live s)(wid := None), bs_phase := (bs_phase s)(socket \<mapsto> Ended)\<rparr>"
      using close ph live by (simp add: socket_closes_def socket_table_defs)
    have "wid' \<noteq> wid" if "bs_phase s other \<in> {Some (Binding wid'), Some (Listening wid')}" "other \<noteq> socket" for other wid'
      using that assms(2) live by (auto simp: bot_server_ok_def)
    then have "bs_phase s other \<noteq> Some (Binding wid) \<and> bs_phase s other \<noteq> Some (Listening wid)" if "other \<noteq> socket" for other
      using that by blast
    with assms(2) show ?thesis unfolding bot_server_ok_def t by simp
  next
    case False
    then have "t = s \<or> t = s\<lparr>bs_phase := (bs_phase s)(socket \<mapsto> Ended)\<rparr>"
      using close by (auto simp: socket_closes_def split: option.splits phase.splits)
    with assms(2) show ?thesis unfolding bot_server_ok_def by (elim disjE) simp_all
  qed
qed

lemma bot_reachable_ok: "bot_reachable s \<Longrightarrow> bot_server_ok s"
  unfolding bot_reachable_def
proof (induction rule: rtranclp_induct)
  case base
  then show ?case by (simp add: bot_server_ok_def no_sockets_def)
qed (rule bot_step_ok)

text \<open>
  A bot is locked out when its entry is a socket that has ended, or was refused: no step takes
  the entry away.
\<close>

definition locked_out :: "nat \<Rightarrow> nat \<Rightarrow> bot_server \<Rightarrow> bool" where
  "locked_out wid socket s \<longleftrightarrow> bs_live s wid = Some socket \<and> bs_phase s socket \<in> {Some Ended, Some Refused_socket}"

lemma locked_out_step:
  assumes "bot_step s t" and "bot_server_ok s" and "locked_out wid socket s"
  shows "locked_out wid socket t"
  using assms(1)
proof cases
  case (connect other walletBot)
  then show ?thesis
    using assms(3) by (auto simp: locked_out_def socket_connects_def socket_table_defs split: option.splits)
next
  case (bound other ok)
  then show ?thesis
    using assms(3) by (auto simp: locked_out_def socket_bound_def split: option.splits phase.splits)
next
  case (close other)
  then show ?thesis
    using assms(2,3) unfolding bot_server_ok_def
    by (auto simp: locked_out_def socket_closes_def socket_table_defs split: option.splits phase.splits)
qed

lemma locked_out_forever:
  assumes "bot_step\<^sup>*\<^sup>* s t" and "bot_server_ok s" and "locked_out wid socket s"
  shows "locked_out wid socket t \<and> bot_server_ok t"
  using assms(1)
proof (induction rule: rtranclp_induct)
  case base
  with assms(2,3) show ?case by simp
next
  case (step t u)
  then show ?case using locked_out_step bot_step_ok by blast
qed

section \<open>Topics\<close>

text \<open>A payload is its fields with the kinds of their values; further fields are dropped by \<open>z.object\<close>.\<close>

datatype kind = KString | KNumber | KDate

type_synonym fields = "(string \<times> kind) list"

definition bot_schemas :: "(string \<times> fields) list" where
  "bot_schemas = [
     (''wallet-bot.connected'', [(''session_uid'', KString), (''walletbot_id'', KNumber), (''account_id'', KNumber), (''timestamp'', KDate)]),
     (''wallet-bot.disconnected'', [(''session_uid'', KString), (''walletbot_id'', KNumber), (''account_id'', KNumber), (''timestamp'', KDate)]),
     (''wallet-bot.invoice.created'', [(''uid'', KString), (''status'', KString), (''created_at'', KString), (''updated_at'', KString)]),
     (''wallet-bot.invoice.cancelled'', [(''uid'', KString), (''status'', KString), (''updated_at'', KString)]),
     (''wallet-bot.invoice.paid'', [(''uid'', KString), (''status'', KString), (''updated_at'', KString)]),
     (''wallet-bot.invoice.updated'', [(''uid'', KString), (''status'', KString), (''updated_at'', KString)]),
     (''wallet-bot.address.updated'', [(''chain'', KString), (''currency'', KString), (''address'', KString), (''timestamp'', KDate)]),
     (''wallet-bot.address.removed'', [(''chain'', KString), (''currency'', KString), (''address'', KString), (''timestamp'', KDate)]),
     (''wallet-bot.address.balance.updated'', [(''chain'', KString), (''currency'', KString), (''address'', KString),
        (''value'', KString), (''timestamp'', KDate)])]"

definition bot_topics :: "string list" where
  "bot_topics = map fst bot_schemas"

definition parses :: "fields \<Rightarrow> fields \<Rightarrow> bool" where
  "parses schema payload \<longleftrightarrow> list_all (\<lambda>(name, k). map_of payload name = Some k) schema"

text \<open>\<open>publish\<close> of \<open>amqp.ts\<close>: what it hands to the broker, if anything.\<close>

definition bot_publish :: "string \<Rightarrow> fields \<Rightarrow> js_error + string \<times> fields" where
  "bot_publish topic payload =
     (case map_of bot_schemas topic of
        None \<Rightarrow> Inl (JsError (''schema for topic '' @ topic @ '' not yet registered''))
      | Some schema \<Rightarrow> if parses schema payload then Inr (topic, payload) else Inl ZodError)"

section \<open>Roles\<close>

text \<open>
  \<open>verify\<close> is that of the package \<open>jsonwebtoken\<close>: the roles of a token it accepts, which may be
  absent.
\<close>

type_synonym jwt_roles = "string \<Rightarrow> js_error + string list option"

definition verifyRole :: "jwt_roles \<Rightarrow> string \<Rightarrow> string \<Rightarrow> js_error + string list" where
  "verifyRole verify role token =
     (case verify token of
        Inl e \<Rightarrow> Inl e
      | Inr None \<Rightarrow> Inl JsTypeError
      | Inr (Some roles) \<Rightarrow>
          if role \<in> set roles then Inr roles else Inl (JsError (''Invalid '' @ role @ '' token'')))"

definition verifyRoles :: "jwt_roles \<Rightarrow> string \<Rightarrow> js_error + string list" where
  "verifyRoles verify token =
     (case verify token of
        Inl e \<Rightarrow> Inl e
      | Inr None \<Rightarrow> Inl JsTypeError
      | Inr (Some roles) \<Rightarrow>
          if ''admin'' \<in> set roles then verifyRole verify ''admin'' token
          else if ''producer'' \<in> set roles then verifyRole verify ''producer'' token
          else if ''consumer'' \<in> set roles then verifyRole verify ''consumer'' token
          else Inl (JsError ''Invalid token''))"

lemma verifyRoles_iff:
  "verifyRoles verify token = Inr roles \<longleftrightarrow>
     verify token = Inr (Some roles) \<and> set roles \<inter> {''admin'', ''producer'', ''consumer''} \<noteq> {}"
  by (auto simp: verifyRoles_def verifyRole_def split: sum.splits option.splits if_splits)

section \<open>Sessions of the second server\<close>

datatype bot_frame =
  BotConnected string
| BotError string
| BotTodo string
| BotTopics "string list"
| BotSubscribed "string list"
| BotForwarded message

record bot_session =
  bss_uid :: string
  bss_token :: "string list option"
  bss_open :: bool
  bss_bindings :: "string list"
  bss_frames :: "bot_frame list"

definition bot_send :: "bot_frame \<Rightarrow> bot_session \<Rightarrow> bot_session" where
  "bot_send f s = (if bss_open s then s\<lparr>bss_frames := bss_frames s @ [f]\<rparr> else s)"

definition bot_closeSession :: "string \<Rightarrow> bot_session \<Rightarrow> bot_session" where
  "bot_closeSession message s = (bot_send (BotError message) s)\<lparr>bss_open := False\<rparr>"

text \<open>The connection: no header, or no token in it, is a session without a token.\<close>

definition bot_session_opens :: "jwt_roles \<Rightarrow> string option \<Rightarrow> string \<Rightarrow> bot_session option" where
  "bot_session_opens verify authorization uid =
     (let token = (case authorization of
          None \<Rightarrow> None
        | Some h \<Rightarrow> (case split_on (CHR '' '') h of _ # t # _ \<Rightarrow> if t = [] then None else Some t | _ \<Rightarrow> None));
        new = (\<lambda>roles. bot_send (BotConnected uid)
          \<lparr>bss_uid = uid, bss_token = roles, bss_open = True, bss_bindings = [], bss_frames = []\<rparr>) in
      (case token of
         None \<Rightarrow> Some (new None)
       | Some t \<Rightarrow> (case verifyRoles verify t of Inl _ \<Rightarrow> None | Inr roles \<Rightarrow> Some (new (Some roles)))))"

datatype bot_payload = TopicsPayload "string list" | OtherPayload

text \<open>The handler of \<open>subscribe\<close>: it throws at the first topic that is not allowed, and what it bound before stays.\<close>

fun bind_topics :: "string list \<Rightarrow> bot_session \<Rightarrow> (js_error + unit) \<times> bot_session" where
  "bind_topics [] s = (Inr (), s)"
| "bind_topics (t # ts) s =
     (if t \<notin> set bot_topics then (Inl (JsError (''Topic '' @ t @ '' is not allowed'')), s)
      else bind_topics ts (s\<lparr>bss_bindings := bss_bindings s @ [t]\<rparr>))"

definition bot_subscribe :: "bot_payload \<Rightarrow> bot_session \<Rightarrow> bot_session" where
  "bot_subscribe payload s =
     (case payload of
        OtherPayload \<Rightarrow> s
      | TopicsPayload ts \<Rightarrow>
          (case bind_topics ts s of (Inl _, s') \<Rightarrow> s' | (Inr _, s') \<Rightarrow> bot_send (BotSubscribed ts) s'))"

text \<open>The router knows the files of its directory; only \<open>subscribe\<close> has a schema.\<close>

definition bot_handlers :: "(string \<times> (bot_payload \<Rightarrow> bot_session \<Rightarrow> bot_session)) list" where
  "bot_handlers = [
     (''getPrice'', \<lambda>_. bot_send (BotTodo ''price'')),
     (''listPriceHistory'', \<lambda>_. bot_send (BotTodo ''priceHistory'')),
     (''listPrices'', \<lambda>_. bot_send (BotTodo ''pricesList'')),
     (''listTopics'', \<lambda>_. bot_send (BotTopics bot_topics)),
     (''subscribe'', bot_subscribe),
     (''updatePrice'', \<lambda>_. bot_send (BotTodo ''priceUpdated''))]"

definition bot_schema_error :: "string \<Rightarrow> bot_payload \<Rightarrow> bool" where
  "bot_schema_error topic payload \<longleftrightarrow> topic = ''subscribe'' \<and> payload = OtherPayload"

text \<open>
  \<open>dispatch\<close> goes on after it has closed the session: without a handler it reads a field of
  \<open>undefined\<close>, which \<open>onMessage\<close> takes for a parse error of a session that is closed already.
\<close>

definition bot_dispatch :: "string \<Rightarrow> bot_payload \<Rightarrow> bot_session \<Rightarrow> bot_session" where
  "bot_dispatch topic payload s =
     (case map_of bot_handlers topic of
        None \<Rightarrow> bot_closeSession ''failed to parse json message''
          (bot_closeSession (''No handler found for topic: '' @ topic) s)
      | Some handler \<Rightarrow>
          handler payload (if bot_schema_error topic payload then bot_closeSession ''ValidationError'' s else s))"

definition bot_onMessage :: "(string \<times> bot_payload) option \<Rightarrow> bot_session \<Rightarrow> bot_session" where
  "bot_onMessage m s =
     (case m of
        None \<Rightarrow> bot_closeSession ''failed to parse json message'' s
      | Some (topic, payload) \<Rightarrow> bot_dispatch topic payload s)"

definition bot_forward :: "string \<times> message \<Rightarrow> bot_session \<Rightarrow> bot_session" where
  "bot_forward km s = (if fst km \<in> set (bss_bindings s) then bot_send (BotForwarded (snd km)) s else s)"

lemma bot_send_bindings [simp]: "bss_bindings (bot_send f s) = bss_bindings s"
  by (simp add: bot_send_def)

lemma bot_close_bindings [simp]: "bss_bindings (bot_closeSession m s) = bss_bindings s"
  by (simp add: bot_closeSession_def)

lemma bind_topics_bindings:
  "bss_bindings (snd (bind_topics ts s)) = bss_bindings s @ takeWhile (\<lambda>t. t \<in> set bot_topics) ts"
  by (induction ts s rule: bind_topics.induct) auto

text \<open>
  What a client's messages bind: the topics in front of the first one that is not allowed. The
  token of the session is not asked for.
\<close>

lemma bot_onMessage_bindings:
  "bss_bindings (bot_onMessage m s) = bss_bindings s @
     (case m of Some (topic, TopicsPayload ts) \<Rightarrow>
        if topic = ''subscribe'' then takeWhile (\<lambda>t. t \<in> set bot_topics) ts else []
      | _ \<Rightarrow> [])"
proof (cases m)
  case None
  then show ?thesis by (simp add: bot_onMessage_def)
next
  case (Some tp)
  obtain topic payload where tp: "tp = (topic, payload)" by (cases tp)
  have sub: "bss_bindings (bot_subscribe p s) = bss_bindings s @
      (case p of TopicsPayload ts \<Rightarrow> takeWhile (\<lambda>t. t \<in> set bot_topics) ts | OtherPayload \<Rightarrow> [])" for p s
  proof (cases p)
    case (TopicsPayload ts)
    then show ?thesis
      using bind_topics_bindings [of ts s] by (auto simp: bot_subscribe_def split: prod.splits sum.splits)
  qed (simp add: bot_subscribe_def)
  show ?thesis
    unfolding Some tp
    by (cases payload)
      (auto simp: bot_onMessage_def bot_dispatch_def bot_handlers_def bot_schema_error_def sub)
qed

lemma bot_bindings_allowed:
  "set (bss_bindings s) \<subseteq> set bot_topics \<Longrightarrow> set (bss_bindings (bot_onMessage m s)) \<subseteq> set bot_topics"
  unfolding bot_onMessage_bindings
  by (auto split: option.splits prod.splits bot_payload.splits dest: set_takeWhileD)

lemma bot_token_unused:
  "bot_onMessage m (s\<lparr>bss_token := t\<rparr>) = (bot_onMessage m s)\<lparr>bss_token := t\<rparr>"
proof -
  have send: "bot_send f (s\<lparr>bss_token := t\<rparr>) = (bot_send f s)\<lparr>bss_token := t\<rparr>" for f s
    by (simp add: bot_send_def)
  have close: "bot_closeSession e (s\<lparr>bss_token := t\<rparr>) = (bot_closeSession e s)\<lparr>bss_token := t\<rparr>" for e s
    by (simp add: bot_closeSession_def send)
  have comm: "s\<lparr>bss_token := t, bss_bindings := b\<rparr> = s\<lparr>bss_bindings := b, bss_token := t\<rparr>" for s b
    by simp
  have binds: "bind_topics ts (s\<lparr>bss_token := t\<rparr>) = apsnd (\<lambda>s. s\<lparr>bss_token := t\<rparr>) (bind_topics ts s)" for ts s
    by (induction ts s rule: bind_topics.induct) (simp_all add: comm)
  have sub: "bot_subscribe p (s\<lparr>bss_token := t\<rparr>) = (bot_subscribe p s)\<lparr>bss_token := t\<rparr>" for p s
    by (cases p) (auto simp: bot_subscribe_def binds send split: prod.splits sum.splits)
  show ?thesis
    by (cases m) (auto simp: bot_onMessage_def bot_dispatch_def bot_handlers_def send close sub)
qed

section \<open>Properties\<close>

lemma served_is_live:
  "bot_server_ok s \<Longrightarrow> bs_phase s a \<in> {Some (Binding wid), Some (Listening wid)} \<Longrightarrow> bs_live s wid = Some a"
  by (auto simp: bot_server_ok_def)

lemma one_listener:
  "bot_reachable s \<Longrightarrow> bs_phase s a = Some (Listening wid) \<Longrightarrow> bs_phase s b = Some (Listening wid) \<Longrightarrow> a = b"
  using served_is_live [OF bot_reachable_ok, of s a wid] served_is_live [OF bot_reachable_ok, of s b wid] by simp

lemma locked_out_unused:
  "locked_out wid socket t \<Longrightarrow> bot_server_ok t \<Longrightarrow> bs_phase t other \<notin> {Some (Binding wid), Some (Listening wid)}"
  by (auto simp: locked_out_def bot_server_ok_def)

text \<open>
  C38. A bot can lock itself out (src/src/apps/wallet-bot/plugin.ts and sockets.ts): when its socket
  ends while its queue is being bound, before the handler for its end is registered, the socket
  stays in the table of live sockets. From then on, whatever connects, binds or ends, the entry
  stays and no socket of the bot is ever served again.
\<close>

theorem closing_while_binding_locks_out:
  assumes "bot_reachable s" and "bs_phase s socket = Some (Binding wid)"
    and "bot_step\<^sup>*\<^sup>* (socket_closes socket s) t"
  shows "bs_live t wid = Some socket \<and>
    bs_phase t other \<notin> {Some (Binding wid), Some (Listening wid)}"
proof -
  from assms(1) have ok: "bot_server_ok s" by (rule bot_reachable_ok)
  with assms(2) have "locked_out wid socket (socket_closes socket s)"
    by (auto simp: locked_out_def socket_closes_def bot_server_ok_def)
  from locked_out_forever [OF assms(3) bot_step_ok [OF bot_step.close ok] this] locked_out_unused
  show ?thesis by (auto simp: locked_out_def)
qed

theorem closing_while_binding_locks_out_witness:
  "let s = socket_connects 7 (Some demo_bot) no_sockets;
       t = socket_connects 8 (Some demo_bot) (socket_closes 7 s)
   in bs_phase s 7 = Some (Binding 1) \<and> bs_live t 1 = Some 7 \<and> bs_phase t 8 = Some Refused_socket"
proof -
  let ?s = "socket_connects 7 (Some demo_bot) no_sockets"
  let ?c = "socket_closes 7 ?s"
  let ?t = "socket_connects 8 (Some demo_bot) ?c"
  have phase: "bs_phase ?s 7 = Some (Binding 1)"
    by (simp add: socket_connects_def socket_table_defs no_sockets_def demo_bot_def)
  have reachable: "bot_reachable ?s"
    unfolding bot_reachable_def by (rule r_into_rtranclp, rule bot_step.connect) (simp add: no_sockets_def)
  have step: "bot_step\<^sup>*\<^sup>* ?c ?t"
    by (rule r_into_rtranclp, rule bot_step.connect)
      (simp add: socket_closes_def socket_connects_def socket_table_defs no_sockets_def demo_bot_def)
  have "bs_phase ?t 8 = Some Refused_socket"
    by (simp add: socket_closes_def socket_connects_def socket_table_defs no_sockets_def demo_bot_def)
  with phase closing_while_binding_locks_out [OF reachable phase step] show ?thesis by simp
qed

end
