(* ===== verification/Config.thy ===== *)
theory Config
  imports Protocol
begin

text \<open>
  The configuration: the documented variables of \<open>src/lib/config.ts\<close> with their defaults,
  what a key reads as, \<open>asBoolean\<close>, and the check of the required variables at the start. The
  stores are those of the package \<open>nconf\<close>: how it looks a key up is a parameter, with what
  its documentation promises as the locale \<open>hierarchy\<close>.
\<close>

section \<open>Variables\<close>

datatype cvalue = CStr string | CBool bool | CNum int

definition truthy_value :: "cvalue \<Rightarrow> bool" where
  "truthy_value v = (case v of CStr s \<Rightarrow> s \<noteq> [] | CBool b \<Rightarrow> b | CNum n \<Rightarrow> n \<noteq> 0)"

record env_variable =
  ev_key :: string
  ev_required :: bool
  ev_default :: "cvalue option"
  ev_boolean :: bool

definition optional :: "string \<Rightarrow> env_variable" where
  "optional key = \<lparr>ev_key = key, ev_required = False, ev_default = None, ev_boolean = False\<rparr>"

definition required :: "string \<Rightarrow> env_variable" where
  "required key = (optional key)\<lparr>ev_required := True\<rparr>"

definition with_default :: "string \<Rightarrow> cvalue \<Rightarrow> env_variable" where
  "with_default key v = (optional key)\<lparr>ev_default := Some v\<rparr>"

definition server_variables :: "env_variable list" where
  "server_variables = [
     with_default ''DOMAIN'' (CStr ''anypayx.com''), with_default ''ANYPAY_AMQP_EXCHANGE'' (CStr ''anypay''),
     required ''AMQP_URL'', with_default ''HOST'' (CStr ''0.0.0.0''), with_default ''PORT'' (CStr ''5200''),
     with_default ''WEBSOCKETS_PORT'' (CStr ''5201''), with_default ''WEBSOCKETS_HOST'' (CStr ''0.0.0.0''),
     with_default ''NODE_ENV'' (CStr ''production''), required ''DATABASE_URL'',
     with_default ''API_BASE'' (CStr ''https://api.anypayx.com''), optional ''X509_DOMAIN_CERT_DER_PATH'',
     optional ''X509_PRIVATE_KEY_PATH'', optional ''X509_ROOT_CERT_DER_PATH'',
     optional ''FIREBASE_SERVER_KEY'', optional ''SENTRY_DSN'',
     with_default ''LOKI_ENABLED'' (CStr ''false''), optional ''LOKI_HOST'',
     with_default ''LOKI_LABEL_APP'' (CStr ''anypay''), optional ''LOKI_BASIC_AUTH'',
     optional ''KRAKEN_AUTOSELL_INTERVAL'', optional ''KRAKEN_WITHDRAWAL_KEY'',
     optional ''ANYPAY_FIXER_ACCESS_KEY'', optional ''ANYPAY_SLACK_CHANNEL_URL'',
     optional ''ROCKETCHAT_WEBHOOK_URL'', with_default ''MEMPOOL_SPACE_FEES_ENABLED'' (CStr ''true''),
     (with_default ''KRAKEN_PLUGIN'' (CBool False))\<lparr>ev_boolean := True\<rparr>,
     with_default ''ANYPAY_WEBSOCKETS_URL'' (CStr ''wss://wss.anypayx.com'')]"

definition service_variables :: "env_variable list" where
  "service_variables = [
     optional ''JWT_PUBLIC_KEY_PATH'', optional ''JWT_PRIVATE_KEY_PATH'', optional ''JWT_PUBLIC_KEY'',
     optional ''JWT_PRIVATE_KEY'', with_default ''EMAIL_SENDER'' (CStr ''no-reply@anypayx.com''),
     with_default ''REQUIRE_BTC_CONFIRMATIONS'' (CStr ''false''), optional ''BLOCKCYPHER_TOKEN'',
     optional ''BLOCKCYPHER_WEBHOOK_TOKEN'', optional ''COINMARKETCAP_API_KEY'', optional ''CRYPTOAPIS_KEY'',
     optional ''INFURA_POLYGON_URL'', optional ''INFURA_ETHEREUM_URL'', optional ''INFURA_AVALANCHE_URL'',
     optional ''NOWNODES_API_KEY'', optional ''TEST_AMQP_URL'', optional ''TEST_DATABASE_URL'',
     optional ''SUDO_PASSWORD_HASH'', optional ''JSON_PROTOCOL_IDENTITY_ADDRESS'',
     optional ''JSON_PROTOCOL_IDENTITY_WIF'', with_default ''WALLET_BOT_APP_ENABLED'' (CStr ''false''),
     with_default ''WALLET_BOT_WEBSOCKET_PORT'' (CStr ''5202''), optional ''ANYPAY_ACCESS_TOKEN'',
     with_default ''NOWNODES_ENABLED'' (CStr ''false''), optional ''GETBLOCK_LTC_URL'',
     optional ''GETBLOCK_BTC_URL'', optional ''GETBLOCK_BCH_URL'', optional ''GETBLOCK_DASH_URL'',
     optional ''GETBLOCK_BSV_URL'', optional ''GETBLOCK_DOGE_URL'', optional ''ALCHEMY_URL_SOLANA'',
     optional ''SOLANA_PHANTOM_SEED'']"

definition chain_variables :: "env_variable list" where
  "chain_variables = [
     with_default ''CHAIN_SO_BROADCAST_PROVIDER_ENABLED'' (CBool True),
     with_default ''BLOCKCHAIR_BROADCAST_PROVIDER_BTC_ENABLED'' (CBool True), optional ''BITCOIND_RPC_HOST'',
     optional ''BITCOIND_RPC_USERNAME'', optional ''BITCOIND_RPC_PASSWORD'', optional ''DASH_RPC_URL'',
     optional ''DASH_RPC_URL_2'', optional ''DASH_RPC_URL_3'', optional ''DASH_RPC_USERNAME'',
     optional ''DASH_RPC_PASSWORD'', optional ''BSV_SIMPLE_WALLET_WIF'',
     optional ''BSV_SIMPLE_WALLET_ADDRESS'', optional ''TAAL_API_KEY'', optional ''BSV_RPC_USER'',
     optional ''BSV_RPC_PASSWORD'', optional ''BSV_RPC_URL'', optional ''XMR_RPC_URL'',
     optional ''XMR_RPC_USER'', optional ''XMR_RPC_PASSWORD'', optional ''MONERO_WALLET_RPC_URL'',
     with_default ''REQUIRED_FEE_RATE_BTC'' (CNum 1), with_default ''REQUIRED_FEE_RATE_LTC'' (CNum 1),
     with_default ''REQUIRED_FEE_RATE_DOGE'' (CNum 1), with_default ''REQUIRED_FEE_RATE_DASH'' (CNum 1),
     with_default ''REQUIRED_FEE_RATE_LTC'' (CNum 1), with_default ''REQUIRED_FEE_RATE_BCH'' (CNum 1),
     with_default ''REQUIRED_FEE_RATE_BSV'' (CNum 1), optional ''PROMETHEUS_PASSWORD'',
     optional ''BLOCKBOOK_WS_URL'', optional ''BLOCKBOOK_API_KEY'', optional ''BLOCKBOOK_HTTP_URL'']"

definition variables :: "env_variable list" where
  "variables = server_variables @ service_variables @ chain_variables"

text \<open>\<open>registerEnvironmentVariable\<close>: the list grows, the map keeps the last variable of a key.\<close>

record variable_registry =
  vr_allowed :: "env_variable list"
  vr_map :: "string \<Rightarrow> env_variable option"

definition registerEnvironmentVariable :: "env_variable \<Rightarrow> variable_registry \<Rightarrow> variable_registry" where
  "registerEnvironmentVariable v r =
     \<lparr>vr_allowed = vr_allowed r @ [v], vr_map = (vr_map r)(ev_key v \<mapsto> v)\<rparr>"

definition registered_variables :: variable_registry where
  "registered_variables =
     fold registerEnvironmentVariable variables \<lparr>vr_allowed = [], vr_map = (\<lambda>_. None)\<rparr>"

text \<open>
  The transformation of the environment: only a variable declared boolean turns its
  \<open>'false'\<close> or \<open>'0'\<close> into a boolean.
\<close>

definition transform_variable :: "variable_registry \<Rightarrow> string \<Rightarrow> cvalue \<Rightarrow> cvalue" where
  "transform_variable r key v =
     (case vr_map r key of
        None \<Rightarrow> v
      | Some d \<Rightarrow> if ev_boolean d \<and> (v = CStr ''false'' \<or> v = CStr ''0'') then CBool False else v)"

section \<open>Stores\<close>

type_synonym store = "string \<Rightarrow> cvalue option"

locale hierarchy =
  fixes lookup :: "store list \<Rightarrow> string \<Rightarrow> cvalue option"
  assumes lookup_Nil: "lookup [] key = None"
    and lookup_Cons: "lookup (s # ss) key = (case s key of None \<Rightarrow> lookup ss key | Some v \<Rightarrow> Some v)"
begin

lemma lookup_unset: "list_all (\<lambda>s. s key = None) ss \<Longrightarrow> lookup (ss @ rest) key = lookup rest key"
  by (induction ss) (auto simp: lookup_Cons)

lemma lookup_set: "s key = Some v \<Longrightarrow> list_all (\<lambda>s. s key = None) ss \<Longrightarrow> lookup (ss @ s # rest) key = Some v"
  by (simp add: lookup_unset lookup_Cons)

lemma lookup_one: "lookup [s] key = s key"
  by (simp add: lookup_Cons lookup_Nil split: option.splits)

end

primrec first_store :: "store list \<Rightarrow> string \<Rightarrow> cvalue option" where
  "first_store [] key = None"
| "first_store (s # ss) key = (case s key of None \<Rightarrow> first_store ss key | Some v \<Rightarrow> Some v)"

interpretation nconf: hierarchy first_store
  by unfold_locales simp_all

text \<open>The defaults: a default that is falsy is no default; of two for one key the later one counts.\<close>

definition config_defaults :: "env_variable list \<Rightarrow> store" where
  "config_defaults vs =
     fold (\<lambda>v acc. acc(ev_key v := ev_default v))
       (filter (\<lambda>v. case ev_default v of None \<Rightarrow> False | Some d \<Rightarrow> truthy_value d) vs) (\<lambda>_. None)"

text \<open>\<open>config.get\<close>, when the stores the process starts with are \<open>stores\<close>.\<close>

definition config_get :: "(store list \<Rightarrow> string \<Rightarrow> cvalue option) \<Rightarrow> store list \<Rightarrow> string \<Rightarrow> cvalue option" where
  "config_get lookup stores = lookup (stores @ [config_defaults variables])"

definition config_on :: "cvalue option \<Rightarrow> bool" where
  "config_on v = (case v of None \<Rightarrow> False | Some v \<Rightarrow> truthy_value v)"

definition asBoolean :: "cvalue option \<Rightarrow> cvalue option" where
  "asBoolean v = (if v = Some (CStr ''false'') \<or> v = Some (CStr ''0'') then Some (CBool False) else v)"

text \<open>\<open>initialize\<close> stops the process when a required variable is missing.\<close>

definition missing_variables :: "(string \<Rightarrow> cvalue option) \<Rightarrow> string list" where
  "missing_variables get = map ev_key (filter (\<lambda>v. ev_required v \<and> get (ev_key v) = None) variables)"

definition config_initialize ::
  "(store list \<Rightarrow> string \<Rightarrow> cvalue option) \<Rightarrow> store list \<Rightarrow> js_error + (string \<Rightarrow> cvalue option)" where
  "config_initialize lookup stores =
     (case missing_variables (lookup stores) of
        [] \<Rightarrow> Inr (config_get lookup stores)
      | key # keys \<Rightarrow> Inl (JsError (''Missing required keys: '' @ concat (key # map (\<lambda>k. '', '' @ k) keys))))"

text \<open>
  The text of a value, as the rest of the model reads a key (\<open>cfg\<close> of Runtime): a false value is
  none.
\<close>

definition cfg_text :: "cvalue option \<Rightarrow> string option" where
  "cfg_text v =
     (case v of
        None \<Rightarrow> None
      | Some (CStr s) \<Rightarrow> Some s
      | Some (CBool b) \<Rightarrow> (if b then Some ''true'' else None)
      | Some (CNum n) \<Rightarrow> Some (if n < 0 then CHR ''-'' # decimal (nat (- n)) else decimal (nat n)))"

section \<open>Facts\<close>

lemmas variable_defs = variables_def server_variables_def service_variables_def chain_variables_def
  optional_def required_def with_default_def

lemma required_variables: "map ev_key (filter ev_required variables) = [''AMQP_URL'', ''DATABASE_URL'']"
  by (simp add: variable_defs)

lemma initialize_needs:
  "(\<exists>get. config_initialize lookup stores = Inr get) \<longleftrightarrow>
     lookup stores ''AMQP_URL'' \<noteq> None \<and> lookup stores ''DATABASE_URL'' \<noteq> None"
proof -
  have "missing_variables (lookup stores) = filter (\<lambda>k. lookup stores k = None) (map ev_key (filter ev_required variables))"
    by (simp add: missing_variables_def filter_map comp_def conj_commute)
  then have "missing_variables (lookup stores) = filter (\<lambda>k. lookup stores k = None) [''AMQP_URL'', ''DATABASE_URL'']"
    unfolding required_variables .
  then show ?thesis by (auto simp: config_initialize_def split: list.splits)
qed

text \<open>The variables whose default is the text \<open>false\<close>.\<close>

lemma false_by_text:
  "map ev_key (filter (\<lambda>v. ev_default v = Some (CStr ''false'')) variables) =
     [''LOKI_ENABLED'', ''REQUIRE_BTC_CONFIRMATIONS'', ''WALLET_BOT_APP_ENABLED'', ''NOWNODES_ENABLED'']"
  by (simp add: variable_defs)

text \<open>What they read as when nothing sets them; the boolean false of the last one is no default.\<close>

lemma default_of:
  "config_defaults variables ''REQUIRE_BTC_CONFIRMATIONS'' = Some (CStr ''false'')"
  "config_defaults variables ''WALLET_BOT_APP_ENABLED'' = Some (CStr ''false'')"
  "config_defaults variables ''NOWNODES_ENABLED'' = Some (CStr ''false'')"
  "config_defaults variables ''KRAKEN_PLUGIN'' = None"
  by (simp_all add: config_defaults_def variable_defs truthy_value_def)

context hierarchy
begin

lemma unset_reads_default:
  "list_all (\<lambda>s. s key = None) stores \<Longrightarrow> config_get lookup stores key = config_defaults variables key"
  by (simp add: config_get_def lookup_unset lookup_one)

lemma flags_on_by_default:
  assumes "list_all (\<lambda>s. s key = None) stores"
    and "key \<in> {''REQUIRE_BTC_CONFIRMATIONS'', ''WALLET_BOT_APP_ENABLED'', ''NOWNODES_ENABLED''}"
  shows "config_on (config_get lookup stores key)"
    and "asBoolean (config_get lookup stores key) = Some (CBool False)"
  using assms(2) unfolding unset_reads_default [OF assms(1)]
  by (auto simp: default_of config_on_def truthy_value_def asBoolean_def)

end

section \<open>Properties\<close>

text \<open>
  The default of \<open>REQUIRE_BTC_CONFIRMATIONS\<close> means the opposite of what it says: it is the text
  \<open>false\<close> (src/src/lib/config.ts), which \<open>asBoolean\<close> reads as false, but \<open>submitPayment\<close>
  (src/src/lib/pay/json_v2/protocol.ts) takes \<open>config.get\<close> as it is, and a text is truthy. When
  nothing sets the variable, every BTC payment is recorded as one that has to be confirmed.
\<close>

theorem unset_flag_waits_for_btc:
  assumes "hierarchy lookup" and "list_all (\<lambda>s. s ''REQUIRE_BTC_CONFIRMATIONS'' = None) stores"
    and "cfg E ''REQUIRE_BTC_CONFIRMATIONS'' = cfg_text (config_get lookup stores ''REQUIRE_BTC_CONFIRMATIONS'')"
    and "po_currency po = ''BTC''"
  shows "asBoolean (config_get lookup stores ''REQUIRE_BTC_CONFIRMATIONS'') = Some (CBool False) \<and>
    record_transaction E P po invoice t =
      bnd (handleUnconfirmedPayment E P po t) (\<lambda>paymentRecord.
      bnd (start_job (JCreateAndSendWebhook ''payment.confirming'' (payment_confirming_event invoice paymentRecord))) (\<lambda>_.
      ret paymentRecord))"
proof -
  have get: "config_get lookup stores ''REQUIRE_BTC_CONFIRMATIONS'' = Some (CStr ''false'')"
    by (simp add: hierarchy.unset_reads_default [OF assms(1,2)] default_of)
  with assms(3,4) show ?thesis by (simp add: record_transaction_def cfg_text_def asBoolean_def)
qed

theorem unset_flag_waits_for_btc_witness:
  "let E = demo_ext\<lparr>cfg := (\<lambda>key. cfg_text (config_get first_store [] key))\<rparr>; po = demo_option\<lparr>po_currency := ''BTC''\<rparr>
   in record_transaction E pg po demo_invoice demo_tx =
     bnd (handleUnconfirmedPayment E pg po demo_tx) (\<lambda>paymentRecord.
     bnd (start_job (JCreateAndSendWebhook ''payment.confirming'' (payment_confirming_event demo_invoice paymentRecord))) (\<lambda>_.
     ret paymentRecord))"
  using unset_flag_waits_for_btc [OF nconf.hierarchy_axioms, of "[]" "demo_ext\<lparr>cfg := (\<lambda>key. cfg_text (config_get first_store [] key))\<rparr>"
    "demo_option\<lparr>po_currency := ''BTC''\<rparr>" pg demo_invoice demo_tx]
  by (simp add: Let_def)

end
