(* ===== verification/Migrations.thy ===== *)
theory Migrations
  imports Prelude
begin

text \<open>
  What a migration of \<open>migrations/\<close> is: the calls of the query interface that its \<open>up\<close> and its
  \<open>down\<close> make, in order, on the schema of the database. The query interface belongs to the
  package \<open>sequelize\<close>: what its calls do to tables, columns and indexes on PostgreSQL is the locale
  \<open>query_interface\<close>. Then when a \<open>down\<close> undoes its \<open>up\<close>, whatever the schema.
\<close>

section \<open>Calls\<close>

text \<open>
  The attributes of a column or an index are the texts of the source, a JavaScript string in
  backquotes and the constants of \<open>Sequelize\<close> by their names.
\<close>

type_synonym attributes = "(string \<times> string) list"

datatype call =
  CreateTable string "(string \<times> attributes) list" attributes
| DropTable string
| RenameTable string string
| AddColumn string string attributes
| RemoveColumn string string
| ChangeColumn string string attributes
| RenameColumn string string string
| AddIndex string string attributes
| RemoveIndex string string
| DropIndex string
| RawQuery string

record migration =
  mig_name :: string
  mig_up :: "call list"
  mig_down :: "call list"

section \<open>Schemas\<close>

type_synonym columns = "string \<Rightarrow> attributes option"

record schema =
  sc_tables :: "string \<Rightarrow> columns option"
  sc_indexes :: "string \<Rightarrow> (string \<times> attributes) option"

definition empty_schema :: schema where
  "empty_schema = \<lparr>sc_tables = (\<lambda>_. None), sc_indexes = (\<lambda>_. None)\<rparr>"

datatype schema_error =
  NoTable string | NoColumn string string | NoIndex string
| TableExists string | ColumnExists string string | IndexExists string | NotAFunction

definition with_table :: "string \<Rightarrow> columns option \<Rightarrow> schema \<Rightarrow> schema" where
  "with_table t c s = s\<lparr>sc_tables := (sc_tables s)(t := c)\<rparr>"

text \<open>A call on the columns of an existing table.\<close>

definition on_table :: "string \<Rightarrow> (columns \<Rightarrow> schema_error + columns) \<Rightarrow> schema \<Rightarrow> schema_error + schema" where
  "on_table t f s =
     (case sc_tables s t of
        None \<Rightarrow> Inl (NoTable t)
      | Some c \<Rightarrow> (case f c of Inl e \<Rightarrow> Inl e | Inr c' \<Rightarrow> Inr (with_table t (Some c') s)))"

definition add_column :: "string \<Rightarrow> string \<Rightarrow> attributes \<Rightarrow> columns \<Rightarrow> schema_error + columns" where
  "add_column t c a cs = (if cs c \<noteq> None then Inl (ColumnExists t c) else Inr (cs(c \<mapsto> a)))"

definition remove_column :: "string \<Rightarrow> string \<Rightarrow> columns \<Rightarrow> schema_error + columns" where
  "remove_column t c cs = (if cs c = None then Inl (NoColumn t c) else Inr (cs(c := None)))"

definition change_column :: "string \<Rightarrow> string \<Rightarrow> attributes \<Rightarrow> columns \<Rightarrow> schema_error + columns" where
  "change_column t c a cs = (if cs c = None then Inl (NoColumn t c) else Inr (cs(c \<mapsto> a)))"

definition rename_column :: "string \<Rightarrow> string \<Rightarrow> string \<Rightarrow> columns \<Rightarrow> schema_error + columns" where
  "rename_column t a b cs =
     (if cs a = None then Inl (NoColumn t a)
      else if cs b \<noteq> None then Inl (ColumnExists t b) else Inr ((cs(a := None))(b := cs a)))"

text \<open>
  The laws: \<open>CREATE TABLE IF NOT EXISTS\<close> and \<open>DROP TABLE IF EXISTS\<close> never fail, the other calls
  fail on a name that is missing or taken; \<open>dropIndex\<close> is no method of the interface. A raw query
  is taken to leave the schema as it is; of those of the source one, of \<open>20190322030230\<close>, drops
  a constraint, which is not modelled.
\<close>

locale query_interface =
  fixes qi :: "call \<Rightarrow> schema \<Rightarrow> schema_error + schema"
  assumes create_table: "qi (CreateTable t cols opts) s =
      Inr (if sc_tables s t = None then with_table t (Some (map_of cols)) s else s)"
    and drop_table: "qi (DropTable t) s =
      Inr ((with_table t None s)\<lparr>sc_indexes := (\<lambda>i. case sc_indexes s i of None \<Rightarrow> None
        | Some (t', a) \<Rightarrow> if t' = t then None else Some (t', a))\<rparr>)"
    and rename_table: "qi (RenameTable old new) s =
      (case sc_tables s old of
         None \<Rightarrow> Inl (NoTable old)
       | Some cs \<Rightarrow> if sc_tables s new \<noteq> None then Inl (TableExists new)
           else Inr ((with_table new (Some cs) (with_table old None s))
             \<lparr>sc_indexes := (\<lambda>i. map_option (\<lambda>(t, x). (if t = old then new else t, x)) (sc_indexes s i))\<rparr>))"
    and add_col: "qi (AddColumn t c a) s = on_table t (add_column t c a) s"
    and remove_col: "qi (RemoveColumn t c) s = on_table t (remove_column t c) s"
    and change_col: "qi (ChangeColumn t c a) s = on_table t (change_column t c a) s"
    and rename_col: "qi (RenameColumn t old new) s = on_table t (rename_column t old new) s"
    and add_index: "qi (AddIndex t i a) s =
      (if sc_tables s t = None then Inl (NoTable t)
       else if sc_indexes s i \<noteq> None then Inl (IndexExists i)
       else Inr (s\<lparr>sc_indexes := (sc_indexes s)(i \<mapsto> (t, a))\<rparr>))"
    and remove_index: "qi (RemoveIndex t i) s =
      (if sc_indexes s i = None then Inl (NoIndex i) else Inr (s\<lparr>sc_indexes := (sc_indexes s)(i := None)\<rparr>))"
    and drop_index: "qi (DropIndex i) s = Inl NotAFunction"
    and raw_query: "qi (RawQuery q) s = Inr s"

fun pg_call :: "call \<Rightarrow> schema \<Rightarrow> schema_error + schema" where
  "pg_call (CreateTable t cols opts) s =
     Inr (if sc_tables s t = None then with_table t (Some (map_of cols)) s else s)"
| "pg_call (DropTable t) s =
     Inr ((with_table t None s)\<lparr>sc_indexes := (\<lambda>i. case sc_indexes s i of None \<Rightarrow> None
       | Some (t', a) \<Rightarrow> if t' = t then None else Some (t', a))\<rparr>)"
| "pg_call (RenameTable a b) s =
     (case sc_tables s a of
        None \<Rightarrow> Inl (NoTable a)
      | Some c \<Rightarrow> if sc_tables s b \<noteq> None then Inl (TableExists b)
          else Inr ((with_table b (Some c) (with_table a None s))
            \<lparr>sc_indexes := (\<lambda>i. map_option (\<lambda>(t, x). (if t = a then b else t, x)) (sc_indexes s i))\<rparr>))"
| "pg_call (AddColumn t c a) s = on_table t (add_column t c a) s"
| "pg_call (RemoveColumn t c) s = on_table t (remove_column t c) s"
| "pg_call (ChangeColumn t c a) s = on_table t (change_column t c a) s"
| "pg_call (RenameColumn t a b) s = on_table t (rename_column t a b) s"
| "pg_call (AddIndex t i a) s =
     (if sc_tables s t = None then Inl (NoTable t)
      else if sc_indexes s i \<noteq> None then Inl (IndexExists i)
      else Inr (s\<lparr>sc_indexes := (sc_indexes s)(i \<mapsto> (t, a))\<rparr>))"
| "pg_call (RemoveIndex t i) s =
     (if sc_indexes s i = None then Inl (NoIndex i) else Inr (s\<lparr>sc_indexes := (sc_indexes s)(i := None)\<rparr>))"
| "pg_call (DropIndex i) s = Inl NotAFunction"
| "pg_call (RawQuery q) s = Inr s"

interpretation pgq: query_interface pg_call
  by unfold_locales simp_all

section \<open>Running\<close>

primrec run_calls :: "(call \<Rightarrow> schema \<Rightarrow> schema_error + schema) \<Rightarrow> call list \<Rightarrow> schema \<Rightarrow> schema_error + schema" where
  "run_calls qi [] s = Inr s"
| "run_calls qi (c # cs) s = (case qi c s of Inl e \<Rightarrow> Inl e | Inr s' \<Rightarrow> run_calls qi cs s')"

text \<open>All migrations in the order of their names; the first that fails stops the rest.\<close>

primrec migrate ::
  "(call \<Rightarrow> schema \<Rightarrow> schema_error + schema) \<Rightarrow> migration list \<Rightarrow> schema \<Rightarrow> (string \<times> schema_error) + schema" where
  "migrate qi [] s = Inr s"
| "migrate qi (m # ms) s =
     (case run_calls qi (mig_up m) s of Inl e \<Rightarrow> Inl (mig_name m, e) | Inr s' \<Rightarrow> migrate qi ms s')"

section \<open>Undoing\<close>

fun inverse_call :: "call \<Rightarrow> call \<Rightarrow> bool" where
  "inverse_call (CreateTable t _ _) d = (d = DropTable t)"
| "inverse_call (AddColumn t c _) d = (d = RemoveColumn t c)"
| "inverse_call (RenameColumn t a b) d = (d = RenameColumn t b a)"
| "inverse_call (AddIndex t i _) d = (d = RemoveIndex t i)"
| "inverse_call _ d = False"

fun added_column :: "call \<Rightarrow> (string \<times> string) option" where
  "added_column (AddColumn t c _) = Some (t, c)"
| "added_column _ = None"

fun removed_column :: "call \<Rightarrow> (string \<times> string) option" where
  "removed_column (RemoveColumn t c) = Some (t, c)"
| "removed_column _ = None"

text \<open>
  Two shapes of a \<open>down\<close>: the inverse calls in the reverse order, or, where \<open>up\<close> only adds
  columns, their removals in any order.
\<close>

definition undoes_backwards :: "call list \<Rightarrow> call list \<Rightarrow> bool" where
  "undoes_backwards up down \<longleftrightarrow> list_all2 inverse_call (rev up) down"

definition undoes_columns :: "call list \<Rightarrow> call list \<Rightarrow> bool" where
  "undoes_columns up down \<longleftrightarrow>
     list_all (\<lambda>c. added_column c \<noteq> None) up \<and> list_all (\<lambda>c. removed_column c \<noteq> None) down \<and>
     distinct (map removed_column down) \<and> set (map added_column up) = set (map removed_column down)"

definition reversible :: "migration \<Rightarrow> bool" where
  "reversible m \<longleftrightarrow> undoes_backwards (mig_up m) (mig_down m) \<or> undoes_columns (mig_up m) (mig_down m)"

text \<open>The tables a migration creates are not there yet, and have no indexes left.\<close>

primrec creates_fresh :: "(call \<Rightarrow> schema \<Rightarrow> schema_error + schema) \<Rightarrow> call list \<Rightarrow> schema \<Rightarrow> bool" where
  "creates_fresh qi [] s = True"
| "creates_fresh qi (c # cs) s =
     ((case c of CreateTable t _ _ \<Rightarrow> sc_tables s t = None \<and> (\<forall>i. map_option fst (sc_indexes s i) \<noteq> Some t) | _ \<Rightarrow> True) \<and>
      (case qi c s of Inl e \<Rightarrow> True | Inr s' \<Rightarrow> creates_fresh qi cs s'))"

lemma run_calls_append:
  "run_calls qi (as @ bs) s = (case run_calls qi as s of Inl e \<Rightarrow> Inl e | Inr s' \<Rightarrow> run_calls qi bs s')"
  by (induction as arbitrary: s) (auto split: sum.splits)

lemma with_table_back [simp]:
  "with_table t c (with_table t c' s) = with_table t c s" "sc_tables s t = c \<Longrightarrow> with_table t c s = s"
  "sc_tables (with_table t c s) = (sc_tables s)(t := c)" "sc_indexes (with_table t c s) = sc_indexes s"
  by (auto simp: with_table_def)

text \<open>A schema that has the columns \<open>K\<close> more than another.\<close>

definition more_columns :: "(string \<times> string) set \<Rightarrow> string \<Rightarrow> columns \<Rightarrow> columns \<Rightarrow> bool" where
  "more_columns K t cs cs1 \<longleftrightarrow> (\<forall>c. if (t, c) \<in> K then cs c = None \<and> cs1 c \<noteq> None else cs1 c = cs c)"

fun extends_at :: "(string \<times> string) set \<Rightarrow> string \<Rightarrow> columns option \<Rightarrow> columns option \<Rightarrow> bool" where
  "extends_at K t None None = (\<forall>c. (t, c) \<notin> K)"
| "extends_at K t (Some cs) (Some cs1) = more_columns K t cs cs1"
| "extends_at K t _ _ = False"

definition extends :: "(string \<times> string) set \<Rightarrow> schema \<Rightarrow> schema \<Rightarrow> bool" where
  "extends K s s1 \<longleftrightarrow> sc_indexes s1 = sc_indexes s \<and> (\<forall>t. extends_at K t (sc_tables s t) (sc_tables s1 t))"

lemma more_columns_at: "more_columns K t cs cs1 \<Longrightarrow> if (t, c) \<in> K then cs c = None \<and> cs1 c \<noteq> None else cs1 c = cs c"
  by (simp add: more_columns_def)

lemma extends_at_same: "extends_at {} t x y \<longleftrightarrow> y = x"
  by (cases x; cases y) (auto simp: more_columns_def fun_eq_iff)

lemma extends_same: "extends {} s s1 \<longleftrightarrow> s1 = s"
  unfolding extends_def extends_at_same by (cases s; cases s1) (auto simp: fun_eq_iff)

lemma extends_at_cong: "(\<And>c. (t, c) \<in> K' \<longleftrightarrow> (t, c) \<in> K) \<Longrightarrow> extends_at K' t x y \<longleftrightarrow> extends_at K t x y"
  by (cases x; cases y) (simp_all add: more_columns_def)

lemma extends_table:
  assumes "extends K s s1" and "sc_tables s1 t = Some cs1"
  obtains cs where "sc_tables s t = Some cs" and "more_columns K t cs cs1"
proof -
  from assms have "extends_at K t (sc_tables s t) (Some cs1)" by (metis extends_def)
  with that show thesis by (cases "sc_tables s t") auto
qed

lemma extends_put:
  assumes "extends K s s1" and "sc_tables s t = Some cs"
    and "\<And>t' c. t' \<noteq> t \<Longrightarrow> (t', c) \<in> K' \<longleftrightarrow> (t', c) \<in> K" and "more_columns K' t cs cs2"
  shows "extends K' s (with_table t (Some cs2) s1)"
  unfolding extends_def
proof (intro conjI allI)
  show "sc_indexes (with_table t (Some cs2) s1) = sc_indexes s" using assms(1) by (simp add: extends_def)
next
  fix t'
  from assms(1) have "extends_at K t' (sc_tables s t') (sc_tables s1 t')" by (simp add: extends_def)
  with assms(2,4) show "extends_at K' t' (sc_tables s t') (sc_tables (with_table t (Some cs2) s1) t')"
    using extends_at_cong [of t' K' K] assms(3) [of t'] by (cases "t' = t") simp_all
qed

context query_interface
begin

lemmas laws = create_table drop_table rename_table add_col remove_col change_col rename_col add_index
  remove_index drop_index raw_query

lemma call_undone:
  assumes "inverse_call c d" and "qi c s = Inr s1"
    and "case c of CreateTable t _ _ \<Rightarrow> sc_tables s t = None \<and> (\<forall>i. map_option fst (sc_indexes s i) \<noteq> Some t) | _ \<Rightarrow> True"
  shows "qi d s1 = Inr s"
proof (cases c)
  case (CreateTable t cols opts)
  with assms have s1: "s1 = with_table t (Some (map_of cols)) s" and d: "d = DropTable t"
    and none: "sc_tables s t = None" and i: "\<forall>i. map_option fst (sc_indexes s i) \<noteq> Some t"
    by (auto simp: create_table)
  have "(\<lambda>i. case sc_indexes s i of None \<Rightarrow> None | Some (t', a) \<Rightarrow> if t' = t then None else Some (t', a)) = sc_indexes s"
  proof
    fix i from i have "map_option fst (sc_indexes s i) \<noteq> Some t" by blast
    then show "(case sc_indexes s i of None \<Rightarrow> None | Some (t', a) \<Rightarrow> if t' = t then None else Some (t', a)) = sc_indexes s i"
      by (auto split: option.splits)
  qed
  with none show ?thesis by (simp add: d s1 drop_table)
next
  case (AddColumn t c a)
  with assms show ?thesis
    by (auto simp: add_col remove_col on_table_def add_column_def remove_column_def fun_upd_idem split: option.splits if_splits)
next
  case (RenameColumn t a b)
  with assms show ?thesis
    by (auto simp: rename_col on_table_def rename_column_def fun_upd_idem fun_upd_twist split: option.splits if_splits)
next
  case (AddIndex t i a)
  with assms(1) have d: "d = RemoveIndex t i" by simp
  from AddIndex assms(2) have none: "sc_indexes s i = None" and s1: "s1 = s\<lparr>sc_indexes := (sc_indexes s)(i \<mapsto> (t, a))\<rparr>"
    by (cases "sc_tables s t"; cases "sc_indexes s i"; simp add: add_index)+
  from none have "(sc_indexes s)(i := None) = sc_indexes s" by (simp add: fun_upd_idem)
  then show ?thesis by (simp add: d s1 remove_index)
qed (use assms in auto)

lemma backwards_undone:
  assumes "list_all2 inverse_call (rev up) down" and "run_calls qi up s = Inr s1" and "creates_fresh qi up s"
  shows "run_calls qi down s1 = Inr s"
  using assms
proof (induction up arbitrary: s down)
  case Nil
  then show ?case by simp
next
  case (Cons c cs)
  from Cons.prems(1) obtain ds d where down: "down = ds @ [d]" and ds: "list_all2 inverse_call (rev cs) ds"
    and d: "inverse_call c d"
    by (auto simp: list_all2_append1 list_all2_Cons1)
  from Cons.prems(2) obtain s' where s': "qi c s = Inr s'" and run: "run_calls qi cs s' = Inr s1"
    by (auto split: sum.splits)
  with Cons.prems(3) have "run_calls qi ds s1 = Inr s'" by (intro Cons.IH [OF ds]) simp_all
  moreover have "qi d s' = Inr s" using Cons.prems(3) by (intro call_undone [OF d s']) simp
  ultimately show ?case by (simp add: down run_calls_append)
qed

lemma add_extends:
  assumes "extends K s s1" and "qi (AddColumn t c a) s1 = Inr s2"
  shows "extends (insert (t, c) K) s s2"
proof -
  from assms(2) obtain cs1 where t1: "sc_tables s1 t = Some cs1" and new: "cs1 c = None"
    and s2: "s2 = with_table t (Some (cs1(c \<mapsto> a))) s1"
    by (auto simp: add_col on_table_def add_column_def split: option.splits if_splits)
  obtain cs where t: "sc_tables s t = Some cs" and cs: "more_columns K t cs cs1"
    by (rule extends_table [OF assms(1) t1])
  from more_columns_at [OF cs, of c] new have "cs c = None" by (simp split: if_splits)
  have "more_columns (insert (t, c) K) t cs (cs1(c \<mapsto> a))"
    unfolding more_columns_def
  proof
    fix c' from more_columns_at [OF cs, of c'] \<open>cs c = None\<close>
    show "if (t, c') \<in> insert (t, c) K then cs c' = None \<and> (cs1(c \<mapsto> a)) c' \<noteq> None else (cs1(c \<mapsto> a)) c' = cs c'"
      by (cases "c' = c") (auto split: if_splits)
  qed
  then show ?thesis unfolding s2 by (rule extends_put [OF assms(1) t, rotated]) simp
qed

lemma remove_extends:
  assumes "extends K s s1" and "(t, c) \<in> K"
  obtains s2 where "qi (RemoveColumn t c) s1 = Inr s2" and "extends (K - {(t, c)}) s s2"
proof -
  from assms(1) have "extends_at K t (sc_tables s t) (sc_tables s1 t)" by (simp add: extends_def)
  with assms(2) obtain cs cs1 where t: "sc_tables s t = Some cs" and t1: "sc_tables s1 t = Some cs1"
    and cs: "more_columns K t cs cs1"
    by (cases "sc_tables s t"; cases "sc_tables s1 t") auto
  from more_columns_at [OF cs, of c] assms(2) have "cs c = None" and "cs1 c \<noteq> None" by simp_all
  then have "qi (RemoveColumn t c) s1 = Inr (with_table t (Some (cs1(c := None))) s1)"
    using t1 by (simp add: remove_col on_table_def remove_column_def)
  moreover have "more_columns (K - {(t, c)}) t cs (cs1(c := None))"
    using cs \<open>cs c = None\<close> by (simp add: more_columns_def)
  then have "extends (K - {(t, c)}) s (with_table t (Some (cs1(c := None))) s1)"
    by (rule extends_put [OF assms(1) t, rotated]) simp
  ultimately show thesis by (rule that)
qed

lemma adds_extend:
  assumes "list_all (\<lambda>c. added_column c \<noteq> None) up" and "run_calls qi up s1 = Inr s2" and "extends K s s1"
  shows "extends (K \<union> {tc. Some tc \<in> set (map added_column up)}) s s2"
  using assms
proof (induction up arbitrary: K s1)
  case Nil
  then show ?case by simp
next
  case (Cons u us)
  from Cons.prems(1) obtain t c a where u: "u = AddColumn t c a" by (cases u) auto
  from Cons.prems(2) u obtain s' where s': "qi (AddColumn t c a) s1 = Inr s'" and run: "run_calls qi us s' = Inr s2"
    by (auto split: sum.splits)
  have "extends (insert (t, c) K \<union> {tc. Some tc \<in> set (map added_column us)}) s s2"
    using Cons.prems(1) by (intro Cons.IH [OF _ run add_extends [OF Cons.prems(3) s']]) simp
  moreover have "insert (t, c) K \<union> {tc. Some tc \<in> set (map added_column us)} = K \<union> {tc. Some tc \<in> set (map added_column (u # us))}"
    by (auto simp: u)
  ultimately show ?case by simp
qed

lemma removes_shrink:
  assumes "list_all (\<lambda>c. removed_column c \<noteq> None) down" and "distinct (map removed_column down)"
    and "extends {tc. Some tc \<in> set (map removed_column down)} s s1"
  shows "run_calls qi down s1 = Inr s"
  using assms
proof (induction down arbitrary: s1)
  case Nil
  then show ?case by (simp add: extends_same)
next
  case (Cons d ds)
  from Cons.prems(1) obtain t c where d: "d = RemoveColumn t c" by (cases d) auto
  let ?K = "{tc. Some tc \<in> set (map removed_column (d # ds))}"
  have "(t, c) \<in> ?K" by (simp add: d)
  from remove_extends [OF Cons.prems(3) this] obtain s2 where s2: "qi d s1 = Inr s2"
    and ext: "extends (?K - {(t, c)}) s s2" unfolding d by blast
  have "?K - {(t, c)} = {tc. Some tc \<in> set (map removed_column ds)}"
    using Cons.prems(2) by (auto simp: d)
  with ext Cons.prems have "run_calls qi ds s2 = Inr s" by (intro Cons.IH) simp_all
  with s2 show ?case by simp
qed

lemma reversible_undone:
  assumes "reversible m" and "creates_fresh qi (mig_up m) s" and "run_calls qi (mig_up m) s = Inr s1"
  shows "run_calls qi (mig_down m) s1 = Inr s"
proof (cases "undoes_backwards (mig_up m) (mig_down m)")
  case True
  then show ?thesis using backwards_undone assms(2,3) by (auto simp: undoes_backwards_def)
next
  case False
  with assms(1) have c: "undoes_columns (mig_up m) (mig_down m)" by (simp add: reversible_def)
  then have "extends {tc. Some tc \<in> set (map removed_column (mig_down m))} s s1"
    using adds_extend [OF _ assms(3), of "{}" s] by (simp add: undoes_columns_def extends_same)
  with c show ?thesis by (intro removes_shrink) (simp_all add: undoes_columns_def)
qed

end

end
