(* ===== verification/MigrationSetA.thy ===== *)
theory MigrationSetA
  imports Migrations
begin

text \<open>
  The migrations of 2017 and 2018, one definition per file of \<open>migrations/\<close>, in the order of their names.
\<close>

definition mig_20170625221918 :: migration where
  "mig_20170625221918 = \<lparr>mig_name = ''20170625221918-create-accounts'',
     mig_up = [CreateTable ''accounts''
        [(''id'', [(''type'', ''INTEGER''), (''primaryKey'', ''true''), (''autoIncrement'', ''true'')]),
         (''email'', [(''type'', ''STRING''), (''unique'', ''true''), (''allowNull'', ''false'')]),
         (''uid'', [(''type'', ''STRING'')]),
         (''webhook_url'', [(''type'', ''STRING'')]),
         (''password_hash'', [(''type'', ''STRING'')]),
         (''dash_payout_address'', [(''type'', ''STRING'')]),
         (''createdAt'', [(''type'', ''DATE'')]),
         (''updatedAt'', [(''type'', ''DATE'')])] []],
     mig_down = [DropTable ''accounts'']\<rparr>"

definition mig_20170625221919 :: migration where
  "mig_20170625221919 = \<lparr>mig_name = ''20170625221919-create-invoices'',
     mig_up = [CreateTable ''invoices''
        [(''id'', [(''type'', ''INTEGER''), (''primaryKey'', ''true''), (''autoIncrement'', ''true'')]),
         (''uid'', [(''type'', ''STRING''), (''allowNull'', ''false'')]),
         (''amount'', [(''type'', ''DECIMAL''), (''allowNull'', ''false'')]),
         (''address'', [(''type'', ''STRING''), (''allowNull'', ''false'')]),
         (''account_id'', [(''type'', ''INTEGER''), (''allowNull'', ''false''), (''references'', ''{model:`accounts`,key:`id`}'')]),
         (''access_token'', [(''type'', ''STRING'')]),
         (''hash'', [(''type'', ''STRING'')]),
         (''status'', [(''type'', ''STRING'')]),
         (''settledAt'', [(''type'', ''DATE'')]),
         (''paidAt'', [(''type'', ''DATE'')]),
         (''createdAt'', [(''type'', ''DATE'')]),
         (''updatedAt'', [(''type'', ''DATE'')])] []],
     mig_down = [DropTable ''invoices'']\<rparr>"

definition mig_20170627010537 :: migration where
  "mig_20170627010537 = \<lparr>mig_name = ''20170627010537-create_payouts'',
     mig_up = [CreateTable ''dash_payouts''
        [(''id'', [(''type'', ''INTEGER''), (''primaryKey'', ''true''), (''autoIncrement'', ''true'')]),
         (''status'', [(''type'', ''STRING''), (''allowNull'', ''false'')]),
         (''account_id'', [(''type'', ''INTEGER''), (''allowNull'', ''false''), (''references'', ''{model:`accounts`,key:`id`}'')]),
         (''amount'', [(''type'', ''DECIMAL''), (''allowNull'', ''false'')]),
         (''payment_hash'', [(''type'', ''STRING'')]),
         (''completedAt'', [(''type'', ''DATE'')]),
         (''createdAt'', [(''type'', ''DATE'')]),
         (''updatedAt'', [(''type'', ''DATE'')])] []],
     mig_down = [DropTable ''dash_payouts'']\<rparr>"

definition mig_20170714122535 :: migration where
  "mig_20170714122535 = \<lparr>mig_name = ''20170714122535-create-dash-invoice-payout'',
     mig_up = [CreateTable ''dash_invoice_payouts''
        [(''id'', [(''type'', ''INTEGER''), (''primaryKey'', ''true''), (''autoIncrement'', ''true'')]),
         (''dash_invoice_id'', [(''type'', ''INTEGER''), (''references'', ''{model:`invoices`,key:`id`}'')]),
         (''dash_payout_id'', [(''type'', ''INTEGER''), (''references'', ''{model:`dash_payouts`,key:`id`}'')])] []],
     mig_down = [DropTable ''dash_invoice_payouts'']\<rparr>"

definition mig_20170731160524 :: migration where
  "mig_20170731160524 = \<lparr>mig_name = ''20170731160524-create-extended-public-keys'',
     mig_up = [CreateTable ''extended_public_keys''
        [(''id'', [(''type'', ''INTEGER''), (''primaryKey'', ''true''), (''autoIncrement'', ''true'')]),
         (''xpubkey'', [(''type'', ''STRING''), (''allowNull'', ''false'')]),
         (''nonce'', [(''type'', ''INTEGER''), (''defaultValue'', ''0'')]),
         (''createdAt'', [(''type'', ''DATE'')]),
         (''updatedAt'', [(''type'', ''DATE'')]),
         (''account_id'', [(''type'', ''INTEGER''), (''allowNull'', ''false''), (''references'', ''{model:`accounts`,key:`id`}'')])] []],
     mig_down = [DropTable ''extended_public_keys'']\<rparr>"

definition mig_20170830170230 :: migration where
  "mig_20170830170230 = \<lparr>mig_name = ''20170830170230-add-dollar-amount-to-invoice'',
     mig_up = [AddColumn ''invoices'' ''dollar_amount'' [(''type'', ''DECIMAL'')]],
     mig_down = [RemoveColumn ''invoices'' ''dollar_amount'']\<rparr>"

definition mig_20170830174351 :: migration where
  "mig_20170830174351 = \<lparr>mig_name = ''20170830174351-add-currency-to-invoice'',
     mig_up = [AddColumn ''invoices'' ''currency'' [(''type'', ''STRING'')]],
     mig_down = [RemoveColumn ''invoices'' ''currency'']\<rparr>"

definition mig_20171002004551 :: migration where
  "mig_20171002004551 = \<lparr>mig_name = ''20171002004551-add-bitcoin-payout-address'',
     mig_up = [AddColumn ''accounts'' ''bitcoin_payout_address'' [(''type'', ''STRING'')]],
     mig_down = [RemoveColumn ''accounts'' ''bitcoin_payout_address'']\<rparr>"

definition mig_20171112174803 :: migration where
  "mig_20171112174803 = \<lparr>mig_name = ''20171112174803-add-bitcoin-cash-address-to-account'',
     mig_up = [AddColumn ''accounts'' ''bitcoin_cash_address'' [(''type'', ''STRING'')]],
     mig_down = [RemoveColumn ''accounts'' ''bitcoin_cash_address'']\<rparr>"

definition mig_20171129204320 :: migration where
  "mig_20171129204320 = \<lparr>mig_name = ''20171129204320-add-litecoin-address-and-account-support-flag'',
     mig_up = [AddColumn ''accounts'' ''litecoin_address'' [(''type'', ''STRING'')],
      AddColumn ''accounts'' ''litecoin_enabled'' [(''type'', ''BOOLEAN'')]],
     mig_down = [RemoveColumn ''accounts'' ''litecoin_address'',
      RemoveColumn ''accounts'' ''litecoin_enabled'']\<rparr>"

definition mig_20171129210817 :: migration where
  "mig_20171129210817 = \<lparr>mig_name = ''20171129210817-add-account-support-flag-bitcoin-cash'',
     mig_up = [AddColumn ''accounts'' ''bitcoin_cash_enabled'' [(''type'', ''BOOLEAN'')]],
     mig_down = [RemoveColumn ''accounts'' ''bitcoin_cash_enabled'']\<rparr>"

definition mig_20171130074432 :: migration where
  "mig_20171130074432 = \<lparr>mig_name = ''20171130074432-add-dogecoin-address-and-account-support-flag'',
     mig_up = [AddColumn ''accounts'' ''dogecoin_address'' [(''type'', ''STRING'')],
      AddColumn ''accounts'' ''dogecoin_enabled'' [(''type'', ''BOOLEAN'')]],
     mig_down = [RemoveColumn ''accounts'' ''dogecoin_address'',
      RemoveColumn ''accounts'' ''dogecoin_enabled'']\<rparr>"

definition mig_20180129030321 :: migration where
  "mig_20180129030321 = \<lparr>mig_name = ''20180129030321-add_blockcypher_webhook_uid_to_invoice'',
     mig_up = [AddColumn ''invoices'' ''blockcypher_webhook_uid'' [(''type'', ''STRING'')]],
     mig_down = [RemoveColumn ''invoices'' ''blockcypher_webhook_uid'']\<rparr>"

definition mig_20180129030428 :: migration where
  "mig_20180129030428 = \<lparr>mig_name = ''20180129030428-add_ethereum_address_to_account'',
     mig_up = [AddColumn ''accounts'' ''ethereum_address'' [(''type'', ''STRING'')]],
     mig_down = [RemoveColumn ''accounts'' ''ethereum_address'']\<rparr>"

definition mig_20180129193639 :: migration where
  "mig_20180129193639 = \<lparr>mig_name = ''20180129193639-add-paid-amount-to-invoice'',
     mig_up = [AddColumn ''invoices'' ''paid_amount'' [(''type'', ''DECIMAL'')]],
     mig_down = [RemoveColumn ''invoices'' ''paid_amount'']\<rparr>"

definition mig_20180325032015 :: migration where
  "mig_20180325032015 = \<lparr>mig_name = ''20180325032015-add-ripple-address-to-account'',
     mig_up = [AddColumn ''accounts'' ''ripple_address'' [(''type'', ''STRING'')]],
     mig_down = [RemoveColumn ''accounts'' ''ripple_address'']\<rparr>"

definition mig_20180426191159 :: migration where
  "mig_20180426191159 = \<lparr>mig_name = ''20180426191159-password-resets'',
     mig_up = [CreateTable ''password_resets''
        [(''uid'', [(''type'', ''UUID''), (''defaultValue'', ''UUIDV4''), (''allowNull'', ''false''), (''primaryKey'', ''true''), (''unique'', ''true'')]),
         (''id'', [(''type'', ''INTEGER''), (''primaryKey'', ''false''), (''autoIncrement'', ''true'')]),
         (''claimed'', [(''type'', ''BOOLEAN''), (''defaultValue'', ''false'')]),
         (''email'', [(''allowNull'', ''false''), (''type'', ''STRING'')]),
         (''createdAt'', [(''allowNull'', ''false''), (''type'', ''DATE'')]),
         (''updatedAt'', [(''allowNull'', ''false''), (''type'', ''DATE'')])] []],
     mig_down = [DropTable ''password_resets'']\<rparr>"

definition mig_20180501170620 :: migration where
  "mig_20180501170620 = \<lparr>mig_name = ''20180501170620-add-zcash-address-to-account'',
     mig_up = [AddColumn ''accounts'' ''zcash_t_address'' [(''type'', ''STRING'')]],
     mig_down = [RemoveColumn ''accounts'' ''zcash_t_address'']\<rparr>"

definition mig_20180531224705 :: migration where
  "mig_20180531224705 = \<lparr>mig_name = ''20180531224705-create-dash-back-merchant'',
     mig_up = [CreateTable ''dash_back_merchants''
        [(''id'', [(''allowNull'', ''false''), (''autoIncrement'', ''true''), (''primaryKey'', ''true''), (''type'', ''INTEGER'')]),
         (''account_id'', [(''type'', ''INTEGER''), (''references'', ''{model:`accounts`,key:`id`}'')]),
         (''enabled'', [(''type'', ''BOOLEAN'')]),
         (''percent'', [(''type'', ''DECIMAL'')]),
         (''createdAt'', [(''allowNull'', ''false''), (''type'', ''DATE'')]),
         (''updatedAt'', [(''allowNull'', ''false''), (''type'', ''DATE'')])] []],
     mig_down = [DropTable ''dash_back_merchants'']\<rparr>"

definition mig_20180601221012 :: migration where
  "mig_20180601221012 = \<lparr>mig_name = ''20180601221012-create-dash-back-merchant-payments'',
     mig_up = [CreateTable ''dash_back_merchant_payments''
        [(''id'', [(''allowNull'', ''false''), (''autoIncrement'', ''true''), (''primaryKey'', ''true''), (''type'', ''INTEGER'')]),
         (''dash_back_merchant_id'', [(''type'', ''INTEGER''), (''allowNull'', ''false''), (''references'', ''{model:`dash_back_merchants`,key:`id`}'')]),
         (''invoice_id'', [(''type'', ''INTEGER''), (''allowNull'', ''false''), (''references'', ''{model:`invoices`,key:`id`}'')]),
         (''transaction_hash'', [(''type'', ''STRING''), (''allowNull'', ''false'')]),
         (''amount'', [(''type'', ''DECIMAL''), (''allowNull'', ''false'')]),
         (''address'', [(''type'', ''STRING''), (''allowNull'', ''false'')]),
         (''createdAt'', [(''allowNull'', ''false''), (''type'', ''DATE'')]),
         (''updatedAt'', [(''allowNull'', ''false''), (''type'', ''DATE'')])] []],
     mig_down = [DropTable ''dash_back_merchant_payments'']\<rparr>"

definition mig_20180601221026 :: migration where
  "mig_20180601221026 = \<lparr>mig_name = ''20180601221026-create-dash-back-customer-payment'',
     mig_up = [CreateTable ''dash_back_customer_payments''
        [(''id'', [(''allowNull'', ''false''), (''autoIncrement'', ''true''), (''primaryKey'', ''true''), (''type'', ''INTEGER'')]),
         (''dash_back_merchant_id'', [(''type'', ''INTEGER''), (''allowNull'', ''false''), (''references'', ''{model:`dash_back_merchants`,key:`id`}'')]),
         (''invoice_id'', [(''type'', ''INTEGER''), (''allowNull'', ''false''), (''references'', ''{model:`invoices`,key:`id`}'')]),
         (''transaction_hash'', [(''type'', ''STRING''), (''allowNull'', ''false'')]),
         (''amount'', [(''type'', ''DECIMAL''), (''allowNull'', ''false'')]),
         (''address'', [(''type'', ''STRING''), (''allowNull'', ''false'')]),
         (''createdAt'', [(''allowNull'', ''false''), (''type'', ''DATE'')]),
         (''updatedAt'', [(''allowNull'', ''false''), (''type'', ''DATE'')])] []],
     mig_down = [DropTable ''dash_back_customer_payments'']\<rparr>"

definition mig_20180612233239 :: migration where
  "mig_20180612233239 = \<lparr>mig_name = ''20180612233239-add-amounts-percents-to-dash-back-merchants'',
     mig_up = [AddColumn ''dash_back_merchants'' ''merchant_percent'' [(''type'', ''DECIMAL'')],
      AddColumn ''dash_back_merchants'' ''merchant_amount'' [(''type'', ''DECIMAL'')],
      AddColumn ''dash_back_merchants'' ''merchant_strategy'' [(''type'', ''STRING'')],
      AddColumn ''dash_back_merchants'' ''customer_percent'' [(''type'', ''DECIMAL'')],
      AddColumn ''dash_back_merchants'' ''customer_amount'' [(''type'', ''DECIMAL'')],
      AddColumn ''dash_back_merchants'' ''customer_strategy'' [(''type'', ''STRING'')]],
     mig_down = []\<rparr>"

definition mig_20180615171415 :: migration where
  "mig_20180615171415 = \<lparr>mig_name = ''20180615171415-add-lightning-uri-to-accounts'',
     mig_up = [AddColumn ''accounts'' ''lightning_uri'' [(''type'', ''STRING'')]],
     mig_down = []\<rparr>"

definition mig_20180706040128 :: migration where
  "mig_20180706040128 = \<lparr>mig_name = ''20180706040128-add-denomination-to-accounts'',
     mig_up = [AddColumn ''accounts'' ''denomination'' [(''type'', ''STRING'')]],
     mig_down = [RemoveColumn ''accounts'' ''denomination'']\<rparr>"

definition mig_20180711185751 :: migration where
  "mig_20180711185751 = \<lparr>mig_name = ''20180711185751-add-denomination-invoice-amounts-to-invoice'',
     mig_up = [AddColumn ''invoices'' ''amount'' [(''type'', ''DECIMAL''), (''defaultValue'', ''0''), (''allowNull'', ''false'')],
      AddColumn ''invoices'' ''currency'' [(''type'', ''STRING''), (''allowNull'', ''false'')],
      RawQuery ''`update invoices SET amount = dollar_amount`'',
      RawQuery ''`update invoices SET currency = 'USD'`'',
      RawQuery ''`update invoices SET amount = amount`'',
      RawQuery ''`update invoices SET currency = currency`''],
     mig_down = [RemoveColumn ''invoices'' ''amount'',
      RemoveColumn ''invoices'' ''currency'',
      RemoveColumn ''invoices'' ''amount'',
      RemoveColumn ''invoices'' ''currency'']\<rparr>"

definition mig_20180724235342 :: migration where
  "mig_20180724235342 = \<lparr>mig_name = ''20180724235342-create-address'',
     mig_up = [CreateTable ''addresses''
        [(''id'', [(''allowNull'', ''false''), (''autoIncrement'', ''true''), (''primaryKey'', ''true''), (''type'', ''INTEGER'')]),
         (''account_id'', [(''type'', ''INTEGER''), (''allowNull'', ''false'')]),
         (''currency'', [(''type'', ''STRING''), (''allowNull'', ''false'')]),
         (''plugin'', [(''type'', ''STRING'')]),
         (''value'', [(''type'', ''STRING''), (''allowNull'', ''false'')]),
         (''createdAt'', [(''allowNull'', ''false''), (''type'', ''DATE'')]),
         (''updatedAt'', [(''allowNull'', ''false''), (''type'', ''DATE'')])] []],
     mig_down = [DropTable ''addresses'']\<rparr>"

definition mig_20181020042446 :: migration where
  "mig_20181020042446 = \<lparr>mig_name = ''20181020042446-create-payment-forward'',
     mig_up = [CreateTable ''payment_forwards''
        [(''id'', [(''allowNull'', ''false''), (''autoIncrement'', ''true''), (''primaryKey'', ''true''), (''type'', ''INTEGER'')]),
         (''input_address'', [(''type'', ''STRING''), (''allowNull'', ''false'')]),
         (''input_currency'', [(''type'', ''STRING''), (''allowNull'', ''false'')]),
         (''output_address'', [(''type'', ''STRING''), (''allowNull'', ''false'')]),
         (''output_currency'', [(''type'', ''STRING''), (''allowNull'', ''false'')]),
         (''expired'', [(''type'', ''BOOLEAN''), (''defaultValue'', ''false'')]),
         (''createdAt'', [(''allowNull'', ''false''), (''type'', ''DATE'')]),
         (''updatedAt'', [(''allowNull'', ''false''), (''type'', ''DATE'')])] []],
     mig_down = [DropTable ''payment_forwards'']\<rparr>"

definition mig_20181021151247 :: migration where
  "mig_20181021151247 = \<lparr>mig_name = ''20181021151247-create-payment-forward-input-payment'',
     mig_up = [CreateTable ''payment_forward_input_payments''
        [(''id'', [(''allowNull'', ''false''), (''autoIncrement'', ''true''), (''primaryKey'', ''true''), (''type'', ''INTEGER'')]),
         (''payment_forward_id'', [(''type'', ''INTEGER''), (''allowNull'', ''false'')]),
         (''txid'', [(''type'', ''STRING''), (''allowNull'', ''false'')]),
         (''amount'', [(''type'', ''DECIMAL''), (''allowNull'', ''false'')]),
         (''createdAt'', [(''allowNull'', ''false''), (''type'', ''DATE'')]),
         (''updatedAt'', [(''allowNull'', ''false''), (''type'', ''DATE'')])] []],
     mig_down = [DropTable ''payment_forward_input_payments'']\<rparr>"

definition mig_20181021154912 :: migration where
  "mig_20181021154912 = \<lparr>mig_name = ''20181021154912-create-payment-forward-output-payment'',
     mig_up = [CreateTable ''payment_forward_output_payments''
        [(''id'', [(''allowNull'', ''false''), (''autoIncrement'', ''true''), (''primaryKey'', ''true''), (''type'', ''INTEGER'')]),
         (''payment_forward_input_payment_id'', [(''type'', ''INTEGER'')]),
         (''payment_forward_id'', [(''type'', ''INTEGER'')]),
         (''amount'', [(''type'', ''DECIMAL'')]),
         (''txid'', [(''type'', ''STRING'')]),
         (''createdAt'', [(''allowNull'', ''false''), (''type'', ''DATE'')]),
         (''updatedAt'', [(''allowNull'', ''false''), (''type'', ''DATE'')])] []],
     mig_down = [DropTable ''payment_forward_output_payments'']\<rparr>"

definition mig_20181027202049 :: migration where
  "mig_20181027202049 = \<lparr>mig_name = ''20181027202049-add-admin-to-accounts-and-access-tokens'',
     mig_up = [AddColumn ''accounts'' ''is_admin'' [(''type'', ''BOOLEAN''), (''defaultValue'', ''false'')]],
     mig_down = [RemoveColumn ''accounts'' ''is_admin'']\<rparr>"

definition mig_20181101230427 :: migration where
  "mig_20181101230427 = \<lparr>mig_name = ''20181101230427-create-payroll-payment'',
     mig_up = [CreateTable ''payroll_payments''
        [(''id'', [(''allowNull'', ''false''), (''autoIncrement'', ''true''), (''primaryKey'', ''true''), (''type'', ''INTEGER'')]),
         (''payroll_account_id'', [(''type'', ''INTEGER'')]),
         (''amount'', [(''type'', ''DECIMAL'')]),
         (''currency'', [(''type'', ''STRING'')]),
         (''hash'', [(''type'', ''STRING'')]),
         (''createdAt'', [(''allowNull'', ''false''), (''type'', ''DATE'')]),
         (''updatedAt'', [(''allowNull'', ''false''), (''type'', ''DATE'')])] []],
     mig_down = [DropTable ''payroll_payments'']\<rparr>"

definition mig_20181102183302 :: migration where
  "mig_20181102183302 = \<lparr>mig_name = ''20181102183302-add-address-to-payroll-payments'',
     mig_up = [AddColumn ''payroll_payments'' ''address'' [(''type'', ''STRING''), (''allowNull'', ''true'')]],
     mig_down = [RemoveColumn ''payroll_payments'' ''address'']\<rparr>"

definition mig_20181120013521 :: migration where
  "mig_20181120013521 = \<lparr>mig_name = ''20181120013521-add_business_name_to_accounts'',
     mig_up = [AddColumn ''accounts'' ''business_name'' [(''type'', ''STRING''), (''allowNull'', ''true'')]],
     mig_down = [RemoveColumn ''accounts'' ''business_name'']\<rparr>"

definition mig_20181120013529 :: migration where
  "mig_20181120013529 = \<lparr>mig_name = ''20181120013529-add_physical_address_to_accounts'',
     mig_up = [AddColumn ''accounts'' ''physical_address'' [(''type'', ''STRING''), (''allowNull'', ''true'')]],
     mig_down = [RemoveColumn ''accounts'' ''physical_address'']\<rparr>"

definition mig_20181126220446 :: migration where
  "mig_20181126220446 = \<lparr>mig_name = ''20181126220446-add-latitute-longitude-to-accounts'',
     mig_up = [AddColumn ''accounts'' ''latitude'' [(''type'', ''STRING'')],
      AddColumn ''accounts'' ''longitude'' [(''type'', ''STRING'')]],
     mig_down = [RemoveColumn ''accounts'' ''latitude'',
      RemoveColumn ''accounts'' ''longitude'']\<rparr>"

definition mig_20181129023812 :: migration where
  "mig_20181129023812 = \<lparr>mig_name = ''20181129023812-add-redirect-url-to-invoice'',
     mig_up = [AddColumn ''invoices'' ''redirect_url'' [(''type'', ''STRING'')]],
     mig_down = [RemoveColumn ''invoices'' ''redirect_url'']\<rparr>"

definition mig_20181130002817 :: migration where
  "mig_20181130002817 = \<lparr>mig_name = ''20181130002817-add-webhook-url-to-invoices'',
     mig_up = [AddColumn ''invoices'' ''webhook_url'' [(''type'', ''STRING'')]],
     mig_down = [RemoveColumn ''invoices'' ''webhook_url'']\<rparr>"

definition mig_20181203145242 :: migration where
  "mig_20181203145242 = \<lparr>mig_name = ''20181203145242-add-amount-paid-denomination-amount-paid-to-invoice'',
     mig_up = [AddColumn ''invoices'' ''amount_paid'' [(''type'', ''DECIMAL'')],
      AddColumn ''invoices'' ''amount_paid'' [(''type'', ''DECIMAL'')]],
     mig_down = [RemoveColumn ''invoices'' ''amount_paid'',
      RemoveColumn ''invoices'' ''amount_paid'']\<rparr>"

definition mig_20181209183330 :: migration where
  "mig_20181209183330 = \<lparr>mig_name = ''20181209183330-add-currency-to-extended-public-keys'',
     mig_up = [AddColumn ''extended_public_keys'' ''currency'' [(''type'', ''STRING''), (''allowNull'', ''true'')]],
     mig_down = [RemoveColumn ''extended_public_keys'' ''currency'']\<rparr>"

definition mig_20181210181526 :: migration where
  "mig_20181210181526 = \<lparr>mig_name = ''20181210181526-add-complete-boolean-to-invoice'',
     mig_up = [AddColumn ''invoices'' ''complete'' [(''type'', ''BOOLEAN''), (''defaultValue'', ''false'')],
      AddColumn ''invoices'' ''completed_at'' [(''type'', ''DATE'')]],
     mig_down = [RemoveColumn ''invoices'' ''complete'',
      RemoveColumn ''invoices'' ''completed_at'']\<rparr>"

definition mig_20181211032005 :: migration where
  "mig_20181211032005 = \<lparr>mig_name = ''20181211032005-create-dash-instantsend-transaction'',
     mig_up = [CreateTable ''dash_instantsend_transactions''
        [(''id'', [(''allowNull'', ''false''), (''autoIncrement'', ''true''), (''primaryKey'', ''true''), (''type'', ''INTEGER'')]),
         (''hash'', [(''type'', ''STRING''), (''allowNull'', ''false''), (''unique'', ''true'')]),
         (''createdAt'', [(''allowNull'', ''false''), (''type'', ''DATE'')]),
         (''updatedAt'', [(''allowNull'', ''false''), (''type'', ''DATE'')])] []],
     mig_down = [DropTable ''dash_instantsend_transactions'']\<rparr>"

definition mig_20181215041052 :: migration where
  "mig_20181215041052 = \<lparr>mig_name = ''20181215041052-create-coins'',
     mig_up = [CreateTable ''coins''
        [(''id'', [(''allowNull'', ''false''), (''autoIncrement'', ''true''), (''primaryKey'', ''true''), (''type'', ''INTEGER'')]),
         (''code'', [(''type'', ''STRING''), (''allowNull'', ''false'')]),
         (''name'', [(''type'', ''STRING''), (''allowNull'', ''false'')]),
         (''logo_url'', [(''type'', ''STRING'')]),
         (''uri_template'', [(''type'', ''STRING'')]),
         (''unavailable'', [(''type'', ''BOOLEAN''), (''defaultValue'', ''false'')]),
         (''createdAt'', [(''allowNull'', ''false''), (''type'', ''DATE'')]),
         (''updatedAt'', [(''allowNull'', ''false''), (''type'', ''DATE'')])] []],
     mig_down = [DropTable ''coins'']\<rparr>"

definition mig_20181218194459 :: migration where
  "mig_20181218194459 = \<lparr>mig_name = ''20181218194459-add-output-hash-to-invoice'',
     mig_up = [AddColumn ''invoices'' ''output_hash'' [(''type'', ''STRING'')],
      AddColumn ''invoices'' ''output_address'' [(''type'', ''STRING'')],
      AddColumn ''invoices'' ''output_currency'' [(''type'', ''STRING'')],
      AddColumn ''invoices'' ''output_amount'' [(''type'', ''DECIMAL'')]],
     mig_down = [RemoveColumn ''invoices'' ''output_hash'',
      RemoveColumn ''invoices'' ''output_address'',
      RemoveColumn ''invoices'' ''output_currency'',
      RemoveColumn ''invoices'' ''output_amount'']\<rparr>"

definition mig_20181220182059 :: migration where
  "mig_20181220182059 = \<lparr>mig_name = ''20181220182059-add-nonce-to-currency'',
     mig_up = [AddColumn ''addresses'' ''nonce'' [(''type'', ''INTEGER''), (''defaultValue'', ''0'')]],
     mig_down = [RemoveColumn ''addresses'' ''nonce'']\<rparr>"

definition mig_20181230021445 :: migration where
  "mig_20181230021445 = \<lparr>mig_name = ''20181230021445-create-price'',
     mig_up = [CreateTable ''prices''
        [(''id'', [(''allowNull'', ''false''), (''autoIncrement'', ''true''), (''primaryKey'', ''true''), (''type'', ''INTEGER'')]),
         (''currency'', [(''type'', ''STRING''), (''allowNull'', ''false'')]),
         (''value'', [(''type'', ''DECIMAL''), (''allowNull'', ''false'')]),
         (''base_currency'', [(''type'', ''STRING''), (''defaultValue'', ''`BTC`'')]),
         (''createdAt'', [(''allowNull'', ''false''), (''type'', ''DATE'')]),
         (''updatedAt'', [(''allowNull'', ''false''), (''type'', ''DATE'')])] []],
     mig_down = [DropTable ''prices'']\<rparr>"

definition mig_20181230052300 :: migration where
  "mig_20181230052300 = \<lparr>mig_name = ''20181230052300-add-external-id-to-invoices'',
     mig_up = [AddColumn ''invoices'' ''external_id'' [(''type'', ''STRING'')]],
     mig_down = [RemoveColumn ''invoices'' ''external_id'']\<rparr>"

definition migrations_a :: "migration list" where
  "migrations_a = [
     mig_20170625221918, mig_20170625221919, mig_20170627010537, mig_20170714122535,
     mig_20170731160524, mig_20170830170230, mig_20170830174351, mig_20171002004551,
     mig_20171112174803, mig_20171129204320, mig_20171129210817, mig_20171130074432,
     mig_20180129030321, mig_20180129030428, mig_20180129193639, mig_20180325032015,
     mig_20180426191159, mig_20180501170620, mig_20180531224705, mig_20180601221012,
     mig_20180601221026, mig_20180612233239, mig_20180615171415, mig_20180706040128,
     mig_20180711185751, mig_20180724235342, mig_20181020042446, mig_20181021151247,
     mig_20181021154912, mig_20181027202049, mig_20181101230427, mig_20181102183302,
     mig_20181120013521, mig_20181120013529, mig_20181126220446, mig_20181129023812,
     mig_20181130002817, mig_20181203145242, mig_20181209183330, mig_20181210181526,
     mig_20181211032005, mig_20181215041052, mig_20181218194459, mig_20181220182059,
     mig_20181230021445, mig_20181230052300]"

lemmas migrations_a_defs = migrations_a_def
  mig_20170625221918_def mig_20170625221919_def mig_20170627010537_def mig_20170714122535_def
  mig_20170731160524_def mig_20170830170230_def mig_20170830174351_def mig_20171002004551_def
  mig_20171112174803_def mig_20171129204320_def mig_20171129210817_def mig_20171130074432_def
  mig_20180129030321_def mig_20180129030428_def mig_20180129193639_def mig_20180325032015_def
  mig_20180426191159_def mig_20180501170620_def mig_20180531224705_def mig_20180601221012_def
  mig_20180601221026_def mig_20180612233239_def mig_20180615171415_def mig_20180706040128_def
  mig_20180711185751_def mig_20180724235342_def mig_20181020042446_def mig_20181021151247_def
  mig_20181021154912_def mig_20181027202049_def mig_20181101230427_def mig_20181102183302_def
  mig_20181120013521_def mig_20181120013529_def mig_20181126220446_def mig_20181129023812_def
  mig_20181130002817_def mig_20181203145242_def mig_20181209183330_def mig_20181210181526_def
  mig_20181211032005_def mig_20181215041052_def mig_20181218194459_def mig_20181220182059_def
  mig_20181230021445_def mig_20181230052300_def

end
