(* ===== verification/MigrationSetB.thy ===== *)
theory MigrationSetB
  imports Migrations
begin

text \<open>
  The migrations of 2019, one definition per file of \<open>migrations/\<close>, in the order of their names.
  What comes after a \<open>return\<close> (\<open>20190310144046\<close>) is never reached and left out.
\<close>

definition mig_20190103103749 :: migration where
  "mig_20190103103749 = \<lparr>mig_name = ''20190103103749-add-locked-to-addresses'',
     mig_up = [AddColumn ''addresses'' ''locked'' [(''type'', ''BOOLEAN''), (''defaultValue'', ''false'')]],
     mig_down = [RemoveColumn ''addresses'' ''locked'']\<rparr>"

definition mig_20190106212749 :: migration where
  "mig_20190106212749 = \<lparr>mig_name = ''20190106212749-create-bank-account'',
     mig_up = [CreateTable ''bank_accounts''
        [(''id'', [(''allowNull'', ''false''), (''autoIncrement'', ''true''), (''primaryKey'', ''true''), (''type'', ''INTEGER'')]),
         (''beneficiary_name'', [(''type'', ''STRING''), (''allowNull'', ''false'')]),
         (''beneficiary_address'', [(''type'', ''STRING''), (''allowNull'', ''false'')]),
         (''city'', [(''type'', ''STRING''), (''allowNull'', ''false'')]),
         (''state'', [(''type'', ''STRING''), (''allowNull'', ''false'')]),
         (''zip'', [(''type'', ''INTEGER''), (''allowNull'', ''false'')]),
         (''routing_number'', [(''type'', ''STRING''), (''allowNull'', ''false'')]),
         (''beneficiary_account_number'', [(''type'', ''STRING''), (''allowNull'', ''false'')]),
         (''account_id'', [(''type'', ''INTEGER''), (''allowNull'', ''false''), (''references'', ''{model:`accounts`,key:`id`}'')]),
         (''createdAt'', [(''allowNull'', ''false''), (''type'', ''DATE'')]),
         (''updatedAt'', [(''allowNull'', ''false''), (''type'', ''DATE'')])] []],
     mig_down = [DropTable ''bank_accounts'']\<rparr>"

definition mig_20190107145821 :: migration where
  "mig_20190107145821 = \<lparr>mig_name = ''20190107145821-add-expiry-to-invoice'',
     mig_up = [AddColumn ''invoices'' ''expiry'' [(''type'', ''DATE''), (''allowNull'', ''true'')]],
     mig_down = [RemoveColumn ''invoices'' ''expiry'']\<rparr>"

definition mig_20190109163900 :: migration where
  "mig_20190109163900 = \<lparr>mig_name = ''20190109163900-create-blockcypher-payment-forward'',
     mig_up = [CreateTable ''blockcypher_payment_forwards''
        [(''id'', [(''type'', ''INTEGER''), (''primaryKey'', ''true''), (''autoIncrement'', ''true'')]),
         (''payment_id'', [(''allowNull'', ''false''), (''unique'', ''true''), (''type'', ''STRING'')]),
         (''destination'', [(''type'', ''STRING''), (''allowNull'', ''false'')]),
         (''input_address'', [(''type'', ''STRING''), (''allowNull'', ''false'')]),
         (''mining_fee_satoshis'', [(''type'', ''INTEGER'')]),
         (''process_fees_satoshis'', [(''type'', ''INTEGER'')]),
         (''process_fees_address'', [(''type'', ''STRING'')]),
         (''callback_url'', [(''type'', ''STRING'')]),
         (''createdAt'', [(''allowNull'', ''false''), (''type'', ''DATE'')]),
         (''updatedAt'', [(''allowNull'', ''false''), (''type'', ''DATE'')])] []],
     mig_down = [DropTable ''blockcypher_payment_forwards'']\<rparr>"

definition mig_20190109194153 :: migration where
  "mig_20190109194153 = \<lparr>mig_name = ''20190109194153-add-deleted-to-blockcypher-payment-forwards'',
     mig_up = [AddColumn ''blockcypher_payment_forwards'' ''deleted'' [(''type'', ''BOOLEAN''), (''defaultValue'', ''false'')]],
     mig_down = [RemoveColumn ''blockcypher_payment_forwards'' ''deleted'']\<rparr>"

definition mig_20190111152525 :: migration where
  "mig_20190111152525 = \<lparr>mig_name = ''20190111152525-create-merchant-group'',
     mig_up = [CreateTable ''merchant_groups''
        [(''id'', [(''allowNull'', ''false''), (''autoIncrement'', ''true''), (''primaryKey'', ''true''), (''type'', ''INTEGER'')]),
         (''name'', [(''type'', ''STRING''), (''allowNull'', ''false'')]),
         (''description'', [(''type'', ''TEXT'')]),
         (''latitude'', [(''type'', ''STRING'')]),
         (''longitude'', [(''type'', ''STRING'')]),
         (''account_id'', [(''type'', ''INTEGER''), (''allowNull'', ''false''), (''references'', ''{model:`accounts`,key:`id`}'')]),
         (''createdAt'', [(''allowNull'', ''false''), (''type'', ''DATE'')]),
         (''updatedAt'', [(''allowNull'', ''false''), (''type'', ''DATE'')])] []],
     mig_down = [DropTable ''merchant_groups'']\<rparr>"

definition mig_20190111152830 :: migration where
  "mig_20190111152830 = \<lparr>mig_name = ''20190111152830-create-merchant-group-member'',
     mig_up = [CreateTable ''merchant_group_members''
        [(''id'', [(''allowNull'', ''false''), (''autoIncrement'', ''true''), (''primaryKey'', ''true''), (''type'', ''INTEGER'')]),
         (''account_id'', [(''type'', ''INTEGER''), (''allowNull'', ''false''), (''references'', ''{model:`accounts`,key:`id`}'')]),
         (''merchant_group_id'', [(''type'', ''INTEGER''), (''allowNull'', ''false''), (''references'', ''{model:`merchant_groups`,key:`id`}'')]),
         (''createdAt'', [(''allowNull'', ''false''), (''type'', ''DATE'')]),
         (''updatedAt'', [(''allowNull'', ''false''), (''type'', ''DATE'')])] []],
     mig_down = [DropTable ''merchant_group_members'']\<rparr>"

definition mig_20190118021053 :: migration where
  "mig_20190118021053 = \<lparr>mig_name = ''20190118021053-create-blockcypher-event'',
     mig_up = [CreateTable ''blockcypher_events''
        [(''id'', [(''allowNull'', ''false''), (''autoIncrement'', ''true''), (''primaryKey'', ''true''), (''type'', ''INTEGER'')]),
         (''type'', [(''type'', ''STRING'')]),
         (''payload'', [(''type'', ''TEXT'')]),
         (''createdAt'', [(''allowNull'', ''false''), (''type'', ''DATE'')]),
         (''updatedAt'', [(''allowNull'', ''false''), (''type'', ''DATE'')])] []],
     mig_down = [DropTable ''blockcypher_events'']\<rparr>"

definition mig_20190118021253 :: migration where
  "mig_20190118021253 = \<lparr>mig_name = ''20190118021253-create-blockcypher-hook'',
     mig_up = [CreateTable ''blockcypher_hooks''
        [(''id'', [(''allowNull'', ''false''), (''autoIncrement'', ''true''), (''primaryKey'', ''true''), (''type'', ''INTEGER'')]),
         (''uid'', [(''type'', ''STRING'')]),
         (''event'', [(''type'', ''STRING'')]),
         (''address'', [(''type'', ''STRING'')]),
         (''url'', [(''type'', ''STRING'')]),
         (''callback_errors'', [(''type'', ''INTEGER'')]),
         (''createdAt'', [(''allowNull'', ''false''), (''type'', ''DATE'')]),
         (''updatedAt'', [(''allowNull'', ''false''), (''type'', ''DATE'')])] []],
     mig_down = [DropTable ''blockcypher_hooks'']\<rparr>"

definition mig_20190119230640 :: migration where
  "mig_20190119230640 = \<lparr>mig_name = ''20190119230640-create-blockcypher-address-forward-callback'',
     mig_up = [CreateTable ''blockcypher_address_forward_callbacks''
        [(''id'', [(''allowNull'', ''false''), (''autoIncrement'', ''true''), (''primaryKey'', ''true''), (''type'', ''INTEGER'')]),
         (''value'', [(''type'', ''INTEGER''), (''allowNull'', ''false'')]),
         (''input_address'', [(''type'', ''STRING''), (''allowNull'', ''false'')]),
         (''destination'', [(''type'', ''STRING''), (''allowNull'', ''false'')]),
         (''input_transaction_hash'', [(''type'', ''STRING''), (''allowNull'', ''false'')]),
         (''transaction_hash'', [(''type'', ''STRING''), (''allowNull'', ''false'')]),
         (''createdAt'', [(''allowNull'', ''false''), (''type'', ''DATE'')]),
         (''updatedAt'', [(''allowNull'', ''false''), (''type'', ''DATE'')])] []],
     mig_down = [DropTable ''blockcypher_address_forward_callbacks'']\<rparr>"

definition mig_20190119230859 :: migration where
  "mig_20190119230859 = \<lparr>mig_name = ''20190119230859-create-blockcypher-address-forward'',
     mig_up = [CreateTable ''blockcypher_address_forwards''
        [(''id'', [(''allowNull'', ''false''), (''autoIncrement'', ''true''), (''primaryKey'', ''true''), (''type'', ''INTEGER'')]),
         (''uid'', [(''type'', ''STRING''), (''allowNull'', ''false'')]),
         (''token'', [(''type'', ''STRING''), (''allowNull'', ''false'')]),
         (''destination'', [(''type'', ''STRING''), (''allowNull'', ''false'')]),
         (''input_address'', [(''type'', ''STRING'')]),
         (''process_fees_address'', [(''type'', ''STRING'')]),
         (''process_fees_satoshis'', [(''type'', ''INTEGER'')]),
         (''process_fees_percent'', [(''type'', ''DECIMAL'')]),
         (''callback_url'', [(''type'', ''STRING'')]),
         (''enable_confirmations'', [(''type'', ''BOOLEAN'')]),
         (''mining_fees_satoshis'', [(''type'', ''INTEGER'')]),
         (''createdAt'', [(''allowNull'', ''false''), (''type'', ''DATE'')]),
         (''updatedAt'', [(''allowNull'', ''false''), (''type'', ''DATE'')])] []],
     mig_down = [DropTable ''blockcypher_address_forwards'']\<rparr>"

definition mig_20190306002706 :: migration where
  "mig_20190306002706 = \<lparr>mig_name = ''20190306002706-rename-dashback-to-cashback'',
     mig_up = [RenameTable ''dash_back_merchants'' ''cashback_merchants'',
      RenameTable ''dash_back_customer_payments'' ''cashback_customer_payments'',
      RenameTable ''dash_back_merchant_payments'' ''cashback_merchant_payments'',
      AddColumn ''cashback_customer_payments'' ''currency'' [(''type'', ''STRING'')],
      AddColumn ''cashback_merchant_payments'' ''currency'' [(''type'', ''STRING'')],
      RawQuery ''`update cashback_customer_payments set currency='DASH';`'',
      RawQuery ''`update cashback_merchant_payments set currency='DASH';`''],
     mig_down = []\<rparr>"

definition mig_20190309001226 :: migration where
  "mig_20190309001226 = \<lparr>mig_name = ''20190309001226-add-locked-to-invoice'',
     mig_up = [AddColumn ''invoices'' ''locked'' [(''type'', ''BOOLEAN'')]],
     mig_down = [RemoveColumn ''invoices'' ''locked'']\<rparr>"

definition mig_20190310144046 :: migration where
  "mig_20190310144046 = \<lparr>mig_name = ''20190310144046-renmae-dash-back-to-cashback-merchant-id'',
     mig_up = [RenameColumn ''cashback_customer_payments'' ''dash_back_merchant_id'' ''cashback_merchant_id''],
     mig_down = [RenameColumn ''cashback_customer_payments'' ''cashback_merchant_id'' ''dash_back_merchant_id'']\<rparr>"

definition mig_20190311145435 :: migration where
  "mig_20190311145435 = \<lparr>mig_name = ''20190311145435-add-image-url-to-account'',
     mig_up = [AddColumn ''accounts'' ''image_url'' [(''type'', ''STRING''), (''allowNull'', ''true'')]],
     mig_down = [RemoveColumn ''accounts'' ''image_url'']\<rparr>"

definition mig_20190322030230 :: migration where
  "mig_20190322030230 = \<lparr>mig_name = ''20190322030230-allow-no-email-accounts'',
     mig_up = [RawQuery ''`alter table accounts alter column email drop not null;`''],
     mig_down = []\<rparr>"

definition mig_20190328181706 :: migration where
  "mig_20190328181706 = \<lparr>mig_name = ''20190328181706-create-tip-jar'',
     mig_up = [CreateTable ''tipjars''
        [(''id'', [(''allowNull'', ''false''), (''autoIncrement'', ''true''), (''primaryKey'', ''true''), (''type'', ''INTEGER'')]),
         (''account_id'', [(''type'', ''INTEGER'')]),
         (''private_key'', [(''type'', ''STRING'')]),
         (''address'', [(''type'', ''STRING'')]),
         (''currency'', [(''type'', ''STRING'')]),
         (''createdAt'', [(''allowNull'', ''false''), (''type'', ''DATE'')]),
         (''updatedAt'', [(''allowNull'', ''false''), (''type'', ''DATE'')])] [],
      AddColumn ''accounts'' ''tipjar_enabled'' [(''type'', ''BOOLEAN''), (''defaultValue'', ''false'')]],
     mig_down = [DropTable ''tipjars'',
      RemoveColumn ''accounts'' ''tipjar_enabled'']\<rparr>"

definition mig_20190415172512 :: migration where
  "mig_20190415172512 = \<lparr>mig_name = ''20190415172512-create-address-route'',
     mig_up = [CreateTable ''address_routes''
        [(''id'', [(''allowNull'', ''false''), (''autoIncrement'', ''true''), (''primaryKey'', ''true''), (''type'', ''INTEGER'')]),
         (''input_address'', [(''type'', ''STRING''), (''allowNull'', ''false'')]),
         (''input_currency'', [(''type'', ''STRING''), (''allowNull'', ''false'')]),
         (''output_address'', [(''type'', ''STRING''), (''allowNull'', ''false'')]),
         (''output_currency'', [(''type'', ''STRING''), (''allowNull'', ''false'')]),
         (''expires'', [(''type'', ''DATE''), (''allowNull'', ''true'')]),
         (''createdAt'', [(''allowNull'', ''false''), (''type'', ''DATE'')]),
         (''updatedAt'', [(''allowNull'', ''false''), (''type'', ''DATE'')])] []],
     mig_down = [DropTable ''address_routes'']\<rparr>"

definition mig_20190419150433 :: migration where
  "mig_20190419150433 = \<lparr>mig_name = ''20190419150433-add-cashback-amount-to-invoice'',
     mig_up = [AddColumn ''invoices'' ''cashback_amount'' [(''type'', ''DECIMAL''), (''allowNull'', ''true'')]],
     mig_down = [RemoveColumn ''invoices'' ''cashback_amount'']\<rparr>"

definition mig_20190423201906 :: migration where
  "mig_20190423201906 = \<lparr>mig_name = ''20190423201906-add-cashback-denomination-amount'',
     mig_up = [AddColumn ''invoices'' ''cashback_amount'' [(''type'', ''DECIMAL''), (''allowNull'', ''true'')]],
     mig_down = [RemoveColumn ''invoices'' ''cashback_amount'']\<rparr>"

definition mig_20190423202111 :: migration where
  "mig_20190423202111 = \<lparr>mig_name = ''20190423202111-allow-cashback-amount-in-account'',
     mig_up = [AddColumn ''accounts'' ''allow_cashback_amount'' [(''type'', ''BOOLEAN''), (''defaultValue'', ''false'')]],
     mig_down = [RemoveColumn ''accounts'' ''allow_cashback_amount'']\<rparr>"

definition mig_20190428165922 :: migration where
  "mig_20190428165922 = \<lparr>mig_name = ''20190428165922-create-account-route'',
     mig_up = [CreateTable ''AccountRoutes''
        [(''id'', [(''allowNull'', ''false''), (''autoIncrement'', ''true''), (''primaryKey'', ''true''), (''type'', ''INTEGER'')]),
         (''account_id'', [(''type'', ''INTEGER''), (''allowNull'', ''false'')]),
         (''input_currency'', [(''type'', ''STRING''), (''allowNull'', ''false'')]),
         (''output_currency'', [(''type'', ''STRING''), (''allowNull'', ''false'')]),
         (''output_address'', [(''type'', ''STRING''), (''allowNull'', ''false'')]),
         (''createdAt'', [(''allowNull'', ''false''), (''type'', ''DATE'')]),
         (''updatedAt'', [(''allowNull'', ''false''), (''type'', ''DATE'')])] []],
     mig_down = [DropTable ''AccountRoutes'']\<rparr>"

definition mig_20190501025335 :: migration where
  "mig_20190501025335 = \<lparr>mig_name = ''20190501025335-create-simple-wallet'',
     mig_up = [CreateTable ''simple_wallets''
        [(''id'', [(''allowNull'', ''false''), (''autoIncrement'', ''true''), (''primaryKey'', ''true''), (''type'', ''INTEGER'')]),
         (''name'', [(''type'', ''STRING''), (''allowNull'', ''false'')]),
         (''currency'', [(''type'', ''STRING''), (''allowNull'', ''false'')]),
         (''address'', [(''type'', ''STRING''), (''allowNull'', ''false'')]),
         (''balance'', [(''type'', ''DECIMAL''), (''defaultValue'', ''0'')]),
         (''balance_updated_at'', [(''type'', ''DATE'')]),
         (''createdAt'', [(''allowNull'', ''false''), (''type'', ''DATE'')]),
         (''updatedAt'', [(''allowNull'', ''false''), (''type'', ''DATE'')])] []],
     mig_down = [DropTable ''simple_wallets'']\<rparr>"

definition mig_20190515135958 :: migration where
  "mig_20190515135958 = \<lparr>mig_name = ''20190515135958-add-uri-to-invoices'',
     mig_up = [AddColumn ''invoices'' ''uri'' [(''type'', ''STRING''), (''allowNull'', ''true'')]],
     mig_down = [RemoveColumn ''invoices'' ''uri'']\<rparr>"

definition mig_20190814151229 :: migration where
  "mig_20190814151229 = \<lparr>mig_name = ''20190814151229-create-hd-key-addresses'',
     mig_up = [CreateTable ''HDKeyAddresses''
        [(''id'', [(''allowNull'', ''false''), (''autoIncrement'', ''true''), (''primaryKey'', ''true''), (''type'', ''INTEGER'')]),
         (''currency'', [(''type'', ''STRING'')]),
         (''address'', [(''type'', ''STRING'')]),
         (''xpub_key'', [(''type'', ''STRING'')]),
         (''createdAt'', [(''allowNull'', ''false''), (''type'', ''DATE'')]),
         (''updatedAt'', [(''allowNull'', ''false''), (''type'', ''DATE'')])] []],
     mig_down = [DropTable ''HDKeyAddresses'']\<rparr>"

definition mig_20190815180807 :: migration where
  "mig_20190815180807 = \<lparr>mig_name = ''20190815180807-add-watch-address-webhook-url-to-account'',
     mig_up = [AddColumn ''accounts'' ''watch_address_webhook_url'' [(''type'', ''STRING'')]],
     mig_down = [RemoveColumn ''accounts'' ''watch_address_webhook_url'']\<rparr>"

definition mig_20190907235155 :: migration where
  "mig_20190907235155 = \<lparr>mig_name = ''20190907235155-add-is-public-request-to-invoices'',
     mig_up = [AddColumn ''invoices'' ''is_public_request'' [(''type'', ''BOOLEAN''), (''defaultValue'', ''false'')]],
     mig_down = [RemoveColumn ''invoices'' ''is_public_request'']\<rparr>"

definition mig_20190908010142 :: migration where
  "mig_20190908010142 = \<lparr>mig_name = ''20190908010142-add-stub-to-account'',
     mig_up = [AddColumn ''accounts'' ''stub'' [(''type'', ''STRING'')]],
     mig_down = [RemoveColumn ''accounts'' ''stub'']\<rparr>"

definition mig_20191004220819 :: migration where
  "mig_20191004220819 = \<lparr>mig_name = ''20191004220819-create-account-tag'',
     mig_up = [CreateTable ''account_tags''
        [(''id'', [(''allowNull'', ''false''), (''autoIncrement'', ''true''), (''primaryKey'', ''true''), (''type'', ''INTEGER'')]),
         (''account_id'', [(''type'', ''INTEGER'')]),
         (''tag'', [(''type'', ''STRING'')]),
         (''type'', [(''type'', ''STRING'')]),
         (''createdAt'', [(''allowNull'', ''false''), (''type'', ''DATE'')]),
         (''updatedAt'', [(''allowNull'', ''false''), (''type'', ''DATE'')])] []],
     mig_down = [DropTable ''account_tags'']\<rparr>"

definition mig_20191006153336 :: migration where
  "mig_20191006153336 = \<lparr>mig_name = ''20191006153336-create-general-bytes-sales'',
     mig_up = [CreateTable ''generalbytes_sales''
        [(''id'', [(''allowNull'', ''false''), (''autoIncrement'', ''true''), (''primaryKey'', ''true''), (''type'', ''INTEGER'')]),
         (''terminal_sn'', [(''type'', ''STRING'')]),
         (''server_time'', [(''type'', ''DATE'')]),
         (''terminal_time'', [(''type'', ''DATE'')]),
         (''local_transaction_id'', [(''type'', ''STRING'')]),
         (''remote_transaction_id'', [(''type'', ''STRING'')]),
         (''type'', [(''type'', ''STRING'')]),
         (''cash_amount'', [(''type'', ''INTEGER'')]),
         (''cash_currency'', [(''type'', ''STRING'')]),
         (''crypto_amount'', [(''type'', ''DECIMAL'')]),
         (''crypto_currency'', [(''type'', ''STRING'')]),
         (''used_discount'', [(''type'', ''STRING'')]),
         (''actual_discount'', [(''type'', ''DECIMAL'')]),
         (''destination_address'', [(''type'', ''STRING'')]),
         (''related_remote_transaction_id'', [(''type'', ''STRING'')]),
         (''identity'', [(''type'', ''STRING'')]),
         (''status'', [(''type'', ''STRING'')]),
         (''phone_number'', [(''type'', ''STRING'')]),
         (''transaction_detail'', [(''type'', ''STRING'')]),
         (''transaction_note'', [(''type'', ''STRING'')]),
         (''rate_including_fee'', [(''type'', ''DECIMAL'')]),
         (''rate_without_fee'', [(''type'', ''DECIMAL'')]),
         (''fixed_transaction_fee'', [(''type'', ''DECIMAL'')]),
         (''expected_profit_percent_setting'', [(''type'', ''DECIMAL'')]),
         (''expected_profit_value'', [(''type'', ''DECIMAL'')]),
         (''crypto_setting_name'', [(''type'', ''STRING'')]),
         (''identity_first_name'', [(''type'', ''STRING'')]),
         (''identity_id_card_number'', [(''type'', ''STRING'')]),
         (''identity_phone_number'', [(''type'', ''STRING'')]),
         (''createdAt'', [(''allowNull'', ''false''), (''type'', ''DATE'')]),
         (''updatedAt'', [(''allowNull'', ''false''), (''type'', ''DATE'')])] []],
     mig_down = [DropTable ''generalbytes_sales'']\<rparr>"

definition mig_20191014204031 :: migration where
  "mig_20191014204031 = \<lparr>mig_name = ''20191014204031-add-precision-to-coin'',
     mig_up = [AddColumn ''coins'' ''precision'' [(''type'', ''INTEGER'')]],
     mig_down = [RemoveColumn ''coins'' ''precision'']\<rparr>"

definition mig_20191024191706 :: migration where
  "mig_20191024191706 = \<lparr>mig_name = ''20191024191706-add-source-to-prices'',
     mig_up = [AddColumn ''prices'' ''source'' [(''type'', ''STRING'')]],
     mig_down = [RemoveColumn ''prices'' ''source'']\<rparr>"

definition mig_20191028064843 :: migration where
  "mig_20191028064843 = \<lparr>mig_name = ''20191028064843-create-city'',
     mig_up = [CreateTable ''cities''
        [(''id'', [(''allowNull'', ''false''), (''autoIncrement'', ''true''), (''primaryKey'', ''true''), (''type'', ''INTEGER'')]),
         (''name'', [(''type'', ''STRING'')]),
         (''county'', [(''type'', ''STRING'')]),
         (''population'', [(''type'', ''INTEGER'')]),
         (''createdAt'', [(''allowNull'', ''false''), (''type'', ''DATE'')]),
         (''updatedAt'', [(''allowNull'', ''false''), (''type'', ''DATE'')])] []],
     mig_down = [DropTable ''cities'']\<rparr>"

definition mig_20191028071305 :: migration where
  "mig_20191028071305 = \<lparr>mig_name = ''20191028071305-create-yelp-business'',
     mig_up = [CreateTable ''yelp_businesses''
        [(''id'', [(''allowNull'', ''false''), (''autoIncrement'', ''true''), (''primaryKey'', ''true''), (''type'', ''INTEGER'')]),
         (''city_id'', [(''type'', ''INTEGER'')]),
         (''json_string'', [(''type'', ''TEXT'')]),
         (''yelp_id'', [(''type'', ''STRING'')]),
         (''alias'', [(''type'', ''STRING'')]),
         (''name'', [(''type'', ''STRING'')]),
         (''image_url'', [(''type'', ''STRING'')]),
         (''url'', [(''type'', ''STRING'')]),
         (''latitude'', [(''type'', ''FLOAT'')]),
         (''longitude'', [(''type'', ''FLOAT'')]),
         (''phone'', [(''type'', ''STRING'')]),
         (''createdAt'', [(''allowNull'', ''false''), (''type'', ''DATE'')]),
         (''updatedAt'', [(''allowNull'', ''false''), (''type'', ''DATE'')])] []],
     mig_down = [DropTable ''yelp_businesses'']\<rparr>"

definition mig_20191029184518 :: migration where
  "mig_20191029184518 = \<lparr>mig_name = ''20191029184518-create-payment-option'',
     mig_up = [CreateTable ''payment_options''
        [(''id'', [(''allowNull'', ''false''), (''autoIncrement'', ''true''), (''primaryKey'', ''true''), (''type'', ''INTEGER'')]),
         (''invoice_uid'', [(''type'', ''STRING'')]),
         (''currency'', [(''type'', ''STRING'')]),
         (''address'', [(''type'', ''STRING'')]),
         (''amount'', [(''type'', ''DECIMAL'')]),
         (''createdAt'', [(''allowNull'', ''false''), (''type'', ''DATE'')]),
         (''updatedAt'', [(''allowNull'', ''false''), (''type'', ''DATE'')])] []],
     mig_down = [DropTable ''payment_options'']\<rparr>"

definition mig_20191031135421 :: migration where
  "mig_20191031135421 = \<lparr>mig_name = ''20191031135421-add-uri-to-payment-options'',
     mig_up = [AddColumn ''payment_options'' ''uri'' [(''type'', ''STRING'')]],
     mig_down = [RemoveColumn ''payment_options'' ''uri'']\<rparr>"

definition mig_20191103183303 :: migration where
  "mig_20191103183303 = \<lparr>mig_name = ''20191103183303-create-firebase-token'',
     mig_up = [CreateTable ''firebase_tokens''
        [(''id'', [(''allowNull'', ''false''), (''autoIncrement'', ''true''), (''primaryKey'', ''true''), (''type'', ''INTEGER'')]),
         (''token'', [(''type'', ''STRING''), (''allowNull'', ''false'')]),
         (''account_id'', [(''type'', ''INTEGER''), (''allowNull'', ''false'')]),
         (''createdAt'', [(''allowNull'', ''false''), (''type'', ''DATE'')]),
         (''updatedAt'', [(''allowNull'', ''false''), (''type'', ''DATE'')])] []],
     mig_down = [DropTable ''firebase_tokens'']\<rparr>"

definition mig_20191107040732 :: migration where
  "mig_20191107040732 = \<lparr>mig_name = ''20191107040732-create-shareholder'',
     mig_up = [CreateTable ''shareholders''
        [(''id'', [(''allowNull'', ''false''), (''autoIncrement'', ''true''), (''primaryKey'', ''true''), (''type'', ''INTEGER'')]),
         (''account_id'', [(''type'', ''INTEGER''), (''allowNull'', ''false'')]),
         (''name'', [(''type'', ''STRING''), (''allowNull'', ''false'')]),
         (''rvn_address'', [(''type'', ''STRING''), (''allowNull'', ''true'')]),
         (''createdAt'', [(''allowNull'', ''false''), (''type'', ''DATE'')]),
         (''updatedAt'', [(''allowNull'', ''false''), (''type'', ''DATE'')])] []],
     mig_down = [DropTable ''shareholders'']\<rparr>"

definition mig_20191112193835 :: migration where
  "mig_20191112193835 = \<lparr>mig_name = ''20191112193835-add-shares-and-options-to-shareholders'',
     mig_up = [AddColumn ''shareholders'' ''shares'' [(''type'', ''INTEGER''), (''defaultValue'', ''0'')],
      AddColumn ''shareholders'' ''options'' [(''type'', ''INTEGER''), (''defaultValue'', ''0'')]],
     mig_down = [RemoveColumn ''shareholders'' ''shares'',
      RemoveColumn ''shareholders'' ''options'']\<rparr>"

definition mig_20191112194630 :: migration where
  "mig_20191112194630 = \<lparr>mig_name = ''20191112194630-create-shareholder-document'',
     mig_up = [CreateTable ''shareholder_documents''
        [(''id'', [(''allowNull'', ''false''), (''autoIncrement'', ''true''), (''primaryKey'', ''true''), (''type'', ''INTEGER'')]),
         (''shareholder_id'', [(''type'', ''INTEGER''), (''allowNull'', ''false'')]),
         (''url'', [(''type'', ''STRING''), (''allowNull'', ''false'')]),
         (''name'', [(''type'', ''STRING''), (''allowNull'', ''false'')]),
         (''createdAt'', [(''allowNull'', ''false''), (''type'', ''DATE'')]),
         (''updatedAt'', [(''allowNull'', ''false''), (''type'', ''DATE'')])] []],
     mig_down = [DropTable ''shareholder_documents'']\<rparr>"

definition mig_20191113102557 :: migration where
  "mig_20191113102557 = \<lparr>mig_name = ''20191113102557-create-payroll-batch'',
     mig_up = [CreateTable ''PayrollBatches''
        [(''id'', [(''allowNull'', ''false''), (''autoIncrement'', ''true''), (''primaryKey'', ''true''), (''type'', ''INTEGER'')]),
         (''payroll_date'', [(''type'', ''DATE'')]),
         (''createdAt'', [(''allowNull'', ''false''), (''type'', ''DATE'')]),
         (''updatedAt'', [(''allowNull'', ''false''), (''type'', ''DATE'')])] []],
     mig_down = [DropTable ''PayrollBatches'']\<rparr>"

definition mig_20191113103100 :: migration where
  "mig_20191113103100 = \<lparr>mig_name = ''20191113103100-create-payroll-account'',
     mig_up = [],
     mig_down = []\<rparr>"

definition mig_20191202170308 :: migration where
  "mig_20191202170308 = \<lparr>mig_name = ''20191202170308-create-transaction'',
     mig_up = [CreateTable ''vending_transactions''
        [(''id'', [(''allowNull'', ''false''), (''autoIncrement'', ''true''), (''primaryKey'', ''true''), (''type'', ''INTEGER'')]),
         (''account_id'', [(''type'', ''INTEGER'')]),
         (''terminal_id'', [(''type'', ''STRING'')]),
         (''server_time'', [(''type'', ''DATE'')]),
         (''terminal_time'', [(''type'', ''DATE'')]),
         (''localtid'', [(''type'', ''STRING'')]),
         (''remotetid'', [(''type'', ''STRING'')]),
         (''type'', [(''type'', ''STRING'')]),
         (''cash_amount'', [(''type'', ''DECIMAL'')]),
         (''cash_currency'', [(''type'', ''STRING'')]),
         (''crypto_currency'', [(''type'', ''STRING'')]),
         (''crypto_amount'', [(''type'', ''DECIMAL'')]),
         (''crypto_address'', [(''type'', ''STRING'')]),
         (''status'', [(''type'', ''STRING'')]),
         (''hash'', [(''type'', ''STRING'')]),
         (''exchange_price'', [(''type'', ''DECIMAL(10,2)'')]),
         (''spot_price'', [(''type'', ''DECIMAL(10,2)'')]),
         (''fixed_transaction_fee'', [(''type'', ''DECIMAL(10,2)'')]),
         (''expected_profit_setting'', [(''type'', ''DECIMAL(10,2)'')]),
         (''expected_profit_value'', [(''type'', ''DECIMAL(10,2)'')]),
         (''name_of_crypto_setting_used'', [(''type'', ''STRING'')]),
         (''createdAt'', [(''allowNull'', ''false''), (''type'', ''DATE'')]),
         (''updatedAt'', [(''allowNull'', ''false''), (''type'', ''DATE'')])] []],
     mig_down = [DropTable ''vending_transactions'']\<rparr>"

definition mig_20191217213052 :: migration where
  "mig_20191217213052 = \<lparr>mig_name = ''20191217213052-create-grab-and-go-item'',
     mig_up = [CreateTable ''grab_and_go_items''
        [(''id'', [(''allowNull'', ''false''), (''autoIncrement'', ''true''), (''primaryKey'', ''true''), (''type'', ''INTEGER'')]),
         (''name'', [(''type'', ''STRING'')]),
         (''stub'', [(''type'', ''STRING'')]),
         (''price'', [(''type'', ''DECIMAL'')]),
         (''uid'', [(''type'', ''STRING'')]),
         (''account_id'', [(''type'', ''INTEGER'')]),
         (''payment_request_url'', [(''type'', ''STRING'')]),
         (''createdAt'', [(''allowNull'', ''false''), (''type'', ''DATE'')]),
         (''updatedAt'', [(''allowNull'', ''false''), (''type'', ''DATE'')])] [(''uniqueKeys'', ''{grab_and_go_items_unique_stub:{fields:[`account_id`,`stub`]},grab_and_go_items_unique_name:{fields:[`account_id`,`name`]}}'')]],
     mig_down = [DropTable ''grab_and_go_items'']\<rparr>"

definition mig_20191222195935 :: migration where
  "mig_20191222195935 = \<lparr>mig_name = ''20191222195935-create-grab-and-go-invoice'',
     mig_up = [CreateTable ''grab_and_go_invoices''
        [(''id'', [(''allowNull'', ''false''), (''autoIncrement'', ''true''), (''primaryKey'', ''true''), (''type'', ''INTEGER'')]),
         (''item_id'', [(''type'', ''INTEGER'')]),
         (''invoice_uid'', [(''type'', ''STRING'')]),
         (''createdAt'', [(''allowNull'', ''false''), (''type'', ''DATE'')]),
         (''updatedAt'', [(''allowNull'', ''false''), (''type'', ''DATE'')])] []],
     mig_down = [DropTable ''grab_and_go_invoices'']\<rparr>"

definition mig_20191223230606 :: migration where
  "mig_20191223230606 = \<lparr>mig_name = ''20191223230606-create-square-oauth-credentials'',
     mig_up = [CreateTable ''square_oauth_credentials''
        [(''id'', [(''allowNull'', ''false''), (''autoIncrement'', ''true''), (''primaryKey'', ''true''), (''type'', ''INTEGER'')]),
         (''account_id'', [(''type'', ''INTEGER'')]),
         (''code'', [(''type'', ''STRING'')]),
         (''access_token'', [(''type'', ''STRING'')]),
         (''refresh_token'', [(''type'', ''STRING'')]),
         (''createdAt'', [(''allowNull'', ''false''), (''type'', ''DATE'')]),
         (''updatedAt'', [(''allowNull'', ''false''), (''type'', ''DATE'')])] []],
     mig_down = [DropTable ''square_oauth_credentials'']\<rparr>"

definition migrations_b :: "migration list" where
  "migrations_b = [
     mig_20190103103749, mig_20190106212749, mig_20190107145821, mig_20190109163900,
     mig_20190109194153, mig_20190111152525, mig_20190111152830, mig_20190118021053,
     mig_20190118021253, mig_20190119230640, mig_20190119230859, mig_20190306002706,
     mig_20190309001226, mig_20190310144046, mig_20190311145435, mig_20190322030230,
     mig_20190328181706, mig_20190415172512, mig_20190419150433, mig_20190423201906,
     mig_20190423202111, mig_20190428165922, mig_20190501025335, mig_20190515135958,
     mig_20190814151229, mig_20190815180807, mig_20190907235155, mig_20190908010142,
     mig_20191004220819, mig_20191006153336, mig_20191014204031, mig_20191024191706,
     mig_20191028064843, mig_20191028071305, mig_20191029184518, mig_20191031135421,
     mig_20191103183303, mig_20191107040732, mig_20191112193835, mig_20191112194630,
     mig_20191113102557, mig_20191113103100, mig_20191202170308, mig_20191217213052,
     mig_20191222195935, mig_20191223230606]"

lemmas migrations_b_defs = migrations_b_def
  mig_20190103103749_def mig_20190106212749_def mig_20190107145821_def mig_20190109163900_def
  mig_20190109194153_def mig_20190111152525_def mig_20190111152830_def mig_20190118021053_def
  mig_20190118021253_def mig_20190119230640_def mig_20190119230859_def mig_20190306002706_def
  mig_20190309001226_def mig_20190310144046_def mig_20190311145435_def mig_20190322030230_def
  mig_20190328181706_def mig_20190415172512_def mig_20190419150433_def mig_20190423201906_def
  mig_20190423202111_def mig_20190428165922_def mig_20190501025335_def mig_20190515135958_def
  mig_20190814151229_def mig_20190815180807_def mig_20190907235155_def mig_20190908010142_def
  mig_20191004220819_def mig_20191006153336_def mig_20191014204031_def mig_20191024191706_def
  mig_20191028064843_def mig_20191028071305_def mig_20191029184518_def mig_20191031135421_def
  mig_20191103183303_def mig_20191107040732_def mig_20191112193835_def mig_20191112194630_def
  mig_20191113102557_def mig_20191113103100_def mig_20191202170308_def mig_20191217213052_def
  mig_20191222195935_def mig_20191223230606_def

end
