(* ===== verification/MigrationSetC.thy ===== *)
theory MigrationSetC
  imports Migrations
begin

text \<open>
  The migrations of 2020, one definition per file of \<open>migrations/\<close>, in the order of their names.
  The loop of \<open>20200122000557\<close> is written as a map over its columns.
\<close>

definition mig_20200101003747 :: migration where
  "mig_20200101003747 = \<lparr>mig_name = ''20200101003747-add-square-catalog-object-id-to-grab-and-go-item'',
     mig_up = [AddColumn ''grab_and_go_items'' ''square_catalog_object_id'' [(''type'', ''STRING'')]],
     mig_down = [RemoveColumn ''grab_and_go_items'' ''square_catalog_object_id'']\<rparr>"

definition mig_20200102190430 :: migration where
  "mig_20200102190430 = \<lparr>mig_name = ''20200102190430-add_square_fields_for_grab_and_go_items'',
     mig_up = [AddColumn ''grab_and_go_items'' ''square_variation_id'' [(''type'', ''STRING'')],
      AddColumn ''grab_and_go_invoices'' ''square_order_id'' [(''type'', ''STRING'')],
      AddColumn ''square_oauth_credentials'' ''square_merchant_id'' [(''type'', ''STRING'')]],
     mig_down = [RemoveColumn ''grab_and_go_items'' ''square_variation_id'',
      RemoveColumn ''grab_and_go_invoices'' ''square_order_id'',
      RemoveColumn ''square_oauth_credentials'' ''square_merchant_id'']\<rparr>"

definition mig_20200107165458 :: migration where
  "mig_20200107165458 = \<lparr>mig_name = ''20200107165458-create-vending-transaction-output'',
     mig_up = [CreateTable ''vending_transaction_outputs''
        [(''id'', [(''allowNull'', ''false''), (''autoIncrement'', ''true''), (''primaryKey'', ''true''), (''type'', ''INTEGER'')]),
         (''vending_transaction_id'', [(''type'', ''INTEGER'')]),
         (''strategy_id'', [(''type'', ''INTEGER'')]),
         (''strategy_index'', [(''type'', ''INTEGER'')]),
         (''isKioskCustomer'', [(''type'', ''BOOLEAN'')]),
         (''account_id'', [(''type'', ''INTEGER'')]),
         (''currency'', [(''type'', ''STRING'')]),
         (''hash'', [(''type'', ''STRING'')]),
         (''output_index'', [(''type'', ''INTEGER'')]),
         (''amount'', [(''type'', ''DECIMAL'')]),
         (''createdAt'', [(''allowNull'', ''false''), (''type'', ''DATE'')]),
         (''updatedAt'', [(''allowNull'', ''false''), (''type'', ''DATE'')])] []],
     mig_down = [DropTable ''vending_transaction_outputs'']\<rparr>"

definition mig_20200108164831 :: migration where
  "mig_20200108164831 = \<lparr>mig_name = ''20200108164831-create-vending-output-strategy'',
     mig_up = [CreateTable ''vending_output_strategies''
        [(''id'', [(''allowNull'', ''false''), (''autoIncrement'', ''true''), (''primaryKey'', ''true''), (''type'', ''INTEGER'')]),
         (''name'', [(''type'', ''STRING'')]),
         (''strategy'', [(''type'', ''JSON'')]),
         (''createdAt'', [(''allowNull'', ''false''), (''type'', ''DATE'')]),
         (''updatedAt'', [(''allowNull'', ''false''), (''type'', ''DATE'')])] []],
     mig_down = [DropTable ''vending_output_strategies'']\<rparr>"

definition mig_20200108171044 :: migration where
  "mig_20200108171044 = \<lparr>mig_name = ''20200108171044-add-additional-output-strategy-to-vending-transaction'',
     mig_up = [AddColumn ''vending_transactions'' ''additional_output_strategy_id'' [(''type'', ''INTEGER'')],
      AddColumn ''vending_transactions'' ''additional_output_usd_paid'' [(''type'', ''DECIMAL'')],
      AddColumn ''vending_transactions'' ''additional_output_bch_paid'' [(''type'', ''DECIMAL'')],
      AddColumn ''vending_transactions'' ''additional_output_hash'' [(''type'', ''STRING'')]],
     mig_down = [RemoveColumn ''vending_transactions'' ''additional_output_hash'',
      RemoveColumn ''vending_transactions'' ''additional_output_strategy_id'',
      RemoveColumn ''vending_transactions'' ''additional_output_usd_paid'',
      RemoveColumn ''vending_transactions'' ''additional_output_bch_paid'']\<rparr>"

definition mig_20200109200352 :: migration where
  "mig_20200109200352 = \<lparr>mig_name = ''20200109200352-add-address-to-vending-output-transaction'',
     mig_up = [AddColumn ''vending_transaction_outputs'' ''address'' [(''type'', ''STRING'')]],
     mig_down = [RemoveColumn ''vending_transaction_outputs'' ''address'']\<rparr>"

definition mig_20200110033652 :: migration where
  "mig_20200110033652 = \<lparr>mig_name = ''20200110033652-add-usd-amount-to-transaction-output'',
     mig_up = [AddColumn ''vending_transaction_outputs'' ''usd_amount'' [(''type'', ''DECIMAL'')]],
     mig_down = [RemoveColumn ''vending_transaction_outputs'' ''usd_amount'']\<rparr>"

definition mig_20200122000557 :: migration where
  "mig_20200122000557 = \<lparr>mig_name = ''20200122000557-remove-payout-addresses'',
     mig_up = map (RemoveColumn ''accounts'')
      [''dash_payout_address'', ''bitcoin_payout_address'', ''bitcoin_cash_address'', ''litecoin_address'', ''litecoin_enabled'', ''bitcoin_cash_enabled'', ''dogecoin_address'', ''dogecoin_enabled'', ''ethereum_address'', ''ripple_address'', ''zcash_t_address'', ''lightning_uri''],
     mig_down = []\<rparr>"

definition mig_20200205031957 :: migration where
  "mig_20200205031957 = \<lparr>mig_name = ''20200205031957-create-cash-deposit'',
     mig_up = [CreateTable ''cash_deposits''
        [(''id'', [(''allowNull'', ''false''), (''autoIncrement'', ''true''), (''primaryKey'', ''true''), (''type'', ''INTEGER'')]),
         (''amount'', [(''type'', ''INTEGER''), (''allowNull'', ''false'')]),
         (''createdAt'', [(''allowNull'', ''false''), (''type'', ''DATE'')]),
         (''updatedAt'', [(''allowNull'', ''false''), (''type'', ''DATE'')])] []],
     mig_down = [DropTable ''cash_deposits'']\<rparr>"

definition mig_20200205165848 :: migration where
  "mig_20200205165848 = \<lparr>mig_name = ''20200205165848-add-additional-output-error'',
     mig_up = [AddColumn ''vending_transactions'' ''additional_output_error'' [(''type'', ''STRING'')]],
     mig_down = [RemoveColumn ''vending_transactions'' ''additional_output_error'']\<rparr>"

definition mig_20200215165504 :: migration where
  "mig_20200215165504 = \<lparr>mig_name = ''20200215165504-add-replace-by-fee-to-invoices'',
     mig_up = [AddColumn ''invoices'' ''replace_by_fee'' [(''type'', ''BOOLEAN''), (''defaultValue'', ''false'')]],
     mig_down = [RemoveColumn ''invoices'' ''replace_by_fee'']\<rparr>"

definition mig_20200226174727 :: migration where
  "mig_20200226174727 = \<lparr>mig_name = ''20200226174727-add-tag-to-cities'',
     mig_up = [AddColumn ''cities'' ''tag'' [(''type'', ''STRING'')]],
     mig_down = [RemoveColumn ''cities'' ''tag'']\<rparr>"

definition mig_20200302040708 :: migration where
  "mig_20200302040708 = \<lparr>mig_name = ''20200302040708-add-state-country-latitude-longitude-stub-to-cities'',
     mig_up = [AddColumn ''cities'' ''country'' [(''type'', ''STRING'')],
      AddColumn ''cities'' ''stub'' [(''type'', ''STRING'')],
      AddColumn ''cities'' ''latitude'' [(''type'', ''DECIMAL'')],
      AddColumn ''cities'' ''longitude'' [(''type'', ''DECIMAL'')]],
     mig_down = [RemoveColumn ''cities'' ''country'']\<rparr>"

definition mig_20200309171559 :: migration where
  "mig_20200309171559 = \<lparr>mig_name = ''20200309171559-create-email'',
     mig_up = [CreateTable ''Emails''
        [(''id'', [(''allowNull'', ''false''), (''autoIncrement'', ''true''), (''primaryKey'', ''true''), (''type'', ''INTEGER'')]),
         (''name'', [(''type'', ''STRING'')]),
         (''createdAt'', [(''allowNull'', ''false''), (''type'', ''DATE'')]),
         (''updatedAt'', [(''allowNull'', ''false''), (''type'', ''DATE'')])] []],
     mig_down = [DropTable ''Emails'']\<rparr>"

definition mig_20200309171834 :: migration where
  "mig_20200309171834 = \<lparr>mig_name = ''20200309171834-create-email-delivery'',
     mig_up = [CreateTable ''EmailDeliveries''
        [(''id'', [(''allowNull'', ''false''), (''autoIncrement'', ''true''), (''primaryKey'', ''true''), (''type'', ''INTEGER'')]),
         (''email_id'', [(''type'', ''INTEGER'')]),
         (''account_id'', [(''type'', ''INTEGER'')]),
         (''error'', [(''type'', ''STRING'')]),
         (''uid'', [(''type'', ''STRING'')]),
         (''sent_at'', [(''type'', ''DATE'')]),
         (''createdAt'', [(''allowNull'', ''false''), (''type'', ''DATE'')]),
         (''updatedAt'', [(''allowNull'', ''false''), (''type'', ''DATE'')])] []],
     mig_down = [DropTable ''EmailDeliveries'']\<rparr>"

definition mig_20200309171910 :: migration where
  "mig_20200309171910 = \<lparr>mig_name = ''20200309171910-add-valid-email-to-accounts'',
     mig_up = [AddColumn ''accounts'' ''email_valid'' [(''type'', ''STRING''), (''defaultValue'', ''true'')]],
     mig_down = [RemoveColumn ''accounts'' ''email_valid'']\<rparr>"

definition mig_20200316194336 :: migration where
  "mig_20200316194336 = \<lparr>mig_name = ''20200316194336-create-webhook'',
     mig_up = [CreateTable ''Webhooks''
        [(''id'', [(''allowNull'', ''false''), (''autoIncrement'', ''true''), (''primaryKey'', ''true''), (''type'', ''INTEGER'')]),
         (''type'', [(''type'', ''STRING'')]),
         (''url'', [(''type'', ''STRING'')]),
         (''started_at'', [(''type'', ''DATE'')]),
         (''ended_at'', [(''type'', ''DATE'')]),
         (''response_code'', [(''type'', ''INTEGER'')]),
         (''response_body'', [(''type'', ''TEXT'')]),
         (''error'', [(''type'', ''TEXT'')]),
         (''invoice_uid'', [(''type'', ''STRING'')]),
         (''createdAt'', [(''allowNull'', ''false''), (''type'', ''DATE'')]),
         (''updatedAt'', [(''allowNull'', ''false''), (''type'', ''DATE'')])] []],
     mig_down = [DropTable ''Webhooks'']\<rparr>"

definition mig_20200327174040 :: migration where
  "mig_20200327174040 = \<lparr>mig_name = ''20200327174040-create-invoice-note'',
     mig_up = [CreateTable ''invoice_notes''
        [(''id'', [(''allowNull'', ''false''), (''autoIncrement'', ''true''), (''primaryKey'', ''true''), (''type'', ''INTEGER'')]),
         (''invoice_uid'', [(''type'', ''STRING''), (''allowNull'', ''false'')]),
         (''content'', [(''type'', ''TEXT''), (''allowNull'', ''false'')]),
         (''created_at'', [(''allowNull'', ''false''), (''type'', ''DATE'')]),
         (''updated_at'', [(''allowNull'', ''false''), (''type'', ''DATE'')])] []],
     mig_down = [DropTable ''invoice_notes'']\<rparr>"

definition mig_20200401204214 :: migration where
  "mig_20200401204214 = \<lparr>mig_name = ''20200401204214-add-settlement-id-to-invoice'',
     mig_up = [AddColumn ''invoices'' ''settlement_id'' [(''type'', ''INTEGER'')]],
     mig_down = [RemoveColumn ''invoices'' ''settlement_id'']\<rparr>"

definition mig_20200401204738 :: migration where
  "mig_20200401204738 = \<lparr>mig_name = ''20200401204738-add-url-to-settlement'',
     mig_up = [AddColumn ''settlements'' ''url'' [(''type'', ''STRING'')]],
     mig_down = [RemoveColumn ''settlements'' ''url'']\<rparr>"

definition mig_20200403235537 :: migration where
  "mig_20200403235537 = \<lparr>mig_name = ''20200403235537-create-blockchain-receipt'',
     mig_up = [CreateTable ''blockchain_receipts''
        [(''id'', [(''allowNull'', ''false''), (''autoIncrement'', ''true''), (''primaryKey'', ''true''), (''type'', ''INTEGER'')]),
         (''invoice_uid'', [(''type'', ''STRING'')]),
         (''txid'', [(''type'', ''STRING'')]),
         (''hex'', [(''type'', ''TEXT'')]),
         (''error'', [(''type'', ''STRING'')]),
         (''published_at'', [(''type'', ''DATE'')]),
         (''createdAt'', [(''allowNull'', ''false''), (''type'', ''DATE'')]),
         (''updatedAt'', [(''allowNull'', ''false''), (''type'', ''DATE'')])] []],
     mig_down = [DropTable ''blockchain_receipts'']\<rparr>"

definition mig_20200413195753 :: migration where
  "mig_20200413195753 = \<lparr>mig_name = ''20200413195753-add-settlement-strategy-to-account'',
     mig_up = [AddColumn ''accounts'' ''settlement_strategy'' [(''type'', ''STRING''), (''defaultValue'', ''null'')]],
     mig_down = [RemoveColumn ''accounts'' ''settlement_strategy'']\<rparr>"

definition mig_20200418041423 :: migration where
  "mig_20200418041423 = \<lparr>mig_name = ''20200418041423-add-image-url-to-grab-and-go-item'',
     mig_up = [AddColumn ''grab_and_go_items'' ''image_url'' [(''type'', ''STRING''), (''allowNull'', ''true'')]],
     mig_down = [RemoveColumn ''grab_and_go_items'' ''image_url'']\<rparr>"

definition mig_20200426181212 :: migration where
  "mig_20200426181212 = \<lparr>mig_name = ''20200426181212-create-oauth-app'',
     mig_up = [CreateTable ''OauthApps''
        [(''id'', [(''allowNull'', ''false''), (''autoIncrement'', ''true''), (''primaryKey'', ''true''), (''type'', ''INTEGER'')]),
         (''client_identifier'', [(''type'', ''STRING'')]),
         (''app_identifier'', [(''type'', ''STRING'')]),
         (''redirect_url'', [(''type'', ''STRING'')]),
         (''createdAt'', [(''allowNull'', ''false''), (''type'', ''DATE'')]),
         (''updatedAt'', [(''allowNull'', ''false''), (''type'', ''DATE'')])] []],
     mig_down = [DropTable ''OauthApps'']\<rparr>"

definition mig_20200430152904 :: migration where
  "mig_20200430152904 = \<lparr>mig_name = ''20200430152904-add-google-place-id-to-account'',
     mig_up = [AddColumn ''accounts'' ''google_place_id'' [(''type'', ''STRING'')]],
     mig_down = [RemoveColumn ''accounts'' ''google_place_id'']\<rparr>"

definition mig_20200501070353 :: migration where
  "mig_20200501070353 = \<lparr>mig_name = ''20200501070353-create-energy-city-account'',
     mig_up = [CreateTable ''EnergyCityAccounts''
        [(''id'', [(''allowNull'', ''false''), (''autoIncrement'', ''true''), (''primaryKey'', ''true''), (''type'', ''INTEGER'')]),
         (''moneybutton_id'', [(''type'', ''INTEGER'')]),
         (''createdAt'', [(''allowNull'', ''false''), (''type'', ''DATE'')]),
         (''updatedAt'', [(''allowNull'', ''false''), (''type'', ''DATE'')])] []],
     mig_down = [DropTable ''EnergyCityAccounts'']\<rparr>"

definition mig_20200501085927 :: migration where
  "mig_20200501085927 = \<lparr>mig_name = ''20200501085927-add-energycity-account-id-to-invoices'',
     mig_up = [AddColumn ''invoices'' ''energycity_account_id'' [(''type'', ''INTEGER'')]],
     mig_down = [RemoveColumn ''invoices'' ''energycity_account_id'']\<rparr>"

definition mig_20200501112324 :: migration where
  "mig_20200501112324 = \<lparr>mig_name = ''20200501112324-create-true-review-token'',
     mig_up = [CreateTable ''TrueReviewsTokens''
        [(''id'', [(''allowNull'', ''false''), (''autoIncrement'', ''true''), (''primaryKey'', ''true''), (''type'', ''INTEGER'')]),
         (''invoice_uid'', [(''type'', ''STRING'')]),
         (''origin'', [(''type'', ''STRING'')]),
         (''timestamp'', [(''type'', ''STRING'')]),
         (''redeemURL'', [(''type'', ''STRING'')]),
         (''code'', [(''type'', ''STRING'')]),
         (''placeID'', [(''type'', ''STRING'')]),
         (''createdAt'', [(''allowNull'', ''false''), (''type'', ''DATE'')]),
         (''updatedAt'', [(''allowNull'', ''false''), (''type'', ''DATE'')])] []],
     mig_down = [DropTable ''TrueReviewsTokens'']\<rparr>"

definition mig_20200503223123 :: migration where
  "mig_20200503223123 = \<lparr>mig_name = ''20200503223123-add-paymail-to-addresses'',
     mig_up = [AddColumn ''addresses'' ''paymail'' [(''type'', ''STRING'')]],
     mig_down = [RemoveColumn ''addresses'' ''paymail'']\<rparr>"

definition mig_20200511202820 :: migration where
  "mig_20200511202820 = \<lparr>mig_name = ''20200511202820-create-kraken-trade'',
     mig_up = [CreateTable ''KrakenTrades''
        [(''id'', [(''allowNull'', ''false''), (''autoIncrement'', ''true''), (''primaryKey'', ''true''), (''type'', ''INTEGER'')]),
         (''ordertxid'', [(''type'', ''STRING'')]),
         (''postxid'', [(''type'', ''STRING'')]),
         (''pair'', [(''type'', ''STRING'')]),
         (''time'', [(''type'', ''DECIMAL'')]),
         (''type'', [(''type'', ''STRING'')]),
         (''ordertype'', [(''type'', ''STRING'')]),
         (''price'', [(''type'', ''DECIMAL'')]),
         (''cost'', [(''type'', ''DECIMAL'')]),
         (''fee'', [(''type'', ''DECIMAL'')]),
         (''vol'', [(''type'', ''DECIMAL'')]),
         (''margin'', [(''type'', ''DECIMAL'')]),
         (''misc'', [(''type'', ''STRING'')]),
         (''createdAt'', [(''allowNull'', ''false''), (''type'', ''DATE'')]),
         (''updatedAt'', [(''allowNull'', ''false''), (''type'', ''DATE'')])] []],
     mig_down = [DropTable ''KrakenTrades'']\<rparr>"

definition mig_20200511231247 :: migration where
  "mig_20200511231247 = \<lparr>mig_name = ''20200511231247-create-kraken-invoice-sell-order'',
     mig_up = [CreateTable ''KrakenInvoiceSellOrders''
        [(''id'', [(''allowNull'', ''false''), (''autoIncrement'', ''true''), (''primaryKey'', ''true''), (''type'', ''INTEGER'')]),
         (''invoice_uid'', [(''type'', ''STRING'')]),
         (''amount_paid'', [(''type'', ''DECIMAL'')]),
         (''currency'', [(''type'', ''STRING'')]),
         (''order_id'', [(''type'', ''STRING'')]),
         (''order_volume'', [(''type'', ''DECIMAL'')]),
         (''order_price'', [(''type'', ''DECIMAL'')]),
         (''createdAt'', [(''allowNull'', ''false''), (''type'', ''DATE'')]),
         (''updatedAt'', [(''allowNull'', ''false''), (''type'', ''DATE'')])] []],
     mig_down = [DropTable ''KrakenInvoiceSellOrders'']\<rparr>"

definition mig_20200512144412 :: migration where
  "mig_20200512144412 = \<lparr>mig_name = ''20200512144412-add-price-scalar-to-addresses'',
     mig_up = [AddColumn ''addresses'' ''price_scalar'' [(''type'', ''DECIMAL''), (''defaultValue'', ''1.0''), (''allowNull'', ''true'')],
      AddColumn ''addresses'' ''note'' [(''type'', ''STRING''), (''defaultValue'', ''null''), (''allowNull'', ''true'')]],
     mig_down = [RemoveColumn ''addresses'' ''price_scalar'',
      RemoveColumn ''addresses'' ''note'']\<rparr>"

definition mig_20200523223250 :: migration where
  "mig_20200523223250 = \<lparr>mig_name = ''20200523223250-create-account-phone-sms'',
     mig_up = [CreateTable ''AccountPhoneSms''
        [(''id'', [(''allowNull'', ''false''), (''autoIncrement'', ''true''), (''primaryKey'', ''true''), (''type'', ''INTEGER'')]),
         (''account_id'', [(''type'', ''INTEGER''), (''allowNull'', ''false'')]),
         (''phone_number'', [(''type'', ''STRING''), (''allowNull'', ''false'')]),
         (''sms_enabled'', [(''type'', ''BOOLEAN''), (''defaultValue'', ''true'')]),
         (''name'', [(''type'', ''STRING''), (''allowNull'', ''true'')]),
         (''createdAt'', [(''allowNull'', ''false''), (''type'', ''DATE'')]),
         (''updatedAt'', [(''allowNull'', ''false''), (''type'', ''DATE'')])] []],
     mig_down = [DropTable ''AccountPhoneSms'']\<rparr>"

definition mig_20200603005333 :: migration where
  "mig_20200603005333 = \<lparr>mig_name = ''20200603005333-create-vending-payout'',
     mig_up = [CreateTable ''VendingPayouts''
        [(''id'', [(''allowNull'', ''false''), (''autoIncrement'', ''true''), (''primaryKey'', ''true''), (''type'', ''INTEGER'')]),
         (''vending_machine_id'', [(''type'', ''INTEGER'')]),
         (''amount'', [(''type'', ''DECIMAL'')]),
         (''txid'', [(''type'', ''STRING'')]),
         (''address'', [(''type'', ''STRING'')]),
         (''createdAt'', [(''allowNull'', ''false''), (''type'', ''DATE'')]),
         (''updatedAt'', [(''allowNull'', ''false''), (''type'', ''DATE'')])] []],
     mig_down = [DropTable ''VendingPayouts'']\<rparr>"

definition mig_20200708154313 :: migration where
  "mig_20200708154313 = \<lparr>mig_name = ''20200708154313_add-supported-to-coins'',
     mig_up = [AddColumn ''coins'' ''supported'' [(''type'', ''BOOLEAN''), (''defaultValue'', ''false'')]],
     mig_down = [RemoveColumn ''accounts'' ''supported'']\<rparr>"

definition mig_20200708175158 :: migration where
  "mig_20200708175158 = \<lparr>mig_name = ''20200708175158-add-dash-text-supported-boolean-to-account'',
     mig_up = [AddColumn ''accounts'' ''dash_text_enabled'' [(''type'', ''STRING''), (''defaultValue'', ''false'')]],
     mig_down = [RemoveColumn ''accounts'' ''dash_text_enabled'']\<rparr>"

definition mig_20200714205529 :: migration where
  "mig_20200714205529 = \<lparr>mig_name = ''20200714205529-add-currency-specified-to-invoice'',
     mig_up = [AddColumn ''invoices'' ''currency_specified'' [(''type'', ''BOOLEAN''), (''defaultValue'', ''false'')]],
     mig_down = [RemoveColumn ''invoices'' ''currency_specified'']\<rparr>"

definition mig_20200726185000 :: migration where
  "mig_20200726185000 = \<lparr>mig_name = ''20200726185000-add-website-url-to-account'',
     mig_up = [AddColumn ''accounts'' ''website_url'' [(''type'', ''STRING'')]],
     mig_down = [RemoveColumn ''accounts'' ''website_url'']\<rparr>"

definition mig_20200729153301 :: migration where
  "mig_20200729153301 = \<lparr>mig_name = ''20200729153301-add-index-invoice-account-id'',
     mig_up = [AddIndex ''invoices'' ''invoice_account_id'' [(''fields'', ''[`account_id`]''), (''unique'', ''false'')]],
     mig_down = []\<rparr>"

definition mig_20200730141222 :: migration where
  "mig_20200730141222 = \<lparr>mig_name = ''20200730141222-create-event'',
     mig_up = [CreateTable ''events''
        [(''id'', [(''allowNull'', ''false''), (''autoIncrement'', ''true''), (''primaryKey'', ''true''), (''type'', ''INTEGER'')]),
         (''account_id'', [(''type'', ''INTEGER'')]),
         (''event'', [(''type'', ''STRING''), (''allowNull'', ''false'')]),
         (''payload'', [(''type'', ''JSON''), (''allowNull'', ''false'')]),
         (''createdAt'', [(''allowNull'', ''false''), (''type'', ''DATE'')]),
         (''updatedAt'', [(''allowNull'', ''false''), (''type'', ''DATE'')])] []],
     mig_down = [DropTable ''events'']\<rparr>"

definition mig_20200730145125 :: migration where
  "mig_20200730145125 = \<lparr>mig_name = ''20200730145125-add-city-state-country-to-account'',
     mig_up = [AddColumn ''accounts'' ''city'' [(''type'', ''STRING'')],
      AddColumn ''accounts'' ''state'' [(''type'', ''STRING'')],
      AddColumn ''accounts'' ''country'' [(''type'', ''STRING'')]],
     mig_down = [RemoveColumn ''accounts'' ''city'',
      RemoveColumn ''accounts'' ''state'',
      RemoveColumn ''accounts'' ''country'']\<rparr>"

definition mig_20200730193717 :: migration where
  "mig_20200730193717 = \<lparr>mig_name = ''20200730193717-add-description-to-account'',
     mig_up = [AddColumn ''accounts'' ''description'' [(''type'', ''STRING'')]],
     mig_down = [RemoveColumn ''accounts'' ''description'']\<rparr>"

definition mig_20200730194237 :: migration where
  "mig_20200730194237 = \<lparr>mig_name = ''20200730194237-create-tonic-pow-campaign'',
     mig_up = [CreateTable ''TonicPowCampaigns''
        [(''id'', [(''allowNull'', ''false''), (''autoIncrement'', ''true''), (''primaryKey'', ''true''), (''type'', ''INTEGER'')]),
         (''account_id'', [(''type'', ''INTEGER'')]),
         (''campaign_id'', [(''type'', ''INTEGER'')]),
         (''data'', [(''type'', ''JSON'')]),
         (''createdAt'', [(''allowNull'', ''false''), (''type'', ''DATE'')]),
         (''updatedAt'', [(''allowNull'', ''false''), (''type'', ''DATE'')])] []],
     mig_down = [DropTable ''TonicPowCampaigns'']\<rparr>"

definition mig_20200812232701 :: migration where
  "mig_20200812232701 = \<lparr>mig_name = ''20200812232701-create-payment'',
     mig_up = [CreateTable ''payments''
        [(''id'', [(''allowNull'', ''false''), (''autoIncrement'', ''true''), (''primaryKey'', ''true''), (''type'', ''INTEGER'')]),
         (''invoice_uid'', [(''type'', ''STRING''), (''allowNull'', ''false'')]),
         (''txid'', [(''type'', ''STRING''), (''allowNull'', ''false'')]),
         (''txhex'', [(''type'', ''STRING''), (''allowNull'', ''false'')]),
         (''txjson'', [(''type'', ''JSON''), (''allowNull'', ''false'')]),
         (''createdAt'', [(''allowNull'', ''false''), (''type'', ''DATE'')]),
         (''updatedAt'', [(''allowNull'', ''false''), (''type'', ''DATE'')])] []],
     mig_down = [DropTable ''payments'']\<rparr>"

definition mig_20200814125553 :: migration where
  "mig_20200814125553 = \<lparr>mig_name = ''20200814125553-add-fee-and-outputs-to-payment-option'',
     mig_up = [AddColumn ''payment_options'' ''fee'' [(''type'', ''INTEGER''), (''allowNull'', ''true'')],
      AddColumn ''payment_options'' ''outputs'' [(''type'', ''JSON''), (''allowNull'', ''true'')]],
     mig_down = [RemoveColumn ''payment_options'' ''fee'',
      RemoveColumn ''payment_options'' ''outputs'']\<rparr>"

definition mig_20200819165411 :: migration where
  "mig_20200819165411 = \<lparr>mig_name = ''20200819165411-add-payment-option-id-to-payment'',
     mig_up = [AddColumn ''payments'' ''payment_option_id'' [(''type'', ''INTEGER''), (''allowNull'', ''false'')]],
     mig_down = []\<rparr>"

definition mig_20200819172253 :: migration where
  "mig_20200819172253 = \<lparr>mig_name = ''20200819172253-rename-payment-fields'',
     mig_up = [DropTable ''payments'',
      CreateTable ''payments''
        [(''id'', [(''allowNull'', ''false''), (''autoIncrement'', ''true''), (''primaryKey'', ''true''), (''type'', ''INTEGER'')]),
         (''txid'', [(''type'', ''STRING''), (''allowNull'', ''false'')]),
         (''txhex'', [(''type'', ''TEXT''), (''allowNull'', ''false'')]),
         (''txjson'', [(''type'', ''JSON''), (''allowNull'', ''false'')]),
         (''currency'', [(''type'', ''STRING''), (''allowNull'', ''false'')]),
         (''invoice_uid'', [(''type'', ''STRING''), (''allowNull'', ''false'')]),
         (''payment_option_id'', [(''type'', ''INTEGER''), (''allowNull'', ''false'')]),
         (''createdAt'', [(''allowNull'', ''false''), (''type'', ''DATE'')]),
         (''updatedAt'', [(''allowNull'', ''false''), (''type'', ''DATE'')])] []],
     mig_down = [DropTable ''payments'']\<rparr>"

definition mig_20200826194029 :: migration where
  "mig_20200826194029 = \<lparr>mig_name = ''20200826194029-create-payment-request'',
     mig_up = [CreateTable ''PaymentRequests''
        [(''id'', [(''allowNull'', ''false''), (''autoIncrement'', ''true''), (''primaryKey'', ''true''), (''type'', ''INTEGER'')]),
         (''invoice_uid'', [(''type'', ''STRING''), (''allowNull'', ''true'')]),
         (''template'', [(''type'', ''JSON''), (''allowNull'', ''false'')]),
         (''app_id'', [(''type'', ''INTEGER''), (''allowNull'', ''false'')]),
         (''createdAt'', [(''allowNull'', ''false''), (''type'', ''DATE'')]),
         (''updatedAt'', [(''allowNull'', ''false''), (''type'', ''DATE'')])] []],
     mig_down = [DropTable ''PaymentRequests'']\<rparr>"

definition mig_20200826194859 :: migration where
  "mig_20200826194859 = \<lparr>mig_name = ''20200826194859-add-app-id-to-access-token'',
     mig_up = [CreateTable ''access_tokens''
        [(''id'', [(''type'', ''INTEGER''), (''primaryKey'', ''true''), (''autoIncrement'', ''true'')]),
         (''uid'', [(''type'', ''STRING''), (''allowNull'', ''false'')]),
         (''account_id'', [(''type'', ''INTEGER''), (''allowNull'', ''false'')]),
         (''createdAt'', [(''type'', ''DATE'')]),
         (''updatedAt'', [(''type'', ''DATE'')])] [],
      AddColumn ''access_tokens'' ''app_id'' [(''type'', ''INTEGER''), (''allowNull'', ''true'')]],
     mig_down = [RemoveColumn ''access_tokens'' ''app_id'']\<rparr>"

definition mig_20200827233206 :: migration where
  "mig_20200827233206 = \<lparr>mig_name = ''20200827233206-remove-deprecated-fields-from-invoices'',
     mig_up = [ChangeColumn ''invoices'' ''amount'' [(''type'', ''DECIMAL''), (''allowNull'', ''true'')],
      ChangeColumn ''invoices'' ''currency'' [(''type'', ''STRING''), (''allowNull'', ''true'')],
      ChangeColumn ''invoices'' ''amount'' [(''type'', ''DECIMAL''), (''allowNull'', ''true'')],
      ChangeColumn ''invoices'' ''currency'' [(''type'', ''STRING''), (''allowNull'', ''true'')],
      ChangeColumn ''invoices'' ''address'' [(''type'', ''STRING''), (''allowNull'', ''true'')],
      ChangeColumn ''invoices'' ''account_id'' [(''type'', ''INTEGER''), (''allowNull'', ''true'')]],
     mig_down = [ChangeColumn ''invoices'' ''amount'' [(''type'', ''DECIMAL''), (''allowNull'', ''true'')],
      ChangeColumn ''invoices'' ''currency'' [(''type'', ''STRING''), (''allowNull'', ''true'')],
      ChangeColumn ''invoices'' ''amount'' [(''type'', ''DECIMAL''), (''allowNull'', ''true'')],
      ChangeColumn ''invoices'' ''currency'' [(''type'', ''STRING''), (''allowNull'', ''true'')],
      ChangeColumn ''invoices'' ''address'' [(''type'', ''STRING''), (''allowNull'', ''true'')],
      ChangeColumn ''invoices'' ''account_id'' [(''type'', ''INTEGER''), (''allowNull'', ''true'')]]\<rparr>"

definition mig_20200827233638 :: migration where
  "mig_20200827233638 = \<lparr>mig_name = ''20200827233638-add-to-payment-requests'',
     mig_up = [AddColumn ''PaymentRequests'' ''webpage_url'' [(''type'', ''STRING'')],
      AddColumn ''PaymentRequests'' ''uri'' [(''type'', ''STRING'')],
      AddColumn ''PaymentRequests'' ''status'' [(''type'', ''STRING'')]],
     mig_down = [RemoveColumn ''PaymentRequests'' ''webpage_url'',
      RemoveColumn ''PaymentRequests'' ''uri'',
      RemoveColumn ''PaymentRequests'' ''status'']\<rparr>"

definition mig_20200828024011 :: migration where
  "mig_20200828024011 = \<lparr>mig_name = ''20200828024011-remove-address-amount-from-payment-option'',
     mig_up = [ChangeColumn ''payment_options'' ''amount'' [(''type'', ''DECIMAL''), (''allowNull'', ''true'')],
      ChangeColumn ''payment_options'' ''address'' [(''type'', ''STRING''), (''allowNull'', ''true'')]],
     mig_down = [ChangeColumn ''payment_options'' ''amount'' [(''type'', ''DECIMAL''), (''allowNull'', ''true'')],
      ChangeColumn ''payment_options'' ''address'' [(''type'', ''STRING''), (''allowNull'', ''true'')]]\<rparr>"

definition mig_20200902153907 :: migration where
  "mig_20200902153907 = \<lparr>mig_name = ''20200902153907-add-secret-and-metadata-to-invoice'',
     mig_up = [AddColumn ''invoices'' ''secret'' [(''type'', ''STRING'')],
      AddColumn ''invoices'' ''metadata'' [(''type'', ''JSON'')]],
     mig_down = [RemoveColumn ''invoices'' ''secret'',
      RemoveColumn ''invoices'' ''metadata'']\<rparr>"

definition mig_20200914133659 :: migration where
  "mig_20200914133659 = \<lparr>mig_name = ''20200914133659-create-bip-70-payment'',
     mig_up = [CreateTable ''ProtobufPayments''
        [(''id'', [(''allowNull'', ''false''), (''autoIncrement'', ''true''), (''primaryKey'', ''true''), (''type'', ''INTEGER'')]),
         (''hex'', [(''type'', ''STRING'')]),
         (''createdAt'', [(''allowNull'', ''false''), (''type'', ''DATE'')]),
         (''updatedAt'', [(''allowNull'', ''false''), (''type'', ''DATE'')])] []],
     mig_down = [DropTable ''ProtobufPayments'']\<rparr>"

definition mig_20200920025141 :: migration where
  "mig_20200920025141 = \<lparr>mig_name = ''20200920025141-create-korona-pos-order'',
     mig_up = [CreateTable ''KoronaPosOrders''
        [(''id'', [(''allowNull'', ''false''), (''autoIncrement'', ''true''), (''primaryKey'', ''true''), (''type'', ''INTEGER'')]),
         (''payload'', [(''type'', ''JSON'')]),
         (''createdAt'', [(''allowNull'', ''false''), (''type'', ''DATE'')]),
         (''updatedAt'', [(''allowNull'', ''false''), (''type'', ''DATE'')])] []],
     mig_down = [DropTable ''KoronaPosOrders'']\<rparr>"

definition mig_20200929141340 :: migration where
  "mig_20200929141340 = \<lparr>mig_name = ''20200929141340-add-geolocation-to-account'',
     mig_up = [AddColumn ''accounts'' ''registration_geolocation'' [(''type'', ''JSON'')],
      AddColumn ''accounts'' ''registration_ip_address'' [(''type'', ''STRING'')]],
     mig_down = [RemoveColumn ''accounts'' ''registration_geolocation'',
      RemoveColumn ''accounts'' ''registration_ip_address'']\<rparr>"

definition mig_20200929143952 :: migration where
  "mig_20200929143952 = \<lparr>mig_name = ''20200929143952-create-login'',
     mig_up = [CreateTable ''Logins''
        [(''id'', [(''allowNull'', ''false''), (''autoIncrement'', ''true''), (''primaryKey'', ''true''), (''type'', ''INTEGER'')]),
         (''account_id'', [(''type'', ''INTEGER'')]),
         (''ip_address'', [(''type'', ''STRING'')]),
         (''geolocation'', [(''type'', ''JSON'')]),
         (''user_agent'', [(''type'', ''STRING'')]),
         (''createdAt'', [(''allowNull'', ''false''), (''type'', ''DATE'')]),
         (''updatedAt'', [(''allowNull'', ''false''), (''type'', ''DATE'')])] []],
     mig_down = [DropTable ''Logins'']\<rparr>"

definition mig_20201005230254 :: migration where
  "mig_20201005230254 = \<lparr>mig_name = ''20201005230254-add-position-to-account'',
     mig_up = [RawQuery ''`CREATE EXTENSION IF NOT EXISTS postgis;`'',
      AddColumn ''accounts'' ''position'' [(''type'', ''GEOMETRY(`POINT`,4326)'')]],
     mig_down = [RemoveColumn ''accounts'' ''position'']\<rparr>"

definition mig_20201011171938 :: migration where
  "mig_20201011171938 = \<lparr>mig_name = ''20201011171938-create-bip-70-payment-request'',
     mig_up = [CreateTable ''Bip70PaymentRequests''
        [(''id'', [(''allowNull'', ''false''), (''autoIncrement'', ''true''), (''primaryKey'', ''true''), (''type'', ''INTEGER'')]),
         (''invoice_uid'', [(''type'', ''STRING'')]),
         (''hex'', [(''type'', ''TEXT'')]),
         (''currency'', [(''type'', ''STRING'')]),
         (''createdAt'', [(''allowNull'', ''false''), (''type'', ''DATE'')]),
         (''updatedAt'', [(''allowNull'', ''false''), (''type'', ''DATE'')])] []],
     mig_down = [DropTable ''Bip70PaymentRequests'']\<rparr>"

definition mig_20201017202123 :: migration where
  "mig_20201017202123 = \<lparr>mig_name = ''20201017202123-create-clover-webhook'',
     mig_up = [CreateTable ''CloverWebhooks''
        [(''id'', [(''allowNull'', ''false''), (''autoIncrement'', ''true''), (''primaryKey'', ''true''), (''type'', ''INTEGER'')]),
         (''payload'', [(''type'', ''JSON'')]),
         (''createdAt'', [(''allowNull'', ''false''), (''type'', ''DATE'')]),
         (''updatedAt'', [(''allowNull'', ''false''), (''type'', ''DATE'')])] []],
     mig_down = [DropTable ''CloverWebhooks'']\<rparr>"

definition mig_20201018151146 :: migration where
  "mig_20201018151146 = \<lparr>mig_name = ''20201018151146-create-clover-auth'',
     mig_up = [CreateTable ''CloverAuths''
        [(''id'', [(''allowNull'', ''false''), (''autoIncrement'', ''true''), (''primaryKey'', ''true''), (''type'', ''INTEGER'')]),
         (''account_id'', [(''type'', ''INTEGER'')]),
         (''client_id'', [(''type'', ''STRING'')]),
         (''merchant_id'', [(''type'', ''STRING'')]),
         (''employee_id'', [(''type'', ''STRING'')]),
         (''access_token'', [(''type'', ''STRING'')]),
         (''createdAt'', [(''allowNull'', ''false''), (''type'', ''DATE'')]),
         (''updatedAt'', [(''allowNull'', ''false''), (''type'', ''DATE'')])] []],
     mig_down = [DropTable ''CloverAuths'']\<rparr>"

definition mig_20201022165855 :: migration where
  "mig_20201022165855 = \<lparr>mig_name = ''20201022165855-create-app'',
     mig_up = [CreateTable ''Apps''
        [(''id'', [(''allowNull'', ''false''), (''autoIncrement'', ''true''), (''primaryKey'', ''true''), (''type'', ''INTEGER'')]),
         (''account_id'', [(''type'', ''INTEGER''), (''allowNull'', ''false'')]),
         (''name'', [(''type'', ''STRING''), (''allowNull'', ''false'')]),
         (''public_key'', [(''type'', ''STRING''), (''allowNull'', ''false'')]),
         (''private_key'', [(''type'', ''STRING''), (''allowNull'', ''false'')]),
         (''name'', [(''type'', ''STRING''), (''allowNull'', ''false'')]),
         (''webhook_url'', [(''type'', ''STRING'')]),
         (''createdAt'', [(''allowNull'', ''false''), (''type'', ''DATE'')]),
         (''updatedAt'', [(''allowNull'', ''false''), (''type'', ''DATE'')])] []],
     mig_down = [DropTable ''Apps'']\<rparr>"

definition mig_20201029150325 :: migration where
  "mig_20201029150325 = \<lparr>mig_name = ''20201029150325-add-currency-info-to-payment-options'',
     mig_up = [AddColumn ''payment_options'' ''currency_name'' [(''type'', ''STRING'')],
      AddColumn ''payment_options'' ''currency_logo_url'' [(''type'', ''STRING'')]],
     mig_down = [RemoveColumn ''payment_options'' ''currency_name'',
      RemoveColumn ''payment_options'' ''currency_logo_url'']\<rparr>"

definition mig_20201111194149 :: migration where
  "mig_20201111194149 = \<lparr>mig_name = ''20201111194149-create-woocommerce-images'',
     mig_up = [CreateTable ''WoocommerceImages''
        [(''id'', [(''allowNull'', ''false''), (''autoIncrement'', ''true''), (''primaryKey'', ''true''), (''type'', ''INTEGER'')]),
         (''url'', [(''type'', ''STRING'')]),
         (''name'', [(''type'', ''STRING'')]),
         (''createdAt'', [(''allowNull'', ''false''), (''type'', ''DATE'')]),
         (''updatedAt'', [(''allowNull'', ''false''), (''type'', ''DATE'')])] []],
     mig_down = [DropTable ''WoocommerceImages'']\<rparr>"

definition mig_20201111194207 :: migration where
  "mig_20201111194207 = \<lparr>mig_name = ''20201111194207-create-woocommerce-settings'',
     mig_up = [CreateTable ''WoocommerceSettings''
        [(''id'', [(''allowNull'', ''false''), (''autoIncrement'', ''true''), (''primaryKey'', ''true''), (''type'', ''INTEGER'')]),
         (''account_id'', [(''type'', ''INTEGER'')]),
         (''image_url'', [(''type'', ''STRING'')]),
         (''createdAt'', [(''allowNull'', ''false''), (''type'', ''DATE'')]),
         (''updatedAt'', [(''allowNull'', ''false''), (''type'', ''DATE'')])] []],
     mig_down = [DropTable ''WoocommerceSettings'']\<rparr>"

definition mig_20201112084659 :: migration where
  "mig_20201112084659 = \<lparr>mig_name = ''20201112084659-add-app-id-to-invoices'',
     mig_up = [AddColumn ''invoices'' ''app_id'' [(''type'', ''INTEGER'')]],
     mig_down = [RemoveColumn ''invoices'' ''app_id'']\<rparr>"

definition mig_20201114014757 :: migration where
  "mig_20201114014757 = \<lparr>mig_name = ''20201114014757-create-price-record'',
     mig_up = [CreateTable ''PriceRecords''
        [(''id'', [(''allowNull'', ''false''), (''autoIncrement'', ''true''), (''primaryKey'', ''true''), (''type'', ''INTEGER'')]),
         (''currency'', [(''type'', ''STRING''), (''allowNull'', ''false'')]),
         (''value'', [(''type'', ''DECIMAL''), (''allowNull'', ''false'')]),
         (''base_currency'', [(''type'', ''STRING''), (''allowNull'', ''false'')]),
         (''source'', [(''type'', ''STRING''), (''allowNull'', ''false'')]),
         (''createdAt'', [(''allowNull'', ''false''), (''type'', ''DATE'')]),
         (''updatedAt'', [(''allowNull'', ''false''), (''type'', ''DATE'')])] []],
     mig_down = [DropTable ''PriceRecords'']\<rparr>"

definition migrations_c :: "migration list" where
  "migrations_c = [
     mig_20200101003747, mig_20200102190430, mig_20200107165458, mig_20200108164831,
     mig_20200108171044, mig_20200109200352, mig_20200110033652, mig_20200122000557,
     mig_20200205031957, mig_20200205165848, mig_20200215165504, mig_20200226174727,
     mig_20200302040708, mig_20200309171559, mig_20200309171834, mig_20200309171910,
     mig_20200316194336, mig_20200327174040, mig_20200401204214, mig_20200401204738,
     mig_20200403235537, mig_20200413195753, mig_20200418041423, mig_20200426181212,
     mig_20200430152904, mig_20200501070353, mig_20200501085927, mig_20200501112324,
     mig_20200503223123, mig_20200511202820, mig_20200511231247, mig_20200512144412,
     mig_20200523223250, mig_20200603005333, mig_20200708154313, mig_20200708175158,
     mig_20200714205529, mig_20200726185000, mig_20200729153301, mig_20200730141222,
     mig_20200730145125, mig_20200730193717, mig_20200730194237, mig_20200812232701,
     mig_20200814125553, mig_20200819165411, mig_20200819172253, mig_20200826194029,
     mig_20200826194859, mig_20200827233206, mig_20200827233638, mig_20200828024011,
     mig_20200902153907, mig_20200914133659, mig_20200920025141, mig_20200929141340,
     mig_20200929143952, mig_20201005230254, mig_20201011171938, mig_20201017202123,
     mig_20201018151146, mig_20201022165855, mig_20201029150325, mig_20201111194149,
     mig_20201111194207, mig_20201112084659, mig_20201114014757]"

lemmas migrations_c_defs = migrations_c_def
  mig_20200101003747_def mig_20200102190430_def mig_20200107165458_def mig_20200108164831_def
  mig_20200108171044_def mig_20200109200352_def mig_20200110033652_def mig_20200122000557_def
  mig_20200205031957_def mig_20200205165848_def mig_20200215165504_def mig_20200226174727_def
  mig_20200302040708_def mig_20200309171559_def mig_20200309171834_def mig_20200309171910_def
  mig_20200316194336_def mig_20200327174040_def mig_20200401204214_def mig_20200401204738_def
  mig_20200403235537_def mig_20200413195753_def mig_20200418041423_def mig_20200426181212_def
  mig_20200430152904_def mig_20200501070353_def mig_20200501085927_def mig_20200501112324_def
  mig_20200503223123_def mig_20200511202820_def mig_20200511231247_def mig_20200512144412_def
  mig_20200523223250_def mig_20200603005333_def mig_20200708154313_def mig_20200708175158_def
  mig_20200714205529_def mig_20200726185000_def mig_20200729153301_def mig_20200730141222_def
  mig_20200730145125_def mig_20200730193717_def mig_20200730194237_def mig_20200812232701_def
  mig_20200814125553_def mig_20200819165411_def mig_20200819172253_def mig_20200826194029_def
  mig_20200826194859_def mig_20200827233206_def mig_20200827233638_def mig_20200828024011_def
  mig_20200902153907_def mig_20200914133659_def mig_20200920025141_def mig_20200929141340_def
  mig_20200929143952_def mig_20201005230254_def mig_20201011171938_def mig_20201017202123_def
  mig_20201018151146_def mig_20201022165855_def mig_20201029150325_def mig_20201111194149_def
  mig_20201111194207_def mig_20201112084659_def mig_20201114014757_def

end
