(* ===== verification/MigrationSetD.thy ===== *)
theory MigrationSetD
  imports Migrations
begin

text \<open>
  The migrations of 2021, 2022 and 2023, one definition per file of \<open>migrations/\<close>, in the order of their names.
\<close>

definition mig_20210105172437 :: migration where
  "mig_20210105172437 = \<lparr>mig_name = ''20210105172437-add-wallet-to-payment'',
     mig_up = [AddColumn ''payments'' ''wallet'' [(''type'', ''STRING'')],
      AddColumn ''payments'' ''ip_address'' [(''type'', ''STRING'')]],
     mig_down = [RemoveColumn ''payments'' ''wallet'',
      RemoveColumn ''payments'' ''ip_address'']\<rparr>"

definition mig_20210115201836 :: migration where
  "mig_20210115201836 = \<lparr>mig_name = ''20210115201836-add-required-fee-to-coin'',
     mig_up = [AddColumn ''coins'' ''required_fee_rate'' [(''type'', ''INTEGER''), (''allowNull'', ''true''), (''defaultValue'', ''1'')]],
     mig_down = [RemoveColumn ''coins'' ''required_fee_rate'']\<rparr>"

definition mig_20210116163619 :: migration where
  "mig_20210116163619 = \<lparr>mig_name = ''20210116163619-create-anypayx-debit'',
     mig_up = [CreateTable ''AnypayxDebits''
        [(''id'', [(''allowNull'', ''false''), (''autoIncrement'', ''true''), (''primaryKey'', ''true''), (''type'', ''INTEGER'')]),
         (''account_id'', [(''type'', ''INTEGER'')]),
         (''date'', [(''type'', ''DATE'')]),
         (''external_id'', [(''type'', ''STRING'')]),
         (''amount'', [(''type'', ''DECIMAL'')]),
         (''currency'', [(''type'', ''STRING'')]),
         (''createdAt'', [(''allowNull'', ''false''), (''type'', ''DATE'')]),
         (''updatedAt'', [(''allowNull'', ''false''), (''type'', ''DATE'')])] []],
     mig_down = [DropTable ''AnypayxDebits'']\<rparr>"

definition mig_20210116163633 :: migration where
  "mig_20210116163633 = \<lparr>mig_name = ''20210116163633-create-anypayx-credit'',
     mig_up = [CreateTable ''AnypayxCredits''
        [(''id'', [(''allowNull'', ''false''), (''autoIncrement'', ''true''), (''primaryKey'', ''true''), (''type'', ''INTEGER'')]),
         (''account_id'', [(''type'', ''INTEGER'')]),
         (''date'', [(''type'', ''DATE'')]),
         (''amount'', [(''type'', ''DECIMAL'')]),
         (''currency'', [(''type'', ''STRING'')]),
         (''invoice_uid'', [(''type'', ''STRING'')]),
         (''createdAt'', [(''allowNull'', ''false''), (''type'', ''DATE'')]),
         (''updatedAt'', [(''allowNull'', ''false''), (''type'', ''DATE'')])] []],
     mig_down = [DropTable ''AnypayxCredits'']\<rparr>"

definition mig_20210123222330 :: migration where
  "mig_20210123222330 = \<lparr>mig_name = ''20210123222330-add-item-uid-to-invoice'',
     mig_up = [AddColumn ''invoices'' ''item_uid'' [(''type'', ''STRING'')]],
     mig_down = [RemoveColumn ''invoices'' ''item_uid'']\<rparr>"

definition mig_20210129013749 :: migration where
  "mig_20210129013749 = \<lparr>mig_name = ''20210129013749-rename-settlements-to-bitpay-settlements'',
     mig_up = [RenameTable ''settlements'' ''bitpay_settlements''],
     mig_down = [RenameTable ''bitpay_settlements'' ''settlements'']\<rparr>"

definition mig_20210129020155 :: migration where
  "mig_20210129020155 = \<lparr>mig_name = ''20210129020155-require-account-id-in-bitpay-settlement'',
     mig_up = [ChangeColumn ''bitpay_settlements'' ''account_id'' [(''type'', ''INTEGER''), (''allowNull'', ''false'')]],
     mig_down = [ChangeColumn ''bitpay_settlements'' ''account_id'' [(''type'', ''INTEGER''), (''allowNull'', ''true'')]]\<rparr>"

definition mig_2021020336000 :: migration where
  "mig_2021020336000 = \<lparr>mig_name = ''2021020336000-add-email-to-invoices'',
     mig_up = [AddColumn ''invoices'' ''email'' [(''type'', ''STRING'')]],
     mig_down = [RemoveColumn ''invoices'' ''email'']\<rparr>"

definition mig_20210227211611 :: migration where
  "mig_20210227211611 = \<lparr>mig_name = ''20210227211611-create-discount'',
     mig_up = [CreateTable ''Discounts''
        [(''id'', [(''allowNull'', ''false''), (''autoIncrement'', ''true''), (''primaryKey'', ''true''), (''type'', ''INTEGER'')]),
         (''account_id'', [(''type'', ''INTEGER''), (''allowNull'', ''false'')]),
         (''percent'', [(''type'', ''DECIMAL''), (''allowNull'', ''false''), (''defaultValue'', ''0'')]),
         (''currency'', [(''type'', ''STRING''), (''allowNull'', ''false'')]),
         (''createdAt'', [(''allowNull'', ''false''), (''type'', ''DATE'')]),
         (''updatedAt'', [(''allowNull'', ''false''), (''type'', ''DATE'')])] []],
     mig_down = [DropTable ''Discounts'']\<rparr>"

definition mig_20210324003321 :: migration where
  "mig_20210324003321 = \<lparr>mig_name = ''20210324003321-add-settlement-type-to-anypayx-debits'',
     mig_up = [AddColumn ''AnypayxDebits'' ''settlement_type'' [(''type'', ''STRING'')],
      AddColumn ''AnypayxDebits'' ''settlement_id'' [(''type'', ''INTEGER'')]],
     mig_down = [RemoveColumn ''AnypayxDebits'' ''settlement_type'',
      RemoveColumn ''AnypayxDebits'' ''settlement_id'']\<rparr>"

definition mig_20210401190336 :: migration where
  "mig_20210401190336 = \<lparr>mig_name = ''20210401190336-unique-invoice-uid-for-anypayx-credits'',
     mig_up = [ChangeColumn ''AnypayxCredits'' ''invoice_uid'' [(''type'', ''STRING''), (''allowNull'', ''false''), (''unique'', ''true'')]],
     mig_down = [ChangeColumn ''AnypayxCredits'' ''invoice_uid'' [(''type'', ''STRING''), (''allowNull'', ''true''), (''unique'', ''false'')]]\<rparr>"

definition mig_20210518112328 :: migration where
  "mig_20210518112328 = \<lparr>mig_name = ''20210518112328-create-mercury-recipient'',
     mig_up = [CreateTable ''MercuryRecipients''
        [(''id'', [(''allowNull'', ''false''), (''autoIncrement'', ''true''), (''primaryKey'', ''true''), (''type'', ''INTEGER'')]),
         (''account_id'', [(''type'', ''INTEGER'')]),
         (''recipientId'', [(''type'', ''STRING'')]),
         (''createdAt'', [(''allowNull'', ''false''), (''type'', ''DATE'')]),
         (''updatedAt'', [(''allowNull'', ''false''), (''type'', ''DATE'')])] []],
     mig_down = [DropTable ''MercuryRecipients'']\<rparr>"

definition mig_20210525202848 :: migration where
  "mig_20210525202848 = \<lparr>mig_name = ''20210525202848-create-refund'',
     mig_up = [CreateTable ''Refunds''
        [(''id'', [(''allowNull'', ''false''), (''autoIncrement'', ''true''), (''primaryKey'', ''true''), (''type'', ''INTEGER'')]),
         (''invoice_uid'', [(''type'', ''STRING'')]),
         (''txid'', [(''type'', ''STRING'')]),
         (''rawtx'', [(''type'', ''TEXT'')]),
         (''createdAt'', [(''allowNull'', ''false''), (''type'', ''DATE'')]),
         (''updatedAt'', [(''allowNull'', ''false''), (''type'', ''DATE'')])] []],
     mig_down = [DropTable ''Refunds'']\<rparr>"

definition mig_20210622125002 :: migration where
  "mig_20210622125002 = \<lparr>mig_name = ''20210622125002-add-wordpress-site-url-to-invoices'',
     mig_up = [AddColumn ''invoices'' ''wordpress_site_url'' [(''type'', ''STRING'')]],
     mig_down = [RemoveColumn ''invoices'' ''wordpress_site_url'']\<rparr>"

definition mig_20210622130131 :: migration where
  "mig_20210622130131 = \<lparr>mig_name = ''20210622130131-add-tags-and-headers-to-invoices'',
     mig_up = [AddColumn ''invoices'' ''tags'' [(''type'', ''ARRAY(STRING)'')],
      AddColumn ''invoices'' ''headers'' [(''type'', ''JSON'')]],
     mig_down = [RemoveColumn ''invoices'' ''tags'',
      RemoveColumn ''invoices'' ''headers'']\<rparr>"

definition mig_20210710062005 :: migration where
  "mig_20210710062005 = \<lparr>mig_name = ''20210710062005-add-cancelled-to-invoices'',
     mig_up = [AddColumn ''invoices'' ''cancelled'' [(''type'', ''BOOLEAN''), (''defaultValue'', ''false'')]],
     mig_down = [RemoveColumn ''invoices'' ''cancelled'']\<rparr>"

definition mig_20210811200810 :: migration where
  "mig_20210811200810 = \<lparr>mig_name = ''20210811200810-add-business-id-location-id-register-id-to-invoice'',
     mig_up = [AddColumn ''invoices'' ''business_id'' [(''type'', ''STRING'')],
      AddColumn ''invoices'' ''location_id'' [(''type'', ''STRING'')],
      AddColumn ''invoices'' ''register_id'' [(''type'', ''STRING'')]],
     mig_down = [RemoveColumn ''invoices'' ''business_id'',
      RemoveColumn ''invoices'' ''location_id'',
      RemoveColumn ''invoices'' ''register_id'']\<rparr>"

definition mig_20210814065911 :: migration where
  "mig_20210814065911 = \<lparr>mig_name = ''20210814065911-change-address-value-to-text'',
     mig_up = [ChangeColumn ''payment_options'' ''address'' [(''type'', ''TEXT'')],
      ChangeColumn ''payment_options'' ''uri'' [(''type'', ''TEXT'')]],
     mig_down = [ChangeColumn ''payment_options'' ''address'' [(''type'', ''STRING'')],
      ChangeColumn ''payment_options'' ''uri'' [(''type'', ''STRING'')]]\<rparr>"

definition mig_20210815080438 :: migration where
  "mig_20210815080438 = \<lparr>mig_name = ''20210815080438-create-lightning-invoice'',
     mig_up = [CreateTable ''LightningInvoices''
        [(''id'', [(''allowNull'', ''false''), (''autoIncrement'', ''true''), (''primaryKey'', ''true''), (''type'', ''INTEGER'')]),
         (''r_hash'', [(''type'', ''STRING'')]),
         (''payment_request'', [(''type'', ''TEXT'')]),
         (''add_index'', [(''type'', ''STRING'')]),
         (''payment_addr'', [(''type'', ''STRING'')]),
         (''createdAt'', [(''allowNull'', ''false''), (''type'', ''DATE'')]),
         (''updatedAt'', [(''allowNull'', ''false''), (''type'', ''DATE'')])] []],
     mig_down = [DropTable ''LightningInvoices'']\<rparr>"

definition mig_20211118155045 :: migration where
  "mig_20211118155045 = \<lparr>mig_name = ''20211118155045-create-coin-market-cap-price'',
     mig_up = [CreateTable ''CoinMarketCapPrices''
        [(''id'', [(''allowNull'', ''false''), (''autoIncrement'', ''true''), (''primaryKey'', ''true''), (''type'', ''INTEGER'')]),
         (''name'', [(''type'', ''STRING'')]),
         (''symbol'', [(''type'', ''STRING'')]),
         (''slug'', [(''type'', ''STRING'')]),
         (''num_market_pairs'', [(''type'', ''INTEGER'')]),
         (''date_added'', [(''type'', ''DATE'')]),
         (''tags'', [(''type'', ''ARRAY(STRING)'')]),
         (''max_supply'', [(''type'', ''DECIMAL'')]),
         (''circulating_supply'', [(''type'', ''DECIMAL'')]),
         (''total_supply'', [(''type'', ''DECIMAL'')]),
         (''cmc_rank'', [(''type'', ''INTEGER'')]),
         (''last_updated'', [(''type'', ''DATE'')]),
         (''quote'', [(''type'', ''JSON'')]),
         (''cmc_id'', [(''type'', ''INTEGER'')]),
         (''createdAt'', [(''allowNull'', ''false''), (''type'', ''DATE'')]),
         (''updatedAt'', [(''allowNull'', ''false''), (''type'', ''DATE'')])] []],
     mig_down = [DropTable ''CoinMarketCapPrices'']\<rparr>"

definition mig_20211122194929 :: migration where
  "mig_20211122194929 = \<lparr>mig_name = ''20211122194929-create-payment-submission'',
     mig_up = [CreateTable ''PaymentSubmissions''
        [(''id'', [(''allowNull'', ''false''), (''autoIncrement'', ''true''), (''primaryKey'', ''true''), (''type'', ''INTEGER'')]),
         (''invoice_uid'', [(''type'', ''STRING'')]),
         (''txhex'', [(''type'', ''TEXT'')]),
         (''currency'', [(''type'', ''STRING'')]),
         (''headers'', [(''type'', ''JSON'')]),
         (''wallet'', [(''type'', ''STRING'')]),
         (''protocol'', [(''type'', ''STRING'')]),
         (''createdAt'', [(''allowNull'', ''false''), (''type'', ''DATE'')]),
         (''updatedAt'', [(''allowNull'', ''false''), (''type'', ''DATE'')])] []],
     mig_down = [DropTable ''PaymentSubmissions'']\<rparr>"

definition mig_20220222135817 :: migration where
  "mig_20220222135817 = \<lparr>mig_name = ''20220222135817-create-rabbi-event'',
     mig_up = [CreateTable ''rabbi_events''
        [(''id'', [(''allowNull'', ''false''), (''autoIncrement'', ''true''), (''primaryKey'', ''true''), (''type'', ''INTEGER'')]),
         (''event'', [(''type'', ''STRING'')]),
         (''payload'', [(''type'', ''JSON'')]),
         (''createdAt'', [(''allowNull'', ''false''), (''type'', ''DATE'')]),
         (''updatedAt'', [(''allowNull'', ''false''), (''type'', ''DATE'')])] []],
     mig_down = [DropTable ''rabbi_events'']\<rparr>"

definition mig_20220226112026 :: migration where
  "mig_20220226112026 = \<lparr>mig_name = ''20220226112026-create-webhook-attempt'',
     mig_up = [CreateTable ''WebhookAttempts''
        [(''id'', [(''allowNull'', ''false''), (''autoIncrement'', ''true''), (''primaryKey'', ''true''), (''type'', ''INTEGER'')]),
         (''webhook_id'', [(''type'', ''INTEGER'')]),
         (''started_at'', [(''type'', ''DATE'')]),
         (''ended_at'', [(''type'', ''DATE'')]),
         (''response_code'', [(''type'', ''INTEGER'')]),
         (''response_body'', [(''type'', ''TEXT'')]),
         (''error'', [(''type'', ''TEXT'')]),
         (''createdAt'', [(''allowNull'', ''false''), (''type'', ''DATE'')]),
         (''updatedAt'', [(''allowNull'', ''false''), (''type'', ''DATE'')])] []],
     mig_down = [DropTable ''WebhookAttempts'']\<rparr>"

definition mig_20220226123856 :: migration where
  "mig_20220226123856 = \<lparr>mig_name = ''20220226123856-add_status_to_webhook'',
     mig_up = [AddColumn ''Webhooks'' ''status'' [(''type'', ''STRING''), (''defaultValue'', ''`pending`'')]],
     mig_down = [RemoveColumn ''Webhooks'' ''status'']\<rparr>"

definition mig_20220226131425 :: migration where
  "mig_20220226131425 = \<lparr>mig_name = ''20220226131425-add_retry_policy_to_webhooks'',
     mig_up = [AddColumn ''Webhooks'' ''retry_policy'' [(''type'', ''STRING''), (''defaultValue'', ''`no_retry`'')]],
     mig_down = [RemoveColumn ''Webhooks'' ''retry_policy'']\<rparr>"

definition mig_20220226175858 :: migration where
  "mig_20220226175858 = \<lparr>mig_name = ''20220226175858-create-get-402-key-pair'',
     mig_up = [CreateTable ''Get402KeyPairs''
        [(''id'', [(''allowNull'', ''false''), (''autoIncrement'', ''true''), (''primaryKey'', ''true''), (''type'', ''INTEGER'')]),
         (''account_id'', [(''type'', ''INTEGER''), (''allowNull'', ''false'')]),
         (''active'', [(''type'', ''BOOLEAN''), (''defaultValue'', ''true'')]),
         (''identifier'', [(''type'', ''STRING''), (''allowNull'', ''false'')]),
         (''createdAt'', [(''allowNull'', ''false''), (''type'', ''DATE'')]),
         (''updatedAt'', [(''allowNull'', ''false''), (''type'', ''DATE'')])] []],
     mig_down = [DropTable ''Get402KeyPairs'']\<rparr>"

definition mig_20220228123500 :: migration where
  "mig_20220228123500 = \<lparr>mig_name = ''20220228123500-add-webhook-id-to-accounts'',
     mig_up = [AddColumn ''Webhooks'' ''account_id'' [(''type'', ''INTEGER'')]],
     mig_down = [RemoveColumn ''Webhooks'' ''account_id'']\<rparr>"

definition mig_20220308014028 :: migration where
  "mig_20220308014028 = \<lparr>mig_name = ''20220308014028-allow-txjson-to-be-null'',
     mig_up = [ChangeColumn ''payments'' ''txjson'' [(''type'', ''JSON''), (''allowNull'', ''true'')]],
     mig_down = [ChangeColumn ''payments'' ''txjson'' [(''type'', ''JSON''), (''allowNull'', ''false'')]]\<rparr>"

definition mig_20220308015901 :: migration where
  "mig_20220308015901 = \<lparr>mig_name = ''20220308015901-add-account-id-to-payment'',
     mig_up = [AddColumn ''payments'' ''account_id'' [(''type'', ''INTEGER'')]],
     mig_down = [RemoveColumn ''payments'' ''account_id'']\<rparr>"

definition mig_20220327161053 :: migration where
  "mig_20220327161053 = \<lparr>mig_name = ''20220327161053-rename-events-event-to-type'',
     mig_up = [RenameColumn ''events'' ''event'' ''type''],
     mig_down = [RenameColumn ''events'' ''type'' ''event'']\<rparr>"

definition mig_20220328123910 :: migration where
  "mig_20220328123910 = \<lparr>mig_name = ''20220328123910-add-view-key-to-address'',
     mig_up = [AddColumn ''addresses'' ''view_key'' [(''type'', ''STRING''), (''allowNull'', ''true'')]],
     mig_down = [RemoveColumn ''addresses'' ''view_key'']\<rparr>"

definition mig_20220331151354 :: migration where
  "mig_20220331151354 = \<lparr>mig_name = ''20220331151354-create-kraken-account'',
     mig_up = [CreateTable ''KrakenAccounts''
        [(''id'', [(''allowNull'', ''false''), (''autoIncrement'', ''true''), (''primaryKey'', ''true''), (''type'', ''INTEGER'')]),
         (''account_id'', [(''type'', ''INTEGER'')]),
         (''api_key'', [(''type'', ''STRING'')]),
         (''api_secret'', [(''type'', ''STRING'')]),
         (''createdAt'', [(''allowNull'', ''false''), (''type'', ''DATE'')]),
         (''updatedAt'', [(''allowNull'', ''false''), (''type'', ''DATE'')])] []],
     mig_down = [DropTable ''KrakenAccounts'']\<rparr>"

definition mig_20220402111141 :: migration where
  "mig_20220402111141 = \<lparr>mig_name = ''20220402111141-add_autosell_to_kraken_account'',
     mig_up = [AddColumn ''KrakenAccounts'' ''autosell'' [(''type'', ''ARRAY(STRING)''), (''allowNull'', ''false''), (''defaultValue'', ''[]'')]],
     mig_down = [RemoveColumn ''KrakenAccounts'' ''autosell'']\<rparr>"

definition mig_20220414152455 :: migration where
  "mig_20220414152455 = \<lparr>mig_name = ''20220414152455-add-color-to-coins'',
     mig_up = [AddColumn ''coins'' ''color'' [(''type'', ''STRING'')]],
     mig_down = [RemoveColumn ''coins'' ''color'']\<rparr>"

definition mig_20220514144233 :: migration where
  "mig_20220514144233 = \<lparr>mig_name = ''20220514144233-create-account-setting'',
     mig_up = [CreateTable ''AccountSettings''
        [(''id'', [(''allowNull'', ''false''), (''autoIncrement'', ''true''), (''primaryKey'', ''true''), (''type'', ''INTEGER'')]),
         (''account_id'', [(''type'', ''INTEGER''), (''allowNull'', ''false'')]),
         (''key'', [(''type'', ''STRING''), (''allowNull'', ''false'')]),
         (''value'', [(''type'', ''STRING''), (''allowNull'', ''false'')]),
         (''createdAt'', [(''allowNull'', ''false''), (''type'', ''DATE'')]),
         (''updatedAt'', [(''allowNull'', ''false''), (''type'', ''DATE'')])] []],
     mig_down = [DropTable ''AccountSettings'']\<rparr>"

definition mig_20220520170912 :: migration where
  "mig_20220520170912 = \<lparr>mig_name = ''20220520170912-create-kraken-deposit'',
     mig_up = [CreateTable ''KrakenDeposits''
        [(''id'', [(''allowNull'', ''false''), (''autoIncrement'', ''true''), (''primaryKey'', ''true''), (''type'', ''INTEGER'')]),
         (''account_id'', [(''type'', ''INTEGER''), (''allowNull'', ''false'')]),
         (''kraken_account_id'', [(''type'', ''INTEGER''), (''allowNull'', ''false'')]),
         (''method'', [(''type'', ''STRING''), (''allowNull'', ''false'')]),
         (''aclass'', [(''type'', ''STRING''), (''allowNull'', ''false'')]),
         (''asset'', [(''type'', ''STRING''), (''allowNull'', ''false'')]),
         (''refid'', [(''type'', ''STRING''), (''allowNull'', ''false'')]),
         (''txid'', [(''type'', ''STRING''), (''allowNull'', ''false'')]),
         (''info'', [(''type'', ''STRING''), (''allowNull'', ''false'')]),
         (''amount'', [(''type'', ''STRING''), (''allowNull'', ''false'')]),
         (''fee'', [(''type'', ''STRING''), (''allowNull'', ''false'')]),
         (''time'', [(''type'', ''INTEGER''), (''allowNull'', ''false'')]),
         (''status'', [(''type'', ''STRING''), (''allowNull'', ''false'')]),
         (''createdAt'', [(''allowNull'', ''false''), (''type'', ''DATE'')]),
         (''updatedAt'', [(''allowNull'', ''false''), (''type'', ''DATE'')])] []],
     mig_down = [DropTable ''KrakenDeposits'']\<rparr>"

definition mig_20220522204858 :: migration where
  "mig_20220522204858 = \<lparr>mig_name = ''20220522204858-add-invoice-uid-to-events'',
     mig_up = [AddColumn ''events'' ''invoice_uid'' [(''type'', ''STRING''), (''allowNull'', ''true'')]],
     mig_down = [RemoveColumn ''events'' ''invoice_uid'']\<rparr>"

definition mig_20220531083436 :: migration where
  "mig_20220531083436 = \<lparr>mig_name = ''20220531083436-add-indexes-to-kraken-deposits'',
     mig_up = [AddIndex ''KrakenDeposits'' ''kraken_deposits_account_id_txid'' [(''fields'', ''[`account_id`,`txid`]''), (''unique'', ''false'')],
      AddIndex ''KrakenDeposits'' ''kraken_deposits_txid'' [(''fields'', ''[`txid`]''), (''unique'', ''false'')],
      AddIndex ''KrakenDeposits'' ''kraken_deposits_account_id'' [(''fields'', ''[`account_id`]''), (''unique'', ''false'')]],
     mig_down = []\<rparr>"

definition mig_20220531211646 :: migration where
  "mig_20220531211646 = \<lparr>mig_name = ''20220531211646-add-tradeid-to-kraken-trade'',
     mig_up = [AddColumn ''KrakenTrades'' ''tradeid'' [(''type'', ''STRING'')],
      AddColumn ''KrakenTrades'' ''account_id'' [(''type'', ''INTEGER'')],
      AddColumn ''KrakenTrades'' ''date'' [(''type'', ''DATE'')]],
     mig_down = [RemoveColumn ''KrakenTrades'' ''tradeid'',
      RemoveColumn ''KrakenTrades'' ''account_id'',
      RemoveColumn ''KrakenTrades'' ''date'']\<rparr>"

definition mig_20220609153633 :: migration where
  "mig_20220609153633 = \<lparr>mig_name = ''20220609153633-kraken-account-autosell-allow-null'',
     mig_up = [ChangeColumn ''KrakenAccounts'' ''autosell'' [(''type'', ''ARRAY(STRING)''), (''allowNull'', ''true''), (''defaultValue'', ''[]'')]],
     mig_down = []\<rparr>"

definition mig_20220609224553 :: migration where
  "mig_20220609224553 = \<lparr>mig_name = ''20220609224553-add-refund-invoice-uid-and-address-to-refund'',
     mig_up = [AddColumn ''Refunds'' ''original_invoice_uid'' [(''type'', ''STRING''), (''allowNull'', ''false'')],
      AddColumn ''Refunds'' ''refund_invoice_uid'' [(''type'', ''STRING''), (''allowNull'', ''false'')],
      AddColumn ''Refunds'' ''address'' [(''type'', ''STRING''), (''allowNull'', ''false'')],
      AddColumn ''Refunds'' ''status'' [(''type'', ''STRING''), (''defaultValue'', ''`unpaid`''), (''allowNull'', ''false'')],
      RemoveColumn ''Refunds'' ''invoice_uid'',
      RemoveColumn ''Refunds'' ''txid'',
      RemoveColumn ''Refunds'' ''rawtx''],
     mig_down = [RemoveColumn ''Refunds'' ''original_invoice_uid'',
      RemoveColumn ''Refunds'' ''refund_invoice_uid'',
      RemoveColumn ''Refunds'' ''address'',
      RemoveColumn ''Refunds'' ''status'']\<rparr>"

definition mig_20220614215550 :: migration where
  "mig_20220614215550 = \<lparr>mig_name = ''20220614215550-add-txid-to-refund'',
     mig_up = [AddColumn ''Refunds'' ''txid'' [(''type'', ''STRING'')]],
     mig_down = [RemoveColumn ''Refunds'' ''txid'']\<rparr>"

definition mig_20220615164640 :: migration where
  "mig_20220615164640 = \<lparr>mig_name = ''20220615164640-add-fee-to-payment'',
     mig_up = [AddColumn ''payments'' ''total_input'' [(''type'', ''INTEGER'')],
      AddColumn ''payments'' ''total_output'' [(''type'', ''INTEGER'')],
      AddColumn ''payments'' ''network_fee'' [(''type'', ''INTEGER'')]],
     mig_down = [RemoveColumn ''payments'' ''total_input'',
      RemoveColumn ''payments'' ''total_output'',
      RemoveColumn ''payments'' ''network_fee'']\<rparr>"

definition mig_20220615222431 :: migration where
  "mig_20220615222431 = \<lparr>mig_name = ''20220615222431-add-confirmation-to-payment'',
     mig_up = [AddColumn ''payments'' ''confirmation_date'' [(''type'', ''DATE''), (''allowNull'', ''true'')],
      AddColumn ''payments'' ''confirmation_hash'' [(''type'', ''STRING''), (''allowNull'', ''true'')],
      AddColumn ''payments'' ''confirmation_height'' [(''type'', ''INTEGER''), (''allowNull'', ''true'')]],
     mig_down = [RemoveColumn ''payments'' ''confirmation_height'',
      RemoveColumn ''payments'' ''confirmation_hash'',
      RemoveColumn ''payments'' ''confirmation_date'']\<rparr>"

definition mig_20220630140546 :: migration where
  "mig_20220630140546 = \<lparr>mig_name = ''20220630140546-add-indexes-to-events'',
     mig_up = [AddIndex ''events'' ''events_invoice_uid'' [(''fields'', ''[`invoice_uid`]''), (''unique'', ''false'')],
      AddIndex ''events'' ''events_invoice_uid_created_at'' [(''fields'', ''[`invoice_uid`,`createdAt`]''), (''unique'', ''false'')]],
     mig_down = [DropIndex ''events_invoice_uid_created_at'',
      DropIndex ''events_invoice_uid'']\<rparr>"

definition mig_20220707182140 :: migration where
  "mig_20220707182140 = \<lparr>mig_name = ''20220707182140-create-wallet-bot'',
     mig_up = [CreateTable ''WalletBots''
        [(''id'', [(''allowNull'', ''false''), (''autoIncrement'', ''true''), (''primaryKey'', ''true''), (''type'', ''INTEGER'')]),
         (''identifier'', [(''type'', ''TEXT'')]),
         (''name'', [(''type'', ''STRING'')]),
         (''account_id'', [(''type'', ''INTEGER'')]),
         (''app_id'', [(''type'', ''INTEGER'')]),
         (''slack_webhook_url'', [(''type'', ''STRING'')]),
         (''webhook_url'', [(''type'', ''STRING'')]),
         (''email_address'', [(''type'', ''STRING'')]),
         (''createdAt'', [(''allowNull'', ''false''), (''type'', ''DATE'')]),
         (''updatedAt'', [(''allowNull'', ''false''), (''type'', ''DATE'')])] []],
     mig_down = [DropTable ''WalletBots'']\<rparr>"

definition mig_20220723001154 :: migration where
  "mig_20220723001154 = \<lparr>mig_name = ''20220723001154-add-memo-to-invoices'',
     mig_up = [AddColumn ''invoices'' ''memo'' [(''type'', ''STRING''), (''allowNull'', ''true'')]],
     mig_down = [RemoveColumn ''invoices'' ''memo'']\<rparr>"

definition mig_20220726231018 :: migration where
  "mig_20220726231018 = \<lparr>mig_name = ''20220726231018-add-fee-rate-level-to-invoice'',
     mig_up = [AddColumn ''invoices'' ''fee_rate_level'' [(''type'', ''STRING''), (''defaultValue'', ''`fastestFee`'')]],
     mig_down = [RemoveColumn ''invoices'' ''fee_rate_level'']\<rparr>"

definition mig_20220727195101 :: migration where
  "mig_20220727195101 = \<lparr>mig_name = ''20220727195101-create-linked-account'',
     mig_up = [CreateTable ''LinkedAccounts''
        [(''id'', [(''allowNull'', ''false''), (''autoIncrement'', ''true''), (''primaryKey'', ''true''), (''type'', ''INTEGER'')]),
         (''source'', [(''type'', ''INTEGER''), (''allowNull'', ''false'')]),
         (''target'', [(''type'', ''INTEGER''), (''allowNull'', ''false'')]),
         (''createdAt'', [(''allowNull'', ''false''), (''type'', ''DATE'')]),
         (''updatedAt'', [(''allowNull'', ''false''), (''type'', ''DATE'')])] []],
     mig_down = [DropTable ''LinkedAccounts'']\<rparr>"

definition mig_20220822153416 :: migration where
  "mig_20220822153416 = \<lparr>mig_name = ''20220822153416-allow-duplicate-app-name'',
     mig_up = [],
     mig_down = []\<rparr>"

definition mig_20220919224102 :: migration where
  "mig_20220919224102 = \<lparr>mig_name = ''20220919224102-index-type-account-id-invoice-uid-on-events'',
     mig_up = [AddIndex ''events'' ''events_by_type'' [(''fields'', ''[`type`]'')],
      AddIndex ''events'' ''events_by_account_id'' [(''fields'', ''[`account_id`]'')],
      AddIndex ''events'' ''events_by_invoice_uid'' [(''fields'', ''[`invoice_uid`]'')],
      AddIndex ''events'' ''events_by_account_id_and_type'' [(''fields'', ''[`type`,`account_id`]'')],
      AddIndex ''events'' ''events_by_invoice_uid_and_type'' [(''fields'', ''[`type`,`invoice_uid`]'')]],
     mig_down = [RemoveIndex ''events'' ''events_by_type'',
      RemoveIndex ''events'' ''events_by_account_id'',
      RemoveIndex ''events'' ''events_by_invoice_uid'',
      RemoveIndex ''events'' ''events_by_account_id_and_type'',
      RemoveIndex ''events'' ''events_by_invoice_uid_and_type'']\<rparr>"

definition mig_20220921032336 :: migration where
  "mig_20220921032336 = \<lparr>mig_name = ''20220921032336-add-tx-key-to-payment'',
     mig_up = [AddColumn ''payments'' ''tx_key'' [(''type'', ''STRING''), (''allowNull'', ''true'')]],
     mig_down = [RemoveColumn ''payments'' ''tx_key'']\<rparr>"

definition mig_20221006225150 :: migration where
  "mig_20221006225150 = \<lparr>mig_name = ''20221006225150-add-namespace-to-events'',
     mig_up = [AddColumn ''events'' ''namespace'' [(''type'', ''STRING'')]],
     mig_down = [RemoveColumn ''events'' ''namespace'']\<rparr>"

definition mig_20221006225326 :: migration where
  "mig_20221006225326 = \<lparr>mig_name = ''20221006225326-add-error-to-events'',
     mig_up = [AddColumn ''events'' ''error'' [(''type'', ''BOOLEAN'')]],
     mig_down = [RemoveColumn ''events'' ''error'']\<rparr>"

definition mig_20230106022419 :: migration where
  "mig_20230106022419 = \<lparr>mig_name = ''20230106022419-add-status-to-payments'',
     mig_up = [AddColumn ''payments'' ''status'' [(''type'', ''STRING''), (''defaultValue'', ''`confirming`'')]],
     mig_down = [RemoveColumn ''payments'' ''status'']\<rparr>"

definition mig_20230107012558 :: migration where
  "mig_20230107012558 = \<lparr>mig_name = ''20230107012558-add-payload-to-webhook'',
     mig_up = [AddColumn ''Webhooks'' ''payload'' [(''type'', ''JSON''), (''allowNull'', ''false''), (''defaultValue'', ''{}'')]],
     mig_down = [RemoveColumn ''Webhooks'' ''payload'']\<rparr>"

definition mig_20230203141754 :: migration where
  "mig_20230203141754 = \<lparr>mig_name = ''20230203141754-add-app-id-and-index-to-events'',
     mig_up = [AddColumn ''events'' ''app_id'' [(''type'', ''INTEGER'')]],
     mig_down = [RemoveColumn ''events'' ''app_id'']\<rparr>"

definition mig_20230210121550 :: migration where
  "mig_20230210121550 = \<lparr>mig_name = ''20230210121550-create-app-webhook'',
     mig_up = [CreateTable ''AppWebhooks''
        [(''id'', [(''allowNull'', ''false''), (''autoIncrement'', ''true''), (''primaryKey'', ''true''), (''type'', ''INTEGER'')]),
         (''app_id'', [(''type'', ''INTEGER''), (''allowNull'', ''false'')]),
         (''url'', [(''type'', ''STRING''), (''allowNull'', ''false'')]),
         (''enabled'', [(''type'', ''BOOLEAN''), (''defaultValue'', ''true'')]),
         (''events_whitelist'', [(''type'', ''JSON''), (''defaultValue'', ''[`*`]'')]),
         (''events_blacklist'', [(''type'', ''JSON''), (''defaultValue'', ''[]'')]),
         (''createdAt'', [(''allowNull'', ''false''), (''type'', ''DATE'')]),
         (''updatedAt'', [(''allowNull'', ''false''), (''type'', ''DATE'')])] []],
     mig_down = [DropTable ''AppWebhooks'']\<rparr>"

definition mig_20230312204051 :: migration where
  "mig_20230312204051 = \<lparr>mig_name = ''20230312204051-add-chain-to-payment'',
     mig_up = [AddColumn ''payments'' ''chain'' [(''type'', ''STRING'')],
      AddColumn ''payment_options'' ''chain'' [(''type'', ''STRING'')]],
     mig_down = [RemoveColumn ''payments'' ''chain'',
      RemoveColumn ''payment_options'' ''chain'']\<rparr>"

definition mig_20230313201716 :: migration where
  "mig_20230313201716 = \<lparr>mig_name = ''20230313201716-create-address-balance-update'',
     mig_up = [CreateTable ''AddressBalanceUpdates''
        [(''id'', [(''allowNull'', ''false''), (''autoIncrement'', ''true''), (''primaryKey'', ''true''), (''type'', ''INTEGER'')]),
         (''difference'', [(''type'', ''DECIMAL'')]),
         (''chain'', [(''type'', ''STRING'')]),
         (''currency'', [(''type'', ''STRING'')]),
         (''address'', [(''type'', ''STRING'')]),
         (''balance'', [(''type'', ''DECIMAL'')]),
         (''wallet_bot_id'', [(''type'', ''INTEGER'')]),
         (''account_id'', [(''type'', ''INTEGER'')]),
         (''createdAt'', [(''allowNull'', ''false''), (''type'', ''DATE'')]),
         (''updatedAt'', [(''allowNull'', ''false''), (''type'', ''DATE'')])] []],
     mig_down = [DropTable ''AddressBalanceUpdates'']\<rparr>"

definition mig_20230417222643 :: migration where
  "mig_20230417222643 = \<lparr>mig_name = ''20230417222643-add-chain-to-addresses'',
     mig_up = [AddColumn ''addresses'' ''chain'' [(''type'', ''STRING'')]],
     mig_down = [RemoveColumn ''addresses'' ''chain'']\<rparr>"

definition mig_20230616123707 :: migration where
  "mig_20230616123707 = \<lparr>mig_name = ''20230616123707-create-evm-transaction-receipt'',
     mig_up = [CreateTable ''EvmTransactionReceipts''
        [(''id'', [(''allowNull'', ''false''), (''autoIncrement'', ''true''), (''primaryKey'', ''true''), (''type'', ''INTEGER'')]),
         (''txid'', [(''type'', ''STRING'')]),
         (''receipt'', [(''type'', ''JSON'')]),
         (''createdAt'', [(''allowNull'', ''false''), (''type'', ''DATE'')]),
         (''updatedAt'', [(''allowNull'', ''false''), (''type'', ''DATE'')])] []],
     mig_down = [DropTable ''EvmTransactionReceipts'']\<rparr>"

definition mig_20230627132805 :: migration where
  "mig_20230627132805 = \<lparr>mig_name = ''20230627132805-add-chain-currency-to-coins-table'',
     mig_up = [AddColumn ''coins'' ''currency'' [(''type'', ''STRING'')],
      AddColumn ''coins'' ''chain'' [(''type'', ''STRING'')]],
     mig_down = [RemoveColumn ''coins'' ''chain'',
      RemoveColumn ''coins'' ''currency'']\<rparr>"

definition migrations_d :: "migration list" where
  "migrations_d = [
     mig_20210105172437, mig_20210115201836, mig_20210116163619, mig_20210116163633,
     mig_20210123222330, mig_20210129013749, mig_20210129020155, mig_2021020336000,
     mig_20210227211611, mig_20210324003321, mig_20210401190336, mig_20210518112328,
     mig_20210525202848, mig_20210622125002, mig_20210622130131, mig_20210710062005,
     mig_20210811200810, mig_20210814065911, mig_20210815080438, mig_20211118155045,
     mig_20211122194929, mig_20220222135817, mig_20220226112026, mig_20220226123856,
     mig_20220226131425, mig_20220226175858, mig_20220228123500, mig_20220308014028,
     mig_20220308015901, mig_20220327161053, mig_20220328123910, mig_20220331151354,
     mig_20220402111141, mig_20220414152455, mig_20220514144233, mig_20220520170912,
     mig_20220522204858, mig_20220531083436, mig_20220531211646, mig_20220609153633,
     mig_20220609224553, mig_20220614215550, mig_20220615164640, mig_20220615222431,
     mig_20220630140546, mig_20220707182140, mig_20220723001154, mig_20220726231018,
     mig_20220727195101, mig_20220822153416, mig_20220919224102, mig_20220921032336,
     mig_20221006225150, mig_20221006225326, mig_20230106022419, mig_20230107012558,
     mig_20230203141754, mig_20230210121550, mig_20230312204051, mig_20230313201716,
     mig_20230417222643, mig_20230616123707, mig_20230627132805]"

lemmas migrations_d_defs = migrations_d_def
  mig_20210105172437_def mig_20210115201836_def mig_20210116163619_def mig_20210116163633_def
  mig_20210123222330_def mig_20210129013749_def mig_20210129020155_def mig_2021020336000_def
  mig_20210227211611_def mig_20210324003321_def mig_20210401190336_def mig_20210518112328_def
  mig_20210525202848_def mig_20210622125002_def mig_20210622130131_def mig_20210710062005_def
  mig_20210811200810_def mig_20210814065911_def mig_20210815080438_def mig_20211118155045_def
  mig_20211122194929_def mig_20220222135817_def mig_20220226112026_def mig_20220226123856_def
  mig_20220226131425_def mig_20220226175858_def mig_20220228123500_def mig_20220308014028_def
  mig_20220308015901_def mig_20220327161053_def mig_20220328123910_def mig_20220331151354_def
  mig_20220402111141_def mig_20220414152455_def mig_20220514144233_def mig_20220520170912_def
  mig_20220522204858_def mig_20220531083436_def mig_20220531211646_def mig_20220609153633_def
  mig_20220609224553_def mig_20220614215550_def mig_20220615164640_def mig_20220615222431_def
  mig_20220630140546_def mig_20220707182140_def mig_20220723001154_def mig_20220726231018_def
  mig_20220727195101_def mig_20220822153416_def mig_20220919224102_def mig_20220921032336_def
  mig_20221006225150_def mig_20221006225326_def mig_20230106022419_def mig_20230107012558_def
  mig_20230203141754_def mig_20230210121550_def mig_20230312204051_def mig_20230313201716_def
  mig_20230417222643_def mig_20230616123707_def mig_20230627132805_def

end
