(* ===== verification/MigrationFacts.thy ===== *)
theory MigrationFacts
  imports MigrationSetA MigrationSetB MigrationSetC MigrationSetD
begin

text \<open>
  All the migrations together: which of them their \<open>down\<close> undoes, and where a run on an empty
  database stops. Each list is computed by rewriting, one theory's migrations at a time.
\<close>

definition all_migrations :: "migration list" where
  "all_migrations = migrations_a @ migrations_b @ migrations_c @ migrations_d"

section \<open>Downs that undo their up\<close>

text \<open>
  The migrations outside the two shapes. Most of them have an empty \<open>down\<close>, or change a column,
  whose former attributes the schema does not keep; four (\<open>20190328181706\<close>, \<open>20201005230254\<close>,
  \<open>20210129013749\<close>, \<open>20220919224102\<close>) are undone in another order, beside a raw query, or by
  renaming a table back.
\<close>

definition other_migrations :: "string list" where
  "other_migrations =
    [''20180612233239-add-amounts-percents-to-dash-back-merchants'',
     ''20180615171415-add-lightning-uri-to-accounts'',
     ''20180711185751-add-denomination-invoice-amounts-to-invoice'',
     ''20190306002706-rename-dashback-to-cashback'',
     ''20190322030230-allow-no-email-accounts'',
     ''20190328181706-create-tip-jar'',
     ''20200122000557-remove-payout-addresses'',
     ''20200302040708-add-state-country-latitude-longitude-stub-to-cities'',
     ''20200708154313_add-supported-to-coins'',
     ''20200729153301-add-index-invoice-account-id'',
     ''20200819165411-add-payment-option-id-to-payment'',
     ''20200819172253-rename-payment-fields'',
     ''20200826194859-add-app-id-to-access-token'',
     ''20200827233206-remove-deprecated-fields-from-invoices'',
     ''20200828024011-remove-address-amount-from-payment-option'',
     ''20201005230254-add-position-to-account'',
     ''20210129013749-rename-settlements-to-bitpay-settlements'',
     ''20210129020155-require-account-id-in-bitpay-settlement'',
     ''20210401190336-unique-invoice-uid-for-anypayx-credits'',
     ''20210814065911-change-address-value-to-text'',
     ''20220308014028-allow-txjson-to-be-null'',
     ''20220531083436-add-indexes-to-kraken-deposits'',
     ''20220609153633-kraken-account-autosell-allow-null'',
     ''20220609224553-add-refund-invoice-uid-and-address-to-refund'',
     ''20220630140546-add-indexes-to-events'',
     ''20220919224102-index-type-account-id-invoice-uid-on-events'']"

lemma others_a: "list_all (\<lambda>m. reversible m \<or> mig_name m \<in> set other_migrations) migrations_a"
  by code_simp

lemma others_b: "list_all (\<lambda>m. reversible m \<or> mig_name m \<in> set other_migrations) migrations_b"
  by code_simp

lemma others_c: "list_all (\<lambda>m. reversible m \<or> mig_name m \<in> set other_migrations) migrations_c"
  by code_simp

lemma others_d: "list_all (\<lambda>m. reversible m \<or> mig_name m \<in> set other_migrations) migrations_d"
  by code_simp

lemma reversible_or_other:
  assumes "m \<in> set all_migrations" and "mig_name m \<notin> set other_migrations"
  shows "reversible m"
  using assms others_a others_b others_c others_d by (auto simp: all_migrations_def list_all_iff)

text \<open>
  C32. Of the 222 migrations all but the 26 of \<open>other_migrations\<close> are undone by their \<open>down\<close>:
  where \<open>up\<close> ran through on a schema that did not have the tables it creates, \<open>down\<close> runs
  through after it, and leaves the very schema from before \<open>up\<close>, every table, column, attribute and
  index of it. It holds of every query interface with the documented behaviour.
\<close>

theorem migrations_are_undone:
  assumes "query_interface qi" and "m \<in> set all_migrations" and "mig_name m \<notin> set other_migrations"
    and "creates_fresh qi (mig_up m) s" and "run_calls qi (mig_up m) s = Inr s1"
  shows "run_calls qi (mig_down m) s1 = Inr s"
  by (rule query_interface.reversible_undone [OF assms(1) reversible_or_other [OF assms(2,3)] assms(4,5)])

definition demo_schema :: schema where
  "demo_schema = with_table ''invoices'' (Some (map_of [(''id'', [(''type'', ''INTEGER'')])])) empty_schema"

lemma demo_migration:
  "mig_20170830170230 \<in> set all_migrations" "mig_name mig_20170830170230 \<notin> set other_migrations"
  "creates_fresh pg_call (mig_up mig_20170830170230) demo_schema"
  "\<exists>s1. run_calls pg_call (mig_up mig_20170830170230) demo_schema = Inr s1"
  by (simp_all add: all_migrations_def migrations_a_def mig_20170830170230_def other_migrations_def demo_schema_def
      on_table_def add_column_def)

theorem migrations_are_undone_witness:
  "\<exists>s1. run_calls pg_call (mig_up mig_20170830170230) demo_schema = Inr s1 \<and>
     run_calls pg_call (mig_down mig_20170830170230) s1 = Inr demo_schema"
proof -
  from demo_migration(4) obtain s1 where s1: "run_calls pg_call (mig_up mig_20170830170230) demo_schema = Inr s1" ..
  from migrations_are_undone [OF pgq.query_interface_axioms demo_migration(1-3) s1] s1 show ?thesis by blast
qed

section \<open>An empty database\<close>

context query_interface
begin

lemma is_pg_call: "qi = pg_call"
  by (intro ext, rename_tac c s, case_tac c) (simp_all add: laws)

end

lemma migrate_append:
  "migrate qi (ms @ ns) s = (case migrate qi ms s of Inl e \<Rightarrow> Inl e | Inr s' \<Rightarrow> migrate qi ns s')"
  by (induction ms arbitrary: s) (auto split: sum.splits)

lemma first_year_stops:
  "case migrate pg_call migrations_a empty_schema of
     Inl e \<Rightarrow> e = (''20180711185751-add-denomination-invoice-amounts-to-invoice'', ColumnExists ''invoices'' ''amount'')
   | Inr _ \<Rightarrow> False"
  by code_simp

lemma stops_there:
  assumes "query_interface qi"
  shows "migrate qi all_migrations empty_schema =
    Inl (''20180711185751-add-denomination-invoice-amounts-to-invoice'', ColumnExists ''invoices'' ''amount'')"
  unfolding query_interface.is_pg_call [OF assms] all_migrations_def migrate_append
  using first_year_stops by (auto split: sum.splits)



section \<open>Downs that fail\<close>

text \<open>
  The \<open>down\<close> of \<open>20200708154313\<close> removes the column it added to \<open>coins\<close> from \<open>accounts\<close>; that of
  \<open>20220630140546\<close> calls \<open>dropIndex\<close>, which the query interface does not have.
\<close>

lemma supported_stays:
  assumes "query_interface qi" and "sc_tables s ''accounts'' = Some cs" and "cs ''supported'' = None"
    and "run_calls qi (mig_up mig_20200708154313) s = Inr s1"
  shows "run_calls qi (mig_down mig_20200708154313) s1 = Inl (NoColumn ''accounts'' ''supported'')"
  using assms(2-)
  by (auto simp: mig_20200708154313_def query_interface.laws [OF assms(1)] on_table_def add_column_def
      remove_column_def split: option.splits if_splits)

lemma events_indexes_stay:
  assumes "query_interface qi"
  shows "run_calls qi (mig_down mig_20220630140546) s = Inl NotAFunction"
  by (simp add: mig_20220630140546_def query_interface.laws [OF assms])

end
