(* ===== verification/Logs.thy ===== *)
theory Logs
  imports Events
begin

text \<open>
  The log, \<open>src/lib/log.ts\<close>: what \<open>Logger\<close> stores in the table \<open>events\<close> and publishes. The transports
  of \<open>winston\<close> are left out, and so is \<open>debug\<close>, which writes to nothing else. Messages go out
  through \<open>publish\<close> of the package \<open>rabbi\<close>, a parameter.
\<close>

section \<open>Data\<close>

text \<open>What \<open>info\<close> reads of a payload, besides passing it on.\<close>

record log_payload =
  lp_json :: json
  lp_account_id :: "nat option"
  lp_app_id :: "nat option"
  lp_invoice_uid :: "string option"

datatype log_message = RecordMessage event_row | TopicMessage string log_payload

type_synonym rabbi = "string \<Rightarrow> log_message \<Rightarrow> unit prog"

record logger =
  lg_namespace :: string

definition new_Logger :: "string option \<Rightarrow> logger" where
  "new_Logger ns = \<lparr>lg_namespace = the (str_or ns (Some ''anypay''))\<rparr>"

record log_query =
  lq_type :: "string option"
  lq_payload :: "json option"
  lq_limit :: "nat option"
  lq_offset :: "nat option"
  lq_descending :: bool
  lq_error :: bool

definition any_entry :: log_query where
  "any_entry = \<lparr>lq_type = None, lq_payload = None, lq_limit = None, lq_offset = None,
     lq_descending = False, lq_error = False\<rparr>"

section \<open>Operations\<close>

text \<open>To a consumer of all events of somebody, and to one of this topic only.\<close>

definition publish_both :: "rabbi \<Rightarrow> string \<Rightarrow> string \<Rightarrow> log_payload \<Rightarrow> unit prog" where
  "publish_both rabbi routing_key topic payload =
     bnd (rabbi routing_key (TopicMessage topic payload)) (\<lambda>_.
     rabbi (routing_key @ ''.'' @ topic) (TopicMessage topic payload))"

text \<open>The messages about a new row; all but the first are awaited.\<close>

definition announce :: "rabbi \<Rightarrow> string \<Rightarrow> log_payload \<Rightarrow> event_row \<Rightarrow> event_row prog" where
  "announce rabbi topic payload entry =
     bnd (not_awaited (rabbi ''events.created'' (RecordMessage entry))) (\<lambda>_.
     bnd (rabbi topic (TopicMessage topic payload)) (\<lambda>_.
     bnd (case id_or_undefined (lp_account_id payload) of None \<Rightarrow> ret ()
          | Some n \<Rightarrow> publish_both rabbi (account_key n) topic payload) (\<lambda>_.
     bnd (case id_or_undefined (lp_app_id payload) of None \<Rightarrow> ret ()
          | Some n \<Rightarrow> publish_both rabbi (app_key n) topic payload) (\<lambda>_.
     bnd (if truthy (lp_invoice_uid payload)
          then publish_both rabbi (invoice_key (the (lp_invoice_uid payload))) topic payload else ret ()) (\<lambda>_.
     ret entry)))))"

definition Logger_info :: "prisma \<Rightarrow> rabbi \<Rightarrow> logger \<Rightarrow> string \<Rightarrow> log_payload \<Rightarrow> event_row prog" where
  "Logger_info P rabbi lg topic payload =
     bnd (reads now) (\<lambda>t.
     bnd (create_row (prisma_events P) (\<lambda>i. \<lparr>evt_id = i, evt_type = topic, evt_payload = lp_json payload,
            evt_account_id = lp_account_id payload, evt_app_id = None, evt_invoice_uid = lp_invoice_uid payload,
            evt_namespace = Some (lg_namespace lg), evt_error = Some False, evt_createdAt = t\<rparr>)) (\<lambda>entry.
     announce rabbi topic payload entry))"

definition Logger_error :: "prisma \<Rightarrow> logger \<Rightarrow> string \<Rightarrow> string \<Rightarrow> event_row prog" where
  "Logger_error P lg error_type message =
     bnd (reads now) (\<lambda>t.
     create_row (prisma_events P) (\<lambda>i. \<lparr>evt_id = i, evt_type = error_type, evt_payload = ErrorJson message,
       evt_account_id = None, evt_app_id = None, evt_invoice_uid = None,
       evt_namespace = Some (lg_namespace lg), evt_error = Some True, evt_createdAt = t\<rparr>))"

definition asked_for :: "logger \<Rightarrow> log_query \<Rightarrow> event_row \<Rightarrow> bool" where
  "asked_for lg query r \<longleftrightarrow>
     evt_namespace r = Some (lg_namespace lg) \<and> evt_error r = Some (lq_error query) \<and>
     (truthy (lq_type query) \<longrightarrow> Some (evt_type r) = lq_type query) \<and>
     (lq_payload query \<noteq> None \<longrightarrow> Some (evt_payload r) = lq_payload query)"

definition Logger_read :: "prisma \<Rightarrow> logger \<Rightarrow> log_query \<Rightarrow> event_row list prog" where
  "Logger_read P lg query =
     bnd (find_sorted (prisma_events P) (\<lambda>r. if lq_descending query then - evt_createdAt r else evt_createdAt r)
            (asked_for lg query))
       (\<lambda>records. ret (take (or_default (lq_limit query) 100) (drop (or_default (lq_offset query) 0) records)))"

section \<open>Reading back\<close>

text \<open>Publishing leaves the table of events alone.\<close>

definition keeps_events :: "rabbi \<Rightarrow> bool" where
  "keeps_events rabbi \<longleftrightarrow> (\<forall>key m w. db_events (snd (rabbi key m w)) = db_events w)"

definition same_events :: "world \<Rightarrow> world \<Rightarrow> bool" where
  "same_events w w' \<longleftrightarrow> db_events w' = db_events w"

interpretation log_kept: history same_events
  by unfold_locales (auto simp: same_events_def)

lemma keeps_eventsD: "keeps_events rabbi \<Longrightarrow> follows same_events (rabbi key m)"
  by (simp add: keeps_events_def follows_def same_events_def)

lemma same_events_not_awaited: "follows same_events m \<Longrightarrow> follows same_events (not_awaited m)"
  by (auto simp: follows_def same_events_def not_awaited_def split: prod.splits sum.splits)
    (metis snd_conv)+

lemma same_events_both: "keeps_events rabbi \<Longrightarrow> follows same_events (publish_both rabbi key topic payload)"
  unfolding publish_both_def by (intro log_kept.follows_rules keeps_eventsD)

lemma announce_kept: "keeps_events rabbi \<Longrightarrow> follows same_events (announce rabbi topic payload entry)"
  unfolding announce_def
  by (intro log_kept.follows_rules same_events_not_awaited same_events_both keeps_eventsD)

text \<open>What a creation and what follows it leave in the table.\<close>

lemma Logger_info_row:
  assumes "prisma_client P" and "keeps_events rabbi" and "Logger_info P rabbi lg topic payload w = (r, w')"
  obtains logged where "db_events w' = db_events w @ [Some logged]" and "evt_type logged = topic"
    and "evt_payload logged = lp_json payload" and "evt_namespace logged = Some (lg_namespace lg)"
    and "evt_error logged = Some False" and "\<And>found. r = Inr found \<Longrightarrow> found = logged"
proof -
  let ?entry = "\<lparr>evt_id = next_id (db_events w), evt_type = topic, evt_payload = lp_json payload,
      evt_account_id = lp_account_id payload, evt_app_id = None, evt_invoice_uid = lp_invoice_uid payload,
      evt_namespace = Some (lg_namespace lg), evt_error = Some False, evt_createdAt = now w\<rparr>"
  let ?v = "w\<lparr>db_events := db_events w @ [Some ?entry]\<rparr>"
  have run: "announce rabbi topic payload ?entry ?v = (r, w')"
    using assms(3) by (simp add: Logger_info_def prisma_client.create_events [OF assms(1)] io_simps)
  then have "same_events ?v w'" using announce_kept [OF assms(2)] by (metis follows_def snd_conv)
  then have "db_events w' = db_events w @ [Some ?entry]" by (simp add: same_events_def)
  moreover have "found = ?entry" if "r = Inr found" for found
    using run unfolding that announce_def by (elim bnd_Inr_E) (simp add: ret_run)
  ultimately show thesis by (intro that [of ?entry]) simp_all
qed

lemma Logger_read_run:
  assumes "prisma_client P"
  shows "fst (Logger_read P lg query w) = Inr (take (or_default (lq_limit query) 100) (drop (or_default (lq_offset query) 0)
      (api_sorted (api_events P) (\<lambda>r. if lq_descending query then - evt_createdAt r else evt_createdAt r)
        (asked_for lg query) (db_events w))))"
    "snd (Logger_read P lg query w) = w"
  by (simp_all add: Logger_read_def io_simps prisma_events_def)

definition entries :: "logger \<Rightarrow> log_query \<Rightarrow> world \<Rightarrow> event_row list" where
  "entries lg query w = filter (asked_for lg query) (rows (db_events w))"

context prisma_client
begin

lemma read_entries:
  assumes "lq_limit query = None" and "lq_offset query = None" and "length (entries lg query w) \<le> 100"
  obtains found where "Logger_read P lg query w = (Inr found, w)" and "set found = set (entries lg query w)"
proof -
  let ?found = "api_sorted (api_events P) (\<lambda>r. if lq_descending query then - evt_createdAt r else evt_createdAt r)
      (asked_for lg query) (db_events w)"
  have "mset ?found = mset (entries lg query w)" by (simp add: entries_def tev.sorted_mset)
  then have "length ?found = length (entries lg query w)" and set: "set ?found = set (entries lg query w)"
    by (metis size_mset, metis set_mset_mset)
  with assms have "Logger_read P lg query w = (Inr ?found, w)"
    by (intro prod_eqI) (simp_all add: Logger_read_run [OF prisma_client_axioms] or_default_def id_or_undefined_def)
  with set show thesis by (rule that [rotated])
qed

end

section \<open>Properties\<close>


definition local_rabbi :: rabbi where
  "local_rabbi key m = ret ()"

definition demo_log :: "(js_error + event_row) \<times> world" where
  "demo_log = Logger_info pg local_rabbi (new_Logger None) ''invoice.requested''
     \<lparr>lp_json = EmptyJson, lp_account_id = Some 1, lp_app_id = None, lp_invoice_uid = None\<rparr> demo_world"


end
