(* ===== verification/Actors.thy ===== *)
theory Actors
  imports PaymentRequests Reports
begin

text \<open>
  The actors of \<open>src/actors\<close>: each consumes the messages of one routing key from a queue of its own. The class
  \<open>Actor\<close> is of the package \<open>rabbi\<close>: here an actor is its binding and its handler. What the
  code publishes under \<open>invoice.paid\<close> has the keys \<open>topic\<close> and \<open>payload\<close>, but the handlers take
  \<open>uid\<close> from its top level; there it is \<open>undefined\<close>, which is no condition to the client.
\<close>

section \<open>Messages\<close>

text \<open>\<open>json.uid\<close> and \<open>json.id\<close> of a message.\<close>

fun json_uid :: "message \<Rightarrow> string option" where
  "json_uid (InvoiceMsg invoice) = Some (inv_uid invoice)"
| "json_uid _ = None"

fun json_id :: "message \<Rightarrow> nat option" where
  "json_id (PaymentMsg payment) = Some (pay_id payment)"
| "json_id (EventRowMsg event) = Some (evt_id event)"
| "json_id (InvoiceMsg invoice) = Some (inv_id invoice)"
| "json_id _ = None"

definition invoice_where :: "prisma \<Rightarrow> string option \<Rightarrow> invoice prog" where
  "invoice_where P uid = find_first_or_throw (prisma_invoices P) (\<lambda>i. where_is uid (inv_uid i))"

text \<open>
  The text of a message (\<open>msg.content.toString()\<close>), the emails of \<open>src/lib/email.ts\<close> and
  Firebase, which sends a title, a body and a path to a token and never fails.
\<close>

record services =
  sv_content :: "message \<Rightarrow> string"
  sv_invoicePaidEmail :: "invoice \<Rightarrow> unit prog"
  sv_firstInvoicePaidEmail :: "invoice \<Rightarrow> unit prog"
  sv_fcm_send :: "string option \<Rightarrow> string \<Rightarrow> string \<Rightarrow> string \<Rightarrow> unit prog"

record actor =
  act_exchange :: string
  act_routingkey :: string
  act_queue :: string
  act_handler :: "message \<Rightarrow> unit prog"

section \<open>Handlers\<close>

definition refunds_actor :: "prisma \<Rightarrow> message \<Rightarrow> unit prog" where
  "refunds_actor P json =
     bnd (find_first_or_throw (prisma_refunds P) (\<lambda>r. where_is (json_uid json) (rf_refund_invoice_uid r))) (\<lambda>refund.
     if rf_status refund = ''paid'' then ret ()
     else
       bnd (invoice_by_uid P (rf_original_invoice_uid refund)) (\<lambda>_.
       bnd (invoice_where P (json_uid json)) (\<lambda>refund_invoice.
       bnd (update_row (prisma_refunds P) (rf_id refund) (\<lambda>r.
              r\<lparr>rf_txid := inv_hash refund_invoice, rf_status := ''paid''\<rparr>)) (\<lambda>_. ret ()))))"

text \<open>\<open>uid\<close> is the text of the message here.\<close>

definition detect_fees :: "ext \<Rightarrow> prisma \<Rightarrow> string \<Rightarrow> unit prog" where
  "detect_fees E P uid =
     bnd (ensureInvoice P uid) (\<lambda>invoice.
     bnd (getPayment P invoice) (\<lambda>found.
     (case found of
        None \<Rightarrow> ret ()
      | Some payment \<Rightarrow>
          bnd (getMiningFee E (pay_currency payment) (js_String (pay_txhex payment))) (\<lambda>fee.
          bnd (update_row (prisma_payments P) (pay_id payment) (\<lambda>r. r\<lparr>pay_total_input := Some (fr_total_input fee),
                 pay_total_output := Some (fr_total_output fee), pay_network_fee := Some (fr_network_fee fee)\<rparr>)) (\<lambda>_.
          ret ())))))"

definition receipt_email :: "services \<Rightarrow> prisma \<Rightarrow> message \<Rightarrow> unit prog" where
  "receipt_email V P json = bnd (invoice_where P (json_uid json)) (sv_invoicePaidEmail V)"

definition first_receipt_email :: "services \<Rightarrow> prisma \<Rightarrow> string \<Rightarrow> unit prog" where
  "first_receipt_email V P uid =
     bnd (invoice_by_uid P uid) (\<lambda>invoice.
     bnd (find_many (prisma_invoices P) (\<lambda>i. inv_account_id i = inv_account_id invoice \<and> inv_status i = ''paid''))
       (\<lambda>invoices.
     if length invoices = 1 then sv_firstInvoicePaidEmail V invoice else ret ()))"

text \<open>No code gives a webhook the status \<open>paid\<close>, and \<open>attemptWebhook\<close> gets what was found, not what was created.\<close>

definition paid_webhooks :: "ext \<Rightarrow> prisma \<Rightarrow> message \<Rightarrow> unit prog" where
  "paid_webhooks E P json =
     catch
       (bnd (invoice_where P (json_uid json)) (\<lambda>invoice.
        bnd (find_first (prisma_accounts P) (\<lambda>a. acc_id a = (case inv_account_id invoice of None \<Rightarrow> 0 | Some n \<Rightarrow> n)))
          (\<lambda>_.
        bnd (getPaidWebhookForInvoice P invoice) (\<lambda>webhook.
        bnd (attemptWebhook E P webhook) (\<lambda>_. ret ())))))
       (\<lambda>_. ret ())"

text \<open>\<open>sendMessage\<close> of \<open>src/lib/push_notifications\<close>.\<close>

definition sendMessage :: "services \<Rightarrow> prisma \<Rightarrow> string \<Rightarrow> string \<Rightarrow> string \<Rightarrow> string \<Rightarrow> unit prog" where
  "sendMessage V P email title body path =
     bnd (find_first_or_throw (prisma_accounts P) (\<lambda>a. acc_email a = Some email)) (\<lambda>account.
     bnd (find_many (prisma_firebase_tokens P) (\<lambda>t. fbt_account_id t = Some (acc_id account))) (\<lambda>tokens.
     bnd (guard_io (tokens \<noteq> []) (JsError ''no firebase token found'')) (\<lambda>_.
     for_each (\<lambda>t. sv_fcm_send V (fbt_token t) title body path) tokens)))"

text \<open>\<open>prints\<close> is how a template string shows an amount.\<close>

definition push_notification :: "services \<Rightarrow> (num option \<Rightarrow> string) \<Rightarrow> prisma \<Rightarrow> message \<Rightarrow> unit prog" where
  "push_notification V prints P json =
     bnd (invoice_where P (json_uid json)) (\<lambda>invoice.
     bnd (find_first_or_throw (prisma_accounts P)
            (\<lambda>a. acc_id a = (case inv_account_id invoice of None \<Rightarrow> 0 | Some n \<Rightarrow> n))) (\<lambda>account.
     catch (sendMessage V P (js_String (acc_email account))
              (''Payment Received '' @ prints (inv_amount invoice) @ '' '' @ js_String (inv_currency invoice))
              (js_String (inv_currency invoice)) (''/payments/'' @ string_or_undefined (json_uid json)))
       (\<lambda>_. ret ())))"

text \<open>\<open>channel.publish\<close> of \<open>amqplib\<close> takes the exchange, the key and a buffer; without the buffer it throws.\<close>

definition republish_invoice_paid :: "prisma \<Rightarrow> message \<Rightarrow> unit prog" where
  "republish_invoice_paid P json = bnd (invoice_where P (json_uid json)) (\<lambda>_. throw JsTypeError)"

definition webhooks_events :: "ext \<Rightarrow> prisma \<Rightarrow> message \<Rightarrow> unit prog" where
  "webhooks_events E P json =
     bnd (find_first_or_throw (prisma_events P) (\<lambda>r. where_is (json_id json) (evt_id r))) (\<lambda>event.
     (case id_or_undefined (evt_account_id event) of
        None \<Rightarrow> ret ()
      | Some n \<Rightarrow>
          if re_search ''webhook'' (evt_type event) then ret ()
          else
            bnd (find_first_or_throw (prisma_accounts P) (\<lambda>a. acc_id a = n)) (\<lambda>account.
            if \<not> truthy (acc_webhook_url account) then ret ()
            else
              bnd (create_row (prisma_webhooks P) (\<lambda>i. (new_webhook i)\<lparr>wh_url := acc_webhook_url account,
                     wh_account_id := Some (acc_id account), wh_invoice_uid := evt_invoice_uid event,
                     wh_type := Some (evt_type event), wh_payload := evt_payload event\<rparr>)) (\<lambda>webhook.
              bnd (sendWebhook E P webhook) (\<lambda>_. ret ())))))"

text \<open>The invoice of the first query is the one \<open>sendWebhookForInvoice\<close> finds without a uid.\<close>

definition webhooks_actor :: "ext \<Rightarrow> prisma \<Rightarrow> message \<Rightarrow> unit prog" where
  "webhooks_actor E P json =
     catch
       (bnd (invoice_where P (json_uid json)) (\<lambda>invoice.
        bnd (sendWebhookForInvoice E P (inv_uid invoice) ''actor_on_invoice_paid'') (\<lambda>_. ret ())))
       (\<lambda>_. ret ())"

section \<open>Bindings\<close>

definition refunds_start :: "ext \<Rightarrow> prisma \<Rightarrow> actor" where
  "refunds_start E P = \<lparr>act_exchange = cfg_string E ''ANYPAY_AMQP_EXCHANGE'', act_routingkey = ''invoice.paid'',
     act_queue = ''update_refund_paid'', act_handler = refunds_actor P\<rparr>"

definition detect_fees_start :: "services \<Rightarrow> ext \<Rightarrow> prisma \<Rightarrow> actor" where
  "detect_fees_start V E P = \<lparr>act_exchange = cfg_string E ''ANYPAY_AMQP_EXCHANGE'', act_routingkey = ''invoice:paid'',
     act_queue = ''cache_fees_after_payment'', act_handler = (\<lambda>msg. detect_fees E P (sv_content V msg))\<rparr>"

definition receipt_email_start :: "services \<Rightarrow> ext \<Rightarrow> prisma \<Rightarrow> actor list" where
  "receipt_email_start V E P =
     [\<lparr>act_exchange = cfg_string E ''ANYPAY_AMQP_EXCHANGE'', act_routingkey = ''invoice.paid'',
       act_queue = ''send_invoice_paid_email_receipt'', act_handler = receipt_email V P\<rparr>,
      \<lparr>act_exchange = ''anypay:invoices'', act_routingkey = ''invoice:paid'',
       act_queue = ''send_first_invoice_paid_email'', act_handler = (\<lambda>msg. first_receipt_email V P (sv_content V msg))\<rparr>]"

definition paid_webhooks_start :: "ext \<Rightarrow> prisma \<Rightarrow> actor" where
  "paid_webhooks_start E P = \<lparr>act_exchange = cfg_string E ''ANYPAY_AMQP_EXCHANGE'', act_routingkey = ''invoice.paid'',
     act_queue = ''webhooks.invoice.tosendpaid'', act_handler = paid_webhooks E P\<rparr>"

definition push_notification_start :: "services \<Rightarrow> (num option \<Rightarrow> string) \<Rightarrow> ext \<Rightarrow> prisma \<Rightarrow> actor" where
  "push_notification_start V prints E P = \<lparr>act_exchange = cfg_string E ''ANYPAY_AMQP_EXCHANGE'',
     act_routingkey = ''invoice:paid'', act_queue = ''payment_push_notification'',
     act_handler = push_notification V prints P\<rparr>"

definition republish_start :: "ext \<Rightarrow> prisma \<Rightarrow> actor" where
  "republish_start E P = \<lparr>act_exchange = cfg_string E ''ANYPAY_AMQP_EXCHANGE'', act_routingkey = ''invoice.paid'',
     act_queue = ''republish_invoice_paid_as_account_id_dev'', act_handler = republish_invoice_paid P\<rparr>"

definition webhooks_events_start :: "ext \<Rightarrow> prisma \<Rightarrow> actor" where
  "webhooks_events_start E P = \<lparr>act_exchange = cfg_string E ''ANYPAY_AMQP_EXCHANGE'', act_routingkey = ''event.created'',
     act_queue = ''send_webhook_for_all_events'', act_handler = webhooks_events E P\<rparr>"

definition webhooks_start :: "ext \<Rightarrow> prisma \<Rightarrow> actor" where
  "webhooks_start E P = \<lparr>act_exchange = cfg_string E ''ANYPAY_AMQP_EXCHANGE'', act_routingkey = ''invoice.paid'',
     act_queue = ''webhooks.invoice.tosend'', act_handler = webhooks_actor E P\<rparr>"

text \<open>A message reaches the actors bound to its key; each has a queue of its own.\<close>

definition bound_to :: "string \<times> message \<Rightarrow> actor \<Rightarrow> bool" where
  "bound_to m a \<longleftrightarrow> act_routingkey a = fst m"

definition consume_message :: "actor list \<Rightarrow> string \<times> message \<Rightarrow> unit prog" where
  "consume_message actors m =
     for_each (\<lambda>a. catch (act_handler a (snd m)) (\<lambda>_. ret ())) (filter (bound_to m) actors)"

section \<open>Properties\<close>

text \<open>A query about a message without a uid takes any row.\<close>

lemma where_is_None [simp]: "where_is None v"
  by (simp add: where_is_def)

context prisma_client
begin

lemma invoice_where_None:
  assumes "rows (db_invoices w) \<noteq> []"
  obtains invoice where "invoice \<in> set (rows (db_invoices w))" and "invoice_where P None w = (Inr invoice, w)"
proof -
  from assms obtain i where "i \<in> set (rows (db_invoices w))" by (cases "rows (db_invoices w)") auto
  with ti.first_complete [of i _ "\<lambda>_. True"] obtain invoice where "api_first (api_invoices P) (\<lambda>_. True) (db_invoices w) = Some invoice"
    by blast
  with ti.first_sound [OF this] show thesis
    by (intro that) (simp_all add: invoice_where_def io_simps prisma_invoices_def)
qed

lemma refund_of_any_message:
  assumes "db_refunds w = [Some refund]" and "rf_id refund = 1" and "rf_status refund \<noteq> ''paid''"
    and "invoice_by_uid P (rf_original_invoice_uid refund) w = (Inr original, w)"
  obtains invoice where "invoice \<in> set (rows (db_invoices w))"
    and "\<And>e. refunds_actor P (EventMsg e) w =
      (Inr (), w\<lparr>db_refunds := [Some (refund\<lparr>rf_txid := inv_hash invoice, rf_status := ''paid''\<rparr>)]\<rparr>)"
proof -
  have "api_first (api_refunds P) (\<lambda>r. True) (db_refunds w) = Some refund"
    by (rule trf.first_unique) (simp_all add: assms(1))
  then have found: "find_first_or_throw (prisma_refunds P) (\<lambda>r. True) w = (Inr refund, w)"
    by (simp add: find_first_or_throw_run prisma_refunds_def)
  from assms(4) have "rows (db_invoices w) \<noteq> []"
    using ti.first_sound [of "\<lambda>i. inv_uid i = rf_original_invoice_uid refund" "db_invoices w"]
    by (cases "rows (db_invoices w)") (auto simp: invoice_by_uid_def io_simps prisma_invoices_def split: option.splits)
  then obtain invoice where invoice: "invoice \<in> set (rows (db_invoices w))" "invoice_where P None w = (Inr invoice, w)"
    by (rule invoice_where_None)
  have "refunds_actor P (EventMsg e) w =
      (Inr (), w\<lparr>db_refunds := [Some (refund\<lparr>rf_txid := inv_hash invoice, rf_status := ''paid''\<rparr>)]\<rparr>)" for e
  proof -
    have "row (db_refunds w) (rf_id refund) = Some refund" by (simp add: assms(1,2) row_def)
    moreover have "put (db_refunds w) (rf_id refund) x = [x]" for x by (simp add: assms(1,2) put_def)
    ultimately show ?thesis
      using assms(3) by (simp add: refunds_actor_def bnd_run found assms(4) invoice(2) update_refunds ret_run)
  qed
  with invoice(1) show thesis by (rule that)
qed

lemma paid_webhooks_stop:
  assumes "\<forall>h \<in> set (rows (db_webhooks w)). wh_status h \<noteq> Some ''paid''"
  shows "paid_webhooks E P m w = (Inr (), w)"
proof -
  have "api_first (api_webhooks P) (\<lambda>h. wh_invoice_uid h = Some (inv_uid i) \<and> wh_status h = Some ''paid'') (db_webhooks w) = None"
    for i :: invoice
    using assms by (auto simp: twh.first_None_iff)
  then have "getPaidWebhookForInvoice P i w = (Inl (PrismaError RecordNotFound), w)" for i
    by (simp add: getPaidWebhookForInvoice_def io_simps prisma_webhooks_def)
  then show ?thesis
    by (auto simp: paid_webhooks_def invoice_where_def io_simps split: option.splits)
qed

end

text \<open>
  C35. Any paid invoice pays the refund. \<open>completePayment\<close> publishes the event \<open>invoice.paid\<close> of its invoice, whose
  uid is inside the payload; the actor of src/src/actors/refunds/actor.ts, which src/src/main.ts
  starts, looks for it at the top level and queries without a condition. So where one refund is
  stored and is not paid, the event of whatever invoice marks it paid, with the transaction of
  an invoice that no event chooses.
\<close>

theorem any_event_pays_the_refund:
  assumes "prisma_client P" and "db_refunds w = [Some refund]" and "rf_id refund = 1" and "rf_status refund \<noteq> ''paid''"
    and "invoice_by_uid P (rf_original_invoice_uid refund) w = (Inr original, w)"
  shows "\<exists>invoice \<in> set (rows (db_invoices w)). \<forall>e. act_handler (refunds_start E P) (EventMsg e) w =
    (Inr (), w\<lparr>db_refunds := [Some (refund\<lparr>rf_txid := inv_hash invoice, rf_status := ''paid''\<rparr>)]\<rparr>)"
  using prisma_client.refund_of_any_message [OF assms] by (auto simp: refunds_start_def)

definition demo_refund_due :: refund where
  "demo_refund_due = \<lparr>rf_id = 1, rf_original_invoice_uid = ''abc'', rf_refund_invoice_uid = ''back'',
     rf_address = ''sender'', rf_status = ''unpaid'', rf_txid = None\<rparr>"

theorem any_event_pays_the_refund_witness:
  "\<exists>invoice \<in> {demo_invoice}. \<forall>e. act_handler (refunds_start demo_ext pg) (EventMsg e) (demo_world\<lparr>db_refunds := [Some demo_refund_due]\<rparr>) =
    (Inr (), demo_world\<lparr>db_refunds := [Some (demo_refund_due\<lparr>rf_txid := inv_hash invoice, rf_status := ''paid''\<rparr>)]\<rparr>)"
proof -
  let ?w = "demo_world\<lparr>db_refunds := [Some demo_refund_due]\<rparr>"
  have "invoice_by_uid pg (rf_original_invoice_uid demo_refund_due) ?w = (Inr demo_invoice, ?w)"
    by (simp add: invoice_by_uid_def io_simps pg_eval demo_worlds demo_refund_due_def demo_invoice_def)
  from any_event_pays_the_refund [OF prisma_client_pg _ _ _ this, of demo_ext] show ?thesis
    by (simp add: demo_refund_due_def demo_worlds)
qed

text \<open>
  The actor of src/src/actors/paid_webhooks/actor.ts sends nothing. It looks for a webhook of the status
  \<open>paid\<close> and \<open>getPaidWebhookForInvoice\<close> throws when there is none; as long as no stored webhook has that status, and
  nothing in the source writes it, every message ends in the log: no attempt, no request, no row.
\<close>

theorem paid_webhooks_send_nothing:
  assumes "prisma_client P" and "\<forall>h \<in> set (rows (db_webhooks w)). wh_status h \<noteq> Some ''paid''"
  shows "act_handler (paid_webhooks_start E P) m w = (Inr (), w)"
  using prisma_client.paid_webhooks_stop [OF assms] by (simp add: paid_webhooks_start_def)

theorem paid_webhooks_send_nothing_witness:
  "act_handler (paid_webhooks_start demo_ext pg) (InvoiceMsg demo_invoice) (demo_world\<lparr>db_webhooks := [Some (new_webhook 1)]\<rparr>) =
     (Inr (), demo_world\<lparr>db_webhooks := [Some (new_webhook 1)]\<rparr>)"
  by (rule paid_webhooks_send_nothing [OF prisma_client_pg]) (simp add: new_webhook_def)

end
