(* ===== verification/Startup.thy ===== *)
theory Startup
  imports Accounts PaymentRequests
begin

text \<open>
  Starting up: \<open>src/initializers\<close>, \<open>src/anypay_server.ts\<close>, \<open>src/http_api_server.ts\<close> and \<open>src/main.ts\<close>,
  then the intervals of \<open>src/lib/prices/cron.ts\<close> and the tasks of \<open>src/lib/rabbi/cron.ts\<close>. Timers and the
  tasks of \<open>node-cron\<close> are the numbers of those that run.
\<close>

section \<open>Initializers\<close>

definition initialize_coins :: "prisma \<Rightarrow> coin_config list \<Rightarrow> unit prog" where
  "initialize_coins P coinsConfig = bnd (initFromConfig P coinsConfig) (\<lambda>_. ret ())"

definition initialize_prices :: "ext \<Rightarrow> prisma \<Rightarrow> unit prog" where
  "initialize_prices E P =
     bnd (setAllCryptoPrices E P) (\<lambda>_. bnd (setAllFiatPrices E P) (\<lambda>_. ret ()))"

text \<open>
  The account, the app and the token Prometheus is to present. The account is outside the \<open>try\<close>, and the token
  is only made together with the app.
\<close>

definition prometheus_account :: "prisma \<Rightarrow> account prog" where
  "prometheus_account P =
     bnd (find_first (prisma_accounts P) (\<lambda>a. acc_email a = Some ''prometheus'')) (\<lambda>found.
     (case found of
        Some account \<Rightarrow> ret account
      | None \<Rightarrow> create_row (prisma_accounts P) (\<lambda>i. (blank_account i)\<lparr>acc_email := Some ''prometheus''\<rparr>)))"

definition prometheus_token :: "ext \<Rightarrow> prisma \<Rightarrow> account \<Rightarrow> app \<Rightarrow> unit prog" where
  "prometheus_token E P account app =
     bnd (ask (uuid E)) (\<lambda>uid.
     bnd (reads now) (\<lambda>t.
     bnd (create_row (prisma_access_tokens P) (\<lambda>i. \<lparr>tok_id = i, tok_uid = Some uid, tok_account_id = acc_id account,
            tok_app_id = Some (app_row_id app), tok_createdAt = t\<rparr>)) (\<lambda>_.
     ret ())))"

definition initialize_prometheus :: "ext \<Rightarrow> prisma \<Rightarrow> unit prog" where
  "initialize_prometheus E P =
     bnd (prometheus_account P) (\<lambda>account.
     catch
       (bnd (find_first (prisma_apps P) (\<lambda>a. app_name a = ''prometheus'' \<and> app_account_id a = acc_id account)) (\<lambda>found.
        (case found of
           Some app \<Rightarrow> ret ()
         | None \<Rightarrow>
             bnd (createApp E P ''prometheus'' (acc_id account)) (\<lambda>app.
             prometheus_token E P account app))))
       (\<lambda>_. ret ()))"

text \<open>\<open>rabbi\<close> asserts an exchange, which is nothing to the program.\<close>

definition initialize :: "ext \<Rightarrow> prisma \<Rightarrow> coin_config list \<Rightarrow> unit prog" where
  "initialize E P coinsConfig =
     bnd (initialize_coins P coinsConfig) (\<lambda>_.
     bnd (initialize_prices E P) (\<lambda>_.
     initialize_prometheus E P))"

section \<open>The server\<close>

text \<open>
  \<open>HttpApiServer.start\<close> sets its field \<open>server\<close> after \<open>await NewServer()\<close>, so not before the caller has gone on
  (\<open>http_ready\<close>). \<open>server!.listener\<close> of an undefined \<open>server\<close> is a \<open>TypeError\<close>.
\<close>

record anypay_server =
  as_webhooks :: bool
  as_http_starting :: bool
  as_http_server :: bool
  as_websockets :: bool

definition new_AnypayServer :: anypay_server where
  "new_AnypayServer = \<lparr>as_webhooks = False, as_http_starting = False, as_http_server = False, as_websockets = False\<rparr>"

definition AnypayServer_start :: "anypay_server \<Rightarrow> (js_error + unit) \<times> anypay_server" where
  "AnypayServer_start s =
     (let s = s\<lparr>as_webhooks := True, as_http_starting := True\<rparr> in
      if as_http_server s then (Inr (), s\<lparr>as_websockets := True\<rparr>) else (Inl JsTypeError, s))"

definition http_ready :: "anypay_server \<Rightarrow> anypay_server" where
  "http_ready s = (if as_http_starting s then s\<lparr>as_http_server := True\<rparr> else s)"

text \<open>What \<open>main.ts\<close> has set going; the error of \<open>start\<close> is logged.\<close>

record process =
  ps_server :: anypay_server
  ps_prices :: bool
  ps_fees :: bool
  ps_refunds :: bool
  ps_confirming :: bool

definition main_process :: "ext \<Rightarrow> prisma \<Rightarrow> coin_config list \<Rightarrow> process prog" where
  "main_process E P coinsConfig =
     bnd (initialize E P coinsConfig) (\<lambda>_.
     ret \<lparr>ps_server = snd (AnypayServer_start new_AnypayServer), ps_prices = True, ps_fees = True, ps_refunds = True,
       ps_confirming = truthy (cfg E ''start_confirming_transactions'')\<rparr>)"

section \<open>Intervals\<close>

datatype interval = Fiat | Crypto

text \<open>The intervals that run, and the two the module remembers.\<close>

record price_timers =
  pt_running :: "(nat \<times> interval) list"
  pt_next :: nat
  pt_fiat :: "nat option"
  pt_crypto :: "nat option"

definition no_timers :: price_timers where
  "no_timers = \<lparr>pt_running = [], pt_next = 1, pt_fiat = None, pt_crypto = None\<rparr>"

definition setInterval :: "interval \<Rightarrow> price_timers \<Rightarrow> nat \<times> price_timers" where
  "setInterval k s = (pt_next s, s\<lparr>pt_running := pt_running s @ [(pt_next s, k)], pt_next := Suc (pt_next s)\<rparr>)"

definition clearInterval :: "nat option \<Rightarrow> price_timers \<Rightarrow> price_timers" where
  "clearInterval h s = (case h of None \<Rightarrow> s | Some i \<Rightarrow> s\<lparr>pt_running := filter (\<lambda>(j, _). j \<noteq> i) (pt_running s)\<rparr>)"

definition start_fiat :: "ext \<Rightarrow> price_timers \<Rightarrow> price_timers" where
  "start_fiat E s =
     (if truthy (cfg E ''ANYPAY_FIXER_ACCESS_KEY'')
      then (let (i, s) = setInterval Fiat s in s\<lparr>pt_fiat := Some i\<rparr>) else s)"

definition start_prices :: "ext \<Rightarrow> price_timers \<Rightarrow> price_timers" where
  "start_prices E s = (let (i, s) = setInterval Crypto (start_fiat E s) in s\<lparr>pt_crypto := Some i\<rparr>)"

definition stop_prices :: "price_timers \<Rightarrow> price_timers" where
  "stop_prices s = clearInterval (pt_crypto s) (clearInterval (pt_fiat s) s)"

text \<open>A round of an interval. The one of cryptocurrencies is not awaited, so its \<open>try\<close> catches nothing; here it
  runs to its end at once.\<close>

definition fiat_round :: "ext \<Rightarrow> prisma \<Rightarrow> unit prog" where
  "fiat_round E P = catch (bnd (setAllFiatPrices E P) (\<lambda>_. ret ())) (\<lambda>_. ret ())"

definition crypto_round :: "ext \<Rightarrow> prisma \<Rightarrow> unit prog" where
  "crypto_round E P = not_awaited (setAllCryptoPrices E P)"

section \<open>Tasks\<close>

text \<open>A task of the table: its pattern, the number of its \<open>node-cron\<close> task, whether it was started.\<close>

record cron_job =
  cj_pattern :: string
  cj_task :: nat
  cj_started :: bool

record cron_table =
  ct_tasks :: "string \<Rightarrow> cron_job option"
  ct_scheduled :: nat
  ct_running :: "nat set"

definition startCronJob :: "string \<Rightarrow> string \<Rightarrow> cron_table \<Rightarrow> cron_job \<times> cron_table" where
  "startCronJob name pattern s =
     (let job = \<lparr>cj_pattern = pattern, cj_task = ct_scheduled s, cj_started = True\<rparr> in
      (job, \<lparr>ct_tasks = (ct_tasks s)(name \<mapsto> job), ct_scheduled = Suc (ct_scheduled s),
         ct_running = insert (ct_scheduled s) (ct_running s)\<rparr>))"

definition startTask :: "string \<Rightarrow> cron_table \<Rightarrow> js_error + cron_table" where
  "startTask name s =
     (case ct_tasks s name of
        None \<Rightarrow> Inl JsTypeError
      | Some job \<Rightarrow> Inr (s\<lparr>ct_running := insert (cj_task job) (ct_running s),
          ct_tasks := (ct_tasks s)(name \<mapsto> job\<lparr>cj_started := True\<rparr>)\<rparr>))"

definition stopTask :: "string \<Rightarrow> cron_table \<Rightarrow> js_error + cron_table" where
  "stopTask name s =
     (case ct_tasks s name of
        None \<Rightarrow> Inl JsTypeError
      | Some job \<Rightarrow> Inr (s\<lparr>ct_running := ct_running s - {cj_task job},
          ct_tasks := (ct_tasks s)(name \<mapsto> job\<lparr>cj_started := False\<rparr>)\<rparr>))"

text \<open>\<open>name\<close>: the last part of the path, without what follows its last dot.\<close>

definition cron_file_name :: "string \<Rightarrow> string" where
  "cron_file_name path = join_with CHR ''.'' (butlast (split_on CHR ''.'' (last (split_on CHR ''/'' path))))"

definition startCronFile :: "string \<Rightarrow> string option \<Rightarrow> string \<Rightarrow> cron_table \<Rightarrow> cron_job \<times> cron_table" where
  "startCronFile path pattern file_pattern s =
     startCronJob (cron_file_name path) (the (str_or pattern (Some file_pattern))) s"

primrec startDirectory :: "(string \<times> string) list \<Rightarrow> cron_table \<Rightarrow> cron_job list \<times> cron_table" where
  "startDirectory [] s = ([], s)"
| "startDirectory (m # ms) s =
     (let (job, s) = startCronJob (fst m) (snd m) s; (jobs, s) = startDirectory ms s in (job # jobs, s))"

definition getCronJob :: "string \<Rightarrow> cron_table \<Rightarrow> cron_job option" where
  "getCronJob name s = ct_tasks s name"

section \<open>Facts\<close>

lemma start_throws: "fst (AnypayServer_start s) = (if as_http_server s then Inr () else Inl JsTypeError)"
  by (simp add: AnypayServer_start_def Let_def)

text \<open>A process that only ever hears that its HTTP server is ready has no websockets.\<close>

lemma never_websockets: "\<not> as_websockets ((http_ready ^^ n) (snd (AnypayServer_start new_AnypayServer)))"
proof -
  have "\<not> as_websockets ((http_ready ^^ n) s)" if "\<not> as_websockets s" for s
    using that by (induction n) (simp_all add: http_ready_def)
  then show ?thesis by (simp add: AnypayServer_start_def new_AnypayServer_def Let_def)
qed

text \<open>The module forgets the timers of the first start.\<close>

lemma restarted_prices_keep_running:
  assumes "truthy (cfg E ''ANYPAY_FIXER_ACCESS_KEY'')"
  shows "map snd (pt_running (stop_prices (start_prices E no_timers))) = []"
    and "map snd (pt_running (stop_prices (start_prices E (start_prices E no_timers)))) = [Fiat, Crypto]"
  using assms
  by (simp_all add: stop_prices_def start_prices_def start_fiat_def setInterval_def clearInterval_def no_timers_def Let_def)

text \<open>The tasks of the table are different ones, and those that count as started run.\<close>

definition cron_ok :: "cron_table \<Rightarrow> bool" where
  "cron_ok s \<longleftrightarrow>
     (\<forall>n job. ct_tasks s n = Some job \<longrightarrow> cj_task job < ct_scheduled s \<and> (cj_started job \<longleftrightarrow> cj_task job \<in> ct_running s)) \<and>
     (\<forall>n m job job'. ct_tasks s n = Some job \<longrightarrow> ct_tasks s m = Some job' \<longrightarrow> cj_task job = cj_task job' \<longrightarrow> n = m) \<and>
     (\<forall>i \<in> ct_running s. i < ct_scheduled s)"

lemma cron_okI:
  assumes "\<And>n job. ct_tasks s n = Some job \<Longrightarrow> cj_task job < ct_scheduled s"
    and "\<And>n job. ct_tasks s n = Some job \<Longrightarrow> cj_started job \<longleftrightarrow> cj_task job \<in> ct_running s"
    and "\<And>n m job job'. ct_tasks s n = Some job \<Longrightarrow> ct_tasks s m = Some job' \<Longrightarrow> cj_task job = cj_task job' \<Longrightarrow> n = m"
    and "\<And>i. i \<in> ct_running s \<Longrightarrow> i < ct_scheduled s"
  shows "cron_ok s"
  using assms unfolding cron_ok_def by blast

lemma cron_okD:
  assumes "cron_ok s"
  shows "ct_tasks s n = Some job \<Longrightarrow> cj_task job < ct_scheduled s"
    and "ct_tasks s n = Some job \<Longrightarrow> cj_started job \<longleftrightarrow> cj_task job \<in> ct_running s"
    and "ct_tasks s n = Some job \<Longrightarrow> ct_tasks s m = Some job' \<Longrightarrow> cj_task job = cj_task job' \<Longrightarrow> n = m"
    and "i \<in> ct_running s \<Longrightarrow> i < ct_scheduled s"
  using assms unfolding cron_ok_def by blast+

lemma startCronJob_ok: "cron_ok s \<Longrightarrow> cron_ok (snd (startCronJob name pattern s))"
  by (rule cron_okI) (auto simp: startCronJob_def Let_def dest: cron_okD split: if_splits)

lemma startTask_ok:
  assumes ok: "cron_ok s" and "startTask name s = Inr s'"
  shows "cron_ok s'"
proof -
  from assms(2) obtain j where j: "ct_tasks s name = Some j"
    and s': "s' = s\<lparr>ct_running := insert (cj_task j) (ct_running s), ct_tasks := (ct_tasks s)(name \<mapsto> j\<lparr>cj_started := True\<rparr>)\<rparr>"
    by (auto simp: startTask_def split: option.splits)
  show ?thesis
    unfolding s' using cron_okD(1,4) [OF ok] cron_okD(2) [OF ok] cron_okD(3) [OF ok] j
    by (intro cron_okI) (auto split: if_splits)
qed

lemma stopTask_ok:
  assumes ok: "cron_ok s" and "stopTask name s = Inr s'"
  shows "cron_ok s'"
proof -
  from assms(2) obtain j where j: "ct_tasks s name = Some j"
    and s': "s' = s\<lparr>ct_running := ct_running s - {cj_task j}, ct_tasks := (ct_tasks s)(name \<mapsto> j\<lparr>cj_started := False\<rparr>)\<rparr>"
    by (auto simp: stopTask_def split: option.splits)
  show ?thesis
    unfolding s' using cron_okD(1,4) [OF ok] cron_okD(2) [OF ok] cron_okD(3) [OF ok] j
    by (intro cron_okI) (auto split: if_splits)
qed

lemma startDirectory_ok: "cron_ok s \<Longrightarrow> cron_ok (snd (startDirectory ms s))"
proof (induction ms arbitrary: s)
  case (Cons m ms)
  then show ?case using startCronJob_ok [OF Cons.prems, of "fst m" "snd m"] Cons.IH [of "snd (startCronJob (fst m) (snd m) s)"]
    by (simp add: Let_def split_beta)
qed simp

text \<open>A task whose name was given to another runs on, whatever is stopped.\<close>

lemma replaced_task_runs_on:
  assumes "cron_ok s" and "ct_tasks s name = Some job" and "cj_started job"
    and "stopTask n (snd (startCronJob name pattern s)) = Inr s'"
  shows "cj_task job \<in> ct_running s'"
  using assms unfolding cron_ok_def startCronJob_def stopTask_def Let_def
  by (auto split: option.splits if_splits)

section \<open>Properties\<close>

context prisma_client
begin

lemma prometheus_account_positive:
  assumes "ids_ok acc_id (db_accounts w)" and "prometheus_account P w = (Inr account, w')"
  shows "0 < acc_id account" and "db_apps w' = db_apps w"
proof -
  show "0 < acc_id account"
    using assms tac.first_row(3) [OF assms(1)]
    by (auto simp: prometheus_account_def bnd_run find_first_run prisma_accounts_def create_accounts [unfolded prisma_accounts_def]
        ret_run Let_def blank_account_def next_id_def split: option.splits if_splits)
  show "db_apps w' = db_apps w"
    using assms(2)
    by (auto simp: prometheus_account_def bnd_run find_first_run create_accounts ret_run Let_def split: option.splits if_splits)
qed

lemma no_app: "\<forall>a \<in> set (rows t). \<not> p a \<Longrightarrow> api_first (api_apps P) p t = None"
  by (simp add: tap.first_None_iff)

lemma createApp_apps:
  assumes "createApp E P name a w = (r, w')"
  obtains "db_apps w' = db_apps w" | app where "db_apps w' = db_apps w @ [Some app]" and "app_account_id app = a"
  using assms by (auto simp: createApp_def io_simps create_apps split: sum.splits prod.splits)

lemma prometheus_token_apps: "prometheus_token E P account app w = (r, w') \<Longrightarrow> db_apps w' = db_apps w"
  by (auto simp: prometheus_token_def io_simps create_access_tokens split: sum.splits)

lemma prometheus_apps:
  assumes "ids_ok acc_id (db_accounts w)" and "initialize_prometheus E P w = (r, w')" and "app \<in> set (rows (db_apps w'))"
  shows "app \<in> set (rows (db_apps w)) \<or> 0 < app_account_id app"
proof -
  obtain x w1 where acc: "prometheus_account P w = (x, w1)" by (cases "prometheus_account P w")
  show ?thesis
  proof (cases x)
    case (Inl e)
    with acc assms(2,3) show ?thesis
      by (auto simp: initialize_prometheus_def prometheus_account_def io_simps create_accounts Let_def
          split: option.splits if_splits)
  next
    case (Inr account)
    note pos = prometheus_account_positive [OF assms(1) acc [unfolded Inr]]
    obtain y w2 where new: "createApp E P ''prometheus'' (acc_id account) w1 = (y, w2)"
      by (cases "createApp E P ''prometheus'' (acc_id account) w1")
    have "db_apps w' = db_apps w1 \<or> db_apps w' = db_apps w2"
      using assms(2)
      by (auto simp: initialize_prometheus_def bnd_run acc Inr catch_run find_first_run new ret_run dest: prometheus_token_apps
          split: option.splits sum.splits prod.splits if_splits)
    with assms(3) pos show ?thesis by (cases rule: createApp_apps [OF new]) (auto simp: rows_append)
  qed
qed

end

text \<open>
  C36. Prometheus is shut out. \<open>initialize\<close> (src/src/initializers/prometheus.ts) makes the app \<open>prometheus\<close> for
  the account it found or made, and prints a token of it; the strategy \<open>prometheus\<close>
  (src/src/server/auth/prometheus.ts) looks for that app under the account 0, which no row has. So
  afterwards it refuses every user name and password, the printed token too.
\<close>

theorem prometheus_is_shut_out:
  assumes "prisma_client P" and "ids_ok acc_id (db_accounts w)"
    and "\<forall>app \<in> set (rows (db_apps w)). app_account_id app \<noteq> 0"
    and "initialize_prometheus E P w = (r, w')"
  shows "prometheus_auth P username password w' = (Inr None, w')"
proof -
  have "\<forall>app \<in> set (rows (db_apps w')). app_account_id app \<noteq> 0"
    using prisma_client.prometheus_apps [OF assms(1,2,4)] assms(3) by fastforce
  then have "api_first (api_apps P) (\<lambda>a. app_name a = ''prometheus'' \<and> app_account_id a = 0) (db_apps w') = None"
    by (intro prisma_client.no_app [OF assms(1)]) auto
  then show ?thesis
    by (simp add: prometheus_auth_def bnd_run find_first_run prisma_apps_def ret_run)
qed

theorem prometheus_is_shut_out_witness:
  "prometheus_auth pg ''prometheus'' ''token'' (snd (initialize_prometheus demo_ext pg demo_world)) =
     (Inr None, snd (initialize_prometheus demo_ext pg demo_world))"
proof (rule prometheus_is_shut_out [OF prisma_client_pg _ _ prod.collapse [symmetric]])
  show "ids_ok acc_id (db_accounts demo_world)"
    by (simp add: ids_ok_def demo_worlds demo_account_def row_def)
  show "\<forall>app \<in> set (rows (db_apps demo_world)). app_account_id app \<noteq> 0" by (simp add: demo_worlds)
qed

text \<open>A process that came up has no websockets, then and later: the one call of \<open>start\<close> threw.\<close>

theorem started_without_websockets:
  assumes "main_process E P coinsConfig w = (Inr p, w')"
  shows "as_webhooks (ps_server p)" and "\<not> as_websockets ((http_ready ^^ n) (ps_server p))"
proof -
  from assms have p: "ps_server p = snd (AnypayServer_start new_AnypayServer)"
    unfolding main_process_def by (elim bnd_Inr_E) (auto simp: ret_run)
  show "as_webhooks (ps_server p)" by (simp add: p AnypayServer_start_def new_AnypayServer_def Let_def)
  show "\<not> as_websockets ((http_ready ^^ n) (ps_server p))" unfolding p by (rule never_websockets)
qed

text \<open>Where the feed of fiat prices fails at the start, nothing is started: no caller catches its error.\<close>

theorem fiat_outage_stops_the_start:
  assumes "\<And>n. fiat_feed E n ''USD'' = Inl (e n)"
  shows "fst (main_process E P coinsConfig w) \<noteq> Inr p"
proof -
  have "fst (setAllFiatPrices E P v) \<noteq> Inr x" for v x
    by (simp add: setAllFiatPrices_def io_simps assms)
  then have "fst (initialize E P coinsConfig w) \<noteq> Inr x" for x
    by (auto simp: initialize_def initialize_prices_def bnd_run split: sum.splits prod.splits) (metis fst_conv)
  then show ?thesis by (auto simp: main_process_def bnd_run split: sum.splits prod.splits)
qed

end
