(* ===== verification/Monero.thy ===== *)
theory Monero
  imports Payments
begin

text \<open>
  What \<open>src/plugins/xmr/index.ts\<close> does beside the plugin of the registry: addresses, the check of a
  transaction key against the invoice, and the confirmation of a payment. The node, the wallet and
  the payment protocol client are a parameter, as is \<open>base58-monero\<close>.
\<close>

section \<open>Data\<close>

record xmr_transaction =
  xt_block_height :: "nat option"
  xt_block_timestamp :: time

text \<open>
  The calls: \<open>get_transactions\<close>, \<open>get_block\<close> (the hash of the header and the transactions), the outputs
  of every instruction of a payment request, and what \<open>check_tx_key\<close> says an address received.
\<close>

record monero =
  mn_decode :: "string \<Rightarrow> js_error + nat list"
  mn_transactions :: "nat \<Rightarrow> string list \<Rightarrow> js_error + xmr_transaction list"
  mn_block :: "nat \<Rightarrow> nat \<Rightarrow> js_error + string \<times> string list"
  mn_request :: "nat \<Rightarrow> string \<Rightarrow> js_error + (string \<times> num) list list"
  mn_check_tx_key :: "nat \<Rightarrow> string \<Rightarrow> string \<Rightarrow> string \<Rightarrow> js_error + num"

section \<open>Addresses\<close>

definition validateCryptonote :: "monero \<Rightarrow> nat list \<Rightarrow> string \<Rightarrow> js_error + unit" where
  "validateCryptonote M publicAddressBytes address =
     (if length address \<noteq> 95 + (length publicAddressBytes - 1) * 2 then Inl (JsError ''Invalid address length'')
      else case mn_decode M address of
        Inl e \<Rightarrow> Inl e
      | Inr buffer \<Rightarrow>
          if length buffer \<noteq> 69 + length publicAddressBytes - 1 then Inl (JsError ''Invalid address buffer length'')
          else if take (length publicAddressBytes) buffer \<noteq> publicAddressBytes
          then Inl (JsError ''Invalid network bytes'')
          else Inr ())"

definition XMR_validateAddress :: "monero \<Rightarrow> string \<Rightarrow> bool" where
  "XMR_validateAddress M address = (case validateCryptonote M [18] address of Inl _ \<Rightarrow> False | Inr _ \<Rightarrow> True)"

lemma XMR_validateAddress_iff:
  "XMR_validateAddress M address \<longleftrightarrow>
     length address = 95 \<and> (\<exists>rest. mn_decode M address = Inr (18 # rest) \<and> length rest = 68)"
proof -
  have parts: "length b = 69 \<and> take 1 b = [18] \<longleftrightarrow> (\<exists>rest. b = 18 # rest \<and> length rest = 68)" for b :: "nat list"
    by (cases b) auto
  show ?thesis
  proof (cases "mn_decode M address")
    case (Inr b)
    then show ?thesis using parts [of b] by (auto simp: XMR_validateAddress_def validateCryptonote_def)
  qed (simp add: XMR_validateAddress_def validateCryptonote_def)
qed

section \<open>The transaction key\<close>

definition check_output :: "monero \<Rightarrow> string \<Rightarrow> string \<Rightarrow> string \<times> num \<Rightarrow> unit prog" where
  "check_output M txid key output =
     bnd (ask (\<lambda>n. mn_check_tx_key M n txid key (fst output))) (\<lambda>received.
     guard_io (\<not> snd output > received) (JsError ''Invalid XMR Payment''))"

definition xmr_verify :: "monero \<Rightarrow> string \<Rightarrow> string \<Rightarrow> string \<Rightarrow> unit prog" where
  "xmr_verify M url txid key =
     bnd (ask (\<lambda>n. mn_request M n url)) (\<lambda>instructions.
     (case instructions of
        [] \<Rightarrow> throw JsTypeError
      | destinations # _ \<Rightarrow> for_each (check_output M txid key) destinations))"

text \<open>The plugin starts the check and does not wait for it: its answer is \<open>true\<close> at once.\<close>

definition xmr_verifyPayment :: "ext \<Rightarrow> monero \<Rightarrow> payment_option \<Rightarrow> transaction \<Rightarrow> bool prog" where
  "xmr_verifyPayment E M paymentOption t =
     bnd (not_awaited (catch (xmr_verify M (cfg_string E ''api_base'' @ ''/i/'' @ po_invoice_uid paymentOption)
            (string_or_undefined (tx_id t)) (string_or_undefined (tx_key t))) (\<lambda>_. ret ()))) (\<lambda>_.
     ret True)"

section \<open>Confirmation\<close>

definition xmr_getTransaction :: "monero \<Rightarrow> string \<Rightarrow> xmr_transaction option prog" where
  "xmr_getTransaction M txid =
     bnd (ask (\<lambda>n. mn_transactions M n [txid])) (\<lambda>txs. ret (case txs of [] \<Rightarrow> None | t # _ \<Rightarrow> Some t))"

text \<open>The row that is returned is the one from before the update.\<close>

definition check_confirmations :: "monero \<Rightarrow> prisma \<Rightarrow> invoice \<Rightarrow> (payment \<times> bool) prog" where
  "check_confirmations M P invoice =
     bnd (getPayment P invoice) (\<lambda>found.
     (case found of
        None \<Rightarrow> throw (JsError ''payment not found'')
      | Some payment \<Rightarrow>
          if id_or_undefined (pay_confirmation_height payment) \<noteq> None \<and> pay_confirmation_date payment \<noteq> None
          then ret (payment, True)
          else
            bnd (xmr_getTransaction M (pay_txid payment)) (\<lambda>transaction.
            (case transaction of
               None \<Rightarrow> throw JsTypeError
             | Some t \<Rightarrow>
                 (case id_or_undefined (xt_block_height t) of
                    None \<Rightarrow> ret (payment, False)
                  | Some height \<Rightarrow>
                      bnd (ask (\<lambda>n. mn_block M n height)) (\<lambda>(hash, tx_hashes).
                      bnd (guard_io (pay_txid payment \<in> set tx_hashes) (JsError ''Payment Not In Block'')) (\<lambda>_.
                      bnd (update_row (prisma_payments P) (pay_id payment) (\<lambda>r. r\<lparr>pay_confirmation_height := Some height,
                             pay_confirmation_date := Some (xt_block_timestamp t * 1000),
                             pay_confirmation_hash := Some hash\<rparr>)) (\<lambda>_.
                      ret (payment, True)))))))))"

section \<open>Facts\<close>

lemma check_outputs:
  assumes "\<And>n a. mn_check_tx_key M n txid key a = Inr (received a)"
  shows "fst (for_each (check_output M txid key) outs w) = Inr () \<longleftrightarrow> (\<forall>(a, x) \<in> set outs. x \<le> received a)"
proof (induction outs arbitrary: w)
  case (Cons out outs)
  obtain a x where out: "out = (a, x)" by (cases out)
  show ?case
    using Cons.IH by (cases "x \<le> received a") (auto simp: check_output_def io_simps assms out)
qed (simp add: ret_run)

text \<open>
  What the check of the key shows: each output of the first instruction is covered by what its
  address received. Two outputs to one address are each held against the whole of it.
\<close>

theorem xmr_verify_iff:
  assumes "\<And>n. mn_request M n url = Inr (outs # rest)"
    and "\<And>n a. mn_check_tx_key M n txid key a = Inr (received a)"
  shows "fst (xmr_verify M url txid key w) = Inr () \<longleftrightarrow> (\<forall>(a, x) \<in> set outs. x \<le> received a)"
  using check_outputs [OF assms(2), of outs] by (simp add: xmr_verify_def io_simps assms(1))

text \<open>A payment is written as confirmed only with a block that holds its transaction; its status stays.\<close>

theorem check_confirmations_block:
  assumes "prisma_client P" and "check_confirmations M P invoice w = (Inr (payment, True), w')"
    and "pay_confirmation_height payment = None"
  shows "\<exists>n height hash tx_hashes date r. mn_block M n height = Inr (hash, tx_hashes) \<and> pay_txid payment \<in> set tx_hashes \<and>
    row (db_payments w) (pay_id payment) = Some r \<and> db_invoices w' = db_invoices w \<and>
    db_payments w' = put (db_payments w) (pay_id payment) (Some (r\<lparr>pay_confirmation_height := Some height,
      pay_confirmation_date := Some date, pay_confirmation_hash := Some hash\<rparr>))"
  using assms(2,3)
  by (auto simp: check_confirmations_def getPayment_def xmr_getTransaction_def io_simps id_or_undefined_def
      prisma_client.update_payments [OF assms(1)] split: option.splits sum.splits prod.splits if_splits list.splits) blast

end
