(* ===== verification/Blockbook.thy ===== *)
theory Blockbook
  imports Ledger
begin

text \<open>
  Blocks as they are found: \<open>src/lib/blockbook.ts\<close>, which \<open>src/main.ts\<close> starts, and the client of
  \<open>src/packages/blockbook\<close>. First what a block does to the payments, then the client's connections as a
  state machine: its sockets, and the timers that are to connect again.
\<close>

section \<open>Blocks\<close>

text \<open>\<open>getBlockTxids\<close> does not look at the hash: the address of one block is written into it.\<close>

definition the_block :: string where
  "the_block = ''https://btcbook.nownodes.io/d30afa50-d891-43cd-b27c-c9fca7ed5b7b/api/v2/block/000000000000000000000a8a35d8f999099f5d7a3acc0b76dc04c27de6489583''"

type_synonym block_service = "nat \<Rightarrow> string \<Rightarrow> js_error + string list"

definition getBlockTxids :: "block_service \<Rightarrow> string \<Rightarrow> string list prog" where
  "getBlockTxids get hash = ask (\<lambda>n. get n the_block)"

definition check_payment :: "ext \<Rightarrow> payment \<Rightarrow> unit prog" where
  "check_payment E payment =
     catch (bnd (getConfirmation E (pay_txid payment) (js_String (pay_chain payment)) (pay_currency payment)) (\<lambda>_. ret ()))
       (\<lambda>_. ret ())"

definition on_blockTxids :: "ext \<Rightarrow> prisma \<Rightarrow> string list \<Rightarrow> unit prog" where
  "on_blockTxids E P txids =
     bnd (find_many (prisma_payments P) (\<lambda>p. pay_txid p \<in> set txids \<and> pay_confirmation_hash p = None))
       (for_each (check_payment E))"

text \<open>The event \<open>error\<close> has no listener, so emitting it throws; \<open>on('message')\<close> emits it again.\<close>

definition processBlock :: "ext \<Rightarrow> prisma \<Rightarrow> block_service \<Rightarrow> string \<Rightarrow> unit prog" where
  "processBlock E P get hash = bnd (getBlockTxids get hash) (\<lambda>txids. not_awaited (on_blockTxids E P txids))"

definition handleMessage :: "ext \<Rightarrow> prisma \<Rightarrow> block_service \<Rightarrow> string option \<Rightarrow> unit prog" where
  "handleMessage E P get hash = (if truthy hash then processBlock E P get (the hash) else ret ())"

definition on_ws_message :: "ext \<Rightarrow> prisma \<Rightarrow> block_service \<Rightarrow> string option \<Rightarrow> unit prog" where
  "on_ws_message E P get hash = not_awaited (handleMessage E P get hash)"

section \<open>Connections\<close>

datatype ws_phase = Connecting bool | Connected | Gone

text \<open>
  \<open>bb_ws\<close> is \<open>this.ws\<close>; a socket is \<open>Connecting True\<close> when a timer opened it, so that the failure of its
  connection is caught in \<open>reconnect\<close>. \<open>bb_timers\<close> counts the timers that wait, \<open>bb_subscribed\<close>
  the sockets a subscription was sent on.
\<close>

record client =
  bb_ws :: "nat option"
  bb_sockets :: "nat \<Rightarrow> ws_phase option"
  bb_next :: nat
  bb_timers :: nat
  bb_subscribed :: "nat list"

definition new_client :: client where
  "new_client = \<lparr>bb_ws = None, bb_sockets = (\<lambda>_. None), bb_next = 0, bb_timers = 0, bb_subscribed = []\<rparr>"

definition connect :: "bool \<Rightarrow> client \<Rightarrow> client" where
  "connect by_timer c = c\<lparr>bb_ws := Some (bb_next c), bb_sockets := (bb_sockets c)(bb_next c \<mapsto> Connecting by_timer),
     bb_next := Suc (bb_next c)\<rparr>"

text \<open>\<open>subscribe\<close> sends on the current socket, and throws when there is none.\<close>

definition opens :: "nat \<Rightarrow> bool \<Rightarrow> client \<Rightarrow> client" where
  "opens i by_timer c =
     (let c = c\<lparr>bb_sockets := (bb_sockets c)(i \<mapsto> Connected)\<rparr> in
      case bb_ws c of
        Some j \<Rightarrow> c\<lparr>bb_subscribed := bb_subscribed c @ [j]\<rparr>
      | None \<Rightarrow> if by_timer then c\<lparr>bb_timers := Suc (bb_timers c)\<rparr> else c)"

definition closes :: "nat \<Rightarrow> client \<Rightarrow> client" where
  "closes i c = c\<lparr>bb_sockets := (bb_sockets c)(i \<mapsto> Gone), bb_timers := Suc (bb_timers c)\<rparr>"

text \<open>A connection that fails emits \<open>error\<close>, which rejects \<open>connect\<close>, and then \<open>close\<close>.\<close>

definition fails :: "nat \<Rightarrow> bool \<Rightarrow> client \<Rightarrow> client" where
  "fails i by_timer c =
     closes i (if by_timer then c\<lparr>bb_timers := Suc (bb_timers c)\<rparr> else c)"

definition fires :: "client \<Rightarrow> client" where
  "fires c = connect True (c\<lparr>bb_timers := bb_timers c - 1\<rparr>)"

text \<open>The event \<open>close\<close> of the socket comes later, to the same handler.\<close>

definition disconnect :: "client \<Rightarrow> client" where
  "disconnect c = c\<lparr>bb_ws := None\<rparr>"

inductive client_step :: "client \<Rightarrow> client \<Rightarrow> bool" where
  opened: "bb_sockets c i = Some (Connecting b) \<Longrightarrow> client_step c (opens i b c)"
| failed: "bb_sockets c i = Some (Connecting b) \<Longrightarrow> client_step c (fails i b c)"
| closed: "bb_sockets c i = Some Connected \<Longrightarrow> client_step c (closes i c)"
| fired: "0 < bb_timers c \<Longrightarrow> client_step c (fires c)"
| stopped: "client_step c (disconnect c)"

inductive_cases client_stepE: "client_step c c'"

inductive_simps client_step_iff: "client_step c c'"

text \<open>\<open>startBlockbookClient\<close> connects; \<open>stopBlockbookClient\<close> disconnects.\<close>

definition started :: "client \<Rightarrow> bool" where
  "started c \<longleftrightarrow> client_step\<^sup>*\<^sup>* (connect False new_client) c"

section \<open>Facts\<close>

lemma same_check_payment: "follows same_ledger (check_payment E payment)"
  unfolding check_payment_def by (intro same.follows_rules same_getConfirmation)

lemma same_on_blockTxids: "follows same_ledger (on_blockTxids E P txids)"
  unfolding on_blockTxids_def
  by (intro same.follows_bnd same.follows_find_many same.follows_for_each same_check_payment)

lemma same_on_ws_message: "follows same_ledger (on_ws_message E P get hash)"
  unfolding on_ws_message_def handleMessage_def processBlock_def getBlockTxids_def
  by (intro same_not_awaited same.follows_rules same_ask same_on_blockTxids)

text \<open>A socket that lives, or a timer that will open one.\<close>

definition alive :: "client \<Rightarrow> bool" where
  "alive c \<longleftrightarrow> 0 < bb_timers c \<or> (\<exists>i b. bb_sockets c i = Some (Connecting b)) \<or> (\<exists>i. bb_sockets c i = Some Connected)"

lemma alive_step: "client_step c c' \<Longrightarrow> alive c \<Longrightarrow> alive c'"
  by (erule client_stepE)
    (auto simp: alive_def opens_def closes_def fails_def fires_def connect_def disconnect_def Let_def split: option.splits)

lemma started_alive: "started c \<Longrightarrow> alive c"
  unfolding started_def
proof (induction rule: rtranclp_induct)
  case base
  show ?case by (auto simp: alive_def connect_def)
qed (rule alive_step)

lemma fires_connects:
  assumes "0 < bb_timers c"
  obtains d where "client_step\<^sup>*\<^sup>* c d" and "bb_ws d = Some (bb_next c)" and "bb_sockets d (bb_next c) = Some Connected"
    and "last (bb_subscribed d) = bb_next c"
proof
  let ?d = "opens (bb_next c) True (fires c)"
  have "client_step (fires c) ?d" by (rule opened) (simp add: fires_def connect_def)
  with fired [OF assms] show "client_step\<^sup>*\<^sup>* c ?d" by auto
qed (simp_all add: fires_def connect_def opens_def Let_def)

lemma alive_comes_back:
  assumes "alive c"
  shows "\<exists>d i. client_step\<^sup>*\<^sup>* c d \<and> bb_ws d = Some i \<and> bb_sockets d i = Some Connected \<and> last (bb_subscribed d) = i"
proof -
  from assms obtain e where e: "client_step\<^sup>*\<^sup>* c e" and timer: "0 < bb_timers e"
  proof (unfold alive_def, elim disjE exE)
    assume "0 < bb_timers c" then show ?thesis by (intro that [of c]) simp_all
  next
    fix i b assume "bb_sockets c i = Some (Connecting b)"
    then have "client_step c (fails i b c)" by (rule failed)
    then show ?thesis by (intro that [of "fails i b c"]) (auto simp: fails_def closes_def)
  next
    fix i assume "bb_sockets c i = Some Connected"
    then have "client_step c (closes i c)" by (rule closed)
    then show ?thesis by (intro that [of "closes i c"]) (auto simp: closes_def)
  qed
  from timer obtain d where "client_step\<^sup>*\<^sup>* e d" and "bb_ws d = Some (bb_next e)"
    and "bb_sockets d (bb_next e) = Some Connected" and "last (bb_subscribed d) = bb_next e"
    by (rule fires_connects)
  with rtranclp_trans [OF e] show ?thesis by blast
qed

text \<open>A timer that fires while the service is down, and a round of all that wait.\<close>

definition vain :: "client \<Rightarrow> client" where
  "vain c = fails (bb_next c) True (fires c)"

definition outage_round :: "client \<Rightarrow> client" where
  "outage_round c = (vain ^^ bb_timers c) c"

lemma vain_timers: "0 < bb_timers c \<Longrightarrow> bb_timers (vain c) = Suc (bb_timers c)"
  by (simp add: vain_def fails_def closes_def fires_def connect_def)

lemma vain_steps: "0 < bb_timers c \<Longrightarrow> client_step\<^sup>*\<^sup>* c (vain c)"
proof -
  assume "0 < bb_timers c"
  moreover have "client_step (fires c) (vain c)"
    unfolding vain_def by (rule failed) (simp add: fires_def connect_def)
  ultimately show "client_step\<^sup>*\<^sup>* c (vain c)" by (meson fired r_into_rtranclp rtranclp.rtrancl_into_rtrancl)
qed

lemma vain_rounds:
  "0 < bb_timers c \<Longrightarrow> bb_timers ((vain ^^ n) c) = bb_timers c + n \<and> client_step\<^sup>*\<^sup>* c ((vain ^^ n) c)"
proof (induction n)
  case (Suc n)
  then show ?case using vain_steps [of "(vain ^^ n) c"] by (auto simp: vain_timers)
qed simp

lemma outage_doubles:
  "0 < bb_timers c \<Longrightarrow> bb_timers ((outage_round ^^ k) c) = 2 ^ k * bb_timers c \<and> client_step\<^sup>*\<^sup>* c ((outage_round ^^ k) c)"
proof (induction k)
  case (Suc k)
  then have "0 < bb_timers ((outage_round ^^ k) c)" by simp
  note more = vain_rounds [OF this, of "bb_timers ((outage_round ^^ k) c)"]
  have "(outage_round ^^ Suc k) c = (vain ^^ bb_timers ((outage_round ^^ k) c)) ((outage_round ^^ k) c)"
    by (simp add: outage_round_def [of "(outage_round ^^ k) c"])
  with more Suc show ?case by (auto intro: rtranclp_trans)
qed simp

section \<open>Properties\<close>

text \<open>
  A block confirms nothing here: whatever block the service announces, with whatever transactions,
  the handler asks for the confirmation of the payments it finds and drops the answer, although the log says
  \<open>Confirmed payment\<close>.
\<close>

theorem blocks_confirm_nothing:
  "db_payments (snd (on_ws_message E P get hash w)) = db_payments w \<and>
   db_invoices (snd (on_ws_message E P get hash w)) = db_invoices w"
  using same_on_ws_message [of E P get hash] by (simp add: follows_def same_ledger_def ledger_def)

text \<open>Which block it is does not matter either: the answer is the same for two hashes.\<close>

theorem every_hash_is_one_block: "getBlockTxids get hash = getBlockTxids get hash'"
  by (simp add: getBlockTxids_def)

text \<open>
  C39. A client that was started never stays stopped. In every state it can be in, connections opened,
  lost and retried in whatever order, after \<open>disconnect\<close> (src/packages/blockbook/src/client.ts) it
  can still connect and subscribe by itself: the socket \<open>disconnect\<close> closes is one whose \<open>close\<close>
  starts the timer.
\<close>

theorem stopped_client_comes_back:
  assumes "started c"
  shows "\<exists>d i. client_step\<^sup>*\<^sup>* (disconnect c) d \<and> bb_ws d = Some i \<and> bb_sockets d i = Some Connected \<and>
    last (bb_subscribed d) = i"
  using alive_comes_back [OF alive_step [OF stopped started_alive [OF assms]]] .

theorem stopped_client_comes_back_witness:
  "\<exists>d i. client_step\<^sup>*\<^sup>* (disconnect (connect False new_client)) d \<and> bb_ws d = Some i \<and>
    bb_sockets d i = Some Connected \<and> last (bb_subscribed d) = i"
  by (rule stopped_client_comes_back) (simp add: started_def)

text \<open>
  While the service is down each timer leaves two, one for the error and one for the end of its
  socket: after \<open>k\<close> rounds there are \<open>2 ^ k\<close> for each there was.
\<close>

theorem failed_reconnections_double:
  assumes "0 < bb_timers c"
  shows "bb_timers ((outage_round ^^ k) c) = 2 ^ k * bb_timers c" and "client_step\<^sup>*\<^sup>* c ((outage_round ^^ k) c)"
  using outage_doubles [OF assms] by simp_all

end
