(* ===== verification/Wallet.thy ===== *)
theory Wallet
  imports ProtocolFacts
begin

text \<open>
  The paying side, \<open>src/wallet/src\<close>: a card holds the keys of one coin and builds the signed
  transaction for the instructions of a payment request. The libraries that build and sign transactions, and
  the services a card asks, are parameters; the laws of two of the libraries are locales.
  The instructions are those \<open>getPaymentRequest\<close> of Protocol makes.
\<close>

section \<open>Instructions and services\<close>

text \<open>\<open>UTXOTransferInstruction | ERC20TransferInstruction\<close>: the second names the call itself.\<close>

datatype card_instruction = Outputs instruction | Call string string num

datatype script_value = ScriptHex string | ScriptVout num string

record wallet_utxo =
  wu_script :: "script_value option"
  wu_value :: num
  wu_txid :: string
  wu_vout :: nat

record bitcoreio_utxo =
  bio_mintIndex :: nat
  bio_mintTxid :: string
  bio_script :: string
  bio_value :: num

record whatsonchain_utxo =
  woc_tx_pos :: nat
  woc_tx_hash :: string
  woc_value :: num

record wallet_net =
  net_bitcoreio :: "nat \<Rightarrow> string \<Rightarrow> js_error + bitcoreio_utxo list"
  net_blockchair_raw :: "nat \<Rightarrow> string \<Rightarrow> js_error + string list"
  net_woc_balance :: "nat \<Rightarrow> string \<Rightarrow> js_error + num \<times> num"
  net_woc_unspent :: "nat \<Rightarrow> string \<Rightarrow> js_error + whatsonchain_utxo list"
  net_woc_tx :: "nat \<Rightarrow> string \<Rightarrow> js_error + (num \<times> string) list"
  net_insight :: "nat \<Rightarrow> string \<Rightarrow> js_error + wallet_utxo list"
  net_blockchair_key :: "string option"

record coin_input =
  in_txId :: string
  in_outputIndex :: nat
  in_satoshis :: num
  in_scriptPubKey :: "script_value option"
  in_address :: "string option"

text \<open>
  A library of the bitcore family, on its own type of transactions. The key is made from a seed.
\<close>

record 'tx builder =
  b_Transaction :: 'tx
  b_script :: "string option \<Rightarrow> js_error + string"
  b_addOutput :: "num \<Rightarrow> string \<Rightarrow> 'tx \<Rightarrow> js_error + 'tx"
  b_from :: "coin_input list \<Rightarrow> 'tx \<Rightarrow> js_error + 'tx"
  b_change :: "string \<Rightarrow> 'tx \<Rightarrow> js_error + 'tx"
  b_sign :: "string \<Rightarrow> 'tx \<Rightarrow> js_error + 'tx"
  b_serialize :: "'tx \<Rightarrow> js_error + string"
  b_hash :: "'tx \<Rightarrow> string"
  b_script_address :: "script_value option \<Rightarrow> js_error + string"
  b_key_address :: "string \<Rightarrow> string"

section \<open>Raw transactions of blockchair\<close>

definition wallet_currencies :: "string \<rightharpoonup> string" where
  "wallet_currencies = map_of
     [(''BCH'', ''bitcoin-cash''), (''BSV'', ''bitcoin-sv''), (''BTC'', ''bitcoin''), (''DASH'', ''dash''),
      (''LTC'', ''litecoin''), (''DOGE'', ''dogecoin'')]"

definition getRawTx :: "wallet_net \<Rightarrow> string \<Rightarrow> string \<Rightarrow> string list prog" where
  "getRawTx N asset txid =
     ask (\<lambda>n. net_blockchair_raw N n
       (''https://api.blockchair.com/'' @ string_or_undefined (wallet_currencies asset) @ ''/raw/transaction/'' @
        txid @ ''?key='' @ string_or_undefined (net_blockchair_key N)))"

section \<open>Cards of the bitcore family\<close>

text \<open>The record of the methods of a card; subclasses update fields of their parent.\<close>

record 'tx card =
  crd_chain :: string
  crd_currency :: string
  crd_seed :: string
  crd_builder :: "'tx builder"
  crd_listUnspent :: "wallet_utxo list prog"
  crd_getBalance :: "num prog"
  crd_addInputs :: "'tx \<Rightarrow> wallet_utxo list \<Rightarrow> 'tx prog"

definition card_getAddress :: "'tx card \<Rightarrow> string" where
  "card_getAddress crd = b_key_address (crd_builder crd) (crd_seed crd)"

definition Bitcore_listUnspent :: "wallet_net \<Rightarrow> string \<Rightarrow> string \<Rightarrow> wallet_utxo list prog" where
  "Bitcore_listUnspent N chain address =
     bnd (ask (\<lambda>n. net_bitcoreio N n (''https://api.bitcore.io/api/'' @ chain @ ''/mainnet/address/'' @
            strip_scheme address @ ''/?unspent=true''))) (\<lambda>utxos.
     ret (map (\<lambda>u. \<lparr>wu_script = Some (ScriptHex (bio_script u)), wu_value = bio_value u, wu_txid = bio_mintTxid u,
            wu_vout = bio_mintIndex u\<rparr>) utxos))"

text \<open>Numbers are added as doubles.\<close>

definition sum_values :: "ext \<Rightarrow> num list \<Rightarrow> num" where
  "sum_values E = foldl (\<lambda>sum v. bn_toNumber (bn E) (sum + v)) 0"

definition Bitcore_getBalance :: "ext \<Rightarrow> wallet_utxo list prog \<Rightarrow> num prog" where
  "Bitcore_getBalance E listUnspent = bnd listUnspent (\<lambda>utxos. ret (sum_values E (map wu_value utxos)))"

definition has_script :: "wallet_utxo \<Rightarrow> bool" where
  "has_script u = (case wu_script u of None \<Rightarrow> False | Some (ScriptHex s) \<Rightarrow> s \<noteq> [] | Some (ScriptVout _ _) \<Rightarrow> True)"

definition with_script :: "wallet_net \<Rightarrow> string \<Rightarrow> wallet_utxo \<Rightarrow> wallet_utxo prog" where
  "with_script N chain u =
     (if has_script u then ret u
      else bnd (getRawTx N chain (wu_txid u)) (\<lambda>vout.
           if wu_vout u < length vout then ret (u\<lparr>wu_script := Some (ScriptHex (vout ! wu_vout u))\<rparr>)
           else throw JsTypeError))"

definition Bitcore_addInputs :: "wallet_net \<Rightarrow> string \<Rightarrow> 'tx builder \<Rightarrow> 'tx \<Rightarrow> wallet_utxo list \<Rightarrow> 'tx prog" where
  "Bitcore_addInputs N chain B tx utxos =
     bnd (map_io (with_script N chain) utxos) (\<lambda>unspent.
     lift_result (b_from B (map (\<lambda>u. \<lparr>in_txId = wu_txid u, in_outputIndex = wu_vout u, in_satoshis = wu_value u,
       in_scriptPubKey = wu_script u, in_address = None\<rparr>) unspent) tx))"

text \<open>One turn of the loop over the outputs, and \<open>buildSignedPayment\<close>.\<close>

definition pay_one :: "'tx builder \<Rightarrow> num \<times> string option \<Rightarrow> 'tx \<Rightarrow> js_error + 'tx" where
  "pay_one B out tx = (case b_script B (snd out) of Inl e \<Rightarrow> Inl e | Inr script \<Rightarrow> b_addOutput B (fst out) script tx)"

fun pay_all :: "'tx builder \<Rightarrow> (num \<times> string option) list \<Rightarrow> 'tx \<Rightarrow> js_error + 'tx" where
  "pay_all B [] tx = Inr tx"
| "pay_all B (out # outs) tx = (case pay_one B out tx of Inl e \<Rightarrow> Inl e | Inr tx \<Rightarrow> pay_all B outs tx)"

definition bn_total :: "ext \<Rightarrow> num list \<Rightarrow> num" where
  "bn_total E vs = bn_toNumber (bn E) (foldl (bn_plus (bn E)) 0 vs)"

definition first_outputs :: "card_instruction list \<Rightarrow> js_error + (num \<times> string option) list" where
  "first_outputs instructions =
     (case instructions of Outputs i # _ \<Rightarrow> Inr (ins_outputs i) | _ \<Rightarrow> Inl JsTypeError)"

definition Bitcore_buildSignedPayment :: "ext \<Rightarrow> 'tx card \<Rightarrow> card_instruction list \<Rightarrow> transaction prog" where
  "Bitcore_buildSignedPayment E crd instructions =
     (let B = crd_builder crd in
      bnd (lift_result (first_outputs instructions)) (\<lambda>outputs.
      bnd (lift_result (pay_all B outputs (b_Transaction B))) (\<lambda>tx.
      bnd (crd_listUnspent crd) (\<lambda>utxos.
      bnd (crd_addInputs crd tx utxos) (\<lambda>tx.
      bnd (guard_io (\<not> bn_total E (map wu_value utxos) < bn_total E (map fst outputs))
             (JsError ''Insufficient funds to pay invoice'')) (\<lambda>_.
      bnd (lift_result (b_change B (card_getAddress crd) tx)) (\<lambda>tx.
      bnd (lift_result (b_sign B (crd_seed crd) tx)) (\<lambda>tx.
      bnd (lift_result (b_serialize B tx)) (\<lambda>txhex.
      ret \<lparr>tx_hex = txhex, tx_id = Some (b_hash B tx), tx_key = None\<rparr>)))))))))"

definition BitcoreCard :: "ext \<Rightarrow> wallet_net \<Rightarrow> string \<Rightarrow> 'tx builder \<Rightarrow> string \<Rightarrow> 'tx card" where
  "BitcoreCard E N chain B seed =
     (let unspent = Bitcore_listUnspent N chain (b_key_address B seed) in
      \<lparr>crd_chain = chain, crd_currency = chain, crd_seed = seed, crd_builder = B, crd_listUnspent = unspent,
       crd_getBalance = Bitcore_getBalance E unspent, crd_addInputs = Bitcore_addInputs N chain B\<rparr>)"

definition BCH_Card :: "ext \<Rightarrow> wallet_net \<Rightarrow> 'tx builder \<Rightarrow> string \<Rightarrow> 'tx card" where
  "BCH_Card E N = BitcoreCard E N ''BCH''"

definition BTC_Card :: "ext \<Rightarrow> wallet_net \<Rightarrow> 'tx builder \<Rightarrow> string \<Rightarrow> 'tx card" where
  "BTC_Card E N = BitcoreCard E N ''BTC''"

definition DashCard :: "ext \<Rightarrow> wallet_net \<Rightarrow> 'tx builder \<Rightarrow> string \<Rightarrow> 'tx card" where
  "DashCard E N = BitcoreCard E N ''DASH''"

text \<open>
  The inputs of DOGE carry the address of their script; those of LTC none (\<open>output.address\<close> is
  \<open>undefined\<close>), and neither looks a missing script up.
\<close>

definition Doge_addInputs :: "'tx builder \<Rightarrow> 'tx \<Rightarrow> wallet_utxo list \<Rightarrow> 'tx prog" where
  "Doge_addInputs B tx utxos =
     bnd (map_io (\<lambda>u. bnd (lift_result (b_script_address B (wu_script u))) (\<lambda>a.
            ret \<lparr>in_txId = wu_txid u, in_outputIndex = wu_vout u, in_satoshis = wu_value u,
              in_scriptPubKey = wu_script u, in_address = Some a\<rparr>)) utxos) (\<lambda>inputs.
     lift_result (b_from B inputs tx))"

definition DogeCard :: "ext \<Rightarrow> wallet_net \<Rightarrow> 'tx builder \<Rightarrow> string \<Rightarrow> 'tx card" where
  "DogeCard E N B seed = (BitcoreCard E N ''DOGE'' B seed)\<lparr>crd_addInputs := Doge_addInputs B\<rparr>"

definition Ltc_addInputs :: "'tx builder \<Rightarrow> 'tx \<Rightarrow> wallet_utxo list \<Rightarrow> 'tx prog" where
  "Ltc_addInputs B tx utxos =
     lift_result (b_from B (map (\<lambda>u. \<lparr>in_txId = wu_txid u, in_outputIndex = wu_vout u, in_satoshis = wu_value u,
       in_scriptPubKey = wu_script u, in_address = None\<rparr>) utxos) tx)"

definition LTC_Card :: "ext \<Rightarrow> wallet_net \<Rightarrow> 'tx builder \<Rightarrow> string \<Rightarrow> 'tx card" where
  "LTC_Card E N B seed = (BitcoreCard E N ''LTC'' B seed)\<lparr>crd_addInputs := Ltc_addInputs B\<rparr>"

text \<open>
  BSV asks whatsonchain, and takes the whole output of the transaction for its script.
\<close>

definition BSV_listUnspent :: "wallet_net \<Rightarrow> string \<Rightarrow> wallet_utxo list prog" where
  "BSV_listUnspent N address =
     bnd (ask (\<lambda>n. net_woc_unspent N n (''https://api.whatsonchain.com/v1/bsv/main/address/'' @ address @ ''/unspent''))) (\<lambda>data.
     map_io (\<lambda>unspent.
       bnd (ask (\<lambda>n. net_woc_tx N n (''https://api.whatsonchain.com/v1/bsv/main/tx/hash/'' @ woc_tx_hash unspent))) (\<lambda>vout.
       ret \<lparr>wu_script = (if woc_tx_pos unspent < length vout
              then Some (case vout ! woc_tx_pos unspent of (v, s) \<Rightarrow> ScriptVout v s) else None),
         wu_value = woc_value unspent, wu_txid = woc_tx_hash unspent, wu_vout = woc_tx_pos unspent\<rparr>)) data)"

definition BSV_getBalance :: "ext \<Rightarrow> wallet_net \<Rightarrow> string \<Rightarrow> num prog" where
  "BSV_getBalance E N address =
     bnd (ask (\<lambda>n. net_woc_balance N n (''https://api.whatsonchain.com/v1/bsv/main/address/'' @ address @ ''/balance''))) (\<lambda>(confirmed, unconfirmed).
     ret (bn_toNumber (bn E) (confirmed + unconfirmed)))"

definition BSV_Card :: "ext \<Rightarrow> wallet_net \<Rightarrow> 'tx builder \<Rightarrow> string \<Rightarrow> 'tx card" where
  "BSV_Card E N B seed = (BitcoreCard E N ''BSV'' B seed)\<lparr>
     crd_getBalance := BSV_getBalance E N (b_key_address B seed),
     crd_listUnspent := BSV_listUnspent N (b_key_address B seed)\<rparr>"

text \<open>The card of Monero works on Dash, and hands out an empty transaction at the end.\<close>

definition XMR_buildSignedPayment :: "ext \<Rightarrow> wallet_net \<Rightarrow> 'tx builder \<Rightarrow> string \<Rightarrow> card_instruction list \<Rightarrow> transaction prog" where
  "XMR_buildSignedPayment E N B address instructions =
     (case instructions of
        [] \<Rightarrow> throw JsTypeError
      | _ \<Rightarrow>
          bnd (ask (\<lambda>n. net_insight N n (''undefined/addr/'' @ address @ ''/utxo''))) (\<lambda>unspent.
          bnd (lift_result (b_from B (map (\<lambda>u. \<lparr>in_txId = wu_txid u, in_outputIndex = wu_vout u,
                 in_satoshis = wu_value u, in_scriptPubKey = wu_script u, in_address = None\<rparr>) unspent) (b_Transaction B))) (\<lambda>tx.
          bnd (lift_result (first_outputs instructions)) (\<lambda>outputs.
          bnd (lift_result (pay_all B outputs tx)) (\<lambda>tx.
          bnd (guard_io (\<not> bn_total E (map wu_value unspent) < sum_values E (map fst outputs))
                 (JsError ''Insufficient DASH funds to pay invoice'')) (\<lambda>_.
          bnd (lift_result (b_change B address tx)) (\<lambda>_.
          ret \<lparr>tx_hex = [], tx_id = Some [], tx_key = None\<rparr>)))))))"

section \<open>Cards of the chains with an Ethereum machine\<close>

record evm_request =
  rq_gasPrice :: "nat option"
  rq_to :: "string option"
  rq_value :: "int option"
  rq_data :: "string option"
  rq_chainId :: nat

record populated_request = evm_request +
  rq_nonce :: nat
  rq_gasLimit :: nat

text \<open>
  \<open>ethers\<close>: the address of a phrase, the fees a provider reports, \<open>populateTransaction\<close>,
  \<open>signTransaction\<close>, \<open>Transaction.from\<close> (serialized text and hash), and a call of \<open>transfer\<close>.
\<close>

record ethers =
  ew_address :: "string \<Rightarrow> string"
  ew_balance :: "nat \<Rightarrow> string option \<Rightarrow> string \<Rightarrow> js_error + nat"
  ew_balanceOf :: "nat \<Rightarrow> string option \<Rightarrow> string \<Rightarrow> string \<Rightarrow> js_error + nat"
  ew_gasPrice :: "nat \<Rightarrow> string option \<Rightarrow> js_error + nat option"
  ew_populate :: "nat \<Rightarrow> string option \<Rightarrow> string \<Rightarrow> evm_request \<Rightarrow> js_error + populated_request"
  ew_sign :: "string \<Rightarrow> populated_request \<Rightarrow> js_error + string"
  ew_from :: "string \<Rightarrow> js_error + string \<times> string"
  ew_encode_transfer :: "string option \<Rightarrow> num option \<Rightarrow> js_error + string"

record evm_card =
  ec_currency :: string
  ec_chain :: string
  ec_decimals :: nat
  ec_token :: "string option"
  ec_chainID :: nat
  ec_providerURL :: "string option"
  ec_phrase :: string

definition evm_provider :: "string option \<Rightarrow> evm_card \<Rightarrow> string option" where
  "evm_provider app_env crd = (if app_env = Some ''browser'' then Some ''window.ethereum'' else ec_providerURL crd)"

definition EVM_getBalance :: "ethers \<Rightarrow> string option \<Rightarrow> evm_card \<Rightarrow> nat prog" where
  "EVM_getBalance W app_env crd =
     bnd (ask (\<lambda>n. ew_balance W n (evm_provider app_env crd) (ew_address W (ec_phrase crd)))) (\<lambda>balance.
     ret (double_of_nat balance))"

definition ERC20_getBalance :: "ethers \<Rightarrow> string option \<Rightarrow> evm_card \<Rightarrow> nat prog" where
  "ERC20_getBalance W app_env crd =
     ask (\<lambda>n. ew_balanceOf W n (evm_provider app_env crd) (string_or_undefined (ec_token crd)) (ew_address W (ec_phrase crd)))"

text \<open>\<open>BigInt(x)\<close> of a number that is no integer is an error.\<close>

definition js_BigInt :: "num \<Rightarrow> js_error + int" where
  "js_BigInt x = (if of_int \<lfloor>x\<rfloor> = x then Inr \<lfloor>x\<rfloor> else Inl (JsError ''RangeError''))"

text \<open>To whom and how much: a call as it says, else the first output, without a look at the others.\<close>

definition transfer_of :: "card_instruction list \<Rightarrow> js_error + string option \<times> num option" where
  "transfer_of instructions =
     (case instructions of
        [] \<Rightarrow> Inl JsTypeError
      | [Call data receiver amount] \<Rightarrow> Inr (if data = [] then (None, None) else (Some receiver, Some amount))
      | [Outputs i] \<Rightarrow> (case ins_outputs i of [] \<Rightarrow> Inl JsTypeError | (amount, a) # _ \<Rightarrow> Inr (a, Some amount))
      | _ \<Rightarrow> Inl (JsError ''ERC20 supports only one instruction''))"

definition value_of :: "num option \<Rightarrow> js_error + int option" where
  "value_of amount = (case amount of None \<Rightarrow> Inr None
     | Some x \<Rightarrow> (case js_BigInt x of Inl e \<Rightarrow> Inl e | Inr v \<Rightarrow> Inr (Some v)))"

definition sign_request :: "ethers \<Rightarrow> string option \<Rightarrow> evm_card \<Rightarrow> (nat option \<Rightarrow> evm_request) \<Rightarrow> transaction prog" where
  "sign_request W app_env crd request =
     (let provider = evm_provider app_env crd in
      bnd (ask (\<lambda>n. ew_gasPrice W n provider)) (\<lambda>gasPrice.
      bnd (ask (\<lambda>n. ew_populate W n provider (ec_phrase crd) (request gasPrice))) (\<lambda>populated.
      bnd (lift_result (ew_sign W (ec_phrase crd) populated)) (\<lambda>signedTxHex.
      bnd (lift_result (ew_from W signedTxHex)) (\<lambda>(serialized, h).
      ret \<lparr>tx_hex = serialized, tx_id = Some h, tx_key = None\<rparr>)))))"

definition EVM_buildSignedPayment :: "ethers \<Rightarrow> string option \<Rightarrow> evm_card \<Rightarrow> card_instruction list \<Rightarrow> transaction prog" where
  "EVM_buildSignedPayment W app_env crd instructions =
     bnd (lift_result (transfer_of instructions)) (\<lambda>(a, amount).
     bnd (lift_result (value_of amount)) (\<lambda>v.
     sign_request W app_env crd (\<lambda>gasPrice. \<lparr>rq_gasPrice = gasPrice, rq_to = a, rq_value = v, rq_data = None,
       rq_chainId = ec_chainID crd\<rparr>)))"

definition ERC20_buildSignedPayment :: "ethers \<Rightarrow> string option \<Rightarrow> evm_card \<Rightarrow> card_instruction list \<Rightarrow> transaction prog" where
  "ERC20_buildSignedPayment W app_env crd instructions =
     bnd (lift_result (transfer_of instructions)) (\<lambda>(a, amount).
     bnd (lift_result (ew_encode_transfer W a amount)) (\<lambda>data.
     sign_request W app_env crd (\<lambda>gasPrice. \<lparr>rq_gasPrice = gasPrice, rq_to = ec_token crd, rq_value = None,
       rq_data = Some data, rq_chainId = ec_chainID crd\<rparr>)))"

definition AVAX_Card :: "ext \<Rightarrow> string \<Rightarrow> evm_card" where
  "AVAX_Card E phrase = \<lparr>ec_currency = ''AVAX'', ec_chain = ''AVAX'', ec_decimals = 18, ec_token = None,
     ec_chainID = 43114, ec_providerURL = cfg E ''INFURA_AVALANCHE_URL'', ec_phrase = phrase\<rparr>"

definition ETH_Card :: "ext \<Rightarrow> string \<Rightarrow> evm_card" where
  "ETH_Card E phrase = \<lparr>ec_currency = ''ETH'', ec_chain = ''ETH'', ec_decimals = 18, ec_token = None,
     ec_chainID = 1, ec_providerURL = cfg E ''INFURA_ETHEREUM_URL'', ec_phrase = phrase\<rparr>"

definition MATIC_Card :: "ext \<Rightarrow> string \<Rightarrow> evm_card" where
  "MATIC_Card E phrase = \<lparr>ec_currency = ''MATIC'', ec_chain = ''MATIC'', ec_decimals = 18, ec_token = None,
     ec_chainID = 137, ec_providerURL = cfg E ''INFURA_POLYGON_URL'', ec_phrase = phrase\<rparr>"

definition USDC_AVAX_Card :: "ext \<Rightarrow> string \<Rightarrow> evm_card" where
  "USDC_AVAX_Card E phrase = \<lparr>ec_currency = ''USDC'', ec_chain = ''AVAX'', ec_decimals = 6,
     ec_token = Some ''0xb97ef9ef8734c71904d8002f8b6bc66dd9c48a6e'', ec_chainID = 43114,
     ec_providerURL = cfg E ''INFURA_AVALANCHE_URL'', ec_phrase = phrase\<rparr>"

definition USDC_ETH_Card :: "ext \<Rightarrow> string \<Rightarrow> evm_card" where
  "USDC_ETH_Card E phrase = \<lparr>ec_currency = ''USDC'', ec_chain = ''ETH'', ec_decimals = 6,
     ec_token = Some ''0xa0b86991c6218b36c1d19d4a2e9eb0ce3606eb48'', ec_chainID = 1,
     ec_providerURL = cfg E ''INFURA_ETHEREUM_URL'', ec_phrase = phrase\<rparr>"

definition USDC_MATIC_Card :: "ext \<Rightarrow> string \<Rightarrow> evm_card" where
  "USDC_MATIC_Card E phrase = \<lparr>ec_currency = ''USDC'', ec_chain = ''MATIC'', ec_decimals = 6,
     ec_token = Some ''0x2791bca1f2de4661ed88a30c99a7a9449aa84174'', ec_chainID = 137,
     ec_providerURL = cfg E ''INFURA_POLYGON_URL'', ec_phrase = phrase\<rparr>"

definition USDT_AVAX_Card :: "ext \<Rightarrow> string \<Rightarrow> evm_card" where
  "USDT_AVAX_Card E phrase = \<lparr>ec_currency = ''USDT'', ec_chain = ''AVAX'', ec_decimals = 6,
     ec_token = Some ''0x9702230a8ea53601f5cd2dc00fdbc13d4df4a8c7'', ec_chainID = 43114,
     ec_providerURL = cfg E ''INFURA_AVALANCHE_URL'', ec_phrase = phrase\<rparr>"

definition USDT_ETH_Card :: "ext \<Rightarrow> string \<Rightarrow> evm_card" where
  "USDT_ETH_Card E phrase = \<lparr>ec_currency = ''USDT'', ec_chain = ''ETH'', ec_decimals = 6,
     ec_token = Some ''0xdac17f958d2ee523a2206206994597c13d831ec7'', ec_chainID = 1,
     ec_providerURL = cfg E ''INFURA_ETHEREUM_URL'', ec_phrase = phrase\<rparr>"

definition USDT_MATIC_Card :: "ext \<Rightarrow> string \<Rightarrow> evm_card" where
  "USDT_MATIC_Card E phrase = \<lparr>ec_currency = ''USDT'', ec_chain = ''MATIC'', ec_decimals = 6,
     ec_token = Some ''0xc2132d05d31c914a87c6611c10748aeb04b58e8f'', ec_chainID = 137,
     ec_providerURL = cfg E ''INFURA_POLYGON_URL'', ec_phrase = phrase\<rparr>"

section \<open>The table of cards\<close>

definition cards :: "string list" where
  "cards = [''DASH'', ''BCH'', ''LTC'', ''BSV'', ''XMR'', ''BTC'', ''DOGE'', ''ETH'', ''MATIC'', ''AVAX'', ''USDC_MATIC'',
     ''USDC_ETH'', ''USDC_AVAX'', ''USDT_MATIC'', ''USDT_ETH'', ''USDT_AVAX'']"

definition getCard :: "string \<Rightarrow> string \<Rightarrow> string option" where
  "getCard chain currency =
     (let name = (if chain = currency then chain else currency @ ''_'' @ chain) in
      if name \<in> set cards then Some name else None)"

section \<open>What is relied on of the libraries\<close>

fun_cases pay_all_ConsE: "pay_all B (out # outs) tx = Inr tx'"

text \<open>
  \<open>paid\<close> are the outputs that were added; serializing puts them before the change, and
  the server's library (\<open>readt\<close>, \<open>addr\<close>) reads back what was written.
\<close>

locale bitcore_builder =
  fixes B :: "'tx builder"
    and paid :: "'tx \<Rightarrow> (string \<times> num) list"
    and readt :: "string \<Rightarrow> js_error + utxo_tx"
    and addr :: "string \<Rightarrow> js_error + string"
  assumes starts_empty: "paid (b_Transaction B) = []"
    and adds: "b_addOutput B v s tx = Inr tx' \<Longrightarrow> paid tx' = paid tx @ [(s, v)]"
    and from_keeps: "b_from B ins tx = Inr tx' \<Longrightarrow> paid tx' = paid tx"
    and change_keeps: "b_change B a tx = Inr tx' \<Longrightarrow> paid tx' = paid tx"
    and sign_keeps: "b_sign B k tx = Inr tx' \<Longrightarrow> paid tx' = paid tx"
    and serialized: "b_serialize B tx = Inr h \<Longrightarrow>
      \<exists>t change. readt h = Inr t \<and> utx_outputs t = paid tx @ change \<and> utx_hash t = b_hash B tx"
    and reads_back: "b_script B (Some a) = Inr s \<Longrightarrow> \<exists>a'. addr s = Inr a' \<and> strip_scheme a' = strip_scheme a"
    and needs_address: "b_script B None = Inr s \<Longrightarrow> False"
begin

lemma pay_all_paid:
  "pay_all B outs tx = Inr tx' \<Longrightarrow>
   \<exists>added. paid tx' = paid tx @ added \<and>
     list_all2 (\<lambda>(v, a) (s, v'). v' = v \<and> b_script B a = Inr s) outs added"
proof (induction outs arbitrary: tx)
  case (Cons out outs)
  obtain v a where out: "out = (v, a)" by (cases out)
  from Cons.prems obtain s tx1 where s: "b_script B a = Inr s" and one: "b_addOutput B v s tx = Inr tx1"
    and more: "pay_all B outs tx1 = Inr tx'"
    unfolding out by (elim pay_all_ConsE) (auto simp: pay_one_def split: sum.splits)
  from Cons.IH [OF more] obtain added where "paid tx' = paid tx1 @ added"
    and "list_all2 (\<lambda>(v, a) (s, v'). v' = v \<and> b_script B a = Inr s) outs added" by blast
  with s adds [OF one] show ?case by (intro exI [of _ "(s, v) # added"]) (simp add: out)
qed simp

text \<open>Every output that was asked for is in what was added, under a script of its address.\<close>

lemma pays_asked:
  assumes "pay_all B outs (b_Transaction B) = Inr tx" and "(v, a) \<in> set outs"
  shows "\<exists>s. (s, v) \<in> set (paid tx) \<and> b_script B a = Inr s"
proof -
  from pay_all_paid [OF assms(1)] obtain added where p: "paid tx = added"
    and l: "list_all2 (\<lambda>(v, a) (s, v'). v' = v \<and> b_script B a = Inr s) outs added"
    by (auto simp: starts_empty)
  from assms(2) obtain i where i: "i < length outs" "outs ! i = (v, a)" by (auto simp: in_set_conv_nth)
  with l have "i < length added" and "case added ! i of (s, v') \<Rightarrow> v' = v \<and> b_script B a = Inr s"
    by (auto simp: list_all2_conv_all_nth split: prod.splits)
  then show ?thesis unfolding p by (metis (mono_tags, lifting) case_prod_conv nth_mem surj_pair)
qed

end

definition keeps_paid :: "('tx \<Rightarrow> (string \<times> num) list) \<Rightarrow> 'tx card \<Rightarrow> bool" where
  "keeps_paid paid crd \<longleftrightarrow>
     (\<forall>tx us w tx' w'. crd_addInputs crd tx us w = (Inr tx', w') \<longrightarrow> paid tx' = paid tx)"

lemma keeps_paidD: "keeps_paid paid crd \<Longrightarrow> crd_addInputs crd tx us w = (Inr tx', w') \<Longrightarrow> paid tx' = paid tx"
  unfolding keeps_paid_def by blast

context bitcore_builder
begin

lemma cards_keep_paid:
  "crd \<in> {BCH_Card E N B seed, BSV_Card E N B seed, DashCard E N B seed, LTC_Card E N B seed, DogeCard E N B seed, BTC_Card E N B seed}
   \<Longrightarrow> keeps_paid paid crd"
  by (auto simp: keeps_paid_def BCH_Card_def BSV_Card_def DashCard_def LTC_Card_def DogeCard_def BTC_Card_def BitcoreCard_def
      Bitcore_addInputs_def Ltc_addInputs_def Doge_addInputs_def io_simps Let_def
      dest: from_keeps split: prod.splits sum.splits)

lemma built_pays:
  assumes run: "Bitcore_buildSignedPayment E crd [Outputs i] w = (Inr t, w')"
    and B: "crd_builder crd = B" and keeps: "keeps_paid paid crd"
  shows "\<exists>tx. readt (tx_hex t) = Inr tx \<and> tx_id t = Some (utx_hash tx) \<and>
    (\<forall>(v, a) \<in> set (ins_outputs i). \<exists>s. (s, v) \<in> set (utx_outputs tx) \<and> b_script B a = Inr s)"
proof -
  from run obtain tx0 utxos tx1 tx2 tx3 v1 v2 h where built: "pay_all B (ins_outputs i) (b_Transaction B) = Inr tx0"
    and ins: "crd_addInputs crd tx0 utxos v1 = (Inr tx1, v2)"
    and tail: "b_change B (card_getAddress crd) tx1 = Inr tx2" "b_sign B (crd_seed crd) tx2 = Inr tx3"
      "b_serialize B tx3 = Inr h"
    and t: "t = \<lparr>tx_hex = h, tx_id = Some (b_hash B tx3), tx_key = None\<rparr>"
    unfolding Bitcore_buildSignedPayment_def B
    by (auto simp: Let_def io_simps first_outputs_def guard_io_def split: sum.splits prod.splits if_splits)
  have "paid tx3 = paid tx0"
    using keeps_paidD [OF keeps ins] sign_keeps [OF tail(2)] change_keeps [OF tail(1)] by simp
  moreover obtain tx change where "readt h = Inr tx" "utx_outputs tx = paid tx3 @ change" "utx_hash tx = b_hash B tx3"
    using serialized [OF tail(3)] by blast
  ultimately show ?thesis using pays_asked [OF built] by (auto simp: t)
qed

end

text \<open>
  A signed request reads back as what was asked for: receiver (its letters may change case), value and data. A
  call of \<open>transfer\<close> carries address and amount where the server looks for them.
\<close>

locale ethers_signer =
  fixes W :: ethers
    and readt :: "string \<Rightarrow> js_error + evm_tx"
    and dec :: "string \<Rightarrow> nat option"
  assumes populates: "ew_populate W n p k rq = Inr q \<Longrightarrow> evm_request.truncate q = rq"
    and signs: "ew_sign W k q = Inr h \<Longrightarrow> \<exists>tx. readt h = Inr tx \<and>
      map_option to_lower (etx_to tx) = map_option to_lower (rq_to q) \<and>
      int (etx_value tx) = (case rq_value q of None \<Rightarrow> 0 | Some v \<Rightarrow> v) \<and>
      (\<forall>d. rq_data q = Some d \<longrightarrow> etx_data tx = d)"
    and reads: "ew_sign W k q = Inr h \<Longrightarrow> ew_from W h = Inr (s, x) \<Longrightarrow> s = h"
    and encodes: "ew_encode_transfer W (Some a) (Some amount) = Inr d \<Longrightarrow>
      is_transfer d \<and> to_lower (transfer_address d) = to_lower a \<and> (\<exists>n. amount = of_nat n \<and> dec (drop 74 d) = Some n)"
begin

lemma request_signed:
  assumes "sign_request W app_env crd request w = (Inr t, w')"
  shows "\<exists>g tx. readt (tx_hex t) = Inr tx \<and>
    map_option to_lower (etx_to tx) = map_option to_lower (rq_to (request g)) \<and>
    int (etx_value tx) = (case rq_value (request g) of None \<Rightarrow> 0 | Some v \<Rightarrow> v) \<and>
    (\<forall>d. rq_data (request g) = Some d \<longrightarrow> etx_data tx = d)"
proof -
  from assms obtain g n p q h s x where pop: "ew_populate W n p (ec_phrase crd) (request g) = Inr q"
    and sign: "ew_sign W (ec_phrase crd) q = Inr h" and "ew_from W h = Inr (s, x)" and "tx_hex t = s"
    by (auto simp: sign_request_def ask_run io_simps Let_def split: sum.splits prod.splits)
  with reads [OF sign] have "tx_hex t = h" by simp
  moreover have "rq_to q = rq_to (request g)" "rq_value q = rq_value (request g)" "rq_data q = rq_data (request g)"
    by (simp_all add: populates [OF pop, symmetric] evm_request.truncate_def)
  ultimately show ?thesis using signs [OF sign] by auto
qed

end

section \<open>A builder that writes what it reads\<close>

text \<open>
  A library of the family, reduced to what the cards use: it signs nothing but asks for a key, takes addresses
  for scripts, pays what is left to the change address and serializes in unary.
\<close>

record plain_tx =
  pt_outputs :: "(string \<times> num) list"
  pt_inputs :: "num list"
  pt_change :: "string option"
  pt_signed :: bool

fun encode_outputs :: "(string \<times> nat) list \<Rightarrow> string" where
  "encode_outputs [] = []"
| "encode_outputs ((s, n) # os) =
     concat (map (\<lambda>c. [CHR ''+'', c]) s) @ replicate n (CHR ''1'') @ CHR '';'' # encode_outputs os"

fun read_outputs :: "string \<Rightarrow> nat \<Rightarrow> string \<Rightarrow> (string \<times> nat) list option" where
  "read_outputs s n [] = (if s = [] \<and> n = 0 then Some [] else None)"
| "read_outputs s n (c # r) =
     (if c = CHR ''+'' then (case r of [] \<Rightarrow> None | d # r' \<Rightarrow> read_outputs (s @ [d]) n r')
      else if c = CHR ''1'' then read_outputs s (Suc n) r
      else if c = CHR '';'' then map_option (Cons (s, n)) (read_outputs [] 0 r)
      else None)"

definition whole_amount :: "num \<Rightarrow> bool" where
  "whole_amount v \<longleftrightarrow> of_nat (nat \<lfloor>v\<rfloor>) = v"

definition all_outputs :: "plain_tx \<Rightarrow> (string \<times> num) list" where
  "all_outputs tx =
     (let left = sum_list (pt_inputs tx) - sum_list (map snd (pt_outputs tx)) in
      pt_outputs tx @ (case pt_change tx of Some a \<Rightarrow> if 0 < left then [(a, left)] else [] | None \<Rightarrow> []))"

definition encoded :: "plain_tx \<Rightarrow> string" where
  "encoded tx = encode_outputs (map (\<lambda>(s, v). (s, nat \<lfloor>v\<rfloor>)) (all_outputs tx))"

definition plain_builder :: "plain_tx builder" where
  "plain_builder = \<lparr>
     b_Transaction = \<lparr>pt_outputs = [], pt_inputs = [], pt_change = None, pt_signed = False\<rparr>,
     b_script = (\<lambda>a. case a of None \<Rightarrow> Inl JsTypeError | Some a \<Rightarrow> Inr a),
     b_addOutput = (\<lambda>v s tx. Inr (tx\<lparr>pt_outputs := pt_outputs tx @ [(s, v)]\<rparr>)),
     b_from = (\<lambda>ins tx. Inr (tx\<lparr>pt_inputs := pt_inputs tx @ map in_satoshis ins\<rparr>)),
     b_change = (\<lambda>a tx. Inr (tx\<lparr>pt_change := Some a\<rparr>)),
     b_sign = (\<lambda>k tx. Inr (tx\<lparr>pt_signed := True\<rparr>)),
     b_serialize = (\<lambda>tx. if pt_signed tx \<and> list_all (\<lambda>(s, v). whole_amount v) (all_outputs tx) then Inr (encoded tx)
       else Inl (JsError ''Invalid transaction'')),
     b_hash = encoded,
     b_script_address = (\<lambda>s. case s of Some (ScriptHex a) \<Rightarrow> Inr a | _ \<Rightarrow> Inl JsTypeError),
     b_key_address = (\<lambda>k. ''addr'' @ k)\<rparr>"

definition plain_read :: "string \<Rightarrow> js_error + utxo_tx" where
  "plain_read h = (case read_outputs [] 0 h of
     None \<Rightarrow> Inl (JsError ''Invalid transaction'')
   | Some os \<Rightarrow> Inr \<lparr>utx_hash = h, utx_outputs = map (\<lambda>(s, n). (s, of_nat n)) os, utx_inputs = []\<rparr>)"

lemma read_script: "read_outputs s n (concat (map (\<lambda>c. [CHR ''+'', c]) t) @ r) = read_outputs (s @ t) n r"
  by (induction t arbitrary: s) simp_all

lemma read_amount: "read_outputs s n (replicate k (CHR ''1'') @ r) = read_outputs s (n + k) r"
  by (induction k arbitrary: n) simp_all

lemma read_encoded: "read_outputs [] 0 (encode_outputs os) = Some os"
  by (induction os rule: encode_outputs.induct) (simp_all add: read_script read_amount)

lemma plain_reads:
  assumes "list_all (\<lambda>(s, v). whole_amount v) (all_outputs tx)"
  shows "plain_read (encoded tx) = Inr \<lparr>utx_hash = encoded tx, utx_outputs = all_outputs tx, utx_inputs = []\<rparr>"
proof -
  have "map (\<lambda>(s, n). (s, of_nat n :: num)) (map (\<lambda>(s, v). (s, nat \<lfloor>v\<rfloor>)) os) = os"
    if "list_all (\<lambda>(s, v). whole_amount v) os" for os :: "(string \<times> num) list"
    using that by (induction os) (auto simp: whole_amount_def)
  with assms show ?thesis by (simp add: plain_read_def encoded_def read_encoded)
qed

interpretation plain: bitcore_builder plain_builder pt_outputs plain_read Inr
proof
  fix tx h assume "b_serialize plain_builder tx = Inr h"
  then have whole_amount: "list_all (\<lambda>(s, v). whole_amount v) (all_outputs tx)" and h: "h = encoded tx"
    by (auto simp: plain_builder_def split: if_splits)
  show "\<exists>t change. plain_read h = Inr t \<and> utx_outputs t = pt_outputs tx @ change \<and> utx_hash t = b_hash plain_builder tx"
    unfolding h plain_reads [OF whole_amount] by (simp add: plain_builder_def all_outputs_def Let_def)
qed (auto simp: plain_builder_def)

text \<open>The same for the signer: sixty-four hexadecimal digits for the amount of a call.\<close>

definition hex_digit :: "nat \<Rightarrow> char" where
  "hex_digit n = char_of (n + (if n < 10 then 48 else 87))"

definition hex_digit_value :: "char \<Rightarrow> nat" where
  "hex_digit_value c = (if (of_char c :: nat) < 58 then of_char c - 48 else of_char c - 87)"

fun hex_word :: "nat \<Rightarrow> nat \<Rightarrow> string" where
  "hex_word 0 n = []"
| "hex_word (Suc k) n = hex_word k (n div 16) @ [hex_digit (n mod 16)]"

definition hex_value :: "string \<Rightarrow> nat option" where
  "hex_value s = Some (foldl (\<lambda>n c. 16 * n + hex_digit_value c) 0 s)"

lemma hex_digit_value_hex [simp]: "n < 16 \<Longrightarrow> hex_digit_value (hex_digit n) = n"
  by (auto simp: hex_digit_value_def hex_digit_def)

lemma length_hex_word [simp]: "length (hex_word k n) = k"
  by (induction k arbitrary: n) simp_all

lemma hex_value_word: "n < 16 ^ k \<Longrightarrow> hex_value (hex_word k n) = Some n"
proof (induction k arbitrary: n)
  case (Suc k)
  then have "n div 16 < 16 ^ k" by (simp add: less_mult_imp_div_less)
  from Suc.IH [OF this] show ?case by (simp add: hex_value_def)
qed (simp add: hex_value_def)

definition transfer_call :: "string \<Rightarrow> nat \<Rightarrow> string" where
  "transfer_call a n = ''0xa9059cbb'' @ replicate 24 (CHR ''0'') @ drop 2 a @ hex_word 64 n"

definition plain_signer :: ethers where
  "plain_signer = \<lparr>
     ew_address = (\<lambda>k. k), ew_balance = (\<lambda>_ _ _. Inr 0), ew_balanceOf = (\<lambda>_ _ _ _. Inr 0),
     ew_gasPrice = (\<lambda>_ _. Inr (Some 1)),
     ew_populate = (\<lambda>_ _ _ rq. Inr (evm_request.extend rq \<lparr>rq_nonce = 0, rq_gasLimit = 21000\<rparr>)),
     ew_sign = (\<lambda>_ q. case rq_to q of None \<Rightarrow> Inl JsTypeError
       | Some a \<Rightarrow> (let v = (case rq_value q of None \<Rightarrow> 0 | Some v \<Rightarrow> v) in
           if v < 0 then Inl JsTypeError
           else Inr (encode_outputs [(a, nat v), (case rq_data q of None \<Rightarrow> [] | Some d \<Rightarrow> d, 0)]))),
     ew_from = (\<lambda>h. Inr (h, h)),
     ew_encode_transfer = (\<lambda>a x. case (a, x) of
         (Some a, Some x) \<Rightarrow> if length a = 42 \<and> take 2 a = ''0x'' \<and> whole_amount x \<and> nat \<lfloor>x\<rfloor> < 16 ^ 64
           then Inr (transfer_call a (nat \<lfloor>x\<rfloor>)) else Inl JsTypeError
       | _ \<Rightarrow> Inl JsTypeError)\<rparr>"

definition plain_evm_read :: "string \<Rightarrow> js_error + evm_tx" where
  "plain_evm_read h = (case read_outputs [] 0 h of
     Some [(a, v), (d, _)] \<Rightarrow> Inr \<lparr>etx_to = Some a, etx_value = v, etx_data = d, etx_hash = Some h\<rparr>
   | _ \<Rightarrow> Inl JsTypeError)"

lemma transfer_call_reads:
  assumes "length a = 42" and "take 2 a = ''0x''"
  shows "is_transfer (transfer_call a n)" and "transfer_address (transfer_call a n) = a"
    and "drop 74 (transfer_call a n) = hex_word 64 n"
proof -
  have "a = ''0x'' @ drop 2 a" by (metis append_take_drop_id assms(2))
  then show "transfer_address (transfer_call a n) = a"
    using assms(1) by (simp add: transfer_address_def transfer_call_def js_slice_def)
qed (use assms(1) in \<open>simp_all add: is_transfer_def transfer_call_def js_slice_def\<close>)

interpretation plain_evm: ethers_signer plain_signer plain_evm_read hex_value
proof
  fix n p k rq q assume "ew_populate plain_signer n p k rq = Inr q"
  then show "evm_request.truncate q = rq"
    by (auto simp: plain_signer_def evm_request.truncate_def evm_request.extend_def)
next
  fix k q h assume "ew_sign plain_signer k q = Inr h"
  then show "\<exists>tx. plain_evm_read h = Inr tx \<and>
      map_option to_lower (etx_to tx) = map_option to_lower (rq_to q) \<and>
      int (etx_value tx) = (case rq_value q of None \<Rightarrow> 0 | Some v \<Rightarrow> v) \<and>
      (\<forall>d. rq_data q = Some d \<longrightarrow> etx_data tx = d)"
    by (auto simp: plain_signer_def plain_evm_read_def read_encoded Let_def
        simp del: encode_outputs.simps split: option.splits if_splits)
next
  fix a x d assume "ew_encode_transfer plain_signer (Some a) (Some x) = Inr d"
  then show "is_transfer d \<and> to_lower (transfer_address d) = to_lower a \<and> (\<exists>n. x = of_nat n \<and> hex_value (drop 74 d) = Some n)"
    by (auto simp: plain_signer_def transfer_call_reads hex_value_word whole_amount_def split: if_splits)
qed (auto simp: plain_signer_def)

section \<open>What a card builds is accepted\<close>

text \<open>The instruction the server sends for the outputs of an option.\<close>

definition asked :: "num option \<Rightarrow> pay_output list \<Rightarrow> instruction" where
  "asked rate outs = \<lparr>ins_requiredFeeRate = rate, ins_outputs = map (\<lambda>out. (out_amount out, out_address out)) outs\<rparr>"

lemma target_stripped:
  assumes "out_script out = None" and "out_address out = Some a"
  shows "target_address addr out = Inr (Some (strip_scheme a))"
proof (cases "CHR '':'' \<in> set a")
  case True
  then have "1 < length (split_on (CHR '':'') a)"
    by (metis count_list_0_iff gr0I length_split_on One_nat_def Suc_less_eq)
  then have "after_colon a = Some (split_on (CHR '':'') a ! 1)"
    by (auto simp: after_colon_def split: list.splits)
  with assms True show ?thesis by (auto simp: target_address_def strip_scheme_def)
qed (use assms in \<open>simp add: target_address_def strip_scheme_def\<close>)

abbreviation utxo_cards :: "ext \<Rightarrow> wallet_net \<Rightarrow> 'tx builder \<Rightarrow> string \<Rightarrow> 'tx card set" where
  "utxo_cards E N B seed \<equiv>
     {BCH_Card E N B seed, BSV_Card E N B seed, DashCard E N B seed, LTC_Card E N B seed, DogeCard E N B seed}"

lemma utxo_card_fields:
  assumes "crd \<in> utxo_cards E N B seed"
  shows "crd_builder crd = B" and "crd_currency crd \<in> {''BCH'', ''BSV'', ''DASH'', ''LTC'', ''DOGE''}"
  using assms by (auto simp: BCH_Card_def BSV_Card_def DashCard_def LTC_Card_def DogeCard_def BitcoreCard_def Let_def)

lemma card_payment_pays:
  assumes lib: "bitcore_builder B paid (bc_tx bc) (bc_address bc)"
    and crd: "crd \<in> utxo_cards E N B seed"
    and script: "\<forall>out \<in> set outs. out_script out = None"
    and run: "Bitcore_buildSignedPayment E crd [Outputs (asked rate outs)] w = (Inr t, w')"
  obtains tx where "bc_tx bc (tx_hex t) = Inr tx" and "tx_id t = Some (utx_hash tx)"
    and "\<forall>out \<in> set outs. \<exists>a. target_address (bc_address bc) out = Inr (Some a) \<and>
      pays (stripped (bc_address bc)) tx a (out_amount out)"
proof -
  have keeps: "keeps_paid paid crd"
    by (rule bitcore_builder.cards_keep_paid [OF lib]) (use crd in blast)
  obtain tx where tx: "bc_tx bc (tx_hex t) = Inr tx" "tx_id t = Some (utx_hash tx)"
    and pays: "\<forall>(v, a) \<in> set (ins_outputs (asked rate outs)). \<exists>s. (s, v) \<in> set (utx_outputs tx) \<and> b_script B a = Inr s"
    using bitcore_builder.built_pays [OF lib run utxo_card_fields(1) [OF crd] keeps] by blast
  have "\<exists>a. target_address (bc_address bc) out = Inr (Some a) \<and> pays (stripped (bc_address bc)) tx a (out_amount out)"
    if out: "out \<in> set outs" for out
  proof -
    from pays out obtain s where s: "(s, out_amount out) \<in> set (utx_outputs tx)" "b_script B (out_address out) = Inr s"
      by (auto simp: asked_def)
    then obtain a where a: "out_address out = Some a"
      using bitcore_builder.needs_address [OF lib] by (cases "out_address out") auto
    with s bitcore_builder.reads_back [OF lib] obtain a' where "bc_address bc s = Inr a'" "strip_scheme a' = strip_scheme a"
      by (metis (no_types))
    with s(1) have "pays (stripped (bc_address bc)) tx (strip_scheme a) (out_amount out)"
      by (auto simp: pays_def stripped_def)
    with target_stripped [OF _ a] out script show ?thesis by blast
  qed
  with tx that show ?thesis by blast
qed

context prisma_client
begin

lemma request_asks:
  assumes "option_at r u k po" and "po_outputs po = Some outs" and "inv_uid invoice = sub_invoice_uid r"
    and "getPaymentRequest E P invoice (Some (sub_chain_or_currency r)) (Some (sub_currency r)) u = (Inr request, u')"
  shows "\<exists>rate. pi_instructions request = [asked rate outs]"
proof -
  have "api_first (api_payment_options P) (\<lambda>x. po_invoice_uid x = sub_invoice_uid r \<and>
      po_currency x = sub_currency r \<and> po_chain x = sub_chain_or_currency r) (db_payment_options u) = Some po"
    using tpo.first_only [OF assms(1)] by (simp add: option_for_def [abs_def])
  with assms(4) show ?thesis
    unfolding getPaymentRequest_def
    by (elim bnd_Inr_E) (auto simp: guard_io_def io_simps assms(2,3) prisma_payment_options_def asked_def split: if_splits)
qed

end

text \<open>The cards with an Ethereum machine, each with the \<open>buildSignedPayment\<close> of its class.\<close>

definition evm_cards :: "ext \<Rightarrow> string \<Rightarrow> evm_card set" where
  "evm_cards E phrase = {ETH_Card E phrase, AVAX_Card E phrase, MATIC_Card E phrase}"

definition erc20_cards :: "ext \<Rightarrow> string \<Rightarrow> evm_card set" where
  "erc20_cards E phrase =
     {USDC_AVAX_Card E phrase, USDC_ETH_Card E phrase, USDC_MATIC_Card E phrase,
      USDT_AVAX_Card E phrase, USDT_ETH_Card E phrase, USDT_MATIC_Card E phrase}"

lemmas evm_card_defs = ETH_Card_def AVAX_Card_def MATIC_Card_def USDC_AVAX_Card_def USDC_ETH_Card_def
  USDC_MATIC_Card_def USDT_AVAX_Card_def USDT_ETH_Card_def USDT_MATIC_Card_def

definition evm_build :: "ethers \<Rightarrow> string option \<Rightarrow> evm_card \<Rightarrow> card_instruction list \<Rightarrow> transaction prog" where
  "evm_build W app_env crd =
     (if ec_token crd = None then EVM_buildSignedPayment W app_env crd else ERC20_buildSignedPayment W app_env crd)"

lemma evm_card_verified:
  assumes signer: "ethers_signer W (ethers_tx E) (hex_to_dec E)"
    and crd: "crd \<in> evm_cards E phrase"
    and plugin: "find_plugin E (ec_currency crd) (ec_chain crd) = Inr plugin"
    and po: "po_outputs po = Some (out # outs)" "out_address out = Some a" "out_amount out = of_nat m"
      "double_of_nat m = m" "m < 10 ^ 21"
    and run: "EVM_buildSignedPayment W app_env crd [Outputs (asked rate (out # outs))] w = (Inr t, w')"
  shows "plg_verifyPayment plugin po t v = (Inr True, v)"
proof -
  have keys: "ec_currency crd \<in> {''ETH'', ''AVAX'', ''MATIC''}" and same: "ec_chain crd = ec_currency crd"
    using crd by (auto simp: evm_cards_def evm_card_defs)
  from run obtain w1 where signed: "sign_request W app_env crd (\<lambda>gasPrice. \<lparr>rq_gasPrice = gasPrice, rq_to = Some a, rq_value = Some (int m),
       rq_data = None, rq_chainId = ec_chainID crd\<rparr>) w1 = (Inr t, w')"
    by (auto simp: EVM_buildSignedPayment_def transfer_of_def asked_def po value_of_def js_BigInt_def io_simps split: if_splits)
  from ethers_signer.request_signed [OF signer signed] obtain tx where tx: "ethers_tx E (tx_hex t) = Inr tx"
    "map_option to_lower (etx_to tx) = Some (to_lower a)" "etx_value tx = m" by auto
  then have exact: "out_amount out = of_nat (js_parseInt (double_of_nat (etx_value tx)))"
    using po(3-5) by simp
  moreover from tx(2) have "lower_or_undefined (etx_to tx) = to_lower a" by (auto simp: lower_or_undefined_def)
  ultimately show ?thesis
    using tx(1) po(1,2) exact by (intro iffD2 [OF evm_verification [OF keys plugin [unfolded same]]]) auto
qed

lemma erc20_card_verified:
  assumes signer: "ethers_signer W (ethers_tx E) (hex_to_dec E)"
    and crd: "crd \<in> erc20_cards E phrase"
    and plugin: "find_plugin E (ec_currency crd) (ec_chain crd) = Inr plugin"
    and po: "po_outputs po = Some (out # outs)" "out_address out = Some a" "out_amount out = of_nat m"
      "double_of_nat m = m" "m < 10 ^ 21"
    and run: "ERC20_buildSignedPayment W app_env crd [Outputs (asked rate (out # outs))] w = (Inr t, w')"
  shows "plg_verifyPayment plugin po t v = (Inr True, v)"
proof -
  from crd plugin obtain token where token: "ec_token crd = Some token" "plg_verifyPayment plugin = ERC20_verifyPayment E token"
    by (auto simp: erc20_cards_def evm_card_defs erc20_plugins class_defs)
  from run obtain d w1 where d: "ew_encode_transfer W (Some a) (Some (out_amount out)) = Inr d"
    and signed: "sign_request W app_env crd (\<lambda>gasPrice. \<lparr>rq_gasPrice = gasPrice, rq_to = Some token, rq_value = None,
       rq_data = Some d, rq_chainId = ec_chainID crd\<rparr>) w1 = (Inr t, w')"
    by (auto simp: ERC20_buildSignedPayment_def transfer_of_def asked_def po token(1) io_simps split: sum.splits)
  from ethers_signer.encodes [OF signer d] obtain n where call: "is_transfer d" "to_lower (transfer_address d) = to_lower a"
    "out_amount out = of_nat n" "hex_to_dec E (drop 74 d) = Some n" by blast
  from ethers_signer.request_signed [OF signer signed] obtain tx where tx: "ethers_tx E (tx_hex t) = Inr tx"
    "map_option to_lower (etx_to tx) = Some (to_lower token)" "etx_data tx = d" by auto
  have "n = m" using po(3) call(3) by simp
  then have "js_parseInt n = n" "double_of_nat n = n" using po(4,5) by simp_all
  then have "ERC20_verify_decoded E token (Some out) t = Inr True"
    using tx call po(2) by (auto simp: ERC20_verify_decoded_def parseERC20Transfer_def transfer_amount_def expected_address_def
        int_matches_def string_or_undefined_def)
  then show ?thesis
    by (simp add: token(2) ERC20_verifyPayment_def first_output_def po(1) io_simps)
qed

text \<open>
  What such a card builds for the outputs the server asks for is verified by the plugin of its coin, in any
  state of the server.
\<close>

theorem card_payments_are_accepted:
  assumes "bitcore_builder B paid (bc_tx (plg_bitcore plugin)) (bc_address (plg_bitcore plugin))"
    and crd: "crd \<in> utxo_cards E N B seed"
    and plugin: "find_plugin E (crd_currency crd) (crd_currency crd) = Inr plugin"
    and po: "po_outputs po = Some outs" and "\<forall>out \<in> set outs. out_script out = None"
    and "Bitcore_buildSignedPayment E crd [Outputs (asked rate outs)] w = (Inr t, w')"
  shows "plg_verifyPayment plugin po t v = (Inr True, v)"
  by (rule card_payment_pays [OF assms(1,2,5,6)])
    (simp add: utxo_verify_is_base [OF utxo_card_fields(2) [OF crd] plugin] base_verification jsonV2_buildOutputs_def po)

text \<open>
  C7. The two sides agree, from the request to the settled invoice. A wallet asks for the payment request
  of an unpaid invoice in a coin of its card (BCH, BSV, Dash, Litecoin or Dogecoin; src/src/wallet/src/cards), the
  card builds and signs a transaction for the instructions it got, and submits it later, in any
  state in which the invoice and the option are still there: the server verifies it, broadcasts it,
  and records the payment and the paid invoice under the transaction id the card returned.
\<close>

theorem a_card_pays_the_invoice:
  assumes "bitcore_builder B paid (bc_tx (plg_bitcore plugin)) (bc_address (plg_bitcore plugin))"
    and "crd \<in> utxo_cards E N B seed" and "find_plugin E (crd_currency crd) (crd_currency crd) = Inr plugin"
    and "prisma_client P" and "sub_currency r = crd_currency crd" and "sub_chain_or_currency r = crd_currency crd"
    and "option_at r u k po" and "po_outputs po = Some outs" and "outs \<noteq> []" and "\<forall>out \<in> set outs. out_script out = None"
    and "inv_uid asked_invoice = sub_invoice_uid r"
    and "getPaymentRequest E P asked_invoice (Some (crd_currency crd)) (Some (crd_currency crd)) u = (Inr request, u')"
    and "Bitcore_buildSignedPayment E crd (map Outputs (pi_instructions request)) x = (Inr t, x')"
    and "sub_transactions r = [t]" and "sub_wallet r = None"
    and "invoice_at (sub_invoice_uid r) w i invoice" and "inv_id invoice = i" and "inv_status invoice = ''unpaid''"
    and "option_at r w k po" and "plg_broadcastTx plugin t w = (Inr res, v)"
    and "tx_id t = Some h" and "h \<noteq> []" and "hash_free h i w"
  shows "submitPayment E P r w = (Inr [tx_hex t], recorded po t h i invoice v)"
proof -
  obtain rate where "pi_instructions request = [asked rate outs]"
    using prisma_client.request_asks [OF assms(4,7,8,11), where E = E and request = request and u' = u'] assms(5,6,12) by auto
  with assms(13) have run: "Bitcore_buildSignedPayment E crd [Outputs (asked rate outs)] x = (Inr t, x')" by simp
  obtain tx where tx: "bc_tx (plg_bitcore plugin) (tx_hex t) = Inr tx"
    and pays: "\<forall>out \<in> set outs. \<exists>a. target_address (bc_address (plg_bitcore plugin)) out = Inr (Some a) \<and>
      pays (stripped (bc_address (plg_bitcore plugin))) tx a (out_amount out)"
    by (rule card_payment_pays [OF assms(1,2,10) run])
  have cur: "sub_currency r \<in> {''BCH'', ''BSV'', ''DASH'', ''LTC'', ''DOGE''}"
    using utxo_card_fields(2) [OF assms(2)] by (simp only: assms(5))
  have txid: "txid_of t tx = h" using assms(21,22) by (cases h) (simp_all add: txid_of_def)
  have outs: "jsonV2_buildOutputs E po = Inr outs" by (simp add: jsonV2_buildOutputs_def assms(8))
  have plugin: "find_plugin E (sub_currency r) (sub_currency r) = Inr plugin" using assms(3) by (simp only: assms(5))
  have "submitPayment E P r w = (Inr [tx_hex t], recorded po t (txid_of t tx) i invoice v)"
    using assms(5,6,23) by (intro utxo_accepted [OF assms(4,16-19) _ assms(14,15) cur plugin tx outs assms(9) pays assms(20)]) (simp_all add: txid)
  then show ?thesis by (simp only: txid)
qed

text \<open>
  C40. A card with an Ethereum machine, of a native coin or of a token (src/src/wallet/src/cards/_evm.ts,
  _erc20.ts), pays the first output alone; and the server accepts that as payment of the
  option, whatever other outputs the option has, for every whole amount a double holds below
  \<open>10 ^ 21\<close>, from where \<open>parseInt\<close> misreads it.
\<close>

theorem first_output_pays_the_option:
  assumes "ethers_signer W (ethers_tx E) (hex_to_dec E)"
    and "crd \<in> evm_cards E phrase \<union> erc20_cards E phrase"
    and "find_plugin E (ec_currency crd) (ec_chain crd) = Inr plugin"
    and "po_outputs po = Some (out # others)" and "out_address out = Some a"
    and "out_amount out = of_nat m" and "double_of_nat m = m" and "m < 10 ^ 21"
    and "evm_build W app_env crd [Outputs (asked rate (out # others))] w = (Inr t, w')"
  shows "plg_verifyPayment plugin po t v = (Inr True, v)"
proof (cases "crd \<in> evm_cards E phrase")
  case True
  then have "ec_token crd = None" by (auto simp: evm_cards_def evm_card_defs)
  with assms(9) show ?thesis by (intro evm_card_verified [OF assms(1) True assms(3-8)]) (simp add: evm_build_def)
next
  case False
  with assms(2) have token: "crd \<in> erc20_cards E phrase" by blast
  then have "ec_token crd \<noteq> None" by (auto simp: erc20_cards_def evm_card_defs)
  with assms(9) show ?thesis by (intro erc20_card_verified [OF assms(1) token assms(3-8)]) (simp add: evm_build_def)
qed

text \<open>The card of Monero never returns a transaction that pays.\<close>

theorem monero_card_pays_nothing:
  "fst (XMR_buildSignedPayment E N B address instructions w) = Inr t \<Longrightarrow> tx_hex t = [] \<and> tx_id t = Some []"
  by (auto simp: XMR_buildSignedPayment_def io_simps guard_io_def split: list.splits sum.splits prod.splits if_splits)

section \<open>Witnesses\<close>

definition wallet_ext :: ext where
  "wallet_ext = demo_ext\<lparr>
     bitcore_lib := (\<lambda>_. (bitcore_lib demo_ext [])\<lparr>bc_tx := plain_read, bc_address := Inr\<rparr>),
     ethers_tx := plain_evm_read, hex_to_dec := hex_value\<rparr>"

definition demo_net :: wallet_net where
  "demo_net = \<lparr>
     net_bitcoreio = (\<lambda>_ _. Inr [\<lparr>bio_mintIndex = 0, bio_mintTxid = ''tx0'', bio_script = ''script'', bio_value = 6000\<rparr>]),
     net_blockchair_raw = (\<lambda>_ _. Inl no_answer), net_woc_balance = (\<lambda>_ _. Inl no_answer),
     net_woc_unspent = (\<lambda>_ _. Inl no_answer), net_woc_tx = (\<lambda>_ _. Inl no_answer), net_insight = (\<lambda>_ _. Inl no_answer),
     net_blockchair_key = None\<rparr>"

definition demo_output :: pay_output where
  "demo_output = \<lparr>out_address = Some ''qaddr'', out_amount = 5000, out_script = None\<rparr>"

definition demo_other :: pay_output where
  "demo_other = \<lparr>out_address = Some ''fees'', out_amount = 70, out_script = None\<rparr>"

lemma demo_card_builds:
  "\<exists>t w' h. Bitcore_buildSignedPayment wallet_ext (BCH_Card wallet_ext demo_net plain_builder ''seed'')
     [Outputs (asked rate [demo_output])] demo_world = (Inr t, w') \<and> tx_id t = Some h \<and> h \<noteq> []"
  by (simp add: Bitcore_buildSignedPayment_def BCH_Card_def BitcoreCard_def Let_def io_simps first_outputs_def asked_def
      demo_output_def pay_one_def plain_builder_def Bitcore_listUnspent_def ask_run demo_net_def Bitcore_addInputs_def
      with_script_def has_script_def guard_io_def bn_total_def wallet_ext_def demo_ext_def exact_bn_def
      card_getAddress_def all_outputs_def whole_amount_def encoded_def)

lemma demo_wallet_library:
  "plg_bitcore (BCH wallet_ext) = (bitcore_lib demo_ext [])\<lparr>bc_tx := plain_read, bc_address := Inr\<rparr>"
  by (simp add: BCH_def class_defs wallet_ext_def)

lemma demo_wallet_sends:
  "plg_broadcastTx (BCH wallet_ext) t w = (Inr \<lparr>br_txid = tx_hex t, br_success = True\<rparr>,
     w\<lparr>ticks := Suc (ticks w), broadcasts := broadcasts w @ [(''BCH'', tx_hex t)]\<rparr>)"
  by (simp add: BCH_def class_defs broadcast_to_def wallet_ext_def demo_ext_def io_simps)

lemma demo_request:
  "\<exists>request u'. getPaymentRequest wallet_ext pg demo_invoice (Some ''BCH'') (Some ''BCH'') (offer_world ''BCH'') = (Inr request, u')"
  by (simp add: getPaymentRequest_def io_simps guard_io_def prisma_payment_options_def offer_world_def demo_worlds pg_eval
      demo_rows getRequiredFeeRate_def Let_def wallet_ext_def demo_ext_def)

theorem a_card_pays_the_invoice_witness:
  "\<exists>t. fst (submitPayment wallet_ext pg (demo_submission ''BCH'' [t]) (offer_world ''BCH'')) = Inr [tx_hex t]"
proof -
  let ?crd = "BCH_Card wallet_ext demo_net plain_builder ''seed''"
  let ?po = "demo_option\<lparr>po_currency := ''BCH'', po_chain := ''BCH''\<rparr>"
  have crd: "crd_currency ?crd = ''BCH''" by (simp add: BCH_Card_def BitcoreCard_def Let_def)
  have plugin: "find_plugin wallet_ext (crd_currency ?crd) (crd_currency ?crd) = Inr (BCH wallet_ext)"
    by (simp add: find_plugin_def plugin_key_def plugins_def crd)
  have outs: "po_outputs ?po = Some [demo_output]" by (simp add: demo_option_def demo_output_def)
  obtain request u' where request: "getPaymentRequest wallet_ext pg demo_invoice (Some (crd_currency ?crd)) (Some (crd_currency ?crd))
      (offer_world ''BCH'') = (Inr request, u')" unfolding crd using demo_request by blast
  have uid: "inv_uid demo_invoice = sub_invoice_uid (demo_submission ''BCH'' [])" by (simp add: demo_invoice_def)
  have "\<exists>rate. pi_instructions request = [asked rate [demo_output]]"
    using request by (intro prisma_client.request_asks [OF prisma_client_pg offer_facts(4) outs uid]) (simp add: crd)
  then obtain rate where "pi_instructions request = [asked rate [demo_output]]" ..
  then obtain t w' h where run: "Bitcore_buildSignedPayment wallet_ext ?crd (map Outputs (pi_instructions request)) demo_world = (Inr t, w')"
    and id: "tx_id t = Some h" "h \<noteq> []"
    using demo_card_builds [of rate] by auto
  have lib: "bitcore_builder plain_builder pt_outputs (bc_tx (plg_bitcore (BCH wallet_ext))) (bc_address (plg_bitcore (BCH wallet_ext)))"
    using plain.bitcore_builder_axioms by (simp add: demo_wallet_library)
  have r: "sub_currency (demo_submission ''BCH'' [t]) = crd_currency ?crd" "sub_chain_or_currency (demo_submission ''BCH'' [t]) = crd_currency ?crd"
    by (simp_all add: crd)
  have card: "?crd \<in> utxo_cards wallet_ext demo_net plain_builder ''seed''" by simp
  have "\<exists>v. submitPayment wallet_ext pg (demo_submission ''BCH'' [t]) (offer_world ''BCH'') = (Inr [tx_hex t], v)"
    by (rule exI, rule a_card_pays_the_invoice [OF lib card plugin prisma_client_pg r offer_facts(4) outs _ _ _ request run _ _
          offer_facts(1-4) demo_wallet_sends id offer_facts(5)])
      (simp_all add: demo_output_def demo_invoice_def)
  then show ?thesis by (intro exI [of _ t]) (elim exE, simp)
qed

theorem first_output_pays_the_option_witness:
  "\<exists>t. plg_verifyPayment (ETH wallet_ext) (demo_option\<lparr>po_outputs := Some [demo_output, demo_other]\<rparr>) t demo_world
     = (Inr True, demo_world)"
proof -
  obtain t w' where run: "evm_build plain_signer None (ETH_Card wallet_ext ''seed'')
      [Outputs (asked None [demo_output, demo_other])] demo_world = (Inr t, w')"
    by (simp add: evm_build_def ETH_Card_def EVM_buildSignedPayment_def transfer_of_def asked_def demo_output_def
        value_of_def js_BigInt_def io_simps sign_request_def ask_run plain_signer_def Let_def evm_request.extend_def)
  have "find_plugin wallet_ext (ec_currency (ETH_Card wallet_ext ''seed'')) (ec_chain (ETH_Card wallet_ext ''seed'')) = Inr (ETH wallet_ext)"
    by (simp add: find_plugin_def plugin_key_def plugins_def ETH_Card_def)
  moreover have "ethers_signer plain_signer (ethers_tx wallet_ext) (hex_to_dec wallet_ext)"
    using plain_evm.ethers_signer_axioms by (simp add: wallet_ext_def)
  ultimately show ?thesis
    using first_output_pays_the_option [where E = wallet_ext and phrase = "''seed''" and plugin = "ETH wallet_ext"
        and po = "demo_option\<lparr>po_outputs := Some [demo_output, demo_other]\<rparr>" and a = "''qaddr''" and v = demo_world
        and m = 5000, OF _ _ _ _ _ _ _ _ run]
    by (auto simp: evm_cards_def demo_output_def)
qed

end
