(* ===== verification/Services.thy ===== *)
theory Services
  imports Server
begin

text \<open>
  Clients of services over HTTP: \<open>publish\<close> of \<open>src/lib/blockchair.ts\<close>, \<open>src/lib/chain_so.ts\<close>,
  \<open>src/lib/nownodes.ts\<close>, \<open>src/plugins/dash/rpc.ts\<close>, \<open>broadcastTransaction\<close> of
  \<open>src/plugins/bsv/lib/taal.ts\<close>, \<open>src/lib/prices/kraken.ts\<close>, \<open>src/lib/prices/fixer.ts\<close>, and
  \<open>updateUSDPrices\<close> of \<open>src/lib/prices/index.ts\<close>. What a service answers to a request is a parameter, here
  as the part of the answer that is read; the theories of plugins and prices have the results of these functions
  as parameters (\<open>provider\<close>, \<open>price_feed\<close>, \<open>fiat_feed\<close>).
\<close>

section \<open>Requests\<close>

text \<open>
  \<open>axios\<close> throws unless the status is of the 200s; an error has the answer's field \<open>error\<close> when there
  was an answer.
\<close>

datatype refused = NoResponse string | Response "string option"

type_synonym 'a http = "nat \<Rightarrow> string \<Rightarrow> string list \<Rightarrow> refused + nat \<times> 'a"

definition request :: "'a http \<Rightarrow> string \<Rightarrow> string list \<Rightarrow> (refused + nat \<times> 'a) prog" where
  "request service url body = ask (\<lambda>n. Inr (service n url body))"

definition axios_error :: "refused \<Rightarrow> js_error" where
  "axios_error f = (case f of NoResponse m \<Rightarrow> JsError m | Response _ \<Rightarrow> JsError ''Request failed'')"

definition axios :: "'a http \<Rightarrow> string \<Rightarrow> string list \<Rightarrow> (nat \<times> 'a) prog" where
  "axios service url body = bnd (request service url body) (\<lambda>answer.
     case answer of Inl f \<Rightarrow> throw (axios_error f) | Inr a \<Rightarrow> ret a)"

section \<open>Broadcasting\<close>

record node_answer =
  na_result :: "string option"
  na_error :: "string option"

text \<open>\<open>BroadcastTxResult\<close>, with a transaction id that may be \<open>undefined\<close>.\<close>

record sent =
  sent_txhex :: string
  sent_txid :: "string option"
  sent_success :: bool

definition blockchair_publish :: "string option http \<Rightarrow> string \<Rightarrow> string \<Rightarrow> sent prog" where
  "blockchair_publish S coin txhex =
     bnd (axios S (''https://api.blockchair.com/'' @ coin @ ''/push/transaction'') [txhex]) (\<lambda>(_, transaction_hash).
     ret \<lparr>sent_txhex = txhex, sent_txid = transaction_hash, sent_success = True\<rparr>)"

text \<open>
  In \<open>send_tx\<close> an error without an answer has no \<open>response\<close> to read, and so has the error the function
  throws itself for another status than 200.
\<close>

definition send_tx :: "string option option http \<Rightarrow> string \<Rightarrow> string \<Rightarrow> string option option prog" where
  "send_tx S currency txhex =
     bnd (request S (''https://chain.so/api/v2/send_tx/'' @ currency) [txhex]) (\<lambda>answer.
     case answer of
       Inl (NoResponse _) \<Rightarrow> throw JsTypeError
     | Inl (Response e) \<Rightarrow> throw (JsError (case e of None \<Rightarrow> [] | Some m \<Rightarrow> m))
     | Inr (status, data) \<Rightarrow> if status \<noteq> 200 then throw JsTypeError else ret data)"

definition chain_so_broadcastTx :: "string option option http \<Rightarrow> string \<Rightarrow> string \<Rightarrow> sent prog" where
  "chain_so_broadcastTx S currency txhex =
     bnd (send_tx S currency txhex) (\<lambda>data.
     case data of None \<Rightarrow> throw JsTypeError
     | Some txid \<Rightarrow> ret \<lparr>sent_txhex = txhex, sent_txid = txid, sent_success = True\<rparr>)"

definition hosts :: "string \<rightharpoonup> string" where
  "hosts = [''BTC'' \<mapsto> ''btc.nownodes.io'']"

definition sendRawTransaction :: "ext \<Rightarrow> node_answer http \<Rightarrow> string \<Rightarrow> string \<Rightarrow> node_answer prog" where
  "sendRawTransaction E S currency txhex =
     (case hosts currency of
        None \<Rightarrow> throw (JsError (''Currency '' @ currency @ '' Not Yet Supported''))
      | Some host \<Rightarrow>
          bnd (axios S (''https://'' @ host) [string_or_undefined (cfg E ''NOWNODES_API_KEY''), ''sendrawtransaction'', txhex])
            (\<lambda>(_, data). ret data))"

definition nownodes_broadcastTx :: "ext \<Rightarrow> node_answer http \<Rightarrow> string \<Rightarrow> string \<Rightarrow> sent prog" where
  "nownodes_broadcastTx E S currency txhex =
     bnd (sendRawTransaction E S currency txhex) (\<lambda>result.
     ret \<lparr>sent_txhex = txhex, sent_txid = na_result result, sent_success = True\<rparr>)"

definition rpc_call :: "node_answer http \<Rightarrow> string \<Rightarrow> string \<Rightarrow> string list \<Rightarrow> string option \<Rightarrow> string option \<Rightarrow> string option prog" where
  "rpc_call S url method params username password =
     bnd (axios S url (method # params @ (if truthy username \<and> truthy password then [the username, the password] else [])))
       (\<lambda>(_, data). ret (na_result data))"

definition dash_broadcast :: "ext \<Rightarrow> node_answer http \<Rightarrow> string \<Rightarrow> string \<Rightarrow> sent prog" where
  "dash_broadcast E S key txhex =
     bnd (rpc_call S (cfg_string E key) ''sendrawtransaction'' [txhex] (cfg E ''DASH_RPC_USERNAME'') (cfg E ''DASH_RPC_PASSWORD''))
       (\<lambda>txid. ret \<lparr>sent_txhex = txhex, sent_txid = txid, sent_success = True\<rparr>)"

definition dash_broadcastTx :: "ext \<Rightarrow> node_answer http \<Rightarrow> string \<Rightarrow> sent prog" where
  "dash_broadcastTx E S = dash_broadcast E S ''DASH_RPC_URL''"

definition dash_broadcastTx2 :: "ext \<Rightarrow> node_answer http \<Rightarrow> string \<Rightarrow> sent prog" where
  "dash_broadcastTx2 E S = dash_broadcast E S ''DASH_RPC_URL_2''"

definition dash_broadcastTx3 :: "ext \<Rightarrow> node_answer http \<Rightarrow> string \<Rightarrow> sent prog" where
  "dash_broadcastTx3 E S = dash_broadcast E S ''DASH_RPC_URL_3''"

definition taal_broadcastTransaction :: "ext \<Rightarrow> string http \<Rightarrow> string \<Rightarrow> sent prog" where
  "taal_broadcastTransaction E S rawTx =
     bnd (axios S ''https://api.taal.com/api/v1/broadcast'' [cfg_string E ''TAAL_API_KEY'', rawTx]) (\<lambda>(status, data).
     if status > 300 then throw (JsError data)
     else ret \<lparr>sent_txhex = rawTx, sent_txid = Some data, sent_success = True\<rparr>)"

section \<open>Prices\<close>

text \<open>
  \<open>parseFloat\<close>: the longest prefix that is a decimal number, \<open>None\<close> for \<open>NaN\<close>. (The text \<open>Infinity\<close> is
  left out.)
\<close>

definition decimal_digit :: "char \<Rightarrow> bool" where
  "decimal_digit c \<longleftrightarrow> 48 \<le> (of_char c :: nat) \<and> (of_char c :: nat) \<le> 57"

definition digits_value :: "string \<Rightarrow> nat" where
  "digits_value = foldl (\<lambda>n c. 10 * n + (of_char c - 48)) 0"

definition signed :: "string \<Rightarrow> bool \<times> string" where
  "signed s = (case s of c # r \<Rightarrow> if c = CHR ''-'' then (True, r) else if c = CHR ''+'' then (False, r) else (False, s) | [] \<Rightarrow> (False, s))"

definition fraction_of :: "string \<Rightarrow> string \<times> string" where
  "fraction_of s = (case s of c # r \<Rightarrow> if c = CHR ''.'' then (takeWhile decimal_digit r, dropWhile decimal_digit r) else ([], s) | [] \<Rightarrow> ([], s))"

definition exponent_of :: "string \<Rightarrow> int" where
  "exponent_of s = (case s of c # r \<Rightarrow>
     if c = CHR ''e'' \<or> c = CHR ''E''
     then (let (neg, r) = signed r; n = int (digits_value (takeWhile decimal_digit r)) in if neg then - n else n)
     else 0 | [] \<Rightarrow> 0)"

definition scale10 :: "int \<Rightarrow> num \<Rightarrow> num" where
  "scale10 e x = (if 0 \<le> e then x * 10 ^ nat e else x / 10 ^ nat (- e))"

definition js_parseFloat :: "ext \<Rightarrow> string \<Rightarrow> num option" where
  "js_parseFloat E s =
     (let (neg, s) = signed (dropWhile (\<lambda>c. c \<in> {CHR '' '', CHR 0x09, CHR 0x0A, CHR 0x0D}) s);
          whole_part = takeWhile decimal_digit s; (fraction, rest) = fraction_of (dropWhile decimal_digit s) in
      if whole_part = [] \<and> fraction = [] then None
      else let x = bn_toNumber (bn E) (scale10 (exponent_of rest - int (length fraction)) (of_nat (digits_value (whole_part @ fraction))))
           in Some (if neg then - x else x))"

record ticker =
  tk_a :: "string list"
  tk_o :: string

text \<open>A quote whose numbers may be \<open>NaN\<close>.\<close>

record raw_quote =
  kq_base_currency :: string
  kq_currency :: string
  kq_price :: "num option"
  kq_source :: string
  kq_change :: "num option"

definition kraken_code :: "string \<Rightarrow> string" where
  "kraken_code currency = (if currency = ''DOGE'' then ''XDG'' else if currency = ''BTC'' then ''XBT'' else currency)"

definition kraken_name :: "string \<Rightarrow> string" where
  "kraken_name currency = (if currency = ''XDG'' then ''DOGE'' else if currency = ''XBT'' then ''BTC'' else currency)"

definition kraken_key :: "(string \<rightharpoonup> ticker) \<Rightarrow> string \<Rightarrow> string option" where
  "kraken_key result currency =
     find (\<lambda>k. result k \<noteq> None) [currency @ ''USD'', ''X'' @ currency @ ''ZUSD'', ''X'' @ currency @ ''USD'']"

text \<open>Division by a price of zero is left open; \<open>data.result\<close> may be missing.\<close>

definition kraken_quote :: "ext \<Rightarrow> (string \<rightharpoonup> ticker) option http \<Rightarrow> string \<Rightarrow> raw_quote prog" where
  "kraken_quote E S requested =
     (let currency = kraken_code requested; pair = currency @ ''USD'' in
      bnd (axios S (''https://api.kraken.com/0/public/Ticker?pair='' @ pair) []) (\<lambda>(_, data).
      case data of
        None \<Rightarrow> throw JsTypeError
      | Some result \<Rightarrow>
          (case kraken_key result currency of
             None \<Rightarrow> throw (JsError (''kraken pair '' @ pair @ '' not supported''))
           | Some k \<Rightarrow>
               let t = the (result k); price = (case tk_a t of [] \<Rightarrow> None | a # _ \<Rightarrow> js_parseFloat E a); ago = js_parseFloat E (tk_o t) in
               ret \<lparr>kq_base_currency = ''USD'', kq_currency = kraken_name currency, kq_price = price, kq_source = ''kraken'',
                 kq_change = (case (price, ago) of
                     (Some v, Some o') \<Rightarrow> Some (bn_toNumber (bn E) (bn_toNumber (bn E) (bn_toNumber (bn E) (v - o') / o') * 100))
                   | _ \<Rightarrow> None)\<rparr>)))"

text \<open>A base is any text; a rate of zero is left open.\<close>

definition fetchCurrencies :: "ext \<Rightarrow> (string \<times> num) list option http \<Rightarrow> string \<Rightarrow> price_quote list prog" where
  "fetchCurrencies E S base =
     bnd (axios S (''http://data.fixer.io/api/latest?access_key='' @ string_or_undefined (cfg E ''ANYPAY_FIXER_ACCESS_KEY'') @
            ''&base='' @ to_lower base) []) (\<lambda>(_, rates).
     ret (map (\<lambda>(currency, rate). \<lparr>pq_base_currency = to_upper (to_lower base), pq_currency = currency,
            pq_value = bn_toNumber (bn E) (bn_dividedBy (bn E) 1 rate), pq_source = Some ''data.fixer.io/api/latest'',
            pq_change_24hr = None\<rparr>) (case rates of None \<Rightarrow> [] | Some rs \<Rightarrow> rs)))"

text \<open>
  \<open>updateUSDPrices\<close>: the second pass returns nothing from its callback, so its calls are not awaited; they are
  the result here. It turns each quote around, and then takes the currency of the turned one for the base.
\<close>

definition to_dollar :: "price_quote \<Rightarrow> price_quote" where
  "to_dollar q = q\<lparr>pq_base_currency := pq_currency q, pq_currency := ''USD'',
     pq_source := Some (string_or_undefined (pq_source q))\<rparr>"

definition turned :: "ext \<Rightarrow> price_quote \<Rightarrow> price_quote" where
  "turned E q = q\<lparr>pq_base_currency := pq_currency q, pq_currency := pq_base_currency q,
     pq_value := bn_toNumber (bn E) (1 / pq_value q), pq_source := Some (string_or_undefined (pq_source q))\<rparr>"

definition updateUSDPrices :: "ext \<Rightarrow> prisma \<Rightarrow> (string \<times> num) list option http \<Rightarrow> price prog list prog" where
  "updateUSDPrices E P S =
     bnd (fetchCurrencies E S ''USD'') (\<lambda>prices.
     bnd (map_io (\<lambda>q. setPrice E P (to_dollar q)) prices) (\<lambda>_.
     ret (map (\<lambda>q. setPrice E P (to_dollar (turned E q))) prices)))"

section \<open>Facts\<close>

text \<open>
  A node that answers with an error and no transaction has sent nothing; the clients of nownodes and of the node
  of Dash do not look at the error: they report success, without a transaction id.
\<close>

theorem refused_broadcast_succeeds:
  assumes "\<And>n url body. S n url body = Inr (200, \<lparr>na_result = None, na_error = Some e\<rparr>)"
  shows "fst (nownodes_broadcastTx E S ''BTC'' txhex w) = Inr \<lparr>sent_txhex = txhex, sent_txid = None, sent_success = True\<rparr>"
    and "fst (dash_broadcastTx E S txhex w) = Inr \<lparr>sent_txhex = txhex, sent_txid = None, sent_success = True\<rparr>"
  by (simp_all add: nownodes_broadcastTx_def sendRawTransaction_def hosts_def axios_def request_def dash_broadcastTx_def
      dash_broadcast_def rpc_call_def assms io_simps)

text \<open>A quote of kraken is in dollars, for the currency that was asked for, whichever name kraken has for it.\<close>

lemma kraken_name_code: "currency \<notin> {''XDG'', ''XBT''} \<Longrightarrow> kraken_name (kraken_code currency) = currency"
  by (auto simp: kraken_name_def kraken_code_def)

theorem kraken_quotes_the_currency:
  assumes "currency \<notin> {''XDG'', ''XBT''}" and "kraken_quote E S currency w = (Inr q, w')"
  shows "kq_currency q = currency" and "kq_base_currency q = ''USD''"
  using assms(2) kraken_name_code [OF assms(1)]
  by (auto simp: kraken_quote_def Let_def io_simps split: option.splits sum.splits prod.splits)

text \<open>
  What \<open>updateUSDPrices\<close> leaves behind: each of the calls it does not await prices the dollar in dollars, at the
  rate of another currency.
\<close>

lemma upper_dollar: "to_upper (to_lower ''USD'') = ''USD''"
  by code_simp

theorem dollar_gets_a_price:
  assumes "prisma_client P" and "updateUSDPrices E P S w = (Inr pending, v)" and "p \<in> set pending"
    and "ids_ok prc_id (db_prices u)" and "one_price ''USD'' ''USD'' (db_prices u)"
  shows "\<exists>i d. price_at ''USD'' ''USD'' (snd (p u)) i d"
proof -
  have "\<forall>q \<in> set qs. pq_base_currency q = ''USD''"
    if "fetchCurrencies E S ''USD'' w = (Inr qs, w')" for qs w'
    using that by (auto simp: fetchCurrencies_def io_simps upper_dollar split: prod.splits sum.splits option.splits)
  then obtain q where p: "p = setPrice E P (to_dollar (turned E q))" and "pq_base_currency q = ''USD''"
    using assms(2,3) by (auto simp: updateUSDPrices_def io_simps split: prod.splits sum.splits)
  then have "pq_base_currency (to_dollar (turned E q)) = ''USD''" "pq_currency (to_dollar (turned E q)) = ''USD''"
    by (simp_all add: to_dollar_def turned_def)
  with setPrice_stores [OF assms(1,4), of "to_dollar (turned E q)" E] assms(5) show ?thesis
    by (auto simp: p) blast
qed

end
